(* ===== verification/Kvm_Prelude.thy ===== *)
theory Kvm_Prelude
  imports Main "HOL-Library.Word" "HOL-Library.Char_ord" "HOL-Library.List_Lexorder"
begin

text \<open>
  The prelude of the development: machine integer types and the checked and saturating
  operations the Rust code calls on them, results as sums, Rust strings as their UTF-8
  bytes with the blank test \<open>trim().is_empty()\<close>, and the list operations
  (\<open>position\<close>, \<open>remove\<close>) the components share.  Two collections are declared here:
  \<open>kvm_defs\<close> gathers the small definitions that proofs unfold together, and
  \<open>result_elims\<close> the inversion rules of the result combinators.
\<close>

named_theorems kvm_defs \<open>small definitions that component proofs unfold together\<close>
named_theorems result_elims \<open>inversion rules for the result combinators\<close>

unbundle bit_operations_syntax

section \<open>Machine integers\<close>

type_synonym u8 = "8 word"
type_synonym u16 = "16 word"
type_synonym u32 = "32 word"
type_synonym u64 = "64 word"
type_synonym u128 = "128 word"

text \<open>
  An \<open>i32\<close> is kept as an \<open>int\<close>: the code never lets a 32-bit signed value overflow
  unchecked, and \<open>is_i32\<close> names the range where it matters.
\<close>

type_synonym i32 = int

definition i32_max :: int where
  "i32_max = 2147483647"

definition is_i32 :: "int \<Rightarrow> bool" where
  "is_i32 v \<longleftrightarrow> - 2147483648 \<le> v \<and> v \<le> 2147483647"

definition checked_add :: "'a::len word \<Rightarrow> 'a word \<Rightarrow> 'a word option" where
  "checked_add a b = (if uint a + uint b < 2 ^ LENGTH('a) then Some (a + b) else None)"

definition saturating_add :: "'a::len word \<Rightarrow> 'a word \<Rightarrow> 'a word" where
  "saturating_add a b = (if uint a + uint b < 2 ^ LENGTH('a) then a + b else - 1)"

definition saturating_sub :: "'a::len word \<Rightarrow> 'a word \<Rightarrow> 'a word" where
  "saturating_sub a b = (if a < b then 0 else a - b)"

lemma uint_sum_less:
  fixes a b :: "'a::len word"
  shows "uint a + uint b < 2 ^ n \<longleftrightarrow> unat a + unat b < 2 ^ n"
proof -
  have "int (unat a + unat b) < int (2 ^ n) \<longleftrightarrow> unat a + unat b < 2 ^ n"
    by (rule of_nat_less_iff)
  then show ?thesis by simp
qed

lemma checked_add_unat:
  "checked_add a b = Some c \<Longrightarrow> unat c = unat a + unat b"
  by (auto simp: checked_add_def uint_sum_less unat_word_ariths split: if_splits)

lemma checked_add_SomeD:
  fixes a b c :: "'a::len word"
  assumes "checked_add a b = Some c"
  shows "unat a + unat b < 2 ^ LENGTH('a)" and "c = a + b"
  using assms by (auto simp: checked_add_def uint_sum_less split: if_splits)

lemma checked_add_greater:
  assumes "checked_add a b = Some c" and "b \<noteq> 0"
  shows "a < c"
  using checked_add_unat [OF assms(1)] assms(2)
  by (simp add: word_less_nat_alt unat_gt_0)

lemma saturating_add_unat:
  fixes a b :: "'a::len word"
  shows "unat (saturating_add a b) = min (unat a + unat b) (2 ^ LENGTH('a) - 1)"
  by (auto simp: saturating_add_def uint_sum_less unat_word_ariths unsigned_minus_1_eq_mask mask_eq_exp_minus_1)

lemma saturating_add_ge:
  fixes a b :: "'a::len word"
  shows "a \<le> saturating_add a b"
proof -
  have "unat a < 2 ^ LENGTH('a)" by (rule unsigned_less)
  then have "unat a \<le> min (unat a + unat b) (2 ^ LENGTH('a) - 1)" by linarith
  then show ?thesis by (simp only: word_le_nat_alt saturating_add_unat)
qed

lemma saturating_sub_unat: "unat (saturating_sub a b) = unat a - unat b"
  by (auto simp: saturating_sub_def word_less_nat_alt unat_sub word_le_nat_alt)

section \<open>Results\<close>

text \<open>\<open>Result<T, E>\<close> is the sum \<open>'e + 'a\<close>: \<open>Inl\<close> is \<open>Err\<close>, \<open>Inr\<close> is \<open>Ok\<close>.\<close>

type_synonym ('e, 'a) result = "'e + 'a"

definition map_err :: "('e \<Rightarrow> 'f) \<Rightarrow> ('e, 'a) result \<Rightarrow> ('f, 'a) result" where
  "map_err f r = (case r of Inl e \<Rightarrow> Inl (f e) | Inr x \<Rightarrow> Inr x)"

definition ok_or :: "'e \<Rightarrow> 'a option \<Rightarrow> ('e, 'a) result" where
  "ok_or e x = (case x of None \<Rightarrow> Inl e | Some v \<Rightarrow> Inr v)"

text \<open>The \<open>?\<close> operator on a value computed without effects.\<close>

definition bind_result :: "('e, 'a) result \<Rightarrow> ('a \<Rightarrow> ('e, 'b) result) \<Rightarrow> ('e, 'b) result" where
  "bind_result r k = (case r of Inl e \<Rightarrow> Inl e | Inr x \<Rightarrow> k x)"

text \<open>A fallible check followed by the rest: \<open>check?; rest\<close>.\<close>

definition and_then :: "('e, unit) result \<Rightarrow> ('e, 'b) result \<Rightarrow> ('e, 'b) result" where
  "and_then r s = (case r of Inl e \<Rightarrow> Inl e | Inr _ \<Rightarrow> s)"

text \<open>\<open>if bad { return Err(e) }\<close>\<close>

definition reject_if :: "bool \<Rightarrow> 'e \<Rightarrow> ('e, unit) result" where
  "reject_if bad e = (if bad then Inl e else Inr ())"

fun is_ok :: "('e, 'a) result \<Rightarrow> bool" where
  "is_ok (Inl _) = False"
| "is_ok (Inr _) = True"

lemma map_err_Inr [simp]: "map_err f (Inr x) = Inr x"
  and map_err_Inl [simp]: "map_err f (Inl e) = Inl (f e)"
  by (simp_all add: map_err_def)

lemma map_err_eq_Inr [simp]: "map_err f r = Inr x \<longleftrightarrow> r = Inr x"
  by (cases r) simp_all

lemma bind_result_simps [simp]:
  "bind_result (Inl e) k = Inl e"
  "bind_result (Inr x) k = k x"
  by (simp_all add: bind_result_def)

lemma bind_result_eq_Inr [simp]:
  "bind_result r k = Inr y \<longleftrightarrow> (\<exists>x. r = Inr x \<and> k x = Inr y)"
  by (cases r) simp_all

lemma and_then_simps [simp]:
  "and_then (Inl e) s = Inl e"
  "and_then (Inr u) s = s"
  by (simp_all add: and_then_def)

lemma and_then_eq_Inr [simp]: "and_then r s = Inr y \<longleftrightarrow> r = Inr () \<and> s = Inr y"
  by (cases r) simp_all

lemma reject_if_simps [simp]:
  "reject_if True e = Inl e"
  "reject_if False e = Inr ()"
  "reject_if bad e = Inr u \<longleftrightarrow> \<not> bad"
  "reject_if bad e = Inl f \<longleftrightarrow> bad \<and> e = f"
  by (auto simp: reject_if_def)

lemma ok_or_simps [simp]:
  "ok_or e None = Inl e"
  "ok_or e (Some v) = Inr v"
  "ok_or e x = Inr v \<longleftrightarrow> x = Some v"
  by (auto simp: ok_or_def split: option.splits)

lemma bind_result_InrE [result_elims]:
  assumes "bind_result r k = Inr y"
  obtains x where "r = Inr x" and "k x = Inr y"
  using assms by auto

lemma is_ok_iff: "is_ok r \<longleftrightarrow> (\<exists>x. r = Inr x)"
  by (cases r) simp_all

section \<open>Strings\<close>

text \<open>
  A Rust \<open>String\<close> is a \<open>string\<close> of its UTF-8 bytes: \<open>len()\<close> is \<open>length\<close>, and the
  derived order is the lexicographic one on bytes.  \<open>trim\<close> removes characters with the
  Unicode White_Space property; \<open>ws_width\<close> is the number of bytes such a character
  takes at the front (0 when the front is not white space).
\<close>

definition ws_width :: "nat list \<Rightarrow> nat" where
  "ws_width bs =
     (case bs of
        [] \<Rightarrow> 0
      | b # rest \<Rightarrow>
          if b \<in> {9, 10, 11, 12, 13, 32} then 1
          else if take 2 bs \<in> {[194, 133], [194, 160]} then 2
          else if take 3 bs \<in> {[225, 154, 128], [226, 129, 159], [227, 128, 128]} then 3
          else if take 2 bs = [226, 128] \<and> length bs > 2
            \<and> (bs ! 2 \<in> {128..138} \<or> bs ! 2 \<in> {168, 169, 175}) then 3
          else 0)"

lemma ws_width_le: "ws_width bs \<le> length bs"
proof -
  have three: "3 \<le> length bs" if "take 3 bs \<in> {[a, b, c], [d, e, f], [g, h, i]}" for a b c d e f g h i
    using that arg_cong [of "take 3 bs" _ length] by (auto dest: arg_cong [where f = length])
  have two: "2 \<le> length bs" if "take 2 bs \<in> {[a, b], [c, d]}" for a b c d
    using that by (auto dest: arg_cong [where f = length])
  from two [of 194 133 194 160] three [of 225 154 128 226 129 159 227 128 128] show ?thesis
    by (cases bs) (simp_all add: ws_width_def)
qed

lemma ws_width_Nil [simp]: "ws_width [] = 0"
  by (simp add: ws_width_def)

function trim_front :: "nat list \<Rightarrow> nat list" where
  "trim_front bs = (if ws_width bs = 0 then bs else trim_front (drop (ws_width bs) bs))"
  by pat_completeness auto
termination
proof (relation "measure length")
  fix bs :: "nat list"
  assume nz: "ws_width bs \<noteq> 0"
  then have "length bs > 0" by (cases bs) simp_all
  with nz show "(drop (ws_width bs) bs, bs) \<in> measure length" by simp
qed simp

declare trim_front.simps [simp del]

definition utf8_bytes :: "string \<Rightarrow> nat list" where
  "utf8_bytes s = map of_char s"

text \<open>\<open>value.trim().is_empty()\<close>\<close>

definition is_blank :: "string \<Rightarrow> bool" where
  "is_blank s \<longleftrightarrow> trim_front (utf8_bytes s) = []"

lemma is_blank_Nil [simp]: "is_blank []"
  by (simp add: is_blank_def utf8_bytes_def trim_front.simps)

lemma not_blank_first:
  assumes "ws_width (utf8_bytes s) = 0" and "s \<noteq> []"
  shows "\<not> is_blank s"
  using assms by (simp add: is_blank_def trim_front.simps utf8_bytes_def)

section \<open>Lists\<close>

fun position :: "('a \<Rightarrow> bool) \<Rightarrow> 'a list \<Rightarrow> nat option" where
  "position P [] = None"
| "position P (x # xs) = (if P x then Some 0 else map_option Suc (position P xs))"

text \<open>\<open>Vec::remove\<close>\<close>

definition remove_at :: "nat \<Rightarrow> 'a list \<Rightarrow> 'a list" where
  "remove_at i xs = take i xs @ drop (Suc i) xs"

lemma position_None_iff: "position P xs = None \<longleftrightarrow> (\<forall>x \<in> set xs. \<not> P x)"
  by (induction xs) auto

lemma position_SomeD:
  assumes "position P xs = Some i"
  shows "i < length xs" and "P (xs ! i)"
  using assms by (induction xs arbitrary: i) (auto split: if_splits)

lemma position_Some_split:
  assumes "position P xs = Some i"
  shows "xs = take i xs @ xs ! i # drop (Suc i) xs"
  using position_SomeD(1) [OF assms] by (simp add: id_take_nth_drop [symmetric])

lemma position_Some_decomp:
  assumes "position P xs = Some i"
  obtains us x vs where "xs = us @ x # vs" and "P x" and "xs ! i = x"
    and "remove_at i xs = us @ vs"
proof
  show "xs = take i xs @ xs ! i # drop (Suc i) xs" using assms by (rule position_Some_split)
  show "P (xs ! i)" using assms by (rule position_SomeD)
  show "xs ! i = xs ! i" by (rule refl)
  show "remove_at i xs = take i xs @ drop (Suc i) xs" by (rule remove_at_def)
qed

lemma find_SomeD: "find P xs = Some x \<Longrightarrow> x \<in> set xs \<and> P x"
  by (induction xs) (auto split: if_splits)

section \<open>Printing numbers\<close>

text \<open>Decimal digits, and sixteen lower-case hexadecimal digits, as \<open>format!\<close> prints them.\<close>

fun show_nat :: "nat \<Rightarrow> string" where
  "show_nat n = (if n < 10 then [char_of (48 + n)] else show_nat (n div 10) @ [char_of (48 + n mod 10)])"

declare show_nat.simps [simp del]

definition hex_digit :: "nat \<Rightarrow> char" where
  "hex_digit n = (if n < 10 then char_of (48 + n) else char_of (87 + n))"

definition show_hex16 :: "u64 \<Rightarrow> string" where
  "show_hex16 w = map (\<lambda>i. hex_digit (unat (drop_bit (4 * (15 - i)) w AND 15))) [0..<16]"

end
