(* ===== verification/Shared_Input.thy ===== *)
theory Shared_Input
  imports Kvm_Prelude
begin

text \<open>
  The input vocabulary of \<open>shared_input.rs\<close>: mouse buttons with their masks, the
  commands an injector receives, and the length-prefixed frame the input pipe carries.
  The MessagePack encoder \<open>rmp_serde\<close> is a parameter of the framing functions.
\<close>

section \<open>Buttons and commands\<close>

datatype mouse_button = MLeft | MRight | MMiddle | MBack | MForward

datatype input_event =
    IE_MouseMove string i32 i32
  | IE_MouseButton mouse_button bool
  | IE_Scroll i32 i32
  | IE_Key u16 bool

datatype input_command =
    IC_MouseMove i32 i32 "mouse_button option"
  | IC_MouseButton mouse_button bool i32 i32
  | IC_Scroll i32 i32
  | IC_Key u16 bool
  | IC_ReleaseAll
  | IC_SecureAttention

definition LEFT_BUTTON_MASK :: u64 where "LEFT_BUTTON_MASK = 1"
definition RIGHT_BUTTON_MASK :: u64 where "RIGHT_BUTTON_MASK = push_bit 1 1"
definition MIDDLE_BUTTON_MASK :: u64 where "MIDDLE_BUTTON_MASK = push_bit 2 1"
definition BACK_BUTTON_MASK :: u64 where "BACK_BUTTON_MASK = push_bit 3 1"
definition FORWARD_BUTTON_MASK :: u64 where "FORWARD_BUTTON_MASK = push_bit 4 1"

lemmas button_mask_defs =
  LEFT_BUTTON_MASK_def RIGHT_BUTTON_MASK_def MIDDLE_BUTTON_MASK_def
  BACK_BUTTON_MASK_def FORWARD_BUTTON_MASK_def

fun mouse_button_mask :: "mouse_button \<Rightarrow> u64" where
  "mouse_button_mask MLeft = LEFT_BUTTON_MASK"
| "mouse_button_mask MRight = RIGHT_BUTTON_MASK"
| "mouse_button_mask MMiddle = MIDDLE_BUTTON_MASK"
| "mouse_button_mask MBack = BACK_BUTTON_MASK"
| "mouse_button_mask MForward = FORWARD_BUTTON_MASK"

definition button_from_mask :: "u64 \<Rightarrow> mouse_button option" where
  "button_from_mask m =
     (if m AND LEFT_BUTTON_MASK \<noteq> 0 then Some MLeft
      else if m AND RIGHT_BUTTON_MASK \<noteq> 0 then Some MRight
      else if m AND MIDDLE_BUTTON_MASK \<noteq> 0 then Some MMiddle
      else None)"

lemma mouse_button_mask_inj: "mouse_button_mask a = mouse_button_mask b \<Longrightarrow> a = b"
  by (cases a; cases b) (simp_all add: button_mask_defs)

lemma button_from_mask_single:
  "button_from_mask (mouse_button_mask b) =
     (if b \<in> {MLeft, MRight, MMiddle} then Some b else None)"
  by (cases b) (simp_all add: button_from_mask_def button_mask_defs)

section \<open>The input pipe frame\<close>

text \<open>
  \<open>pack\<close> is \<open>rmp_serde::to_vec_named\<close> (\<open>None\<close> is an encoder error), \<open>unpack\<close> is
  \<open>rmp_serde::from_slice\<close>.  The messages of the errors are kept as constructors.
\<close>

datatype pipe_error = EncodeInputCommand | InputCommandTooLarge | DecodeInputCommand

definition u32_le_bytes :: "nat \<Rightarrow> u8 list" where
  "u32_le_bytes n = [of_nat n, of_nat (n div 256), of_nat (n div 65536), of_nat (n div 16777216)]"

definition u32_from_le_bytes :: "u8 list \<Rightarrow> nat" where
  "u32_from_le_bytes bs =
     unat (bs ! 0) + 256 * unat (bs ! 1) + 65536 * unat (bs ! 2) + 16777216 * unat (bs ! 3)"

definition encode_input_command ::
  "(input_command \<Rightarrow> u8 list option) \<Rightarrow> input_command \<Rightarrow> (pipe_error, u8 list) result" where
  "encode_input_command pack command =
     bind_result (ok_or EncodeInputCommand (pack command)) (\<lambda>payload.
       if length payload > 4294967295 then Inl InputCommandTooLarge
       else Inr (u32_le_bytes (length payload) @ payload))"

definition decode_input_command ::
  "(u8 list \<Rightarrow> input_command option) \<Rightarrow> u8 list \<Rightarrow> (pipe_error, input_command) result" where
  "decode_input_command unpack payload = ok_or DecodeInputCommand (unpack payload)"

lemma unat_of_nat_u8: "unat (of_nat n :: u8) = n mod 256"
  by (simp add: unat_of_nat)

text \<open>A 32-bit value is the sum of its four base-256 digits.\<close>

lemma base256_digits:
  assumes "n < (4294967296::nat)"
  shows "n mod 256 + 256 * (n div 256 mod 256) + 65536 * (n div 65536 mod 256)
      + 16777216 * (n div 16777216 mod 256) = n"
proof -
  have "n mod (256 * 16777216) = 256 * (n div 256 mod 16777216) + n mod 256"
    and "n div 256 mod (256 * 65536) = 256 * (n div 256 div 256 mod 65536) + n div 256 mod 256"
    and "n div 65536 mod (256 * 256) = 256 * (n div 65536 div 256 mod 256) + n div 65536 mod 256"
    by (rule mod_mult2_eq)+
  with assms show ?thesis by (simp add: div_mult2_eq [symmetric])
qed

lemma u32_le_roundtrip:
  assumes "n < 4294967296"
  shows "u32_from_le_bytes (u32_le_bytes n @ rest) = n"
  using base256_digits [OF assms] assms
  by (simp add: u32_from_le_bytes_def u32_le_bytes_def unat_of_nat_u8)

lemma length_u32_le_bytes [simp]: "length (u32_le_bytes n) = 4"
  by (simp add: u32_le_bytes_def)

end
