(* ===== verification/Control_Ports.thy ===== *)
theory Control_Ports
  imports Shared_Input
begin

text \<open>
  The platform boundaries of \<open>control_ports.rs\<close>.  A Rust trait is a record of the
  functions it promises over the implementor's state \<open>'c\<close>; the state stands for the
  port and the platform behind it.  The capture and focus ports run while other threads
  may write the router's shared cancellation cell (\<open>LocalOverride\<close>), so their calls
  also take the cell's value and return the value it has when the call is over.  The
  fake ports of the source's \<open>fake\<close> module are modelled too, and satisfy the contracts.
\<close>

section \<open>Errors and traits\<close>

datatype port_error = PermissionDenied | Unavailable | QueueFull | SubmissionFailed

record 'c capture_port =
  prepare_capture :: "'c \<Rightarrow> u64 \<Rightarrow> (port_error, unit) result \<times> 'c \<times> u64"
  activate_capture :: "'c \<Rightarrow> u64 \<Rightarrow> (port_error, unit) result \<times> 'c \<times> u64"
  request_local_restore :: "'c \<Rightarrow> u64 \<Rightarrow> 'c \<times> u64"

record 'f focus_port =
  prepare_focus :: "'f \<Rightarrow> u64 \<Rightarrow> (port_error, unit) result \<times> 'f \<times> u64"

record 'i injector_port =
  readiness :: "'i \<Rightarrow> (port_error, unit) result"
  post_event :: "input_command \<Rightarrow> 'i \<Rightarrow> (port_error, unit) result \<times> 'i"

record 't transport_port =
  try_send :: "u8 list \<Rightarrow> 't \<Rightarrow> (port_error, unit) result \<times> 't"

definition submit_ready ::
  "'i injector_port \<Rightarrow> input_command \<Rightarrow> 'i \<Rightarrow> (port_error, unit) result \<times> 'i" where
  "submit_ready P event i =
     (case readiness P i of
        Inl e \<Rightarrow> (Inl e, i)
      | Inr _ \<Rightarrow> post_event P event i)"

text \<open>
  A capture and a focus port called together share one state. Ports of separate objects are ports of the
  pair of their states.
\<close>

definition capture_side :: "'c capture_port \<Rightarrow> ('c \<times> 'f) capture_port" where
  "capture_side P =
     \<lparr>prepare_capture = (\<lambda>(c, f) g. let (res, c', g') = prepare_capture P c g in (res, (c', f), g')),
      activate_capture = (\<lambda>(c, f) g. let (res, c', g') = activate_capture P c g in (res, (c', f), g')),
      request_local_restore = (\<lambda>(c, f) g. let (c', g') = request_local_restore P c g in ((c', f), g'))\<rparr>"

definition focus_side :: "'f focus_port \<Rightarrow> ('c \<times> 'f) focus_port" where
  "focus_side F = \<lparr>prepare_focus = (\<lambda>(c, f) g. let (res, f', g') = prepare_focus F f g in (res, (c, f'), g'))\<rparr>"

section \<open>The contract of an injector\<close>

text \<open>
  \<open>posted\<close> is the sequence of commands the platform accepted.  A successful post appends
  the command to it, a failed one leaves it as it was.
\<close>

locale injector_contract =
  fixes P :: "'i injector_port" and posted :: "'i \<Rightarrow> input_command list"
  assumes post_ok: "post_event P c i = (Inr u, i') \<Longrightarrow> posted i' = posted i @ [c]"
    and post_err: "post_event P c i = (Inl e, i') \<Longrightarrow> posted i' = posted i"
begin

lemma submit_ready_ok: "submit_ready P c i = (Inr u, i') \<Longrightarrow> posted i' = posted i @ [c]"
  by (auto simp: submit_ready_def split: sum.splits dest: post_ok)

lemma submit_ready_err: "submit_ready P c i = (Inl e, i') \<Longrightarrow> posted i' = posted i"
  by (auto simp: submit_ready_def split: sum.splits dest: post_err)

lemma submit_ready_not_ready: "readiness P i = Inl e \<Longrightarrow> submit_ready P c i = (Inl e, i)"
  by (simp add: submit_ready_def)

end

section \<open>The fake ports\<close>

record fake_injector =
  fi_events :: "input_command list"
  fi_permission_denied :: bool
  fi_submission_failed :: bool

definition fake_injector_default :: fake_injector where
  "fake_injector_default =
     \<lparr>fi_events = [], fi_permission_denied = False, fi_submission_failed = False\<rparr>"

definition fake_injector_port :: "fake_injector injector_port" where
  "fake_injector_port =
     \<lparr>readiness = (\<lambda>i. if fi_permission_denied i then Inl PermissionDenied else Inr ()),
      post_event = (\<lambda>event i.
        if fi_submission_failed i then (Inl SubmissionFailed, i)
        else (Inr (), i\<lparr>fi_events := fi_events i @ [event]\<rparr>))\<rparr>"

interpretation fake_inj: injector_contract fake_injector_port fi_events
  by unfold_locales (auto simp: fake_injector_port_def split: if_splits)

record fake_capture =
  fc_prepared :: nat
  fc_activated :: nat
  fc_restored :: nat
  fc_failure :: "port_error option"

definition fake_capture_default :: fake_capture where
  "fake_capture_default =
     \<lparr>fc_prepared = 0, fc_activated = 0, fc_restored = 0, fc_failure = None\<rparr>"

definition fake_result :: "port_error option \<Rightarrow> (port_error, unit) result" where
  "fake_result failure = (case failure of None \<Rightarrow> Inr () | Some e \<Rightarrow> Inl e)"

definition fake_capture_port :: "fake_capture capture_port" where
  "fake_capture_port =
     \<lparr>prepare_capture = (\<lambda>c g.
        (fake_result (fc_failure c), c\<lparr>fc_prepared := fc_prepared c + 1\<rparr>, g)),
      activate_capture = (\<lambda>c g.
        (fake_result (fc_failure c), c\<lparr>fc_activated := fc_activated c + 1\<rparr>, g)),
      request_local_restore = (\<lambda>c g. (c\<lparr>fc_restored := fc_restored c + 1\<rparr>, g))\<rparr>"

record fake_focus =
  ff_attempts :: nat
  ff_failure :: "port_error option"

definition fake_focus_default :: fake_focus where
  "fake_focus_default = \<lparr>ff_attempts = 0, ff_failure = None\<rparr>"

definition fake_focus_port :: "fake_focus focus_port" where
  "fake_focus_port =
     \<lparr>prepare_focus = (\<lambda>f g. (fake_result (ff_failure f), f\<lparr>ff_attempts := ff_attempts f + 1\<rparr>, g))\<rparr>"

record fake_transport =
  ft_messages :: "u8 list list"
  ft_byte_budget :: nat
  ft_unavailable :: bool

definition fake_transport_port :: "fake_transport transport_port" where
  "fake_transport_port =
     \<lparr>try_send = (\<lambda>payload t.
        if ft_unavailable t then (Inl Unavailable, t)
        else if length payload > ft_byte_budget t - sum_list (map length (ft_messages t))
        then (Inl QueueFull, t)
        else (Inr (), t\<lparr>ft_messages := ft_messages t @ [payload]\<rparr>))\<rparr>"

text \<open>The byte budget of the fake transport is never exceeded.\<close>

definition fake_transport_within_budget :: "fake_transport \<Rightarrow> bool" where
  "fake_transport_within_budget t \<longleftrightarrow> sum_list (map length (ft_messages t)) \<le> ft_byte_budget t"

lemma fake_transport_budget:
  assumes "fake_transport_within_budget t" and "try_send fake_transport_port p t = (res, t')"
  shows "fake_transport_within_budget t'"
  using assms by (auto simp: fake_transport_port_def fake_transport_within_budget_def split: if_splits)

end
