(* ===== verification/Routing.thy ===== *)
theory Routing
  imports Control_Ports
begin

text \<open>
  The coordinator of \<open>routing.rs\<close>: the cancellation cell \<open>LocalOverride\<close> and the
  \<open>Router\<close> state machine that hands the physical input to a peer and takes it back.
  The cell is one atomic word shared with hotkey threads.  Each of its atomic operations
  is one function; the router's record carries the cell's current value, and the
  environment steps (\<open>request_local\<close> by another thread) happen between router calls or
  inside a port call, which returns the value it leaves behind.
\<close>

section \<open>The cancellation cell\<close>

definition HANDOFF_TIMEOUT_MS :: u64 where "HANDOFF_TIMEOUT_MS = 2500"
definition KEYS_RELEASE_TIMEOUT_MS :: u64 where "KEYS_RELEASE_TIMEOUT_MS = 1500"

datatype return_reason =
    User | Emergency | Timeout | KeysHeld | FocusUnavailable | CaptureFailed
  | NetworkFailed | ReasonQueueFull

datatype route_error =
    InvalidPeer | Busy | StaleReply | Exhausted | CaptureError port_error | Cancelled

definition gate_default :: u64 where "gate_default = 1"

definition is_local :: "u64 \<Rightarrow> bool" where
  "is_local g \<longleftrightarrow> g AND 1 \<noteq> 0"

definition request_local :: "u64 \<Rightarrow> u64" where
  "request_local v = saturating_add v 2 OR 1"

definition gate_reserve :: "u64 \<Rightarrow> (route_error, u64) result \<times> u64" where
  "gate_reserve v =
     (case checked_add v 2 of
        None \<Rightarrow> (Inl Exhausted, v)
      | Some next \<Rightarrow>
          if next OR 1 < - 1 then (Inr ((v + 2) OR 1), next OR 1) else (Inl Exhausted, v))"

definition still_preparing :: "u64 \<Rightarrow> u64 \<Rightarrow> bool" where
  "still_preparing generation g \<longleftrightarrow> g = generation"

definition gate_activate :: "u64 \<Rightarrow> u64 \<Rightarrow> bool \<times> u64" where
  "gate_activate generation g =
     (if generation \<noteq> - 1 \<and> g = generation then (True, generation AND NOT 1) else (False, g))"

section \<open>Router states and operations\<close>

record preparing =
  pr_peer :: string
  pr_request :: u64
  pr_deadline_ms :: u64
  pr_keys_deadline_ms :: u64
  pr_keys_released_seen :: bool
  pr_session :: "u128 option"
  pr_commit_sent :: bool

datatype route_state =
    LocalDesktop
  | LocalGame
  | PreparingRemote preparing
  | RemoteActive string u128
  | ReturningLocal return_reason

datatype route_effect =
    EffPrepare string u64
  | EffCommit u64 u128
  | EffCancel u64
  | EffEnd u128 return_reason

record router =
  rt_state :: route_state
  rt_game_mode :: bool
  rt_gate :: u64
  rt_last_return :: "return_reason option"

definition router_with_gate :: "u64 \<Rightarrow> router" where
  "router_with_gate g =
     \<lparr>rt_state = LocalDesktop, rt_game_mode = False, rt_gate = g, rt_last_return = None\<rparr>"

definition router_default :: router where
  "router_default = router_with_gate gate_default"

definition local_state :: "router \<Rightarrow> route_state" where
  "local_state r = (if rt_game_mode r then LocalGame else LocalDesktop)"

fun is_local_state :: "route_state \<Rightarrow> bool" where
  "is_local_state LocalDesktop = True"
| "is_local_state LocalGame = True"
| "is_local_state _ = False"

definition set_game_mode :: "bool \<Rightarrow> router \<Rightarrow> router" where
  "set_game_mode enabled r =
     (let r1 = r\<lparr>rt_game_mode := enabled\<rparr> in
      if is_local_state (rt_state r1) then r1\<lparr>rt_state := local_state r1\<rparr> else r1)"

fun return_effects :: "route_state \<Rightarrow> return_reason \<Rightarrow> route_effect list" where
  "return_effects (RemoteActive peer session) reason = [EffEnd session reason]"
| "return_effects (PreparingRemote p) reason =
     (case pr_session p of
        Some session \<Rightarrow> [EffEnd session reason]
      | None \<Rightarrow> [EffCancel (pr_request p)])"
| "return_effects _ reason = []"

definition go_local ::
  "'c capture_port \<Rightarrow> return_reason \<Rightarrow> router \<Rightarrow> 'c \<Rightarrow> route_effect list \<times> router \<times> 'c" where
  "go_local P reason r c =
     (let old = rt_state r;
          r1 = r\<lparr>rt_gate := request_local (rt_gate r), rt_state := ReturningLocal reason\<rparr>;
          (c', g') = (if is_local_state old then (c, rt_gate r1)
                      else request_local_restore P c (rt_gate r1));
          r2 = r1\<lparr>rt_gate := g', rt_last_return := Some reason\<rparr>
      in (return_effects old reason, r2\<lparr>rt_state := local_state r2\<rparr>, c'))"

definition go_remote ::
  "'c capture_port \<Rightarrow> string \<Rightarrow> u64 \<Rightarrow> router \<Rightarrow> 'c
     \<Rightarrow> (route_error, route_effect list) result \<times> router \<times> 'c" where
  "go_remote P peer now_ms r c =
     (if is_blank peer \<or> length peer > 256 then (Inl InvalidPeer, r, c)
      else case rt_state r of
        PreparingRemote p \<Rightarrow> (if pr_peer p = peer then Inr [] else Inl Busy, r, c)
      | RemoteActive current _ \<Rightarrow> (if current = peer then Inr [] else Inl Busy, r, c)
      | ReturningLocal _ \<Rightarrow> (Inl Busy, r, c)
      | _ \<Rightarrow>
          (case checked_add now_ms HANDOFF_TIMEOUT_MS of
             None \<Rightarrow> (Inl Exhausted, r, c)
           | Some deadline_ms \<Rightarrow>
               (case checked_add now_ms KEYS_RELEASE_TIMEOUT_MS of
                  None \<Rightarrow> (Inl Exhausted, r, c)
                | Some keys_deadline_ms \<Rightarrow>
                    (case gate_reserve (rt_gate r) of
                       (Inl e, g1) \<Rightarrow> (Inl e, r\<lparr>rt_gate := g1\<rparr>, c)
                     | (Inr request, g1) \<Rightarrow>
                         (let r1 = r\<lparr>rt_gate := g1, rt_state := PreparingRemote
                                \<lparr>pr_peer = peer, pr_request = request, pr_deadline_ms = deadline_ms,
                                 pr_keys_deadline_ms = keys_deadline_ms,
                                 pr_keys_released_seen = False, pr_session = None,
                                 pr_commit_sent = False\<rparr>\<rparr>;
                              (res, c2, g2) = prepare_capture P c g1;
                              r2 = r1\<lparr>rt_gate := g2\<rparr>
                          in case res of
                               Inl e \<Rightarrow>
                                 (let (_, r3, c3) = go_local P CaptureFailed r2 c2
                                  in (Inl (CaptureError e), r3, c3))
                             | Inr _ \<Rightarrow>
                                 if \<not> still_preparing request g2 then
                                   (let (_, r3, c3) = go_local P Emergency r2 c2
                                    in (Inl Cancelled, r3, c3))
                                 else (Inr [EffPrepare peer request], r2, c2))))))"

definition router_ready ::
  "u64 \<Rightarrow> u128 \<Rightarrow> router \<Rightarrow> (route_error, unit) result \<times> router" where
  "router_ready request offered_session r =
     (if offered_session = 0 \<or> \<not> still_preparing request (rt_gate r) then (Inl StaleReply, r)
      else case rt_state r of
        PreparingRemote p \<Rightarrow>
          if request \<noteq> pr_request p
            \<or> (case pr_session p of None \<Rightarrow> False | Some s \<Rightarrow> s \<noteq> offered_session)
          then (Inl StaleReply, r)
          else (Inr (), r\<lparr>rt_state := PreparingRemote (p\<lparr>pr_session := Some offered_session\<rparr>)\<rparr>)
      | _ \<Rightarrow> (Inl StaleReply, r))"

definition advance_reason :: "u64 \<Rightarrow> bool \<Rightarrow> preparing \<Rightarrow> u64 \<Rightarrow> return_reason option" where
  "advance_reason now_ms keys_released p g =
     (if \<not> still_preparing (pr_request p) g then Some Emergency
      else if pr_deadline_ms p \<le> now_ms then Some Timeout
      else if (\<not> keys_released \<and> pr_commit_sent p)
        \<or> ((\<not> keys_released \<or> \<not> pr_keys_released_seen p) \<and> pr_keys_deadline_ms p \<le> now_ms)
      then Some KeysHeld
      else None)"

definition router_advance ::
  "'c capture_port \<Rightarrow> 'c focus_port \<Rightarrow> u64 \<Rightarrow> bool \<Rightarrow> router \<Rightarrow> 'c
     \<Rightarrow> (route_error, route_effect list) result \<times> router \<times> 'c" where
  "router_advance P F now_ms keys_released r c =
     (case rt_state r of
        PreparingRemote p \<Rightarrow>
          (case advance_reason now_ms keys_released p (rt_gate r) of
             Some reason \<Rightarrow>
               (let (effs, r1, c1) = go_local P reason r c in (Inr effs, r1, c1))
           | None \<Rightarrow>
               (let p1 = p\<lparr>pr_keys_released_seen := keys_released\<rparr>;
                    r1 = r\<lparr>rt_state := PreparingRemote p1\<rparr>
                in if pr_commit_sent p \<or> \<not> keys_released then (Inr [], r1, c)
                   else case pr_session p of
                     None \<Rightarrow> (Inr [], r1, c)
                   | Some session \<Rightarrow>
                       (let (res, c1, g1) = prepare_focus F c (rt_gate r1);
                            r2 = r1\<lparr>rt_gate := g1\<rparr>
                        in case res of
                             Inl _ \<Rightarrow>
                               (let (effs, r3, c3) = go_local P FocusUnavailable r2 c1
                                in (Inr effs, r3, c3))
                           | Inr _ \<Rightarrow>
                               if \<not> still_preparing (pr_request p) g1 then
                                 (let (effs, r3, c3) = go_local P Emergency r2 c1
                                  in (Inr effs, r3, c3))
                               else
                                 (Inr [EffCommit (pr_request p) session],
                                  r2\<lparr>rt_state := PreparingRemote (p1\<lparr>pr_commit_sent := True\<rparr>)\<rparr>,
                                  c1))))
      | RemoteActive _ _ \<Rightarrow>
          (if is_local (rt_gate r) then
             (let (effs, r1, c1) = go_local P Emergency r c in (Inr effs, r1, c1))
           else (Inr [], r, c))
      | _ \<Rightarrow> (Inr [], r, c))"

definition commit_ack ::
  "'c capture_port \<Rightarrow> u64 \<Rightarrow> u128 \<Rightarrow> u64 \<Rightarrow> router \<Rightarrow> 'c
     \<Rightarrow> (route_error, unit) result \<times> router \<times> 'c" where
  "commit_ack P request session now_ms r c =
     (case rt_state r of
        PreparingRemote p \<Rightarrow>
          (if pr_request p \<noteq> request \<or> pr_session p \<noteq> Some session \<or> \<not> pr_commit_sent p
           then (Inl StaleReply, r, c)
           else if pr_deadline_ms p \<le> now_ms \<or> \<not> still_preparing request (rt_gate r) then
             (let (_, r1, c1) =
                go_local P (if pr_deadline_ms p \<le> now_ms then Timeout else Emergency) r c
              in (Inl Cancelled, r1, c1))
           else
             (let (res, c1, g1) = activate_capture P c (rt_gate r); r1 = r\<lparr>rt_gate := g1\<rparr>
              in case res of
                   Inl e \<Rightarrow>
                     (let (_, r2, c2) = go_local P CaptureFailed r1 c1
                      in (Inl (CaptureError e), r2, c2))
                 | Inr _ \<Rightarrow>
                     (let (won, g2) = gate_activate request g1; r2 = r1\<lparr>rt_gate := g2\<rparr>
                      in if \<not> won then
                           (let (_, r3, c3) = go_local P Emergency r2 c1 in (Inl Cancelled, r3, c3))
                         else (Inr (), r2\<lparr>rt_state := RemoteActive (pr_peer p) session\<rparr>, c1))))
      | _ \<Rightarrow> (Inl StaleReply, r, c))"

section \<open>Facts about the cell\<close>

lemma odd_unat_iff: "odd (unat x) \<longleftrightarrow> odd (x :: u64)"
  by (simp only: bit_0 [symmetric] bit_unsigned_iff) simp

lemma unat_or_one: "unat (x OR 1 :: u64) = (if even (unat x) then unat x + 1 else unat x)"
proof -
  have "unat (x OR 1) = unat x OR 1" by (simp only: unsigned_or_eq unsigned_1)
  also have "\<dots> = unat x + of_bool (even (unat x))" by (rule or_one_eq)
  also have "\<dots> = (if even (unat x) then unat x + 1 else unat x)" by simp
  finally show ?thesis .
qed

lemma is_local_iff_odd: "is_local g \<longleftrightarrow> odd (unat g)"
  by (simp add: is_local_def odd_unat_iff and_one_eq mod_2_eq_odd)

lemma unat_request_local:
  "unat (request_local g) =
     (let m = min (unat g + 2) 18446744073709551615 in if even m then m + 1 else m)"
  by (simp add: request_local_def unat_or_one saturating_add_unat Let_def)

lemma request_local_is_local [simp]: "is_local (request_local g)"
  by (auto simp: is_local_iff_odd unat_request_local Let_def)

lemma request_local_ge: "g \<le> request_local g"
proof -
  have "unat g < 18446744073709551616" using unsigned_less [of g, where ?'a = nat] by simp
  then show ?thesis by (auto simp: word_le_nat_alt unat_request_local Let_def min_def)
qed

lemma request_local_greater:
  assumes "g < - 2"
  shows "g < request_local g"
proof -
  have "unat (- 2 :: u64) = 18446744073709551614" by simp
  with assms have "unat g < 18446744073709551614" by (simp add: word_less_nat_alt)
  then show ?thesis by (auto simp: word_less_nat_alt unat_request_local Let_def min_def)
qed

text \<open>What other threads can do to the cell: any number of \<open>request_local\<close> calls.\<close>

definition gate_later :: "u64 \<Rightarrow> u64 \<Rightarrow> bool" where
  "gate_later g g' \<longleftrightarrow> (\<exists>n. g' = (request_local ^^ n) g)"

lemma gate_later_refl [simp]: "gate_later g g"
  unfolding gate_later_def by (rule exI [of _ 0]) simp

lemma gate_later_request [simp]: "gate_later g (request_local g)"
  unfolding gate_later_def by (rule exI [of _ 1]) simp

lemma funpow_request_local_ge: "g \<le> (request_local ^^ n) g"
  by (induction n) (auto intro: order_trans request_local_ge)

lemma gate_later_ge: "gate_later g g' \<Longrightarrow> g \<le> g'"
  by (auto simp: gate_later_def funpow_request_local_ge)

lemma gate_later_cases:
  assumes "gate_later g g'"
  shows "g' = g \<or> (is_local g' \<and> request_local g \<le> g')"
proof -
  from assms obtain n where n: "g' = (request_local ^^ n) g" by (auto simp: gate_later_def)
  show ?thesis
  proof (cases n)
    case 0
    with n show ?thesis by simp
  next
    case (Suc m)
    then have "g' = (request_local ^^ m) (request_local g)" using n by (simp add: funpow_swap1)
    moreover have "is_local g'" using n Suc by simp
    ultimately show ?thesis by (simp add: funpow_request_local_ge)
  qed
qed

lemma gate_later_local: "is_local g \<Longrightarrow> gate_later g g' \<Longrightarrow> is_local g'"
  using gate_later_cases by blast

lemma gate_later_trans: "gate_later a b \<Longrightarrow> gate_later b c \<Longrightarrow> gate_later a c"
  unfolding gate_later_def by (metis comp_apply funpow_add)

text \<open>A reservation is a fresh odd generation below the exhausted value.\<close>

lemma gate_reserve_InrD:
  assumes "gate_reserve v = (Inr request, g)"
  shows "g = request" and "is_local request" and "request < - 1" and "v < request"
proof -
  from assms have c: "checked_add v 2 = Some (v + 2)" and lt: "(v + 2) OR 1 < - 1"
    and r: "request = (v + 2) OR 1" and g: "g = request"
    by (auto simp: gate_reserve_def checked_add_def split: option.splits if_splits)
  show "g = request" by (rule g)
  show "request < - 1" using lt r by simp
  show "is_local request" by (simp add: r is_local_iff_odd unat_or_one)
  have "unat (v + 2) = unat v + 2" using checked_add_unat [OF c] by simp
  then show "v < request" by (simp add: r word_less_nat_alt unat_or_one)
qed

lemma gate_reserve_InlD: "gate_reserve v = (Inl e, g) \<Longrightarrow> g = v \<and> e = Exhausted"
  by (auto simp: gate_reserve_def split: option.splits if_splits)

text \<open>
  An odd generation below the exhausted value is gone for good once anything was
  requested: later values of the cell are larger.
\<close>

lemma odd_below_max:
  assumes "is_local g" and "g < - 1"
  shows "g < - 2"
proof -
  have "unat (- 1 :: u64) = 18446744073709551615"
    by (simp add: unsigned_minus_1_eq_mask mask_eq_exp_minus_1)
  moreover have "unat (- 2 :: u64) = 18446744073709551614" by simp
  ultimately show ?thesis
    using assms by (simp add: is_local_iff_odd word_less_nat_alt) presburger
qed

lemma gate_later_strict:
  assumes "is_local request" and "request < - 1" and "request \<le> g" and "gate_later g g'"
    and "g' = request"
  shows "g = request"
  using gate_later_ge [OF assms(4)] assms(3,5) by simp

lemma gate_moved_on:
  assumes "is_local request" and "request < - 1" and "gate_later (request_local request) g"
  shows "request < g" and "\<not> still_preparing request g" and "fst (gate_activate request g) = False"
proof -
  from odd_below_max [OF assms(1,2)] have "request < request_local request"
    by (rule request_local_greater)
  with gate_later_ge [OF assms(3)] show lt: "request < g" by simp
  then show "\<not> still_preparing request g" by (auto simp: still_preparing_def)
  from lt show "fst (gate_activate request g) = False" by (auto simp: gate_activate_def)
qed

lemma activated_not_local: "is_local g \<Longrightarrow> \<not> is_local (g AND NOT 1)"
  by (simp add: is_local_def and.assoc)

section \<open>The capture and focus contracts\<close>

text \<open>
  The only thing a port, or a thread that runs during its call, may do to the cell is
  \<open>request_local\<close>: \<open>reserve\<close> and \<open>activate\<close> are private to the router.
\<close>

locale capture_contract =
  fixes P :: "'c capture_port"
  assumes prepare_gate: "prepare_capture P c g = (res, c', g') \<Longrightarrow> gate_later g g'"
    and activate_gate: "activate_capture P c g = (res, c', g') \<Longrightarrow> gate_later g g'"
    and restore_gate: "request_local_restore P c g = (c', g') \<Longrightarrow> gate_later g g'"

locale focus_contract =
  fixes F :: "'f focus_port"
  assumes focus_gate: "prepare_focus F f g = (res, f', g') \<Longrightarrow> gate_later g g'"

section \<open>The invariant of the router\<close>

fun route_state_ok :: "bool \<Rightarrow> u64 \<Rightarrow> route_state \<Rightarrow> bool" where
  "route_state_ok game g LocalDesktop \<longleftrightarrow> \<not> game \<and> is_local g"
| "route_state_ok game g LocalGame \<longleftrightarrow> game \<and> is_local g"
| "route_state_ok game g (PreparingRemote p) \<longleftrightarrow>
     is_local g \<and> is_local (pr_request p) \<and> pr_request p < - 1 \<and> pr_request p \<le> g
     \<and> pr_session p \<noteq> Some 0 \<and> (pr_commit_sent p \<longrightarrow> pr_session p \<noteq> None)"
| "route_state_ok game g (RemoteActive peer session) \<longleftrightarrow> session \<noteq> 0"
| "route_state_ok game g (ReturningLocal reason) \<longleftrightarrow> False"

definition router_inv :: "router \<Rightarrow> bool" where
  "router_inv r \<longleftrightarrow> route_state_ok (rt_game_mode r) (rt_gate r) (rt_state r)"

definition router_emergency :: "router \<Rightarrow> router" where
  "router_emergency r = r\<lparr>rt_gate := request_local (rt_gate r)\<rparr>"

lemma router_inv_default [simp]: "router_inv router_default"
  by (simp add: router_inv_def router_default_def router_with_gate_def gate_default_def is_local_def)

lemma route_state_ok_later:
  assumes "route_state_ok game g st" and "gate_later g g'"
  shows "route_state_ok game g' st"
  using assms gate_later_local [of g g'] gate_later_ge [OF assms(2)]
  by (cases st) auto

lemma router_inv_gate_later:
  "router_inv r \<Longrightarrow> gate_later (rt_gate r) g' \<Longrightarrow> router_inv (r\<lparr>rt_gate := g'\<rparr>)"
  by (auto simp: router_inv_def intro: route_state_ok_later)

lemma router_inv_emergency: "router_inv r \<Longrightarrow> router_inv (router_emergency r)"
  unfolding router_emergency_def by (rule router_inv_gate_later) simp_all

lemma local_state_simps [simp]:
  "is_local_state (local_state r)"
  "route_state_ok (rt_game_mode r) g (local_state r) \<longleftrightarrow> is_local g"
  by (auto simp: local_state_def)

lemma set_game_mode_inv: "router_inv r \<Longrightarrow> router_inv (set_game_mode enabled r)"
  by (cases "rt_state r") (auto simp: set_game_mode_def router_inv_def local_state_def Let_def)

lemma return_effects_seen [simp]:
  "return_effects (PreparingRemote (p\<lparr>pr_keys_released_seen := seen\<rparr>)) reason =
     return_effects (PreparingRemote p) reason"
  by (cases "pr_session p") simp_all

lemma router_ready_inv: "router_inv r \<Longrightarrow> router_inv (snd (router_ready request session r))"
  by (cases "rt_state r") (auto simp: router_ready_def router_inv_def)

context capture_contract begin

text \<open>\<open>go_local\<close> always ends in a local state with the cell local.\<close>

lemma go_local_result:
  assumes "go_local P reason r c = (effs, r', c')"
  shows "is_local_state (rt_state r')" and "is_local (rt_gate r')" and "router_inv r'"
    and "rt_last_return r' = Some reason" and "rt_game_mode r' = rt_game_mode r"
    and "effs = return_effects (rt_state r) reason"
    and "gate_later (request_local (rt_gate r)) (rt_gate r')" and "rt_gate r \<le> rt_gate r'"
proof -
  obtain c2 g2 where rest: "request_local_restore P c (request_local (rt_gate r)) = (c2, g2)"
    by fastforce
  from restore_gate [OF rest] have "gate_later (request_local (rt_gate r)) g2" .
  moreover from this have "is_local g2" by (rule gate_later_local [OF request_local_is_local])
  moreover have "rt_gate r \<le> request_local (rt_gate r)" by (rule request_local_ge)
  moreover have "request_local (rt_gate r) \<le> g2" using calculation(1) by (rule gate_later_ge)
  ultimately show "is_local_state (rt_state r')" and "is_local (rt_gate r')" and "router_inv r'"
    and "rt_last_return r' = Some reason" and "rt_game_mode r' = rt_game_mode r"
    and "effs = return_effects (rt_state r) reason"
    and "gate_later (request_local (rt_gate r)) (rt_gate r')" and "rt_gate r \<le> rt_gate r'"
    using assms rest
    by (auto simp: go_local_def Let_def router_inv_def local_state_def split: if_splits)
qed

text \<open>The three ways \<open>go_remote\<close> can end.\<close>

lemma go_remote_cases:
  assumes "go_remote P peer now r c = (res, r', c')"
  obtains (unchanged) "r' = r" and "c' = c" and "res = Inr [] \<longrightarrow> \<not> is_local_state (rt_state r)"
      and "\<forall>effs. res = Inr effs \<longrightarrow> effs = []"
    | (failed) e reason where "res = Inl e" and "is_local_state (rt_state r')"
      and "is_local (rt_gate r')" and "router_inv r'" and "rt_last_return r' = Some reason"
      and "rt_game_mode r' = rt_game_mode r" and "rt_gate r \<le> rt_gate r'"
    | (prepared) request deadline keys_deadline where
        "res = Inr [EffPrepare peer request]" and "rt_gate r' = request"
      and "is_local_state (rt_state r)" and "gate_reserve (rt_gate r) = (Inr request, request)"
      and "checked_add now HANDOFF_TIMEOUT_MS = Some deadline"
      and "checked_add now KEYS_RELEASE_TIMEOUT_MS = Some keys_deadline"
      and "rt_state r' = PreparingRemote
        \<lparr>pr_peer = peer, pr_request = request, pr_deadline_ms = deadline,
         pr_keys_deadline_ms = keys_deadline, pr_keys_released_seen = False,
         pr_session = None, pr_commit_sent = False\<rparr>"
      and "rt_game_mode r' = rt_game_mode r"
proof (cases "is_local_state (rt_state r) \<and> \<not> (is_blank peer \<or> length peer > 256)")
  case False
  with assms show ?thesis
    by (cases "rt_state r") (auto simp: go_remote_def split: if_splits intro: unchanged)
next
  case True
  then have loc: "is_local_state (rt_state r)" and peer: "\<not> (is_blank peer \<or> length peer > 256)" by auto
  show ?thesis
  proof (cases "\<exists>d k request. checked_add now HANDOFF_TIMEOUT_MS = Some d
      \<and> checked_add now KEYS_RELEASE_TIMEOUT_MS = Some k
      \<and> gate_reserve (rt_gate r) = (Inr request, request)")
    case False
    with assms loc peer show ?thesis
      by (cases "rt_state r")
        (auto simp: go_remote_def split: option.splits sum.splits prod.splits
          intro!: unchanged dest: gate_reserve_InlD gate_reserve_InrD(1))
  next
    case True
    then obtain d k request where d: "checked_add now HANDOFF_TIMEOUT_MS = Some d"
      and k: "checked_add now KEYS_RELEASE_TIMEOUT_MS = Some k"
      and request: "gate_reserve (rt_gate r) = (Inr request, request)" by blast
    obtain pres c2 g2 where prep: "prepare_capture P c request = (pres, c2, g2)" by (cases "prepare_capture P c request") auto
    define r2 where "r2 = r\<lparr>rt_state := PreparingRemote
        \<lparr>pr_peer = peer, pr_request = request, pr_deadline_ms = d,
         pr_keys_deadline_ms = k, pr_keys_released_seen = False,
         pr_session = None, pr_commit_sent = False\<rparr>, rt_gate := g2\<rparr>"
    have shape: "go_remote P peer now r c =
        (case pres of
           Inl e \<Rightarrow> (let (_, r3, c3) = go_local P CaptureFailed r2 c2 in (Inl (CaptureError e), r3, c3))
         | Inr _ \<Rightarrow> if \<not> still_preparing request g2
             then (let (_, r3, c3) = go_local P Emergency r2 c2 in (Inl Cancelled, r3, c3))
             else (Inr [EffPrepare peer request], r2, c2))"
      using loc peer d k request prep
      by (cases "rt_state r"; cases pres) (simp_all add: go_remote_def r2_def Let_def)
    have r2: "rt_game_mode r2 = rt_game_mode r" by (simp add: r2_def)
    have "rt_gate r \<le> request" using gate_reserve_InrD(4) [OF request] by simp
    also have "request \<le> g2" using prepare_gate [OF prep] by (rule gate_later_ge)
    finally have mono: "rt_gate r \<le> rt_gate r2" by (simp add: r2_def)
    obtain e1 r3 c3 where l1: "go_local P CaptureFailed r2 c2 = (e1, r3, c3)" by (cases "go_local P CaptureFailed r2 c2") auto
    obtain e2 r4 c4 where l2: "go_local P Emergency r2 c2 = (e2, r4, c4)" by (cases "go_local P Emergency r2 c2") auto
    note f1 = go_local_result [OF l1] and f2 = go_local_result [OF l2]
    show ?thesis
    proof (cases pres)
      case (Inl e)
      with assms shape l1 have "res = Inl (CaptureError e)" "r' = r3" by simp_all
      with f1 r2 order_trans [OF mono f1(8)] show ?thesis by (intro failed) simp_all
    next
      case (Inr u)
      show ?thesis
      proof (cases "still_preparing request g2")
        case True
        with assms shape Inr have "res = Inr [EffPrepare peer request]" "r' = r2" by simp_all
        with True d k request loc show ?thesis
          by (intro prepared) (simp_all add: r2_def still_preparing_def)
      next
        case False
        with assms shape Inr l2 have "res = Inl Cancelled" "r' = r4" by simp_all
        with f2 r2 order_trans [OF mono f2(8)] show ?thesis by (intro failed) simp_all
      qed
    qed
  qed
qed

lemma go_remote_inv:
  assumes "router_inv r" and "go_remote P peer now r c = (res, r', c')"
  shows "router_inv r'"
  using assms(2)
proof (cases rule: go_remote_cases)
  case (prepared request deadline keys_deadline)
  with gate_reserve_InrD [OF prepared(4)] show ?thesis by (simp add: router_inv_def)
qed (use assms(1) in simp_all)

text \<open>The ways \<open>commit_ack\<close> can end.\<close>

lemma commit_ack_cases:
  assumes "commit_ack P request session now r c = (res, r', c')"
  obtains (stale) "res = Inl StaleReply" and "r' = r" and "c' = c"
    | (failed) e where "res = Inl e" and "is_local_state (rt_state r')" and "is_local (rt_gate r')"
      and "router_inv r'" and "rt_game_mode r' = rt_game_mode r" and "rt_gate r \<le> rt_gate r'"
    | (active) p c1 where "res = Inr ()" and "rt_state r = PreparingRemote p"
      and "pr_request p = request" and "pr_session p = Some session" and "pr_commit_sent p"
      and "now < pr_deadline_ms p" and "rt_gate r = request"
      and "activate_capture P c request = (Inr (), c1, request)" and "c' = c1"
      and "r' = r\<lparr>rt_gate := request AND NOT 1, rt_state := RemoteActive (pr_peer p) session\<rparr>"
proof (cases "\<exists>p. rt_state r = PreparingRemote p \<and> pr_request p = request
    \<and> pr_session p = Some session \<and> pr_commit_sent p")
  case False
  with assms show ?thesis
    by (cases "rt_state r") (auto simp: commit_ack_def split: if_splits intro: stale)
next
  case True
  then obtain p where st: "rt_state r = PreparingRemote p" and req: "pr_request p = request"
    and sess: "pr_session p = Some session" and sent: "pr_commit_sent p" by blast
  define late where "late = (pr_deadline_ms p \<le> now \<or> \<not> still_preparing request (rt_gate r))"
  obtain e0 r0 c0 where l0:
    "go_local P (if pr_deadline_ms p \<le> now then Timeout else Emergency) r c = (e0, r0, c0)"
    by (cases "go_local P (if pr_deadline_ms p \<le> now then Timeout else Emergency) r c") auto
  obtain ares c1 g1 where act: "activate_capture P c (rt_gate r) = (ares, c1, g1)"
    by (cases "activate_capture P c (rt_gate r)") auto
  obtain e2 r2 c2 where l2: "go_local P CaptureFailed (r\<lparr>rt_gate := g1\<rparr>) c1 = (e2, r2, c2)"
    by (cases "go_local P CaptureFailed (r\<lparr>rt_gate := g1\<rparr>) c1") auto
  obtain won g2 where cas: "gate_activate request g1 = (won, g2)" by fastforce
  obtain e3 r3 c3 where l3: "go_local P Emergency (r\<lparr>rt_gate := g2\<rparr>) c1 = (e3, r3, c3)"
    by (cases "go_local P Emergency (r\<lparr>rt_gate := g2\<rparr>) c1") auto
  have shape: "(res, r', c') =
      (if late then (Inl Cancelled, r0, c0)
       else case ares of
         Inl e \<Rightarrow> (Inl (CaptureError e), r2, c2)
       | Inr _ \<Rightarrow> if \<not> won then (Inl Cancelled, r3, c3)
           else (Inr (), r\<lparr>rt_gate := g2, rt_state := RemoteActive (pr_peer p) session\<rparr>, c1))"
    using assms st req sess sent l0 act l2 cas l3
    by (auto simp: commit_ack_def late_def Let_def split: sum.splits)
  have g1: "rt_gate r \<le> g1" using activate_gate [OF act] by (rule gate_later_ge)
  show ?thesis
  proof (cases "late \<or> (\<exists>e. ares = Inl e) \<or> \<not> won")
    case True
    have "g2 = g1" if "\<not> won" using that cas by (auto simp: gate_activate_def split: if_splits)
    with True g1 order_trans [OF g1] shape go_local_result [OF l0] go_local_result [OF l2] go_local_result [OF l3]
    show ?thesis by (auto split: if_splits sum.splits intro!: failed)
  next
    case False
    then obtain u where "ares = Inr u" "\<not> late" "won" by (cases ares) auto
    with shape cas have "g1 = request" "g2 = request AND NOT 1" "rt_gate r = request" "now < pr_deadline_ms p"
      by (auto simp: gate_activate_def late_def still_preparing_def split: if_splits)
    with shape act \<open>ares = Inr u\<close> \<open>\<not> late\<close> \<open>won\<close> st req sess sent show ?thesis
      by (intro active) auto
  qed
qed

lemma commit_ack_inv:
  assumes "router_inv r" and "commit_ack P request session now r c = (res, r', c')"
  shows "router_inv r'"
  using assms(2)
proof (cases rule: commit_ack_cases)
  case (active p c1)
  with assms(1) show ?thesis by (auto simp: router_inv_def)
qed (use assms(1) in simp_all)

end

locale handoff_contract = capture_contract P + focus_contract F
  for P :: "'c capture_port" and F :: "'c focus_port"
begin

text \<open>The ways \<open>advance\<close> can end.\<close>

lemma advance_cases:
  assumes "router_advance P F now keys r c = (res, r', c')"
  obtains (idle) "res = Inr []" and "r' = r" and "c' = c"
      and "\<not> (\<exists>p. rt_state r = PreparingRemote p)"
    | (waiting) p where "rt_state r = PreparingRemote p" and "res = Inr []" and "c' = c"
      and "r' = r\<lparr>rt_state := PreparingRemote (p\<lparr>pr_keys_released_seen := keys\<rparr>)\<rparr>"
      and "advance_reason now keys p (rt_gate r) = None"
    | (commit) p session where "rt_state r = PreparingRemote p" and "pr_session p = Some session"
      and "\<not> pr_commit_sent p" and "keys" and "rt_gate r = pr_request p"
      and "prepare_focus F c (rt_gate r) = (Inr (), c', rt_gate r)" and "advance_reason now keys p (rt_gate r) = None"
      and "res = Inr [EffCommit (pr_request p) session]"
      and "r' = r\<lparr>rt_state := PreparingRemote (p\<lparr>pr_keys_released_seen := keys, pr_commit_sent := True\<rparr>)\<rparr>"
    | (returned) effs reason where "\<not> is_local_state (rt_state r)" and "res = Inr effs"
      and "effs = return_effects (rt_state r) reason"
      and "is_local_state (rt_state r')" and "is_local (rt_gate r')" and "router_inv r'"
      and "rt_last_return r' = Some reason" and "rt_game_mode r' = rt_game_mode r"
      and "rt_gate r \<le> rt_gate r'"
proof (cases "rt_state r")
  case (PreparingRemote p)
  show ?thesis
  proof (cases "advance_reason now keys p (rt_gate r)")
    case (Some reason)
    obtain e1 r1 c1 where l1: "go_local P reason r c = (e1, r1, c1)" by (cases "go_local P reason r c") auto
    with assms PreparingRemote Some have "res = Inr e1" "r' = r1"
      by (simp_all add: router_advance_def)
    with go_local_result [OF l1] PreparingRemote show ?thesis by (intro returned) simp_all
  next
    case None
    then have gate: "rt_gate r = pr_request p"
      by (auto simp: advance_reason_def still_preparing_def split: if_splits)
    show ?thesis
    proof (cases "pr_commit_sent p \<or> \<not> keys \<or> pr_session p = None")
      case True
      with assms PreparingRemote None show ?thesis
        by (intro waiting [of p]) (auto simp: router_advance_def Let_def split: if_splits option.splits)
    next
      case False
      then obtain session where sess: "pr_session p = Some session" and keys: "keys" "\<not> pr_commit_sent p" by auto
      obtain fres c1 g1 where foc: "prepare_focus F c (rt_gate r) = (fres, c1, g1)"
        by (cases "prepare_focus F c (rt_gate r)") auto
      define r2 where "r2 = r\<lparr>rt_state := PreparingRemote (p\<lparr>pr_keys_released_seen := keys\<rparr>), rt_gate := g1\<rparr>"
      have "rt_gate r \<le> g1" using focus_gate [OF foc] by (rule gate_later_ge)
      then have mono: "rt_gate r \<le> g" if "rt_gate r2 \<le> g" for g
        using that by (simp add: r2_def)
      have r2: "rt_game_mode r2 = rt_game_mode r"
        "rt_state r2 = PreparingRemote (p\<lparr>pr_keys_released_seen := keys\<rparr>)" by (simp_all add: r2_def)
      obtain e3 r3 c3 where l3: "go_local P FocusUnavailable r2 c1 = (e3, r3, c3)"
        by (cases "go_local P FocusUnavailable r2 c1") auto
      obtain e4 r4 c4 where l4: "go_local P Emergency r2 c1 = (e4, r4, c4)"
        by (cases "go_local P Emergency r2 c1") auto
      have shape: "(res, r', c') =
          (case fres of
             Inl _ \<Rightarrow> (Inr e3, r3, c3)
           | Inr _ \<Rightarrow> if \<not> still_preparing (pr_request p) g1 then (Inr e4, r4, c4)
               else (Inr [EffCommit (pr_request p) session],
                 r2\<lparr>rt_state := PreparingRemote (p\<lparr>pr_keys_released_seen := keys, pr_commit_sent := True\<rparr>)\<rparr>, c1))"
        using assms PreparingRemote None sess keys foc l3 l4
        by (auto simp: router_advance_def Let_def r2_def split: sum.splits)
      show ?thesis
      proof (cases "(\<exists>e. fres = Inl e) \<or> \<not> still_preparing (pr_request p) g1")
        case True
        then have "(res = Inr e3 \<and> r' = r3) \<or> (res = Inr e4 \<and> r' = r4)"
          using shape by (auto split: sum.splits if_splits)
        with go_local_result [OF l3] go_local_result [OF l4] PreparingRemote r2 sess mono show ?thesis
          by (elim disjE) (auto intro!: returned)
      next
        case False
        then have "fres = Inr ()" "g1 = pr_request p"
          by (cases fres; auto simp: still_preparing_def)+
        with shape False PreparingRemote sess keys gate None foc show ?thesis
          by (intro commit [of p session]) (auto simp: r2_def still_preparing_def)
      qed
    qed
  qed
next
  case (RemoteActive peer session)
  show ?thesis
  proof (cases "is_local (rt_gate r)")
    case True
    obtain e1 r1 c1 where l1: "go_local P Emergency r c = (e1, r1, c1)" by (cases "go_local P Emergency r c") auto
    with assms RemoteActive True have "res = Inr e1" "r' = r1"
      by (simp_all add: router_advance_def)
    with go_local_result [OF l1] RemoteActive show ?thesis by (intro returned) simp_all
  next
    case False
    with assms RemoteActive show ?thesis by (intro idle) (simp_all add: router_advance_def)
  qed
qed (use assms in \<open>auto simp: router_advance_def intro: idle\<close>)

lemma advance_inv:
  assumes "router_inv r" and "router_advance P F now keys r c = (res, r', c')"
  shows "router_inv r'"
  using assms(2)
proof (cases rule: advance_cases)
  case (waiting p)
  with assms(1) show ?thesis by (auto simp: router_inv_def)
next
  case (commit p session)
  with assms(1) show ?thesis by (auto simp: router_inv_def)
qed (use assms(1) in simp_all)

end

end
