(* ===== verification/Handoff.thy ===== *)
theory Handoff
  imports Routing
begin

text \<open>
  The router as a state machine: its step relation with the emergency requests of other
  threads, the abstract hand-off it refines, and the properties of the hand-off.  The
  contracts of \<open>Routing\<close> are interpreted here on the fake ports of the source and on the
  racing port of its tests, which requests local control while the capture activates.
\<close>

section \<open>Steps and reachable states\<close>

text \<open>
  A step is one router call or one \<open>request_local\<close> by another thread, on the router,
  the capture port and the focus port.
\<close>

inductive router_step ::
  "'c capture_port \<Rightarrow> 'c focus_port \<Rightarrow> router \<times> 'c \<Rightarrow> router \<times> 'c \<Rightarrow> bool"
  for P :: "'c capture_port" and F :: "'c focus_port" where
  step_go_remote: "go_remote P peer now r c = (res, r', c') \<Longrightarrow>
     router_step P F (r, c) (r', c')"
| step_ready: "router_ready request session r = (res', r') \<Longrightarrow>
     router_step P F (r, c) (r', c)"
| step_advance: "router_advance P F now keys r c = (res, r', c') \<Longrightarrow>
     router_step P F (r, c) (r', c')"
| step_commit_ack: "commit_ack P request session now r c = (res', r', c') \<Longrightarrow>
     router_step P F (r, c) (r', c')"
| step_go_local: "go_local P reason r c = (effs, r', c') \<Longrightarrow>
     router_step P F (r, c) (r', c')"
| step_game_mode: "router_step P F (r, c) (set_game_mode enabled r, c)"
| step_emergency: "router_step P F (r, c) (router_emergency r, c)"

inductive router_reach ::
  "'c capture_port \<Rightarrow> 'c focus_port \<Rightarrow> router \<times> 'c \<Rightarrow> router \<times> 'c \<Rightarrow> bool"
  for P :: "'c capture_port" and F :: "'c focus_port" and s0 :: "router \<times> 'c" where
  reach_start: "router_reach P F s0 s0"
| reach_step: "router_reach P F s0 s \<Longrightarrow> router_step P F s t \<Longrightarrow> router_reach P F s0 t"

section \<open>The abstract hand-off\<close>

text \<open>
  What the hooks and the peer may rely on: a phase and a generation.  Remote control is
  entered only from the preparation of the current generation, every preparation takes a
  fresh generation, and anything may fall back to local.
\<close>

datatype handoff_phase = PhaseLocal | PhasePreparing | PhaseRemote

inductive handoff_spec :: "u64 \<times> handoff_phase \<Rightarrow> u64 \<times> handoff_phase \<Rightarrow> bool" where
  spec_stay: "handoff_spec a a"
| spec_return: "g \<le> g' \<Longrightarrow> handoff_spec (g, ph) (g', PhaseLocal)"
| spec_prepare: "g < g' \<Longrightarrow> handoff_spec (g, PhaseLocal) (g', PhasePreparing)"
| spec_activate: "handoff_spec (g, PhasePreparing) (g, PhaseRemote)"

inductive_simps handoff_spec_to_remote: "handoff_spec (g, ph) (g', PhaseRemote)"

definition router_phase :: "router \<Rightarrow> handoff_phase" where
  "router_phase r =
     (case rt_state r of
        PreparingRemote p \<Rightarrow> if rt_gate r = pr_request p then PhasePreparing else PhaseLocal
      | RemoteActive _ _ \<Rightarrow> if is_local (rt_gate r) then PhaseLocal else PhaseRemote
      | _ \<Rightarrow> PhaseLocal)"

definition router_abs :: "router \<Rightarrow> u64 \<times> handoff_phase" where
  "router_abs r = (rt_gate r OR 1, router_phase r)"

lemma or_one_mono: "a \<le> b \<Longrightarrow> a OR 1 \<le> (b OR 1 :: u64)"
  by (auto simp: word_le_nat_alt unat_or_one) presburger

lemma or_one_odd: "is_local g \<Longrightarrow> g OR 1 = g"
  by (simp add: word_unat_eq_iff unat_or_one is_local_iff_odd)

lemma or_one_and_not_one: "is_local g \<Longrightarrow> (g AND NOT 1) OR 1 = g"
proof -
  have "(g AND NOT 1) OR 1 = g OR 1" by (rule bit_word_eqI) (auto simp: bit_simps)
  then show "is_local g \<Longrightarrow> ?thesis" by (simp only: or_one_odd)
qed

lemma less_or_one: "a < request \<Longrightarrow> is_local request \<Longrightarrow> \<not> is_local a \<or> a OR 1 < request"
  by (auto simp: or_one_odd)

lemma local_state_phase: "is_local_state (rt_state r) \<Longrightarrow> router_phase r = PhaseLocal"
  by (cases "rt_state r") (simp_all add: router_phase_def)

lemma spec_to_local:
  assumes "rt_gate r \<le> rt_gate r'" and "is_local_state (rt_state r')"
  shows "handoff_spec (router_abs r) (router_abs r')"
  using or_one_mono [OF assms(1)] local_state_phase [OF assms(2)]
  by (simp add: router_abs_def spec_return)

lemma spec_same:
  assumes "rt_gate r' = rt_gate r" and "router_phase r' = router_phase r"
  shows "handoff_spec (router_abs r) (router_abs r')"
  using assms by (simp add: router_abs_def spec_stay)

lemma router_ready_abs:
  "handoff_spec (router_abs r) (router_abs (snd (router_ready request session r)))"
  by (cases "rt_state r")
    (auto simp: router_ready_def router_phase_def intro!: spec_same)

lemma set_game_mode_abs: "handoff_spec (router_abs r) (router_abs (set_game_mode e r))"
  by (cases "rt_state r")
    (auto simp: set_game_mode_def router_phase_def local_state_def Let_def intro!: spec_same)

lemma emergency_abs:
  assumes "router_inv r"
  shows "handoff_spec (router_abs r) (router_abs (router_emergency r))"
proof (cases "request_local (rt_gate r) = rt_gate r")
  case True
  then show ?thesis by (simp add: router_emergency_def spec_stay)
next
  case False
  with request_local_ge [of "rt_gate r"] have lt: "rt_gate r < request_local (rt_gate r)" by simp
  with assms have "router_phase (router_emergency r) = PhaseLocal"
    by (cases "rt_state r") (auto simp: router_phase_def router_emergency_def router_inv_def)
  moreover have "rt_gate r OR 1 \<le> rt_gate (router_emergency r) OR 1"
    using lt by (intro or_one_mono) (simp add: router_emergency_def)
  ultimately show ?thesis by (simp add: router_abs_def spec_return)
qed

context capture_contract begin

lemma go_remote_abs:
  assumes "router_inv r" and "go_remote P peer now r c = (res, r', c')"
  shows "handoff_spec (router_abs r) (router_abs r')"
  using assms(2)
proof (cases rule: go_remote_cases)
  case (prepared request deadline keys_deadline)
  note req = gate_reserve_InrD [OF prepared(4)]
  from prepared(3) assms(1) have "is_local (rt_gate r)"
    by (cases "rt_state r") (auto simp: router_inv_def)
  with less_or_one [OF req(4,2)] have "rt_gate r OR 1 < request" by simp
  with prepared req local_state_phase [OF prepared(3)] show ?thesis
    by (simp add: router_abs_def or_one_odd) (simp add: router_phase_def spec_prepare)
qed (auto intro: spec_to_local spec_stay)

lemma commit_ack_abs:
  assumes "router_inv r" and "commit_ack P request session now r c = (res, r', c')"
  shows "handoff_spec (router_abs r) (router_abs r')"
  using assms(2)
proof (cases rule: commit_ack_cases)
  case (active p c1)
  with assms(1) have "is_local request" by (auto simp: router_inv_def)
  then have "rt_gate r' OR 1 = request" "\<not> is_local (rt_gate r')" "request OR 1 = request"
    using active(10) or_one_and_not_one activated_not_local or_one_odd
    by (simp_all del: word_and_not)
  with active show ?thesis
    by (simp add: router_abs_def router_phase_def spec_activate)
qed (auto intro: spec_to_local spec_stay)

end

context handoff_contract begin

lemma advance_abs:
  assumes "router_advance P F now keys r c = (res, r', c')"
  shows "handoff_spec (router_abs r) (router_abs r')"
  using assms
  by (cases rule: advance_cases) (auto intro: spec_to_local spec_stay spec_same simp: router_phase_def)

lemma step_inv_abs:
  assumes "router_step P F s t" and "router_inv (fst s)"
  shows "router_inv (fst t) \<and> handoff_spec (router_abs (fst s)) (router_abs (fst t))"
  using assms
proof (induction rule: router_step.induct)
  case (step_go_remote peer now r c res r' c')
  then show ?case using go_remote_inv go_remote_abs by fastforce
next
  case (step_ready request session r res' r' c)
  then show ?case
    using router_ready_inv [of r request session] router_ready_abs [of r request session] by simp
next
  case (step_advance now keys r c res r' c')
  then show ?case using advance_inv advance_abs by fastforce
next
  case (step_commit_ack request session now r c res' r' c')
  then show ?case using commit_ack_inv commit_ack_abs by fastforce
next
  case (step_go_local reason r c effs r' c')
  from go_local_result [OF step_go_local(1)] show ?case by (simp add: spec_to_local)
next
  case (step_game_mode r c enabled)
  then show ?case by (simp add: set_game_mode_inv set_game_mode_abs)
next
  case (step_emergency r c)
  then show ?case by (simp add: router_inv_emergency emergency_abs)
qed

lemma reach_inv: "router_reach P F s t \<Longrightarrow> router_inv (fst s) \<Longrightarrow> router_inv (fst t)"
  by (induction rule: router_reach.induct) (use step_inv_abs in blast)+

lemma handoff_spec_mono: "handoff_spec a b \<Longrightarrow> fst a \<le> fst b"
  by (induction rule: handoff_spec.induct) auto

lemma reach_generation:
  "router_reach P F s t \<Longrightarrow> router_inv (fst s) \<Longrightarrow> fst (router_abs (fst s)) \<le> fst (router_abs (fst t))"
proof (induction rule: router_reach.induct)
  case (reach_step t u)
  then have "handoff_spec (router_abs (fst t)) (router_abs (fst u))"
    using reach_inv step_inv_abs by blast
  with reach_step show ?case using handoff_spec_mono order_trans by blast
qed simp

text \<open>A request the cell has moved past can never be acknowledged into remote control.\<close>

lemma cancelled_never_activates:
  assumes "router_inv r" and "rt_state r = PreparingRemote p" and "rt_gate r \<noteq> pr_request p"
    and "router_reach P F (r, c) (r', c')"
  shows "fst (commit_ack P (pr_request p) session now r' c') \<noteq> Inr ()"
proof
  assume ok: "fst (commit_ack P (pr_request p) session now r' c') = Inr ()"
  obtain r2 c2 where "commit_ack P (pr_request p) session now r' c' = (Inr (), r2, c2)"
    using ok by (cases "commit_ack P (pr_request p) session now r' c'") auto
  then have gate: "rt_gate r' = pr_request p"
    by (cases rule: commit_ack_cases) auto
  from assms(1-3) have lt: "pr_request p < rt_gate r" and odd: "is_local (pr_request p)" "is_local (rt_gate r)"
    by (auto simp: router_inv_def)
  have "rt_gate r \<le> rt_gate r' OR 1"
    using reach_generation [OF assms(4)] assms(1) odd by (simp add: router_abs_def or_one_odd)
  with gate lt odd show False by (simp add: or_one_odd)
qed

end

text \<open>The fake ports of the source satisfy the contracts; so does the racing port of its tests.\<close>

record racing_capture =
  rc_restored :: bool

definition racing_capture_port :: "racing_capture capture_port" where
  "racing_capture_port =
     \<lparr>prepare_capture = (\<lambda>c g. (Inr (), c, g)),
      activate_capture = (\<lambda>c g. (Inr (), c, request_local g)),
      request_local_restore = (\<lambda>c g. (c\<lparr>rc_restored := True\<rparr>, g))\<rparr>"

definition both_capture :: "(fake_capture \<times> fake_focus) capture_port" where
  "both_capture = capture_side fake_capture_port"

definition both_focus :: "('c \<times> fake_focus) focus_port" where
  "both_focus = focus_side fake_focus_port"

lemmas both_defs = both_capture_def both_focus_def capture_side_def focus_side_def fake_capture_port_def fake_focus_port_def

interpretation fake_ports: handoff_contract both_capture both_focus
  by unfold_locales (auto simp: both_defs)

interpretation racing_ports: handoff_contract "capture_side racing_capture_port" both_focus
  by unfold_locales (auto simp: both_defs racing_capture_port_def)

section \<open>Properties\<close>

text \<open>C2. In every state the router reaches, under any interleaving with other threads'
  emergency requests, the cancellation cell shows remote only while the router is in
  \<open>RemoteActive\<close> with a non-zero session: hooks never swallow input otherwise.\<close>

theorem router_remote_only_when_active:
  assumes "handoff_contract P F" and "router_reach P F (router_default, c0) (r, c)"
    and "\<not> is_local (rt_gate r)"
  shows "\<exists>peer session. rt_state r = RemoteActive peer session \<and> session \<noteq> 0"
proof -
  have "router_inv r" using handoff_contract.reach_inv [OF assms(1,2)] by simp
  with assms(3) show ?thesis by (cases "rt_state r") (auto simp: router_inv_def)
qed

text \<open>A run on the source's fake ports that ends in remote control, for the witnesses.\<close>

definition demo_peer :: string where "demo_peer = ''mac''"

definition demo_preparing :: preparing where
  "demo_preparing =
     \<lparr>pr_peer = demo_peer, pr_request = 3, pr_deadline_ms = 2500, pr_keys_deadline_ms = 1500,
      pr_keys_released_seen = False, pr_session = None, pr_commit_sent = False\<rparr>"

definition demo_router :: "preparing \<Rightarrow> router" where
  "demo_router p = router_default\<lparr>rt_gate := 3, rt_state := PreparingRemote p\<rparr>"

definition demo_ready :: preparing where
  "demo_ready = demo_preparing\<lparr>pr_session := Some 7\<rparr>"

definition demo_committed :: preparing where
  "demo_committed = demo_ready\<lparr>pr_keys_released_seen := True, pr_commit_sent := True\<rparr>"

definition demo_active :: router where
  "demo_active = router_default\<lparr>rt_gate := 2, rt_state := RemoteActive demo_peer 7\<rparr>"

definition demo_capture :: "nat \<Rightarrow> nat \<Rightarrow> fake_capture" where
  "demo_capture prepared activated =
     fake_capture_default\<lparr>fc_prepared := prepared, fc_activated := activated\<rparr>"

definition demo_focus :: "nat \<Rightarrow> fake_focus" where
  "demo_focus n = fake_focus_default\<lparr>ff_attempts := n\<rparr>"

definition demo_ports :: "nat \<Rightarrow> nat \<Rightarrow> nat \<Rightarrow> fake_capture \<times> fake_focus" where
  "demo_ports prepared activated attempts = (demo_capture prepared activated, demo_focus attempts)"

lemmas demo_defs =
  demo_preparing_def demo_router_def demo_ready_def demo_committed_def demo_active_def
  demo_capture_def demo_focus_def demo_ports_def router_default_def router_with_gate_def gate_default_def
  fake_capture_default_def fake_focus_default_def fake_result_def

lemma demo_peer_ok [simp]: "\<not> is_blank demo_peer" "length demo_peer = 3"
  by code_simp+

lemma demo_go_remote:
  "go_remote both_capture demo_peer 0 router_default (demo_ports 0 0 0)
     = (Inr [EffPrepare demo_peer 3], demo_router demo_preparing, demo_ports 1 0 0)"
  by (simp add: go_remote_def demo_defs checked_add_def gate_reserve_def still_preparing_def
      both_defs HANDOFF_TIMEOUT_MS_def KEYS_RELEASE_TIMEOUT_MS_def)

lemma demo_router_ready:
  "router_ready 3 7 (demo_router demo_preparing) = (Inr (), demo_router demo_ready)"
  by (simp add: router_ready_def demo_defs still_preparing_def)

lemma demo_advance:
  "router_advance both_capture both_focus 1 True (demo_router demo_ready)
       (demo_ports 1 0 0)
     = (Inr [EffCommit 3 7], demo_router demo_committed, demo_ports 1 0 1)"
  by (simp add: router_advance_def advance_reason_def demo_defs still_preparing_def
      both_defs word_le_nat_alt)

lemma demo_commit_ack:
  "commit_ack both_capture 3 7 2 (demo_router demo_committed) (demo_ports 1 0 1)
     = (Inr (), demo_active, demo_ports 1 1 1)"
  by (simp add: commit_ack_def demo_defs still_preparing_def gate_activate_def
      both_defs word_le_nat_alt)

lemma demo_committed_reach:
  "router_reach both_capture both_focus (router_default, demo_ports 0 0 0)
     (demo_router demo_committed, demo_ports 1 0 1)"
  by (rule reach_step [OF reach_step [OF reach_step [OF reach_start step_go_remote [OF demo_go_remote]]
        step_ready [OF demo_router_ready]] step_advance [OF demo_advance]])

lemma demo_active_reach:
  "router_reach both_capture both_focus (router_default, demo_ports 0 0 0)
     (demo_active, demo_ports 1 1 1)"
  by (rule reach_step [OF demo_committed_reach step_commit_ack [OF demo_commit_ack]])

lemma demo_router_inv [simp]: "router_inv (demo_router demo_committed)"
  by (simp add: router_inv_def demo_defs is_local_def word_less_nat_alt unsigned_minus_1_eq_mask
      mask_eq_exp_minus_1)

theorem router_remote_only_when_active_witness:
  "\<exists>peer session. rt_state demo_active = RemoteActive peer session \<and> session \<noteq> 0"
proof -
  have "\<not> is_local (rt_gate demo_active)" by (simp add: demo_defs is_local_def)
  with router_remote_only_when_active [OF fake_ports.handoff_contract_axioms demo_active_reach]
  show ?thesis by simp
qed

text \<open>C25. The router refines the abstract hand-off: every step from a reachable state is a
  step of \<open>handoff_spec\<close>, so remote control is only ever entered from the preparation of
  the newest generation and every preparation takes a fresh one.\<close>

theorem router_refines_handoff:
  assumes "handoff_contract P F" and "router_reach P F (router_default, c0) s"
    and "router_step P F s t"
  shows "handoff_spec (router_abs (fst s)) (router_abs (fst t))"
  using handoff_contract.step_inv_abs [OF assms(1,3)] handoff_contract.reach_inv [OF assms(1,2)]
  by simp

theorem router_refines_handoff_witness:
  "handoff_spec (router_abs demo_active) (router_abs (router_emergency demo_active))"
  using router_refines_handoff [OF fake_ports.handoff_contract_axioms demo_active_reach step_emergency]
  by simp

text \<open>Emergency wins: once the cell has moved past the request of a preparation, no
  acknowledgement of that request, however late and after whatever run, enters remote
  control.\<close>

theorem cancelled_request_never_activates:
  assumes "handoff_contract P F" and "router_inv r" and "rt_state r = PreparingRemote p"
    and "rt_gate r \<noteq> pr_request p" and "router_reach P F (r, c) (r', c')"
  shows "fst (commit_ack P (pr_request p) session now r' c') \<noteq> Inr ()"
  using handoff_contract.cancelled_never_activates [OF assms] .

theorem cancelled_request_never_activates_witness:
  "fst (commit_ack both_capture 3 7 2 (router_emergency (demo_router demo_committed))
     (demo_ports 1 0 0)) \<noteq> Inr ()"
proof -
  let ?r = "router_emergency (demo_router demo_committed)"
  have st: "rt_state ?r = PreparingRemote demo_committed"
    by (simp add: router_emergency_def demo_router_def)
  have inv: "router_inv ?r" by (rule router_inv_emergency) simp
  have ne: "rt_gate ?r \<noteq> pr_request demo_committed"
    by (simp add: router_emergency_def request_local_def saturating_add_def demo_defs)
  have "pr_request demo_committed = 3" by (simp add: demo_defs)
  with cancelled_request_never_activates [OF fake_ports.handoff_contract_axioms inv st ne reach_start]
  show ?thesis by simp
qed

text \<open>A commit acknowledgement enters remote control exactly when the preparation it
  answers is the current one, its session is the offered one, a commit was sent, the
  deadline has not passed, the platform activates its capture, and the cell shows the
  request before and after that activation.\<close>

theorem commit_ack_activates_iff:
  assumes "capture_contract P" and "router_inv r"
  shows "commit_ack P request session now r c = (Inr (), r', c') \<longleftrightarrow>
    (\<exists>p. rt_state r = PreparingRemote p \<and> pr_request p = request \<and> pr_session p = Some session
      \<and> pr_commit_sent p \<and> now < pr_deadline_ms p \<and> rt_gate r = request
      \<and> activate_capture P c request = (Inr (), c', request)
      \<and> r' = r\<lparr>rt_gate := request AND NOT 1, rt_state := RemoteActive (pr_peer p) session\<rparr>)"
    (is "?lhs \<longleftrightarrow> ?rhs")
proof
  assume ?lhs
  then show ?rhs by (cases rule: capture_contract.commit_ack_cases [OF assms(1)]) auto
next
  assume ?rhs
  then obtain p where p: "rt_state r = PreparingRemote p" "pr_request p = request"
    "pr_session p = Some session" "pr_commit_sent p" "now < pr_deadline_ms p" "rt_gate r = request"
    "activate_capture P c request = (Inr (), c', request)"
    "r' = r\<lparr>rt_gate := request AND NOT 1, rt_state := RemoteActive (pr_peer p) session\<rparr>"
    by blast
  with assms(2) have "request \<noteq> - 1" by (auto simp: router_inv_def)
  with p show ?lhs by (simp add: commit_ack_def gate_activate_def still_preparing_def not_le [symmetric])
qed

theorem commit_ack_activates_iff_witness:
  "\<exists>r' c'. commit_ack both_capture 3 7 2 (demo_router demo_committed) (demo_ports 1 0 1)
     = (Inr (), r', c')"
proof -
  have act: "activate_capture both_capture (demo_ports 1 0 1) 3 = (Inr (), demo_ports 1 1 1, 3)"
    by (simp add: both_defs demo_defs)
  have st: "rt_state (demo_router demo_committed) = PreparingRemote demo_committed"
    "rt_gate (demo_router demo_committed) = 3" "pr_request demo_committed = 3"
    "pr_session demo_committed = Some 7" "pr_commit_sent demo_committed"
    "(2::u64) < pr_deadline_ms demo_committed"
    by (simp_all add: demo_defs word_less_nat_alt)
  show ?thesis
    using commit_ack_activates_iff [OF fake_ports.capture_contract_axioms demo_router_inv, of 3 7 2 "demo_ports 1 0 1"]
      act st by blast
qed

text \<open>A commit is offered at most once per preparation, and only when the peer is ready,
  the physical keys are released, no deadline has passed and nobody has cancelled.\<close>

lemma commit_offered_only_when_ready:
  assumes "handoff_contract P F" and "router_advance P F now keys r c = (Inr effs, r', c')"
    and "EffCommit q session \<in> set effs"
  shows "\<exists>p. rt_state r = PreparingRemote p \<and> q = pr_request p \<and> pr_session p = Some session
    \<and> keys \<and> \<not> pr_commit_sent p \<and> rt_gate r = q \<and> now < pr_deadline_ms p
    \<and> (pr_keys_released_seen p \<or> now < pr_keys_deadline_ms p)
    \<and> rt_state r' = PreparingRemote (p\<lparr>pr_keys_released_seen := True, pr_commit_sent := True\<rparr>)"
  using assms(2)
proof (cases rule: handoff_contract.advance_cases [OF assms(1), consumes 1,
    case_names idle waiting commit returned])
  case (commit p s)
  with assms(3) show ?thesis
    by (auto simp: advance_reason_def still_preparing_def split: if_splits)
next
  case (returned es reason)
  with assms(3) show ?thesis
    by (cases "rt_state r") (auto split: option.splits)
qed (use assms(3) in auto)

theorem commit_offered_only_when_ready_witness:
  "\<exists>p. rt_state (demo_router demo_ready) = PreparingRemote p \<and> pr_session p = Some 7
     \<and> (1::u64) < pr_deadline_ms p"
  using commit_offered_only_when_ready [OF fake_ports.handoff_contract_axioms demo_advance, of 3 7]
  by auto

lemma gate_reserve_fresh:
  assumes "is_local g" and "g < - 3"
  shows "(g + 2) OR 1 < - 1" and "is_local ((g + 2) OR 1)"
    and "gate_reserve g = (Inr ((g + 2) OR 1), (g + 2) OR 1)"
proof -
  have "unat (- 3 :: u64) = 18446744073709551613" by simp
  with assms(2) have lt: "unat g < 18446744073709551613" by (simp add: word_less_nat_alt)
  then have "unat g + unat (2 :: u64) < 2 ^ LENGTH(64)" by simp
  then have c2: "checked_add g 2 = Some (g + 2)"
    by (simp only: checked_add_def uint_sum_less if_True)
  have u: "unat ((g + 2) OR 1) = unat g + 2"
    using assms(1) checked_add_unat [OF c2] by (simp add: unat_or_one is_local_iff_odd del: unat_plus_simple)
  have max: "unat (- 1 :: u64) = 18446744073709551615"
    by (simp add: unsigned_minus_1_eq_mask mask_eq_exp_minus_1)
  show q1: "(g + 2) OR 1 < - 1" using lt by (simp only: word_less_nat_alt u max)
  show "is_local ((g + 2) OR 1)" by (simp add: is_local_iff_odd unat_or_one)
  from q1 show "gate_reserve g = (Inr ((g + 2) OR 1), (g + 2) OR 1)"
    by (simp only: gate_reserve_def c2 option.case if_True)
qed

lemma handoff_deadlines:
  assumes "unat (now :: u64) + 2500 < 2 ^ 64"
  shows "checked_add now HANDOFF_TIMEOUT_MS = Some (now + 2500)"
    and "checked_add now KEYS_RELEASE_TIMEOUT_MS = Some (now + 1500)"
    and "now + 1500 \<le> now + 2500"
proof -
  have "unat now + unat (2500 :: u64) < 2 ^ LENGTH(64)" "unat now + unat (1500 :: u64) < 2 ^ LENGTH(64)"
    using assms by simp_all
  then show d: "checked_add now HANDOFF_TIMEOUT_MS = Some (now + 2500)"
    "checked_add now KEYS_RELEASE_TIMEOUT_MS = Some (now + 1500)"
    by (simp_all only: checked_add_def uint_sum_less HANDOFF_TIMEOUT_MS_def KEYS_RELEASE_TIMEOUT_MS_def if_True)
  show "now + 1500 \<le> now + 2500"
    using checked_add_unat [OF d(1)] checked_add_unat [OF d(2)]
    by (simp only: word_le_nat_alt HANDOFF_TIMEOUT_MS_def KEYS_RELEASE_TIMEOUT_MS_def) simp
qed

text \<open>The hand-off completes: from a local state with generations left, a reply before
  the deadlines on ports that neither fail nor see an emergency takes the router through
  prepare, ready, commit and acknowledgement into remote control.\<close>

theorem handoff_completes:
  assumes "router_inv r" and "is_local_state (rt_state r)" and "rt_gate r < - 3"
    and "\<not> is_blank peer" and "length peer \<le> 256" and "session \<noteq> 0"
    and "unat now + 2500 < 2 ^ 64" and "now1 < now + 1500" and "now2 < now + 2500"
    and "\<And>g. \<exists>c1 c2 c3. prepare_capture P c g = (Inr (), c1, g) \<and> prepare_focus F c1 g = (Inr (), c2, g)
      \<and> activate_capture P c2 g = (Inr (), c3, g)"
  shows "\<exists>q r1 c1 r2 r3 c3 r4 c4.
    go_remote P peer now r c = (Inr [EffPrepare peer q], r1, c1)
    \<and> router_ready q session r1 = (Inr (), r2)
    \<and> router_advance P F now1 True r2 c1 = (Inr [EffCommit q session], r3, c3)
    \<and> commit_ack P q session now2 r3 c3 = (Inr (), r4, c4)
    \<and> rt_state r4 = RemoteActive peer session \<and> \<not> is_local (rt_gate r4)"
proof -
  let ?q = "(rt_gate r + 2) OR 1"
  let ?p = "\<lparr>pr_peer = peer, pr_request = ?q, pr_deadline_ms = now + 2500,
    pr_keys_deadline_ms = now + 1500, pr_keys_released_seen = False, pr_session = None,
    pr_commit_sent = False\<rparr>"
  have odd: "is_local (rt_gate r)" using assms(1,2) by (cases "rt_state r") (auto simp: router_inv_def)
  note fresh = gate_reserve_fresh [OF odd assms(3)]
  note d = handoff_deadlines [OF assms(7)]
  from assms(8) d(3) have d1: "now1 < now + 2500" by (rule less_le_trans)
  obtain c1 c3 c4 where prep: "prepare_capture P c ?q = (Inr (), c1, ?q)"
    and foc: "prepare_focus F c1 ?q = (Inr (), c3, ?q)"
    and act: "activate_capture P c3 ?q = (Inr (), c4, ?q)" using assms(10) by blast
  define r1 where "r1 = r\<lparr>rt_gate := ?q, rt_state := PreparingRemote ?p\<rparr>"
  define r2 where "r2 = r\<lparr>rt_gate := ?q, rt_state := PreparingRemote (?p\<lparr>pr_session := Some session\<rparr>)\<rparr>"
  define r3 where "r3 = r\<lparr>rt_gate := ?q, rt_state := PreparingRemote
    (?p\<lparr>pr_session := Some session, pr_keys_released_seen := True, pr_commit_sent := True\<rparr>)\<rparr>"
  define r4 where "r4 = r\<lparr>rt_gate := ?q AND NOT 1, rt_state := RemoteActive peer session\<rparr>"
  have "go_remote P peer now r c = (Inr [EffPrepare peer ?q], r1, c1)"
    using assms(2,4,5) d(1,2) fresh(3) prep
    by (cases "rt_state r") (simp_all add: go_remote_def still_preparing_def r1_def Let_def)
  moreover have "router_ready ?q session r1 = (Inr (), r2)"
    using assms(6) by (simp add: router_ready_def still_preparing_def r1_def r2_def)
  moreover have "router_advance P F now1 True r2 c1 = (Inr [EffCommit ?q session], r3, c3)"
    using d1 assms(8) foc
    by (simp add: not_le [symmetric] router_advance_def advance_reason_def still_preparing_def r2_def r3_def Let_def)
  moreover have "commit_ack P ?q session now2 r3 c3 = (Inr (), r4, c4)"
    using assms(9) act fresh(1)
    by (auto simp: not_le [symmetric] commit_ack_def still_preparing_def gate_activate_def r3_def r4_def Let_def)
  moreover have "rt_state r4 = RemoteActive peer session" "\<not> is_local (rt_gate r4)"
    using activated_not_local [OF fresh(2)] by (simp_all add: r4_def)
  ultimately show ?thesis by blast
qed

theorem handoff_completes_witness:
  "\<exists>q r1 c1. go_remote both_capture demo_peer 0 router_default (demo_ports 0 0 0)
     = (Inr [EffPrepare demo_peer q], r1, c1)"
proof -
  have "\<exists>c1 c2 c3. prepare_capture both_capture (demo_ports 0 0 0) g = (Inr (), c1, g)
      \<and> prepare_focus both_focus c1 g = (Inr (), c2, g) \<and> activate_capture both_capture c2 g = (Inr (), c3, g)" for g
    by (simp add: both_defs demo_defs)
  moreover have "rt_gate router_default < - 3" "is_local_state (rt_state router_default)"
    by (simp_all add: demo_defs word_less_nat_alt)
  ultimately show ?thesis
    using handoff_completes [OF router_inv_default, of demo_peer 7 0 0 1 both_capture
        "demo_ports 0 0 0" both_focus]
    by (auto simp: word_less_nat_alt)
qed

end
