(* ===== verification/Game_Mode.thy ===== *)
theory Game_Mode
  imports Handoff
begin

text \<open>
  The control hotkeys of \<open>game_mode.rs\<close>: a deduper that turns key repeat into one press,
  a one-place slot that keeps the pending action of highest priority, and the dispatch
  that requests local control on the shared cell before it queues anything.  A
  \<open>try_lock\<close> that may fail because another thread holds the mutex is the boolean
  argument \<open>lock_free\<close>.  The deduper refines a set of held actions (\<open>held_step\<close>).
\<close>

section \<open>Cells\<close>

record game_cells =
  gm_local_game_mode :: bool
  gm_focus_fault :: "string option"
  gm_fault_poisoned :: bool

definition set_local_game_mode :: "bool \<Rightarrow> game_cells \<Rightarrow> game_cells" where
  "set_local_game_mode enabled g = g\<lparr>gm_local_game_mode := enabled\<rparr>"

definition local_game_mode_enabled :: "game_cells \<Rightarrow> bool" where
  "local_game_mode_enabled g = gm_local_game_mode g"

definition set_focus_fault :: "string option \<Rightarrow> game_cells \<Rightarrow> game_cells" where
  "set_focus_fault detail g = (if gm_fault_poisoned g then g else g\<lparr>gm_focus_fault := detail\<rparr>)"

definition focus_fault :: "game_cells \<Rightarrow> string option" where
  "focus_fault g = (if gm_fault_poisoned g then None else gm_focus_fault g)"

section \<open>Hotkey actions\<close>

datatype control_hotkey_action = GoMac | GoLocal | EmergencyLocal

fun action_bit :: "control_hotkey_action \<Rightarrow> u8" where
  "action_bit GoMac = 1"
| "action_bit GoLocal = push_bit 1 1"
| "action_bit EmergencyLocal = push_bit 2 1"

fun action_priority :: "control_hotkey_action \<Rightarrow> u8" where
  "action_priority GoMac = 1"
| "action_priority GoLocal = 2"
| "action_priority EmergencyLocal = 3"

definition deduper_press :: "control_hotkey_action \<Rightarrow> u8 \<Rightarrow> bool \<times> u8" where
  "deduper_press action d = (d AND action_bit action = 0, d OR action_bit action)"

definition deduper_release :: "control_hotkey_action \<Rightarrow> u8 \<Rightarrow> u8" where
  "deduper_release action d = d AND NOT (action_bit action)"

definition slot_offer ::
  "bool \<Rightarrow> control_hotkey_action \<Rightarrow> control_hotkey_action option
     \<Rightarrow> bool \<times> control_hotkey_action option" where
  "slot_offer lock_free action pending =
     (if \<not> lock_free then (False, pending)
      else (True,
        if (case pending of None \<Rightarrow> True
            | Some current \<Rightarrow> action_priority action \<ge> action_priority current)
        then Some action else pending))"

definition slot_take ::
  "bool \<Rightarrow> control_hotkey_action option
     \<Rightarrow> control_hotkey_action option \<times> control_hotkey_action option" where
  "slot_take lock_free pending = (if lock_free then (pending, None) else (None, pending))"

record hotkeys =
  hot_deduper :: u8
  hot_pending :: "control_hotkey_action option"
  hot_gate :: u64

definition dispatch_control_hotkey ::
  "bool \<Rightarrow> control_hotkey_action \<Rightarrow> bool \<Rightarrow> hotkeys \<Rightarrow> bool \<times> hotkeys" where
  "dispatch_control_hotkey lock_free action pressed h =
     (if \<not> pressed then (False, h\<lparr>hot_deduper := deduper_release action (hot_deduper h)\<rparr>)
      else
        (let (fresh, d) = deduper_press action (hot_deduper h); h1 = h\<lparr>hot_deduper := d\<rparr> in
         if \<not> fresh then (False, h1)
         else
           (let h2 = (if action \<in> {GoLocal, EmergencyLocal}
                      then h1\<lparr>hot_gate := request_local (hot_gate h1)\<rparr> else h1);
                (offered, p) = slot_offer lock_free action (hot_pending h2)
            in (offered, h2\<lparr>hot_pending := p\<rparr>))))"

section \<open>The deduper as a set of held actions\<close>

definition held_actions :: "u8 \<Rightarrow> control_hotkey_action set" where
  "held_actions d = {a. d AND action_bit a \<noteq> 0}"

fun held_step :: "control_hotkey_action \<Rightarrow> bool \<Rightarrow> control_hotkey_action set
    \<Rightarrow> control_hotkey_action set" where
  "held_step a True H = insert a H"
| "held_step a False H = H - {a}"

fun action_index :: "control_hotkey_action \<Rightarrow> nat" where
  "action_index GoMac = 0"
| "action_index GoLocal = 1"
| "action_index EmergencyLocal = 2"

lemma action_index_inj [simp]: "action_index a = action_index b \<longleftrightarrow> a = b"
  by (cases a; cases b) simp_all

lemma action_bit_eq: "action_bit a = push_bit (action_index a) 1"
  by (cases a) (simp_all add: action_bit.simps)

lemma action_index_less: "action_index a < 8"
  by (cases a) simp_all

declare action_bit.simps [simp del]

lemma bit_action_bit: "bit (action_bit a) n \<longleftrightarrow> n = action_index a"
  using action_index_less [of a]
  by (auto simp: action_bit_eq bit_exp_iff)

lemma and_action_bit: "d AND action_bit a \<noteq> 0 \<longleftrightarrow> bit d (action_index a)"
proof -
  have "d AND action_bit a = 0 \<longleftrightarrow> (\<forall>n. \<not> bit (d AND action_bit a) n)"
    by (metis bit_0_eq bot_apply bot_bool_def bit_eqI)
  then show ?thesis by (auto simp: bit_and_iff bit_action_bit)
qed

lemma held_press: "held_actions (d OR action_bit a) = insert a (held_actions d)"
  by (auto simp: held_actions_def and_action_bit bit_or_iff bit_action_bit)

lemma held_release: "held_actions (d AND NOT (action_bit a)) = held_actions d - {a}"
  using action_index_less
  by (auto simp: held_actions_def and_action_bit bit_and_iff bit_not_iff bit_action_bit)

lemma dispatch_held:
  assumes "dispatch_control_hotkey lock a pressed h = (offered, h')"
  shows "held_actions (hot_deduper h') = held_step a pressed (held_actions (hot_deduper h))"
  using assms
  by (cases pressed)
    (auto simp: dispatch_control_hotkey_def deduper_press_def deduper_release_def Let_def
      held_press held_release split: if_splits prod.splits)

lemma dispatch_accepts_iff:
  assumes "dispatch_control_hotkey lock a pressed h = (offered, h')"
  shows "offered \<longleftrightarrow> pressed \<and> lock \<and> a \<notin> held_actions (hot_deduper h)"
  using assms
  by (auto simp: dispatch_control_hotkey_def deduper_press_def slot_offer_def held_actions_def Let_def
      split: if_splits prod.splits)

section \<open>Runs of hotkey events\<close>

text \<open>An event is the lock outcome, the action and whether the key went down.\<close>

type_synonym hotkey_event = "bool \<times> control_hotkey_action \<times> bool"

fun dispatch_run :: "hotkey_event list \<Rightarrow> hotkeys \<Rightarrow> bool list \<times> hotkeys" where
  "dispatch_run [] h = ([], h)"
| "dispatch_run ((lock, a, pressed) # evs) h =
     (let (ok, h1) = dispatch_control_hotkey lock a pressed h; (oks, h2) = dispatch_run evs h1
      in (ok # oks, h2))"

text \<open>What a user expects: a press counts once until the key is released.\<close>

fun fires_spec :: "hotkey_event list \<Rightarrow> control_hotkey_action set \<Rightarrow> bool list" where
  "fires_spec [] H = []"
| "fires_spec ((lock, a, pressed) # evs) H =
     (pressed \<and> lock \<and> a \<notin> H) # fires_spec evs (held_step a pressed H)"

lemma dispatch_run_refines:
  "fst (dispatch_run evs h) = fires_spec evs (held_actions (hot_deduper h))"
proof (induction evs arbitrary: h)
  case (Cons ev evs)
  obtain lock a pressed where ev: "ev = (lock, a, pressed)" by (cases ev)
  obtain ok h1 where one: "dispatch_control_hotkey lock a pressed h = (ok, h1)" by fastforce
  from Cons.IH [of h1] dispatch_held [OF one] dispatch_accepts_iff [OF one] ev one show ?case
    by (auto simp: Let_def split: prod.splits)
qed simp

lemma held_actions_zero [simp]: "held_actions 0 = {}"
  by (simp add: held_actions_def)

text \<open>The priority of the pending action, 0 for none.\<close>

definition pending_priority :: "control_hotkey_action option \<Rightarrow> u8" where
  "pending_priority p = (case p of None \<Rightarrow> 0 | Some a \<Rightarrow> action_priority a)"

lemma action_priority_pos [simp]: "0 < action_priority a"
  by (cases a) simp_all

lemma slot_offer_priority:
  assumes "slot_offer lock a p = (ok, p')"
  shows "pending_priority p' = (if ok then max (pending_priority p) (action_priority a) else pending_priority p)"
    and "ok = lock"
  using assms
  by (auto simp: slot_offer_def pending_priority_def max_def not_le split: if_splits option.splits)

lemma dispatch_pending:
  assumes "dispatch_control_hotkey lock a pressed h = (ok, h')"
  shows "pending_priority (hot_pending h') =
    (if ok then max (pending_priority (hot_pending h)) (action_priority a)
     else pending_priority (hot_pending h))"
proof (cases "pressed \<and> hot_deduper h AND action_bit a = 0")
  case True
  obtain ok2 p2 where offer: "slot_offer lock a (hot_pending h) = (ok2, p2)" by fastforce
  with True assms have "ok = ok2" "hot_pending h' = p2"
    by (auto simp: dispatch_control_hotkey_def deduper_press_def Let_def split: if_splits)
  with slot_offer_priority [OF offer] show ?thesis by simp
next
  case False
  with assms have "\<not> ok" "hot_pending h' = hot_pending h"
    by (auto simp: dispatch_control_hotkey_def deduper_press_def Let_def split: if_splits)
  then show ?thesis by simp
qed

fun accepted_priorities :: "hotkey_event list \<Rightarrow> bool list \<Rightarrow> u8 list" where
  "accepted_priorities ((lock, a, pressed) # evs) (ok # oks) =
     (if ok then action_priority a # accepted_priorities evs oks else accepted_priorities evs oks)"
| "accepted_priorities _ _ = []"

lemma dispatch_run_pending:
  assumes "dispatch_run evs h = (oks, h')"
  shows "pending_priority (hot_pending h')
    = fold max (accepted_priorities evs oks) (pending_priority (hot_pending h))"
  using assms
proof (induction evs arbitrary: h oks h')
  case (Cons ev evs)
  obtain lock a pressed where ev: "ev = (lock, a, pressed)" by (cases ev)
  obtain ok h1 where one: "dispatch_control_hotkey lock a pressed h = (ok, h1)" by fastforce
  obtain oks' h2 where rest: "dispatch_run evs h1 = (oks', h2)" by fastforce
  with Cons.prems ev one have "oks = ok # oks'" "h2 = h'" by simp_all
  with Cons.IH [OF rest] dispatch_pending [OF one] ev show ?case by (simp add: max.commute)
qed simp

section \<open>Properties\<close>

text \<open>Key repeat is harmless: along any run of hotkey events from a fresh deduper, an
  event is offered to the pending slot exactly when it is a press, the slot's lock is free
  and the action has not been pressed since its last release.\<close>

theorem hotkey_fires_once:
  assumes "hot_deduper h = 0"
  shows "fst (dispatch_run evs h) = fires_spec evs {}"
  using assms by (simp add: dispatch_run_refines)

definition demo_hotkeys :: hotkeys where
  "demo_hotkeys = \<lparr>hot_deduper = 0, hot_pending = None, hot_gate = 2\<rparr>"

definition demo_hotkey_run :: "hotkey_event list" where
  "demo_hotkey_run =
     [(True, GoMac, True), (True, GoMac, True), (True, EmergencyLocal, True),
      (True, GoMac, False), (True, GoMac, True)]"

theorem hotkey_fires_once_witness:
  "fst (dispatch_run demo_hotkey_run demo_hotkeys) = [True, False, True, False, True]"
proof -
  have "hot_deduper demo_hotkeys = 0" by (simp add: demo_hotkeys_def)
  then have "fst (dispatch_run demo_hotkey_run demo_hotkeys) = fires_spec demo_hotkey_run {}"
    by (rule hotkey_fires_once)
  then show ?thesis by (simp add: demo_hotkey_run_def)
qed

text \<open>Until it is taken, the pending action has the highest priority of all actions that
  were accepted: a later \<open>GoMac\<close> never replaces a pending return, and an emergency is
  never replaced by anything else.\<close>

lemma pending_keeps_highest_priority:
  assumes "dispatch_run evs h = (oks, h')"
  shows "pending_priority (hot_pending h')
    = fold max (accepted_priorities evs oks) (pending_priority (hot_pending h))"
  using assms by (rule dispatch_run_pending)

theorem pending_keeps_highest_priority_witness:
  "\<exists>oks h'. dispatch_run demo_hotkey_run demo_hotkeys = (oks, h')
     \<and> pending_priority (hot_pending h') = 3"
proof -
  obtain oks h' where run: "dispatch_run demo_hotkey_run demo_hotkeys = (oks, h')" by fastforce
  then have oks: "oks = [True, False, True, False, True]"
    using dispatch_run_refines [of demo_hotkey_run demo_hotkeys]
    by (simp add: demo_hotkey_run_def demo_hotkeys_def)
  from pending_keeps_highest_priority [OF run] oks run show ?thesis
    by (simp add: demo_hotkey_run_def demo_hotkeys_def pending_priority_def max_def word_le_nat_alt)
qed

lemma request_passed:
  assumes "is_local q" and "q < - 1" and "q \<le> g"
  shows "\<not> still_preparing q (request_local g)"
proof -
  have "q < - 2" using assms(1,2) by (rule odd_below_max)
  moreover have "g < request_local g \<or> - 2 \<le> g" using request_local_greater [of g] by (auto simp: not_le)
  moreover have "g \<le> request_local g" by (rule request_local_ge)
  ultimately show ?thesis using assms(3) by (auto simp: still_preparing_def)
qed

text \<open>C33. An emergency hotkey takes control back: a fresh press of \<open>EmergencyLocal\<close> makes the
  cell local at once, even when the slot's lock is held, and the router's next tick, from
  any preparation or remote control, ends in a local state with the emergency reason and
  tells the peer.\<close>

theorem emergency_hotkey_returns_local:
  assumes "handoff_contract P F" and "router_inv r" and "\<not> is_local_state (rt_state r)"
    and "EmergencyLocal \<notin> held_actions (hot_deduper h)" and "hot_gate h = rt_gate r"
    and "dispatch_control_hotkey lock EmergencyLocal True h = (ok, h')"
    and "router_advance P F now keys (r\<lparr>rt_gate := hot_gate h'\<rparr>) c = (res, r', c')"
  shows "is_local (hot_gate h') \<and> is_local_state (rt_state r') \<and> is_local (rt_gate r')
    \<and> rt_last_return r' = Some Emergency \<and> res = Inr (return_effects (rt_state r) Emergency)"
proof -
  let ?r = "r\<lparr>rt_gate := hot_gate h'\<rparr>"
  have "hot_deduper h AND action_bit EmergencyLocal = 0"
    using assms(4) by (simp add: held_actions_def)
  with assms(6) have gate: "hot_gate h' = request_local (rt_gate r)"
    by (auto simp: dispatch_control_hotkey_def deduper_press_def assms(5) Let_def split: prod.splits)
  obtain effs r2 c2 where home: "go_local P Emergency ?r c = (effs, r2, c2)"
    by (cases "go_local P Emergency ?r c") auto
  have "router_advance P F now keys ?r c = (Inr effs, r2, c2)"
  proof (cases "rt_state r")
    case (PreparingRemote p)
    with assms(2) have "\<not> still_preparing (pr_request p) (hot_gate h')"
      using request_passed [of "pr_request p" "rt_gate r"] by (simp add: router_inv_def gate)
    with PreparingRemote home show ?thesis by (simp add: router_advance_def advance_reason_def)
  next
    case (RemoteActive peer session)
    with home show ?thesis by (simp add: router_advance_def gate)
  next
    case (ReturningLocal reason)
    with assms(2) show ?thesis by (simp add: router_inv_def)
  qed (use assms(3) in simp_all)
  with assms(7) have "res = Inr effs" "r' = r2" by simp_all
  with capture_contract.go_local_result [OF handoff_contract.axioms(1) [OF assms(1)] home] gate
  show ?thesis by simp
qed

theorem emergency_hotkey_returns_local_witness:
  "\<exists>res r' c'. router_advance both_capture both_focus 9 True
       (demo_active\<lparr>rt_gate := request_local 2\<rparr>) (demo_ports 1 1 1) = (res, r', c')
     \<and> res = Inr [EffEnd 7 Emergency]"
proof -
  obtain ok h' where press: "dispatch_control_hotkey False EmergencyLocal True demo_hotkeys = (ok, h')"
    by fastforce
  then have gate: "hot_gate h' = request_local 2"
    by (auto simp: dispatch_control_hotkey_def deduper_press_def demo_hotkeys_def slot_offer_def Let_def)
  obtain res r' c' where adv: "router_advance both_capture both_focus 9 True
       (demo_active\<lparr>rt_gate := hot_gate h'\<rparr>) (demo_ports 1 1 1) = (res, r', c')"
    by (metis prod_cases3)
  have st: "\<not> is_local_state (rt_state demo_active)" "hot_gate demo_hotkeys = rt_gate demo_active"
    "EmergencyLocal \<notin> held_actions (hot_deduper demo_hotkeys)"
    by (simp_all add: demo_active_def demo_hotkeys_def)
  have inv: "router_inv demo_active"
    using fake_ports.reach_inv [OF demo_active_reach] by simp
  from emergency_hotkey_returns_local [OF fake_ports.handoff_contract_axioms inv st(1,3,2) press adv]
  show ?thesis using adv gate by (simp add: demo_active_def)
qed

end
