(* ===== verification/Protocol_Types.thy ===== *)
theory Protocol_Types
  imports Shared_Input
begin

text \<open>
  The data of the V2 protocol (\<open>protocol_v2.rs\<close>): identifiers, clipboard operations,
  critical and motion frames, control frames and errors, and the validation every frame
  passes before it is encoded and after it is decoded.  A \<open>[u8; N]\<close> array is the list of
  its bytes; \<open>wf_boot\<close> and \<open>wf_session\<close> state the lengths the Rust types fix.
\<close>

section \<open>Identifiers and limits\<close>

definition PROTOCOL_MAJOR :: u16 where "PROTOCOL_MAJOR = 2"
definition MAX_CONTROL_FRAME_BYTES :: nat where "MAX_CONTROL_FRAME_BYTES = 16384"
definition MAX_CRITICAL_FRAME_BYTES :: nat where "MAX_CRITICAL_FRAME_BYTES = 4096"
definition MAX_MOTION_FRAME_BYTES :: nat where "MAX_MOTION_FRAME_BYTES = 1024"
definition MAX_BULK_FRAME_BYTES :: nat where "MAX_BULK_FRAME_BYTES = 50331648"
definition MAGIC :: u32 where "MAGIC = 0x4D4B5632"
definition INPUT_MAGIC :: u32 where "INPUT_MAGIC = 0x4D4B4932"
definition MOTION_MAGIC :: u32 where "MOTION_MAGIC = 0x4D4B4D32"
definition BULK_MAGIC :: u32 where "BULK_MAGIC = 0x4D4B4232"
definition MAX_PEER_ID_BYTES :: nat where "MAX_PEER_ID_BYTES = 256"
definition MAX_CAPABILITIES :: nat where "MAX_CAPABILITIES = 32"
definition MAX_CAPABILITY_BYTES :: nat where "MAX_CAPABILITY_BYTES = 64"
definition MAX_DETAIL_BYTES :: nat where "MAX_DETAIL_BYTES = 512"
definition MAX_CLIPBOARD_IMAGE_RGBA_BYTES :: nat where
  "MAX_CLIPBOARD_IMAGE_RGBA_BYTES = 33554432"
definition REQUIRED_CAPABILITIES :: "string list" where
  "REQUIRED_CAPABILITIES = [''control_v2'', ''input_v2'']"

lemmas protocol_limits =
  PROTOCOL_MAJOR_def MAX_CONTROL_FRAME_BYTES_def MAX_CRITICAL_FRAME_BYTES_def
  MAX_MOTION_FRAME_BYTES_def MAX_BULK_FRAME_BYTES_def MAX_PEER_ID_BYTES_def
  MAX_CAPABILITIES_def MAX_CAPABILITY_BYTES_def MAX_DETAIL_BYTES_def
  MAX_CLIPBOARD_IMAGE_RGBA_BYTES_def REQUIRED_CAPABILITIES_def

lemmas protocol_magics = MAGIC_def INPUT_MAGIC_def MOTION_MAGIC_def BULK_MAGIC_def

datatype device_role = RoleController | RoleReceiver

datatype boot_id = BootId (boot_bytes: "u8 list")

record session_id =
  controller_boot :: boot_id
  receiver_boot :: boot_id
  nonce :: "u8 list"

definition zero16 :: "u8 list" where
  "zero16 = replicate 16 0"

definition wf_boot :: "boot_id \<Rightarrow> bool" where
  "wf_boot b \<longleftrightarrow> length (boot_bytes b) = 16"

definition wf_session :: "session_id \<Rightarrow> bool" where
  "wf_session s \<longleftrightarrow> wf_boot (controller_boot s) \<and> wf_boot (receiver_boot s)
     \<and> length (nonce s) = 16"

section \<open>Clipboard operations\<close>

record clipboard_operation_id =
  op_boot_id :: boot_id
  op_local_sequence :: u64

record clipboard_text_operation =
  ct_operation_id :: clipboard_operation_id
  ct_origin_peer :: string
  ct_system_revision :: u64
  ct_lamport :: u64
  ct_digest :: "u8 list"
  ct_text :: string

record clipboard_image_operation =
  ci_operation_id :: clipboard_operation_id
  ci_origin_peer :: string
  ci_system_revision :: u64
  ci_lamport :: u64
  ci_digest :: "u8 list"
  ci_width :: u32
  ci_height :: u32
  ci_rgba_base64 :: string

datatype clipboard_bulk_operation =
    BulkText clipboard_text_operation
  | BulkImage clipboard_image_operation

section \<open>Frames\<close>

datatype critical_button = CLeft | CRight | CMiddle | CBack | CForward

datatype critical_event =
    CKey (ck_key_code: u16) (ck_scan_code: u16) (ck_extended: bool) (ck_down: bool)
  | CButton (cb_button: critical_button) (cb_down: bool) (cb_x: i32) (cb_y: i32)
      (cb_motion_sequence: u64)
  | CScroll (cs_delta_x: i32) (cs_delta_y: i32) (cs_x: i32) (cs_y: i32)
      (cs_motion_sequence: u64)

record critical_frame =
  cf_session_id :: session_id
  cf_sequence :: u64
  cf_event :: critical_event

record motion_frame =
  mf_session_id :: session_id
  mf_display_id :: string
  mf_layout_revision :: u64
  mf_sequence :: u64
  mf_required_reliable_sequence :: u64
  mf_x :: i32
  mf_y :: i32

datatype control_frame =
    Hello (hello_boot: boot_id) (hello_peer: string) (hello_role: device_role)
      (hello_capabilities: "string list")
  | Prepare (prepare_request: u64) (prepare_display: string) (prepare_revision: u64)
  | Ready (ready_request: u64) (ready_boot: boot_id) (ready_input: bool)
      (ready_display: string) (ready_revision: u64)
  | Commit (commit_request: u64) (commit_session: session_id)
  | CommitAck (commit_ack_session: session_id)
  | EndSession (end_session: session_id) (end_reason: string)
  | Ping (ping_session: session_id) (ping_sequence_no: u64)
  | Pong (pong_session: session_id) (pong_sequence_no: u64) (pong_highest_applied: u64)
  | Reject (reject_code: string) (reject_detail: string)

record envelope =
  env_magic :: u32
  env_major :: u16
  env_frame :: control_frame

record critical_envelope =
  cenv_magic :: u32
  cenv_major :: u16
  cenv_frame :: critical_frame

record motion_envelope =
  menv_magic :: u32
  menv_major :: u16
  menv_frame :: motion_frame

record bulk_envelope =
  benv_magic :: u32
  benv_major :: u16
  benv_operation :: clipboard_bulk_operation

datatype protocol_error =
    FrameTooLarge nat
  | InvalidLength
  | Truncated
  | Decode
  | InvalidMagic
  | UnsupportedMajor u16
  | InvalidField string
  | InvalidTransition
  | WrongBoot
  | WrongSession
  | WrongRole
  | RandomUnavailable

section \<open>Random identifiers\<close>

text \<open>
  The system random generator is outside the program: \<open>fill\<close> is the outcome of one
  \<open>SystemRandom::fill\<close> call, \<open>None\<close> for an error, else the 16 bytes it wrote.
\<close>

definition boot_generate :: "u8 list option \<Rightarrow> (protocol_error, boot_id) result" where
  "boot_generate fill =
     bind_result (ok_or RandomUnavailable fill) (\<lambda>value.
       if value = zero16 then Inl RandomUnavailable else Inr (BootId value))"

definition session_generate ::
  "u8 list option \<Rightarrow> boot_id \<Rightarrow> boot_id \<Rightarrow> (protocol_error, session_id) result" where
  "session_generate fill c r =
     bind_result (ok_or RandomUnavailable fill) (\<lambda>value.
       if value = zero16 then Inl RandomUnavailable
       else Inr \<lparr>controller_boot = c, receiver_boot = r, nonce = value\<rparr>)"

lemma session_generate_InrD:
  assumes "session_generate fill c r = Inr s"
  shows "fill = Some (nonce s)" and "controller_boot s = c" and "receiver_boot s = r"
    and "nonce s \<noteq> zero16"
  using assms by (auto simp: session_generate_def split: if_splits)

section \<open>Validation\<close>

definition validate_session :: "session_id \<Rightarrow> (protocol_error, unit) result" where
  "validate_session s =
     reject_if (boot_bytes (controller_boot s) = zero16 \<or> boot_bytes (receiver_boot s) = zero16
       \<or> nonce s = zero16) (InvalidField ''session_id'')"

definition validate_text :: "string \<Rightarrow> nat \<Rightarrow> string \<Rightarrow> (protocol_error, unit) result" where
  "validate_text value limit field =
     reject_if (is_blank value \<or> length value > limit) (InvalidField field)"

fun validate_critical_event :: "critical_event \<Rightarrow> (protocol_error, unit) result" where
  "validate_critical_event (CKey key_code scan_code extended down) =
     reject_if (key_code = 0 \<and> scan_code = 0) (InvalidField ''key_code'')"
| "validate_critical_event (CButton button down x y motion_sequence) =
     reject_if (motion_sequence = 0) (InvalidField ''motion_sequence'')"
| "validate_critical_event (CScroll delta_x delta_y x y motion_sequence) =
     and_then (reject_if (motion_sequence = 0) (InvalidField ''motion_sequence''))
       (reject_if (delta_x = 0 \<and> delta_y = 0) (InvalidField ''scroll_delta''))"

definition validate_critical :: "critical_frame \<Rightarrow> (protocol_error, unit) result" where
  "validate_critical f =
     and_then (validate_session (cf_session_id f))
       (and_then (reject_if (cf_sequence f = 0) (InvalidField ''sequence''))
         (validate_critical_event (cf_event f)))"

definition validate_motion :: "motion_frame \<Rightarrow> (protocol_error, unit) result" where
  "validate_motion f =
     and_then (validate_session (mf_session_id f))
       (and_then (validate_text (mf_display_id f) MAX_PEER_ID_BYTES ''display_id'')
         (and_then (reject_if (mf_layout_revision f = 0) (InvalidField ''layout_revision''))
           (reject_if (mf_sequence f = 0) (InvalidField ''motion_sequence''))))"

fun validate_capabilities :: "string list \<Rightarrow> (protocol_error, unit) result" where
  "validate_capabilities [] = Inr ()"
| "validate_capabilities (c # cs) =
     and_then (validate_text c MAX_CAPABILITY_BYTES ''capability'') (validate_capabilities cs)"

fun validate_frame :: "control_frame \<Rightarrow> (protocol_error, unit) result" where
  "validate_frame (Hello boot peer_id role capabilities) =
     and_then (validate_text peer_id MAX_PEER_ID_BYTES ''peer_id'')
       (and_then (reject_if (length capabilities > MAX_CAPABILITIES) (InvalidField ''capabilities''))
         (and_then (validate_capabilities capabilities)
           (reject_if (\<not> list_all (\<lambda>required. required \<in> set capabilities) REQUIRED_CAPABILITIES)
             (InvalidField ''capabilities''))))"
| "validate_frame (Prepare request_id target_display layout_revision) =
     and_then (reject_if (request_id = 0) (InvalidField ''request_id''))
       (and_then (validate_text target_display MAX_PEER_ID_BYTES ''target_display'')
         (reject_if (layout_revision = 0) (InvalidField ''layout_revision'')))"
| "validate_frame (Ready request_id boot input_ready target_display layout_revision) =
     and_then (reject_if (request_id = 0) (InvalidField ''request_id''))
       (and_then (validate_text target_display MAX_PEER_ID_BYTES ''target_display'')
         (reject_if (layout_revision = 0) (InvalidField ''layout_revision'')))"
| "validate_frame (Commit request_id session) =
     and_then (reject_if (request_id = 0) (InvalidField ''request_id'')) (validate_session session)"
| "validate_frame (CommitAck session) = validate_session session"
| "validate_frame (Ping session _) = validate_session session"
| "validate_frame (Pong session _ _) = validate_session session"
| "validate_frame (EndSession session reason) =
     and_then (validate_session session) (validate_text reason MAX_DETAIL_BYTES ''reason'')"
| "validate_frame (Reject code detail) =
     and_then (validate_text code MAX_CAPABILITY_BYTES ''code'')
       (validate_text detail MAX_DETAIL_BYTES ''detail'')"

lemma validate_session_Inr [simp]:
  "validate_session s = Inr u \<longleftrightarrow> boot_bytes (controller_boot s) \<noteq> zero16
     \<and> boot_bytes (receiver_boot s) \<noteq> zero16 \<and> nonce s \<noteq> zero16"
  by (auto simp: validate_session_def)

lemma validate_text_Inr [simp]:
  "validate_text v n f = Inr u \<longleftrightarrow> \<not> is_blank v \<and> length v \<le> n"
  by (auto simp: validate_text_def)

lemma validate_critical_InrD:
  assumes "validate_critical f = Inr u"
  shows "cf_sequence f \<noteq> 0" and "validate_session (cf_session_id f) = Inr ()"
    and "validate_critical_event (cf_event f) = Inr ()"
  using assms by (simp_all add: validate_critical_def del: validate_session_Inr)

end
