(* ===== verification/Frame_Stream.thy ===== *)
theory Frame_Stream
  imports Protocol_Types
begin

text \<open>
  The streaming frame decoder of \<open>protocol_v2.rs\<close>: a four-byte big-endian length and a
  payload, over chunks of any size.  \<open>ControlDecoder\<close> and \<open>CriticalDecoder\<close> are the same
  loop with another limit and payload decoder, which are its arguments here.  The
  reference is \<open>parse_stream\<close>, which parses the whole concatenated stream at once; the
  locale \<open>frame_stream\<close> proves that the loop computes it chunk by chunk, so results do
  not depend on how the transport cuts the stream.
\<close>

section \<open>Big-endian lengths\<close>

definition u32_be_bytes :: "nat \<Rightarrow> u8 list" where
  "u32_be_bytes n = rev (u32_le_bytes n)"

definition u32_from_be_bytes :: "u8 list \<Rightarrow> nat" where
  "u32_from_be_bytes bs = u32_from_le_bytes (rev bs)"

lemma length_u32_be_bytes [simp]: "length (u32_be_bytes n) = 4"
  by (simp add: u32_be_bytes_def)

lemma u32_be_roundtrip: "n < 4294967296 \<Longrightarrow> u32_from_be_bytes (u32_be_bytes n) = n"
  using u32_le_roundtrip [of n "[]"] by (simp add: u32_be_bytes_def u32_from_be_bytes_def)

section \<open>The decoder loop\<close>

record frame_decoder =
  fd_prefix :: "u8 list"
  fd_prefix_len :: nat
  fd_expected :: "nat option"
  fd_payload :: "u8 list"

definition decoder_default :: frame_decoder where
  "decoder_default =
     \<lparr>fd_prefix = [0, 0, 0, 0], fd_prefix_len = 0, fd_expected = None, fd_payload = []\<rparr>"

definition decoder_reset :: "frame_decoder \<Rightarrow> frame_decoder" where
  "decoder_reset d = d\<lparr>fd_prefix_len := 0, fd_expected := None, fd_payload := []\<rparr>"

text \<open>
  The first half of an iteration, \<open>if self.expected.is_none() { .. }\<close>: the answer is
  \<open>Inr False\<close> for the \<open>continue\<close> and \<open>Inr True\<close> when the payload is read next.
\<close>

definition read_prefix ::
  "nat \<Rightarrow> frame_decoder \<Rightarrow> u8 list \<Rightarrow> (protocol_error, bool) result \<times> frame_decoder \<times> u8 list" where
  "read_prefix limit d bytes =
     (case fd_expected d of
        Some _ \<Rightarrow> (Inr True, d, bytes)
      | None \<Rightarrow>
          (let n = fd_prefix_len d;
               tk = min (4 - n) (length bytes);
               d1 = d\<lparr>fd_prefix := take n (fd_prefix d) @ take tk bytes @ drop (n + tk) (fd_prefix d),
                      fd_prefix_len := n + tk\<rparr>;
               rest = drop tk bytes
           in if fd_prefix_len d1 < 4 then (Inr False, d1, rest)
              else
                (let len = u32_from_be_bytes (fd_prefix d1) in
                 if len = 0 then (Inl InvalidLength, decoder_reset d1, rest)
                 else if len > limit then (Inl (FrameTooLarge len), decoder_reset d1, rest)
                 else (Inr True, d1\<lparr>fd_expected := Some len, fd_payload := []\<rparr>, rest))))"

definition read_payload :: "nat \<Rightarrow> frame_decoder \<Rightarrow> u8 list \<Rightarrow> frame_decoder \<times> u8 list" where
  "read_payload expected d bytes =
     (let tk = min (expected - length (fd_payload d)) (length bytes)
      in (d\<lparr>fd_payload := fd_payload d @ take tk bytes\<rparr>, drop tk bytes))"

text \<open>
  \<open>None\<close> is a loop that never returns or the panic of \<open>expect\<close>; neither happens from a
  well-formed decoder.
\<close>

partial_function (option) decoder_loop ::
  "nat \<Rightarrow> (u8 list \<Rightarrow> (protocol_error, 'f) result) \<Rightarrow> 'f list \<Rightarrow> frame_decoder \<Rightarrow> u8 list
     \<Rightarrow> ((protocol_error, 'f list) result \<times> frame_decoder) option" where
  "decoder_loop limit decode decoded d bytes =
     (if bytes = [] then Some (Inr decoded, d)
      else (case read_prefix limit d bytes of (phase, d1, rest) \<Rightarrow>
        (case phase of
           Inl e \<Rightarrow> Some (Inl e, d1)
         | Inr cont \<Rightarrow>
             if \<not> cont then decoder_loop limit decode decoded d1 rest
             else (case fd_expected d1 of
               None \<Rightarrow> None
             | Some expected \<Rightarrow>
                 (case read_payload expected d1 rest of (d2, rest2) \<Rightarrow>
                    if length (fd_payload d2) = expected then
                      (case decode (fd_payload d2) of
                         Inl e \<Rightarrow> Some (Inl e, d2)
                       | Inr frame \<Rightarrow>
                           decoder_loop limit decode (decoded @ [frame]) (decoder_reset d2) rest2)
                    else decoder_loop limit decode decoded d2 rest2)))))"

definition decoder_push ::
  "nat \<Rightarrow> (u8 list \<Rightarrow> (protocol_error, 'f) result) \<Rightarrow> frame_decoder \<Rightarrow> u8 list
     \<Rightarrow> ((protocol_error, 'f list) result \<times> frame_decoder) option" where
  "decoder_push limit decode d bytes = decoder_loop limit decode [] d bytes"

definition decoder_finish :: "frame_decoder \<Rightarrow> (protocol_error, unit) result" where
  "decoder_finish d =
     (if fd_prefix_len d = 0 \<and> fd_expected d = None then Inr () else Inl Truncated)"

text \<open>A reader that pushes chunk after chunk and stops at the first error.\<close>

fun push_chunks ::
  "nat \<Rightarrow> (u8 list \<Rightarrow> (protocol_error, 'f) result) \<Rightarrow> frame_decoder \<Rightarrow> u8 list list
     \<Rightarrow> ((protocol_error, 'f list) result \<times> frame_decoder) option" where
  "push_chunks limit decode d [] = Some (Inr [], d)"
| "push_chunks limit decode d (c # cs) =
     (case decoder_push limit decode d c of
        None \<Rightarrow> None
      | Some (Inl e, d1) \<Rightarrow> Some (Inl e, d1)
      | Some (Inr frames, d1) \<Rightarrow>
          (case push_chunks limit decode d1 cs of
             None \<Rightarrow> None
           | Some (Inl e, d2) \<Rightarrow> Some (Inl e, d2)
           | Some (Inr frames', d2) \<Rightarrow> Some (Inr (frames @ frames'), d2)))"

section \<open>The reference parser\<close>

text \<open>
  The frames of a whole stream, the error that stops it, and the bytes of the frame that
  is not complete yet.
\<close>

function parse_stream ::
  "nat \<Rightarrow> (u8 list \<Rightarrow> (protocol_error, 'f) result) \<Rightarrow> u8 list
     \<Rightarrow> 'f list \<times> protocol_error option \<times> u8 list" where
  "parse_stream limit decode bs =
     (if length bs < 4 then ([], None, bs)
      else
        (let len = u32_from_be_bytes (take 4 bs); rest = drop 4 bs in
         if len = 0 then ([], Some InvalidLength, [])
         else if len > limit then ([], Some (FrameTooLarge len), [])
         else if length rest < len then ([], None, bs)
         else case decode (take len rest) of
             Inl e \<Rightarrow> ([], Some e, take (4 + len) bs)
           | Inr frame \<Rightarrow>
               (let (frames, err, left) = parse_stream limit decode (drop len rest)
                in (frame # frames, err, left))))"
  by pat_completeness auto
termination by (relation "measure (\<lambda>(_, _, bs). length bs)") auto

declare parse_stream.simps [simp del]

definition stream_result :: "'f list \<times> protocol_error option \<times> u8 list \<Rightarrow> (protocol_error, 'f list) result" where
  "stream_result p = (case p of (frames, None, _) \<Rightarrow> Inr frames | (_, Some e, _) \<Rightarrow> Inl e)"

section \<open>Well-formed decoders\<close>

text \<open>
  \<open>decoder_buffer\<close> is the part of an incomplete frame a decoder holds.  A decoder that
  failed to decode a payload keeps it: it is \<open>poisoned\<close>.
\<close>

definition wf_decoder :: "nat \<Rightarrow> frame_decoder \<Rightarrow> bool" where
  "wf_decoder limit d \<longleftrightarrow>
     length (fd_prefix d) = 4 \<and>
     (case fd_expected d of
        None \<Rightarrow> fd_prefix_len d < 4 \<and> fd_payload d = []
      | Some n \<Rightarrow> fd_prefix_len d = 4 \<and> n = u32_from_be_bytes (fd_prefix d) \<and> 0 < n \<and> n \<le> limit
          \<and> length (fd_payload d) < n)"

definition decoder_buffer :: "frame_decoder \<Rightarrow> u8 list" where
  "decoder_buffer d = take (fd_prefix_len d) (fd_prefix d) @ fd_payload d"

definition poisoned :: "(u8 list \<Rightarrow> (protocol_error, 'f) result) \<Rightarrow> frame_decoder \<Rightarrow> protocol_error \<Rightarrow> bool" where
  "poisoned decode d e \<longleftrightarrow> fd_expected d = Some (length (fd_payload d)) \<and> decode (fd_payload d) = Inl e"

lemma wf_decoder_default [simp]: "wf_decoder limit decoder_default" "decoder_buffer decoder_default = []"
  by (simp_all add: wf_decoder_def decoder_default_def decoder_buffer_def)

lemma decoder_reset_simps [simp]:
  "fd_prefix_len (decoder_reset d) = 0" "fd_expected (decoder_reset d) = None"
  "fd_payload (decoder_reset d) = []" "fd_prefix (decoder_reset d) = fd_prefix d"
  by (simp_all add: decoder_reset_def)

lemma wf_decoder_reset [simp]: "length (fd_prefix d) = 4 \<Longrightarrow> wf_decoder limit (decoder_reset d)"
  by (simp add: wf_decoder_def)

lemma decoder_buffer_reset [simp]: "decoder_buffer (decoder_reset d) = []"
  by (simp add: decoder_buffer_def)

text \<open>A well-formed decoder holds less than one frame of at most \<open>limit\<close> bytes.\<close>

lemma decoder_buffer_bound: "wf_decoder limit d \<Longrightarrow> length (decoder_buffer d) < 4 + max 1 limit"
  by (auto simp: wf_decoder_def decoder_buffer_def split: option.splits)

lemma decoder_finish_iff:
  "wf_decoder limit d \<Longrightarrow> decoder_finish d = Inr () \<longleftrightarrow> decoder_buffer d = []"
  by (auto simp: wf_decoder_def decoder_finish_def decoder_buffer_def split: option.splits)

lemma read_payload_partial:
  assumes "wf_decoder limit d" and "fd_expected d = Some n" and "length (fd_payload d) + length bytes < n"
  shows "\<exists>d2. read_payload n d bytes = (d2, []) \<and> wf_decoder limit d2
    \<and> length (fd_payload d2) \<noteq> n \<and> decoder_buffer d2 = decoder_buffer d @ bytes"
  using assms by (simp add: read_payload_def wf_decoder_def decoder_buffer_def Let_def)

lemma read_payload_complete:
  assumes "wf_decoder limit d" and "fd_expected d = Some n" and "\<not> length (fd_payload d) + length bytes < n"
  shows "\<exists>d2. read_payload n d bytes = (d2, drop (n - length (fd_payload d)) bytes)
    \<and> length (fd_prefix d2) = 4 \<and> fd_expected d2 = Some n
    \<and> fd_payload d2 = take n (fd_payload d @ bytes) \<and> length (fd_payload d2) = n"
  using assms by (auto simp: read_payload_def wf_decoder_def Let_def min_def)

lemma read_prefix_partial:
  assumes "wf_decoder limit d" and "fd_expected d = None" and "fd_prefix_len d + length bytes < 4"
  shows "\<exists>d1. read_prefix limit d bytes = (Inr False, d1, []) \<and> wf_decoder limit d1
    \<and> decoder_buffer d1 = decoder_buffer d @ bytes"
  using assms by (simp add: read_prefix_def wf_decoder_def decoder_buffer_def Let_def)

lemma read_prefix_complete:
  assumes "wf_decoder limit d" and "fd_expected d = None" and "\<not> fd_prefix_len d + length bytes < 4"
  defines "pre \<equiv> take 4 (decoder_buffer d @ bytes)" and "rest \<equiv> drop (4 - fd_prefix_len d) bytes"
  shows "length pre = 4 \<and> decoder_buffer d @ bytes = pre @ rest \<and> read_prefix limit d bytes =
    (let d1 = d\<lparr>fd_prefix := pre, fd_prefix_len := 4\<rparr>; len = u32_from_be_bytes pre in
     if len = 0 then (Inl InvalidLength, decoder_reset d1, rest)
     else if len > limit then (Inl (FrameTooLarge len), decoder_reset d1, rest)
     else (Inr True, d1\<lparr>fd_expected := Some len, fd_payload := []\<rparr>, rest))"
proof -
  from assms(1,2) have wf: "length (fd_prefix d) = 4" "fd_prefix_len d < 4" "fd_payload d = []"
    by (simp_all add: wf_decoder_def)
  with assms(3) have tk: "min (4 - fd_prefix_len d) (length bytes) = 4 - fd_prefix_len d" by simp
  have pre: "pre = take (fd_prefix_len d) (fd_prefix d) @ take (4 - fd_prefix_len d) bytes"
    using wf by (simp add: pre_def decoder_buffer_def)
  have "length pre = 4" using wf assms(3) by (simp add: pre_def decoder_buffer_def)
  moreover have "decoder_buffer d @ bytes = pre @ rest"
    using wf by (simp add: pre rest_def decoder_buffer_def)
  moreover have "n + (4 - n) = 4" if "n < 4" for n :: nat using that by simp
  ultimately show ?thesis using wf tk
    by (simp add: read_prefix_def assms(2) pre rest_def Let_def)
qed

section \<open>The loop computes the reference\<close>

locale frame_stream =
  fixes limit :: nat and decode :: "u8 list \<Rightarrow> (protocol_error, 'f) result"
  assumes limit_fits: "limit < 4294967296"
begin

lemma loop_nil [simp]: "decoder_loop limit decode acc d [] = Some (Inr acc, d)"
  by (subst decoder_loop.simps) simp

text \<open>Once the length is known an iteration is the payload half.\<close>

lemma loop_after_prefix:
  assumes "bytes \<noteq> []" and "read_prefix limit d bytes = (Inr True, d1, rest)"
    and "fd_expected d1 = Some n" and "length (fd_payload d1) < n"
  shows "decoder_loop limit decode acc d bytes = decoder_loop limit decode acc d1 rest"
proof -
  have again: "read_prefix limit d1 rest = (Inr True, d1, rest)" using assms(3) by (simp add: read_prefix_def)
  show ?thesis
  proof (cases "rest = []")
    case True
    have "read_payload n d1 [] = (d1, [])" by (simp add: read_payload_def)
    with assms True show ?thesis by (subst decoder_loop.simps) simp
  next
    case False
    show ?thesis
      by (subst decoder_loop.simps, subst (3) decoder_loop.simps) (simp add: assms again False)
  qed
qed

definition loop_ends ::
  "'f list \<Rightarrow> 'f list \<times> protocol_error option \<times> u8 list
     \<Rightarrow> ((protocol_error, 'f list) result \<times> frame_decoder) option \<Rightarrow> bool" where
  "loop_ends acc p out \<longleftrightarrow>
     (case p of (frames, err, left) \<Rightarrow>
        (case err of
           None \<Rightarrow> (\<exists>d'. out = Some (Inr (acc @ frames), d') \<and> wf_decoder limit d' \<and> decoder_buffer d' = left)
         | Some e \<Rightarrow> (\<exists>d'. out = Some (Inl e, d')
             \<and> (wf_decoder limit d' \<and> decoder_buffer d' = [] \<or> poisoned decode d' e))))"

lemma parse_complete:
  assumes "length pre = 4" and "u32_from_be_bytes pre = n" and "0 < n" and "n \<le> limit" and "n \<le> length rest"
  shows "parse_stream limit decode (pre @ rest) =
    (case decode (take n rest) of
       Inl e \<Rightarrow> ([], Some e, pre @ take n rest)
     | Inr frame \<Rightarrow> (let (frames, err, left) = parse_stream limit decode (drop n rest)
         in (frame # frames, err, left)))"
  using assms by (subst parse_stream.simps) (cases "decode (take n rest)"; simp add: not_less)

lemma parse_partial:
  assumes "length pre = 4" and "u32_from_be_bytes pre = n" and "0 < n" and "n \<le> limit" and "length rest < n"
  shows "parse_stream limit decode (pre @ rest) = ([], None, pre @ rest)"
  using assms by (subst parse_stream.simps) simp

lemma loop_payload:
  assumes wf: "wf_decoder limit d" and exp: "fd_expected d = Some n"
    and IH: "\<And>acc d' bytes'. length bytes' < length bytes \<Longrightarrow> wf_decoder limit d' \<Longrightarrow>
      loop_ends acc (parse_stream limit decode (decoder_buffer d' @ bytes')) (decoder_loop limit decode acc d' bytes')"
  shows "loop_ends acc (parse_stream limit decode (decoder_buffer d @ bytes)) (decoder_loop limit decode acc d bytes)"
proof -
  let ?pl = "fd_payload d"
  from wf exp have pre: "length (fd_prefix d) = 4" "u32_from_be_bytes (fd_prefix d) = n" "0 < n" "n \<le> limit"
    "length ?pl < n" and buf: "decoder_buffer d @ bytes = fd_prefix d @ (?pl @ bytes)"
    by (simp_all add: wf_decoder_def decoder_buffer_def)
  have start: "read_prefix limit d bytes = (Inr True, d, bytes)" using exp by (simp add: read_prefix_def)
  show ?thesis
  proof (cases "length ?pl + length bytes < n")
    case True
    then have parse: "parse_stream limit decode (fd_prefix d @ (?pl @ bytes)) = ([], None, fd_prefix d @ (?pl @ bytes))"
      using pre by (intro parse_partial) simp_all
    obtain d2 where d2: "read_payload n d bytes = (d2, [])" "wf_decoder limit d2"
      "length (fd_payload d2) \<noteq> n" "decoder_buffer d2 = decoder_buffer d @ bytes"
      using read_payload_partial [OF wf exp True] by blast
    show ?thesis
    proof (cases "bytes = []")
      case True
      then show ?thesis using parse wf buf by (simp add: loop_ends_def)
    next
      case False
      then have "decoder_loop limit decode acc d bytes = Some (Inr acc, d2)"
        by (subst decoder_loop.simps) (simp add: start exp d2)
      then show ?thesis using parse d2 buf by (simp add: loop_ends_def)
    qed
  next
    case False
    define pay where "pay = take n (?pl @ bytes)"
    define rest where "rest = drop (n - length ?pl) bytes"
    obtain d2 where d2: "read_payload n d bytes = (d2, rest)"
      "length (fd_prefix d2) = 4" "fd_expected d2 = Some n" "fd_payload d2 = pay" "length pay = n"
      using read_payload_complete [OF wf exp False] unfolding pay_def rest_def by metis
    have ne: "bytes \<noteq> []" using False pre by auto
    have "drop n (?pl @ bytes) = rest" "n \<le> length (?pl @ bytes)"
      using pre False by (simp_all add: rest_def)
    then have parse: "parse_stream limit decode (fd_prefix d @ (?pl @ bytes)) =
      (case decode pay of
         Inl e \<Rightarrow> ([], Some e, fd_prefix d @ pay)
       | Inr frame \<Rightarrow> (let (frames, err, left) = parse_stream limit decode rest
           in (frame # frames, err, left)))"
      using parse_complete [OF pre(1-4), of "?pl @ bytes"] by (simp only: pay_def)
    show ?thesis
    proof (cases "decode pay")
      case (Inl e)
      with ne d2 have "decoder_loop limit decode acc d bytes = Some (Inl e, d2)"
        by (subst decoder_loop.simps) (simp add: start exp)
      with parse Inl d2 buf show ?thesis by (simp add: loop_ends_def poisoned_def)
    next
      case (Inr frame)
      have "length rest < length bytes" using ne pre by (simp add: rest_def length_greater_0_conv [symmetric] del: length_greater_0_conv)
      from IH [OF this, of "decoder_reset d2" "acc @ [frame]"] d2
      have "loop_ends (acc @ [frame]) (parse_stream limit decode rest)
          (decoder_loop limit decode (acc @ [frame]) (decoder_reset d2) rest)" by simp
      moreover from Inr ne d2 have "decoder_loop limit decode acc d bytes
          = decoder_loop limit decode (acc @ [frame]) (decoder_reset d2) rest"
        by (subst decoder_loop.simps) (simp add: start exp)
      ultimately show ?thesis using parse Inr buf
        by (auto simp: loop_ends_def split: option.splits prod.splits)
    qed
  qed
qed

text \<open>The loop ends, and with the outcome of the reference on the buffered bytes and the chunk.\<close>

lemma loop_refines:
  "wf_decoder limit d \<Longrightarrow>
     loop_ends acc (parse_stream limit decode (decoder_buffer d @ bytes)) (decoder_loop limit decode acc d bytes)"
proof (induction "length bytes" arbitrary: acc d bytes rule: less_induct)
  case less
  show ?case
  proof (cases "fd_expected d")
    case (Some n)
    from loop_payload [OF less.prems Some less.hyps] show ?thesis by blast
  next
    case None
    from less.prems None have wf: "length (fd_prefix d) = 4" "fd_prefix_len d < 4" "fd_payload d = []"
      by (simp_all add: wf_decoder_def)
    show ?thesis
    proof (cases "fd_prefix_len d + length bytes < 4")
      case True
      obtain d1 where d1: "read_prefix limit d bytes = (Inr False, d1, [])" "wf_decoder limit d1"
        "decoder_buffer d1 = decoder_buffer d @ bytes"
        using read_prefix_partial [OF less.prems None True] by blast
      have "length (decoder_buffer d @ bytes) < 4" using True wf by (simp add: decoder_buffer_def)
      then have "parse_stream limit decode (decoder_buffer d @ bytes) = ([], None, decoder_buffer d @ bytes)"
        by (subst parse_stream.simps) simp
      moreover have "decoder_loop limit decode acc d bytes = Some (Inr acc, if bytes = [] then d else d1)"
        by (subst decoder_loop.simps) (simp add: d1)
      ultimately show ?thesis using d1 less.prems by (auto simp: loop_ends_def)
    next
      case False
      define pre where "pre = take 4 (decoder_buffer d @ bytes)"
      define rest where "rest = drop (4 - fd_prefix_len d) bytes"
      define n where "n = u32_from_be_bytes pre"
      define d1 where "d1 = d\<lparr>fd_prefix := pre, fd_prefix_len := 4\<rparr>"
      from read_prefix_complete [OF less.prems None False, folded pre_def rest_def]
      have pre: "length pre = 4" "decoder_buffer d @ bytes = pre @ rest"
        and step: "read_prefix limit d bytes =
          (if n = 0 then (Inl InvalidLength, decoder_reset d1, rest)
           else if n > limit then (Inl (FrameTooLarge n), decoder_reset d1, rest)
           else (Inr True, d1\<lparr>fd_expected := Some n, fd_payload := []\<rparr>, rest))"
        by (simp_all add: n_def d1_def Let_def)
      have ne: "bytes \<noteq> []" using False wf by auto
      show ?thesis
      proof (cases "n = 0 \<or> n > limit")
        case True
        define e where "e = (if n = 0 then InvalidLength else FrameTooLarge n)"
        from True pre have "parse_stream limit decode (decoder_buffer d @ bytes) = ([], Some e, [])"
          by (subst parse_stream.simps) (auto simp: n_def [symmetric] e_def)
        moreover have "decoder_loop limit decode acc d bytes = Some (Inl e, decoder_reset d1)"
          using True ne by (subst decoder_loop.simps) (auto simp: step e_def)
        ultimately show ?thesis using pre by (simp add: loop_ends_def d1_def)
      next
        case False
        define d3 where "d3 = d1\<lparr>fd_expected := Some n, fd_payload := []\<rparr>"
        from False pre have wf3: "wf_decoder limit d3" and buf3: "decoder_buffer d3 = pre"
          by (simp_all add: d3_def d1_def wf_decoder_def decoder_buffer_def n_def)
        have "length rest < length bytes" using ne wf by (simp add: rest_def length_greater_0_conv [symmetric] del: length_greater_0_conv)
        from less.hyps [OF this wf3, of acc] buf3 pre
        have "loop_ends acc (parse_stream limit decode (decoder_buffer d @ bytes)) (decoder_loop limit decode acc d3 rest)"
          by simp
        moreover have "decoder_loop limit decode acc d bytes = decoder_loop limit decode acc d3 rest"
          using False ne step by (intro loop_after_prefix [where n = n]) (simp_all add: d3_def)
        ultimately show ?thesis by simp
      qed
    qed
  qed
qed

lemma push_refines:
  assumes "wf_decoder limit d"
  shows "loop_ends [] (parse_stream limit decode (decoder_buffer d @ bytes)) (decoder_push limit decode d bytes)"
  unfolding decoder_push_def using assms by (rule loop_refines)

lemma push_terminates:
  assumes "wf_decoder limit d"
  obtains res d' where "decoder_push limit decode d bytes = Some (res, d')"
    and "res = stream_result (parse_stream limit decode (decoder_buffer d @ bytes))"
    and "is_ok res \<Longrightarrow> wf_decoder limit d'"
    and "is_ok res \<Longrightarrow> decoder_buffer d' = snd (snd (parse_stream limit decode (decoder_buffer d @ bytes)))"
proof -
  obtain frames err left where p: "parse_stream limit decode (decoder_buffer d @ bytes) = (frames, err, left)"
    by (cases "parse_stream limit decode (decoder_buffer d @ bytes)")
  from push_refines [OF assms, of bytes] p that show ?thesis
    by (cases err) (auto simp: loop_ends_def stream_result_def)
qed

text \<open>A decoder whose payload did not decode answers every later chunk with the same error.\<close>

lemma push_poisoned:
  assumes "poisoned decode d e" and "bytes \<noteq> []"
  shows "decoder_push limit decode d bytes = Some (Inl e, d)"
proof -
  have "read_prefix limit d bytes = (Inr True, d, bytes)" "read_payload (length (fd_payload d)) d bytes = (d, bytes)"
    using assms(1) by (simp_all add: poisoned_def read_prefix_def read_payload_def)
  with assms show ?thesis
    unfolding decoder_push_def by (subst decoder_loop.simps) (simp add: poisoned_def)
qed

text \<open>The reference on a stream that continues.\<close>

lemma parse_append:
  "parse_stream limit decode (bs @ ys) =
    (case parse_stream limit decode bs of (frames, err, left) \<Rightarrow>
       (case err of
          Some e \<Rightarrow> (frames, Some e, left)
        | None \<Rightarrow> (let (frames', err', left') = parse_stream limit decode (left @ ys)
            in (frames @ frames', err', left'))))"
proof (induction "length bs" arbitrary: bs rule: less_induct)
  case less
  show ?case
  proof (cases "length bs < 4")
    case True
    then show ?thesis by (subst (2) parse_stream.simps) (simp split: prod.splits)
  next
    case False
    define pre where "pre = take 4 bs"
    define rest where "rest = drop 4 bs"
    define n where "n = u32_from_be_bytes pre"
    have bs: "bs = pre @ rest" and pre: "length pre = 4" using False by (simp_all add: pre_def rest_def)
    show ?thesis
    proof (cases "n = 0 \<or> n > limit")
      case True
      define e where "e = (if n = 0 then InvalidLength else FrameTooLarge n)"
      from True pre have "parse_stream limit decode (pre @ xs) = ([], Some e, [])" for xs
        by (subst parse_stream.simps) (auto simp: n_def [symmetric] e_def)
      then show ?thesis by (simp add: bs)
    next
      case n: False
      show ?thesis
      proof (cases "length rest < n")
        case True
        then have "parse_stream limit decode (pre @ rest) = ([], None, pre @ rest)"
          using pre n by (intro parse_partial) (auto simp: n_def)
        then show ?thesis by (simp add: bs split: prod.splits)
      next
        case False
        have one: "parse_stream limit decode (pre @ rest @ xs) =
          (case decode (take n rest) of
             Inl e \<Rightarrow> ([], Some e, pre @ take n rest)
           | Inr frame \<Rightarrow> (let (frames, err, left) = parse_stream limit decode (drop n rest @ xs)
               in (frame # frames, err, left)))" for xs
        proof -
          have "take n (rest @ xs) = take n rest" "drop n (rest @ xs) = drop n rest @ xs"
            "n \<le> length (rest @ xs)" using False by simp_all
          with parse_complete [OF pre, of n "rest @ xs"] n show ?thesis by (simp only: n_def) simp
        qed
        have "length (drop n rest) < length bs" using bs pre by simp
        note IH = less.hyps [OF this]
        show ?thesis
          using one [of "[]"] one [of ys] IH bs
          by (cases "decode (take n rest)") (auto split: prod.splits option.splits)
      qed
    qed
  qed
qed

lemma parse_buffer: "wf_decoder limit d \<Longrightarrow> parse_stream limit decode (decoder_buffer d) = ([], None, decoder_buffer d)"
proof (cases "fd_expected d")
  case None
  assume "wf_decoder limit d"
  with None show ?thesis by (subst parse_stream.simps) (simp add: wf_decoder_def decoder_buffer_def)
next
  case (Some n)
  assume wf: "wf_decoder limit d"
  with Some have "decoder_buffer d = fd_prefix d @ fd_payload d" by (simp add: wf_decoder_def decoder_buffer_def)
  with parse_partial [of "fd_prefix d" n "fd_payload d"] wf Some show ?thesis by (simp add: wf_decoder_def)
qed

lemma chunks_refine:
  assumes "wf_decoder limit d"
  shows "loop_ends [] (parse_stream limit decode (decoder_buffer d @ concat cs)) (push_chunks limit decode d cs)"
  using assms
proof (induction cs arbitrary: d)
  case Nil
  then show ?case by (simp add: parse_buffer loop_ends_def)
next
  case (Cons c cs)
  obtain frames err left where p: "parse_stream limit decode (decoder_buffer d @ c) = (frames, err, left)"
    by (cases "parse_stream limit decode (decoder_buffer d @ c)")
  have whole: "parse_stream limit decode (decoder_buffer d @ concat (c # cs)) =
    (case err of Some e \<Rightarrow> (frames, Some e, left)
     | None \<Rightarrow> (let (frames', err', left') = parse_stream limit decode (left @ concat cs)
            in (frames @ frames', err', left')))"
    using parse_append [of "decoder_buffer d @ c" "concat cs"] p by simp
  note ends = push_refines [OF Cons.prems, of c, unfolded p]
  show ?case
  proof (cases err)
    case (Some e)
    with ends whole show ?thesis by (auto simp: loop_ends_def)
  next
    case None
    with ends obtain d1 where d1: "decoder_push limit decode d c = Some (Inr frames, d1)"
      "wf_decoder limit d1" "decoder_buffer d1 = left" by (auto simp: loop_ends_def)
    have "loop_ends [] (parse_stream limit decode (left @ concat cs)) (push_chunks limit decode d1 cs)"
      using Cons.IH [OF d1(2)] d1(3) by simp
    with d1(1) whole None show ?thesis
      by (auto simp: loop_ends_def split: prod.splits option.splits)
  qed
qed

lemma chunks_result:
  assumes "wf_decoder limit d"
  shows "map_option fst (push_chunks limit decode d cs)
    = Some (stream_result (parse_stream limit decode (decoder_buffer d @ concat cs)))"
  using chunks_refine [OF assms, of cs]
  by (auto simp: loop_ends_def stream_result_def split: prod.splits option.splits)

text \<open>A payload behind its length.\<close>

lemma parse_frame:
  assumes "0 < length payload" and "length payload \<le> limit" and "decode payload = Inr frame"
  shows "parse_stream limit decode (u32_be_bytes (length payload) @ payload @ rest) =
    (let (frames, err, left) = parse_stream limit decode rest in (frame # frames, err, left))"
  using parse_complete [of "u32_be_bytes (length payload)" "length payload" "payload @ rest"] assms
    u32_be_roundtrip [of "length payload"] limit_fits
  by simp

lemma parse_frames:
  assumes "list_all2 (\<lambda>bytes frame. \<exists>payload. bytes = u32_be_bytes (length payload) @ payload
      \<and> 0 < length payload \<and> length payload \<le> limit \<and> decode payload = Inr frame) encoded frames"
    and "length rest < 4"
  shows "parse_stream limit decode (concat encoded @ rest) = (frames, None, rest)"
  using assms
proof (induction rule: list_all2_induct)
  case Nil
  then show ?case by (subst parse_stream.simps) simp
next
  case (Cons bytes encoded frame frames)
  then obtain payload where pay: "bytes = u32_be_bytes (length payload) @ payload"
    "0 < length payload" "length payload \<le> limit" "decode payload = Inr frame" by blast
  from parse_frame [OF pay(2-4), of "concat encoded @ rest"] Cons pay(1) show ?case by simp
qed

lemma chunks_frames:
  assumes "list_all2 (\<lambda>bytes frame. \<exists>payload. bytes = u32_be_bytes (length payload) @ payload
      \<and> 0 < length payload \<and> length payload \<le> limit \<and> decode payload = Inr frame) encoded frames"
    and "concat chunks = concat encoded"
  shows "\<exists>d'. push_chunks limit decode decoder_default chunks = Some (Inr frames, d')
    \<and> decoder_finish d' = Inr ()"
  using chunks_refine [of decoder_default chunks] parse_frames [OF assms(1), of "[]"] assms(2)
  by (auto simp: loop_ends_def decoder_finish_iff)

text \<open>Every frame that comes out was decoded from a payload within the limit.\<close>

lemma parse_frame_origin:
  "frame \<in> set (fst (parse_stream limit decode bs)) \<Longrightarrow>
     \<exists>payload. 0 < length payload \<and> length payload \<le> limit \<and> decode payload = Inr frame"
proof (induction "length bs" arbitrary: bs rule: less_induct)
  case less
  define rest where "rest = drop 4 bs"
  define n where "n = u32_from_be_bytes (take 4 bs)"
  have step: "parse_stream limit decode bs =
    (if length bs < 4 then ([], None, bs)
     else if n = 0 then ([], Some InvalidLength, [])
     else if n > limit then ([], Some (FrameTooLarge n), [])
     else if length rest < n then ([], None, bs)
     else case decode (take n rest) of
         Inl e \<Rightarrow> ([], Some e, take (4 + n) bs)
       | Inr frame \<Rightarrow> (let (frames, err, left) = parse_stream limit decode (drop n rest)
           in (frame # frames, err, left)))"
    by (subst parse_stream.simps) (simp only: rest_def [symmetric] n_def [symmetric] Let_def)
  show ?case
  proof (cases "length bs < 4 \<or> n = 0 \<or> n > limit \<or> length rest < n")
    case True
    with less.prems step show ?thesis by (auto split: if_splits)
  next
    case False
    then have shorter: "length (drop n rest) < length bs" by (auto simp: rest_def not_less)
    from False less.prems step obtain g where g: "decode (take n rest) = Inr g"
      "frame = g \<or> frame \<in> set (fst (parse_stream limit decode (drop n rest)))"
      by (auto split: sum.splits prod.splits)
    from g(2) show ?thesis
    proof
      assume "frame = g"
      with g(1) False show ?thesis by (intro exI [of _ "take n rest"]) auto
    qed (use less.hyps [OF shorter] in blast)
  qed
qed

lemma push_frame_origin:
  assumes "wf_decoder limit d" and "decoder_push limit decode d bytes = Some (Inr frames, d')"
    and "frame \<in> set frames"
  shows "\<exists>payload. 0 < length payload \<and> length payload \<le> limit \<and> decode payload = Inr frame"
  using push_refines [OF assms(1), of bytes] assms(2,3)
  by (intro parse_frame_origin [of frame "decoder_buffer d @ bytes"])
    (auto simp: loop_ends_def split: prod.splits option.splits)

lemma push_error:
  assumes "wf_decoder limit d" and "decoder_push limit decode d bytes = Some (Inl e, d')"
  shows "wf_decoder limit d' \<and> decoder_buffer d' = [] \<or> poisoned decode d' e"
  using push_refines [OF assms(1), of bytes] assms(2)
  by (auto simp: loop_ends_def split: prod.splits option.splits)

end

end
