(* ===== verification/Protocol_Codec.thy ===== *)
theory Protocol_Codec
  imports Frame_Stream
begin

text \<open>
  Encoding and decoding of the four lanes of \<open>protocol_v2.rs\<close>.  MessagePack
  (\<open>rmp_serde\<close>) and SHA-256 (\<open>ring\<close>) are third-party code: a \<open>codec\<close> is the pair of
  its encoder (\<open>None\<close> is an encoder error) and decoder, and \<open>sha\<close> is the digest.  The only
  assumption is \<open>codec_faithful\<close>: what was encoded decodes to itself.
\<close>

section \<open>Encoders and decoders\<close>

type_synonym 'e codec = "('e \<Rightarrow> u8 list option) \<times> (u8 list \<Rightarrow> 'e option)"

definition codec_faithful :: "'e codec \<Rightarrow> bool" where
  "codec_faithful C \<longleftrightarrow> (\<forall>x bytes. fst C x = Some bytes \<longrightarrow> snd C bytes = Some x)"

text \<open>The common tail of the encoders: the payload's size check, then its length and itself.\<close>

definition frame_bytes :: "nat \<Rightarrow> u8 list \<Rightarrow> (protocol_error, u8 list) result" where
  "frame_bytes limit payload =
     (if payload = [] \<or> length payload > limit then Inl (FrameTooLarge (length payload))
      else if length payload > 4294967295 then Inl InvalidLength
      else Inr (u32_be_bytes (length payload) @ payload))"

definition encode_control ::
  "envelope codec \<Rightarrow> control_frame \<Rightarrow> (protocol_error, u8 list) result" where
  "encode_control C frame =
     and_then (validate_frame frame)
       (bind_result
         (ok_or Decode (fst C \<lparr>env_magic = MAGIC, env_major = PROTOCOL_MAJOR, env_frame = frame\<rparr>))
         (frame_bytes MAX_CONTROL_FRAME_BYTES))"

definition encode_critical ::
  "critical_envelope codec \<Rightarrow> critical_frame \<Rightarrow> (protocol_error, u8 list) result" where
  "encode_critical C frame =
     and_then (validate_critical frame)
       (bind_result
         (ok_or Decode (fst C \<lparr>cenv_magic = INPUT_MAGIC, cenv_major = PROTOCOL_MAJOR, cenv_frame = frame\<rparr>))
         (frame_bytes MAX_CRITICAL_FRAME_BYTES))"

definition encode_motion ::
  "motion_envelope codec \<Rightarrow> motion_frame \<Rightarrow> (protocol_error, u8 list) result" where
  "encode_motion C frame =
     and_then (validate_motion frame)
       (bind_result
         (ok_or Decode (fst C \<lparr>menv_magic = MOTION_MAGIC, menv_major = PROTOCOL_MAJOR, menv_frame = frame\<rparr>))
         (\<lambda>payload. if payload = [] \<or> length payload > MAX_MOTION_FRAME_BYTES
                    then Inl (FrameTooLarge (length payload)) else Inr payload))"

definition decode_payload ::
  "envelope codec \<Rightarrow> u8 list \<Rightarrow> (protocol_error, control_frame) result" where
  "decode_payload C payload =
     bind_result (ok_or Decode (snd C payload)) (\<lambda>envelope.
       if env_magic envelope \<noteq> MAGIC then Inl InvalidMagic
       else if env_major envelope \<noteq> PROTOCOL_MAJOR then Inl (UnsupportedMajor (env_major envelope))
       else and_then (validate_frame (env_frame envelope)) (Inr (env_frame envelope)))"

definition decode_critical_payload ::
  "critical_envelope codec \<Rightarrow> u8 list \<Rightarrow> (protocol_error, critical_frame) result" where
  "decode_critical_payload C payload =
     bind_result (ok_or Decode (snd C payload)) (\<lambda>envelope.
       if cenv_magic envelope \<noteq> INPUT_MAGIC then Inl InvalidMagic
       else if cenv_major envelope \<noteq> PROTOCOL_MAJOR then Inl (UnsupportedMajor (cenv_major envelope))
       else and_then (validate_critical (cenv_frame envelope)) (Inr (cenv_frame envelope)))"

definition decode_motion ::
  "motion_envelope codec \<Rightarrow> u8 list \<Rightarrow> (protocol_error, motion_frame) result" where
  "decode_motion C payload =
     (if payload = [] then Inl InvalidLength
      else if length payload > MAX_MOTION_FRAME_BYTES then Inl (FrameTooLarge (length payload))
      else bind_result (ok_or Decode (snd C payload)) (\<lambda>envelope.
        if menv_magic envelope \<noteq> MOTION_MAGIC then Inl InvalidMagic
        else if menv_major envelope \<noteq> PROTOCOL_MAJOR then Inl (UnsupportedMajor (menv_major envelope))
        else and_then (validate_motion (menv_frame envelope)) (Inr (menv_frame envelope))))"

definition control_push ::
  "envelope codec \<Rightarrow> frame_decoder \<Rightarrow> u8 list
     \<Rightarrow> ((protocol_error, control_frame list) result \<times> frame_decoder) option" where
  "control_push C = decoder_push MAX_CONTROL_FRAME_BYTES (decode_payload C)"

definition critical_push ::
  "critical_envelope codec \<Rightarrow> frame_decoder \<Rightarrow> u8 list
     \<Rightarrow> ((protocol_error, critical_frame list) result \<times> frame_decoder) option" where
  "critical_push C = decoder_push MAX_CRITICAL_FRAME_BYTES (decode_critical_payload C)"

section \<open>Clipboard operations\<close>

text \<open>\<open>usize\<close> has 64 bits.\<close>

definition usize_checked_mul :: "nat \<Rightarrow> nat \<Rightarrow> nat option" where
  "usize_checked_mul a b = (if a * b < 18446744073709551616 then Some (a * b) else None)"

definition usize_checked_add :: "nat \<Rightarrow> nat \<Rightarrow> nat option" where
  "usize_checked_add a b = (if a + b < 18446744073709551616 then Some (a + b) else None)"

definition string_bytes :: "string \<Rightarrow> u8 list" where
  "string_bytes s = map of_char s"

definition validate_clipboard_text_operation ::
  "(u8 list \<Rightarrow> u8 list) \<Rightarrow> clipboard_text_operation \<Rightarrow> (protocol_error, unit) result" where
  "validate_clipboard_text_operation sha operation =
     and_then (validate_text (ct_origin_peer operation) MAX_PEER_ID_BYTES ''origin_peer'')
       (and_then (reject_if (op_local_sequence (ct_operation_id operation) = 0) (InvalidField ''local_sequence''))
         (and_then (reject_if (ct_lamport operation = 0) (InvalidField ''lamport''))
           (and_then (reject_if (ct_text operation = []) (InvalidField ''text''))
             (reject_if (ct_digest operation \<noteq> sha (string_bytes (ct_text operation)))
               (InvalidField ''digest'')))))"

definition image_raw_bytes :: "u32 \<Rightarrow> u32 \<Rightarrow> nat option" where
  "image_raw_bytes width height =
     (case Option.bind (usize_checked_mul (unat width) (unat height)) (\<lambda>pixels. usize_checked_mul pixels 4) of
        None \<Rightarrow> None
      | Some bytes \<Rightarrow> if bytes \<le> MAX_CLIPBOARD_IMAGE_RGBA_BYTES then Some bytes else None)"

definition image_expected_encoded :: "nat \<Rightarrow> nat option" where
  "image_expected_encoded raw_bytes =
     Option.bind (usize_checked_add raw_bytes 2) (\<lambda>value. usize_checked_mul (value div 3) 4)"

definition validate_clipboard_image_operation ::
  "(u8 list \<Rightarrow> u8 list) \<Rightarrow> clipboard_image_operation \<Rightarrow> (protocol_error, unit) result" where
  "validate_clipboard_image_operation sha operation =
     and_then (validate_text (ci_origin_peer operation) MAX_PEER_ID_BYTES ''origin_peer'')
       (and_then (reject_if (op_local_sequence (ci_operation_id operation) = 0) (InvalidField ''local_sequence''))
         (and_then (reject_if (ci_lamport operation = 0) (InvalidField ''lamport''))
           (and_then (reject_if (ci_width operation = 0 \<or> ci_height operation = 0
               \<or> ci_rgba_base64 operation = []) (InvalidField ''image''))
             (bind_result
               (ok_or (InvalidField ''image_dimensions'')
                 (image_raw_bytes (ci_width operation) (ci_height operation)))
               (\<lambda>raw_bytes. bind_result
                 (ok_or (InvalidField ''image_dimensions'') (image_expected_encoded raw_bytes))
                 (\<lambda>expected_encoded.
                   and_then (reject_if (length (ci_rgba_base64 operation) \<noteq> expected_encoded)
                       (InvalidField ''image_encoding_length''))
                     (reject_if (ci_digest operation \<noteq> sha (string_bytes (ci_rgba_base64 operation)))
                       (InvalidField ''digest''))))))))"

definition encode_clipboard_bulk ::
  "bulk_envelope codec \<Rightarrow> clipboard_bulk_operation \<Rightarrow> (protocol_error, u8 list) result" where
  "encode_clipboard_bulk C operation =
     bind_result
       (ok_or Decode (fst C \<lparr>benv_magic = BULK_MAGIC, benv_major = PROTOCOL_MAJOR, benv_operation = operation\<rparr>))
       (\<lambda>payload. if payload = [] \<or> length payload > MAX_BULK_FRAME_BYTES
                  then Inl (FrameTooLarge (length payload)) else Inr payload)"

definition text_operation_encode ::
  "(u8 list \<Rightarrow> u8 list) \<Rightarrow> bulk_envelope codec \<Rightarrow> clipboard_text_operation
     \<Rightarrow> (protocol_error, u8 list) result" where
  "text_operation_encode sha C operation =
     and_then (validate_clipboard_text_operation sha operation)
       (encode_clipboard_bulk C (BulkText operation))"

definition image_operation_encode ::
  "(u8 list \<Rightarrow> u8 list) \<Rightarrow> bulk_envelope codec \<Rightarrow> clipboard_image_operation
     \<Rightarrow> (protocol_error, u8 list) result" where
  "image_operation_encode sha C operation =
     and_then (validate_clipboard_image_operation sha operation)
       (encode_clipboard_bulk C (BulkImage operation))"

definition validate_bulk ::
  "(u8 list \<Rightarrow> u8 list) \<Rightarrow> clipboard_bulk_operation \<Rightarrow> (protocol_error, unit) result" where
  "validate_bulk sha operation =
     (case operation of
        BulkText t \<Rightarrow> validate_clipboard_text_operation sha t
      | BulkImage i \<Rightarrow> validate_clipboard_image_operation sha i)"

definition decode_clipboard_bulk ::
  "(u8 list \<Rightarrow> u8 list) \<Rightarrow> bulk_envelope codec \<Rightarrow> u8 list
     \<Rightarrow> (protocol_error, clipboard_bulk_operation) result" where
  "decode_clipboard_bulk sha C payload =
     (if payload = [] then Inl InvalidLength
      else if length payload > MAX_BULK_FRAME_BYTES then Inl (FrameTooLarge (length payload))
      else bind_result (ok_or Decode (snd C payload)) (\<lambda>envelope.
        if benv_magic envelope \<noteq> BULK_MAGIC then Inl InvalidMagic
        else if benv_major envelope \<noteq> PROTOCOL_MAJOR then Inl (UnsupportedMajor (benv_major envelope))
        else and_then (validate_bulk sha (benv_operation envelope)) (Inr (benv_operation envelope))))"

definition text_operation_decode ::
  "(u8 list \<Rightarrow> u8 list) \<Rightarrow> bulk_envelope codec \<Rightarrow> u8 list
     \<Rightarrow> (protocol_error, clipboard_text_operation) result" where
  "text_operation_decode sha C payload =
     bind_result (decode_clipboard_bulk sha C payload) (\<lambda>operation.
       case operation of
         BulkText t \<Rightarrow> Inr t
       | BulkImage _ \<Rightarrow> Inl (InvalidField ''bulk_kind''))"

section \<open>The decoders are frame streams\<close>

interpretation control_stream: frame_stream MAX_CONTROL_FRAME_BYTES "decode_payload C" for C
  by unfold_locales (simp add: protocol_limits)

interpretation critical_stream: frame_stream MAX_CRITICAL_FRAME_BYTES "decode_critical_payload C" for C
  by unfold_locales (simp add: protocol_limits)

lemma frame_bytes_InrD:
  assumes "frame_bytes limit payload = Inr bytes"
  shows "bytes = u32_be_bytes (length payload) @ payload" and "0 < length payload"
    and "length payload \<le> limit"
  using assms by (auto simp: frame_bytes_def split: if_splits)

lemma encode_control_frame:
  assumes "codec_faithful C" and "encode_control C frame = Inr bytes"
  shows "\<exists>payload. bytes = u32_be_bytes (length payload) @ payload \<and> 0 < length payload
    \<and> length payload \<le> MAX_CONTROL_FRAME_BYTES \<and> decode_payload C payload = Inr frame"
proof -
  from assms(2) obtain payload where v: "validate_frame frame = Inr ()"
    and pack: "fst C \<lparr>env_magic = MAGIC, env_major = PROTOCOL_MAJOR, env_frame = frame\<rparr> = Some payload"
    and fr: "frame_bytes MAX_CONTROL_FRAME_BYTES payload = Inr bytes"
    by (auto simp: encode_control_def)
  have "decode_payload C payload = Inr frame"
    using assms(1) pack v by (simp add: codec_faithful_def decode_payload_def)
  with frame_bytes_InrD [OF fr] show ?thesis by blast
qed

lemma encode_critical_frame:
  assumes "codec_faithful C" and "encode_critical C frame = Inr bytes"
  shows "\<exists>payload. bytes = u32_be_bytes (length payload) @ payload \<and> 0 < length payload
    \<and> length payload \<le> MAX_CRITICAL_FRAME_BYTES \<and> decode_critical_payload C payload = Inr frame"
proof -
  from assms(2) obtain payload where v: "validate_critical frame = Inr ()"
    and pack: "fst C \<lparr>cenv_magic = INPUT_MAGIC, cenv_major = PROTOCOL_MAJOR, cenv_frame = frame\<rparr> = Some payload"
    and fr: "frame_bytes MAX_CRITICAL_FRAME_BYTES payload = Inr bytes"
    by (auto simp: encode_critical_def)
  have "decode_critical_payload C payload = Inr frame"
    using assms(1) pack v by (simp add: codec_faithful_def decode_critical_payload_def)
  with frame_bytes_InrD [OF fr] show ?thesis by blast
qed

lemma motion_roundtrip:
  assumes "codec_faithful C" and "encode_motion C m = Inr bytes"
  shows "decode_motion C bytes = Inr m \<and> length bytes \<le> MAX_MOTION_FRAME_BYTES"
proof -
  from assms(2) have v: "validate_motion m = Inr ()" and len: "bytes \<noteq> []" "length bytes \<le> MAX_MOTION_FRAME_BYTES"
    and pack: "fst C \<lparr>menv_magic = MOTION_MAGIC, menv_major = PROTOCOL_MAJOR, menv_frame = m\<rparr> = Some bytes"
    by (auto simp: encode_motion_def split: if_splits)
  with assms(1) have "snd C bytes = Some \<lparr>menv_magic = MOTION_MAGIC, menv_major = PROTOCOL_MAJOR, menv_frame = m\<rparr>"
    by (simp add: codec_faithful_def)
  with v len show ?thesis by (simp add: decode_motion_def)
qed

lemma bulk_roundtrip:
  assumes "codec_faithful C" and "encode_clipboard_bulk C op = Inr bytes" and "validate_bulk sha op = Inr ()"
  shows "decode_clipboard_bulk sha C bytes = Inr op \<and> length bytes \<le> MAX_BULK_FRAME_BYTES"
proof -
  from assms(2) have len: "bytes \<noteq> []" "length bytes \<le> MAX_BULK_FRAME_BYTES"
    and pack: "fst C \<lparr>benv_magic = BULK_MAGIC, benv_major = PROTOCOL_MAJOR, benv_operation = op\<rparr> = Some bytes"
    by (auto simp: encode_clipboard_bulk_def split: if_splits)
  with assms(1) have "snd C bytes = Some \<lparr>benv_magic = BULK_MAGIC, benv_major = PROTOCOL_MAJOR, benv_operation = op\<rparr>"
    by (simp add: codec_faithful_def)
  with assms(3) len show ?thesis by (simp add: decode_clipboard_bulk_def)
qed

lemma text_roundtrip:
  assumes "codec_faithful C" and "text_operation_encode sha C t = Inr bytes"
  shows "text_operation_decode sha C bytes = Inr t \<and> length bytes \<le> MAX_BULK_FRAME_BYTES"
proof -
  from assms(2) have "validate_bulk sha (BulkText t) = Inr ()" "encode_clipboard_bulk C (BulkText t) = Inr bytes"
    by (simp_all add: text_operation_encode_def validate_bulk_def)
  with bulk_roundtrip [OF assms(1)] show ?thesis by (simp add: text_operation_decode_def)
qed

lemma image_roundtrip:
  assumes "codec_faithful C" and "image_operation_encode sha C i = Inr bytes"
  shows "decode_clipboard_bulk sha C bytes = Inr (BulkImage i) \<and> length bytes \<le> MAX_BULK_FRAME_BYTES"
proof -
  from assms(2) have "validate_bulk sha (BulkImage i) = Inr ()" "encode_clipboard_bulk C (BulkImage i) = Inr bytes"
    by (simp_all add: image_operation_encode_def validate_bulk_def)
  with bulk_roundtrip [OF assms(1)] show ?thesis by simp
qed

section \<open>Properties\<close>

text \<open>Concrete codecs for the witnesses: they know one envelope.\<close>

definition demo_codec :: "'e \<Rightarrow> 'e codec" where
  "demo_codec x = (\<lambda>e. if e = x then Some [7, 9] else None, \<lambda>b. if b = [7, 9] then Some x else None)"

lemma demo_codec_faithful [simp]: "codec_faithful (demo_codec x)"
  by (simp add: codec_faithful_def demo_codec_def)

definition demo_boot :: "u8 \<Rightarrow> boot_id" where
  "demo_boot b = BootId (replicate 16 b)"

definition demo_session :: session_id where
  "demo_session = \<lparr>controller_boot = demo_boot 1, receiver_boot = demo_boot 2, nonce = replicate 16 3\<rparr>"

lemma demo_boot_nonzero [simp]: "demo_boot b = demo_boot c \<longleftrightarrow> b = c" "b \<noteq> 0 \<Longrightarrow> boot_bytes (demo_boot b) \<noteq> zero16"
  by (simp_all add: demo_boot_def zero16_def)

lemma demo_session_simps [simp]:
  "controller_boot demo_session = demo_boot 1" "receiver_boot demo_session = demo_boot 2"
  "nonce demo_session \<noteq> zero16" "validate_session demo_session = Inr ()"
  by (simp_all add: demo_session_def demo_boot_def zero16_def)

definition demo_ack_codec :: "envelope codec" where
  "demo_ack_codec = demo_codec \<lparr>env_magic = MAGIC, env_major = PROTOCOL_MAJOR, env_frame = CommitAck demo_session\<rparr>"

lemma demo_ack_faithful [simp]: "codec_faithful demo_ack_codec"
  by (simp add: demo_ack_codec_def)

lemma demo_encode_ack: "encode_control demo_ack_codec (CommitAck demo_session) = Inr [0, 0, 0, 2, 7, 9]"
  by (simp add: encode_control_def demo_ack_codec_def demo_codec_def frame_bytes_def protocol_limits
      u32_be_bytes_def u32_le_bytes_def)

text \<open>C23. Control frames survive the stream: whatever frames were encoded one after the
  other, and however the transport cuts the bytes into chunks, the control decoder returns
  exactly those frames and ends without a truncated rest.\<close>

theorem control_stream_roundtrip:
  assumes "codec_faithful C"
    and "list_all2 (\<lambda>frame bytes. encode_control C frame = Inr bytes) frames encoded"
    and "concat chunks = concat encoded"
  shows "\<exists>d'. push_chunks MAX_CONTROL_FRAME_BYTES (decode_payload C) decoder_default chunks
      = Some (Inr frames, d') \<and> decoder_finish d' = Inr ()"
proof (rule control_stream.chunks_frames [OF _ assms(3)])
  show "list_all2 (\<lambda>bytes frame. \<exists>payload. bytes = u32_be_bytes (length payload) @ payload
      \<and> 0 < length payload \<and> length payload \<le> MAX_CONTROL_FRAME_BYTES
      \<and> decode_payload C payload = Inr frame) encoded frames"
    using assms(2) encode_control_frame [OF assms(1)] by (simp add: list_all2_conv_all_nth)
qed

theorem control_stream_roundtrip_witness:
  "\<exists>d'. push_chunks MAX_CONTROL_FRAME_BYTES (decode_payload demo_ack_codec) decoder_default
      [[0, 0, 0], [2, 7], [], [9, 0, 0, 0, 2], [7, 9]]
      = Some (Inr [CommitAck demo_session, CommitAck demo_session], d') \<and> decoder_finish d' = Inr ()"
  by (rule control_stream_roundtrip [of _ _ "[[0, 0, 0, 2, 7, 9], [0, 0, 0, 2, 7, 9]]"])
    (simp_all add: demo_encode_ack)

text \<open>The same for the reliable input stream: key, button and scroll frames are delivered
  complete and in order whatever the chunking.\<close>

theorem critical_stream_roundtrip:
  assumes "codec_faithful C"
    and "list_all2 (\<lambda>frame bytes. encode_critical C frame = Inr bytes) frames encoded"
    and "concat chunks = concat encoded"
  shows "\<exists>d'. push_chunks MAX_CRITICAL_FRAME_BYTES (decode_critical_payload C) decoder_default chunks
      = Some (Inr frames, d') \<and> decoder_finish d' = Inr ()"
proof (rule critical_stream.chunks_frames [OF _ assms(3)])
  show "list_all2 (\<lambda>bytes frame. \<exists>payload. bytes = u32_be_bytes (length payload) @ payload
      \<and> 0 < length payload \<and> length payload \<le> MAX_CRITICAL_FRAME_BYTES
      \<and> decode_critical_payload C payload = Inr frame) encoded frames"
    using assms(2) encode_critical_frame [OF assms(1)] by (simp add: list_all2_conv_all_nth)
qed

definition demo_key_frame :: "u64 \<Rightarrow> bool \<Rightarrow> critical_frame" where
  "demo_key_frame n down = \<lparr>cf_session_id = demo_session, cf_sequence = n, cf_event = CKey 65 30 False down\<rparr>"

definition demo_key_codec :: "critical_envelope codec" where
  "demo_key_codec = demo_codec
     \<lparr>cenv_magic = INPUT_MAGIC, cenv_major = PROTOCOL_MAJOR, cenv_frame = demo_key_frame 1 True\<rparr>"

lemma demo_key_faithful [simp]: "codec_faithful demo_key_codec"
  by (simp add: demo_key_codec_def)

lemma demo_encode_key: "encode_critical demo_key_codec (demo_key_frame 1 True) = Inr [0, 0, 0, 2, 7, 9]"
  by (simp add: encode_critical_def demo_key_codec_def demo_codec_def frame_bytes_def protocol_limits
      u32_be_bytes_def u32_le_bytes_def demo_key_frame_def validate_critical_def)

theorem critical_stream_roundtrip_witness:
  "\<exists>d'. push_chunks MAX_CRITICAL_FRAME_BYTES (decode_critical_payload demo_key_codec) decoder_default
      [[0], [0, 0, 2, 7, 9]] = Some (Inr [demo_key_frame 1 True], d') \<and> decoder_finish d' = Inr ()"
  by (rule critical_stream_roundtrip [of _ _ "[[0, 0, 0, 2, 7, 9]]"])
    (simp_all add: demo_encode_key)

text \<open>C28. The decoders do not depend on how the transport cuts a stream, good or bad: two
  chunkings of the same bytes give the same frames or the same error, and both return.\<close>

theorem decoding_ignores_chunking:
  assumes "concat cs = concat cs'"
  shows "(\<exists>r. map_option fst (push_chunks MAX_CONTROL_FRAME_BYTES (decode_payload C) decoder_default cs) = Some r
      \<and> map_option fst (push_chunks MAX_CONTROL_FRAME_BYTES (decode_payload C) decoder_default cs') = Some r)
    \<and> (\<exists>r. map_option fst (push_chunks MAX_CRITICAL_FRAME_BYTES (decode_critical_payload D) decoder_default cs) = Some r
      \<and> map_option fst (push_chunks MAX_CRITICAL_FRAME_BYTES (decode_critical_payload D) decoder_default cs') = Some r)"
  using assms by (simp only: control_stream.chunks_result critical_stream.chunks_result wf_decoder_default) simp

theorem decoding_ignores_chunking_witness:
  "\<exists>r. map_option fst (push_chunks MAX_CONTROL_FRAME_BYTES (decode_payload demo_ack_codec) decoder_default
        [[0, 0], [0, 2, 7], [9]]) = Some r
      \<and> map_option fst (push_chunks MAX_CONTROL_FRAME_BYTES (decode_payload demo_ack_codec) decoder_default
        [[0, 0, 0, 2, 7, 9]]) = Some r"
  using decoding_ignores_chunking [of "[[0, 0], [0, 2, 7], [9]]" "[[0, 0, 0, 2, 7, 9]]" demo_ack_codec]
  by simp

text \<open>C29. A push always returns; on success every frame passed validation and the decoder is
  again well formed, so it holds less than one length prefix and one maximal payload.\<close>

theorem control_push_returns:
  assumes "wf_decoder MAX_CONTROL_FRAME_BYTES d"
  shows "\<exists>res d'. control_push C d bytes = Some (res, d')
    \<and> (\<forall>frames. res = Inr frames \<longrightarrow> (\<forall>frame \<in> set frames. validate_frame frame = Inr ())
        \<and> wf_decoder MAX_CONTROL_FRAME_BYTES d' \<and> length (decoder_buffer d') < 4 + MAX_CONTROL_FRAME_BYTES)"
proof -
  obtain res d' where push: "decoder_push MAX_CONTROL_FRAME_BYTES (decode_payload C) d bytes = Some (res, d')"
    and wf: "is_ok res \<Longrightarrow> wf_decoder MAX_CONTROL_FRAME_BYTES d'"
    using control_stream.push_terminates [OF assms] by metis
  have "validate_frame frame = Inr ()" if ok: "res = Inr frames" and mem: "frame \<in> set frames" for frames frame
  proof -
    obtain payload where "decode_payload C payload = Inr frame"
      using control_stream.push_frame_origin [OF assms push [unfolded ok] mem] by blast
    then show ?thesis by (auto simp: decode_payload_def split: if_splits)
  qed
  with push wf decoder_buffer_bound [of MAX_CONTROL_FRAME_BYTES d'] show ?thesis
    by (auto simp: control_push_def protocol_limits)
qed

theorem control_push_returns_witness:
  "\<exists>res d'. control_push demo_ack_codec decoder_default [0, 0, 0, 2, 7, 9, 0] = Some (res, d')"
  using control_push_returns [of decoder_default demo_ack_codec "[0, 0, 0, 2, 7, 9, 0]"] by auto

text \<open>A failed stream stays failed: after an error the input decoder is either empty, when
  the length was bad, or it keeps the payload it could not decode and then answers every
  further chunk with the same error and reports a truncated stream at the end.\<close>

lemma critical_error_is_final:
  assumes "wf_decoder MAX_CRITICAL_FRAME_BYTES d" and "critical_push C d bytes = Some (Inl e, d')"
    and "further \<noteq> []"
  shows "(wf_decoder MAX_CRITICAL_FRAME_BYTES d' \<and> decoder_buffer d' = [])
    \<or> (critical_push C d' further = Some (Inl e, d') \<and> decoder_finish d' = Inl Truncated)"
proof -
  consider "wf_decoder MAX_CRITICAL_FRAME_BYTES d' \<and> decoder_buffer d' = []"
    | "poisoned (decode_critical_payload C) d' e"
    using critical_stream.push_error [OF assms(1) assms(2) [unfolded critical_push_def]] by blast
  then show ?thesis
  proof cases
    case 2
    then have "decoder_finish d' = Inl Truncated" by (simp add: poisoned_def decoder_finish_def)
    with critical_stream.push_poisoned [OF 2 assms(3)] show ?thesis by (simp add: critical_push_def)
  qed simp
qed

definition demo_poisoned :: frame_decoder where
  "demo_poisoned = \<lparr>fd_prefix = [0, 0, 0, 1], fd_prefix_len = 4, fd_expected = Some 1, fd_payload = [8]\<rparr>"

lemma demo_poison: "critical_push demo_key_codec decoder_default [0, 0, 0, 1, 8] = Some (Inl Decode, demo_poisoned)"
  unfolding critical_push_def decoder_push_def
  by (subst decoder_loop.simps)
    (simp add: read_prefix_def read_payload_def decoder_default_def Let_def demo_poisoned_def
      u32_from_be_bytes_def u32_from_le_bytes_def protocol_limits decode_critical_payload_def
      demo_key_codec_def demo_codec_def)

theorem critical_error_is_final_witness:
  "critical_push demo_key_codec demo_poisoned [0, 0, 0, 2, 7, 9] = Some (Inl Decode, demo_poisoned)
     \<and> decoder_finish demo_poisoned = Inl Truncated"
proof -
  have "\<not> wf_decoder MAX_CRITICAL_FRAME_BYTES demo_poisoned"
    by (simp add: wf_decoder_def demo_poisoned_def)
  with critical_error_is_final [OF wf_decoder_default(1) demo_poison, of "[0, 0, 0, 2, 7, 9]"]
  show ?thesis by simp
qed

text \<open>Datagrams and clipboard operations round-trip: an encoded motion frame or clipboard
  operation decodes to itself and never exceeds its lane's limit.\<close>

lemma motion_and_bulk_roundtrip:
  assumes "codec_faithful C" and "codec_faithful D"
  shows "(encode_motion C m = Inr bytes \<longrightarrow>
      decode_motion C bytes = Inr m \<and> length bytes \<le> MAX_MOTION_FRAME_BYTES)
    \<and> (text_operation_encode sha D t = Inr bytes' \<longrightarrow>
      text_operation_decode sha D bytes' = Inr t \<and> length bytes' \<le> MAX_BULK_FRAME_BYTES)
    \<and> (image_operation_encode sha D i = Inr bytes'' \<longrightarrow>
      decode_clipboard_bulk sha D bytes'' = Inr (BulkImage i) \<and> length bytes'' \<le> MAX_BULK_FRAME_BYTES)"
  using motion_roundtrip [OF assms(1)] text_roundtrip [OF assms(2)] image_roundtrip [OF assms(2)] by blast

definition demo_motion :: motion_frame where
  "demo_motion = \<lparr>mf_session_id = demo_session, mf_display_id = ''main'', mf_layout_revision = 5,
     mf_sequence = 1, mf_required_reliable_sequence = 0, mf_x = 10, mf_y = 20\<rparr>"

definition demo_motion_codec :: "motion_envelope codec" where
  "demo_motion_codec = demo_codec
     \<lparr>menv_magic = MOTION_MAGIC, menv_major = PROTOCOL_MAJOR, menv_frame = demo_motion\<rparr>"

lemma demo_main_ok [simp]: "\<not> is_blank ''main''"
  by code_simp

theorem motion_and_bulk_roundtrip_witness:
  "decode_motion demo_motion_codec [7, 9] = Inr demo_motion"
proof -
  have "encode_motion demo_motion_codec demo_motion = Inr [7, 9]"
    by (simp add: encode_motion_def demo_motion_codec_def demo_codec_def demo_motion_def
        validate_motion_def protocol_limits)
  with motion_and_bulk_roundtrip [of demo_motion_codec "demo_codec (undefined :: bulk_envelope)" demo_motion "[7, 9]"]
  show ?thesis by (simp add: demo_motion_codec_def)
qed

end
