(* ===== verification/Handshake.thy ===== *)
theory Handshake
  imports Protocol_Codec
begin

text \<open>
  The two ends of the V2 control handshake and the gate of the reliable input stream
  (\<open>ControllerHandshake\<close>, \<open>ReceiverHandshake\<close>, \<open>InputSessionGate\<close> of
  \<open>protocol_v2.rs\<close>).  The methods take \<open>&mut self\<close>: each function returns its result and
  the new state, also on errors.  Where an arm's guard fails the next arms of the source's
  \<open>match\<close> are tried, so the branches below keep their order.
\<close>

section \<open>The controller's handshake\<close>

datatype controller_state =
    CIdle
  | CAwaitReady u64 string u64
  | CReady u64 session_id
  | CAwaitCommitAck session_id
  | CActive session_id
  | CEnded

record controller_handshake =
  ch_local_boot :: boot_id
  ch_local_peer_id :: string
  ch_state :: controller_state
  ch_ping_sequence :: u64
  ch_last_pong_sequence :: u64
  ch_highest_remote_applied :: u64

definition controller_new :: "boot_id \<Rightarrow> string \<Rightarrow> (protocol_error, controller_handshake) result" where
  "controller_new local_boot local_peer_id =
     (if boot_bytes local_boot = zero16 then Inl (InvalidField ''boot_id'')
      else and_then (validate_text local_peer_id MAX_PEER_ID_BYTES ''peer_id'')
        (Inr \<lparr>ch_local_boot = local_boot, ch_local_peer_id = local_peer_id, ch_state = CIdle,
          ch_ping_sequence = 0, ch_last_pong_sequence = 0, ch_highest_remote_applied = 0\<rparr>))"

definition controller_begin ::
  "u64 \<Rightarrow> string \<Rightarrow> u64 \<Rightarrow> controller_handshake
     \<Rightarrow> (protocol_error, control_frame list) result \<times> controller_handshake" where
  "controller_begin request_id target_display layout_revision h =
     (if ch_state h \<notin> {CIdle, CEnded} then (Inl InvalidTransition, h)
      else
        (let prepare = Prepare request_id target_display layout_revision in
         case validate_frame prepare of
           Inl e \<Rightarrow> (Inl e, h)
         | Inr _ \<Rightarrow>
             (Inr [Hello (ch_local_boot h) (ch_local_peer_id h) RoleController REQUIRED_CAPABILITIES,
                   prepare],
              h\<lparr>ch_state := CAwaitReady request_id target_display layout_revision\<rparr>)))"

definition controller_ready_arm ::
  "u8 list option \<Rightarrow> u64 \<Rightarrow> string \<Rightarrow> u64 \<Rightarrow> u64 \<Rightarrow> boot_id \<Rightarrow> bool \<Rightarrow> string \<Rightarrow> u64
     \<Rightarrow> controller_handshake \<Rightarrow> (protocol_error, control_frame option) result \<times> controller_handshake" where
  "controller_ready_arm fill request_id target_display layout_revision
       received rboot input_ready received_display received_revision h =
     (if input_ready \<and> request_id = received \<and> target_display = received_display
         \<and> layout_revision = received_revision \<and> boot_bytes rboot \<noteq> zero16
      then (case session_generate fill (ch_local_boot h) rboot of
              Inl e \<Rightarrow> (Inl e, h)
            | Inr session_id \<Rightarrow> (Inr None, h\<lparr>ch_state := CReady request_id session_id\<rparr>))
      else (Inl WrongSession, h))"

definition controller_pong_arm ::
  "session_id \<Rightarrow> session_id \<Rightarrow> u64 \<Rightarrow> u64 \<Rightarrow> controller_handshake
     \<Rightarrow> (protocol_error, control_frame option) result \<times> controller_handshake" where
  "controller_pong_arm session_id received pong_sequence highest_applied h =
     (if session_id = received \<and> pong_sequence > ch_last_pong_sequence h
         \<and> pong_sequence \<le> ch_ping_sequence h \<and> highest_applied \<ge> ch_highest_remote_applied h
      then (Inr None, h\<lparr>ch_last_pong_sequence := pong_sequence, ch_highest_remote_applied := highest_applied\<rparr>)
      else (Inl WrongSession, h))"

fun controller_match ::
  "u8 list option \<Rightarrow> controller_state \<Rightarrow> control_frame \<Rightarrow> controller_handshake
     \<Rightarrow> (protocol_error, control_frame option) result \<times> controller_handshake" where
  "controller_match fill _ (Reject _ _) h = (Inl InvalidTransition, h\<lparr>ch_state := CEnded\<rparr>)"
| "controller_match fill (CAwaitReady q display revision) (Ready rq rboot ready rdisplay rrevision) h =
     controller_ready_arm fill q display revision rq rboot ready rdisplay rrevision h"
| "controller_match fill (CAwaitCommitAck session_id) (CommitAck received) h =
     (if session_id = received
      then (Inr None, h\<lparr>ch_state := CActive session_id, ch_ping_sequence := 0,
              ch_last_pong_sequence := 0, ch_highest_remote_applied := 0\<rparr>)
      else (Inl WrongSession, h))"
| "controller_match fill (CActive session_id) (Pong received pong_sequence highest_applied) h =
     controller_pong_arm session_id received pong_sequence highest_applied h"
| "controller_match fill _ _ h = (Inl InvalidTransition, h)"

definition controller_handle ::
  "u8 list option \<Rightarrow> control_frame \<Rightarrow> controller_handshake
     \<Rightarrow> (protocol_error, control_frame option) result \<times> controller_handshake" where
  "controller_handle fill frame h =
     (case validate_frame frame of
        Inl e \<Rightarrow> (Inl e, h)
      | Inr _ \<Rightarrow> controller_match fill (ch_state h) frame h)"

definition active_session :: "controller_handshake \<Rightarrow> session_id option" where
  "active_session h = (case ch_state h of CActive session_id \<Rightarrow> Some session_id | _ \<Rightarrow> None)"

definition prepared_session :: "controller_handshake \<Rightarrow> (u64 \<times> session_id) option" where
  "prepared_session h =
     (case ch_state h of CReady request_id session_id \<Rightarrow> Some (request_id, session_id) | _ \<Rightarrow> None)"

definition controller_commit ::
  "u64 \<Rightarrow> session_id \<Rightarrow> controller_handshake
     \<Rightarrow> (protocol_error, control_frame) result \<times> controller_handshake" where
  "controller_commit request_id session_id h =
     (if prepared_session h \<noteq> Some (request_id, session_id) then (Inl WrongSession, h)
      else (Inr (Commit request_id session_id), h\<lparr>ch_state := CAwaitCommitAck session_id\<rparr>))"

definition controller_ping ::
  "controller_handshake \<Rightarrow> (protocol_error, control_frame) result \<times> controller_handshake" where
  "controller_ping h =
     (case active_session h of
        None \<Rightarrow> (Inl InvalidTransition, h)
      | Some session_id \<Rightarrow>
          (case checked_add (ch_ping_sequence h) 1 of
             None \<Rightarrow> (Inl (InvalidField ''sequence''), h)
           | Some n \<Rightarrow> (Inr (Ping session_id n), h\<lparr>ch_ping_sequence := n\<rparr>)))"

definition controller_abort :: "controller_handshake \<Rightarrow> controller_handshake" where
  "controller_abort h = h\<lparr>ch_state := CEnded\<rparr>"

definition controller_end ::
  "string \<Rightarrow> controller_handshake \<Rightarrow> (protocol_error, control_frame) result \<times> controller_handshake" where
  "controller_end reason h =
     (case active_session h of
        None \<Rightarrow> (Inl InvalidTransition, h)
      | Some session_id \<Rightarrow>
          (case validate_frame (EndSession session_id reason) of
             Inl e \<Rightarrow> (Inl e, h)
           | Inr _ \<Rightarrow> (Inr (EndSession session_id reason), h\<lparr>ch_state := CEnded\<rparr>)))"

section \<open>The gate of the input stream\<close>

record input_session_gate =
  ig_local_boot :: boot_id
  ig_active :: "(session_id \<times> u64) option"
  ig_ended :: "session_id option"

definition input_gate_new :: "boot_id \<Rightarrow> input_session_gate" where
  "input_gate_new local_boot = \<lparr>ig_local_boot = local_boot, ig_active = None, ig_ended = None\<rparr>"

definition input_gate_activate ::
  "session_id \<Rightarrow> input_session_gate \<Rightarrow> (protocol_error, unit) result \<times> input_session_gate" where
  "input_gate_activate session_id g =
     (case validate_session session_id of
        Inl e \<Rightarrow> (Inl e, g)
      | Inr _ \<Rightarrow>
          if receiver_boot session_id \<noteq> ig_local_boot g then (Inl WrongBoot, g)
          else if ig_ended g = Some session_id then (Inl WrongSession, g)
          else (Inr (), g\<lparr>ig_active := Some (session_id, 1)\<rparr>))"

definition input_gate_accept ::
  "critical_frame \<Rightarrow> input_session_gate \<Rightarrow> (protocol_error, unit) result \<times> input_session_gate" where
  "input_gate_accept frame g =
     (case validate_critical frame of
        Inl e \<Rightarrow> (Inl e, g)
      | Inr _ \<Rightarrow>
          (case ig_active g of
             None \<Rightarrow> (Inl WrongSession, g)
           | Some (session_id, next_sequence) \<Rightarrow>
               if receiver_boot (cf_session_id frame) \<noteq> ig_local_boot g then (Inl WrongBoot, g)
               else if cf_session_id frame \<noteq> session_id \<or> cf_sequence frame \<noteq> next_sequence
               then (Inl WrongSession, g)
               else (case checked_add next_sequence 1 of
                       None \<Rightarrow> (Inl (InvalidField ''sequence''), g)
                     | Some following_sequence \<Rightarrow>
                         (Inr (), g\<lparr>ig_active := Some (session_id, following_sequence)\<rparr>))))"

definition input_gate_end ::
  "session_id \<Rightarrow> input_session_gate \<Rightarrow> (protocol_error, unit) result \<times> input_session_gate" where
  "input_gate_end session_id g =
     (case ig_active g of
        None \<Rightarrow> (Inl WrongSession, g)
      | Some (active, _) \<Rightarrow>
          if active \<noteq> session_id then (Inl WrongSession, g)
          else (Inr (), g\<lparr>ig_active := None, ig_ended := Some session_id\<rparr>))"

section \<open>The receiver's handshake\<close>

datatype receiver_state =
    RAwaitHello
  | RIdle boot_id
  | RPrepared boot_id u64
  | RActive session_id
  | REnded session_id

record receiver_handshake =
  rh_trusted_peer_id :: string
  rh_local_boot :: boot_id
  rh_state :: receiver_state

definition receiver_new :: "string \<Rightarrow> boot_id \<Rightarrow> (protocol_error, receiver_handshake) result" where
  "receiver_new trusted_peer_id local_boot =
     and_then (validate_text trusted_peer_id MAX_PEER_ID_BYTES ''peer_id'')
       (Inr \<lparr>rh_trusted_peer_id = trusted_peer_id, rh_local_boot = local_boot, rh_state = RAwaitHello\<rparr>)"

definition abort_active ::
  "session_id \<Rightarrow> receiver_handshake \<Rightarrow> (protocol_error, unit) result \<times> receiver_handshake" where
  "abort_active session_id h =
     (case rh_state h of
        RActive active \<Rightarrow>
          if active = session_id then (Inr (), h\<lparr>rh_state := REnded session_id\<rparr>)
          else (Inl WrongSession, h)
      | _ \<Rightarrow> (Inl WrongSession, h))"

text \<open>The reply to a \<open>Prepare\<close> from \<open>Idle\<close> or \<open>Ended\<close>.\<close>

definition receiver_prepare ::
  "boot_id \<Rightarrow> u64 \<Rightarrow> string \<Rightarrow> u64 \<Rightarrow> receiver_handshake
     \<Rightarrow> (protocol_error, control_frame option) result \<times> receiver_handshake" where
  "receiver_prepare boot request_id target_display layout_revision h =
     (Inr (Some (Ready request_id (rh_local_boot h) True target_display layout_revision)),
      h\<lparr>rh_state := RPrepared boot request_id\<rparr>)"

text \<open>The last arms: what a \<open>Hello\<close>, a session frame or anything else means out of place.\<close>

fun receiver_mismatch :: "control_frame \<Rightarrow> receiver_handshake \<Rightarrow> protocol_error" where
  "receiver_mismatch (Hello boot peer_id role capabilities) h =
     (case rh_state h of
        RIdle b \<Rightarrow> if b \<noteq> boot then WrongBoot else InvalidTransition
      | RPrepared b _ \<Rightarrow> if b \<noteq> boot then WrongBoot else InvalidTransition
      | _ \<Rightarrow> InvalidTransition)"
| "receiver_mismatch (Commit request_id session) h =
     (if receiver_boot session \<noteq> rh_local_boot h then WrongBoot else WrongSession)"
| "receiver_mismatch (Ping session ping_sequence) h =
     (if receiver_boot session \<noteq> rh_local_boot h then WrongBoot else WrongSession)"
| "receiver_mismatch (EndSession session reason) h =
     (if receiver_boot session \<noteq> rh_local_boot h then WrongBoot else WrongSession)"
| "receiver_mismatch _ h = InvalidTransition"

definition receiver_commit ::
  "boot_id \<Rightarrow> u64 \<Rightarrow> u64 \<Rightarrow> session_id \<Rightarrow> receiver_handshake
     \<Rightarrow> (protocol_error, control_frame option) result \<times> receiver_handshake" where
  "receiver_commit boot request_id incoming_request session h =
     (if incoming_request \<noteq> request_id then (Inl InvalidTransition, h)
      else if controller_boot session \<noteq> boot \<or> receiver_boot session \<noteq> rh_local_boot h
      then (Inl WrongBoot, h)
      else (Inr (Some (CommitAck session)), h\<lparr>rh_state := RActive session\<rparr>))"

fun receiver_match ::
  "receiver_state \<Rightarrow> control_frame \<Rightarrow> receiver_handshake
     \<Rightarrow> (protocol_error, control_frame option) result \<times> receiver_handshake" where
  "receiver_match RAwaitHello (Hello boot peer_id role capabilities) h =
     (if role = RoleController \<and> peer_id = rh_trusted_peer_id h
      then (Inr None, h\<lparr>rh_state := RIdle boot\<rparr>) else (Inl WrongRole, h))"
| "receiver_match (RIdle boot) (Prepare request_id target_display layout_revision) h =
     receiver_prepare boot request_id target_display layout_revision h"
| "receiver_match (RPrepared boot request_id) (Commit incoming_request session) h =
     receiver_commit boot request_id incoming_request session h"
| "receiver_match (RActive session) (Commit request_id next_session) h =
     (if session = next_session then (Inr (Some (CommitAck session)), h)
      else (Inl (receiver_mismatch (Commit request_id next_session) h), h))"
| "receiver_match (RActive session) (EndSession ended reason) h =
     (if session = ended then (Inr None, h\<lparr>rh_state := REnded session\<rparr>)
      else (Inl (receiver_mismatch (EndSession ended reason) h), h))"
| "receiver_match (RActive session) (Ping pinged ping_sequence) h =
     (if session = pinged then (Inr (Some (Pong session ping_sequence 0)), h)
      else (Inl (receiver_mismatch (Ping pinged ping_sequence) h), h))"
| "receiver_match (REnded session) (EndSession ended reason) h =
     (if session = ended then (Inr None, h)
      else (Inl (receiver_mismatch (EndSession ended reason) h), h))"
| "receiver_match (REnded session) (Prepare request_id target_display layout_revision) h =
     receiver_prepare (controller_boot session) request_id target_display layout_revision h"
| "receiver_match RAwaitHello _ h = (Inl InvalidTransition, h)"
| "receiver_match _ frame h = (Inl (receiver_mismatch frame h), h)"

definition receiver_handle ::
  "control_frame \<Rightarrow> receiver_handshake
     \<Rightarrow> (protocol_error, control_frame option) result \<times> receiver_handshake" where
  "receiver_handle frame h =
     (case validate_frame frame of
        Inl e \<Rightarrow> (Inl e, h)
      | Inr _ \<Rightarrow> receiver_match (rh_state h) frame h)"

section \<open>How the handshakes move\<close>

lemma receiver_commit_to_active:
  assumes "receiver_handle frame h = (res, h')" and "rh_state h' = RActive s" and "rh_state h \<noteq> RActive s"
  shows "\<exists>q. rh_state h = RPrepared (controller_boot s) q \<and> frame = Commit q s
    \<and> receiver_boot s = rh_local_boot h \<and> validate_session s = Inr () \<and> res = Inr (Some (CommitAck s))"
proof -
  from assms have v: "validate_frame frame = Inr ()" and m: "receiver_match (rh_state h) frame h = (res, h')"
    by (auto simp: receiver_handle_def split: sum.splits)
  from m v assms(2,3) show ?thesis
    by (cases "(rh_state h, frame, h)" rule: receiver_match.cases)
      (auto simp: receiver_prepare_def receiver_commit_def split: if_splits)
qed

lemma receiver_ack_active:
  assumes "receiver_handle frame h = (Inr (Some (CommitAck s)), h')"
  shows "rh_state h' = RActive s \<and> (\<exists>q. frame = Commit q s)"
proof -
  from assms have m: "receiver_match (rh_state h) frame h = (Inr (Some (CommitAck s)), h')"
    by (auto simp: receiver_handle_def split: sum.splits)
  then show ?thesis
    by (cases "(rh_state h, frame, h)" rule: receiver_match.cases)
      (auto simp: receiver_prepare_def receiver_commit_def split: if_splits)
qed

lemma receiver_local_boot:
  assumes "receiver_handle frame h = (res, h')"
  shows "rh_local_boot h' = rh_local_boot h \<and> rh_trusted_peer_id h' = rh_trusted_peer_id h"
proof (cases "validate_frame frame")
  case (Inr u)
  with assms have m: "receiver_match (rh_state h) frame h = (res, h')"
    by (simp add: receiver_handle_def)
  then show ?thesis
    by (cases "(rh_state h, frame, h)" rule: receiver_match.cases)
      (auto simp: receiver_prepare_def receiver_commit_def split: if_splits)
qed (use assms in \<open>simp add: receiver_handle_def\<close>)

text \<open>Only an acknowledgement of the awaited session makes the controller active.\<close>

lemma controller_to_active:
  assumes "controller_handle fill frame h = (res, h')" and "ch_state h' = CActive s" and "ch_state h \<noteq> CActive s"
  shows "ch_state h = CAwaitCommitAck s \<and> frame = CommitAck s"
proof -
  from assms have m: "controller_match fill (ch_state h) frame h = (res, h')"
    by (auto simp: controller_handle_def split: sum.splits)
  from m assms(2,3) show ?thesis
    by (cases "(fill, ch_state h, frame, h)" rule: controller_match.cases)
      (auto simp: controller_ready_arm_def controller_pong_arm_def split: if_splits sum.splits)
qed

lemma controller_match_cases:
  assumes "controller_match fill st frame h = (res, h')" and "ch_state h = st"
  obtains (unchanged) "h' = h"
    | (rejected) "h' = h\<lparr>ch_state := CEnded\<rparr>" and "res = Inl InvalidTransition"
    | (ready) q display revision rboot s where "st = CAwaitReady q display revision"
      and "frame = Ready q rboot True display revision" and "session_generate fill (ch_local_boot h) rboot = Inr s"
      and "h' = h\<lparr>ch_state := CReady q s\<rparr>" and "res = Inr None"
    | (acked) s where "st = CAwaitCommitAck s" and "frame = CommitAck s" and "res = Inr None"
      and "h' = h\<lparr>ch_state := CActive s, ch_ping_sequence := 0,
          ch_last_pong_sequence := 0, ch_highest_remote_applied := 0\<rparr>"
    | (ponged) s n a where "st = CActive s" and "frame = Pong s n a" and "ch_last_pong_sequence h < n"
      and "n \<le> ch_ping_sequence h" and "ch_highest_remote_applied h \<le> a" and "res = Inr None"
      and "h' = h\<lparr>ch_last_pong_sequence := n, ch_highest_remote_applied := a\<rparr>"
proof (cases frame)
  case (Reject code detail)
  with assms(1) show ?thesis by (intro rejected) auto
next
  case (Ready rq rboot ready rdisplay rrevision)
  show ?thesis
  proof (cases st)
    case (CAwaitReady q display revision)
    with Ready assms(1) have arm: "controller_ready_arm fill q display revision rq rboot ready rdisplay rrevision h = (res, h')"
      by simp
    show ?thesis
    proof (cases "h' = h")
      case False
      with arm obtain s where "ready" "q = rq" "display = rdisplay" "revision = rrevision"
        "session_generate fill (ch_local_boot h) rboot = Inr s" "h' = h\<lparr>ch_state := CReady q s\<rparr>" "res = Inr None"
        by (auto simp: controller_ready_arm_def split: if_splits sum.splits)
      with CAwaitReady Ready show ?thesis using ready by blast
    qed (rule unchanged)
  qed (rule unchanged, use assms(1) Ready in simp)+
next
  case (CommitAck received)
  show ?thesis
  proof (cases "h' = h")
    case False
    with assms(1) CommitAck obtain s where "st = CAwaitCommitAck s" by (cases st) simp_all
    with False assms(1) CommitAck show ?thesis by (intro acked [of s]) (auto split: if_splits)
  qed (rule unchanged)
next
  case (Pong received n a)
  show ?thesis
  proof (cases st)
    case (CActive s)
    with Pong assms(1) have arm: "controller_pong_arm s received n a h = (res, h')" by simp
    show ?thesis
    proof (cases "h' = h")
      case False
      with arm CActive Pong show ?thesis
        by (intro ponged [of s n a]) (auto simp: controller_pong_arm_def split: if_splits)
    qed (rule unchanged)
  qed (rule unchanged, use assms(1) Pong in simp)+
qed (rule unchanged, use assms(1) in \<open>cases st; simp\<close>)+

lemma controller_handle_cases:
  assumes "controller_handle fill frame h = (res, h')"
  obtains (unchanged) "h' = h"
    | (rejected) "h' = h\<lparr>ch_state := CEnded\<rparr>" and "res = Inl InvalidTransition"
    | (ready) q display revision rboot s where "ch_state h = CAwaitReady q display revision"
      and "frame = Ready q rboot True display revision" and "session_generate fill (ch_local_boot h) rboot = Inr s"
      and "h' = h\<lparr>ch_state := CReady q s\<rparr>" and "res = Inr None"
    | (acked) s where "ch_state h = CAwaitCommitAck s" and "frame = CommitAck s" and "res = Inr None"
      and "h' = h\<lparr>ch_state := CActive s, ch_ping_sequence := 0,
          ch_last_pong_sequence := 0, ch_highest_remote_applied := 0\<rparr>"
    | (ponged) s n a where "ch_state h = CActive s" and "frame = Pong s n a" and "ch_last_pong_sequence h < n"
      and "n \<le> ch_ping_sequence h" and "ch_highest_remote_applied h \<le> a" and "res = Inr None"
      and "h' = h\<lparr>ch_last_pong_sequence := n, ch_highest_remote_applied := a\<rparr>"
proof (cases "validate_frame frame")
  case (Inl e)
  with assms show ?thesis by (intro unchanged) (simp add: controller_handle_def)
next
  case (Inr u)
  with assms have "controller_match fill (ch_state h) frame h = (res, h')"
    by (simp add: controller_handle_def)
  then show ?thesis
    by (cases rule: controller_match_cases [OF _ refl, consumes 1]) (fact that)+
qed

section \<open>The input gate\<close>

text \<open>The frames a gate accepts, in order.\<close>

fun accepted_frames :: "critical_frame list \<Rightarrow> input_session_gate \<Rightarrow> critical_frame list" where
  "accepted_frames [] g = []"
| "accepted_frames (frame # frames) g =
     (case input_gate_accept frame g of
        (Inl _, g1) \<Rightarrow> accepted_frames frames g1
      | (Inr _, g1) \<Rightarrow> frame # accepted_frames frames g1)"

lemma gate_accept_InrD:
  assumes "input_gate_accept frame g = (Inr u, g')"
  shows "ig_active g = Some (cf_session_id frame, cf_sequence frame)
    \<and> checked_add (cf_sequence frame) 1 = Some (cf_sequence frame + 1)
    \<and> g' = g\<lparr>ig_active := Some (cf_session_id frame, cf_sequence frame + 1)\<rparr>
    \<and> validate_critical frame = Inr ()"
  using assms
  by (auto simp: input_gate_accept_def checked_add_def split: sum.splits option.splits if_splits prod.splits)

lemma gate_accept_InlD: "input_gate_accept frame g = (Inl e, g') \<Longrightarrow> g' = g"
  by (auto simp: input_gate_accept_def split: sum.splits option.splits if_splits prod.splits)

lemma accepted_frames_sequence:
  assumes "ig_active g = Some (s, n)"
  shows "map (\<lambda>f. unat (cf_sequence f)) (accepted_frames frames g)
      = [unat n ..< unat n + length (accepted_frames frames g)]
    \<and> (\<forall>f \<in> set (accepted_frames frames g). cf_session_id f = s)"
  using assms
proof (induction frames arbitrary: g n)
  case (Cons frame frames)
  obtain res g1 where acc: "input_gate_accept frame g = (res, g1)" by fastforce
  show ?case
  proof (cases res)
    case (Inl e)
    with gate_accept_InlD acc have "g1 = g" by blast
    with Cons acc Inl show ?thesis by simp
  next
    case (Inr u)
    from gate_accept_InrD [OF acc [unfolded Inr]] Cons.prems
    have f: "cf_session_id frame = s" "cf_sequence frame = n" "ig_active g1 = Some (s, n + 1)"
      and add: "checked_add n 1 = Some (n + 1)" by auto
    from checked_add_unat [OF add] have "unat (n + 1) = Suc (unat n)" by simp
    with Cons.IH [OF f(3)] f acc Inr show ?thesis by (simp add: upt_conv_Cons del: upt_Suc)
  qed
qed simp

section \<open>Properties\<close>

text \<open>The reliable input stream is applied in order and without replay: after a session is
  activated, the frames the gate lets through, whatever arrives, all carry that session and
  their sequence numbers are exactly 1, 2, 3 and so on.\<close>

theorem input_gate_in_order:
  assumes "input_gate_activate s g = (Inr (), g')"
  shows "map (\<lambda>f. unat (cf_sequence f)) (accepted_frames frames g')
      = [1 ..< 1 + length (accepted_frames frames g')]
    \<and> (\<forall>f \<in> set (accepted_frames frames g'). cf_session_id f = s)"
proof -
  from assms have "ig_active g' = Some (s, 1)"
    by (auto simp: input_gate_activate_def split: sum.splits if_splits)
  from accepted_frames_sequence [OF this, of frames] show ?thesis by simp
qed

definition demo_gate :: input_session_gate where
  "demo_gate = \<lparr>ig_local_boot = demo_boot 2, ig_active = Some (demo_session, 1), ig_ended = None\<rparr>"

theorem input_gate_in_order_witness:
  "map (\<lambda>f. unat (cf_sequence f))
     (accepted_frames [demo_key_frame 1 True, demo_key_frame 3 True, demo_key_frame 1 False,
        demo_key_frame 2 False] demo_gate) = [1, 2]"
proof -
  let ?fs = "[demo_key_frame 1 True, demo_key_frame 3 True, demo_key_frame 1 False, demo_key_frame 2 False]"
  have act: "input_gate_activate demo_session (input_gate_new (demo_boot 2)) = (Inr (), demo_gate)"
    by (simp add: input_gate_activate_def input_gate_new_def demo_gate_def)
  have "length (accepted_frames ?fs demo_gate) = 2"
    by (simp add: input_gate_accept_def demo_gate_def demo_key_frame_def validate_critical_def checked_add_def)
  with input_gate_in_order [OF act, of ?fs] show ?thesis
    by (simp add: upt_rec del: accepted_frames.simps)
qed

end
