(* ===== verification/Session_Link.thy ===== *)
theory Session_Link
  imports Handshake
begin

text \<open>
  The controller's and the receiver's handshake over one reliable ordered connection: two
  FIFO queues of control frames between them.  A step is an operation of one end or the
  delivery of the oldest frame.  The ghost fields record the commits the controller sent
  and the sessions the receiver acknowledged.
\<close>

section \<open>The composed system\<close>

record link =
  lk_controller :: controller_handshake
  lk_receiver :: receiver_handshake
  lk_to_receiver :: "control_frame list"
  lk_to_controller :: "control_frame list"
  lk_committed :: "(u64 \<times> session_id) list"
  lk_accepted :: "session_id list"

definition link_start :: "controller_handshake \<Rightarrow> receiver_handshake \<Rightarrow> link" where
  "link_start c r = \<lparr>lk_controller = c, lk_receiver = r, lk_to_receiver = [], lk_to_controller = [],
     lk_committed = [], lk_accepted = []\<rparr>"

text \<open>The runtime writes the highest applied sequence into a \<open>Pong\<close> before it is sent.\<close>

fun with_applied :: "u64 \<Rightarrow> control_frame \<Rightarrow> control_frame" where
  "with_applied applied (Pong session n _) = Pong session n applied"
| "with_applied applied frame = frame"

fun acked_session :: "control_frame \<Rightarrow> session_id list" where
  "acked_session (CommitAck session) = [session]"
| "acked_session _ = []"

fun reply_frames :: "u64 \<Rightarrow> (protocol_error, control_frame option) result \<Rightarrow> control_frame list" where
  "reply_frames applied (Inr (Some frame)) = [with_applied applied frame]"
| "reply_frames applied _ = []"

inductive link_step :: "link \<Rightarrow> link \<Rightarrow> bool" where
  link_begin: "controller_begin q display revision (lk_controller l) = (Inr frames, c) \<Longrightarrow>
     link_step l (l\<lparr>lk_controller := c, lk_to_receiver := lk_to_receiver l @ frames\<rparr>)"
| link_commit: "controller_commit q s (lk_controller l) = (Inr frame, c) \<Longrightarrow>
     link_step l (l\<lparr>lk_controller := c, lk_to_receiver := lk_to_receiver l @ [frame],
       lk_committed := (q, s) # lk_committed l\<rparr>)"
| link_ping: "controller_ping (lk_controller l) = (Inr frame, c) \<Longrightarrow>
     link_step l (l\<lparr>lk_controller := c, lk_to_receiver := lk_to_receiver l @ [frame]\<rparr>)"
| link_end: "controller_end reason (lk_controller l) = (Inr frame, c) \<Longrightarrow>
     link_step l (l\<lparr>lk_controller := c, lk_to_receiver := lk_to_receiver l @ [frame]\<rparr>)"
| link_abort: "link_step l (l\<lparr>lk_controller := controller_abort (lk_controller l)\<rparr>)"
| link_abort_receiver: "abort_active s (lk_receiver l) = (res, r) \<Longrightarrow>
     link_step l (l\<lparr>lk_receiver := r\<rparr>)"
| link_reject: "link_step l (l\<lparr>lk_to_controller := lk_to_controller l @ [Reject code detail]\<rparr>)"
| link_receive: "lk_to_receiver l = frame # rest \<Longrightarrow> receiver_handle frame (lk_receiver l) = (reply, r) \<Longrightarrow>
     link_step l (l\<lparr>lk_receiver := r, lk_to_receiver := rest,
       lk_to_controller := lk_to_controller l @ reply_frames applied reply,
       lk_accepted := concat (map acked_session (reply_frames applied reply)) @ lk_accepted l\<rparr>)"
| link_answer: "lk_to_controller l = frame # rest \<Longrightarrow> controller_handle fill frame (lk_controller l) = (res', c) \<Longrightarrow>
     link_step l (l\<lparr>lk_controller := c, lk_to_controller := rest\<rparr>)"

inductive link_reach :: "link \<Rightarrow> link \<Rightarrow> bool" for l0 :: link where
  link_reach_start: "link_reach l0 l0"
| link_reach_step: "link_reach l0 l \<Longrightarrow> link_step l l' \<Longrightarrow> link_reach l0 l'"

section \<open>The agreement invariant\<close>

fun session_of_state :: "controller_state \<Rightarrow> session_id option" where
  "session_of_state (CReady q s) = Some s"
| "session_of_state (CAwaitCommitAck s) = Some s"
| "session_of_state (CActive s) = Some s"
| "session_of_state _ = None"

definition link_inv :: "link \<Rightarrow> bool" where
  "link_inv l \<longleftrightarrow>
     (\<forall>q s. Commit q s \<in> set (lk_to_receiver l) \<longrightarrow> (q, s) \<in> set (lk_committed l)) \<and>
     (\<forall>s \<in> set (lk_accepted l). s \<in> snd ` set (lk_committed l)
        \<and> receiver_boot s = rh_local_boot (lk_receiver l)) \<and>
     (\<forall>s. CommitAck s \<in> set (lk_to_controller l) \<longrightarrow> s \<in> set (lk_accepted l)) \<and>
     (\<forall>s. ch_state (lk_controller l) = CActive s \<longrightarrow> s \<in> set (lk_accepted l)) \<and>
     (\<forall>s. rh_state (lk_receiver l) = RActive s \<longrightarrow> s \<in> set (lk_accepted l)) \<and>
     (\<forall>s. session_of_state (ch_state (lk_controller l)) = Some s
        \<longrightarrow> controller_boot s = ch_local_boot (lk_controller l)) \<and>
     (\<forall>s \<in> snd ` set (lk_committed l). controller_boot s = ch_local_boot (lk_controller l))"

lemma controller_begin_InrD:
  assumes "controller_begin q display revision h = (Inr frames, h')"
  shows "h' = h\<lparr>ch_state := CAwaitReady q display revision\<rparr>"
    and "frames = [Hello (ch_local_boot h) (ch_local_peer_id h) RoleController REQUIRED_CAPABILITIES,
      Prepare q display revision]"
    and "validate_frame (Prepare q display revision) = Inr ()"
  using assms by (auto simp: controller_begin_def Let_def simp del: validate_frame.simps split: if_splits sum.splits)

lemma controller_commit_InrD:
  assumes "controller_commit q s h = (Inr frame, h')"
  shows "ch_state h = CReady q s" and "frame = Commit q s" and "h' = h\<lparr>ch_state := CAwaitCommitAck s\<rparr>"
  using assms
  by (auto simp: controller_commit_def prepared_session_def split: if_splits controller_state.splits)

lemma controller_ping_InrD:
  assumes "controller_ping h = (Inr frame, h')"
  shows "\<exists>s n. ch_state h = CActive s \<and> checked_add (ch_ping_sequence h) 1 = Some n
    \<and> frame = Ping s n \<and> h' = h\<lparr>ch_ping_sequence := n\<rparr>"
  using assms
  by (auto simp: controller_ping_def active_session_def split: option.splits controller_state.splits)

lemma controller_end_InrD:
  assumes "controller_end reason h = (Inr frame, h')"
  shows "\<exists>s. ch_state h = CActive s \<and> frame = EndSession s reason \<and> h' = h\<lparr>ch_state := CEnded\<rparr>"
  using assms
  by (auto simp: controller_end_def active_session_def simp del: validate_frame.simps
      split: option.splits sum.splits controller_state.splits)

lemma abort_active_cases:
  assumes "abort_active s h = (res, h')"
  shows "h' = h \<or> (rh_state h = RActive s \<and> h' = h\<lparr>rh_state := REnded s\<rparr>)"
  using assms by (auto simp: abort_active_def split: receiver_state.splits if_splits)

lemma link_inv_start:
  assumes "ch_state c = CIdle" and "rh_state r = RAwaitHello"
  shows "link_inv (link_start c r)"
  using assms by (simp add: link_inv_def link_start_def)

lemma reply_frames_simps [simp]:
  "reply_frames applied (Inl e) = []" "reply_frames applied (Inr None) = []"
  by simp_all

lemma with_applied_ack [simp]:
  "CommitAck s = with_applied applied frame \<longleftrightarrow> frame = CommitAck s"
  "with_applied applied frame = CommitAck s \<longleftrightarrow> frame = CommitAck s"
  by (cases frame; auto)+

lemma acked_with_applied [simp]: "acked_session (with_applied applied frame) = acked_session frame"
  by (cases frame) simp_all

lemma set_acked_session [simp]: "s \<in> set (acked_session frame) \<longleftrightarrow> frame = CommitAck s"
  by (cases frame) auto

lemma acked_reply:
  "s \<in> set (concat (map acked_session (reply_frames applied reply))) \<longleftrightarrow> reply = Inr (Some (CommitAck s))"
  "CommitAck s \<in> set (reply_frames applied reply) \<longleftrightarrow> reply = Inr (Some (CommitAck s))"
  by (cases "(applied, reply)" rule: reply_frames.cases; auto)+

lemma link_receive_inv:
  assumes inv: "link_inv l" and head: "lk_to_receiver l = frame # rest"
    and step: "receiver_handle frame (lk_receiver l) = (reply, r)"
  shows "link_inv (l\<lparr>lk_receiver := r, lk_to_receiver := rest,
       lk_to_controller := lk_to_controller l @ reply_frames applied reply,
       lk_accepted := concat (map acked_session (reply_frames applied reply)) @ lk_accepted l\<rparr>)"
proof -
  have boot: "rh_local_boot r = rh_local_boot (lk_receiver l)" using receiver_local_boot [OF step] by simp
  have acked: "s \<in> snd ` set (lk_committed l) \<and> receiver_boot s = rh_local_boot (lk_receiver l)"
    if reply: "reply = Inr (Some (CommitAck s))" for s
  proof -
    from receiver_ack_active [OF step [unfolded reply]] obtain q
      where st: "rh_state r = RActive s" and frame: "frame = Commit q s" by blast
    from inv head frame have "(q, s) \<in> set (lk_committed l)" by (simp add: link_inv_def)
    then have mem: "s \<in> snd ` set (lk_committed l)" by force
    show ?thesis
    proof (cases "rh_state (lk_receiver l) = RActive s")
      case True
      with inv show ?thesis by (simp add: link_inv_def)
    next
      case False
      from receiver_commit_to_active [OF step st this] mem show ?thesis by blast
    qed
  qed
  have active: "s \<in> set (lk_accepted l) \<or> reply = Inr (Some (CommitAck s))" if "rh_state r = RActive s" for s
    using receiver_commit_to_active [OF step that] inv
    by (cases "rh_state (lk_receiver l) = RActive s") (simp_all add: link_inv_def, blast)
  show ?thesis
    unfolding link_inv_def
    using inv head acked active boot by (auto simp: link_inv_def acked_reply)
qed

lemma link_answer_inv:
  assumes inv: "link_inv l" and head: "lk_to_controller l = frame # rest"
    and step: "controller_handle fill frame (lk_controller l) = (res, c)"
  shows "link_inv (l\<lparr>lk_controller := c, lk_to_controller := rest\<rparr>)"
  using step
proof (cases rule: controller_handle_cases)
  case (ready q display revision rboot s)
  with inv head session_generate_InrD(2) [OF ready(3)] show ?thesis by (simp add: link_inv_def)
next
  case (acked s)
  with inv head show ?thesis by (simp add: link_inv_def)
next
  case (ponged s n a)
  with inv head show ?thesis by (simp add: link_inv_def)
qed (use inv head in \<open>simp_all add: link_inv_def\<close>)

lemma link_step_inv: "link_step l l' \<Longrightarrow> link_inv l \<Longrightarrow> link_inv l'"
proof (induction rule: link_step.induct)
  case (link_begin q display revision l frames c)
  with controller_begin_InrD [OF link_begin(1)] show ?case by (simp add: link_inv_def)
next
  case (link_commit q s l frame c)
  with controller_commit_InrD [OF link_commit(1)] show ?case by (auto simp: link_inv_def)
next
  case (link_ping l frame c)
  with controller_ping_InrD [OF link_ping(1)] show ?case by (auto simp: link_inv_def)
next
  case (link_end reason l frame c)
  with controller_end_InrD [OF link_end(1)] show ?case by (auto simp: link_inv_def)
next
  case (link_abort l)
  then show ?case by (simp add: link_inv_def controller_abort_def)
next
  case (link_abort_receiver s l res r)
  with abort_active_cases [OF link_abort_receiver(1)] show ?case by (auto simp: link_inv_def)
next
  case (link_reject l code detail)
  then show ?case by (simp add: link_inv_def)
next
  case (link_receive l frame rest reply r applied)
  then show ?case by (intro link_receive_inv)
next
  case (link_answer l frame rest fill res' c)
  then show ?case by (intro link_answer_inv)
qed

lemma link_reach_inv: "link_reach l0 l \<Longrightarrow> link_inv l0 \<Longrightarrow> link_inv l"
  by (induction rule: link_reach.induct) (auto intro: link_step_inv)

section \<open>Pings\<close>

text \<open>The controller's ping bookkeeping: answered pings were sent, and the peer's progress
  never goes back while one session is active.\<close>

definition ping_inv :: "controller_handshake \<Rightarrow> bool" where
  "ping_inv h \<longleftrightarrow> ch_last_pong_sequence h \<le> ch_ping_sequence h"

lemma controller_handle_ping_inv:
  assumes "ping_inv h" and "controller_handle fill frame h = (res, h')"
  shows "ping_inv h'"
  using assms(2) by (cases rule: controller_handle_cases) (use assms(1) in \<open>simp_all add: ping_inv_def\<close>)

lemma link_step_ping:
  assumes "link_step l l'" and "ping_inv (lk_controller l)"
  shows "ping_inv (lk_controller l')"
  using assms
proof (induction rule: link_step.induct)
  case (link_begin q display revision l frames c)
  with controller_begin_InrD [OF link_begin(1)] show ?case by (simp add: ping_inv_def)
next
  case (link_commit q s l frame c)
  with controller_commit_InrD [OF link_commit(1)] show ?case by (simp add: ping_inv_def)
next
  case (link_ping l frame c)
  with controller_ping_InrD [OF link_ping(1)] checked_add_greater [of "ch_ping_sequence (lk_controller l)" 1]
  show ?case by (fastforce simp: ping_inv_def)
next
  case (link_end reason l frame c)
  with controller_end_InrD [OF link_end(1)] show ?case by (auto simp: ping_inv_def)
next
  case (link_answer l frame rest fill res' c)
  with controller_handle_ping_inv show ?case by simp
qed (simp_all add: ping_inv_def controller_abort_def)

text \<open>While one session stays active, the peer's reported progress only grows.\<close>

lemma link_step_progress:
  assumes "link_step l l'" and "ch_state (lk_controller l) = CActive s" and "ch_state (lk_controller l') = CActive s"
  shows "ch_highest_remote_applied (lk_controller l) \<le> ch_highest_remote_applied (lk_controller l')
    \<and> ch_last_pong_sequence (lk_controller l) \<le> ch_last_pong_sequence (lk_controller l')"
  using assms
proof (induction rule: link_step.induct)
  case (link_begin q display revision l frames c)
  with controller_begin_InrD [OF link_begin(1)] show ?case by simp
next
  case (link_commit q s' l frame c)
  with controller_commit_InrD [OF link_commit(1)] show ?case by simp
next
  case (link_ping l frame c)
  with controller_ping_InrD [OF link_ping(1)] show ?case by auto
next
  case (link_end reason l frame c)
  with controller_end_InrD [OF link_end(1)] show ?case by auto
next
  case (link_answer l frame rest fill res' c)
  from link_answer(2) show ?case
    by (cases rule: controller_handle_cases) (use link_answer in simp_all)
qed (simp_all add: controller_abort_def)

section \<open>Properties\<close>

text \<open>C4. The two ends agree: whatever the interleaving of operations, deliveries, aborts and
  rejections, when the controller's handshake is active in a session, the receiver has
  acknowledged that session, it names both ends' boot identifiers, and the controller had
  committed it; and the receiver never acknowledges a session the controller did not commit.\<close>

theorem session_agreement:
  assumes "ch_state c = CIdle" and "rh_state r = RAwaitHello" and "link_reach (link_start c r) l"
  shows "(\<forall>s. ch_state (lk_controller l) = CActive s \<longrightarrow> s \<in> set (lk_accepted l)
        \<and> controller_boot s = ch_local_boot (lk_controller l) \<and> receiver_boot s = rh_local_boot (lk_receiver l))
    \<and> (\<forall>s \<in> set (lk_accepted l). \<exists>q. (q, s) \<in> set (lk_committed l))"
proof -
  have "link_inv l" using link_reach_inv [OF assms(3) link_inv_start [OF assms(1,2)]] .
  then show ?thesis by (fastforce simp: link_inv_def)
qed

text \<open>A run of the handshake on concrete ends, for the witnesses.\<close>

definition demo_peer_id :: string where "demo_peer_id = ''win''"

lemma demo_peer_id_ok [simp]: "\<not> is_blank demo_peer_id" "length demo_peer_id = 3"
  by code_simp+

definition demo_controller :: "controller_state \<Rightarrow> controller_handshake" where
  "demo_controller st = \<lparr>ch_local_boot = demo_boot 1, ch_local_peer_id = demo_peer_id, ch_state = st,
     ch_ping_sequence = 0, ch_last_pong_sequence = 0, ch_highest_remote_applied = 0\<rparr>"

definition demo_receiver :: "receiver_state \<Rightarrow> receiver_handshake" where
  "demo_receiver st = \<lparr>rh_trusted_peer_id = demo_peer_id, rh_local_boot = demo_boot 2, rh_state = st\<rparr>"

lemma demo_capabilities [simp]: "\<not> is_blank ''control_v2''" "\<not> is_blank ''input_v2''"
  by code_simp+

lemma demo_hello_valid [simp]:
  "validate_frame (Hello (demo_boot 1) demo_peer_id RoleController REQUIRED_CAPABILITIES) = Inr ()"
  by (simp add: protocol_limits)

lemma demo_prepare_valid [simp]: "validate_frame (Prepare 7 ''main'' 5) = Inr ()"
  by (simp add: protocol_limits)

lemma demo_ready_valid [simp]: "validate_frame (Ready 7 (demo_boot 2) True ''main'' 5) = Inr ()"
  by (simp add: protocol_limits)

lemma demo_begin: "controller_begin 7 ''main'' 5 (demo_controller CIdle)
   = (Inr [Hello (demo_boot 1) demo_peer_id RoleController REQUIRED_CAPABILITIES, Prepare 7 ''main'' 5],
      demo_controller (CAwaitReady 7 ''main'' 5))"
  by (simp add: controller_begin_def demo_controller_def Let_def del: validate_frame.simps)

lemma demo_hello: "receiver_handle (Hello (demo_boot 1) demo_peer_id RoleController REQUIRED_CAPABILITIES)
    (demo_receiver RAwaitHello) = (Inr None, demo_receiver (RIdle (demo_boot 1)))"
  by (simp add: receiver_handle_def demo_receiver_def del: validate_frame.simps)

lemma demo_prepare: "receiver_handle (Prepare 7 ''main'' 5) (demo_receiver (RIdle (demo_boot 1)))
   = (Inr (Some (Ready 7 (demo_boot 2) True ''main'' 5)), demo_receiver (RPrepared (demo_boot 1) 7))"
  by (simp add: receiver_handle_def receiver_prepare_def demo_receiver_def del: validate_frame.simps)

lemma demo_generate: "session_generate (Some (replicate 16 3)) (demo_boot 1) (demo_boot 2) = Inr demo_session"
  by (simp add: session_generate_def demo_session_def zero16_def)

lemma demo_ready_answer: "controller_handle (Some (replicate 16 3)) (Ready 7 (demo_boot 2) True ''main'' 5)
    (demo_controller (CAwaitReady 7 ''main'' 5)) = (Inr None, demo_controller (CReady 7 demo_session))"
  using demo_generate
  by (simp add: controller_handle_def controller_ready_arm_def demo_controller_def del: validate_frame.simps)

lemma demo_commit: "controller_commit 7 demo_session (demo_controller (CReady 7 demo_session))
   = (Inr (Commit 7 demo_session), demo_controller (CAwaitCommitAck demo_session))"
  by (simp add: controller_commit_def prepared_session_def demo_controller_def)

lemma demo_accept: "receiver_handle (Commit 7 demo_session) (demo_receiver (RPrepared (demo_boot 1) 7))
   = (Inr (Some (CommitAck demo_session)), demo_receiver (RActive demo_session))"
  by (simp add: receiver_handle_def receiver_commit_def demo_receiver_def)

lemma demo_acked: "controller_handle fill (CommitAck demo_session) (demo_controller (CAwaitCommitAck demo_session))
   = (Inr None, demo_controller (CActive demo_session))"
  by (simp add: controller_handle_def demo_controller_def)

definition demo_link_active :: link where
  "demo_link_active = \<lparr>lk_controller = demo_controller (CActive demo_session),
     lk_receiver = demo_receiver (RActive demo_session), lk_to_receiver = [], lk_to_controller = [],
     lk_committed = [(7, demo_session)], lk_accepted = [demo_session]\<rparr>"

lemma demo_link_reach:
  "link_reach (link_start (demo_controller CIdle) (demo_receiver RAwaitHello)) demo_link_active"
proof -
  let ?hello = "Hello (demo_boot 1) demo_peer_id RoleController REQUIRED_CAPABILITIES"
  let ?start = "link_start (demo_controller CIdle) (demo_receiver RAwaitHello)"
  note step = link_reach_step
  have "link_reach ?start (?start\<lparr>lk_controller := demo_controller (CAwaitReady 7 ''main'' 5),
      lk_to_receiver := [?hello, Prepare 7 ''main'' 5]\<rparr>)" (is "link_reach _ ?l1")
    using step [OF link_reach_start link_begin [of 7 "''main''" 5 ?start]] demo_begin
    by (simp add: link_start_def)
  then have "link_reach ?start (?l1\<lparr>lk_receiver := demo_receiver (RIdle (demo_boot 1)),
      lk_to_receiver := [Prepare 7 ''main'' 5]\<rparr>)" (is "link_reach _ ?l2")
    using step [OF _ link_receive [of ?l1]] demo_hello by (fastforce simp: link_start_def)
  then have "link_reach ?start (?l2\<lparr>lk_receiver := demo_receiver (RPrepared (demo_boot 1) 7),
      lk_to_receiver := [], lk_to_controller := [Ready 7 (demo_boot 2) True ''main'' 5]\<rparr>)"
    (is "link_reach _ ?l3")
    using step [OF _ link_receive [of ?l2]] demo_prepare by (fastforce simp: link_start_def)
  then have "link_reach ?start (?l3\<lparr>lk_controller := demo_controller (CReady 7 demo_session),
      lk_to_controller := []\<rparr>)" (is "link_reach _ ?l4")
    using step [OF _ link_answer [of ?l3]] demo_ready_answer by (fastforce simp: link_start_def)
  then have "link_reach ?start (?l4\<lparr>lk_controller := demo_controller (CAwaitCommitAck demo_session),
      lk_to_receiver := [Commit 7 demo_session], lk_committed := [(7, demo_session)]\<rparr>)"
    (is "link_reach _ ?l5")
    using step [OF _ link_commit [of 7 demo_session ?l4]] demo_commit by (fastforce simp: link_start_def)
  then have "link_reach ?start (?l5\<lparr>lk_receiver := demo_receiver (RActive demo_session),
      lk_to_receiver := [], lk_to_controller := [CommitAck demo_session], lk_accepted := [demo_session]\<rparr>)"
    (is "link_reach _ ?l6")
    using step [OF _ link_receive [of ?l5]] demo_accept by (fastforce simp: link_start_def)
  then have "link_reach ?start (?l6\<lparr>lk_controller := demo_controller (CActive demo_session),
      lk_to_controller := []\<rparr>)"
    using step [OF _ link_answer [of ?l6]] demo_acked by (fastforce simp: link_start_def)
  then show ?thesis by (simp add: link_start_def demo_link_active_def)
qed

theorem session_agreement_witness:
  "demo_session \<in> set (lk_accepted demo_link_active)
     \<and> receiver_boot demo_session = rh_local_boot (lk_receiver demo_link_active)"
proof -
  have st: "ch_state (demo_controller CIdle) = CIdle" "rh_state (demo_receiver RAwaitHello) = RAwaitHello"
    "ch_state (lk_controller demo_link_active) = CActive demo_session"
    by (simp_all add: demo_controller_def demo_receiver_def demo_link_active_def)
  from session_agreement [OF st(1,2) demo_link_reach] st(3) show ?thesis by blast
qed

text \<open>Health reports are sound: in every reachable link the last answered ping was sent, and
  while one session stays active neither the last answered ping nor the highest sequence the
  peer reports as applied goes back.\<close>

lemma pong_progress_monotone:
  assumes "ping_inv c" and "link_reach (link_start c r) l" and "link_step l l'"
  shows "ping_inv (lk_controller l')
    \<and> (\<forall>s. ch_state (lk_controller l) = CActive s \<longrightarrow> ch_state (lk_controller l') = CActive s \<longrightarrow>
        ch_highest_remote_applied (lk_controller l) \<le> ch_highest_remote_applied (lk_controller l')
        \<and> ch_last_pong_sequence (lk_controller l) \<le> ch_last_pong_sequence (lk_controller l'))"
proof -
  have "ping_inv (lk_controller l)"
    using assms(2)
    by (induction rule: link_reach.induct) (use assms(1) in \<open>simp_all add: link_start_def link_step_ping\<close>)
  with link_step_ping [OF assms(3)] link_step_progress [OF assms(3)] show ?thesis by blast
qed

theorem pong_progress_monotone_witness:
  "\<exists>l'. link_step demo_link_active l' \<and> ch_ping_sequence (lk_controller l') = 1 \<and> ping_inv (lk_controller l')"
proof -
  let ?c = "demo_controller (CActive demo_session)"
  have ping: "controller_ping (lk_controller demo_link_active)
      = (Inr (Ping demo_session 1), ?c\<lparr>ch_ping_sequence := 1\<rparr>)"
    by (simp add: controller_ping_def active_session_def demo_link_active_def demo_controller_def checked_add_def)
  have "ping_inv (demo_controller CIdle)" by (simp add: ping_inv_def demo_controller_def)
  from pong_progress_monotone [OF this demo_link_reach link_ping [OF ping]] link_ping [OF ping]
  show ?thesis by (auto intro!: exI)
qed

end
