(* ===== verification/Controller_Runtime.thy ===== *)
theory Controller_Runtime
  imports Handoff Session_Link
begin

text \<open>
  The controller's runtime (\<open>controller_runtime.rs\<close>): the router of \<open>Routing\<close> and the
  controller handshake side by side, and the sequence numbers of the input it sends.  Every
  operation returns its result, the runtime and the capture port's state.  The random
  bytes a \<open>Ready\<close> may draw are the argument \<open>fill\<close>.
\<close>

section \<open>State and operations\<close>

datatype controller_action =
    SendControl control_frame
  | OpenInput session_id
  | CloseInput

datatype controller_runtime_error =
    CRoute route_error
  | CProtocol protocol_error
  | CNotActive

record controller_runtime =
  cr_router :: router
  cr_handshake :: controller_handshake
  cr_pending_request :: "u64 option"
  cr_pending_session :: "session_id option"
  cr_input_sequence :: u64
  cr_motion_sequence :: u64
  cr_display :: "(string \<times> u64) option"

type_synonym actions_result = "(controller_runtime_error, controller_action list) result"

definition controller_runtime_new ::
  "boot_id \<Rightarrow> string \<Rightarrow> u64 \<Rightarrow> (controller_runtime_error, controller_runtime) result" where
  "controller_runtime_new local_boot local_peer_id local_override =
     bind_result (map_err CProtocol (controller_new local_boot local_peer_id)) (\<lambda>handshake.
       Inr \<lparr>cr_router = router_with_gate local_override, cr_handshake = handshake,
         cr_pending_request = None, cr_pending_session = None, cr_input_sequence = 0,
         cr_motion_sequence = 0, cr_display = None\<rparr>)"

definition can_begin :: "controller_runtime \<Rightarrow> bool" where
  "can_begin r \<longleftrightarrow> is_local_state (rt_state (cr_router r))"

definition is_active :: "controller_runtime \<Rightarrow> bool" where
  "is_active r \<longleftrightarrow> active_session (cr_handshake r) \<noteq> None"

definition runtime_set_game_mode :: "bool \<Rightarrow> controller_runtime \<Rightarrow> controller_runtime" where
  "runtime_set_game_mode enabled r = r\<lparr>cr_router := set_game_mode enabled (cr_router r)\<rparr>"

fun return_reason_text :: "return_reason \<Rightarrow> string" where
  "return_reason_text User = ''user''"
| "return_reason_text Emergency = ''emergency''"
| "return_reason_text Timeout = ''timeout''"
| "return_reason_text KeysHeld = ''keys-held''"
| "return_reason_text FocusUnavailable = ''focus-unavailable''"
| "return_reason_text CaptureFailed = ''capture-failed''"
| "return_reason_text NetworkFailed = ''network-failed''"
| "return_reason_text ReasonQueueFull = ''queue-full''"

text \<open>\<open>u128::from_be_bytes\<close> of the nonce.\<close>

definition session_token :: "session_id \<Rightarrow> u128" where
  "session_token s = fold (\<lambda>b acc. acc * 256 + ucast b) (nonce s) 0"

definition clear_pending :: "controller_runtime \<Rightarrow> controller_runtime" where
  "clear_pending r =
     r\<lparr>cr_pending_request := None, cr_pending_session := None, cr_input_sequence := 0,
       cr_motion_sequence := 0\<rparr>"

definition begin_remote ::
  "'c capture_port \<Rightarrow> string \<Rightarrow> string \<Rightarrow> u64 \<Rightarrow> u64 \<Rightarrow> controller_runtime \<Rightarrow> 'c
     \<Rightarrow> actions_result \<times> controller_runtime \<times> 'c" where
  "begin_remote P peer_id target_display layout_revision now_ms r c =
     (case go_remote P peer_id now_ms (cr_router r) c of
        (Inl e, router, c1) \<Rightarrow> (Inl (CRoute e), r\<lparr>cr_router := router\<rparr>, c1)
      | (Inr effects, router, c1) \<Rightarrow>
          (let r1 = r\<lparr>cr_router := router\<rparr> in
           case effects of
             EffPrepare _ request # _ \<Rightarrow>
               (case controller_begin request target_display layout_revision (cr_handshake r1) of
                  (Inr frames, h) \<Rightarrow>
                    (Inr (map SendControl frames),
                     r1\<lparr>cr_handshake := h, cr_display := Some (target_display, layout_revision)\<rparr>, c1)
                | (Inl e, h) \<Rightarrow>
                    (let (_, router2, c2) = go_local P NetworkFailed (cr_router r1) c1
                     in (Inl (CProtocol e),
                         r1\<lparr>cr_handshake := h, cr_display := None, cr_router := router2\<rparr>, c2)))
           | _ \<Rightarrow> (Inr [], r1, c1)))"

definition fail_local ::
  "'c capture_port \<Rightarrow> controller_runtime \<Rightarrow> 'c \<Rightarrow> controller_runtime \<times> 'c" where
  "fail_local P r c =
     (let (_, router, c1) = go_local P NetworkFailed (cr_router r) c
      in (clear_pending (r\<lparr>cr_router := router, cr_handshake := controller_abort (cr_handshake r)\<rparr>), c1))"

definition failed ::
  "'c capture_port \<Rightarrow> controller_runtime_error \<Rightarrow> controller_runtime \<Rightarrow> 'c
     \<Rightarrow> actions_result \<times> controller_runtime \<times> 'c" where
  "failed P e r c = (let (r1, c1) = fail_local P r c in (Inl e, r1, c1))"

definition end_after_failed_ack ::
  "'c capture_port \<Rightarrow> controller_runtime \<Rightarrow> 'c \<Rightarrow> controller_action list \<times> controller_runtime \<times> 'c" where
  "end_after_failed_ack P r c =
     (let (ended, h) = (if active_session (cr_handshake r) \<noteq> None
              then controller_end ''late-or-cancelled-ack'' (cr_handshake r)
              else (Inl InvalidTransition, cr_handshake r));
          actions = (case ended of Inr frame \<Rightarrow> [SendControl frame] | Inl _ \<Rightarrow> []);
          (_, router, c1) = go_local P Emergency (cr_router r) c
      in (actions @ [CloseInput], clear_pending (r\<lparr>cr_handshake := h, cr_router := router\<rparr>), c1))"

definition handle_ready ::
  "'c capture_port \<Rightarrow> u8 list option \<Rightarrow> control_frame \<Rightarrow> controller_runtime \<Rightarrow> 'c
     \<Rightarrow> actions_result \<times> controller_runtime \<times> 'c" where
  "handle_ready P fill frame r c =
     (case controller_handle fill frame (cr_handshake r) of
        (Inl e, h) \<Rightarrow> failed P (CProtocol e) (r\<lparr>cr_handshake := h\<rparr>) c
      | (Inr _, h) \<Rightarrow>
          (let r1 = r\<lparr>cr_handshake := h\<rparr> in
           case prepared_session h of
             None \<Rightarrow> failed P (CProtocol InvalidTransition) r1 c
           | Some (request, session_id) \<Rightarrow>
               (let r2 = r1\<lparr>cr_pending_request := Some request, cr_pending_session := Some session_id\<rparr> in
                case router_ready request (session_token session_id) (cr_router r2) of
                  (Inl e, router) \<Rightarrow> failed P (CRoute e) (r2\<lparr>cr_router := router\<rparr>) c
                | (Inr _, router) \<Rightarrow> (Inr [], r2\<lparr>cr_router := router\<rparr>, c))))"

definition handle_commit_ack ::
  "'c capture_port \<Rightarrow> session_id \<Rightarrow> u64 \<Rightarrow> controller_runtime \<Rightarrow> 'c
     \<Rightarrow> actions_result \<times> controller_runtime \<times> 'c" where
  "handle_commit_ack P session_id now_ms r c =
     (case (cr_pending_request r, cr_pending_session r) of
        (Some request, Some pending) \<Rightarrow>
          (if pending \<noteq> session_id then failed P (CProtocol WrongSession) r c
           else case controller_handle None (CommitAck session_id) (cr_handshake r) of
             (Inl e, h) \<Rightarrow> failed P (CProtocol e) (r\<lparr>cr_handshake := h\<rparr>) c
           | (Inr _, h) \<Rightarrow>
               (case commit_ack P request (session_token session_id) now_ms (cr_router r) c of
                  (Inl e, router, c1) \<Rightarrow>
                    (let (actions, r1, c2) =
                       end_after_failed_ack P (r\<lparr>cr_handshake := h, cr_router := router\<rparr>) c1
                     in (if actions = [] then Inl (CRoute e) else Inr actions, r1, c2))
                | (Inr _, router, c1) \<Rightarrow>
                    (Inr [OpenInput session_id],
                     r\<lparr>cr_handshake := h, cr_router := router, cr_pending_request := None,
                       cr_input_sequence := 0, cr_motion_sequence := 0\<rparr>, c1)))
      | _ \<Rightarrow> (Inl CNotActive, r, c))"

definition controller_control ::
  "'c capture_port \<Rightarrow> u8 list option \<Rightarrow> control_frame \<Rightarrow> u64 \<Rightarrow> controller_runtime \<Rightarrow> 'c
     \<Rightarrow> actions_result \<times> controller_runtime \<times> 'c" where
  "controller_control P fill frame now_ms r c =
     (case frame of
        Ready _ _ _ _ _ \<Rightarrow> handle_ready P fill frame r c
      | CommitAck session_id \<Rightarrow> handle_commit_ack P session_id now_ms r c
      | Pong _ _ _ \<Rightarrow>
          (case controller_handle fill frame (cr_handshake r) of
             (Inl e, h) \<Rightarrow> failed P (CProtocol e) (r\<lparr>cr_handshake := h\<rparr>) c
           | (Inr _, h) \<Rightarrow> (Inr [], r\<lparr>cr_handshake := h\<rparr>, c))
      | Reject _ _ \<Rightarrow>
          failed P (CProtocol InvalidTransition)
            (r\<lparr>cr_handshake := snd (controller_handle fill frame (cr_handshake r))\<rparr>) c
      | _ \<Rightarrow> failed P (CProtocol InvalidTransition) r c)"

definition commit_effect ::
  "u64 \<Rightarrow> u128 \<Rightarrow> controller_runtime \<Rightarrow> actions_result \<times> controller_runtime" where
  "commit_effect request session r =
     (if cr_pending_request r \<noteq> Some request then (Inl CNotActive, r)
      else case cr_pending_session r of
        None \<Rightarrow> (Inl CNotActive, r)
      | Some pending \<Rightarrow>
          if session_token pending \<noteq> session then (Inl CNotActive, r)
          else (case controller_commit request pending (cr_handshake r) of
                  (Inl e, h) \<Rightarrow> (Inl (CProtocol e), r\<lparr>cr_handshake := h\<rparr>)
                | (Inr frame, h) \<Rightarrow> (Inr [SendControl frame], r\<lparr>cr_handshake := h\<rparr>)))"

definition end_effect :: "return_reason \<Rightarrow> controller_runtime \<Rightarrow> actions_result \<times> controller_runtime" where
  "end_effect reason r =
     (if active_session (cr_handshake r) \<noteq> None then
        (case controller_end (return_reason_text reason) (cr_handshake r) of
           (Inl e, h) \<Rightarrow> (Inl (CProtocol e), r\<lparr>cr_handshake := h\<rparr>)
         | (Inr frame, h) \<Rightarrow> (Inr [SendControl frame, CloseInput], clear_pending (r\<lparr>cr_handshake := h\<rparr>)))
      else (Inr [CloseInput], clear_pending (r\<lparr>cr_handshake := controller_abort (cr_handshake r)\<rparr>)))"

fun route_effect_step :: "route_effect \<Rightarrow> controller_runtime \<Rightarrow> actions_result \<times> controller_runtime" where
  "route_effect_step (EffCommit request session) r = commit_effect request session r"
| "route_effect_step (EffEnd session reason) r = end_effect reason r"
| "route_effect_step (EffCancel request) r =
     (Inr [CloseInput], clear_pending (r\<lparr>cr_handshake := controller_abort (cr_handshake r)\<rparr>))"
| "route_effect_step (EffPrepare peer request) r = (Inr [], r)"

fun route_effects :: "route_effect list \<Rightarrow> controller_runtime \<Rightarrow> actions_result \<times> controller_runtime" where
  "route_effects [] r = (Inr [], r)"
| "route_effects (eff # effs) r =
     (case route_effect_step eff r of
        (Inl e, r1) \<Rightarrow> (Inl e, r1)
      | (Inr actions, r1) \<Rightarrow>
          (case route_effects effs r1 of
             (Inl e, r2) \<Rightarrow> (Inl e, r2)
           | (Inr actions', r2) \<Rightarrow> (Inr (actions @ actions'), r2)))"

definition controller_advance ::
  "'c capture_port \<Rightarrow> 'c focus_port \<Rightarrow> u64 \<Rightarrow> bool \<Rightarrow> controller_runtime \<Rightarrow> 'c
     \<Rightarrow> actions_result \<times> controller_runtime \<times> 'c" where
  "controller_advance P F now_ms keys_released r c =
     (case router_advance P F now_ms keys_released (cr_router r) c of
        (Inl e, router, c1) \<Rightarrow> (Inl (CRoute e), r\<lparr>cr_router := router\<rparr>, c1)
      | (Inr effects, router, c1) \<Rightarrow>
          (let (res, r1) = route_effects effects (r\<lparr>cr_router := router\<rparr>) in (res, r1, c1)))"

definition controller_go_local ::
  "'c capture_port \<Rightarrow> return_reason \<Rightarrow> controller_runtime \<Rightarrow> 'c
     \<Rightarrow> actions_result \<times> controller_runtime \<times> 'c" where
  "controller_go_local P reason r c =
     (let (effects, router, c1) = go_local P reason (cr_router r) c;
          (res, r1) = route_effects effects (r\<lparr>cr_router := router\<rparr>)
      in (res, r1, c1))"

fun stamp_motion :: "u64 \<Rightarrow> critical_event \<Rightarrow> (controller_runtime_error, critical_event) result" where
  "stamp_motion motion (CButton button down x y _) =
     (if motion = 0 then Inl (CProtocol (InvalidField ''motion_sequence''))
      else Inr (CButton button down x y motion))"
| "stamp_motion motion (CScroll delta_x delta_y x y _) =
     (if motion = 0 then Inl (CProtocol (InvalidField ''motion_sequence''))
      else Inr (CScroll delta_x delta_y x y motion))"
| "stamp_motion motion (CKey key_code scan_code extended down) = Inr (CKey key_code scan_code extended down)"

definition next_input ::
  "critical_event \<Rightarrow> controller_runtime
     \<Rightarrow> (controller_runtime_error, critical_frame) result \<times> controller_runtime" where
  "next_input event r =
     (case active_session (cr_handshake r) of
        None \<Rightarrow> (Inl CNotActive, r)
      | Some session_id \<Rightarrow>
          (case stamp_motion (cr_motion_sequence r) event of
             Inl e \<Rightarrow> (Inl e, r)
           | Inr stamped \<Rightarrow>
               (case checked_add (cr_input_sequence r) 1 of
                  None \<Rightarrow> (Inl (CProtocol (InvalidField ''sequence'')), r)
                | Some n \<Rightarrow>
                    (Inr \<lparr>cf_session_id = session_id, cf_sequence = n, cf_event = stamped\<rparr>,
                     r\<lparr>cr_input_sequence := n\<rparr>))))"

definition next_motion ::
  "i32 \<Rightarrow> i32 \<Rightarrow> controller_runtime
     \<Rightarrow> (controller_runtime_error, motion_frame) result \<times> controller_runtime" where
  "next_motion x y r =
     (case active_session (cr_handshake r) of
        None \<Rightarrow> (Inl CNotActive, r)
      | Some session_id \<Rightarrow>
          (case cr_display r of
             None \<Rightarrow> (Inl CNotActive, r)
           | Some (display_id, layout_revision) \<Rightarrow>
               (case checked_add (cr_motion_sequence r) 1 of
                  None \<Rightarrow> (Inl (CProtocol (InvalidField ''motion_sequence'')), r)
                | Some n \<Rightarrow>
                    (Inr \<lparr>mf_session_id = session_id, mf_display_id = display_id,
                       mf_layout_revision = layout_revision, mf_sequence = n,
                       mf_required_reliable_sequence = cr_input_sequence r, mf_x = x, mf_y = y\<rparr>,
                     r\<lparr>cr_motion_sequence := n\<rparr>))))"

definition runtime_ping ::
  "controller_runtime \<Rightarrow> (controller_runtime_error, controller_action) result \<times> controller_runtime" where
  "runtime_ping r =
     (case controller_ping (cr_handshake r) of
        (Inl e, h) \<Rightarrow> (Inl (CProtocol e), r\<lparr>cr_handshake := h\<rparr>)
      | (Inr frame, h) \<Rightarrow> (Inr (SendControl frame), r\<lparr>cr_handshake := h\<rparr>))"

end
