(* ===== verification/Controller_Safety.thy ===== *)
theory Controller_Safety
  imports Controller_Runtime
begin

text \<open>
  The controller's router and handshake never disagree: \<open>runtime_linked\<close> relates their
  states, every operation keeps it under the contracts of the capture and focus ports, and
  so the runtime has an active session exactly while the router shows the peer in control.
  The frames it numbers are the ones the receiver's gate accepts.
\<close>

section \<open>The invariant\<close>

definition handshake_over :: "controller_handshake \<Rightarrow> bool" where
  "handshake_over h \<longleftrightarrow> ch_state h \<in> {CIdle, CEnded}"

fun preparing_linked :: "preparing \<Rightarrow> controller_state \<Rightarrow> u64 option \<Rightarrow> session_id option \<Rightarrow> bool" where
  "preparing_linked p (CAwaitReady q display revision) pq ps \<longleftrightarrow>
     q = pr_request p \<and> pr_session p = None \<and> \<not> pr_commit_sent p"
| "preparing_linked p (CReady q s) pq ps \<longleftrightarrow>
     q = pr_request p \<and> pr_session p = Some (session_token s) \<and> \<not> pr_commit_sent p
     \<and> pq = Some q \<and> ps = Some s \<and> validate_session s = Inr ()"
| "preparing_linked p (CAwaitCommitAck s) pq ps \<longleftrightarrow>
     pr_session p = Some (session_token s) \<and> pr_commit_sent p
     \<and> pq = Some (pr_request p) \<and> ps = Some s \<and> validate_session s = Inr ()"
| "preparing_linked p _ pq ps \<longleftrightarrow> False"

fun state_linked :: "route_state \<Rightarrow> controller_runtime \<Rightarrow> bool" where
  "state_linked LocalDesktop r \<longleftrightarrow> handshake_over (cr_handshake r)"
| "state_linked LocalGame r \<longleftrightarrow> handshake_over (cr_handshake r)"
| "state_linked (PreparingRemote p) r \<longleftrightarrow>
     preparing_linked p (ch_state (cr_handshake r)) (cr_pending_request r) (cr_pending_session r)"
| "state_linked (RemoteActive peer token) r \<longleftrightarrow>
     (\<exists>s. ch_state (cr_handshake r) = CActive s \<and> session_token s = token \<and> validate_session s = Inr ())"
| "state_linked (ReturningLocal reason) r \<longleftrightarrow> False"

definition runtime_linked :: "controller_runtime \<Rightarrow> bool" where
  "runtime_linked r \<longleftrightarrow> router_inv (cr_router r) \<and> state_linked (rt_state (cr_router r)) r
     \<and> boot_bytes (ch_local_boot (cr_handshake r)) \<noteq> zero16"

lemma linked_local:
  assumes "is_local_state (rt_state (cr_router r))"
  shows "runtime_linked r \<longleftrightarrow> router_inv (cr_router r) \<and> handshake_over (cr_handshake r)
    \<and> boot_bytes (ch_local_boot (cr_handshake r)) \<noteq> zero16"
  using assms by (cases "rt_state (cr_router r)") (simp_all add: runtime_linked_def)

lemma clear_pending_frame [simp]:
  "cr_router (clear_pending r) = cr_router r" "cr_handshake (clear_pending r) = cr_handshake r"
  by (simp_all add: clear_pending_def)

lemma abort_over [simp]:
  "handshake_over (controller_abort h)" "ch_local_boot (controller_abort h) = ch_local_boot h"
  by (simp_all add: handshake_over_def controller_abort_def)

text \<open>The reasons and details the code puts into an \<open>EndSession\<close> are valid texts.\<close>

lemma reason_texts [simp]:
  "\<not> is_blank (return_reason_text reason)" "length (return_reason_text reason) \<le> 512"
  "\<not> is_blank ''late-or-cancelled-ack''"
proof -
  have "\<not> is_blank ''user''" "\<not> is_blank ''emergency''" "\<not> is_blank ''timeout''"
    "\<not> is_blank ''keys-held''" "\<not> is_blank ''focus-unavailable''" "\<not> is_blank ''capture-failed''"
    "\<not> is_blank ''network-failed''" "\<not> is_blank ''queue-full''" by code_simp+
  then show "\<not> is_blank (return_reason_text reason)" by (cases reason) simp_all
  show "length (return_reason_text reason) \<le> 512" by (cases reason) simp_all
  show "\<not> is_blank ''late-or-cancelled-ack''" by code_simp
qed

lemma active_sessionD: "active_session h = Some s \<longleftrightarrow> ch_state h = CActive s"
  by (auto simp: active_session_def split: controller_state.splits)

lemma end_active:
  assumes "ch_state h = CActive s" and "validate_session s = Inr ()" and "\<not> is_blank reason"
    and "length reason \<le> 512"
  shows "controller_end reason h = (Inr (EndSession s reason), h\<lparr>ch_state := CEnded\<rparr>)"
proof -
  have "validate_frame (EndSession s reason) = Inr ()"
    using assms by (simp add: protocol_limits del: validate_session_Inr)
  with assms(1) show ?thesis by (simp add: controller_end_def active_session_def del: validate_frame.simps)
qed

text \<open>What a handled frame does to the controller's handshake, per kind of frame.\<close>

lemma ready_result:
  assumes "controller_handle fill (Ready rq rboot ready display revision) h = (Inr reply, h')"
  shows "\<exists>q s. ch_state h = CAwaitReady q display revision \<and> q = rq \<and> ch_state h' = CReady q s
    \<and> ch_local_boot h' = ch_local_boot h
    \<and> (boot_bytes (ch_local_boot h) \<noteq> zero16 \<longrightarrow> validate_session s = Inr ())"
proof -
  from assms have m: "controller_match fill (ch_state h) (Ready rq rboot ready display revision) h = (Inr reply, h')"
    by (auto simp: controller_handle_def split: sum.splits)
  then obtain q d v where st: "ch_state h = CAwaitReady q d v"
    by (cases "ch_state h") auto
  with m have "controller_ready_arm fill q d v rq rboot ready display revision h = (Inr reply, h')" by simp
  then obtain s where "q = rq" "d = display" "v = revision" "boot_bytes rboot \<noteq> zero16"
    and gen: "session_generate fill (ch_local_boot h) rboot = Inr s" and "h' = h\<lparr>ch_state := CReady q s\<rparr>"
    by (auto simp: controller_ready_arm_def split: if_splits sum.splits)
  with session_generate_InrD [OF gen] st show ?thesis by simp
qed

lemma ack_result:
  assumes "controller_handle fill (CommitAck s) h = (Inr reply, h')"
  shows "ch_state h = CAwaitCommitAck s \<and> ch_state h' = CActive s \<and> ch_local_boot h' = ch_local_boot h"
proof -
  from assms have m: "controller_match fill (ch_state h) (CommitAck s) h = (Inr reply, h')"
    by (auto simp: controller_handle_def split: sum.splits)
  then show ?thesis by (cases "ch_state h") (auto split: if_splits)
qed

lemma pong_result:
  assumes "controller_handle fill (Pong s n a) h = (Inr reply, h')"
  shows "ch_state h' = ch_state h \<and> ch_local_boot h' = ch_local_boot h"
proof -
  from assms have m: "controller_match fill (ch_state h) (Pong s n a) h = (Inr reply, h')"
    by (auto simp: controller_handle_def split: sum.splits)
  then show ?thesis by (cases "ch_state h") (auto simp: controller_pong_arm_def split: if_splits)
qed

lemma handle_boot: "controller_handle fill frame h = (res, h') \<Longrightarrow> ch_local_boot h' = ch_local_boot h"
  by (erule controller_handle_cases) simp_all

section \<open>Operations over the ports\<close>

context capture_contract begin

lemma go_local_linked:
  assumes "go_local P reason router c = (effs, router', c')" and "cr_router r = router'"
    and "handshake_over (cr_handshake r)" and "boot_bytes (ch_local_boot (cr_handshake r)) \<noteq> zero16"
  shows "runtime_linked r" and "is_local_state (rt_state (cr_router r))"
  using go_local_result [OF assms(1)] assms(2-4) by (simp_all add: linked_local)

lemma linked_clear: "runtime_linked r \<Longrightarrow> is_local_state (rt_state (cr_router r)) \<Longrightarrow> runtime_linked (clear_pending r)"
  by (simp add: linked_local)

lemma failed_linked:
  assumes "failed P e r c = (res, r', c')" and "boot_bytes (ch_local_boot (cr_handshake r)) \<noteq> zero16"
  shows "runtime_linked r'" and "is_local_state (rt_state (cr_router r'))" and "res = Inl e"
proof -
  obtain effs router c1 where loc: "go_local P NetworkFailed (cr_router r) c = (effs, router, c1)"
    by (cases "go_local P NetworkFailed (cr_router r) c")
  let ?r = "r\<lparr>cr_router := router, cr_handshake := controller_abort (cr_handshake r)\<rparr>"
  have r': "r' = clear_pending ?r" and "res = Inl e"
    using assms(1) loc by (simp_all add: failed_def fail_local_def)
  then show "res = Inl e" by simp
  from go_local_linked [OF loc, of ?r] assms(2)
  have "runtime_linked ?r" "is_local_state (rt_state (cr_router ?r))" by simp_all
  with r' show "runtime_linked r'" "is_local_state (rt_state (cr_router r'))"
    by (simp_all add: linked_clear)
qed

lemma go_remote_not_local:
  assumes "go_remote P peer now r c = (res, r', c')" and "\<not> is_local_state (rt_state r)"
  shows "r' = r \<and> (\<forall>effs. res = Inr effs \<longrightarrow> effs = [])"
  using assms by (cases "rt_state r") (auto simp: go_remote_def split: if_splits)

lemma begin_linked:
  assumes "begin_remote P peer display revision now r c = (res, r', c')" and "runtime_linked r"
  shows "runtime_linked r'"
proof -
  obtain rres router c1 where rem: "go_remote P peer now (cr_router r) c = (rres, router, c1)"
    by (cases "go_remote P peer now (cr_router r) c")
  show ?thesis
  proof (cases "is_local_state (rt_state (cr_router r))")
    case False
    from go_remote_not_local [OF rem this] have "router = cr_router r" "\<forall>effs. rres = Inr effs \<longrightarrow> effs = []"
      by simp_all
    with assms rem have "r' = r" by (cases rres) (auto simp: begin_remote_def Let_def)
    with assms(2) show ?thesis by simp
  next
    case True
    with assms(2) have over: "handshake_over (cr_handshake r)" and boot: "boot_bytes (ch_local_boot (cr_handshake r)) \<noteq> zero16"
      and rinv: "router_inv (cr_router r)" by (simp_all add: linked_local)
    from rem show ?thesis
    proof (cases rule: go_remote_cases)
      case unchanged
      with assms rem have "r' = r" by (cases rres) (auto simp: begin_remote_def Let_def)
      with assms(2) show ?thesis by simp
    next
      case (failed e reason)
      with assms(1) rem have "r' = r\<lparr>cr_router := router\<rparr>" by (simp add: begin_remote_def)
      with failed over boot show ?thesis by (simp add: linked_local)
    next
      case (prepared request deadline keys_deadline)
      obtain bres h where bg: "controller_begin request display revision (cr_handshake r) = (bres, h)" by fastforce
      show ?thesis
      proof (cases bres)
        case (Inl e)
        obtain effs router2 c2 where loc: "go_local P NetworkFailed router c1 = (effs, router2, c2)"
          by (cases "go_local P NetworkFailed router c1")
        from bg Inl have h: "h = cr_handshake r"
          by (auto simp: controller_begin_def Let_def split: if_splits sum.splits)
        from assms(1) rem prepared(1) bg Inl loc
        have "r' = r\<lparr>cr_router := router, cr_handshake := h, cr_display := None, cr_router := router2\<rparr>"
          by (simp add: begin_remote_def)
        with go_local_linked(1) [OF loc, of r'] over boot h show ?thesis by simp
      next
        case (Inr frames)
        from assms(1) rem prepared(1) bg Inr
        have r': "r' = r\<lparr>cr_router := router, cr_handshake := h, cr_display := Some (display, revision)\<rparr>"
          by (simp add: begin_remote_def)
        have "router_inv router" using go_remote_inv [OF rinv rem] .
        with controller_begin_InrD(1) [OF bg [unfolded Inr]] boot prepared(7) show ?thesis
          by (simp add: r' runtime_linked_def)
      qed
    qed
  qed
qed

lemma linked_boot: "runtime_linked r \<Longrightarrow> boot_bytes (ch_local_boot (cr_handshake r)) \<noteq> zero16"
  by (simp add: runtime_linked_def)

lemma handle_ready_linked:
  assumes "handle_ready P fill (Ready rq rboot ready display revision) r c = (res, r', c')" and "runtime_linked r"
  shows "runtime_linked r'"
proof -
  let ?frame = "Ready rq rboot ready display revision"
  obtain reply h where hd: "controller_handle fill ?frame (cr_handshake r) = (reply, h)" by fastforce
  have boot: "boot_bytes (ch_local_boot h) \<noteq> zero16" using handle_boot [OF hd] linked_boot [OF assms(2)] by simp
  show ?thesis
  proof (cases reply)
    case (Inl e)
    with assms(1) hd have "failed P (CProtocol e) (r\<lparr>cr_handshake := h\<rparr>) c = (res, r', c')"
      by (simp add: handle_ready_def)
    from failed_linked(1) [OF this] boot show ?thesis by simp
  next
    case (Inr answer)
    from ready_result [OF hd [unfolded Inr]] obtain q s where st: "ch_state (cr_handshake r) = CAwaitReady q display revision"
      and q: "q = rq" and new: "ch_state h = CReady q s"
      and valid: "boot_bytes (ch_local_boot (cr_handshake r)) \<noteq> zero16 \<longrightarrow> validate_session s = Inr ()" by blast
    define r2 where "r2 = r\<lparr>cr_handshake := h, cr_pending_request := Some q, cr_pending_session := Some s\<rparr>"
    obtain rres router where rd: "router_ready q (session_token s) (cr_router r) = (rres, router)" by fastforce
    have out: "(res, r', c') = (case rres of Inl e \<Rightarrow> failed P (CRoute e) (r2\<lparr>cr_router := router\<rparr>) c
        | Inr _ \<Rightarrow> (Inr [], r2\<lparr>cr_router := router\<rparr>, c))"
      using assms(1) hd Inr new rd by (cases rres) (simp_all add: handle_ready_def prepared_session_def r2_def Let_def)
    show ?thesis
    proof (cases rres)
      case (Inl e)
      with out have "failed P (CRoute e) (r2\<lparr>cr_router := router\<rparr>) c = (res, r', c')" by simp
      from failed_linked(1) [OF this] boot show ?thesis by (simp add: r2_def)
    next
      case (Inr u)
      with rd obtain p where p: "rt_state (cr_router r) = PreparingRemote p" "pr_request p = q"
        and router: "router = (cr_router r)\<lparr>rt_state := PreparingRemote (p\<lparr>pr_session := Some (session_token s)\<rparr>)\<rparr>"
        by (auto simp: router_ready_def split: route_state.splits if_splits)
      from assms(2) p st have "preparing_linked p (CAwaitReady q display revision) (cr_pending_request r) (cr_pending_session r)"
        by (simp add: runtime_linked_def)
      moreover have "router_inv router" using router_ready_inv assms(2) rd by (metis runtime_linked_def snd_conv)
      ultimately show ?thesis
        using out Inr router new valid linked_boot [OF assms(2)] boot p
        by (simp add: runtime_linked_def r2_def del: validate_session_Inr)
    qed
  qed
qed

lemma handle_ack_linked:
  assumes "handle_commit_ack P s now r c = (res, r', c')" and "runtime_linked r"
  shows "runtime_linked r'"
proof (cases "\<exists>q. cr_pending_request r = Some q \<and> cr_pending_session r = Some s")
  case False
  then consider "r' = r" | e where "failed P e r c = (res, r', c')"
    using assms(1) by (auto simp: handle_commit_ack_def split: option.splits if_splits)
  then show ?thesis using assms(2) failed_linked(1) linked_boot [OF assms(2)] by cases auto
next
  case True
  then obtain q where pend: "cr_pending_request r = Some q" "cr_pending_session r = Some s" by blast
  obtain reply h where hd: "controller_handle None (CommitAck s) (cr_handshake r) = (reply, h)" by fastforce
  have boot: "boot_bytes (ch_local_boot h) \<noteq> zero16" using handle_boot [OF hd] linked_boot [OF assms(2)] by simp
  show ?thesis
  proof (cases reply)
    case (Inl e)
    with assms(1) pend hd have "failed P (CProtocol e) (r\<lparr>cr_handshake := h\<rparr>) c = (res, r', c')"
      by (simp add: handle_commit_ack_def)
    from failed_linked(1) [OF this] boot show ?thesis by simp
  next
    case (Inr answer)
    from ack_result [OF hd [unfolded Inr]] have st: "ch_state (cr_handshake r) = CAwaitCommitAck s"
      and active: "ch_state h = CActive s" by simp_all
    from st assms(2) have valid: "validate_session s = Inr ()"
      by (cases "rt_state (cr_router r)")
        (auto simp: runtime_linked_def handshake_over_def simp del: validate_session_Inr)
    obtain rres router c1 where ack: "commit_ack P q (session_token s) now (cr_router r) c = (rres, router, c1)"
      by (cases "commit_ack P q (session_token s) now (cr_router r) c")
    show ?thesis
    proof (cases rres)
      case (Inl e)
      obtain effs router2 c2 where loc: "go_local P Emergency router c1 = (effs, router2, c2)"
        by (cases "go_local P Emergency router c1")
      have ended: "controller_end ''late-or-cancelled-ack'' h
          = (Inr (EndSession s ''late-or-cancelled-ack''), h\<lparr>ch_state := CEnded\<rparr>)"
        using end_active [OF active valid] by simp
      have "active_session h = Some s" using active by (simp add: active_sessionD)
      with assms(1) pend hd Inr ack Inl loc ended
      have r': "r' = clear_pending (r\<lparr>cr_handshake := h\<lparr>ch_state := CEnded\<rparr>, cr_router := router2\<rparr>)"
        by (auto simp: handle_commit_ack_def end_after_failed_ack_def clear_pending_def)
      have "handshake_over (h\<lparr>ch_state := CEnded\<rparr>)" by (simp add: handshake_over_def)
      with go_local_linked(1) [OF loc, of r'] boot show ?thesis by (simp add: r')
    next
      case ok: (Inr u)
      with assms(1) pend hd Inr ack
      have r': "r' = r\<lparr>cr_handshake := h, cr_router := router, cr_pending_request := None,
          cr_input_sequence := 0, cr_motion_sequence := 0\<rparr>"
        by (simp add: handle_commit_ack_def)
      have rinv: "router_inv router" using commit_ack_inv assms(2) ack by (metis runtime_linked_def)
      from ack [unfolded ok] have "\<exists>peer. rt_state router = RemoteActive peer (session_token s)"
        by (cases rule: commit_ack_cases) auto
      with rinv active valid boot show ?thesis
        by (auto simp: r' runtime_linked_def simp del: validate_session_Inr)
    qed
  qed
qed

lemma state_linked_same:
  assumes "ch_state (cr_handshake r') = ch_state (cr_handshake r)"
    and "cr_pending_request r' = cr_pending_request r" and "cr_pending_session r' = cr_pending_session r"
  shows "state_linked st r' = state_linked st r"
  using assms by (cases st) (simp_all add: handshake_over_def)

lemma control_linked:
  assumes "controller_control P fill frame now r c = (res, r', c')" and "runtime_linked r"
  shows "runtime_linked r'"
proof (cases frame)
  case (Pong s n a)
  obtain reply h where hd: "controller_handle fill frame (cr_handshake r) = (reply, h)" by fastforce
  have boot: "boot_bytes (ch_local_boot h) \<noteq> zero16" using handle_boot [OF hd] linked_boot [OF assms(2)] by simp
  show ?thesis
  proof (cases reply)
    case (Inl e)
    with assms(1) hd Pong have "failed P (CProtocol e) (r\<lparr>cr_handshake := h\<rparr>) c = (res, r', c')"
      by (simp add: controller_control_def)
    from failed_linked(1) [OF this] boot show ?thesis by simp
  next
    case (Inr answer)
    with assms(1) hd Pong have "r' = r\<lparr>cr_handshake := h\<rparr>" by (simp add: controller_control_def)
    with pong_result [of fill s n a "cr_handshake r" answer h] hd Inr Pong assms(2) boot
      state_linked_same [of r' r] show ?thesis by (simp add: runtime_linked_def)
  qed
next
  case (Ready rq rboot ready display revision)
  with assms handle_ready_linked show ?thesis by (simp add: controller_control_def)
next
  case (CommitAck s)
  with assms handle_ack_linked show ?thesis by (simp add: controller_control_def)
next
  case (Reject code detail)
  obtain reply h where hd: "controller_handle fill frame (cr_handshake r) = (reply, h)" by fastforce
  from assms(1) hd Reject have "failed P (CProtocol InvalidTransition) (r\<lparr>cr_handshake := h\<rparr>) c = (res, r', c')"
    by (simp add: controller_control_def)
  from failed_linked(1) [OF this] handle_boot [OF hd] linked_boot [OF assms(2)] show ?thesis by simp
qed (use assms failed_linked(1) linked_boot [OF assms(2)] in \<open>auto simp: controller_control_def\<close>)

text \<open>Returning to local: the effects of \<open>go_local\<close> always end or abort the handshake.\<close>

lemma return_linked:
  assumes "runtime_linked r" and "is_local_state (rt_state router)" and "router_inv router"
    and "route_effects (return_effects (rt_state (cr_router r)) reason) (r\<lparr>cr_router := router\<rparr>) = (res, r')"
  shows "runtime_linked r'" and "cr_router r' = router" and "is_ok res" and "handshake_over (cr_handshake r')"
proof -
  let ?effs = "return_effects (rt_state (cr_router r)) reason" and ?r = "r\<lparr>cr_router := router\<rparr>"
  have boot: "boot_bytes (ch_local_boot (cr_handshake r)) \<noteq> zero16" using linked_boot [OF assms(1)] .
  have "cr_router r' = router \<and> is_ok res \<and> handshake_over (cr_handshake r')
    \<and> ch_local_boot (cr_handshake r') = ch_local_boot (cr_handshake r)"
  proof (cases "rt_state (cr_router r)")
    case (PreparingRemote p)
    with assms(1) have inactive: "active_session (cr_handshake r) = None"
      by (auto simp: runtime_linked_def active_session_def split: controller_state.splits)
    with PreparingRemote assms(4) show ?thesis
      by (cases "pr_session p") (auto simp: end_effect_def)
  next
    case (RemoteActive peer token)
    with assms(1) obtain s where s: "ch_state (cr_handshake r) = CActive s" "validate_session s = Inr ()"
      by (auto simp: runtime_linked_def)
    from end_active [OF s, of "return_reason_text reason"]
    have "controller_end (return_reason_text reason) (cr_handshake r)
        = (Inr (EndSession s (return_reason_text reason)), (cr_handshake r)\<lparr>ch_state := CEnded\<rparr>)" by simp
    moreover have "active_session (cr_handshake r) = Some s" using s(1) by (simp add: active_sessionD)
    ultimately show ?thesis using RemoteActive assms(4)
      by (auto simp: end_effect_def handshake_over_def)
  qed (use assms in \<open>auto simp: runtime_linked_def\<close>)
  with assms(2,3) boot show "runtime_linked r'" "cr_router r' = router" "is_ok res" "handshake_over (cr_handshake r')"
    by (simp_all add: linked_local)
qed

lemma go_local_runtime_linked:
  assumes "controller_go_local P reason r c = (res, r', c')" and "runtime_linked r"
  shows "runtime_linked r'" and "is_ok res" and "is_local_state (rt_state (cr_router r'))"
    and "is_local (rt_gate (cr_router r'))" and "handshake_over (cr_handshake r')"
proof -
  obtain effs router c1 where loc: "go_local P reason (cr_router r) c = (effs, router, c1)"
    by (cases "go_local P reason (cr_router r) c")
  note gl = go_local_result [OF loc]
  obtain res1 r1 where eff: "route_effects effs (r\<lparr>cr_router := router\<rparr>) = (res1, r1)" by fastforce
  with assms(1) loc have out: "res = res1" "r' = r1" by (simp_all add: controller_go_local_def)
  from return_linked [OF assms(2) gl(1,3) eff [unfolded gl(6)]] gl out
  show "runtime_linked r'" "is_ok res" "is_local_state (rt_state (cr_router r'))"
    "is_local (rt_gate (cr_router r'))" "handshake_over (cr_handshake r')" by simp_all
qed

lemma game_mode_linked: "runtime_linked r \<Longrightarrow> runtime_linked (runtime_set_game_mode e r)"
proof -
  assume lnk: "runtime_linked r"
  then have "router_inv (set_game_mode e (cr_router r))" by (simp add: runtime_linked_def set_game_mode_inv)
  moreover have "state_linked (rt_state (set_game_mode e (cr_router r))) r"
    using lnk by (cases "rt_state (cr_router r)") (auto simp: runtime_linked_def set_game_mode_def local_state_def Let_def)
  ultimately show ?thesis using lnk state_linked_same [of "runtime_set_game_mode e r" r]
    by (simp add: runtime_linked_def runtime_set_game_mode_def)
qed

lemma emergency_linked: "runtime_linked r \<Longrightarrow> runtime_linked (r\<lparr>cr_router := router_emergency (cr_router r)\<rparr>)"
  using router_inv_emergency state_linked_same [of "r\<lparr>cr_router := router_emergency (cr_router r)\<rparr>" r]
  by (simp add: runtime_linked_def router_emergency_def)

lemma ping_linked: "runtime_ping r = (res, r') \<Longrightarrow> runtime_linked r \<Longrightarrow> runtime_linked r'"
proof -
  assume ping: "runtime_ping r = (res, r')" and lnk: "runtime_linked r"
  obtain out h where h: "controller_ping (cr_handshake r) = (out, h)" by fastforce
  then have "ch_state h = ch_state (cr_handshake r)" "ch_local_boot h = ch_local_boot (cr_handshake r)"
    by (auto simp: controller_ping_def split: option.splits)
  moreover have "r' = r\<lparr>cr_handshake := h\<rparr>" using ping h by (cases out) (simp_all add: runtime_ping_def)
  ultimately show ?thesis using lnk state_linked_same [of r' r] by (simp add: runtime_linked_def)
qed

lemma sequences_linked:
  "next_input ev r = (res1, r') \<Longrightarrow> runtime_linked r \<Longrightarrow> runtime_linked r'"
  "next_motion x y r = (res2, r') \<Longrightarrow> runtime_linked r \<Longrightarrow> runtime_linked r'"
  using state_linked_same [of r' r]
  by (auto simp: next_input_def next_motion_def runtime_linked_def split: option.splits sum.splits)

end

context handoff_contract begin

lemma advance_linked:
  assumes "controller_advance P F now keys r c = (res, r', c')" and "runtime_linked r"
  shows "runtime_linked r'" and "is_ok res"
proof -
  obtain rres router c1 where adv: "router_advance P F now keys (cr_router r) c = (rres, router, c1)"
    by (cases "router_advance P F now keys (cr_router r) c")
  have rinv: "router_inv router" using advance_inv adv assms(2) by (metis runtime_linked_def)
  from adv have "runtime_linked r' \<and> is_ok res"
  proof (cases rule: advance_cases)
    case idle
    with adv assms show ?thesis by (auto simp: controller_advance_def)
  next
    case (waiting p)
    with assms have "preparing_linked p (ch_state (cr_handshake r)) (cr_pending_request r) (cr_pending_session r)"
      by (simp add: runtime_linked_def)
    then have "preparing_linked (p\<lparr>pr_keys_released_seen := keys\<rparr>) (ch_state (cr_handshake r))
        (cr_pending_request r) (cr_pending_session r)"
      by (cases "ch_state (cr_handshake r)") auto
    moreover from adv assms(1) waiting(2) have "r' = r\<lparr>cr_router := router\<rparr>" "res = Inr []"
      by (simp_all add: controller_advance_def)
    ultimately show ?thesis using rinv waiting(4) linked_boot [OF assms(2)]
      by (simp add: runtime_linked_def)
  next
    case (commit p token)
    with assms have "preparing_linked p (ch_state (cr_handshake r)) (cr_pending_request r) (cr_pending_session r)"
      by (simp add: runtime_linked_def)
    with commit obtain s where s: "ch_state (cr_handshake r) = CReady (pr_request p) s" "session_token s = token"
      "cr_pending_request r = Some (pr_request p)" "cr_pending_session r = Some s" "validate_session s = Inr ()"
      by (cases "ch_state (cr_handshake r)") (auto simp del: validate_session_Inr)
    let ?h = "(cr_handshake r)\<lparr>ch_state := CAwaitCommitAck s\<rparr>"
    have "controller_commit (pr_request p) s (cr_handshake r) = (Inr (Commit (pr_request p) s), ?h)"
      using s(1) by (simp add: controller_commit_def prepared_session_def)
    with adv assms(1) commit(8) s have r': "r' = r\<lparr>cr_router := router, cr_handshake := ?h\<rparr>" and ok: "is_ok res"
      by (auto simp: controller_advance_def commit_effect_def)
    have "preparing_linked (p\<lparr>pr_keys_released_seen := keys, pr_commit_sent := True\<rparr>) (CAwaitCommitAck s)
        (cr_pending_request r) (cr_pending_session r)"
      using s commit(2) by (simp del: validate_session_Inr)
    with commit(9) rinv linked_boot [OF assms(2)] ok show ?thesis
      by (simp add: r' runtime_linked_def del: preparing_linked.simps)
  next
    case (returned effs reason)
    obtain res1 r1 where eff: "route_effects effs (r\<lparr>cr_router := router\<rparr>) = (res1, r1)" by fastforce
    with adv assms(1) returned(2) have out: "res = res1" "r' = r1" by (simp_all add: controller_advance_def)
    from return_linked [OF assms(2) returned(4,6) eff [unfolded returned(3)]] out show ?thesis by simp
  qed
  then show "runtime_linked r'" and "is_ok res" by simp_all
qed

end

section \<open>Runs\<close>

inductive controller_step ::
  "'c capture_port \<Rightarrow> 'c focus_port \<Rightarrow> controller_runtime \<times> 'c
     \<Rightarrow> controller_runtime \<times> 'c \<Rightarrow> bool"
  for P :: "'c capture_port" and F :: "'c focus_port" where
  ctl_begin: "begin_remote P peer display revision now r c = (res, r', c') \<Longrightarrow>
     controller_step P F (r, c) (r', c')"
| ctl_control: "controller_control P fill frame now r c = (res, r', c') \<Longrightarrow>
     controller_step P F (r, c) (r', c')"
| ctl_advance: "controller_advance P F now keys r c = (res, r', c') \<Longrightarrow>
     controller_step P F (r, c) (r', c')"
| ctl_go_local: "controller_go_local P reason r c = (res, r', c') \<Longrightarrow>
     controller_step P F (r, c) (r', c')"
| ctl_input: "next_input ev r = (input, r') \<Longrightarrow> controller_step P F (r, c) (r', c)"
| ctl_motion: "next_motion x y r = (motion, r') \<Longrightarrow> controller_step P F (r, c) (r', c)"
| ctl_ping: "runtime_ping r = (ping, r') \<Longrightarrow> controller_step P F (r, c) (r', c)"
| ctl_game_mode: "controller_step P F (r, c) (runtime_set_game_mode enabled r, c)"
| ctl_emergency: "controller_step P F (r, c)
     (r\<lparr>cr_router := router_emergency (cr_router r)\<rparr>, c)"

inductive controller_reach ::
  "'c capture_port \<Rightarrow> 'c focus_port \<Rightarrow> controller_runtime \<times> 'c
     \<Rightarrow> controller_runtime \<times> 'c \<Rightarrow> bool"
  for P :: "'c capture_port" and F :: "'c focus_port" and s0 :: "controller_runtime \<times> 'c" where
  ctl_start: "controller_reach P F s0 s0"
| ctl_next: "controller_reach P F s0 s \<Longrightarrow> controller_step P F s t \<Longrightarrow> controller_reach P F s0 t"

lemma runtime_new_linked:
  assumes "controller_runtime_new boot peer gate_default = Inr r"
  shows "runtime_linked r"
  using assms router_inv_default
  by (auto simp: controller_runtime_new_def controller_new_def runtime_linked_def handshake_over_def
      router_default_def router_with_gate_def split: if_splits)

context handoff_contract begin

lemma ctl_step_linked: "controller_step P F s t \<Longrightarrow> runtime_linked (fst s) \<Longrightarrow> runtime_linked (fst t)"
proof (induction rule: controller_step.induct)
  case (ctl_begin peer display revision now r c res r' c')
  then show ?case using begin_linked by simp
next
  case (ctl_control fill frame now r c res r' c')
  then show ?case using control_linked by simp
next
  case (ctl_advance now keys r c res r' c')
  then show ?case using advance_linked(1) by simp
next
  case (ctl_go_local reason r c res r' c')
  then show ?case using go_local_runtime_linked(1) by simp
next
  case (ctl_input ev r input r' c)
  then show ?case using sequences_linked(1) by simp
next
  case (ctl_motion x y r motion r' c)
  then show ?case using sequences_linked(2) by simp
next
  case (ctl_ping r ping r' c)
  then show ?case using ping_linked by simp
next
  case (ctl_game_mode r c enabled)
  then show ?case using game_mode_linked by simp
next
  case (ctl_emergency r c)
  then show ?case using emergency_linked by simp
qed

lemma ctl_reach_linked: "controller_reach P F s t \<Longrightarrow> runtime_linked (fst s) \<Longrightarrow> runtime_linked (fst t)"
  by (induction rule: controller_reach.induct) (auto intro: ctl_step_linked)

end

section \<open>Properties\<close>

text \<open>Router and handshake agree: in every state the controller reaches it has an active
  session exactly while the router shows the peer in control, with the token of that session;
  so local input is swallowed only while a session is there to send it to.\<close>

theorem controller_router_agrees:
  assumes "handoff_contract P F" and "controller_runtime_new boot peer gate_default = Inr r0"
    and "controller_reach P F (r0, c0) (r, c)"
  shows "(is_active r \<longleftrightarrow> (\<exists>peer token. rt_state (cr_router r) = RemoteActive peer token))
    \<and> (\<forall>s peer token. active_session (cr_handshake r) = Some s \<longrightarrow>
        rt_state (cr_router r) = RemoteActive peer token \<longrightarrow> session_token s = token)
    \<and> (\<not> is_local (rt_gate (cr_router r)) \<longrightarrow> is_active r)"
proof -
  have "runtime_linked r"
    using handoff_contract.ctl_reach_linked [OF assms(1,3)] runtime_new_linked [OF assms(2)] by simp
  then show ?thesis
    by (cases "rt_state (cr_router r)")
      (auto simp: runtime_linked_def is_active_def active_sessionD handshake_over_def router_inv_def)
qed

text \<open>Going local always works: from every reachable state and for every reason,
  \<open>go_local\<close> succeeds, leaves the router local with its cell local, and the handshake over.\<close>

theorem controller_go_local_works:
  assumes "handoff_contract P F" and "controller_runtime_new boot peer gate_default = Inr r0"
    and "controller_reach P F (r0, c0) (r, c)"
    and "controller_go_local P reason r c = (res, r', c')"
  shows "is_ok res \<and> can_begin r' \<and> \<not> is_active r' \<and> is_local (rt_gate (cr_router r'))"
proof -
  have "runtime_linked r"
    using handoff_contract.ctl_reach_linked [OF assms(1,3)] runtime_new_linked [OF assms(2)] by simp
  from capture_contract.go_local_runtime_linked [OF handoff_contract.axioms(1) [OF assms(1)] assms(4) this]
  show ?thesis
    by (auto simp: can_begin_def is_active_def handshake_over_def active_session_def)
qed

text \<open>A concrete hand-off on the source's fake ports, for the witnesses.\<close>

definition demo_runtime :: controller_runtime where
  "demo_runtime = \<lparr>cr_router = router_default, cr_handshake = demo_controller CIdle,
     cr_pending_request = None, cr_pending_session = None, cr_input_sequence = 0,
     cr_motion_sequence = 0, cr_display = None\<rparr>"

lemma demo_runtime_new: "controller_runtime_new (demo_boot 1) demo_peer_id gate_default = Inr demo_runtime"
  by (simp add: controller_runtime_new_def controller_new_def demo_runtime_def demo_controller_def
      router_default_def protocol_limits)

definition demo_runtime_preparing :: controller_runtime where
  "demo_runtime_preparing = demo_runtime\<lparr>cr_router := demo_router demo_preparing,
     cr_handshake := demo_controller (CAwaitReady 3 ''main'' 5), cr_display := Some (''main'', 5)\<rparr>"

definition demo_runtime_ready :: controller_runtime where
  "demo_runtime_ready = demo_runtime_preparing\<lparr>
     cr_router := demo_router (demo_preparing\<lparr>pr_session := Some (session_token demo_session)\<rparr>),
     cr_handshake := demo_controller (CReady 3 demo_session),
     cr_pending_request := Some 3, cr_pending_session := Some demo_session\<rparr>"

lemma demo_begin_remote:
  "begin_remote both_capture demo_peer ''main'' 5 0 demo_runtime (demo_ports 0 0 0)
     = (Inr [SendControl (Hello (demo_boot 1) demo_peer_id RoleController REQUIRED_CAPABILITIES),
          SendControl (Prepare 3 ''main'' 5)], demo_runtime_preparing, demo_ports 1 0 0)"
proof -
  have "validate_frame (Prepare 3 ''main'' 5) = Inr ()" by (simp add: protocol_limits)
  then have "controller_begin 3 ''main'' 5 (demo_controller CIdle)
      = (Inr [Hello (demo_boot 1) demo_peer_id RoleController REQUIRED_CAPABILITIES, Prepare 3 ''main'' 5],
         demo_controller (CAwaitReady 3 ''main'' 5))"
    by (simp add: controller_begin_def demo_controller_def Let_def del: validate_frame.simps)
  then show ?thesis using demo_go_remote
    by (simp add: begin_remote_def demo_runtime_def demo_runtime_preparing_def)
qed

lemma demo_token: "session_token demo_session \<noteq> 0"
  by code_simp

lemma demo_ready_control:
  "controller_control both_capture (Some (replicate 16 3)) (Ready 3 (demo_boot 2) True ''main'' 5) 1
     demo_runtime_preparing (demo_ports 1 0 0) = (Inr [], demo_runtime_ready, demo_ports 1 0 0)"
proof -
  have "validate_frame (Ready 3 (demo_boot 2) True ''main'' 5) = Inr ()" by (simp add: protocol_limits)
  then have "controller_handle (Some (replicate 16 3)) (Ready 3 (demo_boot 2) True ''main'' 5)
      (demo_controller (CAwaitReady 3 ''main'' 5)) = (Inr None, demo_controller (CReady 3 demo_session))"
    using demo_generate
    by (simp add: controller_handle_def controller_ready_arm_def demo_controller_def del: validate_frame.simps)
  then show ?thesis using demo_token
    by (simp add: controller_control_def handle_ready_def demo_runtime_preparing_def demo_runtime_ready_def
        prepared_session_def demo_controller_def router_ready_def demo_router_def demo_preparing_def
        still_preparing_def demo_runtime_def)
qed

lemma demo_runtime_reach:
  "controller_reach both_capture both_focus (demo_runtime, demo_ports 0 0 0)
     (demo_runtime_ready, demo_ports 1 0 0)"
proof -
  from demo_begin_remote show ?thesis
    by (rule ctl_next [OF ctl_next [OF ctl_start ctl_begin] ctl_control [OF demo_ready_control]])
qed

theorem controller_router_agrees_witness:
  "\<not> is_active demo_runtime_ready"
  using controller_router_agrees [OF fake_ports.handoff_contract_axioms demo_runtime_new demo_runtime_reach]
  by (simp add: demo_runtime_ready_def demo_router_def)

theorem controller_go_local_works_witness:
  "\<exists>res r' c'. controller_go_local both_capture User demo_runtime_ready (demo_ports 1 0 0) = (res, r', c')
     \<and> is_ok res \<and> can_begin r'"
proof -
  obtain res r' c' where step: "controller_go_local both_capture User demo_runtime_ready (demo_ports 1 0 0)
      = (res, r', c')" by (metis prod_cases3)
  from controller_go_local_works [OF fake_ports.handoff_contract_axioms demo_runtime_new demo_runtime_reach this] step
  show ?thesis by blast
qed

end
