(* ===== verification/Pressed_State.thy ===== *)
theory Pressed_State
  imports Protocol_Types
begin

text \<open>
  The receiver's ledger of held keys and buttons (\<open>pressed_state.rs\<close>).  A physical key
  is identified by its source (scan code, or virtual key when there is none) and its
  mapped target is frozen at key down, so key up releases what key down pressed.  The
  contract of the ledger is \<open>os_step\<close>: the set of targets and buttons the operating
  system holds, a command being legal only when it changes that set.  The refinement
  lemmas show that the commands of every operation are legal and take the abstraction
  of the old ledger to that of the new one.
\<close>

section \<open>The ledger and its operations\<close>

datatype key_source = ScanCode u16 bool | VirtualKey u16

definition key_source_from_event :: "u16 \<Rightarrow> u16 \<Rightarrow> bool \<Rightarrow> key_source" where
  "key_source_from_event key_code scan_code extended =
     (if scan_code = 0 then VirtualKey key_code else ScanCode scan_code extended)"

record held_key =
  hk_source :: key_source
  hk_target :: u16

record held_button =
  hb_button :: mouse_button
  hb_x :: i32
  hb_y :: i32

record pressed_state =
  ps_keys :: "held_key list"
  ps_buttons :: "held_button list"

definition pressed_default :: pressed_state where
  "pressed_default = \<lparr>ps_keys = [], ps_buttons = []\<rparr>"

definition pressed_is_empty :: "pressed_state \<Rightarrow> bool" where
  "pressed_is_empty s \<longleftrightarrow> ps_keys s = [] \<and> ps_buttons s = []"

definition drag_button :: "pressed_state \<Rightarrow> mouse_button option" where
  "drag_button s =
     find (\<lambda>b. list_ex (\<lambda>held. hb_button held = b) (ps_buttons s)) [MLeft, MRight, MMiddle]"

definition update_pointer :: "i32 \<Rightarrow> i32 \<Rightarrow> pressed_state \<Rightarrow> pressed_state" where
  "update_pointer x y s =
     s\<lparr>ps_buttons := map (\<lambda>held. held\<lparr>hb_x := x, hb_y := y\<rparr>) (ps_buttons s)\<rparr>"

fun mouse_button_of :: "critical_button \<Rightarrow> mouse_button" where
  "mouse_button_of CLeft = MLeft"
| "mouse_button_of CRight = MRight"
| "mouse_button_of CMiddle = MMiddle"
| "mouse_button_of CBack = MBack"
| "mouse_button_of CForward = MForward"

definition target_held :: "u16 \<Rightarrow> held_key list \<Rightarrow> bool" where
  "target_held t ks \<longleftrightarrow> list_ex (\<lambda>held. hk_target held = t) ks"

definition apply_key ::
  "u16 \<Rightarrow> u16 \<Rightarrow> bool \<Rightarrow> bool \<Rightarrow> pressed_state \<Rightarrow> pressed_state \<times> input_command list" where
  "apply_key key_code scan_code extended down s =
     (let source = key_source_from_event key_code scan_code extended in
      if down then
        (if list_ex (\<lambda>held. hk_source held = source) (ps_keys s) then (s, [])
         else
           (s\<lparr>ps_keys := ps_keys s @ [\<lparr>hk_source = source, hk_target = key_code\<rparr>]\<rparr>,
            if target_held key_code (ps_keys s) then [] else [IC_Key key_code True]))
      else
        (case position (\<lambda>held. hk_source held = source) (ps_keys s) of
           None \<Rightarrow> (s, [])
         | Some index \<Rightarrow>
             (let held = ps_keys s ! index; rest = remove_at index (ps_keys s) in
              (s\<lparr>ps_keys := rest\<rparr>,
               if target_held (hk_target held) rest then []
               else [IC_Key (hk_target held) False]))))"

definition apply_button ::
  "mouse_button \<Rightarrow> bool \<Rightarrow> i32 \<Rightarrow> i32 \<Rightarrow> pressed_state \<Rightarrow> pressed_state \<times> input_command list" where
  "apply_button button down x y s =
     (let index = position (\<lambda>held. hb_button held = button) (ps_buttons s) in
      if down then
        (case index of
           Some i \<Rightarrow>
             (s\<lparr>ps_buttons := (ps_buttons s)[i := (ps_buttons s ! i)\<lparr>hb_x := x, hb_y := y\<rparr>]\<rparr>, [])
         | None \<Rightarrow>
             (s\<lparr>ps_buttons := ps_buttons s @ [\<lparr>hb_button = button, hb_x = x, hb_y = y\<rparr>]\<rparr>,
              [IC_MouseButton button down x y]))
      else
        (case index of
           Some i \<Rightarrow>
             (s\<lparr>ps_buttons := remove_at i (ps_buttons s)\<rparr>, [IC_MouseButton button down x y])
         | None \<Rightarrow> (s, [])))"

fun pressed_apply ::
  "critical_event \<Rightarrow> pressed_state \<Rightarrow> pressed_state \<times> input_command list" where
  "pressed_apply (CKey key_code scan_code extended down) s =
     apply_key key_code scan_code extended down s"
| "pressed_apply (CButton button down x y motion_sequence) s =
     apply_button (mouse_button_of button) down x y s"
| "pressed_apply (CScroll delta_x delta_y x y motion_sequence) s =
     (s, [IC_Scroll delta_x delta_y])"

text \<open>The \<open>while let Some(held) = self.keys.pop()\<close> loop, on the reversed list.\<close>

fun release_keys :: "held_key list \<Rightarrow> input_command list" where
  "release_keys [] = []"
| "release_keys (held # rest) =
     (if target_held (hk_target held) rest then [] else [IC_Key (hk_target held) False])
     @ release_keys rest"

definition release_all :: "pressed_state \<Rightarrow> pressed_state \<times> input_command list" where
  "release_all s =
     (pressed_default,
      release_keys (rev (ps_keys s))
      @ map (\<lambda>held. IC_MouseButton (hb_button held) False (hb_x held) (hb_y held))
          (rev (ps_buttons s)))"

section \<open>Well-formed ledgers\<close>

text \<open>Each source and each button is held at most once.\<close>

definition wf_pressed :: "pressed_state \<Rightarrow> bool" where
  "wf_pressed s \<longleftrightarrow> distinct (map hk_source (ps_keys s)) \<and> distinct (map hb_button (ps_buttons s))"

lemma target_held_iff: "target_held t ks \<longleftrightarrow> t \<in> hk_target ` set ks"
  by (auto simp: target_held_def list_ex_iff)

lemma wf_pressed_default [simp]: "wf_pressed pressed_default"
  by (simp add: wf_pressed_def pressed_default_def)

lemma wf_update_pointer [simp]: "wf_pressed (update_pointer x y s) = wf_pressed s"
  by (simp add: wf_pressed_def update_pointer_def comp_def)

lemma apply_key_wf:
  assumes "wf_pressed s" and "apply_key kc sc ext down s = (s', cmds)"
  shows "wf_pressed s'"
proof (cases "down \<or> position (\<lambda>held. hk_source held = key_source_from_event kc sc ext) (ps_keys s) = None")
  case True
  with assms show ?thesis
    by (fastforce simp: apply_key_def wf_pressed_def Let_def list_ex_iff split: if_splits)
next
  case False
  then obtain i where i: "position (\<lambda>held. hk_source held = key_source_from_event kc sc ext) (ps_keys s) = Some i"
    by auto
  from i obtain us x vs where "ps_keys s = us @ x # vs" "remove_at i (ps_keys s) = us @ vs"
    by (rule position_Some_decomp)
  with assms False i show ?thesis
    by (auto simp: apply_key_def wf_pressed_def Let_def split: if_splits)
qed

lemma apply_button_wf:
  assumes "wf_pressed s" and "apply_button b down x y s = (s', cmds)"
  shows "wf_pressed s'"
proof (cases "position (\<lambda>held. hb_button held = b) (ps_buttons s)")
  case None
  with assms show ?thesis
    by (auto simp: apply_button_def wf_pressed_def position_None_iff Let_def split: if_splits)
next
  case (Some i)
  then obtain us h vs where split: "ps_buttons s = us @ h # vs" "ps_buttons s ! i = h"
    "remove_at i (ps_buttons s) = us @ vs"
    by (rule position_Some_decomp) blast
  have "map hb_button ((ps_buttons s)[i := h\<lparr>hb_x := x, hb_y := y\<rparr>]) = map hb_button (ps_buttons s)"
    using split(2) position_SomeD(1) [OF Some] by (simp add: map_update list_update_same_conv)
  with assms Some split show ?thesis
    by (auto simp: apply_button_def wf_pressed_def Let_def split: if_splits)
qed

lemma pressed_apply_wf:
  assumes "wf_pressed s" and "pressed_apply ev s = (s', cmds)"
  shows "wf_pressed s'"
  using assms by (cases ev) (auto intro: apply_key_wf apply_button_wf)

section \<open>The operating system's view\<close>

text \<open>
  The targets and buttons the operating system holds down.  \<open>os_step\<close> is \<open>None\<close> for a
  press of what is already down and for a release of what is not.
\<close>

type_synonym os_input = "u16 set \<times> mouse_button set"

fun os_step :: "input_command \<Rightarrow> os_input \<Rightarrow> os_input option" where
  "os_step (IC_Key k down) (K, B) =
     (if down then (if k \<in> K then None else Some (insert k K, B))
      else (if k \<in> K then Some (K - {k}, B) else None))"
| "os_step (IC_MouseButton b down x y) (K, B) =
     (if down then (if b \<in> B then None else Some (K, insert b B))
      else (if b \<in> B then Some (K, B - {b}) else None))"
| "os_step IC_ReleaseAll (K, B) = Some ({}, {})"
| "os_step _ (K, B) = Some (K, B)"

lemma os_step_neutral [simp]:
  "os_step (IC_Scroll dx dy) os = Some os"
  "os_step (IC_MouseMove x y drag) os = Some os"
  "os_step IC_SecureAttention os = Some os"
  by (cases os, simp)+

fun os_run :: "input_command list \<Rightarrow> os_input \<Rightarrow> os_input option" where
  "os_run [] os = Some os"
| "os_run (c # cs) os = Option.bind (os_step c os) (os_run cs)"

lemma os_run_append: "os_run (xs @ ys) os = Option.bind (os_run xs os) (os_run ys)"
proof (induction xs arbitrary: os)
  case (Cons c cs)
  then show ?case by (cases "os_step c os") auto
qed simp

definition pressed_abs :: "pressed_state \<Rightarrow> os_input" where
  "pressed_abs s = (hk_target ` set (ps_keys s), hb_button ` set (ps_buttons s))"

lemma pressed_abs_default [simp]: "pressed_abs pressed_default = ({}, {})"
  by (simp add: pressed_abs_def pressed_default_def)

lemma pressed_abs_update_pointer [simp]: "pressed_abs (update_pointer x y s) = pressed_abs s"
  by (simp add: pressed_abs_def update_pointer_def image_image)

lemma apply_key_refines:
  assumes "apply_key kc sc ext down s = (s', cmds)"
  shows "os_run cmds (pressed_abs s) = Some (pressed_abs s')"
proof (cases "down \<or> position (\<lambda>held. hk_source held = key_source_from_event kc sc ext) (ps_keys s) = None")
  case True
  with assms show ?thesis
    by (auto simp: apply_key_def pressed_abs_def Let_def target_held_iff split: if_splits)
next
  case False
  then obtain i where i: "position (\<lambda>held. hk_source held = key_source_from_event kc sc ext) (ps_keys s) = Some i"
    by auto
  then obtain us x vs where "ps_keys s = us @ x # vs" "ps_keys s ! i = x"
    "remove_at i (ps_keys s) = us @ vs"
    by (rule position_Some_decomp)
  with assms False i show ?thesis
    by (auto simp: apply_key_def pressed_abs_def Let_def target_held_iff split: if_splits)
qed

lemma apply_button_refines:
  assumes "wf_pressed s" and "apply_button b down x y s = (s', cmds)"
  shows "os_run cmds (pressed_abs s) = Some (pressed_abs s')"
proof (cases "position (\<lambda>held. hb_button held = b) (ps_buttons s)")
  case None
  with assms show ?thesis
    by (auto simp: apply_button_def pressed_abs_def position_None_iff Let_def split: if_splits)
next
  case (Some i)
  then obtain us h vs where split: "ps_buttons s = us @ h # vs" "hb_button h = b" "ps_buttons s ! i = h"
    "remove_at i (ps_buttons s) = us @ vs"
    by (rule position_Some_decomp) blast
  have "map hb_button ((ps_buttons s)[i := h\<lparr>hb_x := x, hb_y := y\<rparr>]) = map hb_button (ps_buttons s)"
    using split(3) position_SomeD(1) [OF Some] by (simp add: map_update list_update_same_conv)
  then have "hb_button ` set ((ps_buttons s)[i := h\<lparr>hb_x := x, hb_y := y\<rparr>]) = hb_button ` set (ps_buttons s)"
    by (metis set_map)
  moreover from assms(1) split(1) have "hb_button h \<notin> hb_button ` (set us \<union> set vs)"
    by (auto simp: wf_pressed_def image_Un)
  ultimately show ?thesis
    using assms(2) Some split
    by (cases down) (auto simp del: image_Un simp: apply_button_def pressed_abs_def Let_def)
qed

lemma pressed_apply_refines:
  assumes "wf_pressed s" and "pressed_apply ev s = (s', cmds)"
  shows "os_run cmds (pressed_abs s) = Some (pressed_abs s')"
  using assms by (cases ev) (auto intro: apply_key_refines apply_button_refines)

lemma release_keys_refines:
  "os_run (release_keys ks) (hk_target ` set ks, B) = Some ({}, B)"
proof (induction ks)
  case (Cons k ks)
  then show ?case by (cases "hk_target k \<in> hk_target ` set ks") (auto simp: target_held_iff insert_absorb)
qed simp

lemma release_buttons_refines:
  "distinct (map hb_button bs) \<Longrightarrow>
     os_run (map (\<lambda>held. IC_MouseButton (hb_button held) False (hb_x held) (hb_y held)) bs)
       (K, hb_button ` set bs) = Some (K, {})"
proof (induction bs)
  case (Cons b bs)
  then have "insert (hb_button b) (hb_button ` set bs) - {hb_button b} = hb_button ` set bs"
    by auto
  with Cons show ?case by simp
qed simp

lemma release_all_refines:
  assumes "wf_pressed s" and "release_all s = (s', cmds)"
  shows "os_run cmds (pressed_abs s) = Some ({}, {})" and "s' = pressed_default"
proof -
  from assms(1) have "distinct (map hb_button (rev (ps_buttons s)))"
    by (simp add: wf_pressed_def rev_map [symmetric])
  from release_buttons_refines [OF this, of "{}"]
    release_keys_refines [of "rev (ps_keys s)" "hb_button ` set (ps_buttons s)"] assms(2)
  show "os_run cmds (pressed_abs s) = Some ({}, {})"
    by (auto simp: release_all_def os_run_append pressed_abs_def)
qed (use assms(2) in \<open>simp add: release_all_def\<close>)

section \<open>Whole input streams\<close>

fun pressed_run :: "critical_event list \<Rightarrow> pressed_state \<Rightarrow> pressed_state \<times> input_command list" where
  "pressed_run [] s = (s, [])"
| "pressed_run (ev # evs) s =
     (let (s1, c1) = pressed_apply ev s; (s2, c2) = pressed_run evs s1 in (s2, c1 @ c2))"

lemma pressed_run_refines:
  assumes "wf_pressed s" and "pressed_run evs s = (s', cmds)"
  shows "wf_pressed s' \<and> os_run cmds (pressed_abs s) = Some (pressed_abs s')"
  using assms
proof (induction evs arbitrary: s s' cmds)
  case (Cons ev evs)
  obtain s1 c1 where one: "pressed_apply ev s = (s1, c1)" by fastforce
  obtain s2 c2 where rest: "pressed_run evs s1 = (s2, c2)" by fastforce
  from pressed_apply_wf [OF Cons.prems(1) one] Cons.IH rest
  have "wf_pressed s2 \<and> os_run c2 (pressed_abs s1) = Some (pressed_abs s2)" by blast
  with pressed_apply_refines [OF Cons.prems(1) one] Cons.prems(2) one rest show ?case
    by (auto simp: os_run_append)
qed simp

end
