(* ===== verification/Transport_Types.thy ===== *)
theory Transport_Types
  imports Protocol_Types
begin

text \<open>
  What the transport tells the components above it about a connection
  (\<open>quic_transport.rs\<close>): the authenticated peer, its role, and the connection it speaks on.
\<close>

datatype socket_addr = SocketV4 "u8 list" u16 | SocketV6 "u8 list" u16 u32 u32

datatype peer_role = PeerController | PeerReceiver

record trusted_peer =
  tp_peer_id :: string
  tp_certificate :: string
  tp_role :: peer_role
  tp_trust_revision :: u64

record authenticated_peer =
  ap_peer_id :: string
  ap_role :: peer_role
  ap_trust_revision :: u64
  ap_connection_generation :: u64
  ap_remote_addr :: socket_addr

datatype connection_peer =
    PeerAuthenticated authenticated_peer
  | PeerUnauthenticated socket_addr u64 "string option"

end
