(* ===== verification/Display_Layout.thy ===== *)
theory Display_Layout
  imports Protocol_Types "HOL-Library.Signed_Division"
begin

text \<open>
  Display geometry and key remapping of \<open>session_runtime.rs\<close>: the map from a controller's
  logical coordinates to the receiver's native ones, the layout revision hash, and the
  remapping of modifier keys.  \<open>i64\<close> arithmetic on \<open>i32\<close> operands cannot overflow and is
  done on \<open>int\<close>; the division truncates, which \<open>sdiv\<close> does.
\<close>

section \<open>Coordinates\<close>

record display_layout =
  dl_display_id :: string
  dl_layout_revision :: u64
  dl_logical_width :: i32
  dl_logical_height :: i32
  dl_native_x :: i32
  dl_native_y :: i32
  dl_native_width :: i32
  dl_native_height :: i32

definition map_axis :: "i32 \<Rightarrow> i32 \<Rightarrow> i32 \<Rightarrow> i32 \<Rightarrow> i32" where
  "map_axis v logical_size native_origin native_size =
     (if logical_size \<le> 1 \<or> native_size \<le> 1 then native_origin
      else
        (let ofs = (v * (native_size - 1)) sdiv (logical_size - 1)
         in if is_i32 (native_origin + ofs) then native_origin + ofs else i32_max))"

definition layout_map :: "display_layout \<Rightarrow> i32 \<Rightarrow> i32 \<Rightarrow> (protocol_error, i32 \<times> i32) result" where
  "layout_map d x y =
     (if dl_layout_revision d = 0 \<or> dl_logical_width d \<le> 0 \<or> dl_logical_height d \<le> 0
         \<or> dl_native_width d \<le> 0 \<or> dl_native_height d \<le> 0
         \<or> x < 0 \<or> y < 0 \<or> x \<ge> dl_logical_width d \<or> y \<ge> dl_logical_height d
      then Inl (InvalidField ''coordinates'')
      else Inr (map_axis x (dl_logical_width d) (dl_native_x d) (dl_native_width d),
                map_axis y (dl_logical_height d) (dl_native_y d) (dl_native_height d)))"

lemma map_axis_offset:
  assumes "\<not> (l \<le> 1 \<or> n \<le> 1)" and "0 \<le> v" and "v < l" and "is_i32 origin" and "is_i32 (origin + n - 1)"
  shows "map_axis v l origin n = origin + v * (n - 1) div (l - 1)"
    and "0 \<le> v * (n - 1) div (l - 1)" and "v * (n - 1) div (l - 1) \<le> n - 1"
proof -
  have "v * (n - 1) \<le> (l - 1) * (n - 1)" using assms(1,3) by (intro mult_right_mono) auto
  then have "v * (n - 1) div (l - 1) \<le> (l - 1) * (n - 1) div (l - 1)"
    using assms(1) by (intro zdiv_mono1) auto
  also have "\<dots> = n - 1" using assms(1) by (intro nonzero_mult_div_cancel_left) auto
  finally show upper: "v * (n - 1) div (l - 1) \<le> n - 1" .
  show lower: "0 \<le> v * (n - 1) div (l - 1)" using assms(1,2) by (simp add: pos_imp_zdiv_nonneg_iff)
  from lower upper assms(4,5) have "is_i32 (origin + v * (n - 1) div (l - 1))"
    unfolding is_i32_def by linarith
  moreover have "(v * (n - 1)) sdiv (l - 1) = v * (n - 1) div (l - 1)"
    using assms(1,2) by (simp add: signed_divide_int_def sgn_mult sgn_if)
  ultimately show "map_axis v l origin n = origin + v * (n - 1) div (l - 1)"
    using assms(1) by (simp add: map_axis_def Let_def)
qed

lemma map_axis_bounds:
  assumes "0 \<le> v" and "v < l" and "0 < n" and "is_i32 origin" and "is_i32 (origin + n - 1)"
  shows "origin \<le> map_axis v l origin n \<and> map_axis v l origin n \<le> origin + n - 1"
proof (cases "l \<le> 1 \<or> n \<le> 1")
  case True
  with assms(3) show ?thesis by (auto simp: map_axis_def)
next
  case False
  from map_axis_offset [OF this assms(1,2,4,5)] show ?thesis by linarith
qed

lemma map_axis_ends:
  assumes "1 < l" and "1 < n" and "is_i32 origin" and "is_i32 (origin + n - 1)"
  shows "map_axis 0 l origin n = origin" and "map_axis (l - 1) l origin n = origin + n - 1"
  using assms by (auto simp: map_axis_def is_i32_def signed_divide_int_def sgn_if Let_def abs_mult)

lemma map_axis_mono:
  assumes "0 \<le> v" and "v \<le> w" and "w < l" and "is_i32 origin" and "is_i32 (origin + n - 1)"
  shows "map_axis v l origin n \<le> map_axis w l origin n"
proof (cases "l \<le> 1 \<or> n \<le> 1")
  case True
  then show ?thesis by (auto simp: map_axis_def)
next
  case False
  have "v * (n - 1) div (l - 1) \<le> w * (n - 1) div (l - 1)"
    using False assms(2) by (intro zdiv_mono1 mult_right_mono) auto
  with map_axis_offset(1) [OF False _ _ assms(4,5)] assms show ?thesis by simp
qed

section \<open>Layout revisions\<close>

definition word_le_bytes :: "nat \<Rightarrow> 'a::len word \<Rightarrow> u8 list" where
  "word_le_bytes n w = map (\<lambda>i. ucast (drop_bit (8 * i) w)) [0..<n]"

definition fnv_byte :: "u8 \<Rightarrow> u64 \<Rightarrow> u64" where
  "fnv_byte b hash = (hash XOR ucast b) * 0x100000001b3"

definition display_layout_revision :: "string \<Rightarrow> i32 \<Rightarrow> i32 \<Rightarrow> u64 \<Rightarrow> u64" where
  "display_layout_revision display_id width height scale_bits =
     (let bytes = map of_char display_id @ word_le_bytes 4 (of_int width :: u32)
            @ word_le_bytes 4 (of_int height :: u32) @ word_le_bytes 8 scale_bits;
          hash = fold fnv_byte bytes 0xcbf29ce484222325
      in max hash 1)"

text \<open>A revision is never 0, the value \<open>layout_map\<close> and the frame validation reject.\<close>

lemma display_layout_revision_nonzero: "display_layout_revision d w h s \<noteq> 0"
proof -
  have "(1 :: u64) \<le> max x 1" for x :: u64 by simp
  then have "max x (1 :: u64) \<noteq> 0" for x :: u64
    by (metis not_le word_neq_0_conv zero_neq_one word_gt_0)
  then show ?thesis by (simp add: display_layout_revision_def Let_def)
qed

section \<open>Modifier keys\<close>

definition remap_modifier_vk :: "u16 \<Rightarrow> string \<Rightarrow> string \<Rightarrow> string \<Rightarrow> u16" where
  "remap_modifier_vk vk control alt meta =
     (let mapped = (if vk \<in> {0x11, 0xA2, 0xA3} then Some control
                    else if vk \<in> {0x12, 0xA4, 0xA5} then Some alt
                    else if vk \<in> {0x5B, 0x5C} then Some meta else None)
      in case mapped of
           None \<Rightarrow> vk
         | Some name \<Rightarrow>
             (let on_right = vk \<in> {0xA1, 0xA3, 0xA5, 0x5C}; generic = vk \<in> {0x10, 0x11, 0x12} in
              if name = ''control'' then (if generic then 0x11 else if on_right then 0xA3 else 0xA2)
              else if name = ''alt'' then (if generic then 0x12 else if on_right then 0xA5 else 0xA4)
              else if name = ''meta'' then (if on_right then 0x5C else 0x5B)
              else vk))"

definition receiver_mode_enabled :: "string \<Rightarrow> string \<Rightarrow> bool" where
  "receiver_mode_enabled machine_role input_mode \<longleftrightarrow>
     machine_role = ''client'' \<and> input_mode = ''receive''"

text \<open>The keys a remapping can touch, and the side of a modifier.\<close>

definition modifier_vks :: "u16 list" where
  "modifier_vks = [0x11, 0x12, 0xA2, 0xA3, 0xA4, 0xA5, 0x5B, 0x5C]"

definition right_modifier :: "u16 \<Rightarrow> bool" where
  "right_modifier vk \<longleftrightarrow> vk \<in> {0xA3, 0xA5, 0x5C}"

lemma remap_other: "vk \<notin> set modifier_vks \<Longrightarrow> remap_modifier_vk vk c a m = vk"
  by (simp add: remap_modifier_vk_def modifier_vks_def)

lemma remap_unknown:
  assumes "c \<notin> {''control'', ''alt'', ''meta''}" and "a \<notin> {''control'', ''alt'', ''meta''}"
    and "m \<notin> {''control'', ''alt'', ''meta''}"
  shows "remap_modifier_vk vk c a m = vk"
  using assms by (auto simp: remap_modifier_vk_def Let_def)

lemma remap_modifier:
  assumes "vk \<in> set modifier_vks"
  shows "remap_modifier_vk vk c a m \<in> set modifier_vks
    \<and> right_modifier (remap_modifier_vk vk c a m) = right_modifier vk"
  using assms by (auto simp: remap_modifier_vk_def modifier_vks_def right_modifier_def Let_def)

end
