(* ===== verification/Receiver_Session.thy ===== *)
theory Receiver_Session
  imports Pressed_State Control_Ports Transport_Types Display_Layout Handshake
begin

text \<open>
  The receiver's session runtime (\<open>session_runtime.rs\<close>): it binds one authenticated
  connection, drives the receiver handshake, lets ordered input through the gate into the
  ledger of pressed keys, applies the newest pointer motion, and releases everything when a
  session ends for any reason.  The injector is a record of the port's functions; the
  runtime keeps the injector's state.  Every operation returns its result and the new
  runtime, also on the early returns of \<open>?\<close>.
\<close>

section \<open>State\<close>

datatype session_runtime_error =
    WrongRoleError
  | WrongConnection
  | ProtocolError protocol_error
  | InjectorError port_error

definition INPUT_LEASE_TIMEOUT_MS :: u64 where "INPUT_LEASE_TIMEOUT_MS = 3000"

datatype session_fault =
    FaultInjector port_error
  | FaultReleaseFailed port_error
  | FaultLeaseExpired
  | FaultInputStreamClosed
  | FaultLayoutChanged

record session_health =
  sh_active :: bool
  sh_highest_applied_sequence :: u64
  sh_last_fault :: "session_fault option"

datatype motion_disposition = MotionApplied | MotionBuffered | MotionStale

record 'i receiver_runtime =
  rr_local_boot :: boot_id
  rr_binding :: "authenticated_peer option"
  rr_handshake :: "receiver_handshake option"
  rr_input_gate :: input_session_gate
  rr_active_session :: "session_id option"
  rr_highest_applied_sequence :: u64
  rr_highest_motion_sequence :: u64
  rr_pending_motion :: "motion_frame option"
  rr_display_layouts :: "display_layout list"
  rr_prepared_display :: "display_layout option"
  rr_active_display :: "display_layout option"
  rr_modifier_remap :: bool
  rr_modifier_control :: string
  rr_modifier_alt :: string
  rr_modifier_meta :: string
  rr_last_activity_ms :: "u64 option"
  rr_last_fault :: "session_fault option"
  rr_pressed :: pressed_state
  rr_injector :: 'i

type_synonym 'i runtime_result = "(session_runtime_error, unit) result \<times> 'i receiver_runtime"

definition runtime_new :: "boot_id \<Rightarrow> 'i \<Rightarrow> display_layout list \<Rightarrow> 'i receiver_runtime" where
  "runtime_new local_boot injector display_layouts =
     \<lparr>rr_local_boot = local_boot, rr_binding = None, rr_handshake = None,
      rr_input_gate = input_gate_new local_boot, rr_active_session = None,
      rr_highest_applied_sequence = 0, rr_highest_motion_sequence = 0, rr_pending_motion = None,
      rr_display_layouts = display_layouts, rr_prepared_display = None, rr_active_display = None,
      rr_modifier_remap = False, rr_modifier_control = ''same'', rr_modifier_alt = ''same'',
      rr_modifier_meta = ''same'', rr_last_activity_ms = None, rr_last_fault = None,
      rr_pressed = pressed_default, rr_injector = injector\<rparr>"

section \<open>Releasing and aborting\<close>

definition reset_motion :: "'i receiver_runtime \<Rightarrow> 'i receiver_runtime" where
  "reset_motion r = r\<lparr>rr_highest_motion_sequence := 0, rr_pending_motion := None\<rparr>"

text \<open>The loop of \<open>release_pressed\<close> goes on after an error and collects the errors.\<close>

fun submit_each :: "'i injector_port \<Rightarrow> input_command list \<Rightarrow> 'i \<Rightarrow> port_error list \<times> 'i" where
  "submit_each P [] i = ([], i)"
| "submit_each P (c # cs) i =
     (let (res, i1) = submit_ready P c i; (errs, i2) = submit_each P cs i1
      in (case res of Inl e \<Rightarrow> e # errs | Inr _ \<Rightarrow> errs, i2))"

definition release_pressed :: "'i injector_port \<Rightarrow> 'i receiver_runtime \<Rightarrow> 'i runtime_result" where
  "release_pressed P r =
     (let (pressed, commands) = release_all (rr_pressed r);
          (errs, i) = submit_each P commands (rr_injector r);
          r1 = r\<lparr>rr_injector := i\<rparr>
      in case errs of
           [] \<Rightarrow> (Inr (), r1\<lparr>rr_pressed := pressed\<rparr>)
         | first_error # _ \<Rightarrow>
             (Inl (InjectorError first_error), r1\<lparr>rr_last_fault := Some (FaultReleaseFailed (last errs))\<rparr>))"

text \<open>What every way of losing a session does before it records the fault and releases.\<close>

definition close_session :: "session_id \<Rightarrow> 'i receiver_runtime \<Rightarrow> 'i receiver_runtime" where
  "close_session session_id r =
     r\<lparr>rr_input_gate := snd (input_gate_end session_id (rr_input_gate r)),
       rr_handshake := map_option (\<lambda>h. snd (abort_active session_id h)) (rr_handshake r),
       rr_active_session := None\<rparr>"

definition abort_after_injector_failure ::
  "'i injector_port \<Rightarrow> session_id \<Rightarrow> 'i receiver_runtime \<Rightarrow> 'i receiver_runtime" where
  "abort_after_injector_failure P session_id r =
     snd (release_pressed P
       (reset_motion ((close_session session_id r)\<lparr>rr_last_activity_ms := None\<rparr>)))"

section \<open>Pointer motion\<close>

definition map_active_pointer ::
  "'i receiver_runtime \<Rightarrow> i32 \<Rightarrow> i32 \<Rightarrow> (session_runtime_error, i32 \<times> i32) result" where
  "map_active_pointer r x y =
     bind_result (ok_or (ProtocolError (InvalidField ''display_id'')) (rr_active_display r))
       (\<lambda>d. map_err ProtocolError (layout_map d x y))"

definition apply_motion :: "'i injector_port \<Rightarrow> motion_frame \<Rightarrow> 'i receiver_runtime \<Rightarrow> 'i runtime_result" where
  "apply_motion P frame r =
     (case map_active_pointer r (mf_x frame) (mf_y frame) of
        Inl e \<Rightarrow> (Inl e, r)
      | Inr (x, y) \<Rightarrow>
          (let pressed_before = rr_pressed r;
               pressed = update_pointer x y (rr_pressed r);
               (res, i) = submit_ready P (IC_MouseMove x y (drag_button pressed)) (rr_injector r);
               r1 = r\<lparr>rr_injector := i\<rparr>
           in case res of
                Inl e \<Rightarrow>
                  (Inl (InjectorError e),
                   abort_after_injector_failure P (mf_session_id frame)
                     (r1\<lparr>rr_pressed := pressed_before, rr_last_fault := Some (FaultInjector e)\<rparr>))
              | Inr _ \<Rightarrow>
                  (Inr (), r1\<lparr>rr_pressed := pressed, rr_highest_motion_sequence := mf_sequence frame\<rparr>)))"

definition flush_pending_motion :: "'i injector_port \<Rightarrow> 'i receiver_runtime \<Rightarrow> 'i runtime_result" where
  "flush_pending_motion P r =
     (case rr_pending_motion r of
        None \<Rightarrow> (Inr (), r)
      | Some frame \<Rightarrow>
          if mf_required_reliable_sequence frame > rr_highest_applied_sequence r then (Inr (), r)
          else
            (let r1 = r\<lparr>rr_pending_motion := None\<rparr> in
             if mf_sequence frame > rr_highest_motion_sequence r1 then apply_motion P frame r1
             else (Inr (), r1)))"

definition bound_controller :: "authenticated_peer \<Rightarrow> 'i receiver_runtime \<Rightarrow> bool" where
  "bound_controller peer r \<longleftrightarrow> rr_binding r = Some peer \<and> ap_role peer = PeerController"

definition handle_motion_at ::
  "'i injector_port \<Rightarrow> motion_frame \<Rightarrow> authenticated_peer \<Rightarrow> u64 \<Rightarrow> 'i receiver_runtime
     \<Rightarrow> (session_runtime_error, motion_disposition) result \<times> 'i receiver_runtime" where
  "handle_motion_at P frame peer now_ms r =
     (if \<not> bound_controller peer r then (Inl WrongConnection, r)
      else if mf_sequence frame = 0 \<or> rr_active_session r \<noteq> Some (mf_session_id frame)
        \<or> receiver_boot (mf_session_id frame) \<noteq> rr_local_boot r
      then (Inl (ProtocolError WrongSession), r)
      else if mf_sequence frame \<le> rr_highest_motion_sequence r then (Inr MotionStale, r)
      else case rr_active_display r of
        None \<Rightarrow> (Inl (ProtocolError (InvalidField ''display_id'')), r)
      | Some active_display \<Rightarrow>
          if mf_display_id frame \<noteq> dl_display_id active_display
            \<or> mf_layout_revision frame \<noteq> dl_layout_revision active_display
          then (Inl (ProtocolError (InvalidField ''layout_revision'')), r)
          else case layout_map active_display (mf_x frame) (mf_y frame) of
            Inl e \<Rightarrow> (Inl (ProtocolError e), r)
          | Inr _ \<Rightarrow>
              (let r1 = r\<lparr>rr_last_activity_ms := Some now_ms\<rparr> in
               if mf_required_reliable_sequence frame > rr_highest_applied_sequence r1 then
                 (Inr MotionBuffered,
                  if (case rr_pending_motion r1 of None \<Rightarrow> True
                      | Some pending \<Rightarrow> mf_sequence frame > mf_sequence pending)
                  then r1\<lparr>rr_pending_motion := Some frame\<rparr> else r1)
               else
                 (let (res, r2) = apply_motion P frame r1
                  in (map_sum id (\<lambda>_. MotionApplied) res, r2))))"

section \<open>Reliable input\<close>

fun critical_motion_snapshot :: "critical_event \<Rightarrow> (u64 \<times> i32 \<times> i32) option" where
  "critical_motion_snapshot (CButton button down x y motion_sequence) = Some (motion_sequence, x, y)"
| "critical_motion_snapshot (CScroll delta_x delta_y x y motion_sequence) = Some (motion_sequence, x, y)"
| "critical_motion_snapshot (CKey key_code scan_code extended down) = None"

fun remap_event :: "'i receiver_runtime \<Rightarrow> critical_event \<Rightarrow> critical_event" where
  "remap_event r (CKey key_code scan_code extended down) =
     (if rr_modifier_remap r
      then CKey (remap_modifier_vk key_code (rr_modifier_control r) (rr_modifier_alt r) (rr_modifier_meta r))
             scan_code extended down
      else CKey key_code scan_code extended down)"
| "remap_event r ev = ev"

fun move_event :: "i32 \<Rightarrow> i32 \<Rightarrow> critical_event \<Rightarrow> critical_event" where
  "move_event px py (CButton button down x y motion_sequence) = CButton button down px py motion_sequence"
| "move_event px py (CScroll delta_x delta_y x y motion_sequence) = CScroll delta_x delta_y px py motion_sequence"
| "move_event px py ev = ev"

text \<open>The pointer of the event, mapped to the active display.\<close>

definition map_event ::
  "'i receiver_runtime \<Rightarrow> critical_event \<Rightarrow> (session_runtime_error, critical_event) result" where
  "map_event r event =
     (case critical_motion_snapshot event of
        None \<Rightarrow> Inr (remap_event r event)
      | Some (_, x, y) \<Rightarrow>
          bind_result (map_active_pointer r x y) (\<lambda>(px, py). Inr (move_event px py (remap_event r event))))"

fun is_scroll :: "critical_event \<Rightarrow> bool" where
  "is_scroll (CScroll _ _ _ _ _) = True"
| "is_scroll _ = False"

text \<open>Moving the held buttons with the event, and the pointer move a scroll starts with.\<close>

definition pointer_commands ::
  "critical_event \<Rightarrow> 'i receiver_runtime
     \<Rightarrow> (session_runtime_error, pressed_state \<times> input_command list) result" where
  "pointer_commands event r =
     (case critical_motion_snapshot event of
        None \<Rightarrow> Inr (rr_pressed r, [])
      | Some (_, x, y) \<Rightarrow>
          bind_result (map_active_pointer r x y) (\<lambda>(px, py).
            Inr (update_pointer px py (rr_pressed r),
                 if is_scroll event then [IC_MouseMove px py (drag_button (rr_pressed r))] else [])))"

text \<open>An event with a pointer that produced no command still moves the pointer.\<close>

definition fallback_move ::
  "critical_event \<Rightarrow> pressed_state \<Rightarrow> 'i receiver_runtime \<Rightarrow> input_command list
     \<Rightarrow> (session_runtime_error, input_command list) result" where
  "fallback_move event pressed r commands =
     (if commands \<noteq> [] then Inr commands
      else case critical_motion_snapshot event of
        None \<Rightarrow> Inr []
      | Some (_, x, y) \<Rightarrow>
          bind_result (map_active_pointer r x y) (\<lambda>(px, py). Inr [IC_MouseMove px py (drag_button pressed)]))"

text \<open>The loop of \<open>handle_input_at\<close> stops at the first error.\<close>

fun submit_all :: "'i injector_port \<Rightarrow> input_command list \<Rightarrow> 'i \<Rightarrow> (port_error, unit) result \<times> 'i" where
  "submit_all P [] i = (Inr (), i)"
| "submit_all P (c # cs) i =
     (case submit_ready P c i of
        (Inl e, i1) \<Rightarrow> (Inl e, i1)
      | (Inr _, i1) \<Rightarrow> submit_all P cs i1)"

definition seen_motion :: "critical_event \<Rightarrow> u64 \<Rightarrow> u64" where
  "seen_motion event highest =
     (case critical_motion_snapshot event of None \<Rightarrow> highest | Some (n, _, _) \<Rightarrow> max highest n)"

definition apply_accepted ::
  "'i injector_port \<Rightarrow> critical_frame \<Rightarrow> critical_event \<Rightarrow> u64 \<Rightarrow> 'i receiver_runtime \<Rightarrow> 'i runtime_result" where
  "apply_accepted P frame mapped now_ms r =
     (let pressed_before = rr_pressed r in
      case pointer_commands (cf_event frame) r of
        Inl e \<Rightarrow> (Inl e, r)
      | Inr (p1, cmds1) \<Rightarrow>
          (let (p2, cmds2) = pressed_apply mapped p1; r2 = r\<lparr>rr_pressed := p2\<rparr> in
           case fallback_move (cf_event frame) p2 r2 (cmds1 @ cmds2) of
             Inl e \<Rightarrow> (Inl e, r2)
           | Inr commands \<Rightarrow>
               (let (res, i) = submit_all P commands (rr_injector r2); r3 = r2\<lparr>rr_injector := i\<rparr> in
                case res of
                  Inl e \<Rightarrow>
                    (Inl (InjectorError e),
                     abort_after_injector_failure P (cf_session_id frame)
                       (r3\<lparr>rr_pressed := pressed_before, rr_last_fault := Some (FaultInjector e)\<rparr>))
                | Inr _ \<Rightarrow>
                    flush_pending_motion P
                      (r3\<lparr>rr_highest_applied_sequence := cf_sequence frame,
                          rr_highest_motion_sequence :=
                            seen_motion (cf_event frame) (rr_highest_motion_sequence r3),
                          rr_last_activity_ms := Some now_ms\<rparr>))))"

definition handle_input_at ::
  "'i injector_port \<Rightarrow> critical_frame \<Rightarrow> authenticated_peer \<Rightarrow> u64 \<Rightarrow> 'i receiver_runtime \<Rightarrow> 'i runtime_result" where
  "handle_input_at P frame peer now_ms r =
     (if \<not> bound_controller peer r then (Inl WrongConnection, r)
      else if (case critical_motion_snapshot (cf_event frame) of None \<Rightarrow> False
               | Some (n, _, _) \<Rightarrow> n \<noteq> 0 \<and> n < rr_highest_motion_sequence r)
      then (Inl (ProtocolError WrongSession), r)
      else case map_event r (cf_event frame) of
        Inl e \<Rightarrow> (Inl e, r)
      | Inr mapped \<Rightarrow>
          (case input_gate_accept frame (rr_input_gate r) of
             (Inl e, g) \<Rightarrow> (Inl (ProtocolError e), r\<lparr>rr_input_gate := g\<rparr>)
           | (Inr _, g) \<Rightarrow> apply_accepted P frame mapped now_ms (r\<lparr>rr_input_gate := g\<rparr>)))"

section \<open>Control frames\<close>

text \<open>The first arm: a controller's \<open>Hello\<close> binds the connection to a new handshake.\<close>

definition hello_connection ::
  "'i injector_port \<Rightarrow> control_frame \<Rightarrow> string \<Rightarrow> authenticated_peer \<Rightarrow> 'i receiver_runtime
     \<Rightarrow> (session_runtime_error, control_frame option) result \<times> 'i receiver_runtime" where
  "hello_connection P frame peer_id peer r =
     (if peer_id \<noteq> ap_peer_id peer then (Inl WrongConnection, r)
      else if rr_active_session r \<noteq> None then (Inl WrongConnection, r)
      else case release_pressed P r of
        (Inl e, r1) \<Rightarrow> (Inl e, r1)
      | (Inr _, r1) \<Rightarrow>
          (case receiver_new (ap_peer_id peer) (rr_local_boot r1) of
             Inl e \<Rightarrow> (Inl (ProtocolError e), r1)
           | Inr handshake \<Rightarrow>
               (case receiver_handle frame handshake of
                  (Inl e, _) \<Rightarrow> (Inl (ProtocolError e), r1)
                | (Inr response, handshake') \<Rightarrow>
                    (Inr response,
                     (reset_motion (r1\<lparr>rr_binding := Some peer, rr_handshake := Some handshake',
                        rr_highest_applied_sequence := 0\<rparr>))
                       \<lparr>rr_prepared_display := None, rr_active_display := None,
                        rr_last_activity_ms := None\<rparr>))))"

definition find_layout :: "string \<Rightarrow> u64 \<Rightarrow> display_layout list \<Rightarrow> display_layout option" where
  "find_layout display_id layout_revision layouts =
     find (\<lambda>d. dl_display_id d = display_id \<and> dl_layout_revision d = layout_revision) layouts"

definition prepare_display :: "'i injector_port \<Rightarrow> control_frame \<Rightarrow> 'i receiver_runtime \<Rightarrow> 'i runtime_result" where
  "prepare_display P frame r =
     (case frame of
        Prepare _ target_display layout_revision \<Rightarrow>
          (case readiness P (rr_injector r) of
             Inl e \<Rightarrow> (Inl (InjectorError e), r)
           | Inr _ \<Rightarrow>
               (let found = find_layout target_display layout_revision (rr_display_layouts r);
                    r1 = r\<lparr>rr_prepared_display := found\<rparr>
                in if found = None then (Inl (ProtocolError (InvalidField ''layout_revision'')), r1)
                   else (Inr (), r1)))
      | _ \<Rightarrow> (Inr (), r))"

text \<open>An acknowledged commit activates the session.\<close>

definition accept_commit :: "control_frame option \<Rightarrow> u64 \<Rightarrow> 'i receiver_runtime \<Rightarrow> 'i runtime_result" where
  "accept_commit response now_ms r =
     (case response of
        Some (CommitAck session_id) \<Rightarrow>
          (case rr_active_session r of
             None \<Rightarrow>
               (if \<not> pressed_is_empty (rr_pressed r) then (Inl (ProtocolError InvalidTransition), r)
                else case input_gate_activate session_id (rr_input_gate r) of
                  (Inl e, g) \<Rightarrow> (Inl (ProtocolError e), r\<lparr>rr_input_gate := g\<rparr>)
                | (Inr _, g) \<Rightarrow>
                    (Inr (),
                     (reset_motion (r\<lparr>rr_input_gate := g, rr_active_session := Some session_id,
                        rr_active_display := rr_prepared_display r, rr_prepared_display := None,
                        rr_highest_applied_sequence := 0\<rparr>))
                       \<lparr>rr_last_activity_ms := Some now_ms, rr_last_fault := None\<rparr>))
           | Some active \<Rightarrow>
               (if active \<noteq> session_id then (Inl (ProtocolError WrongSession), r) else (Inr (), r)))
      | _ \<Rightarrow> (Inr (), r))"

definition end_session_frame :: "'i injector_port \<Rightarrow> control_frame \<Rightarrow> 'i receiver_runtime \<Rightarrow> 'i runtime_result" where
  "end_session_frame P frame r =
     (case frame of
        EndSession session_id _ \<Rightarrow>
          (if rr_active_session r = Some session_id then
             (case input_gate_end session_id (rr_input_gate r) of
                (Inl e, g) \<Rightarrow> (Inl (ProtocolError e), r\<lparr>rr_input_gate := g\<rparr>)
              | (Inr _, g) \<Rightarrow>
                  release_pressed P (reset_motion (r\<lparr>rr_input_gate := g, rr_active_session := None,
                    rr_active_display := None, rr_last_activity_ms := None\<rparr>)))
           else release_pressed P r)
      | _ \<Rightarrow> (Inr (), r))"

fun report_applied :: "u64 \<Rightarrow> control_frame option \<Rightarrow> control_frame option" where
  "report_applied applied (Some (Pong session pong_sequence _)) = Some (Pong session pong_sequence applied)"
| "report_applied applied response = response"

fun renews_lease :: "control_frame \<Rightarrow> bool" where
  "renews_lease (Ping _ _) = True"
| "renews_lease (Commit _ _) = True"
| "renews_lease _ = False"

fun is_commit :: "control_frame \<Rightarrow> bool" where
  "is_commit (Commit _ _) = True"
| "is_commit _ = False"

text \<open>The part of \<open>handle_control_at\<close> after the handshake has answered.\<close>

definition after_handshake ::
  "'i injector_port \<Rightarrow> control_frame \<Rightarrow> control_frame option \<Rightarrow> u64 \<Rightarrow> 'i receiver_runtime
     \<Rightarrow> (session_runtime_error, control_frame option) result \<times> 'i receiver_runtime" where
  "after_handshake P frame response now_ms r =
     (case accept_commit response now_ms r of
        (Inl e, r1) \<Rightarrow> (Inl e, r1)
      | (Inr _, r1) \<Rightarrow>
          (case end_session_frame P frame r1 of
             (Inl e, r2) \<Rightarrow> (Inl e, r2)
           | (Inr _, r2) \<Rightarrow>
               (Inr (report_applied (rr_highest_applied_sequence r2) response),
                if rr_active_session r2 \<noteq> None \<and> renews_lease frame
                then r2\<lparr>rr_last_activity_ms := Some now_ms\<rparr> else r2)))"

definition bound_control ::
  "'i injector_port \<Rightarrow> control_frame \<Rightarrow> authenticated_peer \<Rightarrow> u64 \<Rightarrow> 'i receiver_runtime
     \<Rightarrow> (session_runtime_error, control_frame option) result \<times> 'i receiver_runtime" where
  "bound_control P frame peer now_ms r =
     (if rr_binding r \<noteq> Some peer then (Inl WrongConnection, r)
      else if rr_active_session r = None \<and> is_commit frame \<and> rr_prepared_display r = None
      then (Inl (ProtocolError (InvalidField ''layout_revision'')), r)
      else case prepare_display P frame r of
        (Inl e, r1) \<Rightarrow> (Inl e, r1)
      | (Inr _, r1) \<Rightarrow>
          (case rr_handshake r1 of
             None \<Rightarrow> (Inl WrongConnection, r1)
           | Some handshake \<Rightarrow>
               (case receiver_handle frame handshake of
                  (Inl e, h) \<Rightarrow> (Inl (ProtocolError e), r1\<lparr>rr_handshake := Some h\<rparr>)
                | (Inr response, h) \<Rightarrow>
                    after_handshake P frame response now_ms (r1\<lparr>rr_handshake := Some h\<rparr>))))"

fun controller_hello :: "control_frame \<Rightarrow> string option" where
  "controller_hello (Hello boot peer_id role capabilities) = (if role = RoleController then Some peer_id else None)"
| "controller_hello _ = None"

definition handle_control_at ::
  "'i injector_port \<Rightarrow> control_frame \<Rightarrow> authenticated_peer \<Rightarrow> u64 \<Rightarrow> 'i receiver_runtime
     \<Rightarrow> (session_runtime_error, control_frame option) result \<times> 'i receiver_runtime" where
  "handle_control_at P frame peer now_ms r =
     (if ap_role peer \<noteq> PeerController then (Inl WrongRoleError, r)
      else case controller_hello frame of
        Some peer_id \<Rightarrow> hello_connection P frame peer_id peer r
      | None \<Rightarrow> bound_control P frame peer now_ms r)"

section \<open>Layout changes, leases and closed streams\<close>

definition update_display_layouts ::
  "'i injector_port \<Rightarrow> display_layout list \<Rightarrow> 'i receiver_runtime
     \<Rightarrow> (session_runtime_error, bool) result \<times> 'i receiver_runtime" where
  "update_display_layouts P display_layouts r =
     (let active_is_current = (case rr_active_display r of None \<Rightarrow> True | Some d \<Rightarrow> d \<in> set display_layouts);
          prepared_is_current = (case rr_prepared_display r of None \<Rightarrow> True | Some d \<Rightarrow> d \<in> set display_layouts);
          r1 = r\<lparr>rr_display_layouts := display_layouts\<rparr>;
          r2 = (if prepared_is_current then r1 else r1\<lparr>rr_prepared_display := None\<rparr>)
      in if active_is_current then (Inr False, r2)
         else
           (let r3 = (case rr_active_session r2 of None \<Rightarrow> r2 | Some session_id \<Rightarrow> close_session session_id r2);
                r4 = (reset_motion (r3\<lparr>rr_active_display := None, rr_last_activity_ms := None\<rparr>))
                  \<lparr>rr_last_fault := Some FaultLayoutChanged\<rparr>;
                (res, r5) = release_pressed P r4
            in (map_sum id (\<lambda>_. True) res, r5)))"

definition update_modifier_mapping ::
  "bool \<Rightarrow> string \<Rightarrow> string \<Rightarrow> string \<Rightarrow> 'i receiver_runtime \<Rightarrow> 'i receiver_runtime" where
  "update_modifier_mapping enabled control alt meta r =
     r\<lparr>rr_modifier_remap := enabled, rr_modifier_control := control, rr_modifier_alt := alt,
       rr_modifier_meta := meta\<rparr>"

definition lose_session ::
  "'i injector_port \<Rightarrow> session_fault \<Rightarrow> session_id \<Rightarrow> 'i receiver_runtime
     \<Rightarrow> (session_runtime_error, bool) result \<times> 'i receiver_runtime" where
  "lose_session P fault session_id r =
     (let (res, r1) = release_pressed P
            ((reset_motion ((close_session session_id r)\<lparr>rr_last_activity_ms := None\<rparr>))
               \<lparr>rr_last_fault := Some fault\<rparr>)
      in (map_sum id (\<lambda>_. True) res, r1))"

definition expire_if_needed ::
  "'i injector_port \<Rightarrow> u64 \<Rightarrow> 'i receiver_runtime
     \<Rightarrow> (session_runtime_error, bool) result \<times> 'i receiver_runtime" where
  "expire_if_needed P now_ms r =
     (case (rr_active_session r, rr_last_activity_ms r) of
        (Some session_id, Some last_activity_ms) \<Rightarrow>
          (if saturating_sub now_ms last_activity_ms < INPUT_LEASE_TIMEOUT_MS then (Inr False, r)
           else lose_session P FaultLeaseExpired session_id r)
      | _ \<Rightarrow> (Inr False, r))"

definition input_stream_closed ::
  "'i injector_port \<Rightarrow> authenticated_peer \<Rightarrow> 'i receiver_runtime
     \<Rightarrow> (session_runtime_error, bool) result \<times> 'i receiver_runtime" where
  "input_stream_closed P peer r =
     (if rr_binding r \<noteq> Some peer then (Inr False, r)
      else case rr_active_session r of
        None \<Rightarrow> (Inr False, r)
      | Some session_id \<Rightarrow> lose_session P FaultInputStreamClosed session_id r)"

definition runtime_health :: "'i receiver_runtime \<Rightarrow> session_health" where
  "runtime_health r =
     \<lparr>sh_active = (rr_active_session r \<noteq> None),
      sh_highest_applied_sequence = rr_highest_applied_sequence r,
      sh_last_fault = rr_last_fault r\<rparr>"

end
