(* ===== verification/Receiver_Safety.thy ===== *)
theory Receiver_Safety
  imports Receiver_Session
begin

text \<open>
  What the receiver runtime guarantees, over any injector that satisfies
  \<open>injector_contract\<close>.  \<open>os_held\<close> is what the operating system holds down after the
  commands the platform accepted.  The invariant says that it is always covered by the
  ledger, exactly the ledger while a session is active, and that an active session agrees
  with the handshake, the input gate and the bound connection.
\<close>

section \<open>The operating system after a sequence of commands\<close>

fun os_apply :: "input_command \<Rightarrow> os_input \<Rightarrow> os_input" where
  "os_apply (IC_Key k down) (K, B) = (if down then insert k K else K - {k}, B)"
| "os_apply (IC_MouseButton b down x y) (K, B) = (K, if down then insert b B else B - {b})"
| "os_apply IC_ReleaseAll (K, B) = ({}, {})"
| "os_apply _ (K, B) = (K, B)"

definition os_held :: "input_command list \<Rightarrow> os_input" where
  "os_held cmds = fold os_apply cmds ({}, {})"

definition os_le :: "os_input \<Rightarrow> os_input \<Rightarrow> bool" where
  "os_le a b \<longleftrightarrow> fst a \<subseteq> fst b \<and> snd a \<subseteq> snd b"

lemma os_le_refl [simp]: "os_le a a"
  by (simp add: os_le_def)

lemma os_le_trans: "os_le a b \<Longrightarrow> os_le b c \<Longrightarrow> os_le a c"
  by (auto simp: os_le_def)

lemma os_le_empty: "os_le a ({}, {}) \<longleftrightarrow> a = ({}, {})"
  by (cases a) (simp add: os_le_def)

lemma os_apply_mono: "os_le a b \<Longrightarrow> os_le (os_apply c a) (os_apply c b)"
  by (cases a; cases b; cases c) (auto simp: os_le_def)

lemma os_fold_mono: "os_le a b \<Longrightarrow> os_le (fold os_apply cs a) (fold os_apply cs b)"
  by (induction cs arbitrary: a b) (simp_all add: os_apply_mono)

lemma os_step_apply: "os_step c os = Some os' \<Longrightarrow> os_apply c os = os'"
  by (cases os; cases c) (auto split: if_splits)

lemma os_run_fold: "os_run cs os = Some os' \<Longrightarrow> fold os_apply cs os = os'"
proof (induction cs arbitrary: os)
  case (Cons c cs)
  then show ?case by (cases "os_step c os") (auto dest: os_step_apply)
qed simp

fun is_release :: "input_command \<Rightarrow> bool" where
  "is_release (IC_Key k down) = (\<not> down)"
| "is_release (IC_MouseButton b down x y) = (\<not> down)"
| "is_release IC_ReleaseAll = True"
| "is_release _ = False"

fun is_neutral :: "input_command \<Rightarrow> bool" where
  "is_neutral (IC_MouseMove x y drag) = True"
| "is_neutral (IC_Scroll dx dy) = True"
| "is_neutral _ = False"

lemma os_apply_release: "is_release c \<Longrightarrow> os_le (os_apply c a) a"
  by (cases a; cases c) (auto simp: os_le_def)

lemma os_apply_neutral [simp]: "is_neutral c \<Longrightarrow> os_apply c a = a"
  by (cases a; cases c) auto

lemma os_fold_release: "\<forall>c \<in> set cs. is_release c \<Longrightarrow> os_le (fold os_apply cs a) a"
proof (induction cs arbitrary: a)
  case (Cons c cs)
  then have "os_le (fold os_apply cs (os_apply c a)) (os_apply c a)" "os_le (os_apply c a) a"
    by (simp_all add: os_apply_release)
  then show ?case by (auto intro: os_le_trans)
qed simp

lemma os_fold_neutral: "\<forall>c \<in> set cs. is_neutral c \<Longrightarrow> fold os_apply cs a = a"
  by (induction cs arbitrary: a) auto

lemma release_keys_release: "c \<in> set (release_keys ks) \<Longrightarrow> is_release c"
  by (induction ks) (auto split: if_splits)

lemma release_all_release: "release_all s = (s', cs) \<Longrightarrow> \<forall>c \<in> set cs. is_release c"
  by (auto simp: release_all_def dest: release_keys_release)

section \<open>The ledger covers the operating system\<close>

text \<open>\<open>posted\<close> is the sequence of commands the platform accepted, as in \<open>injector_contract\<close>.\<close>

definition covered :: "('i \<Rightarrow> input_command list) \<Rightarrow> 'i receiver_runtime \<Rightarrow> bool" where
  "covered posted r \<longleftrightarrow> wf_pressed (rr_pressed r)
     \<and> os_le (os_held (posted (rr_injector r))) (pressed_abs (rr_pressed r))"

definition exact :: "('i \<Rightarrow> input_command list) \<Rightarrow> 'i receiver_runtime \<Rightarrow> bool" where
  "exact posted r \<longleftrightarrow> wf_pressed (rr_pressed r)
     \<and> os_held (posted (rr_injector r)) = pressed_abs (rr_pressed r)"

lemma exact_covered: "exact posted r \<Longrightarrow> covered posted r"
  by (simp add: exact_def covered_def)

section \<open>The runtime invariant\<close>

definition active_agrees :: "session_id \<Rightarrow> 'i receiver_runtime \<Rightarrow> bool" where
  "active_agrees s r \<longleftrightarrow>
     (\<exists>h. rr_handshake r = Some h \<and> rh_state h = RActive s) \<and>
     (\<exists>n. ig_active (rr_input_gate r) = Some (s, n) \<and> unat n = unat (rr_highest_applied_sequence r) + 1) \<and>
     rr_active_display r \<noteq> None \<and> rr_last_activity_ms r \<noteq> None \<and> rr_binding r \<noteq> None \<and>
     receiver_boot s = rr_local_boot r \<and>
     (\<forall>f. rr_pending_motion r = Some f \<longrightarrow> mf_session_id f = s)"

definition boots_agree :: "'i receiver_runtime \<Rightarrow> bool" where
  "boots_agree r \<longleftrightarrow>
     ig_local_boot (rr_input_gate r) = rr_local_boot r \<and>
     (\<forall>h. rr_handshake r = Some h \<longrightarrow> rh_local_boot h = rr_local_boot r) \<and>
     (\<forall>p. rr_binding r = Some p \<longrightarrow> ap_role p = PeerController)"

definition session_agrees :: "'i receiver_runtime \<Rightarrow> bool" where
  "session_agrees r \<longleftrightarrow> boots_agree r \<and>
     (case rr_active_session r of
        None \<Rightarrow> ig_active (rr_input_gate r) = None \<and> rr_pending_motion r = None
      | Some s \<Rightarrow> active_agrees s r)"

definition runtime_inv :: "('i \<Rightarrow> input_command list) \<Rightarrow> 'i receiver_runtime \<Rightarrow> bool" where
  "runtime_inv posted r \<longleftrightarrow> session_agrees r \<and> covered posted r
     \<and> (rr_active_session r \<noteq> None \<longrightarrow> exact posted r)"

lemmas agree_defs = session_agrees_def active_agrees_def boots_agree_def

lemma runtime_inv_inactive:
  "rr_active_session r = None \<Longrightarrow> runtime_inv posted r \<longleftrightarrow> session_agrees r \<and> covered posted r"
  by (simp add: runtime_inv_def)

lemma agrees_injector [simp]:
  "session_agrees (r\<lparr>rr_injector := i, rr_pressed := p, rr_last_fault := flt\<rparr>) = session_agrees r"
  "session_agrees (r\<lparr>rr_injector := i\<rparr>) = session_agrees r"
  "session_agrees (r\<lparr>rr_pressed := p\<rparr>) = session_agrees r"
  "session_agrees (r\<lparr>rr_last_fault := flt\<rparr>) = session_agrees r"
  "session_agrees (r\<lparr>rr_highest_motion_sequence := m\<rparr>) = session_agrees r"
  by (simp_all add: agree_defs split: option.splits)

lemma abort_active_boot [simp]: "rh_local_boot (snd (abort_active s h)) = rh_local_boot h"
  by (auto simp: abort_active_def split: receiver_state.splits)

lemma input_gate_end_boot [simp]: "ig_local_boot (snd (input_gate_end s g)) = ig_local_boot g"
  by (auto simp: input_gate_end_def split: option.splits)

text \<open>Closing the active session, with the fields every caller resets.\<close>

lemma close_agrees:
  assumes "boots_agree r" and "ig_active (rr_input_gate r) = Some (s, n)"
  shows "session_agrees (reset_motion ((close_session s r)\<lparr>rr_active_display := d, rr_last_activity_ms := None\<rparr>))"
    and "session_agrees (reset_motion ((close_session s r)\<lparr>rr_last_activity_ms := None\<rparr>))"
  using assms
  by (auto simp: agree_defs close_session_def reset_motion_def input_gate_end_def)

lemma active_gate:
  assumes "session_agrees r" and "rr_active_session r = Some s"
  obtains n where "ig_active (rr_input_gate r) = Some (s, n)" and "boots_agree r" and "active_agrees s r"
  using assms by (auto simp: session_agrees_def active_agrees_def)

lemma close_frame [simp]:
  "rr_active_session (close_session s r) = None" "rr_pressed (close_session s r) = rr_pressed r"
  "rr_injector (close_session s r) = rr_injector r"
  "rr_active_session (reset_motion r) = rr_active_session r" "rr_pressed (reset_motion r) = rr_pressed r"
  "rr_injector (reset_motion r) = rr_injector r"
  by (simp_all add: close_session_def reset_motion_def)

lemma covered_frame [simp]:
  "covered posted (reset_motion r) = covered posted r" "covered posted (close_session s r) = covered posted r"
  "covered posted (r\<lparr>rr_last_activity_ms := a\<rparr>) = covered posted r"
  "covered posted (r\<lparr>rr_active_display := d\<rparr>) = covered posted r"
  "covered posted (r\<lparr>rr_last_fault := flt\<rparr>) = covered posted r"
  by (simp_all add: covered_def)

text \<open>Nothing is held any more, or the failed release is on record.\<close>

definition released :: "('i \<Rightarrow> input_command list) \<Rightarrow> 'i receiver_runtime \<Rightarrow> bool" where
  "released posted r \<longleftrightarrow> os_held (posted (rr_injector r)) = ({}, {})
     \<or> (\<exists>e. rr_last_fault r = Some (FaultReleaseFailed e))"

text \<open>The invariant holds after a step, and a session that ended was released.\<close>

definition safe_step ::
  "('i \<Rightarrow> input_command list) \<Rightarrow> 'i receiver_runtime \<Rightarrow> 'i receiver_runtime \<Rightarrow> bool" where
  "safe_step posted r r' \<longleftrightarrow> runtime_inv posted r'
     \<and> (rr_active_session r \<noteq> None \<longrightarrow> rr_active_session r' = None \<longrightarrow> released posted r')"

lemma safe_step_refl: "runtime_inv posted r \<Longrightarrow> safe_step posted r r"
  and safe_step_keeps: "runtime_inv posted r' \<Longrightarrow> rr_active_session r' = rr_active_session r \<Longrightarrow> safe_step posted r r'"
  and safe_step_inactive: "runtime_inv posted r' \<Longrightarrow> rr_active_session r = None \<Longrightarrow> safe_step posted r r'"
  and safe_step_released: "runtime_inv posted r' \<Longrightarrow> released posted r' \<Longrightarrow> safe_step posted r r'"
  and safe_step_active: "safe_step posted q r' \<Longrightarrow> rr_active_session q = rr_active_session r \<Longrightarrow> safe_step posted r r'"
  by (auto simp: safe_step_def)

section \<open>Submitting through the port\<close>

context injector_contract begin

lemma submit_each_posted:
  assumes "submit_each P cs i = (errs, i')"
  shows "\<exists>sub. posted i' = posted i @ sub \<and> set sub \<subseteq> set cs \<and> (errs = [] \<longrightarrow> sub = cs)"
  using assms
proof (induction cs arbitrary: i errs i')
  case (Cons c cs)
  obtain res i1 where one: "submit_ready P c i = (res, i1)" by fastforce
  obtain errs2 i2 where rest: "submit_each P cs i1 = (errs2, i2)" by fastforce
  from Cons.IH [OF rest] obtain sub where sub: "posted i2 = posted i1 @ sub" "set sub \<subseteq> set cs"
    "errs2 = [] \<longrightarrow> sub = cs" by blast
  from Cons.prems one rest have i': "i' = i2" by (simp split: sum.splits)
  show ?case
  proof (cases res)
    case (Inl e)
    with submit_ready_err one sub i' Cons.prems rest have "posted i' = posted i @ sub" "errs \<noteq> []"
      by auto
    with sub(2) show ?thesis by (intro exI [of _ sub]) auto
  next
    case (Inr u)
    with submit_ready_ok one sub i' Cons.prems rest have "posted i' = posted i @ c # sub" "errs = errs2"
      by auto
    with sub(2,3) show ?thesis by (intro exI [of _ "c # sub"]) auto
  qed
qed simp

lemma submit_all_posted:
  assumes "submit_all P cs i = (res, i')"
  shows "\<exists>k. posted i' = posted i @ take k cs \<and> (is_ok res \<longrightarrow> take k cs = cs)
    \<and> (\<not> is_ok res \<longrightarrow> k < length cs)"
  using assms
proof (induction cs arbitrary: i i')
  case (Cons c cs)
  obtain res1 i1 where one: "submit_ready P c i = (res1, i1)" by fastforce
  show ?case
  proof (cases res1)
    case (Inl e)
    with one Cons.prems submit_ready_err [of c i e i1] show ?thesis by (intro exI [of _ 0]) auto
  next
    case (Inr u)
    with one Cons.prems have "submit_all P cs i1 = (res, i')" by simp
    from Cons.IH [OF this] obtain k where k: "posted i' = posted i1 @ take k cs" "is_ok res \<longrightarrow> take k cs = cs"
      "\<not> is_ok res \<longrightarrow> k < length cs" by blast
    from submit_ready_ok one Inr have "posted i1 = posted i @ [c]" by blast
    with k show ?thesis by (intro exI [of _ "Suc k"]) auto
  qed
qed auto

text \<open>
  \<open>release_pressed\<close> touches the ledger, the injector and the fault only.  When it succeeds
  the ledger is empty and the operating system holds nothing; when it fails the ledger
  still covers what is held.
\<close>

lemma release_pressed_result:
  assumes "release_pressed P r = (res, r')" and "covered posted r"
  shows "covered posted r'"
    and "is_ok res \<Longrightarrow> rr_pressed r' = pressed_default \<and> os_held (posted (rr_injector r')) = ({}, {})"
    and "\<exists>i p flt. r' = r\<lparr>rr_injector := i, rr_pressed := p, rr_last_fault := flt\<rparr>"
    and "\<not> is_ok res \<Longrightarrow> \<exists>e. rr_last_fault r' = Some (FaultReleaseFailed e)"
proof -
  obtain p cs where rel: "release_all (rr_pressed r) = (p, cs)" by fastforce
  obtain errs i where sub: "submit_each P cs (rr_injector r) = (errs, i)" by fastforce
  from submit_each_posted [OF sub] obtain sent where sent: "posted i = posted (rr_injector r) @ sent"
    "set sent \<subseteq> set cs" "errs = [] \<longrightarrow> sent = cs" by blast
  have wf: "wf_pressed (rr_pressed r)"
    and le: "os_le (os_held (posted (rr_injector r))) (pressed_abs (rr_pressed r))"
    using assms(2) by (simp_all add: covered_def)
  note all = release_all_refines [OF wf rel]
  have held: "os_held (posted i) = fold os_apply sent (os_held (posted (rr_injector r)))"
    by (simp add: os_held_def sent(1))
  have "\<forall>c \<in> set sent. is_release c" using release_all_release [OF rel] sent(2) by blast
  from os_fold_release [OF this] le have still: "os_le (os_held (posted i)) (pressed_abs (rr_pressed r))"
    unfolding held by (blast intro: os_le_trans)
  have gone: "os_held (posted i) = ({}, {})" if "errs = []"
    using os_fold_mono [OF le, of cs] os_run_fold [OF all(1)] sent(3) held that
    by (simp add: os_le_empty)
  have out: "(res, r') = (case errs of [] \<Rightarrow> (Inr (), r\<lparr>rr_injector := i, rr_pressed := p\<rparr>)
      | e # _ \<Rightarrow> (Inl (InjectorError e), r\<lparr>rr_injector := i, rr_last_fault := Some (FaultReleaseFailed (last errs))\<rparr>))"
    using assms(1) by (cases errs) (simp_all add: release_pressed_def rel sub Let_def)
  show "covered posted r'"
    using out all(2) gone still wf by (cases errs) (simp_all add: covered_def)
  show "rr_pressed r' = pressed_default \<and> os_held (posted (rr_injector r')) = ({}, {})" if "is_ok res"
    using out all(2) gone that by (cases errs) simp_all
  show "\<exists>e. rr_last_fault r' = Some (FaultReleaseFailed e)" if "\<not> is_ok res"
    using out that by (cases errs) simp_all
  show "\<exists>i p flt. r' = r\<lparr>rr_injector := i, rr_pressed := p, rr_last_fault := flt\<rparr>"
  proof (cases errs)
    case Nil
    with out show ?thesis
      by (intro exI [of _ i] exI [of _ p] exI [of _ "rr_last_fault r"]) simp
  next
    case (Cons e es)
    with out show ?thesis
      by (intro exI [of _ i] exI [of _ "rr_pressed r"] exI [of _ "Some (FaultReleaseFailed (last errs))"]) simp
  qed
qed

lemma release_inv:
  assumes "release_pressed P r = (res, r')" and "runtime_inv posted r" and "rr_active_session r = None"
  shows "runtime_inv posted r'" and "rr_active_session r' = None" and "released posted r'"
    and "is_ok res \<Longrightarrow> rr_pressed r' = pressed_default \<and> os_held (posted (rr_injector r')) = ({}, {})"
proof -
  from assms(2) have cov: "covered posted r" by (simp add: runtime_inv_def)
  note rel = release_pressed_result [OF assms(1) cov]
  from rel(3) obtain i p flt where r': "r' = r\<lparr>rr_injector := i, rr_pressed := p, rr_last_fault := flt\<rparr>" by blast
  show "released posted r'" using rel(2,4) by (cases "is_ok res") (simp_all add: released_def)
  show act: "rr_active_session r' = None" using r' assms(3) by simp
  have "session_agrees r'" using assms(2) by (simp add: r' runtime_inv_def)
  with rel(1) act show "runtime_inv posted r'" by (simp add: runtime_inv_inactive)
  show "is_ok res \<Longrightarrow> rr_pressed r' = pressed_default \<and> os_held (posted (rr_injector r')) = ({}, {})"
    by (rule rel(2))
qed

lemma abort_inv:
  assumes "boots_agree r" and "covered posted r" and "ig_active (rr_input_gate r) = Some (s, n)"
  shows "runtime_inv posted (abort_after_injector_failure P s r)"
    and "rr_active_session (abort_after_injector_failure P s r) = None"
    and "released posted (abort_after_injector_failure P s r)"
proof -
  let ?r = "reset_motion ((close_session s r)\<lparr>rr_last_activity_ms := None\<rparr>)"
  obtain res r' where rel: "release_pressed P ?r = (res, r')" by fastforce
  have "runtime_inv posted ?r" using close_agrees(2) [OF assms(1,3)] assms(2) by (simp add: runtime_inv_inactive)
  from release_inv [OF rel this] rel
  show "runtime_inv posted (abort_after_injector_failure P s r)"
    and "rr_active_session (abort_after_injector_failure P s r) = None"
    and "released posted (abort_after_injector_failure P s r)"
    by (simp_all add: abort_after_injector_failure_def)
qed

lemma submit_neutral:
  assumes "submit_ready P c i = (res, i')" and "is_neutral c"
  shows "os_held (posted i') = os_held (posted i)"
  using assms submit_ready_ok submit_ready_err
  by (cases res) (force simp: os_held_def)+

lemma apply_motion_inv:
  assumes "apply_motion P f r = (res, r')" and "runtime_inv posted r" and "rr_active_session r = Some (mf_session_id f)"
  shows "safe_step posted r r'"
proof (cases "map_active_pointer r (mf_x f) (mf_y f)")
  case (Inl e)
  with assms show ?thesis by (simp add: apply_motion_def safe_step_refl)
next
  case (Inr xy)
  obtain x y where xy: "xy = (x, y)" by fastforce
  let ?p = "update_pointer x y (rr_pressed r)"
  obtain sent i where sub: "submit_ready P (IC_MouseMove x y (drag_button ?p)) (rr_injector r) = (sent, i)" by fastforce
  have held: "os_held (posted i) = os_held (posted (rr_injector r))" using submit_neutral [OF sub] by simp
  from assms(2,3) have agrees: "session_agrees r" and ex: "exact posted r" by (simp_all add: runtime_inv_def)
  show ?thesis
  proof (cases sent)
    case (Inl e)
    let ?r = "r\<lparr>rr_injector := i, rr_pressed := rr_pressed r, rr_last_fault := Some (FaultInjector e)\<rparr>"
    have "covered posted ?r" using exact_covered [OF ex] held by (simp add: covered_def)
    moreover obtain n where "ig_active (rr_input_gate r) = Some (mf_session_id f, n)" "boots_agree r"
      using active_gate [OF agrees assms(3)] by metis
    then have "ig_active (rr_input_gate ?r) = Some (mf_session_id f, n)" "boots_agree ?r"
      by (simp_all add: boots_agree_def)
    ultimately have "safe_step posted r (abort_after_injector_failure P (mf_session_id f) ?r)"
      by (intro safe_step_released abort_inv)
    with assms(1) Inl Inr xy sub show ?thesis by (simp add: apply_motion_def Let_def)
  next
    case ok: (Inr u)
    have "r' = r\<lparr>rr_injector := i, rr_pressed := ?p, rr_highest_motion_sequence := mf_sequence f\<rparr>"
      using assms(1) ok Inr xy sub by (simp add: apply_motion_def Let_def)
    with agrees ex held show ?thesis
      using assms(3)
      by (simp add: safe_step_def runtime_inv_def exact_def covered_def)
  qed
qed

lemma flush_inv:
  assumes "flush_pending_motion P r = (res, r')" and "runtime_inv posted r"
  shows "safe_step posted r r'"
proof (cases "rr_pending_motion r")
  case None
  with assms show ?thesis by (simp add: flush_pending_motion_def safe_step_refl)
next
  case (Some f)
  let ?r = "r\<lparr>rr_pending_motion := None\<rparr>"
  from assms(2) Some have act: "rr_active_session r = Some (mf_session_id f)"
    by (auto simp: runtime_inv_def agree_defs split: option.splits)
  have inv: "runtime_inv posted ?r"
    using assms(2) by (auto simp: runtime_inv_def agree_defs covered_def exact_def split: option.splits)
  show ?thesis
    using apply_motion_inv [OF _ inv] assms inv Some act safe_step_refl [OF assms(2)]
    by (auto simp: flush_pending_motion_def safe_step_def Let_def split: if_splits)
qed

lemma inv_activity:
  assumes "runtime_inv posted r" and "rr_active_session r = Some s"
  shows "runtime_inv posted (r\<lparr>rr_last_activity_ms := Some now\<rparr>)"
  using assms by (simp add: runtime_inv_def agree_defs covered_def exact_def)

lemma handle_motion_inv:
  assumes "handle_motion_at P f peer now r = (res, r')" and "runtime_inv posted r"
  shows "safe_step posted r r'"
proof (cases "rr_active_session r = Some (mf_session_id f)")
  case False
  with assms show ?thesis by (auto simp: handle_motion_at_def safe_step_refl split: if_splits)
next
  case True
  let ?r = "r\<lparr>rr_last_activity_ms := Some now\<rparr>"
  have inv: "runtime_inv posted ?r" using inv_activity [OF assms(2) True] .
  have pend: "runtime_inv posted (?r\<lparr>rr_pending_motion := Some f\<rparr>)"
    using inv True by (simp add: runtime_inv_def agree_defs covered_def exact_def)
  have act: "rr_active_session ?r = Some (mf_session_id f)" using True by simp
  obtain res2 r2 where app: "apply_motion P f ?r = (res2, r2)" by fastforce
  have "r' \<in> {r, ?r, ?r\<lparr>rr_pending_motion := Some f\<rparr>, r2}"
    using assms(1) app
    by (auto simp: handle_motion_at_def Let_def split: if_splits option.splits sum.splits)
  with assms(2) inv pend apply_motion_inv [OF app inv act] act show ?thesis by (auto simp: safe_step_def)
qed

lemma map_pointer_cong:
  "rr_active_display r2 = rr_active_display r \<Longrightarrow> map_active_pointer r2 = map_active_pointer r"
  by (intro ext) (simp add: map_active_pointer_def)

lemma map_event_pointer:
  assumes "map_event r ev = Inr mapped" and "critical_motion_snapshot ev = Some (n, x, y)"
  obtains px py where "map_active_pointer r x y = Inr (px, py)"
  using assms by (auto simp: map_event_def)

lemma pointer_commands_shape:
  assumes "map_event r ev = Inr mapped" and "rr_active_display r' = rr_active_display r"
  shows "\<exists>p cmds. pointer_commands ev r' = Inr (p, cmds) \<and> pressed_abs p = pressed_abs (rr_pressed r')
    \<and> wf_pressed p = wf_pressed (rr_pressed r') \<and> (\<forall>c \<in> set cmds. is_neutral c) \<and> length cmds \<le> 1"
proof (cases "critical_motion_snapshot ev")
  case (Some nxy)
  obtain n x y where nxy: "nxy = (n, x, y)" by (cases nxy)
  with Some map_event_pointer [OF assms(1)] obtain px py where "map_active_pointer r x y = Inr (px, py)" by metis
  with Some nxy map_pointer_cong [OF assms(2)] show ?thesis by (simp add: pointer_commands_def)
qed (simp add: pointer_commands_def)

lemma fallback_move_shape:
  assumes "map_event r ev = Inr mapped"
  shows "\<exists>out. fallback_move ev p2 r cs = Inr (cs @ out) \<and> (\<forall>c \<in> set out. is_neutral c)
      \<and> (cs \<noteq> [] \<longrightarrow> out = []) \<and> length out \<le> 1"
proof (cases "cs = [] \<and> critical_motion_snapshot ev \<noteq> None")
  case True
  then obtain n x y where snap: "critical_motion_snapshot ev = Some (n, x, y)" by auto
  with map_event_pointer [OF assms] obtain px py where "map_active_pointer r x y = Inr (px, py)" by metis
  with True snap show ?thesis by (simp add: fallback_move_def)
qed (auto simp: fallback_move_def split: option.split)

lemma map_event_scroll: "map_event r ev = Inr mapped \<Longrightarrow> is_scroll mapped = is_scroll ev"
  by (cases ev) (auto simp: map_event_def split: if_splits)

lemma pressed_apply_length: "length (snd (pressed_apply ev s)) \<le> 1"
  by (cases ev) (auto simp: apply_key_def apply_button_def Let_def split: option.splits)

text \<open>The commands of one accepted event: a failing prefix of them changes nothing.\<close>

lemma accepted_commands:
  assumes "map_event r ev = Inr mapped" and "rr_active_display r' = rr_active_display r"
    and "wf_pressed (rr_pressed r')"
  obtains p1 cmds1 p2 cmds2 commands where "pointer_commands ev r' = Inr (p1, cmds1)"
    and "pressed_apply mapped p1 = (p2, cmds2)"
    and "\<And>r2. rr_active_display r2 = rr_active_display r \<Longrightarrow> fallback_move ev p2 r2 (cmds1 @ cmds2) = Inr commands"
    and "wf_pressed p2" and "fold os_apply commands (pressed_abs (rr_pressed r')) = pressed_abs p2"
    and "\<And>k a. k < length commands \<Longrightarrow> fold os_apply (take k commands) a = a"
proof -
  obtain p1 cmds1 where ptr: "pointer_commands ev r' = Inr (p1, cmds1)"
    "pressed_abs p1 = pressed_abs (rr_pressed r')" "wf_pressed p1 = wf_pressed (rr_pressed r')"
    "\<forall>c \<in> set cmds1. is_neutral c" "length cmds1 \<le> 1"
    using pointer_commands_shape [OF assms(1,2)] by blast
  obtain p2 cmds2 where app: "pressed_apply mapped p1 = (p2, cmds2)" by fastforce
  obtain out where out: "fallback_move ev p2 r (cmds1 @ cmds2) = Inr ((cmds1 @ cmds2) @ out)"
    "\<forall>c \<in> set out. is_neutral c" "cmds1 @ cmds2 \<noteq> [] \<longrightarrow> out = []" "length out \<le> 1"
    using fallback_move_shape [OF assms(1)] by blast
  have wf1: "wf_pressed p1" using ptr(3) assms(3) by simp
  have fold2: "fold os_apply cmds2 (pressed_abs p1) = pressed_abs p2"
    by (rule os_run_fold [OF pressed_apply_refines [OF wf1 app]])
  have len2: "length cmds2 \<le> 1" using pressed_apply_length [of mapped p1] app by simp
  have prefix: "fold os_apply (take k ((cmds1 @ cmds2) @ out)) a = a"
    if k: "k < length ((cmds1 @ cmds2) @ out)" for k a
  proof (cases "cmds1 = []")
    case True
    with k len2 out(3,4) have "k = 0" by (cases "cmds2 = []") auto
    then show ?thesis by simp
  next
    case False
    with out(3) have "out = []" by simp
    with k len2 ptr(5) False have "set (take k ((cmds1 @ cmds2) @ out)) \<subseteq> set cmds1"
      by (cases cmds1) (auto simp: take_Cons' split: if_splits)
    with ptr(4) show ?thesis by (intro os_fold_neutral) blast
  qed
  show thesis
  proof (rule that [OF ptr(1) app])
    show "fallback_move ev p2 r2 (cmds1 @ cmds2) = Inr ((cmds1 @ cmds2) @ out)"
      if "rr_active_display r2 = rr_active_display r" for r2
      using out(1) by (simp only: fallback_move_def map_pointer_cong [OF that])
    show "wf_pressed p2" using pressed_apply_wf [OF wf1 app] .
    show "fold os_apply ((cmds1 @ cmds2) @ out) (pressed_abs (rr_pressed r')) = pressed_abs p2"
      using fold2 os_fold_neutral [OF ptr(4)] os_fold_neutral [OF out(2)] ptr(2) by simp
  qed (rule prefix)
qed

text \<open>One accepted input event, from the state whose gate has just moved on.\<close>

lemma apply_accepted_inv:
  assumes inv: "runtime_inv posted r" and acc: "input_gate_accept frame (rr_input_gate r) = (Inr u, g)"
    and map: "map_event r (cf_event frame) = Inr mapped"
    and step: "apply_accepted P frame mapped now (r\<lparr>rr_input_gate := g\<rparr>) = (res, r')"
  shows "safe_step posted r r'"
proof -
  from gate_accept_InrD [OF acc] have gate: "ig_active (rr_input_gate r) = Some (cf_session_id frame, cf_sequence frame)"
    and g: "g = (rr_input_gate r)\<lparr>ig_active := Some (cf_session_id frame, cf_sequence frame + 1)\<rparr>"
    and add: "checked_add (cf_sequence frame) 1 = Some (cf_sequence frame + 1)" by auto
  from inv gate have act: "rr_active_session r = Some (cf_session_id frame)"
    by (auto simp: runtime_inv_def agree_defs split: option.splits)
  let ?r0 = "r\<lparr>rr_input_gate := g\<rparr>"
  from inv act have ex: "exact posted r" and agrees: "session_agrees r" by (simp_all add: runtime_inv_def)
  then have wf: "wf_pressed (rr_pressed ?r0)" by (simp add: exact_def)
  have disp: "rr_active_display ?r0 = rr_active_display r" by simp
  obtain p1 cmds1 p2 cmds2 commands where ptr: "pointer_commands (cf_event frame) ?r0 = Inr (p1, cmds1)"
    and app: "pressed_apply mapped p1 = (p2, cmds2)"
    and fall: "\<And>r2 :: 'i receiver_runtime. rr_active_display r2 = rr_active_display r \<Longrightarrow>
      fallback_move (cf_event frame) p2 r2 (cmds1 @ cmds2) = Inr commands"
    and wf2: "wf_pressed p2" and effect: "fold os_apply commands (pressed_abs (rr_pressed ?r0)) = pressed_abs p2"
    and prefix: "\<And>k a. k < length commands \<Longrightarrow> fold os_apply (take k commands) a = a"
    by (rule accepted_commands [OF map disp wf]) (rule that; blast)
  from agrees act have agree: "active_agrees (cf_session_id frame) r" and boots: "boots_agree r"
    by (simp_all add: session_agrees_def)
  from agree gate have seq: "unat (cf_sequence frame) = unat (rr_highest_applied_sequence r) + 1"
    by (auto simp: active_agrees_def)
  from checked_add_unat [OF add] have seq': "unat (cf_sequence frame + 1) = unat (cf_sequence frame) + 1"
    by simp
  define rest where "rest i = r\<lparr>rr_input_gate := g, rr_pressed := p2, rr_injector := i,
     rr_highest_applied_sequence := cf_sequence frame,
     rr_highest_motion_sequence := seen_motion (cf_event frame) (rr_highest_motion_sequence r),
     rr_last_activity_ms := Some now\<rparr>" for i
  obtain sent i where sub: "submit_all P commands (rr_injector r) = (sent, i)" by fastforce
  from submit_all_posted [OF sub] obtain k where k: "posted i = posted (rr_injector r) @ take k commands"
    "is_ok sent \<longrightarrow> take k commands = commands" "\<not> is_ok sent \<longrightarrow> k < length commands" by blast
  have held: "os_held (posted i) = fold os_apply (take k commands) (pressed_abs (rr_pressed r))"
    using ex k(1) by (simp add: os_held_def exact_def)
  have fall0: "fallback_move (cf_event frame) p2 (?r0\<lparr>rr_pressed := p2\<rparr>) (cmds1 @ cmds2) = Inr commands"
    by (rule fall) simp
  show ?thesis
  proof (cases sent)
    case (Inl e)
    let ?r = "?r0\<lparr>rr_pressed := rr_pressed r, rr_injector := i, rr_last_fault := Some (FaultInjector e)\<rparr>"
    have "os_held (posted i) = pressed_abs (rr_pressed r)" using held prefix k(3) Inl by simp
    with ex have "covered posted ?r" by (simp add: covered_def exact_def)
    moreover have "boots_agree ?r" "ig_active (rr_input_gate ?r) = Some (cf_session_id frame, cf_sequence frame + 1)"
      using boots by (simp_all add: boots_agree_def g)
    ultimately have "safe_step posted r (abort_after_injector_failure P (cf_session_id frame) ?r)"
      by (intro safe_step_released abort_inv)
    with step ptr app fall0 sub Inl show ?thesis by (simp add: apply_accepted_def Let_def)
  next
    case (Inr v)
    have flush: "flush_pending_motion P (rest i) = (res, r')"
      using step ptr app fall0 sub Inr by (simp add: apply_accepted_def rest_def Let_def)
    have "session_agrees (rest i)"
      using agree boots act seq' by (simp add: rest_def agree_defs g)
    moreover have "os_held (posted i) = pressed_abs p2" using held k(2) effect Inr by simp
    then have "exact posted (rest i)" using wf2 by (simp add: exact_def rest_def)
    ultimately have "runtime_inv posted (rest i)" by (simp add: runtime_inv_def exact_covered)
    from flush_inv [OF flush this] show ?thesis by (rule safe_step_active) (simp add: rest_def)
  qed
qed

lemma handle_input_inv:
  assumes "handle_input_at P frame peer now r = (res, r')" and "runtime_inv posted r"
  shows "safe_step posted r r'"
proof -
  obtain acc g where acc: "input_gate_accept frame (rr_input_gate r) = (acc, g)" by fastforce
  consider "r' = r" | e where "acc = Inl e" "r' = r\<lparr>rr_input_gate := g\<rparr>"
    | u mapped where "acc = Inr u" "map_event r (cf_event frame) = Inr mapped"
      "apply_accepted P frame mapped now (r\<lparr>rr_input_gate := g\<rparr>) = (res, r')"
    using assms(1) acc by (auto simp: handle_input_at_def split: if_splits sum.splits)
  then show ?thesis
  proof cases
    case (2 e)
    with acc gate_accept_InlD have "g = rr_input_gate r" by blast
    with 2 assms(2) show ?thesis by (simp add: safe_step_refl)
  next
    case (3 u mapped)
    with acc show ?thesis by (intro apply_accepted_inv [OF assms(2) _ 3(2,3)]) simp
  qed (use assms(2) in \<open>simp add: safe_step_refl\<close>)
qed

section \<open>Control frames keep the invariant\<close>

lemma hello_inv:
  assumes "hello_connection P frame peer_id peer r = (res, r')" and "runtime_inv posted r"
    and "ap_role peer = PeerController"
  shows "runtime_inv posted r'"
proof (cases "peer_id = ap_peer_id peer \<and> rr_active_session r = None")
  case False
  with assms(1,2) show ?thesis
    by (cases "peer_id = ap_peer_id peer") (auto simp: hello_connection_def)
next
  case True
  obtain res1 r1 where rel: "release_pressed P r = (res1, r1)" by fastforce
  note r1 = release_inv [OF rel assms(2)]
  show ?thesis
  proof (cases "\<exists>h response h'. is_ok res1 \<and> receiver_new (ap_peer_id peer) (rr_local_boot r1) = Inr h
      \<and> receiver_handle frame h = (Inr response, h')")
    case False
    with assms(1) rel True have "r' = r1"
      by (auto simp: hello_connection_def split: sum.splits prod.splits)
    with r1 True show ?thesis by simp
  next
    case ok: True
    then obtain h response h' where h: "receiver_new (ap_peer_id peer) (rr_local_boot r1) = Inr h"
      "receiver_handle frame h = (Inr response, h')" "is_ok res1" by blast
    from h(1) receiver_local_boot [OF h(2)] have boot: "rh_local_boot h' = rr_local_boot r1"
      by (auto simp: receiver_new_def)
    from r1 True have inv: "runtime_inv posted r1" and act: "rr_active_session r1 = None" by simp_all
    have "r' = (reset_motion (r1\<lparr>rr_binding := Some peer, rr_handshake := Some h',
        rr_highest_applied_sequence := 0\<rparr>))
      \<lparr>rr_prepared_display := None, rr_active_display := None, rr_last_activity_ms := None\<rparr>"
      using assms(1) True rel h by (cases res1) (simp_all add: hello_connection_def)
    with inv act boot assms(3) show ?thesis
      by (simp add: runtime_inv_def agree_defs reset_motion_def covered_def)
  qed
qed

lemma hello_safe:
  assumes "hello_connection P frame peer_id peer r = (res, r')" and "runtime_inv posted r"
    and "ap_role peer = PeerController"
  shows "safe_step posted r r'"
proof (cases "rr_active_session r")
  case None
  with hello_inv [OF assms] show ?thesis by (rule safe_step_inactive)
next
  case (Some s)
  with assms(1) have "r' = r" by (cases "peer_id = ap_peer_id peer") (auto simp: hello_connection_def)
  with assms(2) show ?thesis by (simp add: safe_step_refl)
qed

lemma inv_prepared:
  assumes "runtime_inv posted r"
  shows "runtime_inv posted (r\<lparr>rr_prepared_display := d\<rparr>)"
  using assms by (simp add: runtime_inv_def agree_defs covered_def exact_def split: option.splits)

lemma prepare_display_inv:
  assumes "prepare_display P frame r = (res, r')" and "runtime_inv posted r"
  shows "runtime_inv posted r' \<and> (\<exists>d. r' = r\<lparr>rr_prepared_display := d\<rparr>)"
proof -
  have "r' = r \<or> (\<exists>d. r' = r\<lparr>rr_prepared_display := d\<rparr>)"
    using assms(1)
    by (auto simp: prepare_display_def Let_def split: control_frame.splits sum.splits if_splits)
  moreover have "r = r\<lparr>rr_prepared_display := rr_prepared_display r\<rparr>" by simp
  ultimately have "\<exists>d. r' = r\<lparr>rr_prepared_display := d\<rparr>" by metis
  with inv_prepared [OF assms(2)] show ?thesis by auto
qed

text \<open>What a handshake answer leaves: the invariant, except that the handshake may have ended.\<close>

lemma receiver_stays_active:
  assumes "receiver_handle frame h = (res, h')" and "rh_state h = RActive s"
  shows "rh_state h' = RActive s \<or> (rh_state h' = REnded s \<and> (\<exists>reason. frame = EndSession s reason) \<and> res = Inr None)"
proof (cases "validate_frame frame")
  case (Inr u)
  with assms have "receiver_match (RActive s) frame h = (res, h')" by (simp add: receiver_handle_def)
  with assms(2) show ?thesis
    by (cases frame) (auto split: if_splits)
qed (use assms in \<open>simp add: receiver_handle_def\<close>)

lemma receiver_handle_InlD: "receiver_handle frame h = (Inl e, h') \<Longrightarrow> h' = h"
proof -
  assume step: "receiver_handle frame h = (Inl e, h')"
  show "h' = h"
  proof (cases "validate_frame frame")
    case (Inr u)
    with step have "receiver_match (rh_state h) frame h = (Inl e, h')" by (simp add: receiver_handle_def)
    then show ?thesis
      by (cases "(rh_state h, frame, h)" rule: receiver_match.cases)
        (auto simp: receiver_prepare_def receiver_commit_def split: if_splits)
  qed (use step in \<open>simp add: receiver_handle_def\<close>)
qed

lemma accept_commit_inv:
  assumes "accept_commit response now r = (res, r')" and "covered posted r" and "boots_agree r"
    and "rr_binding r \<noteq> None"
    and inactive: "rr_active_session r = None \<Longrightarrow> ig_active (rr_input_gate r) = None \<and> rr_pending_motion r = None"
    and ack: "\<And>s. response = Some (CommitAck s) \<Longrightarrow> (\<exists>h. rr_handshake r = Some h \<and> rh_state h = RActive s)
      \<and> (rr_active_session r = None \<longrightarrow> rr_prepared_display r \<noteq> None)"
    and active: "rr_active_session r \<noteq> None \<Longrightarrow> r' = r \<Longrightarrow> runtime_inv posted r"
  shows "runtime_inv posted r'"
proof (cases "rr_active_session r")
  case (Some s)
  with assms(1) have "r' = r" by (auto simp: accept_commit_def split: option.splits control_frame.splits if_splits)
  with active Some show ?thesis by simp
next
  case None
  have keep: "runtime_inv posted r" using None inactive assms(2,3) by (simp add: runtime_inv_def session_agrees_def)
  show ?thesis
  proof (cases "\<exists>s g. response = Some (CommitAck s) \<and> pressed_is_empty (rr_pressed r)
      \<and> input_gate_activate s (rr_input_gate r) = (Inr (), g)")
    case False
    have "g' = g" if "input_gate_activate s g = (Inl e, g')" for s g e g'
      using that by (auto simp: input_gate_activate_def split: sum.splits if_splits)
    with assms(1) None False have "r' = r"
      by (auto simp: accept_commit_def split: option.splits control_frame.splits if_splits sum.splits prod.splits)
    with keep show ?thesis by simp
  next
    case True
    then obtain s g where s: "response = Some (CommitAck s)" "pressed_is_empty (rr_pressed r)"
      and g: "input_gate_activate s (rr_input_gate r) = (Inr (), g)" by blast
    from g have g': "g = (rr_input_gate r)\<lparr>ig_active := Some (s, 1)\<rparr>"
      and boot: "receiver_boot s = ig_local_boot (rr_input_gate r)"
      by (auto simp: input_gate_activate_def split: sum.splits if_splits)
    have r': "r' = (reset_motion (r\<lparr>rr_input_gate := g, rr_active_session := Some s,
        rr_active_display := rr_prepared_display r, rr_prepared_display := None,
        rr_highest_applied_sequence := 0\<rparr>))
      \<lparr>rr_last_activity_ms := Some now, rr_last_fault := None\<rparr>"
      using assms(1) None s g by (simp add: accept_commit_def)
    have "pressed_abs (rr_pressed r) = ({}, {})" using s(2) by (simp add: pressed_abs_def pressed_is_empty_def)
    with assms(2) have "exact posted r'"
      by (simp add: r' exact_def covered_def os_le_empty reset_motion_def)
    moreover from ack [OF s(1)] None boot assms(3,4) have "session_agrees r'"
      by (simp add: r' agree_defs reset_motion_def g')
    ultimately show ?thesis by (simp add: runtime_inv_def exact_covered)
  qed
qed

lemma end_session_inv:
  assumes "end_session_frame P frame r = (res, r')" and "covered posted r" and "boots_agree r"
    and other: "\<And>s. rr_active_session r = Some s \<Longrightarrow> \<nexists>reason. frame = EndSession s reason \<Longrightarrow> runtime_inv posted r"
    and none: "rr_active_session r = None \<Longrightarrow> runtime_inv posted r"
    and gate: "\<And>s. rr_active_session r = Some s \<Longrightarrow> \<exists>n. ig_active (rr_input_gate r) = Some (s, n)"
    and only: "\<And>s s' reason. rr_active_session r = Some s \<Longrightarrow> frame = EndSession s' reason \<Longrightarrow> s' = s"
  shows "runtime_inv posted r' \<and> (rr_active_session r' \<noteq> rr_active_session r \<longrightarrow> released posted r')"
proof (cases "\<exists>s reason. frame = EndSession s reason")
  case False
  then have "r' = r" using assms(1) by (auto simp: end_session_frame_def split: control_frame.splits)
  with other none False show ?thesis by (cases "rr_active_session r") auto
next
  case True
  then obtain s reason where frame: "frame = EndSession s reason" by blast
  show ?thesis
  proof (cases "rr_active_session r")
    case None
    with assms(1) frame have "release_pressed P r = (res, r')" by (simp add: end_session_frame_def)
    with release_inv none None show ?thesis by auto
  next
    case (Some s')
    with only frame have s': "s' = s" by blast
    with gate Some obtain n where n: "ig_active (rr_input_gate r) = Some (s, n)" by blast
    let ?r = "reset_motion (r\<lparr>rr_input_gate := (rr_input_gate r)\<lparr>ig_active := None, ig_ended := Some s\<rparr>,
      rr_active_session := None, rr_active_display := None, rr_last_activity_ms := None\<rparr>)"
    have "release_pressed P ?r = (res, r')"
      using assms(1) frame Some s' n by (simp add: end_session_frame_def input_gate_end_def)
    moreover have "runtime_inv posted ?r"
      using assms(2,3) by (simp add: runtime_inv_def agree_defs reset_motion_def covered_def)
    ultimately show ?thesis using release_inv by simp
  qed
qed

lemma handshake_inv:
  assumes "runtime_inv posted r" and "rr_handshake r = Some h" and "receiver_handle frame h = (res, h')"
    and "rr_active_session r = None \<or> (\<nexists>s reason. frame = EndSession s reason)"
  shows "runtime_inv posted (r\<lparr>rr_handshake := Some h'\<rparr>)"
proof -
  have boot: "rh_local_boot h' = rh_local_boot h" using receiver_local_boot [OF assms(3)] by simp
  show ?thesis
  proof (cases "rr_active_session r")
    case None
    with assms(1,2) boot show ?thesis by (simp add: runtime_inv_def agree_defs covered_def)
  next
    case (Some s)
    with assms(1,2) have "rh_state h = RActive s" by (auto simp: runtime_inv_def agree_defs)
    from receiver_stays_active [OF assms(3) this] assms(4) Some have "rh_state h' = RActive s" by auto
    with assms(1,2) Some boot show ?thesis by (auto simp: runtime_inv_def agree_defs covered_def exact_def)
  qed
qed

lemma end_frame_session:
  assumes "receiver_handle (EndSession s' reason) h = (Inr response, h')" and "rh_state h = RActive s"
  shows "s' = s \<and> response = None"
  using assms by (auto simp: receiver_handle_def split: if_splits sum.splits)

lemma after_handshake_inv:
  assumes step: "after_handshake P frame response now r = (res, r')" and inv: "runtime_inv posted r0"
    and r: "r = r0\<lparr>rr_handshake := Some h'\<rparr>" and h: "rr_handshake r0 = Some h"
    and handle: "receiver_handle frame h = (Inr response, h')" and bound: "rr_binding r0 \<noteq> None"
    and prepared: "rr_active_session r0 = None \<Longrightarrow> is_commit frame \<Longrightarrow> rr_prepared_display r0 \<noteq> None"
  shows "safe_step posted r0 r'"
proof -
  obtain res1 r1 where acc: "accept_commit response now r = (res1, r1)" by fastforce
  obtain res2 r2 where fin: "end_session_frame P frame r1 = (res2, r2)" by fastforce
  have boots: "boots_agree r" and cov: "covered posted r"
    using inv h receiver_local_boot [OF handle]
    by (auto simp: r runtime_inv_def session_agrees_def boots_agree_def covered_def)
  have inactive: "runtime_inv posted r" if "rr_active_session r0 = None"
    using handshake_inv [OF inv h handle] that by (simp add: r)
  have still: "rr_active_session r1 = rr_active_session r0" if "rr_active_session r0 \<noteq> None"
    using acc that by (auto simp: accept_commit_def r split: option.splits control_frame.splits if_splits)
  have r2: "(\<not> is_ok res1 \<longrightarrow> safe_step posted r0 r1) \<and> (is_ok res1 \<longrightarrow> safe_step posted r0 r2)"
  proof (cases "\<exists>s reason. frame = EndSession s reason")
    case True
    then obtain s reason where frame: "frame = EndSession s reason" by blast
    have "response \<noteq> Some (CommitAck x)" for x
      using receiver_ack_active handle frame by blast
    then have r1: "r1 = r" "res1 = Inr ()" using acc by (auto simp: accept_commit_def split: option.splits control_frame.splits)
    show ?thesis
    proof (cases "rr_active_session r0")
      case None
      then have "runtime_inv posted r2" using end_session_inv [OF fin] cov boots inactive by (simp add: r1 r)
      with inactive None r1 show ?thesis by (simp add: safe_step_inactive)
    next
      case (Some s')
      with inv h have st: "rh_state h = RActive s'" by (auto simp: runtime_inv_def agree_defs)
      obtain n where n: "ig_active (rr_input_gate r0) = Some (s', n)"
        using inv Some by (auto simp: runtime_inv_def agree_defs)
      have ends: "s = s'" using end_frame_session handle st frame by blast
      have "runtime_inv posted r2 \<and> (rr_active_session r2 \<noteq> rr_active_session r1 \<longrightarrow> released posted r2)"
        using end_session_inv [OF fin] cov boots Some n ends frame by (simp add: r1 r)
      with r1 Some show ?thesis by (auto simp: safe_step_def r)
    qed
  next
    case False
    have r_inv: "runtime_inv posted r" using handshake_inv [OF inv h handle] False by (simp add: r)
    have "runtime_inv posted r1"
    proof (rule accept_commit_inv [OF acc cov boots])
      show "rr_binding r \<noteq> None" using bound by (simp add: r)
      show "ig_active (rr_input_gate r) = None \<and> rr_pending_motion r = None" if "rr_active_session r = None"
        using inv that by (simp add: r runtime_inv_def session_agrees_def)
      show "(\<exists>h. rr_handshake r = Some h \<and> rh_state h = RActive s)
          \<and> (rr_active_session r = None \<longrightarrow> rr_prepared_display r \<noteq> None)"
        if "response = Some (CommitAck s)" for s
        using receiver_ack_active [of frame h s h'] handle that prepared by (auto simp: r)
    qed (use r_inv in simp)
    moreover from this False fin have "r2 = r1" by (auto simp: end_session_frame_def split: control_frame.splits)
    ultimately show ?thesis using still
      by (cases "rr_active_session r0") (simp_all add: safe_step_inactive safe_step_keeps)
  qed
  from step acc fin have "(\<not> is_ok res1 \<and> r' = r1) \<or> (is_ok res1 \<and> r' = r2)
      \<or> (is_ok res1 \<and> r' = r2\<lparr>rr_last_activity_ms := Some now\<rparr> \<and> rr_active_session r2 \<noteq> None)"
    by (auto simp: after_handshake_def split: sum.splits prod.splits if_splits)
  with r2 inv_activity show ?thesis by (auto simp: safe_step_def)
qed

lemma bound_control_inv:
  assumes "bound_control P frame peer now r = (res, r')" and "runtime_inv posted r"
  shows "safe_step posted r r'"
proof -
  obtain res1 r1 where prep: "prepare_display P frame r = (res1, r1)" by fastforce
  from prepare_display_inv [OF prep assms(2)] have inv1: "runtime_inv posted r1"
    and r1: "\<exists>d. r1 = r\<lparr>rr_prepared_display := d\<rparr>" by simp_all
  have act1: "rr_active_session r1 = rr_active_session r" using r1 by auto
  have same: "r1 = r" if "is_commit frame"
    using prep that by (cases frame) (simp_all add: prepare_display_def)
  show ?thesis
  proof (cases "rr_binding r \<noteq> Some peer
      \<or> (rr_active_session r = None \<and> is_commit frame \<and> rr_prepared_display r = None)")
    case True
    with assms show ?thesis by (auto simp: bound_control_def safe_step_refl split: if_splits)
  next
    case guard: False
    show ?thesis
    proof (cases "is_ok res1 \<and> rr_handshake r1 \<noteq> None")
      case False
      with guard assms(1) prep have "r' = r1"
        by (cases res1) (auto simp: bound_control_def)
      with inv1 act1 show ?thesis by (simp add: safe_step_keeps)
    next
      case True
      then obtain h where h: "rr_handshake r1 = Some h" by blast
      obtain reply h' where handle: "receiver_handle frame h = (reply, h')" by fastforce
      have rest: "(case reply of Inl e \<Rightarrow> (Inl (ProtocolError e), r1\<lparr>rr_handshake := Some h'\<rparr>)
          | Inr response \<Rightarrow> after_handshake P frame response now (r1\<lparr>rr_handshake := Some h'\<rparr>)) = (res, r')"
        using guard assms(1) prep h handle True
        by (cases res1; cases reply) (auto simp: bound_control_def)
      show ?thesis
      proof (cases reply)
        case (Inl e)
        with receiver_handle_InlD handle have "h' = h" by blast
        with Inl rest have "r' = r1\<lparr>rr_handshake := Some h\<rparr>" by simp
        also have "\<dots> = r1" using h by (cases r1) simp
        finally have "r' = r1" .
        with inv1 act1 show ?thesis by (simp add: safe_step_keeps)
      next
        case (Inr response)
        have "rr_binding r1 \<noteq> None" using r1 guard by auto
        with guard same Inr rest handle act1 have "safe_step posted r1 r'"
          by (intro after_handshake_inv [OF _ inv1 refl h, of frame response now]) auto
        then show ?thesis by (rule safe_step_active) (rule act1)
      qed
    qed
  qed
qed

lemma handle_control_inv:
  assumes "handle_control_at P frame peer now r = (res, r')" and "runtime_inv posted r"
  shows "safe_step posted r r'"
  using assms bound_control_inv hello_safe safe_step_refl
  by (auto simp: handle_control_at_def split: if_splits option.splits)

section \<open>Losing a session\<close>

lemma lose_session_inv:
  assumes "lose_session P fault s r = (res, r')" and "runtime_inv posted r" and "rr_active_session r = Some s"
  shows "runtime_inv posted r'" and "rr_active_session r' = None" and "released posted r'"
    and "is_ok res \<Longrightarrow> rr_pressed r' = pressed_default \<and> os_held (posted (rr_injector r')) = ({}, {})"
proof -
  let ?r = "(reset_motion ((close_session s r)\<lparr>rr_last_activity_ms := None\<rparr>))\<lparr>rr_last_fault := Some fault\<rparr>"
  obtain res1 where rel: "release_pressed P ?r = (res1, r')" "is_ok res1 = is_ok res"
    using assms(1) by (cases "release_pressed P ?r"; cases "fst (release_pressed P ?r)") (auto simp: lose_session_def)
  obtain n where "ig_active (rr_input_gate r) = Some (s, n)" "boots_agree r"
    using active_gate assms(2,3) by (metis runtime_inv_def)
  from close_agrees(2) [OF this(2,1)] assms(2) have inv: "runtime_inv posted ?r"
    by (simp add: runtime_inv_def)
  have act: "rr_active_session ?r = None" by simp
  from release_inv [OF rel(1) inv act] rel(2)
  show "runtime_inv posted r'" and "rr_active_session r' = None" and "released posted r'"
    and "is_ok res \<Longrightarrow> rr_pressed r' = pressed_default \<and> os_held (posted (rr_injector r')) = ({}, {})"
    by simp_all
qed

lemma expire_inv:
  assumes "expire_if_needed P now r = (res, r')" and "runtime_inv posted r"
  shows "safe_step posted r r'"
  using assms lose_session_inv(1,3)
  by (auto simp: expire_if_needed_def safe_step_refl intro: safe_step_released split: option.splits if_splits)

lemma stream_closed_inv:
  assumes "input_stream_closed P peer r = (res, r')" and "runtime_inv posted r"
  shows "safe_step posted r r'"
  using assms lose_session_inv(1,3)
  by (auto simp: input_stream_closed_def safe_step_refl intro: safe_step_released split: option.splits if_splits)

lemma inv_layouts:
  "runtime_inv posted r \<Longrightarrow> runtime_inv posted (r\<lparr>rr_display_layouts := ls\<rparr>)"
  by (simp add: runtime_inv_def agree_defs covered_def exact_def split: option.splits)

lemma update_layouts_inv:
  assumes "update_display_layouts P layouts r = (res, r')" and "runtime_inv posted r"
  shows "safe_step posted r r'"
    and "res = Inr True \<Longrightarrow> rr_active_session r' = None
      \<and> rr_pressed r' = pressed_default \<and> os_held (posted (rr_injector r')) = ({}, {})"
proof -
  let ?prepared = "case rr_prepared_display r of None \<Rightarrow> True | Some d \<Rightarrow> d \<in> set layouts"
  define r2 where "r2 = (if ?prepared then r\<lparr>rr_display_layouts := layouts\<rparr>
    else (r\<lparr>rr_display_layouts := layouts\<rparr>)\<lparr>rr_prepared_display := None\<rparr>)"
  define r3 where "r3 = (case rr_active_session r2 of None \<Rightarrow> r2 | Some s \<Rightarrow> close_session s r2)"
  define r4 where "r4 = (reset_motion (r3\<lparr>rr_active_display := None, rr_last_activity_ms := None\<rparr>))
    \<lparr>rr_last_fault := Some FaultLayoutChanged\<rparr>"
  obtain res5 r5 where rel: "release_pressed P r4 = (res5, r5)" by fastforce
  have inv2: "runtime_inv posted r2" using inv_layouts inv_prepared assms(2) by (simp add: r2_def)
  have inv4: "runtime_inv posted r4" and act4: "rr_active_session r4 = None"
  proof -
    show act: "rr_active_session r4 = None" by (simp add: r4_def r3_def split: option.splits)
    have "session_agrees r4"
    proof (cases "rr_active_session r2")
      case None
      with inv2 show ?thesis
        by (simp add: r4_def r3_def runtime_inv_def agree_defs reset_motion_def)
    next
      case (Some s)
      obtain n where "ig_active (rr_input_gate r2) = Some (s, n)" "boots_agree r2"
        using active_gate inv2 Some by (metis runtime_inv_def)
      from close_agrees(1) [OF this(2,1), of None] Some show ?thesis by (simp add: r4_def r3_def)
    qed
    moreover have "covered posted r4" using inv2 by (simp add: r4_def r3_def runtime_inv_def split: option.splits)
    ultimately show "runtime_inv posted r4" using act by (simp add: runtime_inv_inactive)
  qed
  note rel5 = release_inv [OF rel inv4 act4]
  have "update_display_layouts P layouts r =
    (if (case rr_active_display r of None \<Rightarrow> True | Some d \<Rightarrow> d \<in> set layouts) then (Inr False, r2)
     else (map_sum id (\<lambda>_. True) res5, r5))"
    by (simp only: update_display_layouts_def Let_def r2_def [symmetric] r3_def [symmetric]
        r4_def [symmetric] rel prod.case)
  with assms(1) have out: "(res, r') = (Inr False, r2) \<or> (res, r') = (map_sum id (\<lambda>_. True) res5, r5)"
    by (simp split: if_splits)
  with inv2 rel5(1,3) show "safe_step posted r r'" by (auto simp: safe_step_def r2_def)
  show "rr_active_session r' = None \<and> rr_pressed r' = pressed_default
      \<and> os_held (posted (rr_injector r')) = ({}, {})" if "res = Inr True"
    using out rel5(2,4) that by (cases res5) auto
qed

lemma mapping_inv:
  "runtime_inv posted r \<Longrightarrow> runtime_inv posted (update_modifier_mapping e c a m r)"
  by (simp add: update_modifier_mapping_def runtime_inv_def agree_defs covered_def exact_def split: option.splits)

end

end
