(* ===== verification/Receiver_Properties.thy ===== *)
theory Receiver_Properties
  imports Receiver_Safety Session_Link
begin

text \<open>
  The receiver runtime as a transition system over all its operations, and its properties:
  the ledger equals what the operating system holds while a session is active, every lost
  session is released, input is applied in order and once, pointer motion never overtakes
  the input it depends on and stays on the display, and leases expire.  They hold for every
  injector with \<open>injector_contract\<close>, which \<open>Control_Ports\<close> interprets on the fake injector.
\<close>

section \<open>Runs\<close>

inductive runtime_step :: "'i injector_port \<Rightarrow> 'i receiver_runtime \<Rightarrow> 'i receiver_runtime \<Rightarrow> bool"
  for P :: "'i injector_port" where
  run_control: "handle_control_at P frame peer now r = (reply, r') \<Longrightarrow> runtime_step P r r'"
| run_input: "handle_input_at P input peer now r = (outcome, r') \<Longrightarrow> runtime_step P r r'"
| run_motion: "handle_motion_at P motion peer now r = (disposition, r') \<Longrightarrow> runtime_step P r r'"
| run_layouts: "update_display_layouts P layouts r = (changed, r') \<Longrightarrow> runtime_step P r r'"
| run_mapping: "runtime_step P r (update_modifier_mapping enabled control alt meta r)"
| run_expire: "expire_if_needed P now r = (changed, r') \<Longrightarrow> runtime_step P r r'"
| run_closed: "input_stream_closed P peer r = (changed, r') \<Longrightarrow> runtime_step P r r'"

inductive runtime_reach :: "'i injector_port \<Rightarrow> 'i receiver_runtime \<Rightarrow> 'i receiver_runtime \<Rightarrow> bool"
  for P :: "'i injector_port" and r0 :: "'i receiver_runtime" where
  runtime_start: "runtime_reach P r0 r0"
| runtime_next: "runtime_reach P r0 r \<Longrightarrow> runtime_step P r r' \<Longrightarrow> runtime_reach P r0 r'"

lemma runtime_new_inv:
  assumes "posted i = []"
  shows "runtime_inv posted (runtime_new boot i layouts)"
  using assms
  by (simp add: runtime_inv_def agree_defs runtime_new_def input_gate_new_def covered_def os_held_def)

context injector_contract begin

lemma mapping_safe: "runtime_inv posted r \<Longrightarrow> safe_step posted r (update_modifier_mapping e c a m r)"
  using mapping_inv by (rule safe_step_keeps) (simp_all add: update_modifier_mapping_def)

lemma step_safe: "runtime_step P r r' \<Longrightarrow> runtime_inv posted r \<Longrightarrow> safe_step posted r r'"
proof (induction rule: runtime_step.induct)
  case (run_control frame peer now r reply r')
  then show ?case by (rule handle_control_inv)
next
  case (run_input input peer now r outcome r')
  then show ?case by (rule handle_input_inv)
next
  case (run_motion motion peer now r disposition r')
  then show ?case by (rule handle_motion_inv)
next
  case (run_layouts layouts r changed r')
  then show ?case by (rule update_layouts_inv(1))
next
  case (run_mapping r enabled control alt meta)
  then show ?case by (rule mapping_safe)
next
  case (run_expire now r changed r')
  then show ?case by (rule expire_inv)
next
  case (run_closed peer r changed r')
  then show ?case by (rule stream_closed_inv)
qed

lemma reach_inv: "runtime_reach P r0 r \<Longrightarrow> runtime_inv posted r0 \<Longrightarrow> runtime_inv posted r"
  by (induction rule: runtime_reach.induct) (use step_safe safe_step_def in blast)+

text \<open>A session that survives an accepted input frame has applied exactly the next sequence.\<close>

lemma abort_keeps_applied [simp]:
  "rr_highest_applied_sequence (abort_after_injector_failure P s r) = rr_highest_applied_sequence r"
proof -
  have "rr_highest_applied_sequence (snd (release_pressed P q)) = rr_highest_applied_sequence q" for q :: "'i receiver_runtime"
    by (simp add: release_pressed_def Let_def split: prod.splits list.splits)
  then show ?thesis by (simp add: abort_after_injector_failure_def reset_motion_def close_session_def)
qed

lemma apply_motion_applied: "apply_motion P f r = (res, r') \<Longrightarrow>
   rr_highest_applied_sequence r' = rr_highest_applied_sequence r"
  by (auto simp: apply_motion_def Let_def split: sum.splits prod.splits)

lemma flush_applied: "flush_pending_motion P r = (res, r') \<Longrightarrow>
   rr_highest_applied_sequence r' = rr_highest_applied_sequence r"
  by (auto simp: flush_pending_motion_def Let_def split: option.splits if_splits dest: apply_motion_applied)

lemma apply_accepted_applied:
  assumes "apply_accepted P frame mapped now r = (Inr (), r')"
  shows "rr_highest_applied_sequence r' = cf_sequence frame"
  using assms
  by (auto simp: apply_accepted_def Let_def split: sum.splits prod.splits dest: flush_applied)

lemma handle_input_next:
  assumes "runtime_inv posted r" and "handle_input_at P frame peer now r = (Inr (), r')"
  shows "rr_binding r = Some peer \<and> rr_active_session r = Some (cf_session_id frame)
    \<and> unat (cf_sequence frame) = unat (rr_highest_applied_sequence r) + 1
    \<and> rr_highest_applied_sequence r' = cf_sequence frame"
proof -
  from assms(2) obtain g mapped where acc: "input_gate_accept frame (rr_input_gate r) = (Inr (), g)"
    and app: "apply_accepted P frame mapped now (r\<lparr>rr_input_gate := g\<rparr>) = (Inr (), r')"
    and bound: "bound_controller peer r"
    by (auto simp: handle_input_at_def split: if_splits sum.splits prod.splits)
  from gate_accept_InrD [OF acc] assms(1) have "rr_active_session r = Some (cf_session_id frame)"
    "unat (cf_sequence frame) = unat (rr_highest_applied_sequence r) + 1"
    by (auto simp: runtime_inv_def agree_defs split: option.splits)
  with apply_accepted_applied [OF app] bound show ?thesis by (simp add: bound_controller_def)
qed

text \<open>What an applied motion posts.\<close>

lemma handle_motion_applied:
  assumes "handle_motion_at P f peer now r = (Inr MotionApplied, r')"
  shows "\<exists>d x y. rr_active_display r = Some d \<and> layout_map d (mf_x f) (mf_y f) = Inr (x, y)
    \<and> posted (rr_injector r') = posted (rr_injector r)
        @ [IC_MouseMove x y (drag_button (update_pointer x y (rr_pressed r)))]
    \<and> rr_active_session r = Some (mf_session_id f) \<and> rr_binding r = Some peer
    \<and> mf_required_reliable_sequence f \<le> rr_highest_applied_sequence r
    \<and> rr_highest_motion_sequence r < mf_sequence f \<and> rr_highest_motion_sequence r' = mf_sequence f"
proof -
  let ?r = "r\<lparr>rr_last_activity_ms := Some now\<rparr>"
  from assms obtain d xy where d: "rr_active_display r = Some d" and map: "layout_map d (mf_x f) (mf_y f) = Inr xy"
    and req: "\<not> mf_required_reliable_sequence f > rr_highest_applied_sequence r"
    and newer: "\<not> mf_sequence f \<le> rr_highest_motion_sequence r"
    and act: "rr_active_session r = Some (mf_session_id f)" and bound: "bound_controller peer r"
    and app: "map_sum id (\<lambda>_. MotionApplied) (fst (apply_motion P f ?r)) = Inr MotionApplied"
    and r': "snd (apply_motion P f ?r) = r'"
    by (auto simp: handle_motion_at_def Let_def split: if_splits option.splits sum.splits prod.splits)
  obtain x y where xy: "xy = (x, y)" by fastforce
  let ?p = "update_pointer x y (rr_pressed r)"
  have ptr: "map_active_pointer ?r (mf_x f) (mf_y f) = Inr (x, y)"
    using d map xy by (simp add: map_active_pointer_def)
  obtain sent i where sub: "submit_ready P (IC_MouseMove x y (drag_button ?p)) (rr_injector r) = (sent, i)" by fastforce
  have "\<exists>u. sent = Inr u"
    using app ptr sub by (cases sent) (auto simp: apply_motion_def Let_def)
  then have sent: "sent = Inr ()" by simp
  have "r' = ?r\<lparr>rr_injector := i, rr_pressed := ?p, rr_highest_motion_sequence := mf_sequence f\<rparr>"
    using r' ptr sub sent by (simp add: apply_motion_def Let_def)
  with submit_ready_ok [OF sub [unfolded sent]] d map xy req newer act bound
  show ?thesis by (simp add: bound_controller_def not_le not_less)
qed

end

section \<open>A concrete session\<close>

text \<open>On the source's fake injector: bind, prepare, commit, and a key held down.\<close>

definition demo_layout :: display_layout where
  "demo_layout = \<lparr>dl_display_id = ''main'', dl_layout_revision = 5, dl_logical_width = 101,
     dl_logical_height = 101, dl_native_x = 10, dl_native_y = 20, dl_native_width = 201,
     dl_native_height = 201\<rparr>"

definition demo_controller_peer :: authenticated_peer where
  "demo_controller_peer = \<lparr>ap_peer_id = demo_peer_id, ap_role = PeerController, ap_trust_revision = 1,
     ap_connection_generation = 1, ap_remote_addr = SocketV4 [127, 0, 0, 1] 4242\<rparr>"

definition demo_new :: "fake_injector receiver_runtime" where
  "demo_new = runtime_new (demo_boot 2) fake_injector_default [demo_layout]"

definition demo_idle :: "fake_injector receiver_runtime" where
  "demo_idle = demo_new\<lparr>rr_binding := Some demo_controller_peer,
     rr_handshake := Some (demo_receiver (RIdle (demo_boot 1)))\<rparr>"

definition demo_prepared :: "fake_injector receiver_runtime" where
  "demo_prepared = demo_idle\<lparr>rr_handshake := Some (demo_receiver (RPrepared (demo_boot 1) 7)),
     rr_prepared_display := Some demo_layout\<rparr>"

definition demo_session_active :: "fake_injector receiver_runtime" where
  "demo_session_active = demo_idle\<lparr>rr_handshake := Some (demo_receiver (RActive demo_session)),
     rr_input_gate := demo_gate, rr_active_session := Some demo_session,
     rr_active_display := Some demo_layout, rr_last_activity_ms := Some 100\<rparr>"

definition demo_key_held :: "fake_injector receiver_runtime" where
  "demo_key_held = demo_session_active\<lparr>
     rr_input_gate := demo_gate\<lparr>ig_active := Some (demo_session, 2)\<rparr>,
     rr_pressed := \<lparr>ps_keys = [\<lparr>hk_source = ScanCode 30 False, hk_target = 65\<rparr>], ps_buttons = []\<rparr>,
     rr_injector := fake_injector_default\<lparr>fi_events := [IC_Key 65 True]\<rparr>,
     rr_highest_applied_sequence := 1, rr_last_activity_ms := Some 200\<rparr>"

lemmas demo_runtime_defs =
  demo_new_def demo_idle_def demo_prepared_def demo_session_active_def demo_key_held_def
  runtime_new_def input_gate_new_def demo_gate_def fake_injector_default_def

lemmas fake_port_defs = fake_injector_port_def submit_ready_def

lemma demo_release_empty:
  "rr_pressed r = pressed_default \<Longrightarrow> release_pressed fake_injector_port r = (Inr (), r)"
  by (simp add: release_pressed_def release_all_def pressed_default_def)

lemma demo_receiver_new: "receiver_new demo_peer_id (demo_boot 2) = Inr (demo_receiver RAwaitHello)"
  by (simp add: receiver_new_def demo_receiver_def protocol_limits)

lemma demo_step_hello:
  "handle_control_at fake_injector_port (Hello (demo_boot 1) demo_peer_id RoleController REQUIRED_CAPABILITIES)
     demo_controller_peer 0 demo_new = (Inr None, demo_idle)"
  by (simp add: handle_control_at_def hello_connection_def demo_controller_peer_def demo_runtime_defs
      demo_release_empty demo_receiver_new demo_hello reset_motion_def)

lemma demo_step_prepare:
  "handle_control_at fake_injector_port (Prepare 7 ''main'' 5) demo_controller_peer 0 demo_idle
     = (Inr (Some (Ready 7 (demo_boot 2) True ''main'' 5)), demo_prepared)"
  using demo_prepare
  by (simp add: handle_control_at_def bound_control_def prepare_display_def find_layout_def
      demo_controller_peer_def demo_runtime_defs fake_port_defs after_handshake_def accept_commit_def
      end_session_frame_def demo_layout_def Let_def)

lemma demo_step_commit:
  "handle_control_at fake_injector_port (Commit 7 demo_session) demo_controller_peer 100 demo_prepared
     = (Inr (Some (CommitAck demo_session)), demo_session_active)"
  using demo_accept
  by (simp add: handle_control_at_def bound_control_def prepare_display_def
      demo_controller_peer_def demo_runtime_defs after_handshake_def accept_commit_def
      end_session_frame_def input_gate_activate_def pressed_is_empty_def pressed_default_def
      reset_motion_def Let_def)

lemma demo_step_key:
  "handle_input_at fake_injector_port (demo_key_frame 1 True) demo_controller_peer 200 demo_session_active
     = (Inr (), demo_key_held)"
  by (simp add: handle_input_at_def bound_controller_def demo_controller_peer_def demo_runtime_defs
      demo_key_frame_def map_event_def input_gate_accept_def validate_critical_def checked_add_def
      apply_accepted_def pointer_commands_def apply_key_def key_source_from_event_def target_held_def
      fallback_move_def fake_port_defs flush_pending_motion_def pressed_default_def seen_motion_def Let_def)

lemma demo_session_reach: "runtime_reach fake_injector_port demo_new demo_session_active"
  by (rule runtime_next [OF runtime_next [OF runtime_next [OF runtime_start run_control [OF demo_step_hello]]
        run_control [OF demo_step_prepare]] run_control [OF demo_step_commit]])

lemma demo_held_reach: "runtime_reach fake_injector_port demo_new demo_key_held"
  by (rule runtime_next [OF demo_session_reach run_input [OF demo_step_key]])

lemma demo_new_posted: "fi_events fake_injector_default = []"
  by (simp add: fake_injector_default_def)

lemma demo_runtime_inv: "runtime_inv fi_events demo_session_active" "runtime_inv fi_events demo_key_held"
  using fake_inj.reach_inv demo_session_reach demo_held_reach runtime_new_inv [of fi_events, OF demo_new_posted]
  by (simp_all add: demo_new_def)

section \<open>Properties\<close>

text \<open>C1. No stuck keys: in every state the receiver reaches, on any injector, what the operating
  system holds down after all accepted commands is covered by the ledger, and equals it while
  a session is active, whatever failed, expired or was closed on the way.\<close>

theorem ledger_matches_os:
  assumes "injector_contract P posted" and "posted i0 = []"
    and "runtime_reach P (runtime_new boot i0 layouts) r"
  shows "os_le (os_held (posted (rr_injector r))) (pressed_abs (rr_pressed r))
    \<and> (rr_active_session r \<noteq> None \<longrightarrow> os_held (posted (rr_injector r)) = pressed_abs (rr_pressed r))"
proof -
  have "runtime_inv posted (runtime_new boot i0 layouts)" using assms(2) by (rule runtime_new_inv)
  with injector_contract.reach_inv [OF assms(1,3)] have "runtime_inv posted r" .
  then show ?thesis by (simp add: runtime_inv_def covered_def exact_def)
qed

theorem ledger_matches_os_witness:
  "os_held (fi_events (rr_injector demo_key_held)) = ({65}, {})"
  using ledger_matches_os [OF fake_inj.injector_contract_axioms demo_new_posted
      demo_held_reach [unfolded demo_new_def]]
  by (simp add: demo_runtime_defs pressed_abs_def)

text \<open>C3. Losing a session releases everything: whenever any operation ends an active session,
  by an end frame, an expired lease, a closed stream, a layout change or a failing injector,
  the operating system holds nothing afterwards, or the failed release is the recorded fault.\<close>

theorem lost_session_released:
  assumes "injector_contract P posted" and "posted i0 = []"
    and "runtime_reach P (runtime_new boot i0 layouts) r" and "runtime_step P r r'"
    and "rr_active_session r = Some s" and "rr_active_session r' = None"
  shows "os_held (posted (rr_injector r')) = ({}, {}) \<or> (\<exists>e. rr_last_fault r' = Some (FaultReleaseFailed e))"
proof -
  have "runtime_inv posted (runtime_new boot i0 layouts)" using assms(2) by (rule runtime_new_inv)
  with injector_contract.reach_inv [OF assms(1,3)] have "runtime_inv posted r" .
  with injector_contract.step_safe [OF assms(1,4)] have "safe_step posted r r'" .
  with assms(5,6) show ?thesis by (simp add: safe_step_def released_def)
qed

theorem lost_session_released_witness:
  "\<exists>r'. expire_if_needed fake_injector_port 3200 demo_key_held = (Inr True, r')
     \<and> os_held (fi_events (rr_injector r')) = ({}, {})"
proof -
  obtain res r' where exp: "expire_if_needed fake_injector_port 3200 demo_key_held = (res, r')" by fastforce
  then have out: "res = Inr True" "rr_active_session r' = None" "rr_last_fault r' = Some FaultLeaseExpired"
    by (auto simp: expire_if_needed_def demo_runtime_defs saturating_sub_def INPUT_LEASE_TIMEOUT_MS_def
        lose_session_def release_pressed_def release_all_def target_held_def fake_port_defs
        close_session_def reset_motion_def word_less_nat_alt)
  have "rr_active_session demo_key_held = Some demo_session" by (simp add: demo_runtime_defs)
  from lost_session_released [OF fake_inj.injector_contract_axioms demo_new_posted
      demo_held_reach [unfolded demo_new_def] run_expire [OF exp] this out(2)] exp out
  show ?thesis by simp
qed

text \<open>C26. Input is applied once and in order: an accepted input frame comes from the bound
  connection, belongs to the active session and carries exactly the sequence after the last
  applied one, which it then becomes.\<close>

theorem input_applied_in_order:
  assumes "injector_contract P posted" and "posted i0 = []"
    and "runtime_reach P (runtime_new boot i0 layouts) r"
    and "handle_input_at P frame peer now r = (Inr (), r')"
  shows "rr_binding r = Some peer \<and> rr_active_session r = Some (cf_session_id frame)
    \<and> unat (cf_sequence frame) = unat (rr_highest_applied_sequence r) + 1
    \<and> rr_highest_applied_sequence r' = cf_sequence frame"
proof -
  have "runtime_inv posted (runtime_new boot i0 layouts)" using assms(2) by (rule runtime_new_inv)
  with injector_contract.reach_inv [OF assms(1,3)] have "runtime_inv posted r" .
  with injector_contract.handle_input_next [OF assms(1) _ assms(4)] show ?thesis by blast
qed

theorem input_applied_in_order_witness:
  "rr_highest_applied_sequence demo_key_held = 1 \<and> rr_active_session demo_session_active = Some demo_session"
  using input_applied_in_order [OF fake_inj.injector_contract_axioms demo_new_posted
      demo_session_reach [unfolded demo_new_def] demo_step_key]
  by (simp add: demo_key_frame_def)

text \<open>C27. Pointer motion is fresh, ordered after the input it depends on, and stays on the
  display: an applied motion belongs to the active session, is newer than every motion
  before it, waited for the reliable sequence it requires, and posts exactly one move, to a
  point inside the native rectangle of the active display, whose coordinates are 32-bit integers.\<close>

theorem motion_applied_on_display:
  assumes "injector_contract P posted" and "handle_motion_at P f peer now r = (Inr MotionApplied, r')"
    and "rr_active_display r = Some d"
    and "is_i32 (dl_native_x d)" and "is_i32 (dl_native_x d + dl_native_width d - 1)"
    and "is_i32 (dl_native_y d)" and "is_i32 (dl_native_y d + dl_native_height d - 1)"
  shows "rr_active_session r = Some (mf_session_id f)
    \<and> mf_required_reliable_sequence f \<le> rr_highest_applied_sequence r
    \<and> rr_highest_motion_sequence r < mf_sequence f \<and> rr_highest_motion_sequence r' = mf_sequence f
    \<and> (\<exists>x y drag. posted (rr_injector r') = posted (rr_injector r) @ [IC_MouseMove x y drag]
        \<and> dl_native_x d \<le> x \<and> x < dl_native_x d + dl_native_width d
        \<and> dl_native_y d \<le> y \<and> y < dl_native_y d + dl_native_height d)"
proof -
  from injector_contract.handle_motion_applied [OF assms(1,2)] assms(3) obtain x y where
    map: "layout_map d (mf_x f) (mf_y f) = Inr (x, y)"
    and posted: "posted (rr_injector r') = posted (rr_injector r)
        @ [IC_MouseMove x y (drag_button (update_pointer x y (rr_pressed r)))]"
    and rest: "rr_active_session r = Some (mf_session_id f)"
      "mf_required_reliable_sequence f \<le> rr_highest_applied_sequence r"
      "rr_highest_motion_sequence r < mf_sequence f" "rr_highest_motion_sequence r' = mf_sequence f"
    by auto
  from map have "x = map_axis (mf_x f) (dl_logical_width d) (dl_native_x d) (dl_native_width d)"
    "y = map_axis (mf_y f) (dl_logical_height d) (dl_native_y d) (dl_native_height d)"
    "0 \<le> mf_x f" "mf_x f < dl_logical_width d" "0 < dl_native_width d"
    "0 \<le> mf_y f" "mf_y f < dl_logical_height d" "0 < dl_native_height d"
    by (auto simp: layout_map_def split: if_splits)
  with map_axis_bounds assms(4-7) have "dl_native_x d \<le> x \<and> x \<le> dl_native_x d + dl_native_width d - 1"
    "dl_native_y d \<le> y \<and> y \<le> dl_native_y d + dl_native_height d - 1" by simp_all
  with posted rest show ?thesis by auto
qed

lemma demo_layout_map: "layout_map demo_layout 10 20 = Inr (30, 60)"
  and demo_layout_id: "dl_display_id demo_layout = ''main''" "dl_layout_revision demo_layout = 5"
  by (simp_all add: layout_map_def demo_layout_def map_axis_def is_i32_def signed_divide_int_def)

theorem motion_applied_on_display_witness:
  "\<exists>r' x y drag. handle_motion_at fake_injector_port demo_motion demo_controller_peer 150 demo_session_active
       = (Inr MotionApplied, r')
     \<and> fi_events (rr_injector r') = fi_events (rr_injector demo_session_active) @ [IC_MouseMove x y drag]
     \<and> 10 \<le> x \<and> x < 211"
proof -
  obtain res r' where mv: "handle_motion_at fake_injector_port demo_motion demo_controller_peer 150 demo_session_active
       = (res, r')" by fastforce
  then have "res = Inr MotionApplied"
    by (auto simp: handle_motion_at_def demo_motion_def bound_controller_def demo_runtime_defs
        demo_controller_peer_def demo_layout_map demo_layout_id apply_motion_def map_active_pointer_def fake_port_defs Let_def)
  moreover have "rr_active_display demo_session_active = Some demo_layout" by (simp add: demo_session_active_def)
  ultimately show ?thesis
    using motion_applied_on_display [OF fake_inj.injector_contract_axioms, of demo_motion demo_controller_peer 150
        demo_session_active r' demo_layout] mv
    by (auto simp: demo_layout_def is_i32_def)
qed

text \<open>The input lease: an active session expires exactly when at least
  \<open>INPUT_LEASE_TIMEOUT_MS\<close> have passed since its last activity; until then nothing changes.\<close>

theorem lease_expires_iff:
  assumes "injector_contract P posted" and "posted i0 = []"
    and "runtime_reach P (runtime_new boot i0 layouts) r" and "rr_active_session r = Some s"
  shows "\<exists>last. rr_last_activity_ms r = Some last \<and>
    (if unat now - unat last < 3000 then expire_if_needed P now r = (Inr False, r)
     else rr_active_session (snd (expire_if_needed P now r)) = None)"
proof -
  have "runtime_inv posted (runtime_new boot i0 layouts)" using assms(2) by (rule runtime_new_inv)
  with injector_contract.reach_inv [OF assms(1,3)] have inv: "runtime_inv posted r" .
  with assms(4) obtain last where last: "rr_last_activity_ms r = Some last"
    by (auto simp: runtime_inv_def agree_defs)
  have early: "saturating_sub now last < INPUT_LEASE_TIMEOUT_MS \<longleftrightarrow> unat now - unat last < 3000"
    by (simp add: word_less_nat_alt saturating_sub_unat INPUT_LEASE_TIMEOUT_MS_def)
  show ?thesis
  proof (cases "unat now - unat last < 3000")
    case True
    with early last assms(4) show ?thesis by (simp add: expire_if_needed_def)
  next
    case False
    obtain res r' where lose: "lose_session P FaultLeaseExpired s r = (res, r')" by fastforce
    with False early last assms(4) have "expire_if_needed P now r = (res, r')" by (simp add: expire_if_needed_def)
    with injector_contract.lose_session_inv(2) [OF assms(1) lose inv assms(4)] False last show ?thesis by simp
  qed
qed

theorem lease_expires_iff_witness:
  "rr_active_session (snd (expire_if_needed fake_injector_port 3200 demo_key_held)) = None
     \<and> expire_if_needed fake_injector_port 3199 demo_key_held = (Inr False, demo_key_held)"
proof -
  have "rr_active_session demo_key_held = Some demo_session" "rr_last_activity_ms demo_key_held = Some 200"
    by (simp_all add: demo_key_held_def demo_session_active_def)
  with lease_expires_iff [OF fake_inj.injector_contract_axioms demo_new_posted
      demo_held_reach [unfolded demo_new_def], of demo_session 3200]
    lease_expires_iff [OF fake_inj.injector_contract_axioms demo_new_posted
      demo_held_reach [unfolded demo_new_def], of demo_session 3199]
  show ?thesis by simp
qed

end
