(* ===== verification/End_To_End.thy ===== *)
theory End_To_End
  imports Controller_Safety Receiver_Properties
begin

text \<open>
  What spans both machines: the frames a controller runtime numbers in a session are, up to the first that
  the encoder refuses, exactly the frames the receiver's input gate lets through.
\<close>

section \<open>What a controller sends\<close>

text \<open>What a hook hands to the runtime: an input event or a pointer position.\<close>

datatype send_op = SendInput critical_event | SendMotion i32 i32

fun produce :: "send_op list \<Rightarrow> controller_runtime \<Rightarrow> critical_frame list \<times> controller_runtime" where
  "produce [] r = ([], r)"
| "produce (SendInput ev # ops) r =
     (case next_input ev r of
        (Inl _, r1) \<Rightarrow> produce ops r1
      | (Inr frame, r1) \<Rightarrow> (let (frames, r2) = produce ops r1 in (frame # frames, r2)))"
| "produce (SendMotion x y # ops) r = produce ops (snd (next_motion x y r))"

text \<open>The events a hook produces: a key has a code, a wheel turn has a distance.\<close>

fun sendable :: "critical_event \<Rightarrow> bool" where
  "sendable (CKey key_code scan_code extended down) \<longleftrightarrow> key_code \<noteq> 0 \<or> scan_code \<noteq> 0"
| "sendable (CScroll delta_x delta_y x y motion_sequence) \<longleftrightarrow> delta_x \<noteq> 0 \<or> delta_y \<noteq> 0"
| "sendable (CButton button down x y motion_sequence) \<longleftrightarrow> True"

fun op_sendable :: "send_op \<Rightarrow> bool" where
  "op_sendable (SendInput ev) = sendable ev"
| "op_sendable (SendMotion x y) = True"

text \<open>A frame the encoder takes.\<close>

definition encodable :: "critical_frame \<Rightarrow> bool" where
  "encodable frame \<longleftrightarrow> is_ok (validate_critical_event (cf_event frame))"

lemma stamp_valid: "stamp_motion motion ev = Inr stamped \<Longrightarrow> is_ok (validate_critical_event stamped) \<longleftrightarrow> sendable ev"
  by (cases ev) (auto split: if_splits)

lemma next_input_InrD:
  assumes "next_input ev r = (Inr frame, r')" and "active_session (cr_handshake r) = Some s"
  shows "cf_session_id frame = s" and "unat (cf_sequence frame) = unat (cr_input_sequence r) + 1"
    and "cr_input_sequence r' = cf_sequence frame" and "cr_handshake r' = cr_handshake r"
    and "encodable frame \<longleftrightarrow> sendable ev"
  using assms stamp_valid
  by (auto simp: next_input_def encodable_def split: sum.splits option.splits dest: checked_add_unat)

lemma next_input_InlD: "next_input ev r = (Inl e, r') \<Longrightarrow> r' = r"
  by (auto simp: next_input_def split: sum.splits option.splits)

lemma next_motion_frame:
  "cr_handshake (snd (next_motion x y r)) = cr_handshake r"
  "cr_input_sequence (snd (next_motion x y r)) = cr_input_sequence r"
  by (auto simp: next_motion_def split: option.splits)

section \<open>The gate accepts it\<close>

lemma gate_accepts_next:
  assumes "ig_active g = Some (s, n)" and "cf_session_id frame = s" and "cf_sequence frame = n"
    and "validate_critical_event (cf_event frame) = Inr ()" and "validate_session s = Inr ()"
    and "receiver_boot s = ig_local_boot g" and "0 < unat n" and "unat n < 18446744073709551615"
  shows "input_gate_accept frame g = (Inr (), g\<lparr>ig_active := Some (s, n + 1)\<rparr>)" and "unat (n + 1) = unat n + 1"
proof -
  have "n \<noteq> 0" using assms(7) by auto
  with assms(2-5) have v: "validate_critical frame = Inr ()" by (simp add: validate_critical_def)
  have "unat n + unat (1 :: u64) < 2 ^ LENGTH(64)" using assms(8) by simp
  then have add: "checked_add n 1 = Some (n + 1)" by (simp only: checked_add_def uint_sum_less if_True)
  from checked_add_unat [OF this] show "unat (n + 1) = unat n + 1" by simp
  from v add assms show "input_gate_accept frame g = (Inr (), g\<lparr>ig_active := Some (s, n + 1)\<rparr>)"
    by (simp add: input_gate_accept_def)
qed

text \<open>A refused frame leaves a gap, and behind a gap the gate lets nothing through.\<close>

lemma produced_later:
  assumes "active_session (cr_handshake r) = Some s" and "frame \<in> set (fst (produce ops r))"
  shows "unat (cr_input_sequence r) < unat (cf_sequence frame)"
  using assms
proof (induction ops arbitrary: r)
  case (Cons op ops)
  show ?case
  proof (cases op)
    case (SendMotion x y)
    with Cons.IH [of "snd (next_motion x y r)"] Cons.prems show ?thesis by (simp add: next_motion_frame)
  next
    case (SendInput ev)
    obtain res r1 where next1: "next_input ev r = (res, r1)" by fastforce
    show ?thesis
    proof (cases res)
      case (Inl e)
      with next_input_InlD next1 have "r1 = r" by blast
      with Cons.IH [of r] Cons.prems SendInput next1 Inl show ?thesis by simp
    next
      case (Inr first)
      note f = next_input_InrD [OF next1 [unfolded Inr] Cons.prems(1)]
      show ?thesis
      proof (cases "frame = first")
        case False
        with Cons.prems(2) SendInput next1 Inr have "frame \<in> set (fst (produce ops r1))" by (cases "produce ops r1") auto
        with Cons.IH [of r1] Cons.prems(1) f show ?thesis by simp
      qed (use f in simp)
    qed
  qed
qed simp

lemma gate_refuses_others:
  "ig_active g = Some (s, n) \<Longrightarrow> \<forall>frame \<in> set frames. cf_sequence frame \<noteq> n \<Longrightarrow> accepted_frames frames g = []"
proof (induction frames)
  case (Cons frame frames)
  then have "\<exists>e. input_gate_accept frame g = (Inl e, g)"
    by (auto simp: input_gate_accept_def split: sum.split)
  with Cons show ?case by auto
qed simp

lemma produced_accepted:
  assumes "active_session (cr_handshake r) = Some s" and "ig_active g = Some (s, n)"
    and "unat n = unat (cr_input_sequence r) + 1" and "unat n + length ops < 18446744073709551615"
    and "validate_session s = Inr ()" and "receiver_boot s = ig_local_boot g"
  shows "accepted_frames (fst (produce ops r)) g = takeWhile encodable (fst (produce ops r))"
  using assms
proof (induction ops arbitrary: r g n)
  case (Cons op ops)
  show ?case
  proof (cases op)
    case (SendMotion x y)
    have "accepted_frames (fst (produce ops (snd (next_motion x y r)))) g
        = takeWhile encodable (fst (produce ops (snd (next_motion x y r))))"
      using Cons.prems by (intro Cons.IH [of _ g n]) (simp_all add: next_motion_frame)
    with SendMotion show ?thesis by simp
  next
    case (SendInput ev)
    obtain res r1 where next1: "next_input ev r = (res, r1)" by fastforce
    show ?thesis
    proof (cases res)
      case (Inl e)
      with next1 next_input_InlD have "r1 = r" by blast
      with Cons.IH [of r g n] Cons.prems SendInput next1 Inl show ?thesis by simp
    next
      case (Inr frame)
      note f = next_input_InrD [OF next1 [unfolded Inr] Cons.prems(1)]
      have "unat (cf_sequence frame) = unat n" using f(2) Cons.prems(3) by simp
      then have n: "cf_sequence frame = n" by (simp only: word_unat_eq_iff)
      have bounds: "0 < unat n" "unat n < 18446744073709551615" using Cons.prems(3,4) by simp_all
      obtain frames r2 where rest: "produce ops r1 = (frames, r2)" by fastforce
      show ?thesis
      proof (cases "encodable frame")
        case True
        then have "validate_critical_event (cf_event frame) = Inr ()" by (auto simp: encodable_def is_ok_iff)
        note acc = gate_accepts_next [OF Cons.prems(2) f(1) n this Cons.prems(5,6) bounds]
        have "accepted_frames (fst (produce ops r1)) (g\<lparr>ig_active := Some (s, n + 1)\<rparr>) = takeWhile encodable (fst (produce ops r1))"
          using Cons.prems acc(2) f n by (intro Cons.IH [of r1 _ "n + 1"]) simp_all
        with SendInput next1 Inr acc(1) True rest show ?thesis by simp
      next
        case False
        have "n \<noteq> 0" using bounds(1) by auto
        then obtain e where "input_gate_accept frame g = (Inl e, g)"
          using False Cons.prems(5) f(1) n
          by (cases "validate_critical_event (cf_event frame)")
            (auto simp: input_gate_accept_def validate_critical_def encodable_def)
        moreover have "accepted_frames frames g = []"
        proof (rule gate_refuses_others [OF Cons.prems(2)], rule ballI)
          fix later assume "later \<in> set frames"
          then have "unat n < unat (cf_sequence later)"
            using produced_later [of r1 s later ops] Cons.prems(1) f n rest by simp
          then show "cf_sequence later \<noteq> n" by auto
        qed
        ultimately show ?thesis using SendInput next1 Inr False rest by simp
      qed
    qed
  qed
qed simp

lemma produced_encodable:
  assumes "active_session (cr_handshake r) = Some s" and "\<forall>op \<in> set ops. op_sendable op"
  shows "\<forall>frame \<in> set (fst (produce ops r)). encodable frame"
  using assms
proof (induction ops arbitrary: r)
  case (Cons op ops)
  show ?case
  proof (cases op)
    case (SendMotion x y)
    with Cons.IH [of "snd (next_motion x y r)"] Cons.prems show ?thesis by (simp add: next_motion_frame)
  next
    case (SendInput ev)
    obtain res r1 where next1: "next_input ev r = (res, r1)" by fastforce
    show ?thesis
    proof (cases res)
      case (Inl e)
      with next_input_InlD next1 have "r1 = r" by blast
      with Cons.IH [of r] Cons.prems SendInput next1 Inl show ?thesis by simp
    next
      case (Inr first)
      note f = next_input_InrD [OF next1 [unfolded Inr] Cons.prems(1)]
      with Cons.IH [of r1] Cons.prems SendInput next1 Inr show ?thesis by (cases "produce ops r1") auto
    qed
  qed
qed simp

section \<open>Properties\<close>

text \<open>C24. Nothing a controller sends in a session is lost at the receiver's gate: starting from the numbering of a
  fresh session, for fewer than 2 to the 64 less two events, the gate the receiver activated for that session
  accepts, in order, every input frame the runtime numbers, with pointer motion in between, up to the first frame
  the encoder refuses; and the encoder refuses none if every key has a key code or a scan code and every wheel
  turn a distance.\<close>

theorem controller_stream_accepted:
  assumes "active_session (cr_handshake r) = Some s" and "cr_input_sequence r = 0"
    and "input_gate_activate s g = (Inr (), g')" and "length ops < 18446744073709551614"
  shows "accepted_frames (fst (produce ops r)) g' = takeWhile encodable (fst (produce ops r))
    \<and> ((\<forall>op \<in> set ops. op_sendable op) \<longrightarrow> accepted_frames (fst (produce ops r)) g' = fst (produce ops r))"
proof -
  from assms(3) have "validate_session s = Inr ()" "receiver_boot s = ig_local_boot g'" "ig_active g' = Some (s, 1)"
    by (auto simp: input_gate_activate_def split: sum.splits if_splits)
  with assms have "accepted_frames (fst (produce ops r)) g' = takeWhile encodable (fst (produce ops r))"
    by (intro produced_accepted [of r s g' 1]) simp_all
  moreover have "takeWhile encodable (fst (produce ops r)) = fst (produce ops r)" if "\<forall>op \<in> set ops. op_sendable op"
    using produced_encodable [OF assms(1) that] by (simp add: takeWhile_eq_all_conv)
  ultimately show ?thesis by simp
qed

definition demo_runtime_active :: controller_runtime where
  "demo_runtime_active = demo_runtime\<lparr>cr_router := demo_active,
     cr_handshake := demo_controller (CActive demo_session), cr_display := Some (''main'', 5)\<rparr>"

definition demo_ops :: "send_op list" where
  "demo_ops = [SendInput (CKey 65 30 False True), SendMotion 1 2, SendInput (CButton CLeft True 1 2 0),
     SendInput (CKey 65 30 False False)]"

theorem controller_stream_accepted_witness:
  "accepted_frames (fst (produce demo_ops demo_runtime_active)) demo_gate
     = fst (produce demo_ops demo_runtime_active)"
proof -
  have act: "input_gate_activate demo_session (input_gate_new (demo_boot 2)) = (Inr (), demo_gate)"
    by (simp add: input_gate_activate_def input_gate_new_def demo_gate_def)
  have st: "active_session (cr_handshake demo_runtime_active) = Some demo_session"
    "cr_input_sequence demo_runtime_active = 0"
    by (simp_all add: demo_runtime_active_def demo_runtime_def demo_controller_def active_session_def)
  have "length demo_ops < 18446744073709551614" "\<forall>op \<in> set demo_ops. op_sendable op" by (simp_all add: demo_ops_def)
  with controller_stream_accepted [OF st act, of demo_ops] show ?thesis by blast
qed

end
