(* ===== verification/Clipboard_Content.thy ===== *)
theory Clipboard_Content
  imports Protocol_Codec
begin

text \<open>
  Clipboard content (\<open>clipboard.rs\<close>): texts and images, their size budget, their fingerprint, and the
  policies for reading and writing them. The operating system's clipboard and the base64 codec are
  parameters; the decisions the code makes about what they return are modelled.

  The lemmas show that the image checks here agree with the ones of the wire protocol, that an image
  they let through fits the encoded budget, and that a read never returns content observed while
  the clipboard changed.
\<close>

section \<open>Content\<close>

definition CLIPBOARD_MAX_TEXT_BYTES :: nat where "CLIPBOARD_MAX_TEXT_BYTES = 262144"
definition CLIPBOARD_MAX_IMAGE_BYTES :: nat where "CLIPBOARD_MAX_IMAGE_BYTES = 33554432"

record clipboard_image =
  im_width :: u32
  im_height :: u32
  im_rgba_base64 :: string

datatype clipboard_content = ContentText string | ContentImage clipboard_image

datatype 'a clipboard_read =
    ReadContent 'a
  | ReadUnchanged
  | ReadEmpty
  | ReadBusy
  | ReadUnsupported
  | ReadError string

datatype clipboard_hint = HintImage | HintText | HintUnknown

section \<open>Image budget\<close>

definition checked_rgba_len :: "u32 \<Rightarrow> u32 \<Rightarrow> (string, nat) result" where
  "checked_rgba_len width height =
     bind_result
       (ok_or ''clipboard image dimensions overflow'' (usize_checked_mul (unat width) (unat height)))
       (\<lambda>pixels. bind_result
         (ok_or ''clipboard image dimensions overflow'' (usize_checked_mul pixels 4))
         (\<lambda>bytes.
           if width = 0 \<or> height = 0 \<or> bytes > CLIPBOARD_MAX_IMAGE_BYTES
           then Inl ''clipboard image dimensions exceed the RGBA budget''
           else Inr bytes))"

definition expected_base64_len :: "nat \<Rightarrow> (string, nat) result" where
  "expected_base64_len raw_bytes =
     ok_or ''clipboard image encoding length overflow''
       (Option.bind (usize_checked_add raw_bytes 2) (\<lambda>value. usize_checked_mul (value div 3) 4))"

definition max_image_encoded_bytes :: nat where
  "max_image_encoded_bytes =
     (case expected_base64_len CLIPBOARD_MAX_IMAGE_BYTES of
        Inr n \<Rightarrow> n
      | Inl _ \<Rightarrow> 18446744073709551615)"

definition validate_image_data :: "u32 \<Rightarrow> u32 \<Rightarrow> string \<Rightarrow> (string, nat) result" where
  "validate_image_data width height rgba_base64 =
     bind_result (checked_rgba_len width height) (\<lambda>raw_bytes.
       bind_result (expected_base64_len raw_bytes) (\<lambda>encoded_bytes.
         if length rgba_base64 \<noteq> encoded_bytes
         then Inl ''clipboard image encoding length does not match its dimensions''
         else Inr raw_bytes))"

definition validate_image_encoding :: "clipboard_image \<Rightarrow> (string, nat) result" where
  "validate_image_encoding img =
     validate_image_data (im_width img) (im_height img) (im_rgba_base64 img)"

fun is_oversized :: "clipboard_content \<Rightarrow> bool" where
  "is_oversized (ContentText text) = (length text > CLIPBOARD_MAX_TEXT_BYTES)"
| "is_oversized (ContentImage img) = (\<not> is_ok (validate_image_encoding img))"

lemma checked_rgba_len_wire:
  "checked_rgba_len w h = Inr n \<longleftrightarrow> w \<noteq> 0 \<and> h \<noteq> 0 \<and> image_raw_bytes w h = Some n"
  by (auto simp: checked_rgba_len_def image_raw_bytes_def ok_or_def bind_result_def
      CLIPBOARD_MAX_IMAGE_BYTES_def MAX_CLIPBOARD_IMAGE_RGBA_BYTES_def split: option.splits)

lemma expected_base64_len_wire: "expected_base64_len n = Inr k \<longleftrightarrow> image_expected_encoded n = Some k"
  by (auto simp: expected_base64_len_def image_expected_encoded_def ok_or_def split: option.splits)

lemma max_image_encoded_bytes_value: "max_image_encoded_bytes = 44739244"
  by (simp add: max_image_encoded_bytes_def expected_base64_len_def CLIPBOARD_MAX_IMAGE_BYTES_def
      usize_checked_add_def usize_checked_mul_def ok_or_def)

lemma validate_image_data_wire:
  "validate_image_data w h s = Inr n \<longleftrightarrow>
     w \<noteq> 0 \<and> h \<noteq> 0 \<and> image_raw_bytes w h = Some n \<and> image_expected_encoded n = Some (length s)"
  by (auto simp: validate_image_data_def checked_rgba_len_wire expected_base64_len_wire split: if_splits)

lemma validate_image_data_bound:
  assumes "validate_image_data w h s = Inr n"
  shows "n \<le> CLIPBOARD_MAX_IMAGE_BYTES" and "length s \<le> max_image_encoded_bytes"
    and "s \<noteq> []"
proof -
  from assms have raw: "image_raw_bytes w h = Some n" and enc: "image_expected_encoded n = Some (length s)"
    and pos: "w \<noteq> 0" "h \<noteq> 0"
    by (simp_all add: validate_image_data_wire)
  from raw have n: "n = unat w * unat h * 4" and le: "n \<le> 33554432"
    by (auto simp: image_raw_bytes_def MAX_CLIPBOARD_IMAGE_RGBA_BYTES_def usize_checked_mul_def
        bind_eq_Some_conv split: option.splits if_splits)
  from enc le have len: "length s = (n + 2) div 3 * 4"
    by (simp add: image_expected_encoded_def usize_checked_add_def usize_checked_mul_def split: if_splits)
  from pos have "0 < unat w" "0 < unat h" by (simp_all add: unat_gt_0)
  with n have "4 \<le> n" by (cases "unat w"; cases "unat h") simp_all
  with len have "4 \<le> length s" by presburger
  then show "s \<noteq> []" by auto
  from le show "n \<le> CLIPBOARD_MAX_IMAGE_BYTES" by (simp add: CLIPBOARD_MAX_IMAGE_BYTES_def)
  from le len show "length s \<le> max_image_encoded_bytes" by (simp add: max_image_encoded_bytes_value)
qed

section \<open>Fingerprint\<close>

definition clipboard_signature_hash :: "u8 list \<Rightarrow> u64" where
  "clipboard_signature_hash bytes =
     foldl (\<lambda>hash byte. (hash XOR ucast byte) * 0x100000001b3) 0xcbf29ce484222325 bytes"

fun content_signature :: "clipboard_content \<Rightarrow> string" where
  "content_signature (ContentText text) = ''text:'' @ text"
| "content_signature (ContentImage img) =
     ''image:'' @ show_nat (unat (im_width img)) @ ''x'' @ show_nat (unat (im_height img)) @ '':''
       @ show_nat (length (im_rgba_base64 img)) @ '':''
       @ show_hex16 (clipboard_signature_hash (string_bytes (im_rgba_base64 img)))"

section \<open>Reading\<close>

text \<open>A bounded series of attempts, each with the clipboard's revision before and after it.\<close>

fun resolve_attempts ::
  "nat \<Rightarrow> nat \<Rightarrow> (u64 \<times> u64 \<times> 'a clipboard_read) list \<Rightarrow> 'a clipboard_read" where
  "resolve_attempts attempted max_attempts [] = ReadBusy"
| "resolve_attempts attempted max_attempts ((before, after, r) # rest) =
     (if attempted \<ge> max_attempts then ReadBusy
      else if before \<noteq> after \<or> r = ReadBusy then resolve_attempts (attempted + 1) max_attempts rest
      else r)"

definition resolve_stable_read :: "(u64 \<times> u64 \<times> 'a clipboard_read) list \<Rightarrow> nat \<Rightarrow> 'a clipboard_read" where
  "resolve_stable_read attempts max_attempts = resolve_attempts 0 max_attempts attempts"

text \<open>
  The reads of a platform are thunks. On Windows, unknown content is tried as an image first,
  elsewhere as text first.
\<close>

definition read_unknown_content ::
  "bool \<Rightarrow> (unit \<Rightarrow> clipboard_content option) \<Rightarrow> (unit \<Rightarrow> clipboard_content option) \<Rightarrow> clipboard_content option" where
  "read_unknown_content windows read_text read_image =
     (if windows then (case read_image () of Some c \<Rightarrow> Some c | None \<Rightarrow> read_text ())
      else (case read_text () of Some c \<Rightarrow> Some c | None \<Rightarrow> read_image ()))"

definition read_content_for_hint ::
  "bool \<Rightarrow> clipboard_hint \<Rightarrow> (unit \<Rightarrow> clipboard_content option) \<Rightarrow> (unit \<Rightarrow> clipboard_content option)
     \<Rightarrow> clipboard_content option" where
  "read_content_for_hint windows hint read_text read_image =
     (case hint of
        HintImage \<Rightarrow> read_image ()
      | HintText \<Rightarrow> read_text ()
      | HintUnknown \<Rightarrow> read_unknown_content windows read_text read_image)"

definition read_text_content :: "(string, string) result \<Rightarrow> clipboard_content option" where
  "read_text_content system_text =
     (case system_text of
        Inr text \<Rightarrow> if text = [] then None else Some (ContentText text)
      | Inl _ \<Rightarrow> None)"

text \<open>
  The system hands out an image as its width, its height and its RGBA bytes, with sizes as
  machine words of 64 bits.
\<close>

definition u32_try_from :: "nat \<Rightarrow> u32 option" where
  "u32_try_from n = (if n < 4294967296 then Some (of_nat n) else None)"

definition read_image ::
  "(u8 list \<Rightarrow> string) \<Rightarrow> (nat \<times> nat \<times> u8 list) option \<Rightarrow> clipboard_image option" where
  "read_image base64 system_image =
     Option.bind system_image (\<lambda>(w, h, bytes).
       Option.bind (u32_try_from w) (\<lambda>width.
         Option.bind (u32_try_from h) (\<lambda>height.
           (case checked_rgba_len width height of
              Inl _ \<Rightarrow> None
            | Inr expected \<Rightarrow>
                if length bytes \<noteq> expected then None
                else Some \<lparr>im_width = width, im_height = height, im_rgba_base64 = base64 bytes\<rparr>))))"

text \<open>What \<open>write_image\<close> hands to the system: the decoded bytes, when they fit the dimensions.\<close>

definition write_image_bytes ::
  "(string \<Rightarrow> (string, u8 list) result) \<Rightarrow> clipboard_image \<Rightarrow> (string, nat \<times> nat \<times> u8 list) result" where
  "write_image_bytes base64_decode img =
     bind_result (validate_image_encoding img) (\<lambda>expected.
       bind_result (map_err (\<lambda>e. ''failed to decode clipboard image: '' @ e)
           (base64_decode (im_rgba_base64 img))) (\<lambda>bytes.
         if length bytes \<noteq> expected then Inl ''clipboard image has invalid dimensions''
         else Inr (unat (im_width img), unat (im_height img), bytes)))"

text \<open>The macOS watcher: a change is observed once per change count.\<close>

definition macos_change_observed :: "int \<Rightarrow> int \<Rightarrow> bool \<times> int" where
  "macos_change_observed last_count current =
     (if last_count = current then (False, last_count) else (True, current))"

definition watcher_revision :: "int \<Rightarrow> u64" where
  "watcher_revision last_count = of_int (max last_count 0)"

lemma resolve_attempts_content:
  assumes "resolve_attempts k m xs = r" and "r \<noteq> ReadBusy"
  shows "\<exists>i<length xs. k + i < m \<and> (\<exists>revision. xs ! i = (revision, revision, r))
    \<and> (\<forall>j<i. fst (xs ! j) \<noteq> fst (snd (xs ! j)) \<or> snd (snd (xs ! j)) = ReadBusy)"
  using assms
proof (induction k m xs rule: resolve_attempts.induct)
  case (2 k m before after a rest)
  show ?case
  proof (cases "before \<noteq> after \<or> a = ReadBusy")
    case True
    with 2 have "k < m" "resolve_attempts (k + 1) m rest = r" by (auto split: if_splits)
    with 2 True obtain i where "i < length rest" "k + 1 + i < m" "\<exists>revision. rest ! i = (revision, revision, r)"
      "\<forall>j<i. fst (rest ! j) \<noteq> fst (snd (rest ! j)) \<or> snd (snd (rest ! j)) = ReadBusy"
      by (auto simp: not_le)
    with True show ?thesis
      by (intro exI [of _ "Suc i"]) (auto simp: less_Suc_eq_0_disj)
  next
    case False
    with 2 have "k < m" "a = r" by (auto split: if_splits)
    with False show ?thesis by (intro exI [of _ 0]) auto
  qed
qed simp

end
