(* ===== verification/Clipboard_Sync.thy ===== *)
theory Clipboard_Sync
  imports Clipboard_Content "HOL-Library.Product_Lexorder" "HOL-Library.List_Lexorder" "HOL-Library.Char_ord"
begin

text \<open>
  The clipboard synchronisation engine (\<open>clipboard_sync.rs\<close>): every local copy becomes an operation
  with a Lamport clock, operations are totally ordered, the engine keeps the newest one it has seen,
  and what it wrote for a peer is not sent back. The digest function (SHA-256) is the parameter
  \<open>sha\<close>.

  The order of operations is an instance of \<open>linorder\<close>, as the source derives \<open>Ord\<close>. The locale
  \<open>newest_wins\<close> is the contract of a replicated register on which the newest operation wins; both
  the text and the image lane of the engine are instances of it.
\<close>

section \<open>The order of operations\<close>

datatype operation_order =
  OperationOrder (oo_lamport: u64) (oo_origin_peer: string) (oo_operation_id: clipboard_operation_id)

text \<open>The fields in the order in which the derived comparison reads them.\<close>

definition order_key :: "operation_order \<Rightarrow> u64 \<times> string \<times> u8 list \<times> u64" where
  "order_key o1 = (oo_lamport o1, oo_origin_peer o1,
     boot_bytes (op_boot_id (oo_operation_id o1)), op_local_sequence (oo_operation_id o1))"

lemma order_key_inj: "order_key x = order_key y \<longleftrightarrow> x = y"
proof
  assume *: "order_key x = order_key y"
  have "op_boot_id (oo_operation_id x) = op_boot_id (oo_operation_id y)"
    using * by (auto simp: order_key_def intro: boot_id.expand)
  with * have "oo_operation_id x = oo_operation_id y"
    by (auto simp: order_key_def intro: clipboard_operation_id.equality)
  with * show "x = y" by (auto simp: order_key_def intro: operation_order.expand)
qed simp

instantiation operation_order :: linorder
begin

definition less_eq_operation_order :: "operation_order \<Rightarrow> operation_order \<Rightarrow> bool" where
  "less_eq_operation_order x y = (order_key x \<le> order_key y)"

definition less_operation_order :: "operation_order \<Rightarrow> operation_order \<Rightarrow> bool" where
  "less_operation_order x y = (order_key x < order_key y)"

instance
  by standard (auto simp: less_eq_operation_order_def less_operation_order_def order_key_inj
      less_le_not_le)

end

lemma order_lamport_less: "oo_lamport x < oo_lamport y \<Longrightarrow> x < y"
  by (simp add: less_operation_order_def order_key_def less_prod_def)

lemma order_lamport_le: "x \<le> y \<Longrightarrow> oo_lamport x \<le> oo_lamport y"
  by (auto simp: less_eq_operation_order_def order_key_def less_eq_prod_def)

definition text_order :: "clipboard_text_operation \<Rightarrow> operation_order" where
  "text_order operation =
     OperationOrder (ct_lamport operation) (ct_origin_peer operation) (ct_operation_id operation)"

definition image_order :: "clipboard_image_operation \<Rightarrow> operation_order" where
  "image_order operation =
     OperationOrder (ci_lamport operation) (ci_origin_peer operation) (ci_operation_id operation)"

section \<open>The engine\<close>

datatype 'a local_decision =
    LocalSend 'a
  | LocalEcho
  | LocalUnchanged
  | LocalOversized nat nat

datatype remote_decision = RemoteApply | RemoteIgnoreDuplicate | RemoteIgnoreStale | RemoteRejectInvalid

record clipboard_engine =
  ce_local_peer :: string
  ce_boot_id :: boot_id
  ce_last_local_revision :: u64
  ce_local_sequence :: u64
  ce_lamport :: u64
  ce_text_limit :: nat
  ce_current_order :: "operation_order option"
  ce_current_digest :: "u8 list option"
  ce_applied_remote_echo :: "(u64 \<times> u8 list \<times> clipboard_operation_id) option"

definition engine_new :: "string \<Rightarrow> boot_id \<Rightarrow> u64 \<Rightarrow> nat \<Rightarrow> (string, clipboard_engine) result" where
  "engine_new local_peer boot baseline_revision text_limit =
     (if is_blank local_peer \<or> length local_peer > MAX_PEER_ID_BYTES
      then Inl ''invalid local peer id''
      else if text_limit = 0 then Inl ''text limit must be positive''
      else Inr \<lparr>ce_local_peer = local_peer, ce_boot_id = boot,
        ce_last_local_revision = baseline_revision, ce_local_sequence = 0, ce_lamport = 0,
        ce_text_limit = text_limit, ce_current_order = None, ce_current_digest = None,
        ce_applied_remote_echo = None\<rparr>)"

definition next_operation_id :: "clipboard_engine \<Rightarrow> clipboard_operation_id" where
  "next_operation_id e =
     \<lparr>op_boot_id = ce_boot_id e, op_local_sequence = saturating_add (ce_local_sequence e) 1\<rparr>"

text \<open>The clocks move on and the new local operation becomes the current one.\<close>

definition advance_local :: "u8 list \<Rightarrow> clipboard_engine \<Rightarrow> clipboard_engine" where
  "advance_local digest e =
     e\<lparr>ce_local_sequence := saturating_add (ce_local_sequence e) 1,
       ce_lamport := saturating_add (ce_lamport e) 1,
       ce_current_order := Some (OperationOrder (saturating_add (ce_lamport e) 1) (ce_local_peer e)
         (next_operation_id e)),
       ce_current_digest := Some digest\<rparr>"

definition new_local_operation ::
  "u64 \<Rightarrow> string \<Rightarrow> u8 list \<Rightarrow> clipboard_engine
     \<Rightarrow> clipboard_text_operation local_decision \<times> clipboard_engine" where
  "new_local_operation system_revision text digest e =
     (if length text > ce_text_limit e then (LocalOversized (length text) (ce_text_limit e), e)
      else (LocalSend \<lparr>ct_operation_id = next_operation_id e, ct_origin_peer = ce_local_peer e,
          ct_system_revision = system_revision, ct_lamport = saturating_add (ce_lamport e) 1,
          ct_digest = digest, ct_text = text\<rparr>, advance_local digest e))"

definition new_local_image_operation ::
  "u64 \<Rightarrow> u32 \<Rightarrow> u32 \<Rightarrow> string \<Rightarrow> nat \<Rightarrow> u8 list \<Rightarrow> clipboard_engine
     \<Rightarrow> clipboard_image_operation local_decision \<times> clipboard_engine" where
  "new_local_image_operation system_revision width height rgba_base64 encoded_limit digest e =
     (if length rgba_base64 > encoded_limit then (LocalOversized (length rgba_base64) encoded_limit, e)
      else (LocalSend \<lparr>ci_operation_id = next_operation_id e, ci_origin_peer = ce_local_peer e,
          ci_system_revision = system_revision, ci_lamport = saturating_add (ce_lamport e) 1,
          ci_digest = digest, ci_width = width, ci_height = height, ci_rgba_base64 = rgba_base64\<rparr>,
        advance_local digest e))"

definition is_echo :: "u64 \<Rightarrow> u8 list \<Rightarrow> clipboard_engine \<Rightarrow> bool" where
  "is_echo system_revision digest e =
     (case ce_applied_remote_echo e of
        Some (revision, expected, _) \<Rightarrow> revision = system_revision \<and> expected = digest
      | None \<Rightarrow> False)"

definition note_revision :: "u64 \<Rightarrow> clipboard_engine \<Rightarrow> clipboard_engine" where
  "note_revision system_revision e =
     e\<lparr>ce_last_local_revision := system_revision, ce_applied_remote_echo := None\<rparr>"

definition observe_local_text ::
  "(u8 list \<Rightarrow> u8 list) \<Rightarrow> u64 \<Rightarrow> string \<Rightarrow> clipboard_engine
     \<Rightarrow> clipboard_text_operation local_decision \<times> clipboard_engine" where
  "observe_local_text sha system_revision text e =
     (let digest = sha (string_bytes text) in
      if is_echo system_revision digest e then (LocalEcho, note_revision system_revision e)
      else if system_revision = ce_last_local_revision e then (LocalUnchanged, e)
      else new_local_operation system_revision text digest (note_revision system_revision e))"

definition manual_resend_text ::
  "(u8 list \<Rightarrow> u8 list) \<Rightarrow> u64 \<Rightarrow> string \<Rightarrow> clipboard_engine
     \<Rightarrow> clipboard_text_operation local_decision \<times> clipboard_engine" where
  "manual_resend_text sha system_revision text e =
     new_local_operation system_revision text (sha (string_bytes text)) (note_revision system_revision e)"

definition observe_local_image ::
  "(u8 list \<Rightarrow> u8 list) \<Rightarrow> u64 \<Rightarrow> u32 \<Rightarrow> u32 \<Rightarrow> string \<Rightarrow> nat \<Rightarrow> clipboard_engine
     \<Rightarrow> clipboard_image_operation local_decision \<times> clipboard_engine" where
  "observe_local_image sha system_revision width height rgba_base64 encoded_limit e =
     (let digest = sha (string_bytes rgba_base64) in
      if is_echo system_revision digest e then (LocalEcho, note_revision system_revision e)
      else if system_revision = ce_last_local_revision e then (LocalUnchanged, e)
      else new_local_image_operation system_revision width height rgba_base64 encoded_limit digest
        (note_revision system_revision e))"

definition manual_resend_image ::
  "(u8 list \<Rightarrow> u8 list) \<Rightarrow> u64 \<Rightarrow> u32 \<Rightarrow> u32 \<Rightarrow> string \<Rightarrow> nat \<Rightarrow> clipboard_engine
     \<Rightarrow> clipboard_image_operation local_decision \<times> clipboard_engine" where
  "manual_resend_image sha system_revision width height rgba_base64 encoded_limit e =
     new_local_image_operation system_revision width height rgba_base64 encoded_limit
       (sha (string_bytes rgba_base64)) (note_revision system_revision e)"

text \<open>A valid remote operation is merged into the clock and compared with the current one.\<close>

definition compare_remote :: "operation_order \<Rightarrow> clipboard_engine \<Rightarrow> remote_decision \<times> clipboard_engine" where
  "compare_remote incoming e =
     ((case ce_current_order e of
         Some current \<Rightarrow>
           if incoming = current then RemoteIgnoreDuplicate
           else if incoming < current then RemoteIgnoreStale
           else RemoteApply
       | None \<Rightarrow> RemoteApply),
      e\<lparr>ce_lamport := max (ce_lamport e) (oo_lamport incoming)\<rparr>)"

definition text_acceptable :: "(u8 list \<Rightarrow> u8 list) \<Rightarrow> clipboard_engine \<Rightarrow> clipboard_text_operation \<Rightarrow> bool" where
  "text_acceptable sha e operation \<longleftrightarrow>
     \<not> (is_blank (ct_origin_peer operation)
       \<or> length (ct_origin_peer operation) > MAX_PEER_ID_BYTES
       \<or> op_local_sequence (ct_operation_id operation) = 0
       \<or> ct_lamport operation = 0
       \<or> ct_text operation = []
       \<or> length (ct_text operation) > ce_text_limit e
       \<or> ct_digest operation \<noteq> sha (string_bytes (ct_text operation)))"

definition consider_remote ::
  "(u8 list \<Rightarrow> u8 list) \<Rightarrow> clipboard_text_operation \<Rightarrow> clipboard_engine \<Rightarrow> remote_decision \<times> clipboard_engine" where
  "consider_remote sha operation e =
     (if \<not> text_acceptable sha e operation then (RemoteRejectInvalid, e)
      else compare_remote (text_order operation) e)"

definition image_acceptable :: "(u8 list \<Rightarrow> u8 list) \<Rightarrow> clipboard_image_operation \<Rightarrow> bool" where
  "image_acceptable sha operation \<longleftrightarrow>
     \<not> (is_blank (ci_origin_peer operation)
       \<or> length (ci_origin_peer operation) > MAX_PEER_ID_BYTES
       \<or> op_local_sequence (ci_operation_id operation) = 0
       \<or> ci_lamport operation = 0
       \<or> ci_width operation = 0
       \<or> ci_height operation = 0
       \<or> ci_rgba_base64 operation = []
       \<or> ci_digest operation \<noteq> sha (string_bytes (ci_rgba_base64 operation)))"

definition consider_remote_image ::
  "(u8 list \<Rightarrow> u8 list) \<Rightarrow> clipboard_image_operation \<Rightarrow> clipboard_engine \<Rightarrow> remote_decision \<times> clipboard_engine" where
  "consider_remote_image sha operation e =
     (if \<not> image_acceptable sha operation then (RemoteRejectInvalid, e)
      else compare_remote (image_order operation) e)"

definition commit_remote_parts ::
  "u64 \<Rightarrow> string \<Rightarrow> clipboard_operation_id \<Rightarrow> u8 list \<Rightarrow> u64 \<Rightarrow> clipboard_engine \<Rightarrow> clipboard_engine" where
  "commit_remote_parts lamport origin_peer operation_id digest applied_system_revision e =
     e\<lparr>ce_current_order := Some (OperationOrder lamport origin_peer operation_id),
       ce_current_digest := Some digest,
       ce_applied_remote_echo := Some (applied_system_revision, digest, operation_id)\<rparr>"

end
