(* ===== verification/Clipboard_Network.thy ===== *)
theory Clipboard_Network
  imports Clipboard_Sync
begin

text \<open>
  Clipboard engines together: any number of peers copy locally and deliver each other's operations
  in any order, more than once or never. The abstract specification is a register on which the
  newest operation wins (locale \<open>newest_wins\<close>); the engine refines it for texts and images alike.
  The main results: peers that have seen the same operations agree, and a local copy is newer than
  everything its engine has seen.
\<close>

section \<open>Operations of both kinds\<close>

fun bulk_order :: "clipboard_bulk_operation \<Rightarrow> operation_order" where
  "bulk_order (BulkText t) = text_order t"
| "bulk_order (BulkImage i) = image_order i"

fun bulk_digest :: "clipboard_bulk_operation \<Rightarrow> u8 list" where
  "bulk_digest (BulkText t) = ct_digest t"
| "bulk_digest (BulkImage i) = ci_digest i"

fun bulk_acceptable :: "(u8 list \<Rightarrow> u8 list) \<Rightarrow> clipboard_engine \<Rightarrow> clipboard_bulk_operation \<Rightarrow> bool" where
  "bulk_acceptable sha e (BulkText t) = text_acceptable sha e t"
| "bulk_acceptable sha e (BulkImage i) = image_acceptable sha i"

fun consider_bulk ::
  "(u8 list \<Rightarrow> u8 list) \<Rightarrow> clipboard_bulk_operation \<Rightarrow> clipboard_engine \<Rightarrow> remote_decision \<times> clipboard_engine" where
  "consider_bulk sha (BulkText t) e = consider_remote sha t e"
| "consider_bulk sha (BulkImage i) e = consider_remote_image sha i e"

definition commit_bulk :: "clipboard_bulk_operation \<Rightarrow> u64 \<Rightarrow> clipboard_engine \<Rightarrow> clipboard_engine" where
  "commit_bulk operation revision e =
     commit_remote_parts (oo_lamport (bulk_order operation)) (oo_origin_peer (bulk_order operation))
       (oo_operation_id (bulk_order operation)) (bulk_digest operation) revision e"

text \<open>Receiving an operation whose write to the system clipboard succeeds.\<close>

definition receive_bulk ::
  "(u8 list \<Rightarrow> u8 list) \<Rightarrow> u64 \<Rightarrow> clipboard_bulk_operation \<Rightarrow> clipboard_engine \<Rightarrow> clipboard_engine" where
  "receive_bulk sha revision operation e =
     (case consider_bulk sha operation e of
        (RemoteApply, e') \<Rightarrow> commit_bulk operation revision e'
      | (_, e') \<Rightarrow> e')"

lemma consider_bulk_cases:
  "consider_bulk sha operation e =
     (if bulk_acceptable sha e operation then compare_remote (bulk_order operation) e
      else (RemoteRejectInvalid, e))"
  by (cases operation) (simp_all add: consider_remote_def consider_remote_image_def)

lemma compare_remote_simps:
  "snd (compare_remote o1 e) = e\<lparr>ce_lamport := max (ce_lamport e) (oo_lamport o1)\<rparr>"
  "fst (compare_remote o1 e) = RemoteApply \<longleftrightarrow>
     (\<forall>current. ce_current_order e = Some current \<longrightarrow> current < o1)"
  "fst (compare_remote o1 e) \<noteq> RemoteRejectInvalid"
  by (auto simp: compare_remote_def split: option.splits)

lemma receive_bulk_cases:
  "receive_bulk sha revision operation e =
     (if \<not> bulk_acceptable sha e operation then e
      else (let e' = e\<lparr>ce_lamport := max (ce_lamport e) (oo_lamport (bulk_order operation))\<rparr> in
        if \<forall>current. ce_current_order e = Some current \<longrightarrow> current < bulk_order operation
        then commit_bulk operation revision e' else e'))"
  using compare_remote_simps [of "bulk_order operation" e]
  by (cases "compare_remote (bulk_order operation) e")
    (auto simp: receive_bulk_def consider_bulk_cases Let_def split: remote_decision.splits)

lemma commit_bulk_simps [simp]:
  "ce_current_order (commit_bulk operation revision e) = Some (bulk_order operation)"
  "ce_current_digest (commit_bulk operation revision e) = Some (bulk_digest operation)"
  "ce_lamport (commit_bulk operation revision e) = ce_lamport e"
  "ce_text_limit (commit_bulk operation revision e) = ce_text_limit e"
  "ce_local_peer (commit_bulk operation revision e) = ce_local_peer e"
  "ce_boot_id (commit_bulk operation revision e) = ce_boot_id e"
  "ce_local_sequence (commit_bulk operation revision e) = ce_local_sequence e"
  by (simp_all add: commit_bulk_def commit_remote_parts_def)

section \<open>A register on which the newest operation wins\<close>

fun newest :: "'o::linorder option \<Rightarrow> 'o \<Rightarrow> 'o option" where
  "newest None y = Some y"
| "newest (Some x) y = Some (max x y)"

locale newest_wins =
  fixes order_of :: "'op \<Rightarrow> 'o::linorder"
    and accepts :: "'e \<Rightarrow> 'op \<Rightarrow> bool"
    and receive :: "'op \<Rightarrow> 'e \<Rightarrow> 'e"
    and current :: "'e \<Rightarrow> 'o option"
  assumes receive_accepted: "accepts e operation \<Longrightarrow>
      current (receive operation e) = newest (current e) (order_of operation)"
    and receive_rejected: "\<not> accepts e operation \<Longrightarrow> current (receive operation e) = current e"
    and accepts_stable: "accepts (receive operation e) operation' = accepts e operation'"
begin

lemma receive_greatest:
  assumes "current (fold receive operations e) = Some best"
  shows "(current e = Some best
      \<or> (\<exists>operation \<in> set operations. accepts e operation \<and> order_of operation = best))
    \<and> (\<forall>old. current e = Some old \<longrightarrow> old \<le> best)
    \<and> (\<forall>operation \<in> set operations. accepts e operation \<longrightarrow> order_of operation \<le> best)"
  using assms
proof (induction operations arbitrary: e)
  case (Cons operation operations)
  from Cons.IH [of "receive operation e"] Cons.prems
  have IH: "current (receive operation e) = Some best
      \<or> (\<exists>operation' \<in> set operations. accepts e operation' \<and> order_of operation' = best)"
    "\<forall>old. current (receive operation e) = Some old \<longrightarrow> old \<le> best"
    "\<forall>operation' \<in> set operations. accepts e operation' \<longrightarrow> order_of operation' \<le> best"
    by (simp_all add: accepts_stable)
  show ?case
  proof (cases "accepts e operation")
    case True
    with IH show ?thesis
      by (cases "current e") (auto simp: receive_accepted max_def split: if_splits)
  qed (use IH in \<open>auto simp: receive_rejected\<close>)
qed simp

lemma receive_none:
  "current (fold receive operations e) = None \<longleftrightarrow>
     current e = None \<and> (\<forall>operation \<in> set operations. \<not> accepts e operation)"
proof (induction operations arbitrary: e)
  case (Cons operation operations)
  then show ?case
    by (cases "accepts e operation"; cases "current e")
      (auto simp: receive_accepted receive_rejected accepts_stable)
qed simp

lemma order_irrelevant:
  assumes "set operations = set operations'"
  shows "current (fold receive operations e) = current (fold receive operations' e)"
proof (cases "current (fold receive operations e)")
  case None
  with assms show ?thesis using receive_none by metis
next
  case (Some best)
  then obtain best' where best': "current (fold receive operations' e) = Some best'"
    using receive_none [of operations e] receive_none [of operations' e] assms by fastforce
  have "best \<le> best'" "best' \<le> best"
    using receive_greatest [OF Some] receive_greatest [OF best'] assms by auto
  with Some best' show ?thesis by simp
qed

end

lemma receive_bulk_current:
  "ce_current_order (receive_bulk sha revision operation e) =
     (if bulk_acceptable sha e operation then newest (ce_current_order e) (bulk_order operation)
      else ce_current_order e)"
  by (cases "ce_current_order e")
    (auto simp: receive_bulk_cases Let_def max_def not_less)

lemma bulk_acceptable_limit:
  "ce_text_limit e = ce_text_limit e' \<Longrightarrow> bulk_acceptable sha e operation = bulk_acceptable sha e' operation"
  by (cases operation) (simp_all add: text_acceptable_def)

lemma receive_bulk_frame [simp]:
  "ce_text_limit (receive_bulk sha revision operation e) = ce_text_limit e"
  "ce_local_peer (receive_bulk sha revision operation e) = ce_local_peer e"
  "ce_boot_id (receive_bulk sha revision operation e) = ce_boot_id e"
  "ce_local_sequence (receive_bulk sha revision operation e) = ce_local_sequence e"
  by (simp_all add: receive_bulk_cases Let_def)

lemma bulk_acceptable_receive [simp]:
  "bulk_acceptable sha (receive_bulk sha revision operation e) operation' = bulk_acceptable sha e operation'"
  by (rule bulk_acceptable_limit) simp

interpretation clipboard: newest_wins bulk_order "bulk_acceptable sha" "receive_bulk sha revision" ce_current_order
  for sha revision
  by unfold_locales (simp_all add: receive_bulk_current)

section \<open>Local copies\<close>

datatype copy_action =
    CopyText u64 string
  | ResendText u64 string
  | CopyImage u64 u32 u32 string nat
  | ResendImage u64 u32 u32 string nat

fun sent_operation :: "('a \<Rightarrow> clipboard_bulk_operation) \<Rightarrow> 'a local_decision \<Rightarrow> clipboard_bulk_operation option" where
  "sent_operation f (LocalSend operation) = Some (f operation)"
| "sent_operation f decision = None"

fun local_action ::
  "(u8 list \<Rightarrow> u8 list) \<Rightarrow> copy_action \<Rightarrow> clipboard_engine
     \<Rightarrow> clipboard_bulk_operation option \<times> clipboard_engine" where
  "local_action sha (CopyText revision text) e =
     map_prod (sent_operation BulkText) id (observe_local_text sha revision text e)"
| "local_action sha (ResendText revision text) e =
     map_prod (sent_operation BulkText) id (manual_resend_text sha revision text e)"
| "local_action sha (CopyImage revision width height rgba limit) e =
     map_prod (sent_operation BulkImage) id (observe_local_image sha revision width height rgba limit e)"
| "local_action sha (ResendImage revision width height rgba limit) e =
     map_prod (sent_operation BulkImage) id (manual_resend_image sha revision width height rgba limit e)"

text \<open>The part of an engine the peers can tell apart, and how a local action changes it.\<close>

definition same_clock :: "clipboard_engine \<Rightarrow> clipboard_engine \<Rightarrow> bool" where
  "same_clock e e' \<longleftrightarrow>
     ce_local_peer e' = ce_local_peer e \<and> ce_boot_id e' = ce_boot_id e
     \<and> ce_local_sequence e' = ce_local_sequence e \<and> ce_lamport e' = ce_lamport e
     \<and> ce_current_order e' = ce_current_order e \<and> ce_current_digest e' = ce_current_digest e"

definition sends :: "clipboard_bulk_operation \<Rightarrow> clipboard_engine \<Rightarrow> clipboard_engine \<Rightarrow> bool" where
  "sends operation e e' \<longleftrightarrow>
     bulk_order operation = OperationOrder (ce_lamport e') (ce_local_peer e)
       \<lparr>op_boot_id = ce_boot_id e, op_local_sequence = ce_local_sequence e'\<rparr>
     \<and> ce_local_peer e' = ce_local_peer e \<and> ce_boot_id e' = ce_boot_id e
     \<and> ce_local_sequence e' = saturating_add (ce_local_sequence e) 1
     \<and> ce_lamport e' = saturating_add (ce_lamport e) 1
     \<and> ce_current_order e' = Some (bulk_order operation)
     \<and> ce_current_digest e' = Some (bulk_digest operation)"

lemmas local_action_defs =
  observe_local_text_def manual_resend_text_def observe_local_image_def manual_resend_image_def
  new_local_operation_def new_local_image_operation_def advance_local_def next_operation_id_def
  note_revision_def text_order_def image_order_def Let_def

lemma local_action_result:
  "local_action sha a e = (out, e') \<Longrightarrow>
     (case out of None \<Rightarrow> same_clock e e' | Some operation \<Rightarrow> sends operation e e')"
  by (cases a) (auto simp: local_action_defs same_clock_def sends_def split: if_splits)

section \<open>A network of clipboards\<close>

record clip_net =
  cn_engines :: "string \<Rightarrow> clipboard_engine option"
  cn_sent :: "clipboard_bulk_operation set"
  cn_seen :: "string \<Rightarrow> clipboard_bulk_operation set"

text \<open>
  A peer copies locally, receives any operation sent so far, or receives one whose write to the
  system clipboard fails; \<open>cn_seen\<close> records which operations each peer has sent or accepted.
\<close>

inductive net_step :: "(u8 list \<Rightarrow> u8 list) \<Rightarrow> clip_net \<Rightarrow> clip_net \<Rightarrow> bool" for sha where
  net_copy: "\<lbrakk>cn_engines n p = Some e; local_action sha a e = (out, e')\<rbrakk> \<Longrightarrow>
     net_step sha n (n\<lparr>cn_engines := (cn_engines n)(p \<mapsto> e'),
       cn_sent := cn_sent n \<union> set_option out,
       cn_seen := (cn_seen n)(p := cn_seen n p \<union> set_option out)\<rparr>)"
| net_deliver: "\<lbrakk>cn_engines n p = Some e; operation \<in> cn_sent n\<rbrakk> \<Longrightarrow>
     net_step sha n (n\<lparr>cn_engines := (cn_engines n)(p \<mapsto> receive_bulk sha revision operation e),
       cn_seen := (cn_seen n)(p := cn_seen n p \<union> (if bulk_acceptable sha e operation then {operation} else {}))\<rparr>)"
| net_write_fails: "\<lbrakk>cn_engines n p = Some e; operation \<in> cn_sent n\<rbrakk> \<Longrightarrow>
     net_step sha n (n\<lparr>cn_engines := (cn_engines n)(p \<mapsto> snd (consider_bulk sha operation e))\<rparr>)"

inductive net_reach :: "(u8 list \<Rightarrow> u8 list) \<Rightarrow> clip_net \<Rightarrow> clip_net \<Rightarrow> bool" for sha n0 where
  net_refl: "net_reach sha n0 n0"
| net_next: "\<lbrakk>net_reach sha n0 n; net_step sha n n'\<rbrakk> \<Longrightarrow> net_reach sha n0 n'"

definition net_start :: "clip_net \<Rightarrow> bool" where
  "net_start n \<longleftrightarrow> cn_sent n = {} \<and> (\<forall>p. cn_seen n p = {})
     \<and> (\<forall>p e. cn_engines n p = Some e \<longrightarrow> (\<exists>boot revision limit. engine_new p boot revision limit = Inr e))"

text \<open>No Lamport clock has run into its upper end.\<close>

definition unsaturated :: "clip_net \<Rightarrow> bool" where
  "unsaturated n \<longleftrightarrow> (\<forall>p e. cn_engines n p = Some e \<longrightarrow> ce_lamport e < - 1)"

text \<open>The abstraction: an engine holds the newest of the operations its peer has seen.\<close>

definition tracks :: "clipboard_bulk_operation set \<Rightarrow> clipboard_engine \<Rightarrow> bool" where
  "tracks S e \<longleftrightarrow>
     (case ce_current_order e of
        None \<Rightarrow> S = {} \<and> ce_current_digest e = None
      | Some best \<Rightarrow>
          (\<exists>operation\<in>S. bulk_order operation = best \<and> ce_current_digest e = Some (bulk_digest operation))
          \<and> (\<forall>operation\<in>S. bulk_order operation \<le> best))
     \<and> (\<forall>operation\<in>S. oo_lamport (bulk_order operation) \<le> ce_lamport e)"

definition own_ids :: "clipboard_bulk_operation set \<Rightarrow> clipboard_engine \<Rightarrow> bool" where
  "own_ids S e \<longleftrightarrow> ce_local_sequence e \<le> ce_lamport e
     \<and> (\<forall>operation\<in>S. oo_origin_peer (bulk_order operation) = ce_local_peer e \<longrightarrow>
          op_local_sequence (oo_operation_id (bulk_order operation)) \<le> ce_local_sequence e)"

definition net_inv :: "clip_net \<Rightarrow> bool" where
  "net_inv n \<longleftrightarrow> inj_on bulk_order (cn_sent n)
     \<and> (\<forall>p e. cn_engines n p = Some e \<longrightarrow>
          ce_local_peer e = p \<and> cn_seen n p \<subseteq> cn_sent n \<and> tracks (cn_seen n p) e \<and> own_ids (cn_sent n) e)"

lemma clock_tick:
  fixes l :: u64
  assumes "saturating_add l 1 < - 1"
  shows "l < saturating_add l 1" and "l < - 1" and "s \<le> l \<Longrightarrow> s < saturating_add s 1"
    and "s \<le> l \<Longrightarrow> saturating_add s 1 \<le> saturating_add l 1"
  using assms
  by (simp_all add: word_less_nat_alt word_le_nat_alt saturating_add_unat unsigned_minus_1_eq_mask
      mask_eq_exp_minus_1)

lemma tracks_new: "engine_new p boot revision limit = Inr e \<Longrightarrow>
    tracks {} e \<and> own_ids {} e \<and> ce_local_peer e = p"
  by (auto simp: engine_new_def tracks_def own_ids_def split: if_splits)

lemma tracks_same: "tracks S e \<Longrightarrow> same_clock e e' \<Longrightarrow> tracks S e'"
  by (auto simp: tracks_def same_clock_def split: option.splits)

lemma tracks_current_lamport:
  "tracks S e \<Longrightarrow> ce_current_order e = Some best \<Longrightarrow> oo_lamport best \<le> ce_lamport e"
  by (auto simp: tracks_def)

lemma sent_is_newest:
  assumes "tracks S e" and "sends operation e e'" and "ce_lamport e' < - 1" and "operation' \<in> S"
  shows "bulk_order operation' < bulk_order operation"
proof (rule order_lamport_less)
  from assms have "oo_lamport (bulk_order operation') \<le> ce_lamport e" by (auto simp: tracks_def)
  also from assms have "ce_lamport e < oo_lamport (bulk_order operation)"
    using clock_tick(1) [of "ce_lamport e"] by (auto simp: sends_def)
  finally show "oo_lamport (bulk_order operation') < oo_lamport (bulk_order operation)" .
qed

lemma tracks_sends:
  assumes "tracks S e" and "sends operation e e'" and "ce_lamport e' < - 1"
  shows "tracks (insert operation S) e'"
proof -
  have "bulk_order x < bulk_order operation \<and> oo_lamport (bulk_order x) \<le> ce_lamport e'" if "x \<in> S" for x
  proof
    show *: "bulk_order x < bulk_order operation" by (rule sent_is_newest [OF assms that])
    from order_lamport_le [OF less_imp_le [OF *]] assms(2)
    show "oo_lamport (bulk_order x) \<le> ce_lamport e'" by (simp add: sends_def)
  qed
  with assms(2) show ?thesis by (auto simp: tracks_def sends_def less_imp_le)
qed

lemma tracks_clock: "tracks S e \<Longrightarrow> tracks S (e\<lparr>ce_lamport := max (ce_lamport e) l\<rparr>)"
  by (auto simp: tracks_def max_def split: option.splits)

lemma tracks_receive:
  assumes "tracks S e"
  shows "tracks (S \<union> (if bulk_acceptable sha e operation then {operation} else {}))
    (receive_bulk sha revision operation e)"
  using assms
  by (cases "ce_current_order e")
    (auto simp: tracks_def receive_bulk_cases Let_def max_def not_less not_le less_imp_le
      intro: order.trans dest: order.strict_implies_order)

lemma lamport_monotone:
  "local_action sha a e = (out, e') \<Longrightarrow> ce_lamport e \<le> ce_lamport e'"
  "ce_lamport e \<le> ce_lamport (receive_bulk sha revision operation e)"
  "ce_lamport e \<le> ce_lamport (snd (consider_bulk sha operation e))"
proof -
  assume "local_action sha a e = (out, e')"
  from local_action_result [OF this] saturating_add_ge [of "ce_lamport e" 1]
  show "ce_lamport e \<le> ce_lamport e'"
    by (auto simp: same_clock_def sends_def split: option.splits)
qed (auto simp: receive_bulk_cases consider_bulk_cases compare_remote_simps Let_def)

lemma net_step_engines:
  assumes "net_step sha n n'" and "cn_engines n p = Some e"
  shows "\<exists>e'. cn_engines n' p = Some e' \<and> ce_lamport e \<le> ce_lamport e'"
  using assms
  by (cases rule: net_step.cases) (auto simp: lamport_monotone dest: lamport_monotone(1))

lemma unsaturated_step: "net_step sha n n' \<Longrightarrow> unsaturated n' \<Longrightarrow> unsaturated n"
  unfolding unsaturated_def by (meson net_step_engines le_less_trans)

lemma sends_fresh:
  assumes "own_ids S e" and "sends operation e e'" and "ce_lamport e' < - 1"
  shows "own_ids (insert operation S) e'" and "\<forall>operation'\<in>S. bulk_order operation' \<noteq> bulk_order operation"
proof -
  from assms have tick: "ce_local_sequence e < saturating_add (ce_local_sequence e) 1"
      "saturating_add (ce_local_sequence e) 1 \<le> ce_lamport e'"
    using clock_tick(3,4) [of "ce_lamport e" "ce_local_sequence e"] by (auto simp: own_ids_def sends_def)
  with assms(1,2) show "own_ids (insert operation S) e'"
    by (auto simp: own_ids_def sends_def intro: order.trans less_imp_le)
  from tick(1) assms(1,2) show "\<forall>operation'\<in>S. bulk_order operation' \<noteq> bulk_order operation"
    by (force simp: own_ids_def sends_def)
qed

lemma own_ids_other:
  "own_ids S e \<Longrightarrow> oo_origin_peer (bulk_order operation) \<noteq> ce_local_peer e \<Longrightarrow> own_ids (insert operation S) e"
  by (auto simp: own_ids_def)

lemma own_ids_receive: "own_ids S e \<Longrightarrow> own_ids S (receive_bulk sha revision operation e)"
  using lamport_monotone(2) [of e sha revision operation] by (auto simp: own_ids_def)

lemma consider_bulk_clock:
  "\<exists>l. snd (consider_bulk sha operation e) = e\<lparr>ce_lamport := max (ce_lamport e) l\<rparr>"
proof (cases "bulk_acceptable sha e operation")
  case False
  then have "snd (consider_bulk sha operation e) = e\<lparr>ce_lamport := max (ce_lamport e) (ce_lamport e)\<rparr>"
    by (simp add: consider_bulk_cases)
  then show ?thesis ..
qed (auto simp: consider_bulk_cases compare_remote_simps)

lemma own_ids_clock: "own_ids S e \<Longrightarrow> own_ids S (e\<lparr>ce_lamport := max (ce_lamport e) l\<rparr>)"
  by (auto simp: own_ids_def le_max_iff_disj)

lemma net_invD:
  assumes "net_inv n" and "cn_engines n p = Some e"
  shows "ce_local_peer e = p" and "cn_seen n p \<subseteq> cn_sent n" and "tracks (cn_seen n p) e"
    and "own_ids (cn_sent n) e"
  using assms by (auto simp: net_inv_def)

lemma net_copy_inv:
  assumes inv: "net_inv n" and e: "cn_engines n p = Some e"
    and act: "local_action sha a e = (out, e')" and fresh: "ce_lamport e' < - 1"
  shows "net_inv (n\<lparr>cn_engines := (cn_engines n)(p \<mapsto> e'), cn_sent := cn_sent n \<union> set_option out,
    cn_seen := (cn_seen n)(p := cn_seen n p \<union> set_option out)\<rparr>)"
proof (cases out)
  case None
  with local_action_result [OF act] have same: "same_clock e e'" by simp
  then have "own_ids S e \<Longrightarrow> own_ids S e'" for S by (simp add: own_ids_def same_clock_def)
  with None net_invD [OF inv e] tracks_same [OF _ same] same inv show ?thesis
    by (auto simp: net_inv_def same_clock_def)
next
  case (Some operation)
  with local_action_result [OF act] have sends: "sends operation e e'" by simp
  note I = net_invD [OF inv e]
  note F = sends_fresh [OF I(4) sends fresh]
  from sends I(1) have origin: "oo_origin_peer (bulk_order operation) = p" and peer: "ce_local_peer e' = p"
    by (simp_all add: sends_def)
  have inj: "inj_on bulk_order (insert operation (cn_sent n))"
    using inv F(2) by (auto simp: net_inv_def inj_on_def)
  have "ce_local_peer e2 = q \<and> own_ids (insert operation (cn_sent n)) e2"
    if "q \<noteq> p" "cn_engines n q = Some e2" for q e2
    using net_invD(1,4) [OF inv that(2)] that(1) origin by (auto intro: own_ids_other)
  moreover have "cn_seen n q \<subseteq> insert operation (cn_sent n) \<and> tracks (cn_seen n q) e2"
    if "cn_engines n q = Some e2" for q e2
    using net_invD(2,3) [OF inv that] by auto
  ultimately show ?thesis
    using Some inj peer I(2) F(1) tracks_sends [OF I(3) sends fresh]
    by (auto simp: net_inv_def)
qed

lemma net_step_inv:
  assumes "net_step sha n n'" and "net_inv n" and "unsaturated n'"
  shows "net_inv n'"
  using assms(1)
proof cases
  case (net_copy p e a out e')
  then have "cn_engines n' p = Some e'" by simp
  with assms(3) have "ce_lamport e' < - 1" unfolding unsaturated_def by blast
  with net_copy assms(2) show ?thesis using net_copy_inv by metis
next
  case (net_deliver p e operation revision)
  note I = net_invD [OF assms(2) net_deliver(2)]
  note T = tracks_receive [OF I(3), of sha operation revision] own_ids_receive [OF I(4), of sha revision operation]
  show ?thesis
    using net_deliver I T assms(2)
    by (cases "bulk_acceptable sha e operation") (simp_all add: net_inv_def)
next
  case (net_write_fails p e operation)
  note I = net_invD [OF assms(2) net_write_fails(2)]
  obtain l where "snd (consider_bulk sha operation e) = e\<lparr>ce_lamport := max (ce_lamport e) l\<rparr>"
    using consider_bulk_clock by blast
  with net_write_fails I tracks_clock [OF I(3)] own_ids_clock [OF I(4)] assms(2)
  show ?thesis by (auto simp: net_inv_def)
qed

lemma net_reach_inv:
  "net_reach sha n0 n \<Longrightarrow> net_start n0 \<Longrightarrow> unsaturated n \<Longrightarrow> net_inv n"
proof (induction rule: net_reach.induct)
  case net_refl
  then have "tracks {} e \<and> own_ids {} e \<and> ce_local_peer e = p" if "cn_engines n0 p = Some e" for p e
    using that tracks_new unfolding net_start_def by blast
  with net_refl show ?case by (simp add: net_inv_def net_start_def)
next
  case (net_next n n')
  then show ?case by (blast intro: net_step_inv unsaturated_step)
qed

section \<open>Convergence\<close>

text \<open>C7. Clipboards converge: however copies at any number of peers, deliveries, duplicates, losses and
  failed writes interleave, two peers that have seen the same operations hold the same current
  operation and the same digest, and it is the newest operation seen, as long as no Lamport clock
  has reached its upper end.\<close>

theorem clipboards_converge:
  assumes "net_reach sha n0 n" and "net_start n0" and "unsaturated n"
    and "cn_engines n p = Some e" and "cn_engines n q = Some e'" and "cn_seen n p = cn_seen n q"
  shows "ce_current_order e = ce_current_order e' \<and> ce_current_digest e = ce_current_digest e'
    \<and> (ce_current_order e = None \<longleftrightarrow> cn_seen n p = {})
    \<and> (\<forall>operation\<in>cn_seen n p. \<exists>best\<in>cn_seen n p. ce_current_order e = Some (bulk_order best)
          \<and> ce_current_digest e = Some (bulk_digest best) \<and> bulk_order operation \<le> bulk_order best)"
proof -
  have inv: "net_inv n" using assms net_reach_inv by blast
  note I = net_invD [OF inv assms(4)] and J = net_invD [OF inv assms(5)]
  have inj: "inj_on bulk_order (cn_seen n p)" using inv I(2) by (auto simp: net_inv_def intro: inj_on_subset)
  show ?thesis
  proof (cases "ce_current_order e")
    case None
    with I(3) J(3) assms(6) show ?thesis by (auto simp: tracks_def split: option.splits)
  next
    case (Some best)
    with I(3) obtain x where x: "x \<in> cn_seen n p" "bulk_order x = best" "ce_current_digest e = Some (bulk_digest x)"
      and le: "\<forall>y\<in>cn_seen n p. bulk_order y \<le> best" by (auto simp: tracks_def)
    with J(3) assms(6) obtain best' y where y: "ce_current_order e' = Some best'" "y \<in> cn_seen n p"
        "bulk_order y = best'" "ce_current_digest e' = Some (bulk_digest y)"
      and le': "\<forall>z\<in>cn_seen n p. bulk_order z \<le> best'" by (auto simp: tracks_def split: option.splits)
    from x y le le' have "bulk_order x = bulk_order y" by (auto intro: order.antisym)
    with inj x y have "x = y" by (auto simp: inj_on_def)
    with Some x y le show ?thesis by auto
  qed
qed

text \<open>A local copy is newer than everything its engine has seen.\<close>

lemma local_copy_is_newest:
  assumes "net_reach sha n0 n" and "net_start n0" and "unsaturated n"
    and "cn_engines n p = Some e" and "local_action sha a e = (Some operation, e')"
    and "ce_lamport e' < - 1"
  shows "(\<forall>operation'\<in>cn_seen n p. bulk_order operation' < bulk_order operation)
    \<and> ce_current_order e' = Some (bulk_order operation) \<and> operation \<notin> cn_sent n"
proof -
  have inv: "net_inv n" using assms net_reach_inv by blast
  note I = net_invD [OF inv assms(4)]
  from local_action_result [OF assms(5)] have sends: "sends operation e e'" by simp
  from sends_fresh(2) [OF I(4) sends assms(6)] have "operation \<notin> cn_sent n" by blast
  with sends sent_is_newest [OF I(3) sends assms(6)] show ?thesis by (simp add: sends_def)
qed

subsection \<open>Two peers\<close>

text \<open>The peers \<open>a\<close> and \<open>b\<close>; \<open>a\<close> copies a text, which reaches \<open>b\<close>. The digest is the identity.\<close>

definition demo_engine :: "string \<Rightarrow> clipboard_engine" where
  "demo_engine p = \<lparr>ce_local_peer = p, ce_boot_id = demo_boot 1, ce_last_local_revision = 7,
     ce_local_sequence = 0, ce_lamport = 0, ce_text_limit = 64, ce_current_order = None,
     ce_current_digest = None, ce_applied_remote_echo = None\<rparr>"

definition demo_copied :: clipboard_engine where
  "demo_copied = snd (local_action id (CopyText 8 ''hi'') (demo_engine ''a''))"

definition demo_operation :: clipboard_bulk_operation where
  "demo_operation = BulkText \<lparr>ct_operation_id = \<lparr>op_boot_id = demo_boot 1, op_local_sequence = 1\<rparr>,
     ct_origin_peer = ''a'', ct_system_revision = 8, ct_lamport = 1,
     ct_digest = string_bytes ''hi'', ct_text = ''hi''\<rparr>"

definition demo_net :: clip_net where
  "demo_net = \<lparr>cn_engines = [''a'' \<mapsto> demo_engine ''a'', ''b'' \<mapsto> demo_engine ''b''],
     cn_sent = {}, cn_seen = (\<lambda>_. {})\<rparr>"

definition demo_net_copied :: clip_net where
  "demo_net_copied = demo_net\<lparr>cn_engines := (cn_engines demo_net)(''a'' \<mapsto> demo_copied),
     cn_sent := cn_sent demo_net \<union> set_option (Some demo_operation),
     cn_seen := (cn_seen demo_net)(''a'' := cn_seen demo_net ''a'' \<union> set_option (Some demo_operation))\<rparr>"

definition demo_received :: clipboard_engine where
  "demo_received = receive_bulk id 3 demo_operation (demo_engine ''b'')"

definition demo_net_delivered :: clip_net where
  "demo_net_delivered = demo_net_copied\<lparr>cn_engines := (cn_engines demo_net_copied)(''b'' \<mapsto> demo_received),
     cn_seen := (cn_seen demo_net_copied)(''b'' := cn_seen demo_net_copied ''b'' \<union>
       (if bulk_acceptable id (demo_engine ''b'') demo_operation then {demo_operation} else {}))\<rparr>"

lemma demo_copy: "local_action id (CopyText 8 ''hi'') (demo_engine ''a'') = (Some demo_operation, demo_copied)"
  by (simp add: demo_copied_def demo_engine_def demo_operation_def local_action_defs is_echo_def
      string_bytes_def saturating_add_def)

lemma demo_not_blank: "\<not> is_blank ''a''" "\<not> is_blank ''b''"
  by code_simp+

lemma demo_accepted: "bulk_acceptable id (demo_engine p) demo_operation"
  using demo_not_blank
  by (simp add: demo_operation_def demo_engine_def text_acceptable_def MAX_PEER_ID_BYTES_def)

lemma demo_net_start: "net_start demo_net"
proof -
  have "engine_new p (demo_boot 1) 7 64 = Inr (demo_engine p)" if "p = ''a'' \<or> p = ''b''" for p
    using that demo_not_blank by (auto simp: engine_new_def demo_engine_def MAX_PEER_ID_BYTES_def)
  then show ?thesis by (auto simp: net_start_def demo_net_def split: if_splits)
qed

lemma demo_net_reach: "net_reach id demo_net demo_net_delivered"
proof -
  have "net_step id demo_net demo_net_copied"
    unfolding demo_net_copied_def by (rule net_copy [OF _ demo_copy]) (simp add: demo_net_def)
  moreover have "net_step id demo_net_copied demo_net_delivered"
    unfolding demo_net_delivered_def demo_received_def
    by (rule net_deliver) (simp_all add: demo_net_copied_def demo_net_def)
  ultimately show ?thesis by (blast intro: net_refl net_next)
qed

lemma demo_lamports: "ce_lamport demo_copied = 1" "ce_lamport demo_received = 1"
  using demo_accepted [of "''b''"]
  by (simp_all add: demo_copied_def demo_received_def demo_engine_def local_action_defs is_echo_def
      saturating_add_def string_bytes_def receive_bulk_cases demo_operation_def)

lemma one_below_max: "(1 :: u64) < - 1"
  by (simp add: word_less_nat_alt unsigned_minus_1_eq_mask mask_eq_exp_minus_1)

lemma demo_unsaturated: "unsaturated demo_net_delivered"
  using one_below_max
  by (auto simp: unsaturated_def demo_net_delivered_def demo_net_copied_def demo_net_def demo_lamports
      split: if_splits)

lemma demo_delivered_simps:
  "cn_engines demo_net_delivered ''a'' = Some demo_copied"
  "cn_engines demo_net_delivered ''b'' = Some demo_received"
  "cn_seen demo_net_delivered ''a'' = {demo_operation}"
  "cn_seen demo_net_delivered ''b'' = {demo_operation}"
  by (simp_all add: demo_net_delivered_def demo_net_copied_def demo_net_def demo_accepted)

theorem clipboards_converge_witness:
  "ce_current_order demo_copied = ce_current_order demo_received
    \<and> ce_current_digest demo_copied = Some (string_bytes ''hi'')"
  using clipboards_converge [OF demo_net_reach demo_net_start demo_unsaturated, of "''a''" demo_copied "''b''" demo_received]
  by (auto simp: demo_delivered_simps demo_operation_def)

end
