(* ===== verification/Transport_Budget.thy ===== *)
theory Transport_Budget
  imports Protocol_Codec
begin

text \<open>
  Bounded memory in the transport (\<open>quic_transport.rs\<close>): the budget for bulk payloads, which many
  threads reserve with a compare-and-exchange loop and release when a reservation is dropped, and
  the byte budget of the queue of critical input, which works the same way.

  One iteration of the loop is a function; the threads are a step relation whose steps are the
  atomic operations, in any interleaving and with spurious failures of the weak exchange. The
  lemmas show that what is counted is what is held, within the limit.
\<close>

definition MAX_STREAM_BYTES :: nat where "MAX_STREAM_BYTES = 50331648"
definition MAX_BULK_MEMORY_BYTES :: nat where "MAX_BULK_MEMORY_BYTES = 134217728"
definition INBOUND_BULK_RESERVATION_BYTES :: nat where "INBOUND_BULK_RESERVATION_BYTES = 130023424"
definition INPUT_QUEUE_FRAMES :: nat where "INPUT_QUEUE_FRAMES = 256"
definition INPUT_QUEUE_BYTES :: nat where "INPUT_QUEUE_BYTES = 262144"

section \<open>One attempt to reserve\<close>

definition bulk_reserve_next :: "nat \<Rightarrow> nat \<Rightarrow> nat \<Rightarrow> (string, nat) result" where
  "bulk_reserve_next limit bytes used =
     (case usize_checked_add used bytes of
        None \<Rightarrow> Inl ''bulk memory budget overflow''
      | Some next_used \<Rightarrow>
          if next_used > limit
          then Inl (''bulk memory budget exceeded: '' @ show_nat next_used @ '' bytes requested, ''
            @ show_nat (limit - used) @ '' bytes available'')
          else Inr next_used)"

definition input_reserve_next :: "nat \<Rightarrow> nat \<Rightarrow> (string, nat) result" where
  "input_reserve_next added current =
     (case usize_checked_add current added of
        None \<Rightarrow> Inl ''critical input byte budget overflow''
      | Some next_used \<Rightarrow>
          if next_used > INPUT_QUEUE_BYTES
          then Inl (''critical input byte budget exceeded ('' @ show_nat INPUT_QUEUE_BYTES @ '' bytes)'')
          else Inr next_used)"

lemma bulk_reserve_next_iff:
  "limit < 18446744073709551616 \<Longrightarrow>
   bulk_reserve_next limit bytes used = Inr n \<longleftrightarrow> n = used + bytes \<and> n \<le> limit"
  by (auto simp: bulk_reserve_next_def usize_checked_add_def)

lemma input_reserve_next_iff:
  "input_reserve_next added current = Inr n \<longleftrightarrow> n = current + added \<and> n \<le> INPUT_QUEUE_BYTES"
  by (auto simp: input_reserve_next_def usize_checked_add_def INPUT_QUEUE_BYTES_def)

text \<open>\<open>fetch_sub\<close> on a machine word of 64 bits wraps around.\<close>

definition fetch_sub :: "nat \<Rightarrow> nat \<Rightarrow> nat" where
  "fetch_sub used bytes = (used + (18446744073709551616 - bytes)) mod 18446744073709551616"

lemma fetch_sub_no_wrap:
  "bytes \<le> used \<Longrightarrow> used < 18446744073709551616 \<Longrightarrow> fetch_sub used bytes = used - bytes"
proof -
  assume *: "bytes \<le> used" "used < 18446744073709551616"
  then have eq: "used + (18446744073709551616 - bytes) = (used - bytes) + 18446744073709551616" by simp
  show ?thesis unfolding fetch_sub_def eq using * by (simp only: mod_add_self2) simp
qed

section \<open>Any number of threads\<close>

text \<open>
  A reservation is idle, has loaded the counter and is about to exchange it, or holds its bytes.
\<close>

datatype reservation = ResIdle | ResTrying nat nat | ResHolding nat

record 't budget_state =
  bu_used :: nat
  bu_reservation :: "'t \<Rightarrow> reservation"

inductive budget_step ::
  "(nat \<Rightarrow> nat \<Rightarrow> (string, nat) result) \<Rightarrow> 't budget_state \<Rightarrow> 't budget_state \<Rightarrow> bool" for reserve_next where
  budget_load: "bu_reservation b t = ResIdle \<Longrightarrow>
    budget_step reserve_next b
      (b\<lparr>bu_reservation := (bu_reservation b)(t := ResTrying bytes (bu_used b))\<rparr>)"
| budget_exchange: "\<lbrakk>bu_reservation b t = ResTrying bytes observed; reserve_next bytes observed = Inr n;
      bu_used b = observed\<rbrakk> \<Longrightarrow>
    budget_step reserve_next b
      (b\<lparr>bu_used := n, bu_reservation := (bu_reservation b)(t := ResHolding bytes)\<rparr>)"
| budget_retry: "\<lbrakk>bu_reservation b t = ResTrying bytes observed; reserve_next bytes observed = Inr n\<rbrakk> \<Longrightarrow>
    budget_step reserve_next b
      (b\<lparr>bu_reservation := (bu_reservation b)(t := ResTrying bytes (bu_used b))\<rparr>)"
| budget_refuse: "\<lbrakk>bu_reservation b t = ResTrying bytes observed; reserve_next bytes observed = Inl err\<rbrakk> \<Longrightarrow>
    budget_step reserve_next b (b\<lparr>bu_reservation := (bu_reservation b)(t := ResIdle)\<rparr>)"
| budget_drop: "bu_reservation b t = ResHolding bytes \<Longrightarrow>
    budget_step reserve_next b
      (b\<lparr>bu_used := fetch_sub (bu_used b) bytes, bu_reservation := (bu_reservation b)(t := ResIdle)\<rparr>)"

inductive budget_reach ::
  "(nat \<Rightarrow> nat \<Rightarrow> (string, nat) result) \<Rightarrow> 't budget_state \<Rightarrow> bool" for reserve_next where
  budget_new: "budget_reach reserve_next \<lparr>bu_used = 0, bu_reservation = (\<lambda>_. ResIdle)\<rparr>"
| budget_next: "\<lbrakk>budget_reach reserve_next b; budget_step reserve_next b b'\<rbrakk> \<Longrightarrow> budget_reach reserve_next b'"

fun held_bytes :: "reservation \<Rightarrow> nat" where
  "held_bytes (ResHolding bytes) = bytes"
| "held_bytes _ = 0"

definition holders :: "'t budget_state \<Rightarrow> 't set" where
  "holders b = {t. \<exists>bytes. bu_reservation b t = ResHolding bytes}"

definition total_held :: "'t budget_state \<Rightarrow> nat" where
  "total_held b = (\<Sum>t\<in>holders b. held_bytes (bu_reservation b t))"

text \<open>The contract of a reservation: it adds its bytes and stays within a limit below the word size.\<close>

locale byte_budget =
  fixes reserve_next :: "nat \<Rightarrow> nat \<Rightarrow> (string, nat) result" and limit :: nat
  assumes reserve_iff: "reserve_next bytes used = Inr n \<longleftrightarrow> n = used + bytes \<and> n \<le> limit"
    and limit_word: "limit < 18446744073709551616"
begin

definition sound :: "'t budget_state \<Rightarrow> bool" where
  "sound b \<longleftrightarrow> finite (holders b) \<and> bu_used b = total_held b \<and> bu_used b \<le> limit"

lemma holders_update:
  "holders (b\<lparr>bu_used := u, bu_reservation := (bu_reservation b)(t := r)\<rparr>) =
     (if \<exists>bytes. r = ResHolding bytes then insert t (holders b) else holders b - {t})"
  "holders (b\<lparr>bu_reservation := (bu_reservation b)(t := r)\<rparr>) =
     (if \<exists>bytes. r = ResHolding bytes then insert t (holders b) else holders b - {t})"
  by (auto simp: holders_def)

lemma total_held_insert:
  assumes "finite (holders b)" and "t \<notin> holders b"
  shows "total_held (b\<lparr>bu_used := u, bu_reservation := (bu_reservation b)(t := ResHolding bytes)\<rparr>) =
    total_held b + bytes"
proof -
  have "(\<Sum>s\<in>holders b. held_bytes (((bu_reservation b)(t := ResHolding bytes)) s)) =
      (\<Sum>s\<in>holders b. held_bytes (bu_reservation b s))"
    using assms(2) by (intro sum.cong) auto
  with assms show ?thesis by (simp add: total_held_def holders_update)
qed

lemma total_held_remove:
  assumes "finite (holders b)" and "bu_reservation b t = ResHolding bytes"
  shows "total_held b =
    total_held (b\<lparr>bu_used := u, bu_reservation := (bu_reservation b)(t := ResIdle)\<rparr>) + bytes"
proof -
  from assms(2) have t: "t \<in> holders b" by (auto simp: holders_def)
  have "(\<Sum>s\<in>holders b - {t}. held_bytes (((bu_reservation b)(t := ResIdle)) s)) =
      (\<Sum>s\<in>holders b - {t}. held_bytes (bu_reservation b s))"
    by (intro sum.cong) auto
  with assms t show ?thesis
    by (simp add: total_held_def holders_update sum.remove [OF assms(1) t])
qed

lemma total_held_same:
  assumes "t \<notin> holders b" and "\<nexists>bytes. r = ResHolding bytes"
  shows "total_held (b\<lparr>bu_reservation := (bu_reservation b)(t := r)\<rparr>) = total_held b"
    and "holders (b\<lparr>bu_reservation := (bu_reservation b)(t := r)\<rparr>) = holders b"
proof -
  show h: "holders (b\<lparr>bu_reservation := (bu_reservation b)(t := r)\<rparr>) = holders b"
    using assms by (simp add: holders_update)
  have "(\<Sum>s\<in>holders b. held_bytes (((bu_reservation b)(t := r)) s)) =
      (\<Sum>s\<in>holders b. held_bytes (bu_reservation b s))"
    using assms(1) by (intro sum.cong) auto
  then show "total_held (b\<lparr>bu_reservation := (bu_reservation b)(t := r)\<rparr>) = total_held b"
    unfolding total_held_def h by simp
qed

lemma step_sound:
  assumes "budget_step reserve_next b b'" and "sound b"
  shows "sound b'"
  using assms(1)
proof cases
  case (budget_exchange t bytes observed n)
  then have "t \<notin> holders b" by (auto simp: holders_def)
  with budget_exchange assms(2) show ?thesis
    by (simp add: sound_def total_held_insert reserve_iff holders_update)
next
  case (budget_drop t bytes)
  from assms(2) have fin: "finite (holders b)" by (simp add: sound_def)
  note split_held = total_held_remove [OF fin budget_drop(2), of "fetch_sub (bu_used b) bytes"]
  from assms(2) split_held have "bytes \<le> bu_used b" "bu_used b < 18446744073709551616"
    using limit_word by (auto simp: sound_def)
  then have drop: "fetch_sub (bu_used b) bytes = bu_used b - bytes" by (rule fetch_sub_no_wrap)
  from assms(2) have used: "bu_used b = total_held b" "bu_used b \<le> limit" by (simp_all add: sound_def)
  have "total_held b = total_held b' + bytes" using split_held by (simp only: budget_drop(1))
  with drop used(1) have "fetch_sub (bu_used b) bytes = total_held b'" by linarith
  moreover have "fetch_sub (bu_used b) bytes \<le> limit" using drop used(2) by simp
  moreover have "finite (holders b')" using budget_drop(1) fin by (simp add: holders_update)
  ultimately show ?thesis using budget_drop(1) by (simp add: sound_def)
next
  case (budget_load t bytes)
  then have "t \<notin> holders b" by (auto simp: holders_def)
  with budget_load assms(2) show ?thesis by (simp add: sound_def total_held_same)
next
  case (budget_retry t bytes observed n)
  then have "t \<notin> holders b" by (auto simp: holders_def)
  with budget_retry assms(2) show ?thesis by (simp add: sound_def total_held_same)
next
  case (budget_refuse t bytes observed err)
  then have "t \<notin> holders b" by (auto simp: holders_def)
  with budget_refuse assms(2) show ?thesis by (simp add: sound_def total_held_same)
qed

lemma reach_sound: "budget_reach reserve_next b \<Longrightarrow> sound b"
proof (induction rule: budget_reach.induct)
  case budget_new
  show ?case by (simp add: sound_def holders_def total_held_def)
qed (rule step_sound)

end

interpretation bulk_budget: byte_budget "bulk_reserve_next MAX_BULK_MEMORY_BYTES" MAX_BULK_MEMORY_BYTES
  by unfold_locales (simp_all add: bulk_reserve_next_iff MAX_BULK_MEMORY_BYTES_def)

interpretation input_budget: byte_budget input_reserve_next INPUT_QUEUE_BYTES
  by unfold_locales (simp_all add: input_reserve_next_iff INPUT_QUEUE_BYTES_def)

section \<open>The bulk budget\<close>

text \<open>
  Running work under a reservation: the reservation lives until the work is done, so afterwards the
  counter is what it was.
\<close>

definition with_bulk_memory_budget ::
  "nat \<Rightarrow> (unit \<Rightarrow> 'a) \<Rightarrow> nat \<Rightarrow> (string, 'a) result \<times> nat" where
  "with_bulk_memory_budget bytes work used =
     (case bulk_reserve_next MAX_BULK_MEMORY_BYTES bytes used of
        Inl e \<Rightarrow> (Inl e, used)
      | Inr reserved \<Rightarrow> (Inr (work ()), fetch_sub reserved bytes))"

lemma with_bulk_memory_budget_result:
  assumes "used \<le> MAX_BULK_MEMORY_BYTES"
  shows "with_bulk_memory_budget bytes work used =
    (if used + bytes \<le> MAX_BULK_MEMORY_BYTES then (Inr (work ()), used)
     else (Inl (projl (bulk_reserve_next MAX_BULK_MEMORY_BYTES bytes used)), used))"
proof (cases "bulk_reserve_next MAX_BULK_MEMORY_BYTES bytes used")
  case (Inl e)
  then have "\<not> used + bytes \<le> MAX_BULK_MEMORY_BYTES"
    using bulk_budget.reserve_iff [of bytes used "used + bytes"] by auto
  with Inl show ?thesis by (simp add: with_bulk_memory_budget_def)
next
  case (Inr n)
  then have n: "n = used + bytes" "n \<le> MAX_BULK_MEMORY_BYTES"
    using bulk_budget.reserve_iff by auto
  with bulk_budget.limit_word have "fetch_sub n bytes = used"
    by (subst fetch_sub_no_wrap) auto
  with Inr n show ?thesis by (simp add: with_bulk_memory_budget_def)
qed

lemma holder_le_used:
  assumes "finite (holders b)" and "bu_reservation b t = ResHolding n" and "bu_reservation b t' = ResHolding n'"
    and "t \<noteq> t'"
  shows "n + n' \<le> total_held b"
proof -
  have "(\<Sum>s\<in>{t, t'}. held_bytes (bu_reservation b s)) \<le> total_held b"
    unfolding total_held_def using assms by (intro sum_mono2) (auto simp: holders_def)
  with assms show ?thesis by simp
qed

text \<open>C32. The bulk budget is exact under any interleaving: what is counted is the sum of what the live
  reservations hold and never exceeds the limit, a thread whose exchange is not disturbed gets its
  bytes exactly when they fit, and two inbound payloads are never in memory at once.\<close>

theorem bulk_memory_bounded:
  assumes "budget_reach (bulk_reserve_next MAX_BULK_MEMORY_BYTES) b"
  shows "bu_used b = (\<Sum>t\<in>holders b. held_bytes (bu_reservation b t))
    \<and> bu_used b \<le> MAX_BULK_MEMORY_BYTES
    \<and> (\<forall>t bytes. bu_reservation b t = ResTrying bytes (bu_used b) \<longrightarrow>
          (bu_used b + bytes \<le> MAX_BULK_MEMORY_BYTES \<longleftrightarrow>
           (\<exists>b'. budget_step (bulk_reserve_next MAX_BULK_MEMORY_BYTES) b b'
              \<and> bu_reservation b' t = ResHolding bytes)))
    \<and> (\<forall>t t'. bu_reservation b t = ResHolding INBOUND_BULK_RESERVATION_BYTES
          \<and> bu_reservation b t' = ResHolding INBOUND_BULK_RESERVATION_BYTES \<longrightarrow> t = t')"
proof -
  from bulk_budget.reach_sound [OF assms] have sound: "finite (holders b)" "bu_used b = total_held b"
    "bu_used b \<le> MAX_BULK_MEMORY_BYTES" by (simp_all add: bulk_budget.sound_def)
  have admit: "bu_used b + bytes \<le> MAX_BULK_MEMORY_BYTES \<longleftrightarrow>
      (\<exists>b'. budget_step (bulk_reserve_next MAX_BULK_MEMORY_BYTES) b b' \<and> bu_reservation b' t = ResHolding bytes)"
    if trying: "bu_reservation b t = ResTrying bytes (bu_used b)" for t bytes
  proof
    assume "bu_used b + bytes \<le> MAX_BULK_MEMORY_BYTES"
    then have "bulk_reserve_next MAX_BULK_MEMORY_BYTES bytes (bu_used b) = Inr (bu_used b + bytes)"
      by (simp add: bulk_budget.reserve_iff)
    from budget_step.budget_exchange [where b = b and observed = "bu_used b"
        and reserve_next = "bulk_reserve_next MAX_BULK_MEMORY_BYTES", OF trying this]
    show "\<exists>b'. budget_step (bulk_reserve_next MAX_BULK_MEMORY_BYTES) b b' \<and> bu_reservation b' t = ResHolding bytes"
      by (intro exI conjI) auto
  next
    assume "\<exists>b'. budget_step (bulk_reserve_next MAX_BULK_MEMORY_BYTES) b b' \<and> bu_reservation b' t = ResHolding bytes"
    with trying show "bu_used b + bytes \<le> MAX_BULK_MEMORY_BYTES"
      by (auto elim!: budget_step.cases simp: bulk_budget.reserve_iff split: if_splits)
  qed
  have "t = t'" if "bu_reservation b t = ResHolding INBOUND_BULK_RESERVATION_BYTES"
    "bu_reservation b t' = ResHolding INBOUND_BULK_RESERVATION_BYTES" for t t'
    using holder_le_used [OF sound(1) that] sound(2,3)
    by (auto simp: INBOUND_BULK_RESERVATION_BYTES_def MAX_BULK_MEMORY_BYTES_def)
  with sound admit show ?thesis by (auto simp: total_held_def)
qed

theorem bulk_memory_bounded_witness:
  "\<exists>b :: bool budget_state. budget_reach (bulk_reserve_next MAX_BULK_MEMORY_BYTES) b
    \<and> bu_reservation b True = ResHolding INBOUND_BULK_RESERVATION_BYTES
    \<and> bu_reservation b False \<noteq> ResHolding INBOUND_BULK_RESERVATION_BYTES \<and> 0 < bu_used b"
proof -
  let ?next = "bulk_reserve_next MAX_BULK_MEMORY_BYTES" and ?n = INBOUND_BULK_RESERVATION_BYTES
  let ?b0 = "\<lparr>bu_used = 0, bu_reservation = (\<lambda>_ :: bool. ResIdle)\<rparr>"
  let ?b1 = "?b0\<lparr>bu_reservation := (bu_reservation ?b0)(True := ResTrying ?n (bu_used ?b0))\<rparr>"
  let ?b2 = "?b1\<lparr>bu_used := ?n, bu_reservation := (bu_reservation ?b1)(True := ResHolding ?n)\<rparr>"
  have "budget_step ?next ?b0 ?b1" by (rule budget_load) simp
  moreover have "budget_step ?next ?b1 ?b2"
    by (rule budget_exchange [where observed = 0])
      (simp_all add: bulk_reserve_next_def usize_checked_add_def INBOUND_BULK_RESERVATION_BYTES_def
        MAX_BULK_MEMORY_BYTES_def)
  ultimately have reach: "budget_reach ?next ?b2" using budget_new [of ?next] by (blast intro: budget_next)
  have "bu_reservation ?b2 True = ResHolding ?n" by simp
  moreover from bulk_memory_bounded [OF reach] this
  have "bu_reservation ?b2 False \<noteq> ResHolding ?n" by blast
  moreover have "0 < bu_used ?b2" by (simp add: INBOUND_BULK_RESERVATION_BYTES_def)
  ultimately show ?thesis using reach by blast
qed

end
