(* ===== verification/Transport_Streams.thy ===== *)
theory Transport_Streams
  imports Transport_Budget Transport_Types
begin

text \<open>
  The streams of the transport (\<open>quic_transport.rs\<close>): the bounded queue of critical input on the
  sending side, what becomes of an accepted stream by its preface and peer, the loops that read the
  input and control streams, and the control frame rate.

  QUIC itself is not modelled: a stream is the list of chunks the library returns and how it ends.
  The handlers are functions on a state of their own.
\<close>

definition CONTROL_PREFACE :: "u8 list" where "CONTROL_PREFACE = [0x4D, 0x4B, 0x43, 0x32]"
definition INPUT_PREFACE :: "u8 list" where "INPUT_PREFACE = [0x4D, 0x4B, 0x49, 0x32]"
definition MAX_CONTROL_FRAMES_PER_SECOND :: u32 where "MAX_CONTROL_FRAMES_PER_SECOND = 128"

text \<open>The errors, by the message they are reported with.\<close>

datatype stream_error =
    InvalidFrame protocol_error
  | BudgetRefused string
  | InputQueueFull
  | StreamClosed
  | ReadFailed
  | WriteFailed
  | PartialFrame protocol_error
  | HandlerRejected
  | RateExceeded

section \<open>The queue of critical input\<close>

text \<open>
  The channel, the byte budget, the item the writer task holds, and what it has written to the
  stream. An item gives its bytes back when it is dropped: after it was written, or when the
  channel refuses it.
\<close>

record input_queue =
  iq_queue :: "u8 list list"
  iq_budget :: nat
  iq_in_flight :: "u8 list option"
  iq_closed :: bool
  iq_wire :: "u8 list"

definition input_queue_new :: input_queue where
  "input_queue_new = \<lparr>iq_queue = [], iq_budget = 0, iq_in_flight = None, iq_closed = False, iq_wire = []\<rparr>"

definition input_try_send ::
  "critical_envelope codec \<Rightarrow> critical_frame \<Rightarrow> input_queue \<Rightarrow> (stream_error, unit) result \<times> input_queue" where
  "input_try_send C frame q =
     (case encode_critical C frame of
        Inl e \<Rightarrow> (Inl (InvalidFrame e), q)
      | Inr bytes \<Rightarrow>
          (case input_reserve_next (length bytes) (iq_budget q) of
             Inl message \<Rightarrow> (Inl (BudgetRefused message), q)
           | Inr reserved \<Rightarrow>
               if iq_closed q then (Inl StreamClosed, q\<lparr>iq_budget := fetch_sub reserved (length bytes)\<rparr>)
               else if length (iq_queue q) \<ge> INPUT_QUEUE_FRAMES
               then (Inl InputQueueFull, q\<lparr>iq_budget := fetch_sub reserved (length bytes)\<rparr>)
               else (Inr (), q\<lparr>iq_budget := reserved, iq_queue := iq_queue q @ [bytes]\<rparr>)))"

text \<open>The writer: it takes the next item, writes it, and drops everything when a write fails.\<close>

definition input_take :: "input_queue \<Rightarrow> input_queue" where
  "input_take q =
     (case (iq_in_flight q, iq_queue q) of
        (None, bytes # rest) \<Rightarrow> q\<lparr>iq_in_flight := Some bytes, iq_queue := rest\<rparr>
      | _ \<Rightarrow> q)"

definition input_written :: "input_queue \<Rightarrow> input_queue" where
  "input_written q =
     (case iq_in_flight q of
        None \<Rightarrow> q
      | Some bytes \<Rightarrow> q\<lparr>iq_in_flight := None, iq_budget := fetch_sub (iq_budget q) (length bytes),
          iq_wire := iq_wire q @ bytes\<rparr>)"

fun drop_all :: "u8 list list \<Rightarrow> nat \<Rightarrow> nat" where
  "drop_all [] budget = budget"
| "drop_all (bytes # rest) budget = drop_all rest (fetch_sub budget (length bytes))"

definition input_write_failed :: "nat \<Rightarrow> input_queue \<Rightarrow> input_queue" where
  "input_write_failed written q =
     (case iq_in_flight q of
        None \<Rightarrow> q
      | Some bytes \<Rightarrow> q\<lparr>iq_in_flight := None, iq_queue := [], iq_closed := True,
          iq_budget := drop_all (bytes # iq_queue q) (iq_budget q),
          iq_wire := iq_wire q @ take written bytes\<rparr>)"

text \<open>What the queue accepted so far is the ghost argument of the step relation.\<close>

inductive input_queue_step ::
  "critical_envelope codec \<Rightarrow> critical_frame list \<times> input_queue \<Rightarrow> critical_frame list \<times> input_queue \<Rightarrow> bool" for C where
  queue_send: "input_try_send C frame q = (Inr (), q') \<Longrightarrow>
    input_queue_step C (accepted, q) (accepted @ [frame], q')"
| queue_refuse: "input_try_send C frame q = (Inl e, q') \<Longrightarrow> input_queue_step C (accepted, q) (accepted, q')"
| queue_take: "input_queue_step C (accepted, q) (accepted, input_take q)"
| queue_written: "input_queue_step C (accepted, q) (accepted, input_written q)"
| queue_write_failed: "input_queue_step C (accepted, q) (accepted, input_write_failed written q)"

inductive input_queue_reach :: "critical_envelope codec \<Rightarrow> critical_frame list \<times> input_queue \<Rightarrow> bool" for C where
  queue_new: "input_queue_reach C ([], input_queue_new)"
| queue_next: "\<lbrakk>input_queue_reach C s; input_queue_step C s s'\<rbrakk> \<Longrightarrow> input_queue_reach C s'"

section \<open>Accepting streams\<close>

datatype stream_action =
    RunControl authenticated_peer
  | RunInput authenticated_peer
  | RunBulk connection_peer
  | RefuseStream

text \<open>Per connection: the flags \<open>control_active\<close> and \<open>input_active\<close>.\<close>

record stream_flags =
  sf_control_active :: bool
  sf_input_active :: bool

definition accept_stream :: "u8 list \<Rightarrow> connection_peer \<Rightarrow> stream_flags \<Rightarrow> stream_action \<times> stream_flags" where
  "accept_stream preface peer flags =
     (if preface = CONTROL_PREFACE then
        (case peer of
           PeerAuthenticated authenticated \<Rightarrow>
             ((if sf_control_active flags then RefuseStream else RunControl authenticated),
              flags\<lparr>sf_control_active := True\<rparr>)
         | PeerUnauthenticated _ _ _ \<Rightarrow> (RefuseStream, flags))
      else if preface = INPUT_PREFACE then
        (case peer of
           PeerAuthenticated authenticated \<Rightarrow>
             (if ap_role authenticated \<noteq> PeerController then (RefuseStream, flags)
              else ((if sf_input_active flags then RefuseStream else RunInput authenticated),
                flags\<lparr>sf_input_active := True\<rparr>))
         | PeerUnauthenticated _ _ _ \<Rightarrow> (RefuseStream, flags))
      else (RunBulk peer, flags))"

fun stream_done :: "stream_action \<Rightarrow> stream_flags \<Rightarrow> stream_flags" where
  "stream_done (RunControl _) flags = flags\<lparr>sf_control_active := False\<rparr>"
| "stream_done (RunInput _) flags = flags\<lparr>sf_input_active := False\<rparr>"
| "stream_done _ flags = flags"

text \<open>
  A bulk stream: the whole payload with the preface goes to the handler; the acknowledgement and
  whether the connection is closed, as after a pairing on an unauthenticated connection.
\<close>

definition ack_bytes :: "bool \<Rightarrow> u8 list" where
  "ack_bytes accepted = map of_char (if accepted then ''ok'' else ''reject'')"

definition bulk_stream ::
  "(u8 list \<Rightarrow> connection_peer \<Rightarrow> 's \<Rightarrow> bool \<times> 's) \<Rightarrow> connection_peer \<Rightarrow> u8 list \<Rightarrow> u8 list \<Rightarrow> 's
     \<Rightarrow> (u8 list \<times> bool) \<times> 's" where
  "bulk_stream handler peer preface payload s =
     (let (accepted, s') = handler (preface @ payload) peer s;
          was_unauthenticated = (case peer of PeerUnauthenticated _ _ _ \<Rightarrow> True | _ \<Rightarrow> False)
      in ((ack_bytes accepted, accepted \<and> was_unauthenticated), s'))"

definition verify_stream_ack :: "u8 list \<Rightarrow> (u8 list, unit) result" where
  "verify_stream_ack bytes = (if bytes = map of_char ''ok'' then Inr () else Inl bytes)"

lemma verify_ack_iff: "verify_stream_ack (ack_bytes accepted) = Inr () \<longleftrightarrow> accepted"
  by (simp add: verify_stream_ack_def ack_bytes_def)

text \<open>The streams of one connection, by number, as they open and end.\<close>

record connection_streams =
  cs_flags :: stream_flags
  cs_running :: "nat \<Rightarrow> stream_action option"

inductive streams_step :: "connection_peer \<Rightarrow> connection_streams \<Rightarrow> connection_streams \<Rightarrow> bool" for peer where
  stream_opens: "\<lbrakk>cs_running c i = None; accept_stream preface peer (cs_flags c) = (action, flags)\<rbrakk> \<Longrightarrow>
    streams_step peer c (c\<lparr>cs_flags := flags,
      cs_running := (cs_running c)(i := (if action = RefuseStream then None else Some action))\<rparr>)"
| stream_ends: "cs_running c i = Some action \<Longrightarrow>
    streams_step peer c (c\<lparr>cs_flags := stream_done action (cs_flags c), cs_running := (cs_running c)(i := None)\<rparr>)"

inductive streams_reach :: "connection_peer \<Rightarrow> connection_streams \<Rightarrow> bool" for peer where
  streams_new: "streams_reach peer
    \<lparr>cs_flags = \<lparr>sf_control_active = False, sf_input_active = False\<rparr>, cs_running = (\<lambda>_. None)\<rparr>"
| streams_next: "\<lbrakk>streams_reach peer c; streams_step peer c c'\<rbrakk> \<Longrightarrow> streams_reach peer c'"

section \<open>Reading the input stream\<close>

fun deliver_frames :: "(critical_frame \<Rightarrow> 's \<Rightarrow> bool \<times> 's) \<Rightarrow> critical_frame list \<Rightarrow> 's \<Rightarrow> bool \<times> 's" where
  "deliver_frames handler [] s = (True, s)"
| "deliver_frames handler (frame # frames) s =
     (case handler frame s of
        (False, s') \<Rightarrow> (False, s')
      | (True, s') \<Rightarrow> deliver_frames handler frames s')"

text \<open>
  The chunks that arrive and then either the end of the stream or a failed read.
\<close>

fun run_inbound_input ::
  "critical_envelope codec \<Rightarrow> (critical_frame \<Rightarrow> 's \<Rightarrow> bool \<times> 's) \<Rightarrow> bool \<Rightarrow> u8 list list \<Rightarrow> frame_decoder \<Rightarrow> 's
     \<Rightarrow> ((stream_error, unit) result \<times> 's) option" where
  "run_inbound_input C handler ended [] decoder s =
     (if ended then Some (map_err PartialFrame (decoder_finish decoder), s)
      else Some (Inl ReadFailed, s))"
| "run_inbound_input C handler ended (chunk # chunks) decoder s =
     (case critical_push C decoder chunk of
        None \<Rightarrow> None
      | Some (Inl e, _) \<Rightarrow> Some (Inl (InvalidFrame e), s)
      | Some (Inr frames, decoder') \<Rightarrow>
          (case deliver_frames handler frames s of
             (False, s') \<Rightarrow> Some (Inl HandlerRejected, s')
           | (True, s') \<Rightarrow> run_inbound_input C handler ended chunks decoder' s'))"

section \<open>The control stream\<close>

text \<open>
  The window of the rate: when it started, in milliseconds, and how many frames it has counted.
  The two readings of the clock in one call are taken as one.
\<close>

definition enforce_control_rate :: "nat \<Rightarrow> u32 \<Rightarrow> nat \<times> u32 \<Rightarrow> (stream_error, unit) result \<times> nat \<times> u32" where
  "enforce_control_rate now added window =
     (let (started, count) = (if now - fst window \<ge> 1000 then (now, 0) else window);
          count' = saturating_add count added
      in ((if count' > MAX_CONTROL_FRAMES_PER_SECOND then Inl RateExceeded else Inr ()), started, count'))"

text \<open>The responses of the handler are encoded and written in order.\<close>

fun answer_frames ::
  "envelope codec \<Rightarrow> (control_frame \<Rightarrow> 's \<Rightarrow> control_frame option \<times> 's) \<Rightarrow> (u8 list \<Rightarrow> 'w \<Rightarrow> bool \<times> 'w)
     \<Rightarrow> control_frame list \<Rightarrow> 's \<Rightarrow> 'w \<Rightarrow> (stream_error, unit) result \<times> 's \<times> 'w" where
  "answer_frames C handler write [] s w = (Inr (), s, w)"
| "answer_frames C handler write (frame # frames) s w =
     (case handler frame s of
        (None, s') \<Rightarrow> answer_frames C handler write frames s' w
      | (Some response, s') \<Rightarrow>
          (case encode_control C response of
             Inl e \<Rightarrow> (Inl (InvalidFrame e), s', w)
           | Inr encoded \<Rightarrow>
               (case write encoded w of
                  (False, w') \<Rightarrow> (Inl WriteFailed, s', w')
                | (True, w') \<Rightarrow> answer_frames C handler write frames s' w')))"

fun run_inbound_control ::
  "envelope codec \<Rightarrow> (control_frame \<Rightarrow> 's \<Rightarrow> control_frame option \<times> 's) \<Rightarrow> (u8 list \<Rightarrow> 'w \<Rightarrow> bool \<times> 'w)
     \<Rightarrow> bool \<Rightarrow> (nat \<times> u8 list) list \<Rightarrow> nat \<times> u32 \<Rightarrow> frame_decoder \<Rightarrow> 's \<Rightarrow> 'w
     \<Rightarrow> ((stream_error, unit) result \<times> 's \<times> 'w) option" where
  "run_inbound_control C handler write ended [] window decoder s w =
     (if ended then Some (map_err PartialFrame (decoder_finish decoder), s, w)
      else Some (Inl ReadFailed, s, w))"
| "run_inbound_control C handler write ended ((now, chunk) # chunks) window decoder s w =
     (case control_push C decoder chunk of
        None \<Rightarrow> None
      | Some (Inl e, _) \<Rightarrow> Some (Inl (InvalidFrame e), s, w)
      | Some (Inr frames, decoder') \<Rightarrow>
          (case enforce_control_rate now (of_nat (length frames)) window of
             (Inl e, _) \<Rightarrow> Some (Inl e, s, w)
           | (Inr _, window') \<Rightarrow>
               (case answer_frames C handler write frames s w of
                  (Inl e, s', w') \<Rightarrow> Some (Inl e, s', w')
                | (Inr _, s', w') \<Rightarrow> run_inbound_control C handler write ended chunks window' decoder' s' w')))"

end
