(* ===== verification/Transport_Delivery.thy ===== *)
theory Transport_Delivery
  imports Transport_Streams "HOL-Library.Sublist"
begin

text \<open>
  What the streams of the transport guarantee: the queue of critical input is bounded and in order,
  what the receiving loop hands to its handler is a prefix of what the sender accepted, privileged
  streams are exclusive and authenticated, and control frames are limited to their rate.
\<close>

section \<open>The queue\<close>

definition in_flight_bytes :: "input_queue \<Rightarrow> u8 list" where
  "in_flight_bytes q = (case iq_in_flight q of None \<Rightarrow> [] | Some bytes \<Rightarrow> bytes)"

definition queued_bytes :: "input_queue \<Rightarrow> nat" where
  "queued_bytes q = length (in_flight_bytes q) + length (concat (iq_queue q))"

definition input_queue_inv :: "critical_envelope codec \<Rightarrow> critical_frame list \<times> input_queue \<Rightarrow> bool" where
  "input_queue_inv C s \<longleftrightarrow>
     iq_budget (snd s) = queued_bytes (snd s) \<and> iq_budget (snd s) \<le> INPUT_QUEUE_BYTES
     \<and> length (iq_queue (snd s)) \<le> INPUT_QUEUE_FRAMES
     \<and> (\<exists>encoded. list_all2 (\<lambda>frame bytes. encode_critical C frame = Inr bytes) (fst s) encoded
          \<and> (if iq_closed (snd s)
             then iq_queue (snd s) = [] \<and> iq_in_flight (snd s) = None \<and> prefix (iq_wire (snd s)) (concat encoded)
             else concat encoded = iq_wire (snd s) @ in_flight_bytes (snd s) @ concat (iq_queue (snd s))))"

lemma fetch_sub_add: "a + b < 18446744073709551616 \<Longrightarrow> fetch_sub (a + b) b = a"
  by (simp add: fetch_sub_no_wrap)

lemma drop_all_concat:
  "budget < 18446744073709551616 \<Longrightarrow> length (concat items) \<le> budget \<Longrightarrow>
     drop_all items budget = budget - length (concat items)"
proof (induction items arbitrary: budget)
  case (Cons bytes items)
  then have "fetch_sub budget (length bytes) = budget - length bytes"
    by (simp add: fetch_sub_no_wrap)
  with Cons.IH [of "budget - length bytes"] Cons.prems show ?case by simp
qed simp

lemma input_try_send_cases:
  assumes "input_try_send C frame q = (r, q')" and "iq_budget q \<le> INPUT_QUEUE_BYTES"
  shows "(\<exists>e. r = Inl e) \<and> q' = q
    \<or> (\<exists>bytes. encode_critical C frame = Inr bytes \<and> r = Inr () \<and> \<not> iq_closed q
        \<and> iq_budget q + length bytes \<le> INPUT_QUEUE_BYTES \<and> length (iq_queue q) < INPUT_QUEUE_FRAMES
        \<and> q' = q\<lparr>iq_budget := iq_budget q + length bytes, iq_queue := iq_queue q @ [bytes]\<rparr>)"
proof (cases "encode_critical C frame")
  case (Inr bytes)
  show ?thesis
  proof (cases "input_reserve_next (length bytes) (iq_budget q)")
    case (Inr reserved)
    then have n: "reserved = iq_budget q + length bytes" "reserved \<le> INPUT_QUEUE_BYTES"
      by (simp_all add: input_reserve_next_iff)
    then have "fetch_sub reserved (length bytes) = iq_budget q"
      by (simp add: fetch_sub_add INPUT_QUEUE_BYTES_def)
    with assms(1) \<open>encode_critical C frame = Inr bytes\<close> Inr n show ?thesis
      by (auto simp: input_try_send_def split: if_splits)
  qed (use assms(1) Inr in \<open>auto simp: input_try_send_def\<close>)
qed (use assms(1) in \<open>auto simp: input_try_send_def\<close>)

lemma input_send_inv:
  assumes "input_queue_inv C (accepted, q)" and "input_try_send C frame q = (r, q')"
  shows "input_queue_inv C (if r = Inr () then accepted @ [frame] else accepted, q')"
proof -
  from assms(1) have le: "iq_budget q \<le> INPUT_QUEUE_BYTES" by (simp add: input_queue_inv_def)
  from input_try_send_cases [OF assms(2) le] show ?thesis
  proof
    assume "(\<exists>e. r = Inl e) \<and> q' = q"
    with assms(1) show ?thesis by auto
  next
    assume "\<exists>bytes. encode_critical C frame = Inr bytes \<and> r = Inr () \<and> \<not> iq_closed q
        \<and> iq_budget q + length bytes \<le> INPUT_QUEUE_BYTES \<and> length (iq_queue q) < INPUT_QUEUE_FRAMES
        \<and> q' = q\<lparr>iq_budget := iq_budget q + length bytes, iq_queue := iq_queue q @ [bytes]\<rparr>"
    then obtain bytes where b: "encode_critical C frame = Inr bytes" "r = Inr ()" "\<not> iq_closed q"
      "iq_budget q + length bytes \<le> INPUT_QUEUE_BYTES" "length (iq_queue q) < INPUT_QUEUE_FRAMES"
      "q' = q\<lparr>iq_budget := iq_budget q + length bytes, iq_queue := iq_queue q @ [bytes]\<rparr>" by blast
    from assms(1) b(3) obtain encoded where
      "list_all2 (\<lambda>frame bytes. encode_critical C frame = Inr bytes) accepted encoded"
      "concat encoded = iq_wire q @ in_flight_bytes q @ concat (iq_queue q)"
      by (auto simp: input_queue_inv_def)
    then have "list_all2 (\<lambda>frame bytes. encode_critical C frame = Inr bytes) (accepted @ [frame]) (encoded @ [bytes])
      \<and> concat (encoded @ [bytes]) = iq_wire q' @ in_flight_bytes q' @ concat (iq_queue q')"
      using b by (simp add: list_all2_appendI in_flight_bytes_def)
    with assms(1) b show ?thesis
      unfolding input_queue_inv_def by (auto simp: queued_bytes_def in_flight_bytes_def)
  qed
qed

lemma input_take_inv: "input_queue_inv C (accepted, q) \<Longrightarrow> input_queue_inv C (accepted, input_take q)"
  by (cases "iq_in_flight q"; cases "iq_queue q")
    (auto simp: input_queue_inv_def input_take_def queued_bytes_def in_flight_bytes_def split: if_splits)

lemma input_written_inv:
  assumes "input_queue_inv C (accepted, q)"
  shows "input_queue_inv C (accepted, input_written q)"
proof (cases "iq_in_flight q")
  case (Some bytes)
  from assms Some have budget: "iq_budget q = length (concat (iq_queue q)) + length bytes"
    "iq_budget q \<le> INPUT_QUEUE_BYTES" by (simp_all add: input_queue_inv_def queued_bytes_def in_flight_bytes_def)
  then have "fetch_sub (iq_budget q) (length bytes) = length (concat (iq_queue q))"
    by (simp add: fetch_sub_add INPUT_QUEUE_BYTES_def)
  with assms Some budget show ?thesis
    by (auto simp: input_queue_inv_def input_written_def queued_bytes_def in_flight_bytes_def split: if_splits)
qed (use assms in \<open>simp add: input_written_def\<close>)

lemma input_write_failed_inv:
  assumes "input_queue_inv C (accepted, q)"
  shows "input_queue_inv C (accepted, input_write_failed written q)"
proof (cases "iq_in_flight q")
  case (Some bytes)
  from assms Some have budget: "iq_budget q = length (concat (bytes # iq_queue q))"
    "iq_budget q \<le> INPUT_QUEUE_BYTES" by (simp_all add: input_queue_inv_def queued_bytes_def in_flight_bytes_def)
  then have zero: "drop_all (bytes # iq_queue q) (iq_budget q) = 0"
    by (subst drop_all_concat) (simp_all add: INPUT_QUEUE_BYTES_def)
  from assms Some obtain encoded where enc:
    "list_all2 (\<lambda>frame bytes. encode_critical C frame = Inr bytes) accepted encoded"
    "concat encoded = iq_wire q @ bytes @ concat (iq_queue q)"
    by (auto simp: input_queue_inv_def in_flight_bytes_def split: if_splits)
  have "prefix (take written bytes) (bytes @ concat (iq_queue q))"
    by (rule prefix_order.trans [OF take_is_prefix]) simp
  with enc(2) have "prefix (iq_wire q @ take written bytes) (concat encoded)" by simp
  with enc(1) zero Some show ?thesis
    by (auto simp: input_queue_inv_def input_write_failed_def queued_bytes_def in_flight_bytes_def)
qed (use assms in \<open>simp add: input_write_failed_def\<close>)

lemma input_queue_reach_inv: "input_queue_reach C s \<Longrightarrow> input_queue_inv C s"
proof (induction rule: input_queue_reach.induct)
  case queue_new
  show ?case
    by (simp add: input_queue_inv_def input_queue_new_def queued_bytes_def in_flight_bytes_def)
next
  case (queue_next s s')
  from queue_next(2,3) show ?case
  proof cases
    case (queue_send frame q q' accepted)
    with input_send_inv [of C accepted q frame "Inr ()" q'] queue_next(3) show ?thesis by simp
  next
    case (queue_refuse frame q e q' accepted)
    with input_send_inv [of C accepted q frame "Inl e" q'] queue_next(3) show ?thesis by simp
  qed (simp_all add: input_take_inv input_written_inv input_write_failed_inv)
qed

lemma input_queue_wire:
  assumes "input_queue_reach C (accepted, q)"
  obtains encoded where "list_all2 (\<lambda>frame bytes. encode_critical C frame = Inr bytes) accepted encoded"
    and "prefix (iq_wire q) (concat encoded)"
    and "iq_closed q \<or> iq_in_flight q \<noteq> None \<or> iq_queue q \<noteq> [] \<or> iq_wire q = concat encoded"
proof -
  from input_queue_reach_inv [OF assms] obtain encoded where
    enc: "list_all2 (\<lambda>frame bytes. encode_critical C frame = Inr bytes) accepted encoded"
    and wire: "if iq_closed q then prefix (iq_wire q) (concat encoded)
      else concat encoded = iq_wire q @ in_flight_bytes q @ concat (iq_queue q)"
    by (auto simp: input_queue_inv_def split: if_splits)
  show ?thesis
    by (rule that [OF enc]) (use wire in \<open>auto simp: in_flight_bytes_def split: if_splits option.splits\<close>)
qed

section \<open>The receiving loop\<close>

lemma deliver_append:
  "deliver_frames handler (xs @ ys) s =
     (case deliver_frames handler xs s of
        (False, s') \<Rightarrow> (False, s')
      | (True, s') \<Rightarrow> deliver_frames handler ys s')"
  by (induction xs arbitrary: s) (simp_all split: prod.splits bool.splits)

lemma run_inbound_push:
  assumes "push_chunks MAX_CRITICAL_FRAME_BYTES (decode_critical_payload C) d chunks = Some (Inr frames, d')"
  shows "\<exists>k r ok s'. k \<le> length frames \<and> run_inbound_input C handler ended chunks d s = Some (r, s')
    \<and> deliver_frames handler (take k frames) s = (ok, s')
    \<and> (\<not> ok \<longrightarrow> r = Inl HandlerRejected)
    \<and> (ok \<longrightarrow> k = length frames
        \<and> r = (if ended then map_err PartialFrame (decoder_finish d') else Inl ReadFailed))"
  using assms
proof (induction chunks arbitrary: d frames s)
  case Nil
  then show ?case
    by (intro exI [of _ 0] exI [of _ "if ended then map_err PartialFrame (decoder_finish d') else Inl ReadFailed"]
        exI [of _ True] exI [of _ s]) simp
next
  case (Cons c cs)
  from Cons.prems obtain f1 d1 f2 where
    push: "critical_push C d c = Some (Inr f1, d1)"
    and rest: "push_chunks MAX_CRITICAL_FRAME_BYTES (decode_critical_payload C) d1 cs = Some (Inr f2, d')"
    and frames: "frames = f1 @ f2"
    by (auto simp: critical_push_def split: option.splits prod.splits sum.splits)
  show ?case
  proof (cases "deliver_frames handler f1 s")
    case (Pair ok s1)
    show ?thesis
    proof (cases ok)
      case True
      from Cons.IH [OF rest, of s1] obtain k r ok2 s2 where IH: "k \<le> length f2"
        "run_inbound_input C handler ended cs d1 s1 = Some (r, s2)"
        "deliver_frames handler (take k f2) s1 = (ok2, s2)" "\<not> ok2 \<longrightarrow> r = Inl HandlerRejected"
        "ok2 \<longrightarrow> k = length f2 \<and> r = (if ended then map_err PartialFrame (decoder_finish d') else Inl ReadFailed)"
        by blast
      with Pair True push frames show ?thesis
        by (intro exI [of _ "length f1 + k"] exI [of _ r] exI [of _ ok2] exI [of _ s2])
          (auto simp: deliver_append)
    next
      case False
      with Pair push frames show ?thesis
        by (intro exI [of _ "length f1"] exI [of _ "Inl HandlerRejected"] exI [of _ False] exI [of _ s1]) simp
    qed
  qed
qed

lemma push_chunks_snoc:
  assumes "push_chunks limit decode d (cs @ [c]) = Some (Inr frames, d'')"
  shows "\<exists>f1 d' f2. push_chunks limit decode d cs = Some (Inr f1, d') \<and> frames = f1 @ f2"
  using assms
proof (induction cs arbitrary: d frames)
  case (Cons x cs)
  from Cons.prems obtain g1 d1 g2 where g: "decoder_push limit decode d x = Some (Inr g1, d1)"
    "push_chunks limit decode d1 (cs @ [c]) = Some (Inr g2, d'')" "frames = g1 @ g2"
    by (auto split: option.splits prod.splits sum.splits)
  from Cons.IH [OF g(2)] g show ?case by auto
qed auto

text \<open>C31. Critical input crosses the transport unchanged: whatever the interleaving of sends, refusals, the
  writer and a failing write, and however the stream cuts what was written so far into chunks, the
  receiving loop hands its handler a prefix of the frames the queue accepted, in order and once
  each; all of them, when everything was written and read and the handler rejects none. The queue
  stays within its frame and byte budgets.\<close>

theorem input_lane_delivers:
  assumes "codec_faithful C" and "input_queue_reach C (accepted, q)" and "prefix (concat chunks) (iq_wire q)"
  shows "iq_budget q = queued_bytes q \<and> queued_bytes q \<le> INPUT_QUEUE_BYTES
    \<and> length (iq_queue q) \<le> INPUT_QUEUE_FRAMES
    \<and> (\<exists>k r ok s'. k \<le> length accepted
        \<and> run_inbound_input C handler ended chunks decoder_default s = Some (r, s')
        \<and> deliver_frames handler (take k accepted) s = (ok, s')
        \<and> (ok \<and> concat chunks = iq_wire q \<and> \<not> iq_closed q \<and> iq_in_flight q = None \<and> iq_queue q = []
            \<longrightarrow> k = length accepted \<and> (ended \<longrightarrow> r = Inr ())))"
proof -
  from assms(2) obtain encoded where enc:
    "list_all2 (\<lambda>frame bytes. encode_critical C frame = Inr bytes) accepted encoded"
    "prefix (iq_wire q) (concat encoded)"
    "iq_closed q \<or> iq_in_flight q \<noteq> None \<or> iq_queue q \<noteq> [] \<or> iq_wire q = concat encoded"
    by (rule input_queue_wire)
  have whole: "\<exists>d'. push_chunks MAX_CRITICAL_FRAME_BYTES (decode_critical_payload C) decoder_default cs
      = Some (Inr accepted, d') \<and> decoder_finish d' = Inr ()" if "concat cs = concat encoded" for cs
  proof (rule critical_stream.chunks_frames [OF _ that])
    show "list_all2 (\<lambda>bytes frame. \<exists>payload. bytes = u32_be_bytes (length payload) @ payload
        \<and> 0 < length payload \<and> length payload \<le> MAX_CRITICAL_FRAME_BYTES
        \<and> decode_critical_payload C payload = Inr frame) encoded accepted"
      using enc(1) encode_critical_frame [OF assms(1)] by (simp add: list_all2_conv_all_nth)
  qed
  from assms(3) enc(2) obtain rest where rest: "concat encoded = concat (chunks @ [rest])"
    by (auto simp: prefix_def)
  from whole [OF rest [symmetric]] obtain f1 d' f2 where
    part: "push_chunks MAX_CRITICAL_FRAME_BYTES (decode_critical_payload C) decoder_default chunks = Some (Inr f1, d')"
    and acc: "accepted = f1 @ f2" using push_chunks_snoc by blast
  from run_inbound_push [OF part, of handler ended s] obtain k r ok s' where run: "k \<le> length f1"
    "run_inbound_input C handler ended chunks decoder_default s = Some (r, s')"
    "deliver_frames handler (take k f1) s = (ok, s')"
    "ok \<longrightarrow> k = length f1 \<and> r = (if ended then map_err PartialFrame (decoder_finish d') else Inl ReadFailed)"
    by blast
  have all: "f2 = [] \<and> decoder_finish d' = Inr ()" if "concat chunks = concat encoded"
    using whole [OF that] part acc by auto
  have "k \<le> length accepted \<and> deliver_frames handler (take k accepted) s = (ok, s')"
    using run acc by simp
  moreover have "k = length accepted \<and> (ended \<longrightarrow> r = Inr ())"
    if "ok \<and> concat chunks = iq_wire q \<and> \<not> iq_closed q \<and> iq_in_flight q = None \<and> iq_queue q = []"
    using that run(4) all enc(3) acc by auto
  moreover have "iq_budget q = queued_bytes q \<and> queued_bytes q \<le> INPUT_QUEUE_BYTES \<and> length (iq_queue q) \<le> INPUT_QUEUE_FRAMES"
    using input_queue_reach_inv [OF assms(2)] by (simp add: input_queue_inv_def)
  ultimately show ?thesis using run(2) by blast
qed

text \<open>One key frame, sent and written; the handler keeps a log.\<close>

definition demo_wire_queue :: input_queue where
  "demo_wire_queue = \<lparr>iq_queue = [], iq_budget = 0, iq_in_flight = None, iq_closed = False,
     iq_wire = [0, 0, 0, 2, 7, 9]\<rparr>"

lemma demo_wire_reach: "input_queue_reach demo_key_codec ([demo_key_frame 1 True], demo_wire_queue)"
proof -
  define q1 where "q1 = input_queue_new\<lparr>iq_budget := 6, iq_queue := [[0, 0, 0, 2, 7, 9]]\<rparr>"
  have "input_try_send demo_key_codec (demo_key_frame 1 True) input_queue_new = (Inr (), q1)"
    by (simp add: input_try_send_def demo_encode_key input_reserve_next_def usize_checked_add_def
        INPUT_QUEUE_BYTES_def INPUT_QUEUE_FRAMES_def input_queue_new_def q1_def)
  from queue_next [OF queue_new queue_send [OF this]]
  have "input_queue_reach demo_key_codec ([demo_key_frame 1 True], q1)" by simp
  from queue_next [OF queue_next [OF this queue_take] queue_written]
  have "input_queue_reach demo_key_codec ([demo_key_frame 1 True], input_written (input_take q1))" .
  moreover have "input_written (input_take q1) = demo_wire_queue"
    by (simp add: input_written_def input_take_def q1_def input_queue_new_def demo_wire_queue_def
        fetch_sub_def)
  ultimately show ?thesis by simp
qed

lemma deliver_log: "deliver_frames (\<lambda>frame log. (True, log @ [frame])) frames log = (True, log @ frames)"
  by (induction frames arbitrary: log) simp_all

theorem input_lane_delivers_witness:
  "run_inbound_input demo_key_codec (\<lambda>frame log. (True, log @ [frame])) True [[0, 0], [0, 2, 7], [9]] decoder_default []
     = Some (Inr (), [demo_key_frame 1 True])"
  using input_lane_delivers [OF demo_key_faithful demo_wire_reach, of "[[0, 0], [0, 2, 7], [9]]"
      "\<lambda>frame log. (True, log @ [frame])" True "[]"]
  by (auto simp: demo_wire_queue_def deliver_log simp del: run_inbound_input.simps)

text \<open>The handler keeps a log of the frames it is given.\<close>

lemma deliver_valid:
  assumes "list_all V frames" and "list_all V log"
    and "deliver_frames (\<lambda>frame log. (accept frame, log @ [frame])) frames log = (ok, log')"
  shows "list_all V log'"
  using assms
proof (induction frames arbitrary: log)
  case (Cons frame frames)
  then show ?case using Cons.IH [of "log @ [frame]"] by (auto split: bool.splits)
qed simp

lemma decode_critical_valid:
  "decode_critical_payload C payload = Inr frame \<Longrightarrow> validate_critical frame = Inr ()"
  by (auto simp: decode_critical_payload_def split: if_splits)

lemma inbound_returns_valid:
  assumes "wf_decoder MAX_CRITICAL_FRAME_BYTES d" and "list_all (\<lambda>frame. validate_critical frame = Inr ()) log"
  shows "\<exists>res log'. run_inbound_input C (\<lambda>frame log. (accept frame, log @ [frame])) ended chunks d log = Some (res, log')
    \<and> list_all (\<lambda>frame. validate_critical frame = Inr ()) log'"
  using assms
proof (induction chunks arbitrary: d log)
  case (Cons chunk chunks)
  obtain res d' where push: "decoder_push MAX_CRITICAL_FRAME_BYTES (decode_critical_payload C) d chunk = Some (res, d')"
    and wf: "is_ok res \<Longrightarrow> wf_decoder MAX_CRITICAL_FRAME_BYTES d'"
    using critical_stream.push_terminates [OF Cons.prems(1)] by metis
  show ?case
  proof (cases res)
    case (Inl e)
    with push Cons.prems(2) show ?thesis by (simp add: critical_push_def)
  next
    case (Inr frames)
    have valid: "list_all (\<lambda>frame. validate_critical frame = Inr ()) frames"
      using critical_stream.push_frame_origin [OF Cons.prems(1) push [unfolded Inr]] decode_critical_valid
      unfolding list_all_iff by blast
    obtain ok log1 where dl: "deliver_frames (\<lambda>frame log. (accept frame, log @ [frame])) frames log = (ok, log1)"
      by fastforce
    note log1 = deliver_valid [OF valid Cons.prems(2) dl]
    from Cons.IH [OF _ log1, of d'] wf Inr push dl log1 show ?thesis
      by (cases ok) (simp_all add: critical_push_def)
  qed
qed simp

text \<open>C30. Only well-formed input reaches the injector: whatever bytes a peer writes on the input stream, in
  whatever chunks and however the stream ends, the loop that reads it returns, and every frame it
  hands to the handler passed validation: a session with non-zero identifiers, a non-zero sequence
  number and a complete event.\<close>

theorem inbound_input_well_formed:
  "\<exists>res log. run_inbound_input C (\<lambda>frame log. (accept frame, log @ [frame])) ended chunks decoder_default []
      = Some (res, log)
    \<and> list_all (\<lambda>frame. validate_critical frame = Inr ()) log"
  using inbound_returns_valid [of decoder_default "[]"] by simp

section \<open>Exclusive streams\<close>

definition streams_inv :: "connection_peer \<Rightarrow> connection_streams \<Rightarrow> bool" where
  "streams_inv peer c \<longleftrightarrow>
     (\<forall>i a. cs_running c i = Some (RunControl a) \<longrightarrow>
        peer = PeerAuthenticated a \<and> sf_control_active (cs_flags c)
        \<and> (\<forall>j a'. cs_running c j = Some (RunControl a') \<longrightarrow> j = i))
     \<and> (\<forall>i a. cs_running c i = Some (RunInput a) \<longrightarrow>
        peer = PeerAuthenticated a \<and> ap_role a = PeerController \<and> sf_input_active (cs_flags c)
        \<and> (\<forall>j a'. cs_running c j = Some (RunInput a') \<longrightarrow> j = i))"

lemma accept_stream_cases:
  assumes "accept_stream preface peer flags = (action, flags')"
  shows "(sf_control_active flags \<longrightarrow> sf_control_active flags')
    \<and> (sf_input_active flags \<longrightarrow> sf_input_active flags')
    \<and> (\<forall>a. action = RunControl a \<longrightarrow> peer = PeerAuthenticated a \<and> \<not> sf_control_active flags \<and> sf_control_active flags')
    \<and> (\<forall>a. action = RunInput a \<longrightarrow> peer = PeerAuthenticated a \<and> ap_role a = PeerController
          \<and> \<not> sf_input_active flags \<and> sf_input_active flags')"
  using assms by (auto simp: accept_stream_def split: if_splits connection_peer.splits)

lemma streams_step_inv:
  assumes "streams_step peer c c'" and "streams_inv peer c"
  shows "streams_inv peer c'"
  using assms(1)
proof cases
  case (stream_opens i preface action flags)
  from accept_stream_cases [OF stream_opens(3)] stream_opens(1,2) assms(2) show ?thesis
    by (auto simp: streams_inv_def)
next
  case (stream_ends i action)
  with assms(2) show ?thesis
    by (cases action) (force simp: streams_inv_def split: if_splits)+
qed

text \<open>Privileged streams are authenticated and exclusive: on one connection, however streams open and
  end, a control stream runs only for the authenticated peer, an input stream only for an
  authenticated controller, and at most one of each runs at a time.\<close>

theorem privileged_streams_exclusive:
  assumes "streams_reach peer c"
  shows "(\<forall>i a. cs_running c i = Some (RunControl a) \<longrightarrow> peer = PeerAuthenticated a)
    \<and> (\<forall>i a. cs_running c i = Some (RunInput a) \<longrightarrow> peer = PeerAuthenticated a \<and> ap_role a = PeerController)
    \<and> (\<forall>i j a a'. cs_running c i = Some (RunControl a) \<and> cs_running c j = Some (RunControl a') \<longrightarrow> i = j)
    \<and> (\<forall>i j a a'. cs_running c i = Some (RunInput a) \<and> cs_running c j = Some (RunInput a') \<longrightarrow> i = j)"
proof -
  have "streams_inv peer c"
    using assms
  proof (induction rule: streams_reach.induct)
    case streams_new
    show ?case by (simp add: streams_inv_def)
  qed (rule streams_step_inv)
  then show ?thesis by (simp add: streams_inv_def)
qed

definition demo_input_peer :: authenticated_peer where
  "demo_input_peer = \<lparr>ap_peer_id = ''win'', ap_role = PeerController, ap_trust_revision = 1,
     ap_connection_generation = 1, ap_remote_addr = SocketV4 [192, 168, 0, 2] 47834\<rparr>"

theorem privileged_streams_exclusive_witness:
  "\<exists>c. streams_reach (PeerAuthenticated demo_input_peer) c \<and> cs_running c 0 = Some (RunInput demo_input_peer)
    \<and> (\<forall>j a. cs_running c j = Some (RunInput a) \<longrightarrow> j = 0)"
proof -
  let ?peer = "PeerAuthenticated demo_input_peer"
  let ?c0 = "\<lparr>cs_flags = \<lparr>sf_control_active = False, sf_input_active = False\<rparr>, cs_running = (\<lambda>_. None)\<rparr>"
  obtain flags where accept: "accept_stream INPUT_PREFACE ?peer (cs_flags ?c0) = (RunInput demo_input_peer, flags)"
    by (simp add: accept_stream_def CONTROL_PREFACE_def INPUT_PREFACE_def demo_input_peer_def)
  let ?c1 = "?c0\<lparr>cs_flags := flags, cs_running := (cs_running ?c0)(0 := Some (RunInput demo_input_peer))\<rparr>"
  have "streams_step ?peer ?c0 ?c1"
    using stream_opens [of ?c0 0 INPUT_PREFACE ?peer, OF _ accept] by simp
  then have "streams_reach ?peer ?c1" by (rule streams_next [OF streams_new])
  then obtain c where reach: "streams_reach ?peer c" and running: "cs_running c 0 = Some (RunInput demo_input_peer)"
    by force
  from privileged_streams_exclusive [OF reach] running
  have "\<forall>j a. cs_running c j = Some (RunInput a) \<longrightarrow> j = 0" by blast
  with reach running show ?thesis by blast
qed

section \<open>The control frame rate\<close>

context frame_stream
begin

lemma parse_frame_count: "length (fst (parse_stream limit decode bs)) \<le> length bs"
proof (induction "length bs" arbitrary: bs rule: less_induct)
  case less
  define rest where "rest = drop 4 bs"
  define n where "n = u32_from_be_bytes (take 4 bs)"
  have step: "parse_stream limit decode bs =
    (if length bs < 4 then ([], None, bs)
     else if n = 0 then ([], Some InvalidLength, [])
     else if n > limit then ([], Some (FrameTooLarge n), [])
     else if length rest < n then ([], None, bs)
     else case decode (take n rest) of
         Inl e \<Rightarrow> ([], Some e, take (4 + n) bs)
       | Inr frame \<Rightarrow> (let (frames, err, left) = parse_stream limit decode (drop n rest)
           in (frame # frames, err, left)))"
    by (subst parse_stream.simps) (simp only: rest_def [symmetric] n_def [symmetric] Let_def)
  show ?case
  proof (cases "length bs < 4 \<or> n = 0 \<or> n > limit \<or> length rest < n")
    case False
    then have shorter: "length (drop n rest) < length bs" by (auto simp: rest_def not_less)
    from less.hyps [OF this] shorter False step show ?thesis
      by (auto split: sum.splits prod.splits)
  qed (use step in auto)
qed

lemma push_frame_count:
  assumes "wf_decoder limit d" and "decoder_push limit decode d bytes = Some (Inr frames, d')"
  shows "length frames \<le> 4 + max 1 limit + length bytes" and "wf_decoder limit d'"
proof -
  from push_refines [OF assms(1), of bytes] assms(2)
  have "frames = fst (parse_stream limit decode (decoder_buffer d @ bytes))" and wf: "wf_decoder limit d'"
    by (auto simp: loop_ends_def split: prod.splits option.splits)
  with parse_frame_count [of "decoder_buffer d @ bytes"] decoder_buffer_bound [OF assms(1)]
  show "length frames \<le> 4 + max 1 limit + length bytes" by simp
  show "wf_decoder limit d'" by (rule wf)
qed

end

text \<open>A handler that counts the frames it is given.\<close>

definition counting :: "('f \<Rightarrow> 's \<Rightarrow> 'r \<times> 's) \<Rightarrow> 'f \<Rightarrow> nat \<times> 's \<Rightarrow> 'r \<times> nat \<times> 's" where
  "counting handler frame ns =
     (case handler frame (snd ns) of (r, s') \<Rightarrow> (r, Suc (fst ns), s'))"

lemma counting_pair:
  "counting handler frame (n, s) = (case handler frame s of (r, s') \<Rightarrow> (r, Suc n, s'))"
  by (simp add: counting_def)

lemma answer_frames_count:
  "answer_frames C (counting handler) write frames (n, s) w = (r, (n', s'), w') \<Longrightarrow> n' \<le> n + length frames"
proof (induction frames arbitrary: n s w)
  case (Cons frame frames)
  obtain resp s1 where h: "handler frame s = (resp, s1)" by fastforce
  from Cons.prems have step: "n' = Suc n \<or> (\<exists>w1. answer_frames C (counting handler) write frames (Suc n, s1) w1 = (r, (n', s'), w'))"
    by (auto simp: counting_pair h split: option.splits sum.splits prod.splits bool.splits)
  with Cons.IH show ?case by fastforce
qed simp

lemma rate_step:
  assumes "enforce_control_rate now (of_nat k) (started, count) = (Inr u, started', count')"
    and "k < 4294967296" and "unat count \<le> 128" and "started \<le> t" and "now \<le> t"
  shows "started' \<le> t \<and> unat count' \<le> 128
    \<and> k + unat count + 128 * ((t - started') div 1000) \<le> unat count' + 128 * ((t - started) div 1000)"
proof -
  have k: "unat (of_nat k :: u32) = k" using assms(2) by (simp add: unsigned_of_nat take_bit_nat_eq_self)
  show ?thesis
  proof (cases "now - started \<ge> 1000")
    case True
    with assms(1) have new: "started' = now" "count' = saturating_add 0 (of_nat k)" "\<not> count' > 128"
      by (auto simp: enforce_control_rate_def MAX_CONTROL_FRAMES_PER_SECOND_def Let_def split: if_splits)
    then have "unat count' = k" "unat count' \<le> 128"
      using assms(2) k by (auto simp: saturating_add_unat word_less_nat_alt not_less)
    moreover have "(t - now) div 1000 + 1 \<le> (t - started) div 1000"
    proof -
      have "(t - now) + 1000 \<le> t - started" using True assms(5) by simp
      then have "((t - now) + 1000) div 1000 \<le> (t - started) div 1000" by (rule div_le_mono)
      then show ?thesis by simp
    qed
    ultimately show ?thesis using new(1) assms(3,5) by simp
  next
    case False
    with assms(1) have new: "started' = started" "count' = saturating_add count (of_nat k)" "\<not> count' > 128"
      by (auto simp: enforce_control_rate_def MAX_CONTROL_FRAMES_PER_SECOND_def Let_def split: if_splits)
    then have "unat count' \<le> 128" by (simp add: word_less_nat_alt not_less)
    moreover from this new(2) have "unat count' = unat count + k"
      using k by (simp add: saturating_add_unat min_def split: if_splits)
    ultimately show ?thesis using new(1) assms(4) by simp
  qed
qed

lemma run_inbound_control_count:
  assumes "run_inbound_control C (counting handler) write ended chunks (started, count) d (n, s) w
      = Some (r, (n', s'), w')"
    and "wf_decoder MAX_CONTROL_FRAME_BYTES d" and "unat count \<le> 128" and "started \<le> t"
    and "\<forall>(now, chunk) \<in> set chunks. now \<le> t \<and> length chunk \<le> 4096"
  shows "n' + unat count \<le> n + 128 * ((t - started) div 1000 + 1)"
  using assms
proof (induction chunks arbitrary: started count d n s w)
  case (Cons x chunks)
  obtain now chunk where x: "x = (now, chunk)" by fastforce
  with Cons.prems(5) have bounds: "now \<le> t" "length chunk \<le> 4096"
    and rest: "\<forall>(now, chunk) \<in> set chunks. now \<le> t \<and> length chunk \<le> 4096" by auto
  from Cons.prems(1,3) x show ?case
  proof (cases "control_push C d chunk")
    case (Some out)
    obtain res d' where out: "out = (res, d')" by fastforce
    show ?thesis
    proof (cases res)
      case (Inl e)
      with Cons.prems(1,3) x Some out show ?thesis by simp
    next
      case (Inr frames)
      with Some out have push: "decoder_push MAX_CONTROL_FRAME_BYTES (decode_payload C) d chunk = Some (Inr frames, d')"
        by (simp add: control_push_def)
      note wf = control_stream.push_frame_count [OF Cons.prems(2) push]
      from wf(1) bounds(2) have few: "length frames < 4294967296" by (simp add: MAX_CONTROL_FRAME_BYTES_def)
      obtain rr started' count' where
        rate: "enforce_control_rate now (of_nat (length frames)) (started, count) = (rr, started', count')"
        by (cases "enforce_control_rate now (of_nat (length frames)) (started, count)") auto
      show ?thesis
      proof (cases rr)
        case (Inl e)
        with Cons.prems(1,3) x Some out Inr rate show ?thesis by simp
      next
        case (Inr u)
        note step = rate_step [OF rate [unfolded Inr] few Cons.prems(3,4) bounds(1)]
        obtain ra n1 s1 w1 where ans: "answer_frames C (counting handler) write frames (n, s) w = (ra, (n1, s1), w1)"
          by (cases "answer_frames C (counting handler) write frames (n, s) w") auto
        from answer_frames_count [OF ans] have n1: "n1 \<le> n + length frames" .
        show ?thesis
        proof (cases ra)
          case (Inl e)
          with Cons.prems(1) x Some out \<open>res = Inr frames\<close> rate Inr ans have "n' = n1" by simp
          with n1 step show ?thesis by simp
        next
          case (Inr u')
          with Cons.prems(1) x Some out \<open>res = Inr frames\<close> rate \<open>rr = Inr u\<close> ans
          have "run_inbound_control C (counting handler) write ended chunks (started', count') d' (n1, s1) w1
            = Some (r, (n', s'), w')" by simp
          from Cons.IH [OF this wf(2) _ _ rest] step n1 show ?thesis by simp
        qed
      qed
    qed
  qed simp
qed (auto split: if_splits)

text \<open>A flooding peer is cut off: the frames a control stream hands to its handler up to a time \<open>t\<close> number at
  most 128 for each started second since the stream began, whatever arrives.\<close>

lemma control_rate_bounded:
  assumes "run_inbound_control C (counting handler) write ended chunks (started, 0) decoder_default (0, s) w
      = Some (r, (n, s'), w')"
    and "started \<le> t" and "\<forall>(now, chunk) \<in> set chunks. now \<le> t \<and> length chunk \<le> 4096"
  shows "n \<le> 128 * ((t - started) div 1000 + 1)"
  using run_inbound_control_count [OF assms(1) _ _ assms(2,3)] by simp

lemma control_stream_roundtrip_step:
  "\<exists>d'. push_chunks MAX_CONTROL_FRAME_BYTES (decode_payload demo_ack_codec) decoder_default
      [[0, 0, 0, 2, 7, 9]] = Some (Inr [CommitAck demo_session], d') \<and> decoder_finish d' = Inr ()"
  by (rule control_stream.chunks_frames [where encoded = "[[0, 0, 0, 2, 7, 9]]"])
    (use encode_control_frame [OF demo_ack_faithful demo_encode_ack] in simp_all)

theorem control_rate_bounded_witness:
  "\<exists>n s' w'. run_inbound_control demo_ack_codec (counting (\<lambda>frame s. (None, s))) (\<lambda>bytes w. (True, w)) True
      [(5, [0, 0, 0, 2, 7, 9])] (0, 0) decoder_default (0, ()) () = Some (Inr (), (n, s'), w') \<and> n \<le> 128"
proof -
  obtain d' where push: "push_chunks MAX_CONTROL_FRAME_BYTES (decode_payload demo_ack_codec) decoder_default
      [[0, 0, 0, 2, 7, 9]] = Some (Inr [CommitAck demo_session], d')" and fin: "decoder_finish d' = Inr ()"
    using control_stream_roundtrip_step by blast
  have run: "run_inbound_control demo_ack_codec (counting (\<lambda>frame s. (None, s))) (\<lambda>bytes w. (True, w)) True
      [(5, [0, 0, 0, 2, 7, 9])] (0, 0) decoder_default (0, ()) () = Some (Inr (), (1, ()), ())"
    using push fin
    by (auto simp: control_push_def enforce_control_rate_def counting_def saturating_add_def
        MAX_CONTROL_FRAMES_PER_SECOND_def split: option.splits sum.splits prod.splits)
  from control_rate_bounded [OF run, of 5] have "(1 :: nat) \<le> 128" by simp
  with run show ?thesis by blast
qed

end
