(* ===== verification/Transport_Trust.thy ===== *)
theory Transport_Trust
  imports Transport_Types Kvm_Prelude
begin

text \<open>
  Who a connection belongs to and whether a peer is worth trying (\<open>quic_transport.rs\<close>): the registry
  of trusted certificates, the authentication of a connection, the endpoints pinned from it, the
  health records behind the fast failure of sends, and the ports tried for the endpoint.

  The base64 codec is a parameter. Hash maps are association lists whose order stands for the
  iteration order. A lock poisoned by a panic of another thread is not modelled.
\<close>

section \<open>The registry\<close>

record decoded_peer =
  dp_peer_id :: string
  dp_certificate :: "u8 list"
  dp_role :: peer_role
  dp_trust_revision :: u64

record peer_endpoint =
  pe_addr :: string
  pe_public_key :: string
  pe_protocol_version :: u16

record control_peer =
  cp_peer_id :: string
  cp_role :: peer_role
  cp_trust_revision :: u64
  cp_endpoint :: peer_endpoint

fun decode_peers ::
  "(string \<Rightarrow> (string, u8 list) result) \<Rightarrow> decoded_peer list \<Rightarrow> trusted_peer list \<Rightarrow> (string, decoded_peer list) result" where
  "decode_peers base64 decoded [] = Inr decoded"
| "decode_peers base64 decoded (peer # peers) =
     (if is_blank (tp_peer_id peer) \<or> tp_trust_revision peer = 0
      then Inl ''trusted peer requires a non-empty id and revision''
      else case base64 (tp_certificate peer) of
          Inl e \<Rightarrow> Inl (''invalid trusted certificate for '' @ tp_peer_id peer @ '': '' @ e)
        | Inr certificate \<Rightarrow>
            if certificate = [] then Inl (''trusted certificate for '' @ tp_peer_id peer @ '' is empty'')
            else if \<exists>existing\<in>set decoded. dp_peer_id existing = tp_peer_id peer
                \<or> dp_certificate existing = certificate
            then Inl ''trusted peer ids and certificates must be unique''
            else decode_peers base64 (decoded @ [\<lparr>dp_peer_id = tp_peer_id peer,
                dp_certificate = certificate, dp_role = tp_role peer,
                dp_trust_revision = tp_trust_revision peer\<rparr>]) peers)"

definition registry_replace ::
  "(string \<Rightarrow> (string, u8 list) result) \<Rightarrow> trusted_peer list \<Rightarrow> decoded_peer list
     \<Rightarrow> (string, unit) result \<times> decoded_peer list" where
  "registry_replace base64 peers registry =
     (case decode_peers base64 [] peers of
        Inl e \<Rightarrow> (Inl e, registry)
      | Inr decoded \<Rightarrow> (Inr (), decoded))"

definition registry_new ::
  "(string \<Rightarrow> (string, u8 list) result) \<Rightarrow> trusted_peer list \<Rightarrow> (string, decoded_peer list) result" where
  "registry_new base64 peers =
     (case registry_replace base64 peers [] of (Inl e, _) \<Rightarrow> Inl e | (Inr _, registry) \<Rightarrow> Inr registry)"

definition authenticate ::
  "u8 list \<Rightarrow> socket_addr \<Rightarrow> u64 \<Rightarrow> decoded_peer list \<Rightarrow> authenticated_peer option" where
  "authenticate certificate remote_addr connection_generation registry =
     map_option (\<lambda>peer. \<lparr>ap_peer_id = dp_peer_id peer, ap_role = dp_role peer,
         ap_trust_revision = dp_trust_revision peer, ap_connection_generation = connection_generation,
         ap_remote_addr = remote_addr\<rparr>)
       (find (\<lambda>peer. dp_certificate peer = certificate) registry)"

fun role_name :: "peer_role \<Rightarrow> string" where
  "role_name PeerController = ''Controller''"
| "role_name PeerReceiver = ''Receiver''"

definition registry_control_peer ::
  "(u8 list \<Rightarrow> string) \<Rightarrow> string \<Rightarrow> peer_role \<Rightarrow> string \<Rightarrow> u16 \<Rightarrow> decoded_peer list
     \<Rightarrow> (string, control_peer) result" where
  "registry_control_peer base64_encode peer_id role addr protocol_version registry =
     (case find (\<lambda>peer. dp_peer_id peer = peer_id \<and> dp_role peer = role) registry of
        None \<Rightarrow> Inl (''peer '' @ peer_id @ '' is not trusted for role '' @ role_name role)
      | Some peer \<Rightarrow> Inr \<lparr>cp_peer_id = dp_peer_id peer, cp_role = dp_role peer,
          cp_trust_revision = dp_trust_revision peer,
          cp_endpoint = \<lparr>pe_addr = addr, pe_public_key = base64_encode (dp_certificate peer),
            pe_protocol_version = protocol_version\<rparr>\<rparr>)"

definition trusted_bulk_peer ::
  "(u8 list \<Rightarrow> string) \<Rightarrow> string \<Rightarrow> peer_role \<Rightarrow> string \<Rightarrow> u16 \<Rightarrow> decoded_peer list
     \<Rightarrow> (string, peer_endpoint) result" where
  "trusted_bulk_peer base64_encode peer_id role addr protocol_version registry =
     map_sum id cp_endpoint (registry_control_peer base64_encode peer_id role addr protocol_version registry)"

text \<open>The peer of a connection, from the certificate it presented.\<close>

definition connection_peer_of ::
  "(u8 list \<Rightarrow> string) \<Rightarrow> u8 list option \<Rightarrow> socket_addr \<Rightarrow> u64 \<Rightarrow> decoded_peer list \<Rightarrow> connection_peer" where
  "connection_peer_of base64_encode certificate remote_addr connection_generation registry =
     (case Option.bind certificate
        (\<lambda>cert. authenticate cert remote_addr connection_generation registry) of
        Some authenticated \<Rightarrow> PeerAuthenticated authenticated
      | None \<Rightarrow> PeerUnauthenticated remote_addr connection_generation (map_option base64_encode certificate))"

text \<open>A client accepts exactly the certificate it pinned.\<close>

definition verify_server_cert :: "u8 list \<Rightarrow> u8 list \<Rightarrow> (string, unit) result" where
  "verify_server_cert pinned end_entity =
     (if end_entity = pinned then Inr ()
      else Inl ''peer certificate does not match the pinned transport certificate'')"

lemma decode_peers_append:
  "decode_peers base64 decoded peers = Inr result \<Longrightarrow>
     (\<exists>certificates. list_all2 (\<lambda>peer certificate. base64 (tp_certificate peer) = Inr certificate
          \<and> certificate \<noteq> [] \<and> \<not> is_blank (tp_peer_id peer) \<and> tp_trust_revision peer \<noteq> 0) peers certificates
      \<and> result = decoded @ map2 (\<lambda>peer certificate. \<lparr>dp_peer_id = tp_peer_id peer,
          dp_certificate = certificate, dp_role = tp_role peer, dp_trust_revision = tp_trust_revision peer\<rparr>)
          peers certificates)
     \<and> (distinct (map dp_peer_id decoded) \<and> distinct (map dp_certificate decoded) \<longrightarrow>
        distinct (map dp_peer_id result) \<and> distinct (map dp_certificate result))"
proof (induction base64 decoded peers rule: decode_peers.induct)
  case (2 base64 decoded peer peers)
  from 2(2) obtain certificate where c: "base64 (tp_certificate peer) = Inr certificate" "certificate \<noteq> []"
    "\<not> is_blank (tp_peer_id peer)" "tp_trust_revision peer \<noteq> 0"
    "\<not> (\<exists>existing\<in>set decoded. dp_peer_id existing = tp_peer_id peer \<or> dp_certificate existing = certificate)"
    "decode_peers base64 (decoded @ [\<lparr>dp_peer_id = tp_peer_id peer, dp_certificate = certificate,
        dp_role = tp_role peer, dp_trust_revision = tp_trust_revision peer\<rparr>]) peers = Inr result"
    by (auto split: if_splits sum.splits)
  have "\<not> (is_blank (tp_peer_id peer) \<or> tp_trust_revision peer = 0)" using c by simp
  from 2(1) [OF this c(1,2,5,6)] obtain certificates where
    IH: "list_all2 (\<lambda>peer certificate. base64 (tp_certificate peer) = Inr certificate
          \<and> certificate \<noteq> [] \<and> \<not> is_blank (tp_peer_id peer) \<and> tp_trust_revision peer \<noteq> 0) peers certificates"
      "result = (decoded @ [\<lparr>dp_peer_id = tp_peer_id peer, dp_certificate = certificate,
        dp_role = tp_role peer, dp_trust_revision = tp_trust_revision peer\<rparr>])
        @ map2 (\<lambda>peer certificate. \<lparr>dp_peer_id = tp_peer_id peer,
          dp_certificate = certificate, dp_role = tp_role peer, dp_trust_revision = tp_trust_revision peer\<rparr>)
          peers certificates"
    and dist: "distinct (map dp_peer_id (decoded @ [\<lparr>dp_peer_id = tp_peer_id peer, dp_certificate = certificate,
        dp_role = tp_role peer, dp_trust_revision = tp_trust_revision peer\<rparr>]))
      \<and> distinct (map dp_certificate (decoded @ [\<lparr>dp_peer_id = tp_peer_id peer, dp_certificate = certificate,
        dp_role = tp_role peer, dp_trust_revision = tp_trust_revision peer\<rparr>]))
      \<longrightarrow> distinct (map dp_peer_id result) \<and> distinct (map dp_certificate result)"
    by blast
  have "distinct (map dp_peer_id decoded) \<and> distinct (map dp_certificate decoded) \<longrightarrow>
      distinct (map dp_peer_id result) \<and> distinct (map dp_certificate result)"
    using dist c(5) by auto
  moreover have "list_all2 (\<lambda>peer certificate. base64 (tp_certificate peer) = Inr certificate
          \<and> certificate \<noteq> [] \<and> \<not> is_blank (tp_peer_id peer) \<and> tp_trust_revision peer \<noteq> 0)
          (peer # peers) (certificate # certificates)"
    using IH(1) c by simp
  ultimately show ?case using IH(2) by (intro conjI exI [of _ "certificate # certificates"]) simp_all
qed simp

lemma find_by_key:
  "distinct (map g xs) \<Longrightarrow> find (\<lambda>x. g x = k) xs = Some x \<longleftrightarrow> x \<in> set xs \<and> g x = k"
  by (induction xs) (auto simp: image_iff)

text \<open>What the registry holds after a successful replacement.\<close>

lemma registry_replace_members:
  assumes "registry_replace base64 peers registry0 = (Inr (), registry)"
  shows "dp \<in> set registry \<longleftrightarrow>
      (\<exists>peer\<in>set peers. base64 (tp_certificate peer) = Inr (dp_certificate dp)
        \<and> dp = \<lparr>dp_peer_id = tp_peer_id peer, dp_certificate = dp_certificate dp,
            dp_role = tp_role peer, dp_trust_revision = tp_trust_revision peer\<rparr>)"
    and "distinct (map dp_peer_id registry)" and "distinct (map dp_certificate registry)"
    and "distinct (map tp_peer_id peers)"
    and "\<forall>peer\<in>set peers. \<not> is_blank (tp_peer_id peer)"
proof -
  let ?f = "\<lambda>peer certificate. \<lparr>dp_peer_id = tp_peer_id peer, dp_certificate = certificate,
      dp_role = tp_role peer, dp_trust_revision = tp_trust_revision peer\<rparr>"
  from assms have "decode_peers base64 [] peers = Inr registry"
    by (auto simp: registry_replace_def split: sum.splits)
  from decode_peers_append [OF this] obtain certificates where
    all: "list_all2 (\<lambda>peer certificate. base64 (tp_certificate peer) = Inr certificate
        \<and> certificate \<noteq> [] \<and> \<not> is_blank (tp_peer_id peer) \<and> tp_trust_revision peer \<noteq> 0) peers certificates"
    and reg: "registry = map2 ?f peers certificates"
    and dist: "distinct (map dp_peer_id registry)" "distinct (map dp_certificate registry)" by auto
  from all have len: "length peers = length certificates" by (rule list_all2_lengthD)
  show "distinct (map dp_peer_id registry)" "distinct (map dp_certificate registry)" by (rule dist)+
  have "map dp_peer_id registry = map tp_peer_id peers"
    using len by (intro nth_equalityI) (simp_all add: reg)
  with dist show "distinct (map tp_peer_id peers)" by simp
  show "\<forall>peer\<in>set peers. \<not> is_blank (tp_peer_id peer)"
    using all by (auto simp: list_all2_conv_all_nth in_set_conv_nth)
  show "dp \<in> set registry \<longleftrightarrow>
      (\<exists>peer\<in>set peers. base64 (tp_certificate peer) = Inr (dp_certificate dp) \<and> dp = ?f peer (dp_certificate dp))"
  proof
    assume "dp \<in> set registry"
    with reg len obtain i where "i < length peers" "dp = ?f (peers ! i) (certificates ! i)"
      by (auto simp: in_set_conv_nth)
    with all len show "\<exists>peer\<in>set peers. base64 (tp_certificate peer) = Inr (dp_certificate dp) \<and> dp = ?f peer (dp_certificate dp)"
      by (intro bexI [of _ "peers ! i"]) (auto simp: list_all2_conv_all_nth)
  next
    assume "\<exists>peer\<in>set peers. base64 (tp_certificate peer) = Inr (dp_certificate dp) \<and> dp = ?f peer (dp_certificate dp)"
    then obtain i where i: "i < length peers" "base64 (tp_certificate (peers ! i)) = Inr (dp_certificate dp)"
      "dp = ?f (peers ! i) (dp_certificate dp)" by (auto simp: in_set_conv_nth)
    with all have "certificates ! i = dp_certificate dp" by (auto simp: list_all2_conv_all_nth)
    with i reg len have "registry ! i = dp" "i < length registry" by simp_all
    then show "dp \<in> set registry" by (auto simp: in_set_conv_nth)
  qed
qed

text \<open>C10. Authentication is by certificate alone: after the trust store was replaced, a connection is the peer
  \<open>a\<close> exactly when the certificate it presented is the one stored for a trusted peer, whose
  identifier, role and revision \<open>a\<close> carries; identifiers are unique and never blank, and the endpoint
  handed out for a peer pins that same certificate.\<close>

theorem authentication_binds_certificate:
  assumes "registry_replace base64 peers registry0 = (Inr (), registry)"
  shows "(authenticate certificate addr generation registry = Some a \<longleftrightarrow>
      (\<exists>peer\<in>set peers. base64 (tp_certificate peer) = Inr certificate
        \<and> a = \<lparr>ap_peer_id = tp_peer_id peer, ap_role = tp_role peer,
            ap_trust_revision = tp_trust_revision peer, ap_connection_generation = generation, ap_remote_addr = addr\<rparr>))
    \<and> distinct (map tp_peer_id peers) \<and> (\<forall>peer\<in>set peers. \<not> is_blank (tp_peer_id peer))
    \<and> (\<forall>cp. registry_control_peer base64_encode peer_id role host version registry = Inr cp \<longleftrightarrow>
        (\<exists>peer\<in>set peers. \<exists>stored. base64 (tp_certificate peer) = Inr stored
          \<and> tp_peer_id peer = peer_id \<and> tp_role peer = role
          \<and> cp = \<lparr>cp_peer_id = peer_id, cp_role = role, cp_trust_revision = tp_trust_revision peer,
              cp_endpoint = \<lparr>pe_addr = host, pe_public_key = base64_encode stored, pe_protocol_version = version\<rparr>\<rparr>))"
proof -
  note M = registry_replace_members [OF assms]
  have auth: "authenticate certificate addr generation registry = Some a \<longleftrightarrow>
      (\<exists>dp\<in>set registry. dp_certificate dp = certificate
        \<and> a = \<lparr>ap_peer_id = dp_peer_id dp, ap_role = dp_role dp, ap_trust_revision = dp_trust_revision dp,
            ap_connection_generation = generation, ap_remote_addr = addr\<rparr>)"
    using find_by_key [OF M(3), of certificate] by (auto simp: authenticate_def)
  have ids: "find (\<lambda>dp. dp_peer_id dp = peer_id \<and> dp_role dp = role) registry = Some dp \<longleftrightarrow>
      dp \<in> set registry \<and> dp_peer_id dp = peer_id \<and> dp_role dp = role" for dp
    using M(2) by (induction registry) (auto simp: image_iff)
  have "registry_control_peer base64_encode peer_id role host version registry = Inr cp \<longleftrightarrow>
      (\<exists>dp\<in>set registry. dp_peer_id dp = peer_id \<and> dp_role dp = role
        \<and> cp = \<lparr>cp_peer_id = peer_id, cp_role = role, cp_trust_revision = dp_trust_revision dp,
            cp_endpoint = \<lparr>pe_addr = host, pe_public_key = base64_encode (dp_certificate dp),
              pe_protocol_version = version\<rparr>\<rparr>)" for cp
  proof -
    have "registry_control_peer base64_encode peer_id role host version registry = Inr cp \<longleftrightarrow>
      (\<exists>dp. find (\<lambda>dp. dp_peer_id dp = peer_id \<and> dp_role dp = role) registry = Some dp
        \<and> cp = \<lparr>cp_peer_id = dp_peer_id dp, cp_role = dp_role dp, cp_trust_revision = dp_trust_revision dp,
            cp_endpoint = \<lparr>pe_addr = host, pe_public_key = base64_encode (dp_certificate dp),
              pe_protocol_version = version\<rparr>\<rparr>)"
      by (auto simp: registry_control_peer_def split: option.splits)
    then show ?thesis unfolding ids by auto
  qed
  moreover have "(\<exists>dp\<in>set registry. P dp) \<longleftrightarrow>
      (\<exists>peer\<in>set peers. \<exists>stored. base64 (tp_certificate peer) = Inr stored
        \<and> P \<lparr>dp_peer_id = tp_peer_id peer, dp_certificate = stored, dp_role = tp_role peer,
            dp_trust_revision = tp_trust_revision peer\<rparr>)" for P
    using M(1) by (metis decoded_peer.select_convs(2))
  ultimately show ?thesis using auth M(4,5) by auto
qed

definition demo_trusted :: "trusted_peer list" where
  "demo_trusted = [\<lparr>tp_peer_id = ''win'', tp_certificate = ''AQ=='', tp_role = PeerController, tp_trust_revision = 3\<rparr>,
     \<lparr>tp_peer_id = ''mac'', tp_certificate = ''Ag=='', tp_role = PeerReceiver, tp_trust_revision = 1\<rparr>]"

definition demo_base64 :: "string \<Rightarrow> (string, u8 list) result" where
  "demo_base64 text = (if text = ''AQ=='' then Inr [1] else if text = ''Ag=='' then Inr [2] else Inl ''invalid'')"

theorem authentication_binds_certificate_witness:
  "\<exists>registry. registry_replace demo_base64 demo_trusted [] = (Inr (), registry)
    \<and> (\<forall>addr a. authenticate [1] addr 9 registry = Some a \<longleftrightarrow>
        a = \<lparr>ap_peer_id = ''win'', ap_role = PeerController, ap_trust_revision = 3,
          ap_connection_generation = 9, ap_remote_addr = addr\<rparr>)"
proof -
  have blank: "\<not> is_blank ''win''" "\<not> is_blank ''mac''" by code_simp+
  obtain registry where reg: "registry_replace demo_base64 demo_trusted [] = (Inr (), registry)"
    by (simp add: registry_replace_def demo_trusted_def demo_base64_def blank)
  have "authenticate [1] addr 9 registry = Some a \<longleftrightarrow>
      a = \<lparr>ap_peer_id = ''win'', ap_role = PeerController, ap_trust_revision = 3,
          ap_connection_generation = 9, ap_remote_addr = addr\<rparr>" for addr a
    using authentication_binds_certificate [OF reg, of "[1]" addr 9 a]
    by (auto simp: demo_trusted_def demo_base64_def)
  with reg show ?thesis by blast
qed

end
