(* ===== verification/Transport_Health.thy ===== *)
theory Transport_Health
  imports Transport_Trust Transport_Budget
begin

text \<open>
  Fast failure and ports (\<open>quic_transport.rs\<close>): after three failures in a row a peer is not tried for
  three seconds, so that the input layer lets go of the pointer at once; one success forgets them.
  Times are milliseconds of a monotonic clock.
\<close>

definition MAX_DATAGRAM_BYTES :: nat where "MAX_DATAGRAM_BYTES = 16384"
definition DATAGRAM_FAIL_THRESHOLD :: u32 where "DATAGRAM_FAIL_THRESHOLD = 3"
definition DATAGRAM_RETRY_WINDOW :: nat where "DATAGRAM_RETRY_WINDOW = 3000"
definition MAX_HEALTH_PEERS :: nat where "MAX_HEALTH_PEERS = 64"
definition PORT_SCAN_COUNT :: u16 where "PORT_SCAN_COUNT = 64"

record peer_health =
  ph_consecutive_failures :: u32
  ph_last_failure :: nat

type_synonym health_map = "(string \<times> peer_health) list"

definition peer_fast_fail_active :: "nat \<Rightarrow> health_map \<Rightarrow> string \<Rightarrow> bool" where
  "peer_fast_fail_active now health addr =
     (case map_of health addr of
        None \<Rightarrow> False
      | Some entry \<Rightarrow> ph_consecutive_failures entry \<ge> DATAGRAM_FAIL_THRESHOLD
          \<and> now - ph_last_failure entry < DATAGRAM_RETRY_WINDOW)"

text \<open>The entry with the oldest failure; \<open>min_by_key\<close> returns the first of several.\<close>

fun stalest :: "health_map \<Rightarrow> (string \<times> peer_health) option" where
  "stalest [] = None"
| "stalest (entry # rest) =
     (case stalest rest of
        None \<Rightarrow> Some entry
      | Some other \<Rightarrow> if ph_last_failure (snd entry) \<le> ph_last_failure (snd other) then Some entry else Some other)"

definition health_remove :: "string \<Rightarrow> health_map \<Rightarrow> health_map" where
  "health_remove addr health = filter (\<lambda>(key, _). key \<noteq> addr) health"

definition health_insert :: "string \<Rightarrow> peer_health \<Rightarrow> health_map \<Rightarrow> health_map" where
  "health_insert addr entry health = (addr, entry) # health_remove addr health"

definition make_room :: "string \<Rightarrow> health_map \<Rightarrow> health_map" where
  "make_room addr health =
     (if length health \<ge> MAX_HEALTH_PEERS \<and> map_of health addr = None then
        (case stalest health of None \<Rightarrow> health | Some (stale, _) \<Rightarrow> health_remove stale health)
      else health)"

definition record_peer_failure :: "nat \<Rightarrow> string \<Rightarrow> health_map \<Rightarrow> health_map" where
  "record_peer_failure now addr health =
     (let health1 = make_room addr health;
          entry = (case map_of health1 addr of
              Some entry \<Rightarrow> entry
            | None \<Rightarrow> \<lparr>ph_consecutive_failures = 0, ph_last_failure = now\<rparr>)
      in health_insert addr
          \<lparr>ph_consecutive_failures = saturating_add (ph_consecutive_failures entry) 1, ph_last_failure = now\<rparr>
          health1)"

definition record_peer_success :: "string \<Rightarrow> health_map \<Rightarrow> health_map" where
  "record_peer_success addr health = health_remove addr health"

section \<open>Guards of a send\<close>

datatype send_refusal =
    PayloadTooLarge nat
  | PeerUnreachable string
  | NoBulkBudget string
  | TransportStopped

text \<open>What goes into the command channel; the channel is closed once the transport has stopped.\<close>

definition send_datagram ::
  "nat \<Rightarrow> health_map \<Rightarrow> peer_endpoint \<Rightarrow> u8 list \<Rightarrow> bool
     \<Rightarrow> (send_refusal, peer_endpoint \<times> u8 list) result" where
  "send_datagram now health peer payload stopped =
     (if length payload > MAX_DATAGRAM_BYTES then Inl (PayloadTooLarge (length payload))
      else if peer_fast_fail_active now health (pe_addr peer) then Inl (PeerUnreachable (pe_addr peer))
      else if stopped then Inl TransportStopped
      else Inr (peer, payload))"

text \<open>
  A stream command carries its reservation: the counter with it. A reservation that cannot be sent
  is dropped.
\<close>

definition send_stream_command ::
  "nat \<Rightarrow> health_map \<Rightarrow> peer_endpoint \<Rightarrow> u8 list \<Rightarrow> bool \<Rightarrow> nat
     \<Rightarrow> (send_refusal, peer_endpoint \<times> u8 list) result \<times> nat" where
  "send_stream_command now health peer payload stopped used =
     (if length payload > MAX_STREAM_BYTES then (Inl (PayloadTooLarge (length payload)), used)
      else if peer_fast_fail_active now health (pe_addr peer) then (Inl (PeerUnreachable (pe_addr peer)), used)
      else case bulk_reserve_next MAX_BULK_MEMORY_BYTES (length payload) used of
          Inl message \<Rightarrow> (Inl (NoBulkBudget message), used)
        | Inr reserved \<Rightarrow>
            if stopped then (Inl TransportStopped, fetch_sub reserved (length payload))
            else (Inr (peer, payload), reserved))"

section \<open>Ports\<close>

fun port_scan :: "u16 \<Rightarrow> nat \<Rightarrow> nat \<Rightarrow> u16 list" where
  "port_scan start offset 0 = []"
| "port_scan start offset (Suc left) =
     (case checked_add start (of_nat offset) of
        None \<Rightarrow> []
      | Some port \<Rightarrow>
          if port = 0 then port_scan start (Suc offset) left
          else port # port_scan start (Suc offset) left)"

definition candidate_ports :: "u16 \<Rightarrow> u16 list" where
  "candidate_ports preferred_port = port_scan (max preferred_port 1024) 0 (unat PORT_SCAN_COUNT) @ [0]"

lemma unat_offset: "offset < 65536 \<Longrightarrow> unat (of_nat offset :: u16) = offset"
  by (simp add: unsigned_of_nat take_bit_nat_eq_self)

lemma port_scan_members:
  "offset + left < 65536 \<Longrightarrow> port \<in> set (port_scan start offset left) \<Longrightarrow>
     unat start + offset \<le> unat port \<and> unat port < unat start + offset + left"
proof (induction left arbitrary: offset)
  case (Suc left)
  from Suc.prems obtain first where first: "checked_add start (of_nat offset) = Some first"
    by (cases "checked_add start (of_nat offset)") auto
  have "unat first = unat start + offset"
    using checked_add_unat [OF first] unat_offset Suc.prems(1) by simp
  moreover have "port = first \<or> port \<in> set (port_scan start (Suc offset) left)"
    using Suc.prems(2) first by (auto split: if_splits)
  ultimately show ?case using Suc.IH [of "Suc offset"] Suc.prems(1) by auto
qed simp

lemma port_scan_distinct: "offset + left < 65536 \<Longrightarrow> distinct (port_scan start offset left)"
proof (induction left arbitrary: offset)
  case (Suc left)
  show ?case
  proof (cases "checked_add start (of_nat offset)")
    case (Some first)
    then have "unat first = unat start + offset"
      using checked_add_unat [OF Some] unat_offset Suc.prems by simp
    then have "first \<notin> set (port_scan start (Suc offset) left)"
      using port_scan_members [of "Suc offset" left first start] Suc.prems by auto
    with Suc Some show ?thesis by simp
  qed simp
qed simp

lemma port_scan_length: "length (port_scan start offset left) \<le> left"
  by (induction left arbitrary: offset) (auto split: option.splits simp: le_SucI)

text \<open>The ports tried for the endpoint: the preferred port first, raised to the first unprivileged one,
  then the ports above it, each once and none privileged, at most 64 of them and never past the
  end of the port space; last comes port 0, which lets the system choose.\<close>

lemma candidate_ports_order:
  shows "hd (candidate_ports preferred) = max preferred 1024
    \<and> last (candidate_ports preferred) = 0
    \<and> distinct (candidate_ports preferred)
    \<and> length (candidate_ports preferred) \<le> 65
    \<and> (\<forall>port \<in> set (butlast (candidate_ports preferred)).
        1024 \<le> port \<and> unat (max preferred 1024) \<le> unat port \<and> unat port < unat (max preferred 1024) + 64)"
proof -
  let ?start = "max preferred 1024"
  let ?ports = "port_scan ?start 0 64"
  have cand: "candidate_ports preferred = ?ports @ [0]"
    by (simp add: candidate_ports_def PORT_SCAN_COUNT_def)
  have start: "(1024 :: u16) \<le> ?start" by simp
  then have start_nat: "1024 \<le> unat ?start" by (simp add: word_le_nat_alt)
  then have nonzero: "?start \<noteq> 0" by (auto simp del: max_def)
  have mem: "\<forall>port\<in>set ?ports. unat ?start \<le> unat port \<and> unat port < unat ?start + 64"
    using port_scan_members [of 0 64 _ ?start] by simp
  have first: "checked_add ?start (of_nat 0) = Some ?start"
  proof -
    have "unat ?start < 2 ^ LENGTH(16)" by (rule unsigned_less)
    then have "unat ?start + unat (0 :: u16) < 2 ^ LENGTH(16)" by simp
    then show ?thesis by (simp only: checked_add_def uint_sum_less if_True semiring_1_class.of_nat_simps(1) add_0_right)
  qed
  have "?ports = ?start # port_scan ?start (Suc 0) 63"
    using first nonzero by (subst port_scan.simps(2) [of _ _ 63, simplified]) simp
  then have "hd (candidate_ports preferred) = ?start" using cand by simp
  moreover have "distinct (candidate_ports preferred)"
    using cand port_scan_distinct [of 0 64 ?start] mem start_nat by auto
  moreover have "\<forall>port \<in> set (butlast (candidate_ports preferred)).
      1024 \<le> port \<and> unat ?start \<le> unat port \<and> unat port < unat ?start + 64"
    using mem start_nat by (auto simp: cand word_le_nat_alt)
  ultimately show ?thesis using cand port_scan_length [of ?start 0 64] by simp
qed

section \<open>Failures in a row\<close>

text \<open>What happened to a peer's sends: the address, when, and whether it failed.\<close>

type_synonym send_event = "string \<times> nat \<times> bool"

fun health_run :: "send_event list \<Rightarrow> health_map \<Rightarrow> health_map" where
  "health_run [] health = health"
| "health_run ((addr, now, failed) # events) health =
     health_run events (if failed then record_peer_failure now addr health else record_peer_success addr health)"

text \<open>The failures since the last success, newest last, of one address.\<close>

fun recent_failures :: "send_event list \<Rightarrow> string \<Rightarrow> nat list \<Rightarrow> nat list" where
  "recent_failures [] addr acc = acc"
| "recent_failures ((a, now, failed) # events) addr acc =
     recent_failures events addr (if a \<noteq> addr then acc else if failed then acc @ [now] else [])"

definition health_sound :: "health_map \<Rightarrow> (string \<Rightarrow> nat list) \<Rightarrow> bool" where
  "health_sound health recent \<longleftrightarrow>
     distinct (map fst health) \<and> length health \<le> MAX_HEALTH_PEERS
     \<and> (\<forall>addr entry. map_of health addr = Some entry \<longrightarrow>
          recent addr \<noteq> [] \<and> ph_last_failure entry = last (recent addr)
          \<and> unat (ph_consecutive_failures entry) \<le> length (recent addr))"

lemma map_of_remove: "map_of (health_remove addr health) key = (if key = addr then None else map_of health key)"
  by (induction health) (auto simp: health_remove_def)

lemma remove_frame:
  "distinct (map fst health) \<Longrightarrow> distinct (map fst (health_remove addr health))"
  "length (health_remove addr health) \<le> length health"
  "fst ` set (health_remove addr health) = fst ` set health - {addr}"
  by (auto simp: health_remove_def distinct_map_filter image_iff)

lemma remove_shorter: "(addr, entry) \<in> set health \<Longrightarrow> length (health_remove addr health) < length health"
  unfolding health_remove_def by (rule length_filter_less) auto

lemma stalest_member: "stalest health = Some entry \<Longrightarrow> entry \<in> set health"
  by (induction health arbitrary: entry) (auto split: option.splits if_splits)

lemma stalest_None: "stalest health = None \<longleftrightarrow> health = []"
  by (cases health) (auto split: option.splits)

lemma make_room_result:
  assumes "distinct (map fst health)" and "length health \<le> MAX_HEALTH_PEERS"
  shows "distinct (map fst (make_room addr health))"
    and "map_of (make_room addr health) key = Some entry \<Longrightarrow> map_of health key = Some entry"
    and "map_of (make_room addr health) addr = None \<Longrightarrow> length (make_room addr health) < MAX_HEALTH_PEERS"
    and "length (make_room addr health) \<le> MAX_HEALTH_PEERS"
proof -
  show "distinct (map fst (make_room addr health))"
    using assms(1) remove_frame(1) by (auto simp: make_room_def split: option.splits)
  show "map_of health key = Some entry" if "map_of (make_room addr health) key = Some entry"
    using that by (auto simp: make_room_def map_of_remove split: if_splits option.splits)
  show "length (make_room addr health) \<le> MAX_HEALTH_PEERS"
    using assms(2) remove_frame(2) by (auto simp: make_room_def intro: order.trans split: option.splits)
  show "length (make_room addr health) < MAX_HEALTH_PEERS" if none: "map_of (make_room addr health) addr = None"
  proof (cases "length health \<ge> MAX_HEALTH_PEERS \<and> map_of health addr = None")
    case True
    then have "health \<noteq> []" by (auto simp: MAX_HEALTH_PEERS_def)
    then obtain stale entry' where st: "stalest health = Some (stale, entry')"
      using stalest_None by (cases "stalest health") auto
    from remove_shorter [OF stalest_member [OF st]] True st assms(2) show ?thesis
      by (simp add: make_room_def)
  next
    case False
    then have "make_room addr health = health" unfolding make_room_def by (simp only: if_False)
    with none False show ?thesis by simp
  qed
qed

lemma record_failure_sound:
  assumes "health_sound health recent"
  shows "health_sound (record_peer_failure now addr health) (recent(addr := recent addr @ [now]))"
proof -
  define room where "room = make_room addr health"
  from assms have H: "distinct (map fst health)" "length health \<le> MAX_HEALTH_PEERS" by (simp_all add: health_sound_def)
  note R = make_room_result [OF H, of addr, folded room_def]
  define entry where "entry = (case map_of room addr of Some entry \<Rightarrow> entry
    | None \<Rightarrow> \<lparr>ph_consecutive_failures = 0, ph_last_failure = now\<rparr>)"
  have result: "record_peer_failure now addr health = health_insert addr
      \<lparr>ph_consecutive_failures = saturating_add (ph_consecutive_failures entry) 1, ph_last_failure = now\<rparr> room"
    by (simp add: record_peer_failure_def room_def entry_def Let_def)
  have "length (health_remove addr room) < MAX_HEALTH_PEERS"
  proof (cases "map_of room addr")
    case None
    from R(3) [OF this] remove_frame(2) [of addr room] show ?thesis by simp
  next
    case (Some old)
    from remove_shorter [OF map_of_SomeD [OF Some]] R(4) show ?thesis by simp
  qed
  moreover have "unat (ph_consecutive_failures entry) \<le> length (recent addr)"
    using assms R(2) [of addr] by (auto simp: entry_def health_sound_def split: option.splits)
  then have "unat (saturating_add (ph_consecutive_failures entry) 1) \<le> Suc (length (recent addr))"
    by (simp add: saturating_add_unat)
  moreover have "(recent(addr := recent addr @ [now])) key \<noteq> []
      \<and> ph_last_failure old = last ((recent(addr := recent addr @ [now])) key)
      \<and> unat (ph_consecutive_failures old) \<le> length ((recent(addr := recent addr @ [now])) key)"
    if "map_of (record_peer_failure now addr health) key = Some old" for key old
  proof (cases "key = addr")
    case True
    with that calculation(2) show ?thesis by (auto simp: result health_insert_def)
  next
    case False
    with that R(2) [of key old] assms show ?thesis
      by (simp add: result health_insert_def map_of_remove health_sound_def)
  qed
  ultimately show ?thesis
    using R(1) remove_frame(1) [of room addr] remove_frame(3) [of addr room]
    unfolding health_sound_def by (simp add: result health_insert_def)
qed

lemma record_success_sound:
  "health_sound health recent \<Longrightarrow> health_sound (record_peer_success addr health) (recent(addr := []))"
  using remove_frame(1) [of health addr] remove_frame(2) [of addr health]
  by (auto simp: health_sound_def record_peer_success_def map_of_remove split: if_splits)

lemma health_run_sound:
  "health_sound health recent \<Longrightarrow>
     health_sound (health_run events health) (\<lambda>addr. recent_failures events addr (recent addr))"
proof (induction events health arbitrary: recent rule: health_run.induct)
  case (2 addr now failed events health)
  let ?recent = "recent(addr := if failed then recent addr @ [now] else [])"
  have "health_sound (if failed then record_peer_failure now addr health else record_peer_success addr health) ?recent"
    using 2(2) record_failure_sound record_success_sound by auto
  from 2(1) [OF this]
  have "health_sound (health_run ((addr, now, failed) # events) health)
      (\<lambda>a. recent_failures events a (?recent a))" by simp
  moreover have "(\<lambda>a. recent_failures events a (?recent a)) =
      (\<lambda>a. recent_failures ((addr, now, failed) # events) a (recent a))"
    by (rule ext) simp
  ultimately show ?case by simp
qed simp

text \<open>A peer fails fast only for cause: if sends to it are refused after any run of successes and failures
  of all peers, then its last three sends at least failed, with no success since, and the last
  failure is less than three seconds old; a success ends the refusal at once, and the number of
  records never exceeds the bound.\<close>

lemma fast_fail_for_cause:
  shows "(peer_fast_fail_active now (health_run events []) addr \<longrightarrow>
      3 \<le> length (recent_failures events addr []) \<and> now - last (recent_failures events addr []) < 3000)
    \<and> \<not> peer_fast_fail_active now (record_peer_success addr (health_run events [])) addr
    \<and> length (health_run events []) \<le> MAX_HEALTH_PEERS"
proof -
  have "health_sound [] (\<lambda>_. [])" by (simp add: health_sound_def)
  from health_run_sound [OF this, of events]
  have sound: "health_sound (health_run events []) (\<lambda>addr. recent_failures events addr [])" by simp
  have "3 \<le> length (recent_failures events addr []) \<and> now - last (recent_failures events addr []) < 3000"
    if "peer_fast_fail_active now (health_run events []) addr"
  proof -
    from that obtain entry where e: "map_of (health_run events []) addr = Some entry"
      "3 \<le> unat (ph_consecutive_failures entry)" "now - ph_last_failure entry < 3000"
      by (auto simp: peer_fast_fail_active_def DATAGRAM_FAIL_THRESHOLD_def DATAGRAM_RETRY_WINDOW_def
          word_le_nat_alt split: option.splits)
    with sound have "ph_last_failure entry = last (recent_failures events addr [])"
      "unat (ph_consecutive_failures entry) \<le> length (recent_failures events addr [])"
      by (auto simp: health_sound_def)
    with e show ?thesis by auto
  qed
  then show ?thesis
    using sound by (simp add: health_sound_def peer_fast_fail_active_def record_peer_success_def map_of_remove)
qed

theorem fast_fail_for_cause_witness:
  "peer_fast_fail_active 2500 (health_run [(''a'', 0, True), (''b'', 5, True), (''a'', 10, True), (''a'', 900, True)] []) ''a''
    \<and> 3 \<le> length (recent_failures [(''a'', 0, True), (''b'', 5, True), (''a'', 10, True), (''a'', 900, True)] ''a'' [])"
proof -
  let ?events = "[(''a'', 0, True), (''b'', 5, True), (''a'', 10, True), (''a'', 900, True)]"
  have "peer_fast_fail_active 2500 (health_run ?events []) ''a''"
    by (simp add: peer_fast_fail_active_def record_peer_failure_def make_room_def health_insert_def
        health_remove_def saturating_add_def MAX_HEALTH_PEERS_def DATAGRAM_FAIL_THRESHOLD_def
        DATAGRAM_RETRY_WINDOW_def Let_def)
  with fast_fail_for_cause [of 2500 ?events "''a''"] show ?thesis by blast
qed

end
