(* ===== verification/Transport_Motion.thy ===== *)
theory Transport_Motion
  imports Transport_Health Protocol_Codec
begin

text \<open>
  The motion slot (\<open>quic_transport.rs\<close>): pointer motion is latest-wins. A sender leaves its payload in
  the slot and schedules a flush unless one is scheduled; the transport loop takes the payload, offers it to
  the connection without waiting, clears the flag and schedules again when a newer payload came in meanwhile.
  A connection that is missing, closed or being dialled drops the payload.

  The senders, the loop and the tasks that dial run concurrently, so each atomic access is a step. The program counters
  below name the points between them. The lemmas show that no payload is left behind: the flag, the
  commands in the channel and the counters always account for it.
\<close>

text \<open>The slot, with the flush commands for it in the channel, and whether the transport stopped.\<close>

record motion_slot =
  ms_latest :: "u8 list option"
  ms_scheduled :: bool
  ms_closed :: bool
  ms_commands :: nat
  ms_stopped :: bool

text \<open>
  A sender in \<open>try_send\<close>: it has checked \<open>closed\<close> and holds the encoded payload, has stored it and enters
  \<open>schedule_motion\<close>, has checked \<open>closed\<close> again, or has won the flag and must send the command.
\<close>

datatype sender_pc = SndIdle | SndEncoded "u8 list" | SndStored | SndChecked | SndWon

text \<open>
  The loop in \<open>flush_motion_nonblocking\<close>: at the start, with the payload it took, after sending it,
  after clearing the flag, in \<open>schedule_motion\<close> for a newer payload, and with the flag won.
\<close>

datatype flusher_pc = FlIdle | FlStart | FlTaken "u8 list option" | FlSent | FlCleared | FlNewer | FlChecked | FlWon

text \<open>
  The entry of the peer in the table of connections: being dialled, or established, and whether it is still open.
  \<open>mo_offered\<close> has each payload offered to the connection, with that entry at the time and what became of it.
\<close>

datatype connection_slot = ConnConnecting | ConnReady bool

datatype datagram_outcome = Queued | Refused | StillConnecting | FastFail | Dialled | BadPeer

record 't motion_system =
  mo_slot :: motion_slot
  mo_sender :: "'t \<Rightarrow> sender_pc"
  mo_flusher :: flusher_pc
  mo_link :: "connection_slot option"
  mo_health :: health_map
  mo_stored :: "u8 list option"
  mo_offered :: "(u8 list \<times> connection_slot option \<times> datagram_outcome) list"

section \<open>The code, as one thread runs it\<close>

datatype motion_error = MotionClosed | InvalidMotion protocol_error | MotionStopped

definition schedule_motion :: "motion_slot \<Rightarrow> (motion_error, unit) result \<times> motion_slot" where
  "schedule_motion slot =
     (if ms_closed slot then (Inl MotionClosed, slot)
      else if ms_scheduled slot then (Inr (), slot)
      else if ms_stopped slot then (Inl MotionStopped, slot\<lparr>ms_scheduled := False\<rparr>)
      else (Inr (), slot\<lparr>ms_scheduled := True, ms_commands := ms_commands slot + 1\<rparr>))"

definition motion_try_send ::
  "motion_envelope codec \<Rightarrow> motion_frame \<Rightarrow> motion_slot \<Rightarrow> (motion_error, unit) result \<times> motion_slot" where
  "motion_try_send C frame slot =
     (if ms_closed slot then (Inl MotionClosed, slot)
      else case encode_motion C frame of
          Inl e \<Rightarrow> (Inl (InvalidMotion e), slot)
        | Inr payload \<Rightarrow> schedule_motion (slot\<lparr>ms_latest := Some payload\<rparr>))"

definition motion_drop :: "motion_slot \<Rightarrow> motion_slot" where
  "motion_drop slot = slot\<lparr>ms_closed := True, ms_latest := None\<rparr>"

text \<open>The payload that is sent, if any.\<close>

definition flush_motion :: "motion_slot \<Rightarrow> u8 list option \<times> motion_slot" where
  "flush_motion slot =
     (if ms_closed slot then (None, slot\<lparr>ms_scheduled := False\<rparr>)
      else let slot1 = slot\<lparr>ms_latest := None, ms_scheduled := False\<rparr>
           in (ms_latest slot, if ms_latest slot1 \<noteq> None \<and> \<not> ms_closed slot1
                 then snd (schedule_motion slot1) else slot1))"

text \<open>
  What becomes of a payload. \<open>keyed\<close> says that the endpoint has a valid key, \<open>accepted\<close> that an open
  connection queues the datagram; a dial that starts goes on in a task of its own.
\<close>

definition send_datagram_nonblocking ::
  "nat \<Rightarrow> bool \<Rightarrow> bool \<Rightarrow> string \<Rightarrow> connection_slot option \<Rightarrow> health_map
     \<Rightarrow> datagram_outcome \<times> connection_slot option \<times> health_map" where
  "send_datagram_nonblocking now keyed accepted addr link health =
     (if \<not> keyed then (BadPeer, link, record_peer_failure now addr health)
      else if link = Some (ConnReady True) then
        (if accepted then (Queued, link, record_peer_success addr health)
         else (Refused, None, record_peer_failure now addr health))
      else if link = Some ConnConnecting then (StillConnecting, link, health)
      else if peer_fast_fail_active now health addr then (FastFail, None, health)
      else (Dialled, Some ConnConnecting, health))"

section \<open>The steps of concurrent threads\<close>

definition upd_slot :: "(motion_slot \<Rightarrow> motion_slot) \<Rightarrow> 't motion_system \<Rightarrow> 't motion_system" where
  "upd_slot f s = s\<lparr>mo_slot := f (mo_slot s)\<rparr>"

definition at_sender :: "'t \<Rightarrow> sender_pc \<Rightarrow> 't motion_system \<Rightarrow> 't motion_system" where
  "at_sender t pc s = s\<lparr>mo_sender := (mo_sender s)(t := pc)\<rparr>"

definition offer_datagram :: "nat \<Rightarrow> bool \<Rightarrow> bool \<Rightarrow> string \<Rightarrow> u8 list \<Rightarrow> 't motion_system \<Rightarrow> 't motion_system" where
  "offer_datagram now keyed accepted addr payload s =
     (let (outcome, link, health) = send_datagram_nonblocking now keyed accepted addr (mo_link s) (mo_health s)
      in s\<lparr>mo_link := link, mo_health := health, mo_offered := mo_offered s @ [(payload, mo_link s, outcome)]\<rparr>)"

definition at_flusher :: "flusher_pc \<Rightarrow> 't motion_system \<Rightarrow> 't motion_system" where
  "at_flusher pc s = s\<lparr>mo_flusher := pc\<rparr>"

inductive sender_step :: "'t motion_system \<Rightarrow> 't motion_system \<Rightarrow> bool" where
  snd_begin: "\<lbrakk>mo_sender s t = SndIdle; \<not> ms_closed (mo_slot s)\<rbrakk> \<Longrightarrow>
    sender_step s (at_sender t (SndEncoded payload) s)"
| snd_store: "mo_sender s t = SndEncoded payload \<Longrightarrow>
    sender_step s (at_sender t SndStored
      (upd_slot (\<lambda>m. m\<lparr>ms_latest := Some payload\<rparr>) (s\<lparr>mo_stored := Some payload\<rparr>)))"
| snd_check: "mo_sender s t = SndStored \<Longrightarrow>
    sender_step s (at_sender t (if ms_closed (mo_slot s) then SndIdle else SndChecked) s)"
| snd_swap: "mo_sender s t = SndChecked \<Longrightarrow>
    sender_step s (at_sender t (if ms_scheduled (mo_slot s) then SndIdle else SndWon)
      (upd_slot (\<lambda>m. m\<lparr>ms_scheduled := True\<rparr>) s))"
| snd_command: "mo_sender s t = SndWon \<Longrightarrow>
    sender_step s (at_sender t SndIdle (upd_slot (\<lambda>m. if ms_stopped m then m\<lparr>ms_scheduled := False\<rparr>
      else m\<lparr>ms_commands := ms_commands m + 1\<rparr>) s))"

inductive flusher_step :: "'t motion_system \<Rightarrow> 't motion_system \<Rightarrow> bool" where
  fl_receive: "\<lbrakk>mo_flusher s = FlIdle; 0 < ms_commands (mo_slot s)\<rbrakk> \<Longrightarrow>
    flusher_step s (at_flusher FlStart (upd_slot (\<lambda>m. m\<lparr>ms_commands := ms_commands m - 1\<rparr>) s))"
| fl_closed: "\<lbrakk>mo_flusher s = FlStart; ms_closed (mo_slot s)\<rbrakk> \<Longrightarrow>
    flusher_step s (at_flusher FlIdle (upd_slot (\<lambda>m. m\<lparr>ms_scheduled := False\<rparr>) s))"
| fl_take: "\<lbrakk>mo_flusher s = FlStart; \<not> ms_closed (mo_slot s)\<rbrakk> \<Longrightarrow>
    flusher_step s (at_flusher (FlTaken (ms_latest (mo_slot s))) (upd_slot (\<lambda>m. m\<lparr>ms_latest := None\<rparr>) s))"
| fl_send: "mo_flusher s = FlTaken payload \<Longrightarrow>
    flusher_step s (at_flusher FlSent
      (if payload = None \<or> ms_closed (mo_slot s) then s else offer_datagram now keyed accepted addr (the payload) s))"
| fl_clear: "mo_flusher s = FlSent \<Longrightarrow>
    flusher_step s (at_flusher FlCleared (upd_slot (\<lambda>m. m\<lparr>ms_scheduled := False\<rparr>) s))"
| fl_look: "mo_flusher s = FlCleared \<Longrightarrow>
    flusher_step s (at_flusher (if ms_latest (mo_slot s) = None then FlIdle else FlNewer) s)"
| fl_check: "mo_flusher s = FlNewer \<Longrightarrow>
    flusher_step s (at_flusher (if ms_closed (mo_slot s) then FlIdle else FlChecked) s)"
| fl_swap: "mo_flusher s = FlChecked \<Longrightarrow>
    flusher_step s (at_flusher (if ms_scheduled (mo_slot s) then FlIdle else FlWon)
      (upd_slot (\<lambda>m. m\<lparr>ms_scheduled := True\<rparr>) s))"
| fl_command: "mo_flusher s = FlWon \<Longrightarrow>
    flusher_step s (at_flusher FlIdle (upd_slot (\<lambda>m. if ms_stopped m then m\<lparr>ms_scheduled := False\<rparr>
      else m\<lparr>ms_commands := ms_commands m + 1\<rparr>) s))"

text \<open>
  The handle may be dropped, in two accesses, and the transport may stop, at any point; the connection may be
  established, lost or replaced, and the health of the peers recorded, by other tasks.
\<close>

inductive motion_step :: "'t motion_system \<Rightarrow> 't motion_system \<Rightarrow> bool" where
  mo_send: "sender_step s s' \<Longrightarrow> motion_step s s'"
| mo_flush: "flusher_step s s' \<Longrightarrow> motion_step s s'"
| mo_close: "motion_step s (upd_slot (\<lambda>m. m\<lparr>ms_closed := True\<rparr>) s)"
| mo_empty: "ms_closed (mo_slot s) \<Longrightarrow> motion_step s (upd_slot (\<lambda>m. m\<lparr>ms_latest := None\<rparr>) s)"
| mo_connection: "motion_step s (s\<lparr>mo_link := link, mo_health := health\<rparr>)"
| mo_stop: "motion_step s (upd_slot (\<lambda>m. m\<lparr>ms_stopped := True\<rparr>) s)"

definition motion_start :: "'t motion_system" where
  "motion_start = \<lparr>mo_slot = \<lparr>ms_latest = None, ms_scheduled = False, ms_closed = False, ms_commands = 0,
       ms_stopped = False\<rparr>,
     mo_sender = (\<lambda>_. SndIdle), mo_flusher = FlIdle, mo_link = None, mo_health = [], mo_stored = None,
     mo_offered = []\<rparr>"

inductive motion_reach :: "'t motion_system \<Rightarrow> bool" where
  motion_new: "motion_reach motion_start"
| motion_next: "\<lbrakk>motion_reach s; motion_step s s'\<rbrakk> \<Longrightarrow> motion_reach s'"

section \<open>Nothing is left behind\<close>

definition working_sender :: "sender_pc \<Rightarrow> bool" where
  "working_sender pc \<longleftrightarrow> pc = SndStored \<or> pc = SndChecked \<or> pc = SndWon"

definition some_sender :: "(sender_pc \<Rightarrow> bool) \<Rightarrow> 't motion_system \<Rightarrow> bool" where
  "some_sender P s \<longleftrightarrow> (\<exists>t. P (mo_sender s t))"

text \<open>Somebody is going to look at the slot: a flush is coming or running, or will be scheduled.\<close>

definition flush_due :: "'t motion_system \<Rightarrow> bool" where
  "flush_due s \<longleftrightarrow> 0 < ms_commands (mo_slot s)
     \<or> mo_flusher s = FlStart \<or> (\<exists>p. mo_flusher s = FlTaken p) \<or> mo_flusher s = FlSent \<or> mo_flusher s = FlWon
     \<or> some_sender (\<lambda>pc. pc = SndWon) s"

definition slot_watched :: "'t motion_system \<Rightarrow> bool" where
  "slot_watched s \<longleftrightarrow> flush_due s \<or> mo_flusher s \<noteq> FlIdle \<or> some_sender working_sender s"

text \<open>The last payload stored is in the slot, in the loop's hands, or the last one offered to the connection.\<close>

definition newest_accounted :: "'t motion_system \<Rightarrow> bool" where
  "newest_accounted s \<longleftrightarrow>
     (case mo_stored s of
        None \<Rightarrow> ms_latest (mo_slot s) = None
      | Some p \<Rightarrow> ms_latest (mo_slot s) = Some p
          \<or> ms_latest (mo_slot s) = None \<and> (mo_flusher s = FlTaken (Some p) \<or> mo_offered s \<noteq> [] \<and> fst (last (mo_offered s)) = p
              \<and> (\<forall>q. mo_flusher s \<noteq> FlTaken (Some q))))"

text \<open>A payload is queued exactly on an open connection that accepts it.\<close>

definition offer_sound :: "u8 list \<times> connection_slot option \<times> datagram_outcome \<Rightarrow> bool" where
  "offer_sound = (\<lambda>(_, link, outcome). outcome = Queued
     \<longleftrightarrow> link = Some (ConnReady True) \<and> outcome \<noteq> Refused \<and> outcome \<noteq> BadPeer)"

definition motion_inv :: "'t motion_system \<Rightarrow> bool" where
  "motion_inv s \<longleftrightarrow>
     (\<not> ms_closed (mo_slot s) \<and> \<not> ms_stopped (mo_slot s) \<longrightarrow>
        (ms_scheduled (mo_slot s) \<longrightarrow> flush_due s)
        \<and> (ms_latest (mo_slot s) \<noteq> None \<longrightarrow> slot_watched s))
     \<and> (\<not> ms_closed (mo_slot s) \<longrightarrow> newest_accounted s)
     \<and> list_all offer_sound (mo_offered s)"

lemma some_sender_at:
  "some_sender P (at_sender t pc s) \<longleftrightarrow> P pc \<or> (\<exists>x. x \<noteq> t \<and> P (mo_sender s x))"
  by (auto simp: some_sender_def at_sender_def)

lemma some_sender_moved:
  "\<not> P (mo_sender s t) \<Longrightarrow> some_sender P (at_sender t pc s) \<longleftrightarrow> P pc \<or> some_sender P s"
  by (auto simp: some_sender_at) (auto simp: some_sender_def)

lemma some_sender_here: "P pc \<Longrightarrow> some_sender P (at_sender t pc s)"
  by (simp add: some_sender_at)

lemma some_sender_frame:
  "mo_sender s' = mo_sender s \<Longrightarrow> some_sender P s' = some_sender P s"
  by (simp add: some_sender_def)

lemma at_sender_frame [simp]:
  "mo_slot (at_sender t pc s) = mo_slot s" "mo_flusher (at_sender t pc s) = mo_flusher s"
  "mo_stored (at_sender t pc s) = mo_stored s" "mo_offered (at_sender t pc s) = mo_offered s"
  "mo_link (at_sender t pc s) = mo_link s"
  by (simp_all add: at_sender_def)

lemma upd_frame [simp]:
  "mo_slot (upd_slot f s) = f (mo_slot s)" "mo_flusher (upd_slot f s) = mo_flusher s"
  "mo_stored (upd_slot f s) = mo_stored s" "mo_offered (upd_slot f s) = mo_offered s"
  "mo_link (upd_slot f s) = mo_link s"
  "mo_sender (upd_slot f s) = mo_sender s" "some_sender P (upd_slot f s) = some_sender P s"
  by (simp_all add: upd_slot_def some_sender_def)

lemma flusher_frame [simp]:
  "mo_slot (at_flusher pc s) = mo_slot s" "mo_flusher (at_flusher pc s) = pc"
  "mo_stored (at_flusher pc s) = mo_stored s" "mo_offered (at_flusher pc s) = mo_offered s"
  "mo_link (at_flusher pc s) = mo_link s"
  "mo_sender (at_flusher pc s) = mo_sender s" "some_sender P (at_flusher pc s) = some_sender P s"
  by (simp_all add: at_flusher_def some_sender_def)

lemma offer_frame [simp]:
  "mo_slot (offer_datagram now keyed accepted addr payload s) = mo_slot s"
  "mo_flusher (offer_datagram now keyed accepted addr payload s) = mo_flusher s"
  "mo_stored (offer_datagram now keyed accepted addr payload s) = mo_stored s"
  "mo_sender (offer_datagram now keyed accepted addr payload s) = mo_sender s"
  "some_sender P (offer_datagram now keyed accepted addr payload s) = some_sender P s"
  by (simp_all add: offer_datagram_def some_sender_def split: prod.split)

lemma offered:
  "\<exists>outcome. mo_offered (offer_datagram now keyed accepted addr payload s) = mo_offered s @ [(payload, mo_link s, outcome)]
     \<and> offer_sound (payload, mo_link s, outcome)"
  by (auto simp: offer_datagram_def send_datagram_nonblocking_def offer_sound_def)

lemma offered_frame [simp]:
  "some_sender P (s\<lparr>mo_link := l, mo_health := h\<rparr>) = some_sender P s" "some_sender P (s\<lparr>mo_stored := y\<rparr>) = some_sender P s"
  by (simp_all add: some_sender_def)

lemmas motion_inv_defs = motion_inv_def flush_due_def slot_watched_def newest_accounted_def

lemma sender_step_inv:
  assumes "sender_step s s'" and "motion_inv s"
  shows "motion_inv s'"
  using assms
  by cases (auto simp: motion_inv_defs some_sender_moved some_sender_here working_sender_def split: option.splits)

lemma flusher_step_inv:
  assumes "flusher_step s s'" and "motion_inv s"
  shows "motion_inv s'"
  using assms(1)
proof cases
  case (fl_send payload now keyed accepted addr)
  show ?thesis
  proof (cases "payload = None \<or> ms_closed (mo_slot s)")
    case True
    with fl_send assms(2) show ?thesis by (auto simp: motion_inv_defs split: option.splits)
  next
    case False
    then obtain p where p: "payload = Some p" by (cases payload) auto
    from offered [of now keyed accepted addr p s] obtain outcome where
      o: "mo_offered (offer_datagram now keyed accepted addr p s) = mo_offered s @ [(p, mo_link s, outcome)]"
      "offer_sound (p, mo_link s, outcome)" by blast
    from fl_send False assms(2) p o show ?thesis by (auto simp: motion_inv_defs split: option.splits)
  qed
qed (use assms(2) in \<open>auto simp: motion_inv_defs split: option.splits\<close>)

lemma motion_reach_inv: "motion_reach s \<Longrightarrow> motion_inv s"
proof (induction rule: motion_reach.induct)
  case motion_new
  show ?case by (simp add: motion_inv_def motion_start_def newest_accounted_def)
next
  case (motion_next s s')
  from motion_next(2) show ?case
  proof cases
    case mo_send
    from this motion_next(3) show ?thesis by (rule sender_step_inv)
  next
    case mo_flush
    from this motion_next(3) show ?thesis by (rule flusher_step_inv)
  qed (use motion_next(3) in \<open>auto simp: motion_inv_defs split: option.splits\<close>)
qed

text \<open>C21. The newest motion is never stranded: under any interleaving of senders, the flushing loop, the tasks that dial
  or lose the connection, a dropped handle and a stopping transport, whenever senders and loop are at rest and no
  command is waiting, the slot is empty and the last payload that was stored is the last one offered to the
  connection, unless the handle was dropped or the transport stopped. It was queued there exactly if the
  connection was established and open at that moment, did not refuse it, and the endpoint was valid; otherwise
  it was dropped.\<close>

theorem newest_motion_offered:
  assumes "motion_reach s" and "mo_flusher s = FlIdle" and "\<forall>t. mo_sender s t = SndIdle"
    and "ms_commands (mo_slot s) = 0" and "\<not> ms_closed (mo_slot s)" and "\<not> ms_stopped (mo_slot s)"
  shows "ms_latest (mo_slot s) = None \<and> \<not> ms_scheduled (mo_slot s)
    \<and> (\<forall>payload. mo_stored s = Some payload \<longrightarrow>
         (\<exists>link outcome. mo_offered s \<noteq> [] \<and> last (mo_offered s) = (payload, link, outcome)
            \<and> (outcome = Queued \<longleftrightarrow> link = Some (ConnReady True) \<and> outcome \<noteq> Refused \<and> outcome \<noteq> BadPeer)))"
proof -
  have inv: "motion_inv s" using motion_reach_inv [OF assms(1)] .
  then have quiet: "ms_latest (mo_slot s) = None \<and> \<not> ms_scheduled (mo_slot s)
    \<and> (\<forall>payload. mo_stored s = Some payload \<longrightarrow> mo_offered s \<noteq> [] \<and> fst (last (mo_offered s)) = payload)"
    using assms(2-) by (auto simp: motion_inv_defs some_sender_def working_sender_def)
  have "offer_sound (last (mo_offered s))" if "mo_offered s \<noteq> []"
    using inv that by (simp add: motion_inv_def list_all_iff)
  with quiet show ?thesis by (cases "last (mo_offered s)") (auto simp: offer_sound_def)
qed

text \<open>One motion through the slot: stored, scheduled, taken and queued on an open connection.\<close>

theorem newest_motion_offered_witness:
  "\<exists>s :: unit motion_system. motion_reach s \<and> mo_stored s = Some [7]
     \<and> last (mo_offered s) = ([7], Some (ConnReady True), Queued)"
proof -
  define s0 :: "unit motion_system" where "s0 = motion_start\<lparr>mo_link := Some (ConnReady True), mo_health := []\<rparr>"
  define s1 where "s1 = at_sender () (SndEncoded [7]) s0"
  define s2 where "s2 = at_sender () SndStored (upd_slot (\<lambda>m. m\<lparr>ms_latest := Some [7]\<rparr>) (s1\<lparr>mo_stored := Some [7]\<rparr>))"
  define s3 where "s3 = at_sender () (if ms_closed (mo_slot s2) then SndIdle else SndChecked) s2"
  define s4 where "s4 = at_sender () (if ms_scheduled (mo_slot s3) then SndIdle else SndWon)
      (upd_slot (\<lambda>m. m\<lparr>ms_scheduled := True\<rparr>) s3)"
  define s5 where "s5 = at_sender () SndIdle (upd_slot (\<lambda>m. if ms_stopped m then m\<lparr>ms_scheduled := False\<rparr>
      else m\<lparr>ms_commands := ms_commands m + 1\<rparr>) s4)"
  define s6 where "s6 = at_flusher FlStart (upd_slot (\<lambda>m. m\<lparr>ms_commands := ms_commands m - 1\<rparr>) s5)"
  define s7 where "s7 = at_flusher (FlTaken (ms_latest (mo_slot s6))) (upd_slot (\<lambda>m. m\<lparr>ms_latest := None\<rparr>) s6)"
  define s8 where "s8 = at_flusher FlSent (if ms_latest (mo_slot s6) = None \<or> ms_closed (mo_slot s7) then s7
      else offer_datagram 0 True True [] (the (ms_latest (mo_slot s6))) s7)"
  define s9 where "s9 = at_flusher FlCleared (upd_slot (\<lambda>m. m\<lparr>ms_scheduled := False\<rparr>) s8)"
  define s10 where "s10 = at_flusher (if ms_latest (mo_slot s9) = None then FlIdle else FlNewer) s9"
  note defs = s0_def s1_def s2_def s3_def s4_def s5_def s6_def s7_def s8_def s9_def s10_def
  have slots: "mo_slot s0 = \<lparr>ms_latest = None, ms_scheduled = False, ms_closed = False, ms_commands = 0,
      ms_stopped = False\<rparr>" "mo_flusher s0 = FlIdle" "mo_sender s0 t = SndIdle" for t :: unit
    by (simp_all add: s0_def motion_start_def)
  have pc: "mo_sender (at_sender () q x) () = q" "mo_sender (x\<lparr>mo_stored := y\<rparr>) = mo_sender x" for q and x :: "unit motion_system" and y
    by (simp_all add: at_sender_def)
  have "motion_reach s0" unfolding s0_def by (rule motion_next [OF motion_new mo_connection])
  then have "motion_reach s1" unfolding s1_def
    by (rule motion_next [OF _ mo_send [OF snd_begin]]) (simp_all add: slots)
  then have "motion_reach s2" unfolding s2_def
    by (rule motion_next [OF _ mo_send [OF snd_store]]) (simp add: s1_def pc)
  then have "motion_reach s3" unfolding s3_def
    by (rule motion_next [OF _ mo_send [OF snd_check]]) (simp add: s2_def pc)
  then have "motion_reach s4" unfolding s4_def
    by (rule motion_next [OF _ mo_send [OF snd_swap]]) (simp add: s3_def s2_def s1_def pc slots)
  then have "motion_reach s5" unfolding s5_def
    by (rule motion_next [OF _ mo_send [OF snd_command]]) (simp add: s4_def s3_def s2_def s1_def pc slots)
  then have "motion_reach s6" unfolding s6_def
    by (rule motion_next [OF _ mo_flush [OF fl_receive]]) (simp_all add: s5_def s4_def s3_def s2_def s1_def slots)
  then have "motion_reach s7" unfolding s7_def
    by (rule motion_next [OF _ mo_flush [OF fl_take]]) (simp_all add: s6_def s5_def s4_def s3_def s2_def s1_def slots)
  then have "motion_reach s8" unfolding s8_def
    by (rule motion_next [OF _ mo_flush [OF fl_send]]) (simp add: s7_def)
  then have "motion_reach s9" unfolding s9_def
    by (rule motion_next [OF _ mo_flush [OF fl_clear]]) (simp add: s8_def)
  then have reach: "motion_reach s10" unfolding s10_def
    by (rule motion_next [OF _ mo_flush [OF fl_look]]) (simp add: s9_def)
  have stored: "mo_stored s10 = Some [7]" by (simp add: defs slots)
  have rest: "\<forall>t. mo_sender s10 t = SndIdle" "mo_flusher s10 = FlIdle" "ms_commands (mo_slot s10) = 0"
    "\<not> ms_closed (mo_slot s10)" "\<not> ms_stopped (mo_slot s10)"
    by (simp_all add: s1_def s2_def s3_def s4_def s5_def s6_def s7_def s8_def s9_def s10_def slots pc)
  have offered: "mo_offered s10 = [([7], Some (ConnReady True), Queued)]"
    by (simp add: s8_def s9_def s10_def s7_def s6_def s5_def s4_def s3_def s2_def s1_def slots offer_datagram_def
        send_datagram_nonblocking_def) (simp add: s0_def motion_start_def)
  from newest_motion_offered [OF reach rest(2,1,3-5)] stored offered
  have "last (mo_offered s10) = ([7], Some (ConnReady True), Queued)" by simp
  with reach stored show ?thesis by blast
qed

end
