(* ===== verification/Controller_Client.thy ===== *)
theory Controller_Client
  imports Controller_Safety Transport_Trust
begin

text \<open>
  The controller's client loop (\<open>controller_client.rs\<close>): the runtime of \<open>Controller_Runtime\<close>, the
  transport it drives, the bounded inbox the transport's threads fill, and the keep-alive.

  The transport trait is a record of its operations over a state \<open>'t\<close>, and the QUIC transport an
  instance of it over the handles the transport hands out. A frame offered while \<open>poll\<close> runs counts
  as offered before or after it.
\<close>

section \<open>The transport\<close>

definition INBOUND_CONTROL_FRAMES :: nat where "INBOUND_CONTROL_FRAMES = 64"
definition PING_INTERVAL_MS :: u64 where "PING_INTERVAL_MS = 1000"

definition controller_mode_enabled :: "string \<Rightarrow> string \<Rightarrow> bool" where
  "controller_mode_enabled machine_role input_mode \<longleftrightarrow> machine_role = ''server'' \<and> input_mode = ''control''"

record controller_target =
  tg_peer_id :: string
  tg_addr :: string
  tg_protocol_version :: u16
  tg_target_display :: string
  tg_layout_revision :: u64

record 't controller_transport =
  tr_connect :: "controller_target \<Rightarrow> 't \<Rightarrow> (string, unit) result \<times> 't"
  tr_send_control :: "control_frame \<Rightarrow> 't \<Rightarrow> (string, unit) result \<times> 't"
  tr_open_input :: "'t \<Rightarrow> (string, unit) result \<times> 't"
  tr_send_input :: "critical_frame \<Rightarrow> 't \<Rightarrow> (string, unit) result \<times> 't"
  tr_send_motion :: "motion_frame \<Rightarrow> 't \<Rightarrow> (string, unit) result \<times> 't"
  tr_disconnect :: "'t \<Rightarrow> 't"

text \<open>
  What the client relies on: a connection that was closed, or could not be opened, carries nothing.
\<close>

locale transport_link =
  fixes T :: "'t controller_transport" and linked :: "'t \<Rightarrow> bool"
  assumes disconnect_unlinked: "\<not> linked (tr_disconnect T t)"
    and connect_failed: "tr_connect T target t = (Inl e, t') \<Longrightarrow> \<not> linked t'"
    and unlinked_control: "\<not> linked t \<Longrightarrow> \<exists>e. tr_send_control T frame t = (Inl e, t)"
    and unlinked_input: "\<not> linked t \<Longrightarrow> \<exists>e. tr_send_input T input t = (Inl e, t)"
    and unlinked_motion: "\<not> linked t \<Longrightarrow> \<exists>e. tr_send_motion T motion t = (Inl e, t)"

section \<open>The QUIC transport\<close>

text \<open>The handles of the transport, by the operations the controller calls on them.\<close>

record ('h, 'k, 'i, 'm) transport_handle =
  th_control_peer :: "string \<Rightarrow> peer_role \<Rightarrow> string \<Rightarrow> u16 \<Rightarrow> 'h \<Rightarrow> (string, control_peer) result"
  th_open_control :: "control_peer \<Rightarrow> 'h \<Rightarrow> (string, 'k) result \<times> 'h"
  th_open_input :: "control_peer \<Rightarrow> 'h \<Rightarrow> (string, 'i) result \<times> 'h"
  th_open_motion :: "control_peer \<Rightarrow> 'h \<Rightarrow> (string, 'm) result \<times> 'h"
  th_control_send :: "'k \<Rightarrow> control_frame \<Rightarrow> 'h \<Rightarrow> (string, unit) result \<times> 'h"
  th_input_send :: "'i \<Rightarrow> critical_frame \<Rightarrow> 'h \<Rightarrow> (string, unit) result \<times> 'h"
  th_motion_send :: "'m \<Rightarrow> motion_frame \<Rightarrow> 'h \<Rightarrow> (string, unit) result \<times> 'h"

record ('h, 'k, 'i, 'm) quic_transport =
  qt_transport :: 'h
  qt_peer :: "control_peer option"
  qt_control :: "'k option"
  qt_input :: "'i option"
  qt_motion :: "'m option"

definition quic_transport_new :: "'h \<Rightarrow> ('h, 'k, 'i, 'm) quic_transport" where
  "quic_transport_new transport =
     \<lparr>qt_transport = transport, qt_peer = None, qt_control = None, qt_input = None, qt_motion = None\<rparr>"

definition quic_disconnect :: "('h, 'k, 'i, 'm) quic_transport \<Rightarrow> ('h, 'k, 'i, 'm) quic_transport" where
  "quic_disconnect q = q\<lparr>qt_motion := None, qt_input := None, qt_control := None, qt_peer := None\<rparr>"

definition quic_connect ::
  "('h, 'k, 'i, 'm) transport_handle \<Rightarrow> controller_target \<Rightarrow> ('h, 'k, 'i, 'm) quic_transport
     \<Rightarrow> (string, unit) result \<times> ('h, 'k, 'i, 'm) quic_transport" where
  "quic_connect H target q =
     (let q1 = quic_disconnect q in
      case th_control_peer H (tg_peer_id target) PeerReceiver (tg_addr target)
          (tg_protocol_version target) (qt_transport q1) of
        Inl e \<Rightarrow> (Inl e, q1)
      | Inr peer \<Rightarrow>
          (case th_open_control H peer (qt_transport q1) of
             (Inl e, h) \<Rightarrow> (Inl e, q1\<lparr>qt_transport := h\<rparr>)
           | (Inr control, h) \<Rightarrow>
               (Inr (), q1\<lparr>qt_transport := h, qt_peer := Some peer, qt_control := Some control\<rparr>)))"

text \<open>A call on a handle that may not be there.\<close>

definition on_handle ::
  "string \<Rightarrow> ('h, 'k, 'i, 'm) quic_transport \<Rightarrow> 'x option \<Rightarrow> ('x \<Rightarrow> 'h \<Rightarrow> (string, unit) result \<times> 'h)
     \<Rightarrow> (string, unit) result \<times> ('h, 'k, 'i, 'm) quic_transport" where
  "on_handle missing q handle call =
     (case handle of
        None \<Rightarrow> (Inl missing, q)
      | Some x \<Rightarrow> (let (res, h) = call x (qt_transport q) in (res, q\<lparr>qt_transport := h\<rparr>)))"

definition quic_send_control ::
  "('h, 'k, 'i, 'm) transport_handle \<Rightarrow> control_frame \<Rightarrow> ('h, 'k, 'i, 'm) quic_transport
     \<Rightarrow> (string, unit) result \<times> ('h, 'k, 'i, 'm) quic_transport" where
  "quic_send_control H frame q =
     on_handle ''V2 control stream is not open'' q (qt_control q) (\<lambda>control. th_control_send H control frame)"

definition quic_open_input ::
  "('h, 'k, 'i, 'm) transport_handle \<Rightarrow> ('h, 'k, 'i, 'm) quic_transport
     \<Rightarrow> (string, unit) result \<times> ('h, 'k, 'i, 'm) quic_transport" where
  "quic_open_input H q =
     (case qt_peer q of
        None \<Rightarrow> (Inl ''V2 control peer is not connected'', q)
      | Some peer \<Rightarrow>
          (case th_open_input H peer (qt_transport q) of
             (Inl e, h) \<Rightarrow> (Inl e, q\<lparr>qt_transport := h\<rparr>)
           | (Inr input, h) \<Rightarrow>
               (case th_open_motion H peer h of
                  (Inl e, h') \<Rightarrow> (Inl e, q\<lparr>qt_transport := h'\<rparr>)
                | (Inr motion, h') \<Rightarrow>
                    (Inr (), q\<lparr>qt_transport := h', qt_input := Some input, qt_motion := Some motion\<rparr>))))"

definition quic_send_input ::
  "('h, 'k, 'i, 'm) transport_handle \<Rightarrow> critical_frame \<Rightarrow> ('h, 'k, 'i, 'm) quic_transport
     \<Rightarrow> (string, unit) result \<times> ('h, 'k, 'i, 'm) quic_transport" where
  "quic_send_input H frame q =
     on_handle ''V2 input stream is not open'' q (qt_input q) (\<lambda>input. th_input_send H input frame)"

definition quic_send_motion ::
  "('h, 'k, 'i, 'm) transport_handle \<Rightarrow> motion_frame \<Rightarrow> ('h, 'k, 'i, 'm) quic_transport
     \<Rightarrow> (string, unit) result \<times> ('h, 'k, 'i, 'm) quic_transport" where
  "quic_send_motion H frame q =
     on_handle ''V2 motion slot is not open'' q (qt_motion q) (\<lambda>motion. th_motion_send H motion frame)"

definition quic_controller_transport ::
  "('h, 'k, 'i, 'm) transport_handle \<Rightarrow> ('h, 'k, 'i, 'm) quic_transport controller_transport" where
  "quic_controller_transport H =
     \<lparr>tr_connect = quic_connect H, tr_send_control = quic_send_control H, tr_open_input = quic_open_input H,
       tr_send_input = quic_send_input H, tr_send_motion = quic_send_motion H, tr_disconnect = quic_disconnect\<rparr>"

definition quic_linked :: "('h, 'k, 'i, 'm) quic_transport \<Rightarrow> bool" where
  "quic_linked q \<longleftrightarrow> qt_peer q \<noteq> None \<or> qt_control q \<noteq> None \<or> qt_input q \<noteq> None \<or> qt_motion q \<noteq> None"

interpretation quic: transport_link "quic_controller_transport H" quic_linked
  by unfold_locales
    (auto simp: quic_controller_transport_def quic_linked_def quic_disconnect_def quic_connect_def Let_def
      quic_send_control_def quic_send_input_def quic_send_motion_def on_handle_def split: sum.splits prod.splits)

section \<open>The client\<close>

datatype controller_client_error =
    ClientRuntime controller_runtime_error
  | ClientTransport string
  | InboundOverflow

record 't controller_client =
  cc_runtime :: controller_runtime
  cc_transport :: 't
  cc_inbound :: "control_frame list"
  cc_overflowed :: bool
  cc_next_ping_ms :: "u64 option"

type_synonym ('t, 'c, 'a) client_result = "(controller_client_error, 'a) result \<times> 't controller_client \<times> 'c"

definition client_new ::
  "'t \<Rightarrow> boot_id \<Rightarrow> string \<Rightarrow> u64 \<Rightarrow> (controller_client_error, 't controller_client) result" where
  "client_new transport local_boot local_peer_id local_override =
     bind_result (map_err ClientRuntime (controller_runtime_new local_boot local_peer_id local_override))
       (\<lambda>runtime. Inr \<lparr>cc_runtime = runtime, cc_transport = transport, cc_inbound = [],
          cc_overflowed = False, cc_next_ping_ms = None\<rparr>)"

definition client_set_game_mode :: "bool \<Rightarrow> 't controller_client \<Rightarrow> 't controller_client" where
  "client_set_game_mode enabled cl = cl\<lparr>cc_runtime := runtime_set_game_mode enabled (cc_runtime cl)\<rparr>"

text \<open>The inbox, filled by the transport's threads.\<close>

definition inbox_offer :: "control_frame \<Rightarrow> 't controller_client \<Rightarrow> 't controller_client" where
  "inbox_offer frame cl =
     (if length (cc_inbound cl) < INBOUND_CONTROL_FRAMES then cl\<lparr>cc_inbound := cc_inbound cl @ [frame]\<rparr>
      else cl\<lparr>cc_overflowed := True\<rparr>)"

definition clear_inbound :: "'t controller_client \<Rightarrow> 't controller_client" where
  "clear_inbound cl = cl\<lparr>cc_overflowed := False, cc_inbound := []\<rparr>"

definition client_disconnect :: "'t controller_transport \<Rightarrow> 't controller_client \<Rightarrow> 't controller_client" where
  "client_disconnect T cl = cl\<lparr>cc_transport := tr_disconnect T (cc_transport cl)\<rparr>"

fun send_controls :: "'t controller_transport \<Rightarrow> controller_action list \<Rightarrow> 't \<Rightarrow> 't" where
  "send_controls T [] t = t"
| "send_controls T (SendControl frame # actions) t =
     send_controls T actions (snd (tr_send_control T frame t))"
| "send_controls T (_ # actions) t = send_controls T actions t"

definition fail_transport ::
  "'c capture_port \<Rightarrow> 't controller_transport \<Rightarrow> 't controller_client \<Rightarrow> 'c \<Rightarrow> 't controller_client \<times> 'c" where
  "fail_transport P T cl c =
     (let (res, runtime, c1) = controller_go_local P NetworkFailed (cc_runtime cl) c;
          transport = (case res of Inr actions \<Rightarrow> send_controls T actions (cc_transport cl)
                                 | Inl _ \<Rightarrow> cc_transport cl)
      in (cl\<lparr>cc_runtime := runtime, cc_transport := tr_disconnect T transport, cc_next_ping_ms := None\<rparr>, c1))"

fun perform_action :: "'t controller_transport \<Rightarrow> controller_action \<Rightarrow> 't \<Rightarrow> (string, unit) result \<times> 't" where
  "perform_action T (SendControl frame) t = tr_send_control T frame t"
| "perform_action T (OpenInput session_id) t = tr_open_input T t"
| "perform_action T CloseInput t = (Inr (), tr_disconnect T t)"

fun apply_actions ::
  "'c capture_port \<Rightarrow> 't controller_transport \<Rightarrow> controller_action list \<Rightarrow> 't controller_client \<Rightarrow> 'c
     \<Rightarrow> ('t, 'c, unit) client_result" where
  "apply_actions P T [] cl c = (Inr (), cl, c)"
| "apply_actions P T (action # actions) cl c =
     (case perform_action T action (cc_transport cl) of
        (Inl e, t) \<Rightarrow>
          (let (cl1, c1) = fail_transport P T (cl\<lparr>cc_transport := t\<rparr>) c in (Inl (ClientTransport e), cl1, c1))
      | (Inr _, t) \<Rightarrow> apply_actions P T actions (cl\<lparr>cc_transport := t\<rparr>) c)"

definition poll_ping ::
  "'c capture_port \<Rightarrow> 't controller_transport \<Rightarrow> u64 \<Rightarrow> 't controller_client \<Rightarrow> 'c
     \<Rightarrow> ('t, 'c, unit) client_result" where
  "poll_ping P T now_ms cl c =
     (if \<not> is_active (cc_runtime cl) then (Inr (), cl\<lparr>cc_next_ping_ms := None\<rparr>, c)
      else
        (let due = (case cc_next_ping_ms cl of Some due \<Rightarrow> due | None \<Rightarrow> saturating_add now_ms PING_INTERVAL_MS);
             cl1 = cl\<lparr>cc_next_ping_ms := Some due\<rparr>
         in if now_ms < due then (Inr (), cl1, c)
            else (case runtime_ping (cc_runtime cl1) of
                    (Inl e, runtime) \<Rightarrow> (Inl (ClientRuntime e), cl1\<lparr>cc_runtime := runtime\<rparr>, c)
                  | (Inr action, runtime) \<Rightarrow>
                      (case apply_actions P T [action] (cl1\<lparr>cc_runtime := runtime\<rparr>) c of
                         (Inl e, cl2, c2) \<Rightarrow> (Inl e, cl2, c2)
                       | (Inr _, cl2, c2) \<Rightarrow>
                           (Inr (), cl2\<lparr>cc_next_ping_ms := Some (saturating_add now_ms PING_INTERVAL_MS)\<rparr>, c2)))))"

definition client_begin ::
  "'c capture_port \<Rightarrow> 't controller_transport \<Rightarrow> controller_target \<Rightarrow> u64 \<Rightarrow> 't controller_client \<Rightarrow> 'c
     \<Rightarrow> ('t, 'c, unit) client_result" where
  "client_begin P T target now_ms cl c =
     (if \<not> can_begin (cc_runtime cl) then (Inl (ClientRuntime (CRoute Busy)), cl, c)
      else
        (let cl1 = (clear_inbound cl)\<lparr>cc_next_ping_ms := None\<rparr> in
         case tr_connect T target (cc_transport cl1) of
           (Inl e, t) \<Rightarrow> (Inl (ClientTransport e), cl1\<lparr>cc_transport := t\<rparr>, c)
         | (Inr _, t) \<Rightarrow>
             (let cl2 = cl1\<lparr>cc_transport := t\<rparr> in
              case begin_remote P (tg_peer_id target) (tg_target_display target) (tg_layout_revision target)
                  now_ms (cc_runtime cl2) c of
                (Inl e, runtime, c1) \<Rightarrow>
                  (Inl (ClientRuntime e), client_disconnect T (cl2\<lparr>cc_runtime := runtime\<rparr>), c1)
              | (Inr actions, runtime, c1) \<Rightarrow>
                  (case apply_actions P T actions (cl2\<lparr>cc_runtime := runtime\<rparr>) c1 of
                     (Inl e, cl3, c2) \<Rightarrow> (Inl e, cl3, c2)
                   | (Inr _, cl3, c2) \<Rightarrow> poll_ping P T now_ms cl3 c2))))"

text \<open>The frames of the inbox, each with the random bytes its handling may draw.\<close>

fun drain_inbound ::
  "'c capture_port \<Rightarrow> 't controller_transport \<Rightarrow> (nat \<Rightarrow> u8 list option) \<Rightarrow> u64 \<Rightarrow> control_frame list
     \<Rightarrow> 't controller_client \<Rightarrow> 'c \<Rightarrow> ('t, 'c, unit) client_result" where
  "drain_inbound P T fills now_ms [] cl c = (Inr (), cl\<lparr>cc_inbound := []\<rparr>, c)"
| "drain_inbound P T fills now_ms (frame # frames) cl c =
     (let cl1 = cl\<lparr>cc_inbound := frames\<rparr> in
      case controller_control P (fills (length frames)) frame now_ms (cc_runtime cl1) c of
        (Inl e, runtime, c1) \<Rightarrow>
          (Inl (ClientRuntime e), client_disconnect T (cl1\<lparr>cc_runtime := runtime\<rparr>), c1)
      | (Inr actions, runtime, c1) \<Rightarrow>
          (case apply_actions P T actions (cl1\<lparr>cc_runtime := runtime\<rparr>) c1 of
             (Inl e, cl2, c2) \<Rightarrow> (Inl e, cl2, c2)
           | (Inr _, cl2, c2) \<Rightarrow> drain_inbound P T fills now_ms frames cl2 c2))"

definition client_poll ::
  "'c capture_port \<Rightarrow> 'c focus_port \<Rightarrow> 't controller_transport \<Rightarrow> (nat \<Rightarrow> u8 list option) \<Rightarrow> u64 \<Rightarrow> bool
     \<Rightarrow> 't controller_client \<Rightarrow> 'c
     \<Rightarrow> (controller_client_error, unit) result \<times> 't controller_client \<times> 'c" where
  "client_poll P F T fills now_ms keys_released cl c =
     (if cc_overflowed cl then
        (let (cl1, c1) = fail_transport P T (cl\<lparr>cc_overflowed := False\<rparr>) c in (Inl InboundOverflow, cl1, c1))
      else case drain_inbound P T fills now_ms (cc_inbound cl) cl c of
        (Inl e, cl1, c1) \<Rightarrow> (Inl e, cl1, c1)
      | (Inr _, cl1, c1) \<Rightarrow>
          (case controller_advance P F now_ms keys_released (cc_runtime cl1) c1 of
             (Inl e, runtime, c2) \<Rightarrow>
               (let (cl2, c3) = fail_transport P T (cl1\<lparr>cc_runtime := runtime\<rparr>) c2
                in (Inl (ClientRuntime e), cl2, c3))
           | (Inr actions, runtime, c2) \<Rightarrow>
               (case apply_actions P T actions (cl1\<lparr>cc_runtime := runtime\<rparr>) c2 of
                  (Inl e, cl2, c3) \<Rightarrow> (Inl e, cl2, c3)
                | (Inr _, cl2, c3) \<Rightarrow>
                    (let (res, cl3, c4) = poll_ping P T now_ms cl2 c3 in (res, cl3, c4)))))"

definition client_send_input ::
  "'c capture_port \<Rightarrow> 't controller_transport \<Rightarrow> critical_event \<Rightarrow> 't controller_client \<Rightarrow> 'c
     \<Rightarrow> ('t, 'c, unit) client_result" where
  "client_send_input P T event cl c =
     (case next_input event (cc_runtime cl) of
        (Inl e, runtime) \<Rightarrow> (Inl (ClientRuntime e), cl\<lparr>cc_runtime := runtime\<rparr>, c)
      | (Inr frame, runtime) \<Rightarrow>
          (case tr_send_input T frame (cc_transport cl) of
             (Inl e, t) \<Rightarrow>
               (let (cl1, c1) = fail_transport P T (cl\<lparr>cc_runtime := runtime, cc_transport := t\<rparr>) c
                in (Inl (ClientTransport e), cl1, c1))
           | (Inr _, t) \<Rightarrow> (Inr (), cl\<lparr>cc_runtime := runtime, cc_transport := t\<rparr>, c)))"

definition client_send_motion ::
  "'c capture_port \<Rightarrow> 't controller_transport \<Rightarrow> i32 \<Rightarrow> i32 \<Rightarrow> 't controller_client \<Rightarrow> 'c
     \<Rightarrow> ('t, 'c, u64) client_result" where
  "client_send_motion P T x y cl c =
     (case next_motion x y (cc_runtime cl) of
        (Inl e, runtime) \<Rightarrow> (Inl (ClientRuntime e), cl\<lparr>cc_runtime := runtime\<rparr>, c)
      | (Inr frame, runtime) \<Rightarrow>
          (case tr_send_motion T frame (cc_transport cl) of
             (Inl e, t) \<Rightarrow>
               (let (cl1, c1) = fail_transport P T (cl\<lparr>cc_runtime := runtime, cc_transport := t\<rparr>) c
                in (Inl (ClientTransport e), cl1, c1))
           | (Inr _, t) \<Rightarrow> (Inr (mf_sequence frame), cl\<lparr>cc_runtime := runtime, cc_transport := t\<rparr>, c)))"

definition client_go_local ::
  "'c capture_port \<Rightarrow> 't controller_transport \<Rightarrow> return_reason \<Rightarrow> 't controller_client \<Rightarrow> 'c
     \<Rightarrow> ('t, 'c, unit) client_result" where
  "client_go_local P T reason cl c =
     (case controller_go_local P reason (cc_runtime cl) c of
        (Inl e, runtime, c1) \<Rightarrow> (Inl (ClientRuntime e), cl\<lparr>cc_runtime := runtime\<rparr>, c1)
      | (Inr actions, runtime, c1) \<Rightarrow>
          (case apply_actions P T actions (cl\<lparr>cc_runtime := runtime\<rparr>) c1 of
             (Inl e, cl1, c2) \<Rightarrow> (Inl e, cl1, c2)
           | (Inr _, cl1, c2) \<Rightarrow> (Inr (), cl1\<lparr>cc_next_ping_ms := None\<rparr>, c2)))"

end
