(* ===== verification/Client_Safety.thy ===== *)
theory Client_Safety
  imports Controller_Client
begin

text \<open>
  What the client loop guarantees, over any ports and transport that keep their contracts: a failure
  of the transport ends the session locally and closes the connection, the inbox is bounded and
  never loses a frame unnoticed, and the keep-alive is due while a session is active.
\<close>

section \<open>The operations as steps\<close>

fun err_of :: "('e, 'a) result \<Rightarrow> 'e option" where
  "err_of (Inl e) = Some e"
| "err_of (Inr _) = None"

text \<open>A step is labelled with the error the operation returned, if any.\<close>

inductive client_step ::
  "'c capture_port \<Rightarrow> 'c focus_port \<Rightarrow> 't controller_transport \<Rightarrow> ('t \<Rightarrow> bool)
     \<Rightarrow> 't controller_client \<times> 'c \<Rightarrow> controller_client_error option
     \<Rightarrow> 't controller_client \<times> 'c \<Rightarrow> bool" for P F T linked where
  cl_begin: "client_begin P T target now cl c = (res, cl', c') \<Longrightarrow>
    client_step P F T linked (cl, c) (err_of res) (cl', c')"
| cl_poll: "client_poll P F T fills now keys cl c = (res, cl', c') \<Longrightarrow>
    client_step P F T linked (cl, c) (err_of res) (cl', c')"
| cl_input: "client_send_input P T event cl c = (res, cl', c') \<Longrightarrow>
    client_step P F T linked (cl, c) (err_of res) (cl', c')"
| cl_motion: "client_send_motion P T x y cl c = (sent, cl', c') \<Longrightarrow>
    client_step P F T linked (cl, c) (err_of sent) (cl', c')"
| cl_local: "client_go_local P T reason cl c = (res, cl', c') \<Longrightarrow>
    client_step P F T linked (cl, c) (err_of res) (cl', c')"
| cl_game_mode: "client_step P F T linked (cl, c) None (client_set_game_mode enabled cl, c)"
| cl_offer: "client_step P F T linked (cl, c) None (inbox_offer frame cl, c)"
| cl_emergency: "client_step P F T linked (cl, c) None
    (cl\<lparr>cc_runtime := (cc_runtime cl)\<lparr>cr_router := router_emergency (cr_router (cc_runtime cl))\<rparr>\<rparr>, c)"
| cl_transport: "linked t \<longrightarrow> linked (cc_transport cl) \<Longrightarrow>
    client_step P F T linked (cl, c) None (cl\<lparr>cc_transport := t\<rparr>, c)"

inductive client_reach ::
  "'c capture_port \<Rightarrow> 'c focus_port \<Rightarrow> 't controller_transport \<Rightarrow> ('t \<Rightarrow> bool)
     \<Rightarrow> 't controller_client \<times> 'c \<Rightarrow> 't controller_client \<times> 'c \<Rightarrow> bool" for P F T linked s0 where
  cl_start: "client_reach P F T linked s0 s0"
| cl_next: "\<lbrakk>client_reach P F T linked s0 s; client_step P F T linked s e t\<rbrakk> \<Longrightarrow> client_reach P F T linked s0 t"

definition client_inv :: "'t controller_client \<Rightarrow> bool" where
  "client_inv cl \<longleftrightarrow> runtime_linked (cc_runtime cl) \<and> length (cc_inbound cl) \<le> INBOUND_CONTROL_FRAMES"

text \<open>The session is over on this side: the desktop is local and the connection closed.\<close>

definition stopped :: "('t \<Rightarrow> bool) \<Rightarrow> 't controller_client \<Rightarrow> bool" where
  "stopped linked cl \<longleftrightarrow> can_begin (cc_runtime cl) \<and> \<not> is_active (cc_runtime cl)
     \<and> is_local (rt_gate (cr_router (cc_runtime cl))) \<and> \<not> linked (cc_transport cl) \<and> cc_next_ping_ms cl = None"

text \<open>What an operation on the transport leaves of the inbox.\<close>

definition same_inbox :: "'t controller_client \<Rightarrow> 't controller_client \<Rightarrow> bool" where
  "same_inbox cl cl' \<longleftrightarrow> cc_inbound cl' = cc_inbound cl \<and> cc_overflowed cl' = cc_overflowed cl"

lemma same_inbox_refl [simp]: "same_inbox cl cl" by (simp add: same_inbox_def)
lemma same_inbox_trans: "same_inbox a b \<Longrightarrow> same_inbox b c \<Longrightarrow> same_inbox a c" by (simp add: same_inbox_def)

lemma over_not_active: "handshake_over (cr_handshake r) \<Longrightarrow> \<not> is_active r"
  by (auto simp: is_active_def active_sessionD handshake_over_def)

lemma local_is_local:
  assumes "runtime_linked r" and "can_begin r"
  shows "\<not> is_active r" and "is_local (rt_gate (cr_router r))"
proof -
  show "\<not> is_active r" using assms linked_local [of r] over_not_active [of r] by (simp add: can_begin_def)
  show "is_local (rt_gate (cr_router r))"
    using assms by (cases "rt_state (cr_router r)") (auto simp: can_begin_def runtime_linked_def router_inv_def)
qed

lemma ping_interval_ahead: "now < saturating_add now PING_INTERVAL_MS \<or> now = - 1"
proof (rule disjCI)
  assume "now \<noteq> - 1"
  then have "unat now \<noteq> unat (- 1 :: u64)" by (simp only: word_unat_eq_iff not_False_eq_True)
  moreover have "unat (- 1 :: u64) = 18446744073709551615"
    by (simp add: unsigned_minus_1_eq_mask mask_eq_exp_minus_1)
  moreover have "unat now < 2 ^ LENGTH(64)" by (rule unsigned_less)
  ultimately have "unat now < 18446744073709551615" by simp
  then have "unat now < unat (saturating_add now PING_INTERVAL_MS)"
    unfolding saturating_add_unat PING_INTERVAL_MS_def by simp
  then show "now < saturating_add now PING_INTERVAL_MS" by (simp only: word_less_nat_alt)
qed

lemma ping_active: "runtime_ping r = (res, r') \<Longrightarrow> is_active r' = is_active r"
  by (auto simp: runtime_ping_def controller_ping_def is_active_def active_session_def
      split: option.splits sum.splits prod.splits)

locale client_ports = handoff_contract P F + transport_link T linked
  for P :: "'c capture_port" and F :: "'c focus_port" and T :: "'t controller_transport" and linked :: "'t \<Rightarrow> bool"
begin

lemma fail_transport_stopped:
  assumes "fail_transport P T cl c = (cl', c')" and "runtime_linked (cc_runtime cl)"
  shows "stopped linked cl'" and "runtime_linked (cc_runtime cl')" and "same_inbox cl cl'"
proof -
  obtain res r c1 where loc: "controller_go_local P NetworkFailed (cc_runtime cl) c = (res, r, c1)"
    by (cases "controller_go_local P NetworkFailed (cc_runtime cl) c")
  note gl = go_local_runtime_linked [OF loc assms(2)]
  from assms(1) loc have cl': "cc_runtime cl' = r" "cc_next_ping_ms cl' = None"
      "\<exists>t. cc_transport cl' = tr_disconnect T t" and frame: "same_inbox cl cl'"
    by (auto simp: fail_transport_def Let_def same_inbox_def)
  show "stopped linked cl'"
    using gl cl' over_not_active disconnect_unlinked by (auto simp: stopped_def can_begin_def)
  show "runtime_linked (cc_runtime cl')" using gl(1) cl'(1) by simp
  show "same_inbox cl cl'" by (rule frame)
qed

lemma apply_actions_result:
  assumes "apply_actions P T actions cl c = (res, cl', c')" and "runtime_linked (cc_runtime cl)"
  shows "runtime_linked (cc_runtime cl') \<and> same_inbox cl cl'
    \<and> (case res of Inl e \<Rightarrow> (\<exists>message. e = ClientTransport message) \<and> stopped linked cl'
        | Inr _ \<Rightarrow> cc_runtime cl' = cc_runtime cl \<and> cc_next_ping_ms cl' = cc_next_ping_ms cl)"
  using assms
proof (induction actions arbitrary: cl)
  case (Cons action actions)
  obtain done_res t where act: "perform_action T action (cc_transport cl) = (done_res, t)" by fastforce
  show ?case
  proof (cases done_res)
    case (Inl e)
    obtain cl1 c1 where fail: "fail_transport P T (cl\<lparr>cc_transport := t\<rparr>) c = (cl1, c1)" by fastforce
    with Cons.prems(1) act Inl have "res = Inl (ClientTransport e)" "cl' = cl1" by simp_all
    with fail_transport_stopped [OF fail] Cons.prems(2) show ?thesis by (simp add: same_inbox_def)
  next
    case (Inr u)
    with Cons.prems(1) act have "apply_actions P T actions (cl\<lparr>cc_transport := t\<rparr>) c = (res, cl', c')" by simp
    from Cons.IH [OF this] Cons.prems(2) show ?thesis by (simp add: same_inbox_def split: sum.splits)
  qed
qed auto

lemma poll_ping_result:
  assumes "poll_ping P T now cl c = (res, cl', c')" and "runtime_linked (cc_runtime cl)"
  shows "runtime_linked (cc_runtime cl') \<and> same_inbox cl cl'
    \<and> (case res of Inl e \<Rightarrow> (\<forall>message. e = ClientTransport message \<longrightarrow> stopped linked cl') \<and> e \<noteq> InboundOverflow
        | Inr _ \<Rightarrow> (if is_active (cc_runtime cl') then \<exists>due. cc_next_ping_ms cl' = Some due \<and> (now < due \<or> now = - 1)
              else cc_next_ping_ms cl' = None))"
proof (cases "is_active (cc_runtime cl)")
  case False
  with assms show ?thesis by (auto simp: poll_ping_def same_inbox_def)
next
  case True
  define due where "due = (case cc_next_ping_ms cl of Some due \<Rightarrow> due | None \<Rightarrow> saturating_add now PING_INTERVAL_MS)"
  define cl1 where "cl1 = cl\<lparr>cc_next_ping_ms := Some due\<rparr>"
  show ?thesis
  proof (cases "now < due")
    case early: True
    with True assms(1) have "res = Inr ()" "cl' = cl1"
      by (simp_all add: poll_ping_def Let_def due_def [symmetric] cl1_def [symmetric])
    with True early assms(2) show ?thesis by (simp add: cl1_def same_inbox_def)
  next
    case late: False
    obtain ping r where pg: "runtime_ping (cc_runtime cl1) = (ping, r)" by fastforce
    have lnk: "runtime_linked r" using ping_linked [OF pg] assms(2) by (simp add: cl1_def)
    show ?thesis
    proof (cases ping)
      case (Inl e)
      with True late assms(1) pg have "res = Inl (ClientRuntime e)" "cl' = cl1\<lparr>cc_runtime := r\<rparr>"
        by (simp_all add: poll_ping_def Let_def due_def [symmetric] cl1_def [symmetric])
      with lnk show ?thesis by (simp add: cl1_def same_inbox_def)
    next
      case (Inr action)
      obtain sent cl2 c2 where ap: "apply_actions P T [action] (cl1\<lparr>cc_runtime := r\<rparr>) c = (sent, cl2, c2)"
        by (metis prod_cases3)
      have "poll_ping P T now cl c = (case apply_actions P T [action] (cl1\<lparr>cc_runtime := r\<rparr>) c of
          (Inl e, cl2, c2) \<Rightarrow> (Inl e, cl2, c2)
        | (Inr _, cl2, c2) \<Rightarrow> (Inr (), cl2\<lparr>cc_next_ping_ms := Some (saturating_add now PING_INTERVAL_MS)\<rparr>, c2))"
        using True late pg Inr
        by (simp add: poll_ping_def Let_def due_def [symmetric] cl1_def [symmetric] del: apply_actions.simps)
      then have out: "(res, cl', c') = (case sent of Inl e \<Rightarrow> (Inl e, cl2, c2)
          | Inr _ \<Rightarrow> (Inr (), cl2\<lparr>cc_next_ping_ms := Some (saturating_add now PING_INTERVAL_MS)\<rparr>, c2))"
        using assms(1) ap by (simp del: apply_actions.simps split: sum.splits)
      have after: "now < saturating_add now PING_INTERVAL_MS \<or> now = - 1" by (rule ping_interval_ahead)
      note A = apply_actions_result [OF ap, simplified, OF lnk]
      have active: "is_active r" using True ping_active [OF pg] by (simp add: cl1_def)
      show ?thesis
        using A out after active
        by (cases sent) (auto simp: same_inbox_def cl1_def)
    qed
  qed
qed

lemma drain_result:
  assumes "drain_inbound P T fills now frames cl c = (res, cl', c')" and "runtime_linked (cc_runtime cl)"
  shows "runtime_linked (cc_runtime cl') \<and> cc_overflowed cl' = cc_overflowed cl
    \<and> (case res of Inl e \<Rightarrow> (\<forall>message. e = ClientTransport message \<longrightarrow> stopped linked cl') \<and> e \<noteq> InboundOverflow
          \<and> length (cc_inbound cl') < length frames \<and> \<not> linked (cc_transport cl')
        | Inr _ \<Rightarrow> cc_inbound cl' = [])"
  using assms
proof (induction frames arbitrary: cl c)
  case (Cons frame frames)
  obtain out r c1 where ctl: "controller_control P (fills (length frames)) frame now (cc_runtime cl) c = (out, r, c1)"
    by (metis prod_cases3)
  have lnk: "runtime_linked r" using control_linked [OF ctl Cons.prems(2)] .
  show ?case
  proof (cases out)
    case (Inl e)
    with Cons.prems(1) ctl have "res = Inl (ClientRuntime e)"
      "cl' = client_disconnect T (cl\<lparr>cc_inbound := frames, cc_runtime := r\<rparr>)" by (simp_all add: Let_def)
    with lnk disconnect_unlinked show ?thesis by (simp add: client_disconnect_def)
  next
    case (Inr actions)
    obtain done_res cl2 c2 where ap: "apply_actions P T actions (cl\<lparr>cc_inbound := frames, cc_runtime := r\<rparr>) c1
        = (done_res, cl2, c2)" by (metis prod_cases3)
    note A = apply_actions_result [OF ap, simplified, OF lnk]
    show ?thesis
    proof (cases done_res)
      case (Inl e)
      with Cons.prems(1) ctl Inr ap have "res = Inl e" "cl' = cl2" by (simp_all add: Let_def)
      with A Inl show ?thesis by (auto simp: same_inbox_def stopped_def)
    next
      case ok: (Inr u)
      with Cons.prems(1) ctl Inr ap have "drain_inbound P T fills now frames cl2 c2 = (res, cl', c')"
        by (simp add: Let_def)
      from Cons.IH [OF this] A show ?thesis by (auto simp: same_inbox_def split: sum.splits)
    qed
  qed
qed auto

text \<open>One poll, by what it returns.\<close>

lemma poll_result:
  assumes "client_poll P F T fills now keys cl c = (res, cl', c')" and "client_inv cl"
  shows "client_inv cl'
    \<and> (case res of
        Inl e \<Rightarrow> (e = InboundOverflow \<longleftrightarrow> cc_overflowed cl) \<and>
          ((\<exists>message. e = ClientTransport message) \<or> e = InboundOverflow \<longrightarrow> stopped linked cl')
      | Inr _ \<Rightarrow> \<not> cc_overflowed cl \<and> \<not> cc_overflowed cl' \<and> cc_inbound cl' = []
          \<and> (if is_active (cc_runtime cl') then \<exists>due. cc_next_ping_ms cl' = Some due \<and> (now < due \<or> now = - 1)
             else cc_next_ping_ms cl' = None))"
proof (cases "cc_overflowed cl")
  case True
  obtain cl1 c1 where fail: "fail_transport P T (cl\<lparr>cc_overflowed := False\<rparr>) c = (cl1, c1)" by fastforce
  with True assms(1) have "res = Inl InboundOverflow" "cl' = cl1" by (simp_all add: client_poll_def)
  with True assms(2) fail_transport_stopped [OF fail] show ?thesis
    by (simp add: client_inv_def same_inbox_def)
next
  case False
  obtain dres cl1 c1 where dr: "drain_inbound P T fills now (cc_inbound cl) cl c = (dres, cl1, c1)" by (metis prod_cases3)
  have D: "runtime_linked (cc_runtime cl1) \<and> cc_overflowed cl1 = cc_overflowed cl
    \<and> (case dres of Inl e \<Rightarrow> (\<forall>message. e = ClientTransport message \<longrightarrow> stopped linked cl1) \<and> e \<noteq> InboundOverflow
          \<and> length (cc_inbound cl1) < length (cc_inbound cl) \<and> \<not> linked (cc_transport cl1)
        | Inr _ \<Rightarrow> cc_inbound cl1 = [])"
    using drain_result [OF dr] assms(2) by (simp add: client_inv_def)
  show ?thesis
  proof (cases dres)
    case (Inl e)
    with False assms(1) dr have "res = Inl e" "cl' = cl1" by (simp_all add: client_poll_def)
    with D Inl False assms(2) show ?thesis by (auto simp: client_inv_def)
  next
    case (Inr u)
    obtain ares r c2 where adv: "controller_advance P F now keys (cc_runtime cl1) c1 = (ares, r, c2)"
      by (metis prod_cases3)
    have lnk: "runtime_linked r" and "is_ok ares" using advance_linked [OF adv] D by simp_all
    then obtain actions where ok: "ares = Inr actions" by (auto simp: is_ok_iff)
    obtain sent cl2 c3 where ap: "apply_actions P T actions (cl1\<lparr>cc_runtime := r\<rparr>) c2 = (sent, cl2, c3)"
      by (metis prod_cases3)
    note A = apply_actions_result [OF ap, simplified, OF lnk]
    show ?thesis
    proof (cases sent)
      case err: (Inl e)
      with False Inr ok assms(1) dr adv ap have "res = Inl e" "cl' = cl2" by (simp_all add: client_poll_def)
      with A D Inr err False show ?thesis by (auto simp: client_inv_def same_inbox_def)
    next
      case go: (Inr v)
      obtain pres cl3 c4 where pp: "poll_ping P T now cl2 c3 = (pres, cl3, c4)" by (metis prod_cases3)
      with False Inr ok go assms(1) dr adv ap have "res = pres" "cl' = cl3" by (simp_all add: client_poll_def)
      with poll_ping_result [OF pp] A D Inr go False show ?thesis
        by (auto simp: client_inv_def same_inbox_def split: sum.splits)
    qed
  qed
qed

lemma begin_result:
  assumes "client_begin P T target now cl c = (res, cl', c')" and "client_inv cl"
  shows "client_inv cl' \<and> (\<forall>message. res = Inl (ClientTransport message) \<longrightarrow> stopped linked cl')
    \<and> res \<noteq> Inl InboundOverflow"
proof (cases "can_begin (cc_runtime cl)")
  case False
  with assms show ?thesis by (auto simp: client_begin_def)
next
  case True
  have lnk: "runtime_linked (cc_runtime cl)" using assms(2) by (simp add: client_inv_def)
  define cl1 where "cl1 = (clear_inbound cl)\<lparr>cc_next_ping_ms := None\<rparr>"
  have cl1: "cc_runtime cl1 = cc_runtime cl" "cc_inbound cl1 = []" "cc_next_ping_ms cl1 = None"
    by (simp_all add: cl1_def clear_inbound_def)
  obtain con t where co: "tr_connect T target (cc_transport cl1) = (con, t)" by fastforce
  show ?thesis
  proof (cases con)
    case (Inl e)
    with True assms(1) co have "res = Inl (ClientTransport e)" "cl' = cl1\<lparr>cc_transport := t\<rparr>"
      by (simp_all add: client_begin_def Let_def cl1_def [symmetric])
    with True lnk cl1 local_is_local [OF lnk] connect_failed [OF co [unfolded Inl]] show ?thesis
      by (simp add: client_inv_def stopped_def)
  next
    case (Inr u)
    obtain out r c1 where bg: "begin_remote P (tg_peer_id target) (tg_target_display target)
        (tg_layout_revision target) now (cc_runtime cl) c = (out, r, c1)" by (metis prod_cases3)
    have lnk': "runtime_linked r" using begin_linked [OF bg lnk] .
    show ?thesis
    proof (cases out)
      case err: (Inl e)
      with True Inr assms(1) co bg cl1(1) have "res = Inl (ClientRuntime e)"
        "cl' = client_disconnect T (cl1\<lparr>cc_transport := t, cc_runtime := r\<rparr>)"
        by (simp_all add: client_begin_def Let_def cl1_def [symmetric])
      with lnk' cl1 show ?thesis by (simp add: client_inv_def client_disconnect_def)
    next
      case go: (Inr actions)
      obtain sent cl3 c2 where ap: "apply_actions P T actions (cl1\<lparr>cc_transport := t, cc_runtime := r\<rparr>) c1
          = (sent, cl3, c2)" by (metis prod_cases3)
      note A = apply_actions_result [OF ap, simplified, OF lnk']
      show ?thesis
      proof (cases sent)
        case e: (Inl e)
        with True Inr go assms(1) co bg ap cl1(1) have "res = Inl e" "cl' = cl3"
          by (simp_all add: client_begin_def Let_def cl1_def [symmetric])
        with A e cl1 show ?thesis by (auto simp: client_inv_def same_inbox_def)
      next
        case (Inr v)
        with True \<open>con = Inr u\<close> go assms(1) co bg ap cl1(1) have "poll_ping P T now cl3 c2 = (res, cl', c')"
          by (simp add: client_begin_def Let_def cl1_def [symmetric])
        from poll_ping_result [OF this] A Inr cl1 show ?thesis
          by (auto simp: client_inv_def same_inbox_def split: sum.splits)
      qed
    qed
  qed
qed

text \<open>Sending a frame: it fails with a transport error only after the client has gone local.\<close>

lemma sent_or_stopped:
  assumes "runtime_linked r" and "client_inv cl"
    and "(case outcome of
        (Inl e, t) \<Rightarrow>
          (let (cl1, c1) = fail_transport P T (cl\<lparr>cc_runtime := r, cc_transport := t\<rparr>) c
           in (Inl (ClientTransport e), cl1, c1))
      | (Inr _, t) \<Rightarrow> (Inr x, cl\<lparr>cc_runtime := r, cc_transport := t\<rparr>, c)) = (res, cl', c')"
  shows "client_inv cl' \<and> (\<forall>message. res = Inl (ClientTransport message) \<longrightarrow> stopped linked cl')
    \<and> res \<noteq> Inl InboundOverflow"
proof (cases outcome)
  case (Pair out t)
  show ?thesis
  proof (cases out)
    case (Inl e)
    obtain cl1 c1 where fail: "fail_transport P T (cl\<lparr>cc_runtime := r, cc_transport := t\<rparr>) c = (cl1, c1)" by fastforce
    with assms(3) Pair Inl have "res = Inl (ClientTransport e)" "cl' = cl1" by simp_all
    with fail_transport_stopped [OF fail] assms(1,2) show ?thesis by (simp add: client_inv_def same_inbox_def)
  next
    case (Inr u)
    with assms Pair show ?thesis by (auto simp: client_inv_def)
  qed
qed

lemma send_input_result:
  assumes "client_send_input P T event cl c = (res, cl', c')" and "client_inv cl"
  shows "client_inv cl' \<and> (\<forall>message. res = Inl (ClientTransport message) \<longrightarrow> stopped linked cl')
    \<and> res \<noteq> Inl InboundOverflow"
proof -
  obtain out r where ni: "next_input event (cc_runtime cl) = (out, r)" by fastforce
  have lnk: "runtime_linked r" using sequences_linked(1) [OF ni] assms(2) by (simp add: client_inv_def)
  show ?thesis
  proof (cases out)
    case (Inl e)
    with assms ni lnk show ?thesis by (auto simp: client_send_input_def client_inv_def)
  next
    case (Inr frame)
    with assms(1) ni show ?thesis
      by (intro sent_or_stopped [OF lnk assms(2), where outcome = "tr_send_input T frame (cc_transport cl)" and x = "()"])
        (simp add: client_send_input_def)
  qed
qed

lemma send_motion_result:
  assumes "client_send_motion P T x y cl c = (res, cl', c')" and "client_inv cl"
  shows "client_inv cl' \<and> (\<forall>message. res = Inl (ClientTransport message) \<longrightarrow> stopped linked cl')
    \<and> res \<noteq> Inl InboundOverflow"
proof -
  obtain out r where nm: "next_motion x y (cc_runtime cl) = (out, r)" by fastforce
  have lnk: "runtime_linked r" using sequences_linked(2) [OF nm] assms(2) by (simp add: client_inv_def)
  show ?thesis
  proof (cases out)
    case (Inl e)
    with assms nm lnk show ?thesis by (auto simp: client_send_motion_def client_inv_def)
  next
    case (Inr frame)
    with assms(1) nm show ?thesis
      by (intro sent_or_stopped [OF lnk assms(2), where outcome = "tr_send_motion T frame (cc_transport cl)"
            and x = "mf_sequence frame"])
        (simp add: client_send_motion_def)
  qed
qed

lemma client_go_local_result:
  assumes "client_go_local P T reason cl c = (res, cl', c')" and "client_inv cl"
  shows "client_inv cl' \<and> (\<forall>message. res = Inl (ClientTransport message) \<longrightarrow> stopped linked cl')
    \<and> res \<noteq> Inl InboundOverflow"
proof -
  obtain out r c1 where gl: "controller_go_local P reason (cc_runtime cl) c = (out, r, c1)" by (metis prod_cases3)
  have lnk: "runtime_linked r" and "is_ok out"
    using go_local_runtime_linked [OF gl] assms(2) by (simp_all add: client_inv_def)
  then obtain actions where ok: "out = Inr actions" by (auto simp: is_ok_iff)
  obtain sent cl1 c2 where ap: "apply_actions P T actions (cl\<lparr>cc_runtime := r\<rparr>) c1 = (sent, cl1, c2)"
    by (metis prod_cases3)
  note A = apply_actions_result [OF ap, simplified, OF lnk]
  show ?thesis
  proof (cases sent)
    case (Inl e)
    with assms(1) gl ok ap have "res = Inl e" "cl' = cl1" by (simp_all add: client_go_local_def)
    with A Inl assms(2) show ?thesis by (auto simp: client_inv_def same_inbox_def)
  next
    case (Inr v)
    with assms(1) gl ok ap have "res = Inr ()" "cl' = cl1\<lparr>cc_next_ping_ms := None\<rparr>"
      by (simp_all add: client_go_local_def)
    with A assms(2) show ?thesis by (auto simp: client_inv_def same_inbox_def)
  qed
qed

lemma offer_inv: "client_inv cl \<Longrightarrow> client_inv (inbox_offer frame cl)"
  by (simp add: client_inv_def inbox_offer_def)

lemma offers_inv: "client_inv cl \<Longrightarrow> client_inv (fold inbox_offer frames cl)"
  by (induction frames arbitrary: cl) (simp_all add: offer_inv)

lemma client_step_safe:
  assumes "client_step P F T linked s e t" and "client_inv (fst s)"
  shows "client_inv (fst t) \<and> (e = Some InboundOverflow \<or> (\<exists>message. e = Some (ClientTransport message))
    \<longrightarrow> stopped linked (fst t))"
  using assms
proof cases
  case (cl_begin target now cl c res cl' c')
  with begin_result assms(2) show ?thesis by (cases res) fastforce+
next
  case (cl_poll fills now keys cl c res cl' c')
  with poll_result [OF cl_poll(4)] assms(2) show ?thesis by (cases res) auto
next
  case (cl_input event cl c res cl' c')
  with send_input_result assms(2) show ?thesis by (cases res) fastforce+
next
  case (cl_motion x y cl c sent cl' c')
  with send_motion_result assms(2) show ?thesis by (cases sent) fastforce+
next
  case (cl_local reason cl c res cl' c')
  with client_go_local_result assms(2) show ?thesis by (cases res) fastforce+
next
  case (cl_game_mode cl c enabled)
  with assms(2) game_mode_linked show ?thesis by (simp add: client_inv_def client_set_game_mode_def)
next
  case (cl_offer cl c frame)
  with assms(2) offer_inv show ?thesis by simp
next
  case (cl_emergency cl c)
  with assms(2) emergency_linked show ?thesis by (simp add: client_inv_def)
next
  case (cl_transport t cl c)
  with assms(2) show ?thesis by (simp add: client_inv_def)
qed

lemma client_reach_inv: "client_reach P F T linked s t \<Longrightarrow> client_inv (fst s) \<Longrightarrow> client_inv (fst t)"
  by (induction rule: client_reach.induct) (auto dest: client_step_safe)

end

lemma client_new_inv: "client_new transport boot peer gate_default = Inr cl \<Longrightarrow> client_inv cl"
  using runtime_new_linked by (auto simp: client_new_def client_inv_def split: sum.splits)

lemma offers_result:
  assumes "length (cc_inbound cl) \<le> INBOUND_CONTROL_FRAMES"
  shows "if length (cc_inbound cl) + length frames \<le> INBOUND_CONTROL_FRAMES
    then fold inbox_offer frames cl = cl\<lparr>cc_inbound := cc_inbound cl @ frames\<rparr>
    else cc_overflowed (fold inbox_offer frames cl)"
proof -
  have keeps: "cc_overflowed cl \<Longrightarrow> cc_overflowed (fold inbox_offer fs cl)" for fs and cl :: "'t controller_client"
    by (induction fs arbitrary: cl) (simp_all add: inbox_offer_def)
  show ?thesis using assms
  proof (induction frames arbitrary: cl)
    case (Cons frame frames)
    show ?case
    proof (cases "length (cc_inbound cl) < INBOUND_CONTROL_FRAMES")
      case True
      then have offer: "inbox_offer frame cl = cl\<lparr>cc_inbound := cc_inbound cl @ [frame]\<rparr>" by (simp add: inbox_offer_def)
      from Cons.IH [of "inbox_offer frame cl", unfolded offer] True show ?thesis by (simp add: offer)
    next
      case False
      then have "cc_overflowed (inbox_offer frame cl)" by (simp add: inbox_offer_def)
      with keeps False show ?thesis by simp
    qed
  qed simp
qed

text \<open>
  A second acknowledgement while the session is active is the one error of \<open>handle_control\<close> that does
  not go local: the poll closes the connection and leaves the session active. The next frame that
  is sent finds the connection closed and ends it.
\<close>

lemma stray_ack_closes_only_connection:
  assumes "\<not> cc_overflowed cl" and "cc_inbound cl = [CommitAck s]" and "cr_pending_request (cc_runtime cl) = None"
  shows "client_poll P F T fills now keys cl c
    = (Inl (ClientRuntime CNotActive), client_disconnect T (cl\<lparr>cc_inbound := []\<rparr>), c)"
  using assms by (simp add: client_poll_def controller_control_def handle_commit_ack_def Let_def client_disconnect_def)

context client_ports begin

lemma send_on_closed_stops:
  assumes "client_send_input P T event cl c = (res, cl', c')" and "client_inv cl" and "\<not> linked (cc_transport cl)"
  shows "(\<exists>message. res = Inl (ClientTransport message)) \<and> stopped linked cl' \<or> (\<exists>e. res = Inl (ClientRuntime e))"
proof -
  obtain out r where ni: "next_input event (cc_runtime cl) = (out, r)" by fastforce
  show ?thesis
  proof (cases out)
    case (Inl e)
    with assms(1) ni show ?thesis by (auto simp: client_send_input_def)
  next
    case (Inr frame)
    from unlinked_input [OF assms(3)] obtain e where "tr_send_input T frame (cc_transport cl) = (Inl e, cc_transport cl)"
      by blast
    with assms(1) ni Inr have "res = Inl (ClientTransport e)" by (auto simp: client_send_input_def Let_def split: prod.splits)
    with send_input_result [OF assms(1,2)] show ?thesis by simp
  qed
qed

end

section \<open>Properties\<close>

text \<open>C8. A failing transport hands the machine back: in every run, with input, frames from the peer, other
  threads' emergencies and a transport that breaks at any point, whatever operation reports a
  transport error or an overflowing inbox leaves the router local, no session active, no input
  swallowed, the connection closed and no ping due.\<close>

theorem transport_failure_returns_local:
  assumes "client_ports P F T linked" and "client_new transport boot peer gate_default = Inr cl0"
    and "client_reach P F T linked (cl0, c0) s" and "client_step P F T linked s (Some e) (cl, c)"
    and "e = InboundOverflow \<or> e = ClientTransport message"
  shows "can_begin (cc_runtime cl) \<and> \<not> is_active (cc_runtime cl)
    \<and> is_local (rt_gate (cr_router (cc_runtime cl))) \<and> \<not> linked (cc_transport cl) \<and> cc_next_ping_ms cl = None"
proof -
  have "client_inv (fst s)"
    using client_ports.client_reach_inv [OF assms(1,3)] client_new_inv [OF assms(2)] by simp
  from client_ports.client_step_safe [OF assms(1,4) this] assms(5) have "stopped linked cl" by auto
  then show ?thesis by (simp add: stopped_def)
qed

text \<open>No control frame is lost unnoticed: frames offered to the inbox since the last poll are all kept
  in order while 64 fit; if one did not fit, the next poll reports the overflow, and the session
  has been ended locally.\<close>

theorem dropped_frame_reported:
  assumes "client_ports P F T linked" and "client_new transport boot peer gate_default = Inr cl0"
    and "client_reach P F T linked (cl0, c0) (cl, c)"
    and "client_poll P F T fills now keys (fold inbox_offer frames cl) c = (res, cl', c')"
  shows "if length (cc_inbound cl) + length frames \<le> INBOUND_CONTROL_FRAMES
    then cc_inbound (fold inbox_offer frames cl) = cc_inbound cl @ frames \<and> (res = Inr () \<longrightarrow> cc_inbound cl' = [])
    else res = Inl InboundOverflow \<and> can_begin (cc_runtime cl') \<and> \<not> is_active (cc_runtime cl')"
proof -
  have inv: "client_inv cl"
    using client_ports.client_reach_inv [OF assms(1,3)] client_new_inv [OF assms(2)] by simp
  have "client_inv (fold inbox_offer frames cl)"
    using inv by (rule client_ports.offers_inv [OF assms(1)])
  note P = client_ports.poll_result [OF assms(1,4) this]
  from offers_result [of cl frames] inv P show ?thesis
    by (cases res) (auto simp: client_inv_def stopped_def split: if_splits)
qed

text \<open>After a poll that succeeds the inbox is empty, and the keep-alive is set up exactly while a session
  is active: the next ping is due later than now (or the clock is at its end), so the receiver's
  lease is renewed on the next polls.\<close>

theorem poll_settles_client:
  assumes "client_ports P F T linked" and "client_new transport boot peer gate_default = Inr cl0"
    and "client_reach P F T linked (cl0, c0) (cl, c)"
    and "client_poll P F T fills now keys cl c = (Inr (), cl', c')"
  shows "cc_inbound cl' = [] \<and> \<not> cc_overflowed cl'
    \<and> (if is_active (cc_runtime cl') then \<exists>due. cc_next_ping_ms cl' = Some due \<and> (now < due \<or> now = - 1)
       else cc_next_ping_ms cl' = None)"
proof -
  have "client_inv cl"
    using client_ports.client_reach_inv [OF assms(1,3)] client_new_inv [OF assms(2)] by simp
  from client_ports.poll_result [OF assms(1,4) this] show ?thesis by (auto split: if_splits)
qed

text \<open>A client over the QUIC transport whose control stream opens and then refuses every frame.\<close>

definition demo_handle :: "(unit, unit, unit, unit) transport_handle" where
  "demo_handle = \<lparr>
     th_control_peer = (\<lambda>peer_id role addr version _. Inr \<lparr>cp_peer_id = peer_id, cp_role = role,
       cp_trust_revision = 1, cp_endpoint = \<lparr>pe_addr = addr, pe_public_key = ''key'', pe_protocol_version = version\<rparr>\<rparr>),
     th_open_control = (\<lambda>_ h. (Inr (), h)), th_open_input = (\<lambda>_ h. (Inr (), h)), th_open_motion = (\<lambda>_ h. (Inr (), h)),
     th_control_send = (\<lambda>_ _ h. (Inl ''control closed'', h)), th_input_send = (\<lambda>_ _ h. (Inr (), h)),
     th_motion_send = (\<lambda>_ _ h. (Inr (), h))\<rparr>"

definition demo_link :: "(unit, unit, unit, unit) quic_transport controller_transport" where
  "demo_link = quic_controller_transport demo_handle"

definition demo_client :: "(unit, unit, unit, unit) quic_transport controller_client" where
  "demo_client = \<lparr>cc_runtime = demo_runtime, cc_transport = quic_transport_new (), cc_inbound = [],
     cc_overflowed = False, cc_next_ping_ms = None\<rparr>"

definition demo_target :: controller_target where
  "demo_target = \<lparr>tg_peer_id = demo_peer, tg_addr = ''127.0.0.1:44888'', tg_protocol_version = 2,
     tg_target_display = ''main'', tg_layout_revision = 5\<rparr>"

interpretation demo_loop: client_ports both_capture both_focus demo_link quic_linked
  unfolding demo_link_def by unfold_locales

lemma demo_client_new: "client_new (quic_transport_new ()) (demo_boot 1) demo_peer_id gate_default = Inr demo_client"
  by (simp add: client_new_def demo_runtime_new demo_client_def)

lemma demo_client_begin:
  "\<exists>cl c. client_begin both_capture demo_link demo_target 0 demo_client (demo_ports 0 0 0)
     = (Inl (ClientTransport ''control closed''), cl, c)"
proof -
  have "can_begin demo_runtime" by (simp add: can_begin_def demo_runtime_def router_default_def router_with_gate_def)
  then have "fst (client_begin both_capture demo_link demo_target 0 demo_client (demo_ports 0 0 0))
      = Inl (ClientTransport ''control closed'')"
    by (auto simp: client_begin_def demo_client_def clear_inbound_def demo_target_def demo_link_def demo_handle_def
        quic_controller_transport_def quic_connect_def quic_disconnect_def quic_transport_new_def
        quic_send_control_def on_handle_def demo_begin_remote Let_def split: prod.splits)
  then show ?thesis
    by (cases "client_begin both_capture demo_link demo_target 0 demo_client (demo_ports 0 0 0)") simp
qed

theorem transport_failure_returns_local_witness:
  "\<exists>cl c. client_begin both_capture demo_link demo_target 0 demo_client (demo_ports 0 0 0)
      = (Inl (ClientTransport ''control closed''), cl, c)
    \<and> can_begin (cc_runtime cl) \<and> \<not> quic_linked (cc_transport cl)"
proof -
  obtain cl c where run: "client_begin both_capture demo_link demo_target 0 demo_client (demo_ports 0 0 0)
      = (Inl (ClientTransport ''control closed''), cl, c)" using demo_client_begin by blast
  from cl_begin [OF run, of both_focus quic_linked]
  have "client_step both_capture both_focus demo_link quic_linked (demo_client, demo_ports 0 0 0)
      (Some (ClientTransport ''control closed'')) (cl, c)" by simp
  from transport_failure_returns_local [OF demo_loop.client_ports_axioms demo_client_new cl_start this] run
  show ?thesis by simp
qed

theorem dropped_frame_reported_witness:
  "\<exists>cl c. client_poll both_capture both_focus demo_link (\<lambda>_. None) 0 True
      (fold inbox_offer (replicate 65 (CommitAck demo_session)) demo_client) (demo_ports 0 0 0)
    = (Inl InboundOverflow, cl, c)"
proof -
  obtain res cl c where run: "client_poll both_capture both_focus demo_link (\<lambda>_. None) 0 True
      (fold inbox_offer (replicate 65 (CommitAck demo_session)) demo_client) (demo_ports 0 0 0)
      = (res, cl, c)" by (metis prod_cases3)
  from dropped_frame_reported [OF demo_loop.client_ports_axioms demo_client_new cl_start run]
  have "res = Inl InboundOverflow" by (simp add: demo_client_def INBOUND_CONTROL_FRAMES_def)
  with run show ?thesis by blast
qed

theorem poll_settles_client_witness:
  "\<exists>cl c. client_poll both_capture both_focus demo_link (\<lambda>_. None) 0 True demo_client
      (demo_ports 0 0 0) = (Inr (), cl, c) \<and> cc_next_ping_ms cl = None"
proof -
  have run: "\<exists>cl c. client_poll both_capture both_focus demo_link (\<lambda>_. None) 0 True demo_client
      (demo_ports 0 0 0) = (Inr (), cl, c) \<and> \<not> is_active (cc_runtime cl)"
    by (simp add: client_poll_def demo_client_def controller_advance_def router_advance_def demo_runtime_def
        router_default_def router_with_gate_def poll_ping_def is_active_def active_session_def demo_controller_def)
  then obtain cl c where run: "client_poll both_capture both_focus demo_link (\<lambda>_. None) 0 True demo_client
      (demo_ports 0 0 0) = (Inr (), cl, c)" and "\<not> is_active (cc_runtime cl)" by blast
  with poll_settles_client [OF demo_loop.client_ports_axioms demo_client_new cl_start run] show ?thesis by auto
qed

end
