(* ===== verification/Clipboard_Handler.thy ===== *)
theory Clipboard_Handler
  imports Clipboard_Network Transport_Budget Transport_Trust
begin

text \<open>
  The application's use of the clipboard engine (\<open>lib.rs\<close>): the handler of an incoming clipboard
  payload, the retries of a write to the system clipboard, and one iteration of the loop that sends
  local copies.

  The state of the system clipboard is \<open>'w\<close>, and writing it and reading its revision are arguments. A
  shared engine of \<open>None\<close> is one the application has not set up. The content of a text is the list
  of its UTF-8 bytes.
\<close>

section \<open>Receiving\<close>

fun bulk_origin :: "clipboard_bulk_operation \<Rightarrow> string" where
  "bulk_origin (BulkText t) = ct_origin_peer t"
| "bulk_origin (BulkImage i) = ci_origin_peer i"

fun bulk_content :: "clipboard_bulk_operation \<Rightarrow> clipboard_content" where
  "bulk_content (BulkText t) = ContentText (ct_text t)"
| "bulk_content (BulkImage i) =
     ContentImage \<lparr>im_width = ci_width i, im_height = ci_height i, im_rgba_base64 = ci_rgba_base64 i\<rparr>"

text \<open>Images are accepted when they are enabled and their size is the one of their dimensions.\<close>

fun bulk_permitted :: "bool \<Rightarrow> clipboard_bulk_operation \<Rightarrow> bool" where
  "bulk_permitted image_allowed (BulkText t) = True"
| "bulk_permitted image_allowed (BulkImage i) =
     (image_allowed \<and> is_ok (validate_image_data (ci_width i) (ci_height i) (ci_rgba_base64 i)))"

definition handle_v2_clipboard_operation_with_revision ::
  "(u8 list \<Rightarrow> u8 list) \<Rightarrow> bulk_envelope codec \<Rightarrow> u8 list \<Rightarrow> authenticated_peer \<Rightarrow> string \<Rightarrow> bool
     \<Rightarrow> (clipboard_content \<Rightarrow> 'w \<Rightarrow> (string, unit) result \<times> 'w) \<Rightarrow> ('w \<Rightarrow> u64)
     \<Rightarrow> clipboard_engine option \<Rightarrow> 'w \<Rightarrow> bool \<times> clipboard_engine option \<times> 'w" where
  "handle_v2_clipboard_operation_with_revision sha C payload authenticated local_peer_id image_allowed
      write_content revision_after_write shared w =
     (case decode_clipboard_bulk sha C payload of
        Inl _ \<Rightarrow> (False, shared, w)
      | Inr operation \<Rightarrow>
          if bulk_origin operation \<noteq> ap_peer_id authenticated \<or> bulk_origin operation = local_peer_id
          then (False, shared, w)
          else (case shared of
            None \<Rightarrow> (False, shared, w)
          | Some engine \<Rightarrow>
              if \<not> bulk_permitted image_allowed operation then (False, shared, w)
              else (case consider_bulk sha operation engine of
                  (RemoteIgnoreDuplicate, engine') \<Rightarrow> (True, Some engine', w)
                | (RemoteIgnoreStale, engine') \<Rightarrow> (True, Some engine', w)
                | (RemoteRejectInvalid, engine') \<Rightarrow> (False, Some engine', w)
                | (RemoteApply, engine') \<Rightarrow>
                    (case write_content (bulk_content operation) w of
                       (Inl _, w') \<Rightarrow> (False, Some engine', w')
                     | (Inr _, w') \<Rightarrow>
                         (True, Some (commit_bulk operation (revision_after_write w') engine'), w')))))"

section \<open>Writing\<close>

definition CLIPBOARD_WRITE_ATTEMPTS :: nat where "CLIPBOARD_WRITE_ATTEMPTS = 5"

fun write_attempts ::
  "(clipboard_content \<Rightarrow> 'w \<Rightarrow> (string, unit) result \<times> 'w) \<Rightarrow> clipboard_content \<Rightarrow> nat \<Rightarrow> string option \<Rightarrow> 'w
     \<Rightarrow> (string, unit) result \<times> 'w" where
  "write_attempts write_content content 0 last_error w =
     (Inl (case last_error of Some e \<Rightarrow> e | None \<Rightarrow> ''failed to write clipboard content''), w)"
| "write_attempts write_content content (Suc attempts) last_error w =
     (case write_content content w of
        (Inr _, w') \<Rightarrow> (Inr (), w')
      | (Inl e, w') \<Rightarrow> write_attempts write_content content attempts (Some e) w')"

definition retry_clipboard_content_write ::
  "clipboard_content \<Rightarrow> nat \<Rightarrow> (clipboard_content \<Rightarrow> 'w \<Rightarrow> (string, unit) result \<times> 'w) \<Rightarrow> 'w
     \<Rightarrow> (string, unit) result \<times> 'w" where
  "retry_clipboard_content_write content attempts write_content w =
     write_attempts write_content content (max attempts 1) None w"

section \<open>Sending\<close>

text \<open>How one iteration of the loop ends.\<close>

datatype sync_outcome =
    SyncIdle
  | SyncStopped
  | SyncNotice string
  | SyncFailed
  | SyncSent

definition working_bytes :: "nat \<Rightarrow> nat \<Rightarrow> nat" where
  "working_bytes overhead content_bytes =
     (case Option.bind (usize_checked_mul content_bytes 2) (\<lambda>bytes. usize_checked_add bytes overhead) of
        Some bytes \<Rightarrow> bytes
      | None \<Rightarrow> 18446744073709551615)"

text \<open>The operation is encoded within the memory budget, of which \<open>used\<close> bytes are taken.\<close>

definition budgeted_encode ::
  "nat \<Rightarrow> nat \<Rightarrow> (protocol_error, u8 list) result \<Rightarrow> (sync_outcome, u8 list) result" where
  "budgeted_encode used bytes encoded =
     (case fst (with_bulk_memory_budget bytes (\<lambda>_. encoded) used) of
        Inl _ \<Rightarrow> Inl SyncIdle
      | Inr (Inl _) \<Rightarrow> Inl SyncIdle
      | Inr (Inr payload) \<Rightarrow> Inr payload)"

definition text_payload ::
  "(u8 list \<Rightarrow> u8 list) \<Rightarrow> bulk_envelope codec \<Rightarrow> nat \<Rightarrow> clipboard_text_operation local_decision
     \<Rightarrow> (sync_outcome, u8 list) result" where
  "text_payload sha C used decision =
     (case decision of
        LocalSend operation \<Rightarrow>
          budgeted_encode used (working_bytes 65536 (length (ct_text operation))) (text_operation_encode sha C operation)
      | LocalOversized bytes limit \<Rightarrow>
          Inl (SyncNotice (''Clipboard text is '' @ show_nat bytes @ '' bytes; the configured limit is ''
            @ show_nat limit @ '' bytes.''))
      | _ \<Rightarrow> Inl SyncIdle)"

definition image_payload ::
  "(u8 list \<Rightarrow> u8 list) \<Rightarrow> bulk_envelope codec \<Rightarrow> nat \<Rightarrow> clipboard_image_operation local_decision
     \<Rightarrow> (sync_outcome, u8 list) result" where
  "image_payload sha C used decision =
     (case decision of
        LocalSend operation \<Rightarrow>
          budgeted_encode used (working_bytes 1048576 (length (ci_rgba_base64 operation)))
            (image_operation_encode sha C operation)
      | LocalOversized bytes limit \<Rightarrow>
          Inl (SyncNotice (''Clipboard image is '' @ show_nat bytes @ '' encoded bytes; the limit is ''
            @ show_nat limit @ '' bytes.''))
      | _ \<Rightarrow> Inl SyncIdle)"

definition content_payload ::
  "(u8 list \<Rightarrow> u8 list) \<Rightarrow> bulk_envelope codec \<Rightarrow> nat \<Rightarrow> bool \<Rightarrow> u64 \<Rightarrow> bool \<Rightarrow> clipboard_content
     \<Rightarrow> clipboard_engine option \<Rightarrow> (sync_outcome, u8 list) result \<times> clipboard_engine option" where
  "content_payload sha C used manual_resend system_revision image_allowed content shared =
     (case content of
        ContentText text \<Rightarrow>
          (case shared of
             None \<Rightarrow> (Inl SyncStopped, None)
           | Some engine \<Rightarrow>
               (let (decision, engine') =
                  (if manual_resend then manual_resend_text sha system_revision text engine
                   else observe_local_text sha system_revision text engine)
                in (text_payload sha C used decision, Some engine')))
      | ContentImage img \<Rightarrow>
          if \<not> image_allowed then (Inl SyncIdle, shared)
          else (case validate_image_encoding img of
            Inl e \<Rightarrow> (Inl (SyncNotice (''Clipboard image was not sent: '' @ e)), shared)
          | Inr _ \<Rightarrow>
              (case shared of
                 None \<Rightarrow> (Inl SyncStopped, None)
               | Some engine \<Rightarrow>
                   (let (decision, engine') =
                      (if manual_resend
                       then manual_resend_image sha system_revision (im_width img) (im_height img)
                         (im_rgba_base64 img) max_image_encoded_bytes engine
                       else observe_local_image sha system_revision (im_width img) (im_height img)
                         (im_rgba_base64 img) max_image_encoded_bytes engine)
                    in (image_payload sha C used decision, Some engine')))))"

record 'n sync_state =
  sy_engine :: "clipboard_engine option"
  sy_network :: 'n
  sy_transport_packets :: u64
  sy_clipboard_packets :: u64

text \<open>From what was read of the system clipboard to the packet on the wire.\<close>

definition clipboard_sync_iteration ::
  "(u8 list \<Rightarrow> u8 list) \<Rightarrow> bulk_envelope codec \<Rightarrow> nat \<Rightarrow> bool \<Rightarrow> u64 \<Rightarrow> bool \<Rightarrow> (string, peer_endpoint) result
     \<Rightarrow> (peer_endpoint \<Rightarrow> u8 list \<Rightarrow> 'n \<Rightarrow> (string, unit) result \<times> 'n) \<Rightarrow> clipboard_content clipboard_read
     \<Rightarrow> 'n sync_state \<Rightarrow> sync_outcome \<times> 'n sync_state" where
  "clipboard_sync_iteration sha C used manual_resend system_revision image_allowed peer send read s =
     (case read of
        ReadContent content \<Rightarrow>
          (let (payload, engine) = content_payload sha C used manual_resend system_revision image_allowed
                 content (sy_engine s);
               s1 = s\<lparr>sy_engine := engine\<rparr>
           in case payload of
                Inl outcome \<Rightarrow> (outcome, s1)
              | Inr bytes \<Rightarrow>
                  (case peer of
                     Inl _ \<Rightarrow> (SyncFailed, s1)
                   | Inr endpoint \<Rightarrow>
                       (case send endpoint bytes (sy_network s1) of
                          (Inl _, n) \<Rightarrow> (SyncFailed, s1\<lparr>sy_network := n\<rparr>)
                        | (Inr _, n) \<Rightarrow>
                            (SyncSent, s1\<lparr>sy_network := n, sy_transport_packets := sy_transport_packets s1 + 1,
                               sy_clipboard_packets := sy_clipboard_packets s1 + 1\<rparr>))))
      | _ \<Rightarrow> (SyncIdle, s))"

section \<open>What is sent and what is accepted\<close>

lemma budgeted_encode_InrD: "budgeted_encode used bytes encoded = Inr payload \<Longrightarrow> encoded = Inr payload"
  by (auto simp: budgeted_encode_def with_bulk_memory_budget_def split: sum.splits)

text \<open>A payload that is sent carries a valid operation with the copied content.\<close>

lemma payload_operation:
  assumes "content_payload sha C used manual revision True content (Some a) = (Inr payload, shared)"
  shows "\<exists>operation a'. shared = Some a' \<and> bulk_content operation = content \<and> sends operation a a'
    \<and> validate_bulk sha operation = Inr () \<and> encode_clipboard_bulk C operation = Inr payload
    \<and> bulk_permitted True operation"
proof (cases content)
  case (ContentText content_text)
  define act where "act = (if manual then ResendText revision content_text else CopyText revision content_text)"
  obtain decision a' where step: "(if manual then manual_resend_text sha revision content_text a
      else observe_local_text sha revision content_text a) = (decision, a')" by fastforce
  from assms ContentText step have pay: "text_payload sha C used decision = Inr payload" and a': "shared = Some a'"
    by (simp_all add: content_payload_def)
  from pay obtain t where t: "decision = LocalSend t" and enc: "text_operation_encode sha C t = Inr payload"
    by (auto simp: text_payload_def dest: budgeted_encode_InrD split: local_decision.splits)
  from step t have "local_action sha act a = (Some (BulkText t), a')" by (cases manual) (simp_all add: act_def)
  from local_action_result [OF this] have "sends (BulkText t) a a'" by simp
  moreover from step t have "ct_text t = content_text"
    by (auto simp: local_action_defs split: if_splits)
  ultimately show ?thesis using enc a' ContentText
    by (intro exI [of _ "BulkText t"] exI [of _ "a'"]) (simp add: text_operation_encode_def validate_bulk_def)
next
  case (ContentImage img)
  define act where "act = (if manual
    then ResendImage revision (im_width img) (im_height img) (im_rgba_base64 img) max_image_encoded_bytes
    else CopyImage revision (im_width img) (im_height img) (im_rgba_base64 img) max_image_encoded_bytes)"
  obtain decision a' where step: "(if manual
      then manual_resend_image sha revision (im_width img) (im_height img) (im_rgba_base64 img) max_image_encoded_bytes a
      else observe_local_image sha revision (im_width img) (im_height img) (im_rgba_base64 img) max_image_encoded_bytes a)
      = (decision, a')" by fastforce
  from assms ContentImage obtain n where n: "validate_image_encoding img = Inr n"
    by (auto simp: content_payload_def split: sum.splits)
  with assms ContentImage step have pay: "image_payload sha C used decision = Inr payload" and a': "shared = Some a'"
    by (simp_all add: content_payload_def)
  from pay obtain t where t: "decision = LocalSend t" and enc: "image_operation_encode sha C t = Inr payload"
    by (auto simp: image_payload_def dest: budgeted_encode_InrD split: local_decision.splits)
  from step t have "local_action sha act a = (Some (BulkImage t), a')" by (cases manual) (simp_all add: act_def)
  from local_action_result [OF this] have "sends (BulkImage t) a a'" by simp
  moreover from step t have parts: "ci_width t = im_width img" "ci_height t = im_height img"
      "ci_rgba_base64 t = im_rgba_base64 img"
    by (auto simp: local_action_defs split: if_splits)
  ultimately show ?thesis using enc a' ContentImage n
    by (intro exI [of _ "BulkImage t"] exI [of _ "a'"])
      (simp add: image_operation_encode_def validate_bulk_def validate_image_encoding_def)
qed

text \<open>A valid operation within the receiver's text limit is acceptable.\<close>

fun content_fits :: "clipboard_engine \<Rightarrow> clipboard_content \<Rightarrow> bool" where
  "content_fits e (ContentText text) \<longleftrightarrow> length text \<le> ce_text_limit e"
| "content_fits e (ContentImage img) \<longleftrightarrow> True"

lemma valid_acceptable:
  assumes "validate_bulk sha operation = Inr ()" and "content_fits e (bulk_content operation)"
  shows "bulk_acceptable sha e operation"
  using assms
  by (cases operation)
    (auto simp: validate_bulk_def validate_clipboard_text_operation_def validate_clipboard_image_operation_def
      text_acceptable_def image_acceptable_def)

lemma acceptable_valid_text: "decode_clipboard_bulk sha C payload = Inr operation \<Longrightarrow> validate_bulk sha operation = Inr ()"
  by (auto simp: decode_clipboard_bulk_def split: if_splits)

text \<open>The digest of a valid operation is the one its content is observed with.\<close>

fun content_digest :: "(u8 list \<Rightarrow> u8 list) \<Rightarrow> clipboard_content \<Rightarrow> u8 list" where
  "content_digest sha (ContentText text) = sha (string_bytes text)"
| "content_digest sha (ContentImage img) = sha (string_bytes (im_rgba_base64 img))"

lemma valid_digest: "validate_bulk sha operation = Inr () \<Longrightarrow> bulk_digest operation = content_digest sha (bulk_content operation)"
  by (cases operation)
    (auto simp: validate_bulk_def validate_clipboard_text_operation_def validate_clipboard_image_operation_def)

lemma observe_echo:
  assumes "ce_applied_remote_echo e = Some (revision, bulk_digest operation, operation_id)"
    and "validate_bulk sha operation = Inr ()" and "bulk_permitted True operation"
  shows "content_payload sha C used False revision True (bulk_content operation) (Some e)
    = (Inl SyncIdle, Some (note_revision revision e))"
  using assms valid_digest [OF assms(2)]
  by (cases operation)
    (auto simp: content_payload_def observe_local_text_def observe_local_image_def is_echo_def text_payload_def
      image_payload_def validate_image_encoding_def is_ok_iff split: sum.splits)

text \<open>The handler, once the payload has been decoded.\<close>

lemma handle_cases:
  assumes "handle_v2_clipboard_operation_with_revision sha C payload peer local_id allowed write revision (Some e) w
    = (ok, shared, w')"
  obtains (untouched) "w' = w" and "\<exists>lamport. shared = Some (e\<lparr>ce_lamport := lamport\<rparr>)"
  | (attempted) operation res where "decode_clipboard_bulk sha C payload = Inr operation"
      and "bulk_origin operation = ap_peer_id peer" and "bulk_origin operation \<noteq> local_id"
      and "bulk_permitted allowed operation" and "bulk_acceptable sha e operation"
      and "\<forall>current. ce_current_order e = Some current \<longrightarrow> current < bulk_order operation"
      and "write (bulk_content operation) w = (res, w')" and "ok = is_ok res"
      and "shared = Some ((if ok then commit_bulk operation (revision w') else id)
        (e\<lparr>ce_lamport := max (ce_lamport e) (oo_lamport (bulk_order operation))\<rparr>))"
proof (cases "decode_clipboard_bulk sha C payload")
  case (Inl err)
  with assms have "w' = w" "shared = Some (e\<lparr>ce_lamport := ce_lamport e\<rparr>)"
    by (simp_all add: handle_v2_clipboard_operation_with_revision_def)
  then show ?thesis by (intro untouched) blast+
next
  case (Inr operation)
  show ?thesis
  proof (cases "bulk_origin operation = ap_peer_id peer \<and> bulk_origin operation \<noteq> local_id
      \<and> bulk_permitted allowed operation \<and> fst (consider_bulk sha operation e) = RemoteApply")
    case False
    have lam: "\<exists>lamport. snd (consider_bulk sha operation e) = e\<lparr>ce_lamport := lamport\<rparr>"
    proof (cases "bulk_acceptable sha e operation")
      case True
      then show ?thesis by (auto simp: consider_bulk_cases compare_remote_simps(1))
    next
      case False
      then have "snd (consider_bulk sha operation e) = e\<lparr>ce_lamport := ce_lamport e\<rparr>" by (simp add: consider_bulk_cases)
      then show ?thesis by blast
    qed
    have same: "\<exists>lamport. e = e\<lparr>ce_lamport := lamport\<rparr>" by (rule exI [of _ "ce_lamport e"]) simp
    obtain decision e1 where con: "consider_bulk sha operation e = (decision, e1)" by fastforce
    with lam obtain lamport where "e1 = e\<lparr>ce_lamport := lamport\<rparr>" by auto
    with assms Inr False con same show ?thesis
      by (intro untouched)
        (auto simp: handle_v2_clipboard_operation_with_revision_def split: if_splits remote_decision.splits)
  next
    case True
    then have acc: "bulk_acceptable sha e operation"
      by (auto simp: consider_bulk_cases split: if_splits)
    with True have newer: "\<forall>current. ce_current_order e = Some current \<longrightarrow> current < bulk_order operation"
      by (simp add: consider_bulk_cases compare_remote_simps(2))
    let ?e1 = "e\<lparr>ce_lamport := max (ce_lamport e) (oo_lamport (bulk_order operation))\<rparr>"
    have con: "consider_bulk sha operation e = (RemoteApply, ?e1)"
      using True acc compare_remote_simps(1) [of "bulk_order operation" e]
      by (simp add: consider_bulk_cases prod_eq_iff)
    obtain res w1 where wr: "write (bulk_content operation) w = (res, w1)" by fastforce
    with assms Inr True con have "w' = w1" "ok = is_ok res"
        "shared = Some ((if ok then commit_bulk operation (revision w1) else id) ?e1)"
      by (cases res; simp add: handle_v2_clipboard_operation_with_revision_def)+
    with True acc newer wr show ?thesis by (intro attempted [OF Inr, of res]) blast+
  qed
qed

section \<open>Where the echo is not recognised and where the clock ends\<close>

text \<open>
  The loop recognises its own write by the revision the handler read after it. On systems other than
  Windows and macOS the handler reads 0 and the loop counts its polls, so the content just received
  is sent back, and every later poll sends it again.
\<close>

lemma unmatched_revision_sends:
  assumes "ce_applied_remote_echo e = Some (0, digest, operation_id)" and "revision \<noteq> 0"
    and "revision \<noteq> ce_last_local_revision e" and "length text \<le> ce_text_limit e"
  shows "\<exists>operation e'. observe_local_text sha revision text e = (LocalSend operation, e') \<and> ct_text operation = text
    \<and> ce_last_local_revision e' = revision"
  using assms
  by (simp add: observe_local_text_def is_echo_def new_local_operation_def advance_local_def note_revision_def Let_def)

text \<open>An operation with the largest Lamport time is accepted and stops the clock of the engine.\<close>

lemma saturated_clock_stays:
  assumes "text_acceptable sha e t" and "ct_lamport t = - 1"
  shows "ce_lamport (snd (consider_remote sha t e)) = - 1"
    and "ce_lamport e' = - 1 \<Longrightarrow> ce_lamport (advance_local digest e') = - 1"
  using assms by (simp_all add: consider_remote_def compare_remote_simps(1) text_order_def advance_local_def
      saturating_add_def max_def unsigned_minus_1_eq_mask mask_eq_exp_minus_1)

section \<open>Properties\<close>

text \<open>C20. Nobody else writes the clipboard: whatever a peer sends, the system clipboard is written at most
  once, with the content of an operation that decodes and validates, comes from the peer the
  connection was authenticated as, is not our own, is newer than the current one and, for an
  image, is enabled and of the size of its dimensions; the operation becomes current only if the
  write succeeded, and otherwise can be received again.\<close>

theorem remote_clipboard_authorized:
  assumes "handle_v2_clipboard_operation_with_revision sha C payload peer local_id allowed
      (\<lambda>content written. (verdict content, written @ [content])) (\<lambda>_. revision) (Some e) [] = (ok, Some e', written)"
  shows "(written = [] \<and> ce_current_order e' = ce_current_order e)
    \<or> (\<exists>operation. written = [bulk_content operation] \<and> decode_clipboard_bulk sha C payload = Inr operation
        \<and> validate_bulk sha operation = Inr () \<and> bulk_origin operation = ap_peer_id peer
        \<and> bulk_origin operation \<noteq> local_id \<and> bulk_permitted allowed operation
        \<and> (\<forall>current. ce_current_order e = Some current \<longrightarrow> current < bulk_order operation)
        \<and> ok = is_ok (verdict (bulk_content operation))
        \<and> ce_current_order e' = (if ok then Some (bulk_order operation) else ce_current_order e))"
  using assms
proof (cases rule: handle_cases)
  case (attempted operation res)
  with acceptable_valid_text [OF attempted(1)] show ?thesis
    by (intro disjI2 exI [of _ operation]) auto
qed auto

text \<open>C9. A copy arrives and does not come back. Take the payload one machine's loop produces for a copied text or image,
  with images enabled on both machines and a clock that is not at its end. A peer with another id that has seen
  nothing newer, whose limits admit the content and whose write succeeds writes the same content there, and both
  machines then agree on the current operation. When the peer's own loop then sees the clipboard with this content,
  under the revision its handler read after the write, as the revisions of Windows and macOS let it, it sends
  nothing; a codec that decodes what it encodes is assumed.\<close>

theorem copied_content_arrives:
  assumes "codec_faithful C"
    and "content_payload sha C used manual copied True content (Some a) = (Inr payload, Some a')"
    and "ap_peer_id peer = ce_local_peer a" and "local_id \<noteq> ce_local_peer a"
    and "\<forall>current. ce_current_order b = Some current \<longrightarrow> oo_lamport current \<le> ce_lamport a"
    and "ce_lamport a' < - 1" and "content_fits b content" and "write content w = (Inr (), w')"
  shows "\<exists>b'. handle_v2_clipboard_operation_with_revision sha C payload peer local_id True write revision (Some b) w
      = (True, Some b', w')
    \<and> ce_current_order b' = ce_current_order a' \<and> ce_current_digest b' = ce_current_digest a'
    \<and> fst (content_payload sha C used' False (revision w') True content (Some b')) = Inl SyncIdle"
proof -
  from payload_operation [OF assms(2)] obtain operation where
    content: "bulk_content operation = content" and sends: "sends operation a a'"
    and valid: "validate_bulk sha operation = Inr ()" and enc: "encode_clipboard_bulk C operation = Inr payload"
    and perm: "bulk_permitted True operation" by auto
  have dec: "decode_clipboard_bulk sha C payload = Inr operation"
    using bulk_roundtrip [OF assms(1) enc valid] by simp
  have order: "bulk_order operation = OperationOrder (saturating_add (ce_lamport a) 1) (ce_local_peer a)
      \<lparr>op_boot_id = ce_boot_id a, op_local_sequence = ce_local_sequence a'\<rparr>"
    using sends by (simp add: sends_def)
  have origin: "bulk_origin operation = ce_local_peer a"
    using order by (cases operation) (simp_all add: text_order_def image_order_def)
  have acc: "bulk_acceptable sha b operation"
    using valid assms(7) by (intro valid_acceptable) (simp_all add: content)
  have "ce_lamport a < oo_lamport (bulk_order operation)"
    using clock_tick(1) [of "ce_lamport a"] assms(6) sends by (simp add: sends_def)
  then have newer: "\<forall>current. ce_current_order b = Some current \<longrightarrow> current < bulk_order operation"
    using assms(5) by (blast intro: order_lamport_less le_less_trans)
  let ?b1 = "b\<lparr>ce_lamport := max (ce_lamport b) (oo_lamport (bulk_order operation))\<rparr>"
  let ?b = "commit_bulk operation (revision w') ?b1"
  have con: "consider_bulk sha operation b = (RemoteApply, ?b1)"
    using acc newer compare_remote_simps(1,2) [of "bulk_order operation" b]
    by (simp add: consider_bulk_cases prod_eq_iff)
  have "handle_v2_clipboard_operation_with_revision sha C payload peer local_id True write revision (Some b) w
      = (True, Some ?b, w')"
    using dec origin assms(3,4) perm con assms(8) content
    by (simp add: handle_v2_clipboard_operation_with_revision_def)
  moreover have "content_payload sha C used' False (revision w') True content (Some ?b)
      = (Inl SyncIdle, Some (note_revision (revision w') ?b))"
    unfolding content [symmetric]
    by (rule observe_echo [OF _ valid perm]) (simp add: commit_bulk_def commit_remote_parts_def)
  ultimately show ?thesis using sends by (simp add: sends_def)
qed

text \<open>The peers of \<open>Clipboard_Network\<close> again: what \<open>a\<close> copies reaches \<open>b\<close>, whose clipboard is a log.\<close>

definition demo_bulk_codec :: "bulk_envelope codec" where
  "demo_bulk_codec = demo_codec
     \<lparr>benv_magic = BULK_MAGIC, benv_major = PROTOCOL_MAJOR, benv_operation = demo_operation\<rparr>"

definition demo_sender :: authenticated_peer where
  "demo_sender = \<lparr>ap_peer_id = ''a'', ap_role = PeerController, ap_trust_revision = 1,
     ap_connection_generation = 1, ap_remote_addr = SocketV4 [127, 0, 0, 1] 47834\<rparr>"

lemma demo_valid: "validate_bulk id demo_operation = Inr ()"
  using demo_not_blank
  by (simp add: demo_operation_def validate_bulk_def validate_clipboard_text_operation_def MAX_PEER_ID_BYTES_def)

lemma demo_encode_bulk: "encode_clipboard_bulk demo_bulk_codec demo_operation = Inr [7, 9]"
  by (simp add: encode_clipboard_bulk_def demo_bulk_codec_def demo_codec_def protocol_limits)

lemma demo_payload:
  "content_payload id demo_bulk_codec 0 False 8 True (ContentText ''hi'') (Some (demo_engine ''a''))
     = (Inr [7, 9], Some demo_copied)"
proof -
  obtain t where t: "demo_operation = BulkText t" by (simp add: demo_operation_def)
  obtain decision e' where run: "observe_local_text id 8 ''hi'' (demo_engine ''a'') = (decision, e')" by fastforce
  with demo_copy have obs: "observe_local_text id 8 ''hi'' (demo_engine ''a'') = (LocalSend t, demo_copied)"
    by (cases decision) (auto simp: t)
  have "text_operation_encode id demo_bulk_codec t = Inr [7, 9]"
    using demo_valid demo_encode_bulk unfolding t by (simp add: text_operation_encode_def validate_bulk_def)
  moreover have "ct_text t = ''hi''" using t by (auto simp: demo_operation_def)
  moreover have "with_bulk_memory_budget 65540 (\<lambda>_. Inr [7, 9] :: (protocol_error, u8 list) result) 0
      = (Inr (Inr [7, 9]), 0)"
    by (subst with_bulk_memory_budget_result) (simp_all add: MAX_BULK_MEMORY_BYTES_def)
  ultimately show ?thesis
    using obs
    by (simp add: content_payload_def text_payload_def budgeted_encode_def working_bytes_def usize_checked_mul_def
        usize_checked_add_def)
qed

lemma demo_handled:
  "\<exists>e'. handle_v2_clipboard_operation_with_revision id demo_bulk_codec [7, 9] demo_sender ''b'' True
     (\<lambda>content written. (Inr (), written @ [content])) (\<lambda>_. 3) (Some (demo_engine ''b'')) []
     = (True, Some e', [ContentText ''hi''])"
proof -
  have dec: "decode_clipboard_bulk id demo_bulk_codec [7, 9] = Inr demo_operation"
    using bulk_roundtrip [OF _ demo_encode_bulk demo_valid] by (simp add: demo_bulk_codec_def)
  obtain e' where con: "consider_bulk id demo_operation (demo_engine ''b'') = (RemoteApply, e')"
    by (simp add: consider_bulk_cases demo_accepted compare_remote_def) (simp add: demo_engine_def)
  have op: "bulk_origin demo_operation = ''a''" "bulk_content demo_operation = ContentText ''hi''"
      "bulk_permitted True demo_operation" by (simp_all add: demo_operation_def)
  show ?thesis
    by (simp add: handle_v2_clipboard_operation_with_revision_def dec con op demo_sender_def)
qed

theorem remote_clipboard_authorized_witness:
  "\<exists>e'. handle_v2_clipboard_operation_with_revision id demo_bulk_codec [7, 9] demo_sender ''b'' True
     (\<lambda>content written. (Inr (), written @ [content])) (\<lambda>_. 3) (Some (demo_engine ''b'')) []
     = (True, Some e', [ContentText ''hi'']) \<and> ce_current_order e' \<noteq> None"
proof -
  obtain e' where run: "handle_v2_clipboard_operation_with_revision id demo_bulk_codec [7, 9] demo_sender ''b'' True
     (\<lambda>content written. (Inr (), written @ [content])) (\<lambda>_. 3) (Some (demo_engine ''b'')) []
     = (True, Some e', [ContentText ''hi''])" using demo_handled by blast
  from remote_clipboard_authorized [OF run] have "ce_current_order e' \<noteq> None" by auto
  with run show ?thesis by blast
qed

theorem copied_content_arrives_witness:
  "\<exists>b'. handle_v2_clipboard_operation_with_revision id demo_bulk_codec [7, 9] demo_sender ''b'' True
     (\<lambda>content written. (Inr (), written @ [content])) (\<lambda>_. 3) (Some (demo_engine ''b'')) []
     = (True, Some b', [ContentText ''hi''])
    \<and> fst (content_payload id demo_bulk_codec 0 False 3 True (ContentText ''hi'') (Some b')) = Inl SyncIdle"
proof -
  have "codec_faithful demo_bulk_codec" by (simp add: demo_bulk_codec_def)
  moreover have "ap_peer_id demo_sender = ce_local_peer (demo_engine ''a'')" "''b'' \<noteq> ce_local_peer (demo_engine ''a'')"
    by (simp_all add: demo_sender_def demo_engine_def)
  moreover have "\<forall>current. ce_current_order (demo_engine ''b'') = Some current \<longrightarrow>
      oo_lamport current \<le> ce_lamport (demo_engine ''a'')" by (simp add: demo_engine_def)
  moreover have "ce_lamport demo_copied < - 1" using one_below_max by (simp add: demo_lamports)
  moreover have "content_fits (demo_engine ''b'') (ContentText ''hi'')" by (simp add: demo_engine_def)
  ultimately show ?thesis
    using copied_content_arrives [OF _ demo_payload, of demo_sender "''b''" "demo_engine ''b''"
        "\<lambda>content written. (Inr (), written @ [content])" "[]" "[ContentText ''hi'']" "\<lambda>_. 3" 0] by auto
qed

end
