(* ===== verification/Rust_Text.thy ===== *)
theory Rust_Text
  imports Kvm_Prelude
begin

text \<open>
  The string functions of Rust's standard library the application code calls, on strings as their
  UTF-8 bytes: \<open>trim\<close>, the ASCII case functions, \<open>split\<close> on a character, and the removal of a
  character from both ends.
\<close>

text \<open>The number of bytes of a white space character at the end; 0 when there is none.\<close>

definition ws_suffix :: "nat list \<Rightarrow> nat" where
  "ws_suffix bs =
     (if 1 \<le> length bs \<and> ws_width (drop (length bs - 1) bs) = 1 then 1
      else if 2 \<le> length bs \<and> ws_width (drop (length bs - 2) bs) = 2 then 2
      else if 3 \<le> length bs \<and> ws_width (drop (length bs - 3) bs) = 3 then 3
      else 0)"

lemma ws_suffix_le: "ws_suffix bs \<le> length bs"
  by (simp add: ws_suffix_def)

function trim_back :: "nat list \<Rightarrow> nat list" where
  "trim_back bs = (if ws_suffix bs = 0 then bs else trim_back (take (length bs - ws_suffix bs) bs))"
  by pat_completeness auto
termination
proof (relation "measure length")
  fix bs :: "nat list"
  assume "ws_suffix bs \<noteq> 0"
  with ws_suffix_le [of bs] show "(take (length bs - ws_suffix bs) bs, bs) \<in> measure length" by simp
qed simp

declare trim_back.simps [simp del]

definition trim :: "string \<Rightarrow> string" where
  "trim s = map char_of (trim_back (trim_front (utf8_bytes s)))"

definition ascii_lower :: "char \<Rightarrow> char" where
  "ascii_lower c = (if of_char c \<in> {65 .. 90 :: nat} then char_of (of_char c + 32 :: nat) else c)"

definition to_ascii_lowercase :: "string \<Rightarrow> string" where
  "to_ascii_lowercase s = map ascii_lower s"

definition eq_ignore_ascii_case :: "string \<Rightarrow> string \<Rightarrow> bool" where
  "eq_ignore_ascii_case a b \<longleftrightarrow> to_ascii_lowercase a = to_ascii_lowercase b"

definition is_ascii_digit :: "char \<Rightarrow> bool" where
  "is_ascii_digit c \<longleftrightarrow> of_char c \<in> {48 .. 57 :: nat}"

definition is_ascii_alphabetic :: "char \<Rightarrow> bool" where
  "is_ascii_alphabetic c \<longleftrightarrow> of_char c \<in> {65 .. 90 :: nat} \<union> {97 .. 122}"

text \<open>\<open>split(c)\<close>: the parts between the separators, at least one.\<close>

fun split_on :: "char \<Rightarrow> string \<Rightarrow> string list" where
  "split_on c [] = [[]]"
| "split_on c (x # xs) =
     (if x = c then [] # split_on c xs
      else (case split_on c xs of
          part # parts \<Rightarrow> (x # part) # parts
        | [] \<Rightarrow> [[x]]))"

lemma split_on_not_Nil [simp]: "split_on c s \<noteq> []"
  by (induction s) (auto split: list.splits)

text \<open>\<open>trim_matches(c)\<close>\<close>

definition trim_matches :: "char \<Rightarrow> string \<Rightarrow> string" where
  "trim_matches c s = rev (dropWhile (\<lambda>x. x = c) (rev (dropWhile (\<lambda>x. x = c) s)))"

text \<open>
  \<open>chars().map(f)\<close> where every character that is not an ASCII letter or digit becomes \<open>-\<close>: a character of
  several bytes starts with one of at least 192 and continues with bytes between 128 and 191.
\<close>

fun map_alphanumeric :: "string \<Rightarrow> string" where
  "map_alphanumeric [] = []"
| "map_alphanumeric (x # xs) =
     (if is_ascii_alphabetic x \<or> is_ascii_digit x then [ascii_lower x]
      else if of_char x \<in> {128 .. 191 :: nat} then []
      else ''-'') @ map_alphanumeric xs"

text \<open>\<open>parse()\<close> to an unsigned integer: an optional plus sign and digits whose value is at most \<open>limit\<close>.\<close>

fun parse_digits :: "nat \<Rightarrow> nat \<Rightarrow> string \<Rightarrow> nat option" where
  "parse_digits limit acc [] = Some acc"
| "parse_digits limit acc (c # cs) =
     (if is_ascii_digit c \<and> 10 * acc + (of_char c - 48) \<le> limit
      then parse_digits limit (10 * acc + (of_char c - 48)) cs else None)"

definition parse_uint :: "nat \<Rightarrow> string \<Rightarrow> nat option" where
  "parse_uint limit s =
     (let digits = (case s of c # cs \<Rightarrow> if c = CHR ''+'' then cs else s | [] \<Rightarrow> [])
      in if digits = [] then None else parse_digits limit 0 digits)"

text \<open>\<open>rsplit_once(c)\<close>\<close>

definition rsplit_once :: "char \<Rightarrow> string \<Rightarrow> (string \<times> string) option" where
  "rsplit_once c s =
     (if c \<in> set s
      then Some (rev (tl (dropWhile (\<lambda>x. x \<noteq> c) (rev s))), rev (takeWhile (\<lambda>x. x \<noteq> c) (rev s))) else None)"

text \<open>\<open>sort(); dedup()\<close>\<close>

definition sort_dedup :: "'a::linorder list \<Rightarrow> 'a list" where
  "sort_dedup xs = remdups_adj (sort xs)"

section \<open>Vectors\<close>

text \<open>\<open>Vec::swap_remove\<close>: the last element takes the place of the removed one.\<close>

definition swap_remove :: "nat \<Rightarrow> 'a list \<Rightarrow> 'a list" where
  "swap_remove i xs = butlast (xs[i := last xs])"

text \<open>The index of the first element with the least key.\<close>

definition min_index_by :: "('a \<Rightarrow> 'k::linorder) \<Rightarrow> 'a list \<Rightarrow> nat option" where
  "min_index_by key xs = (if xs = [] then None else position (\<lambda>x. \<forall>y\<in>set xs. key x \<le> key y) xs)"


text \<open>\<open>iter().find_map(f)\<close>\<close>

fun find_map :: "('a \<Rightarrow> 'b option) \<Rightarrow> 'a list \<Rightarrow> 'b option" where
  "find_map f [] = None"
| "find_map f (x # xs) = (case f x of Some y \<Rightarrow> Some y | None \<Rightarrow> find_map f xs)"

lemma find_map_Some:
  "find_map f xs = Some y \<Longrightarrow> \<exists>x\<in>set xs. f x = Some y"
  by (induction xs) (auto split: option.splits)

lemma find_map_None: "find_map f xs = None \<longleftrightarrow> (\<forall>x\<in>set xs. f x = None)"
  by (induction xs) (auto split: option.splits)

text \<open>\<open>iter_mut().find(p)\<close> followed by an update of the element found.\<close>

fun update_first :: "('a \<Rightarrow> bool) \<Rightarrow> ('a \<Rightarrow> 'a) \<Rightarrow> 'a list \<Rightarrow> 'a list" where
  "update_first P f [] = []"
| "update_first P f (x # xs) = (if P x then f x # xs else x # update_first P f xs)"

lemma map_update_first: "(\<And>x. g (f x) = g x) \<Longrightarrow> map g (update_first P f xs) = map g xs"
  by (induction xs) simp_all

lemma length_update_first [simp]: "length (update_first P f xs) = length xs"
  by (induction xs) simp_all

lemma set_update_first: "set (update_first P f xs) \<subseteq> set xs \<union> f ` {x \<in> set xs. P x}"
  by (induction xs) auto

section \<open>What trimming leaves\<close>

lemma trim_back_Nil [simp]: "trim_back [] = []"
  by (simp add: trim_back.simps ws_suffix_def)

lemma trim_blank: "is_blank s \<Longrightarrow> trim s = []"
  by (simp add: is_blank_def trim_def)

end
