(* ===== verification/Layout_State.thy ===== *)
theory Layout_State
  imports Complex_Main Rust_Text Transport_Types
begin

text \<open>
  The settings of the application (\<open>lib.rs\<close>): the layout with its devices, screens, hotkeys and
  pairing data; the defaults and normalisers applied to settings read from disk; and the merges that
  decide which fields of a settings snapshot the user interface may change.

  Random identifiers are arguments (\<open>fresh_cluster\<close>, \<open>fresh_secret\<close>).
\<close>

section \<open>Data\<close>

text \<open>A double, as far as the validation of a scale looks at it.\<close>

datatype f64 = F64_NaN | F64_Infinite bool | F64_Finite rat

record screen =
  sc_id :: string
  sc_device_id :: string
  sc_name :: string
  sc_x :: i32
  sc_y :: i32
  sc_width :: i32
  sc_height :: i32
  sc_scale :: f64
  sc_is_primary :: bool

record device =
  dv_id :: string
  dv_name :: string
  dv_platform :: string
  dv_host :: string
  dv_transport_port :: u16
  dv_quic_port :: u16
  dv_transport_public_key :: string
  dv_protocol_version :: u16
  dv_color :: string
  dv_online :: bool
  dv_input_ready :: bool
  dv_upgrading :: bool
  dv_upgrading_until_ms :: u64
  dv_role :: string
  dv_source :: string
  dv_screens :: "screen list"

record screen_switch_hotkeys =
  sw_left :: string
  sw_right :: string
  sw_up :: string
  sw_down :: string

record control_hotkeys =
  hk_control_mac :: string
  hk_return_windows :: string
  hk_emergency_return :: string

record modifier_map =
  mm_control :: string
  mm_alt :: string
  mm_meta :: string

record paired_controller =
  pc_id :: string
  pc_name :: string
  pc_host :: string
  pc_ip :: string
  pc_transport_public_key :: string
  pc_protocol_version :: u16
  pc_cluster_id :: string
  pc_paired_at_ms :: u64

record trusted_peer_record =
  tpr_id :: string
  tpr_public_key :: string
  tpr_role :: string
  tpr_revision :: u64
  tpr_paired_at_ms :: u64

record layout_state =
  ly_devices :: "device list"
  ly_active_device_id :: string
  ly_selected_screen_id :: string
  ly_input_mode :: string
  ly_machine_role :: string
  ly_cluster_id :: string
  ly_pair_secret :: string
  ly_paired_controllers :: "paired_controller list"
  ly_trusted_peers :: "trusted_peer_record list"
  ly_clipboard_sync :: bool
  ly_clipboard_image_sync :: bool
  ly_clipboard_text_limit_bytes :: nat
  ly_file_transfer_enabled :: bool
  ly_language :: string
  ly_theme_mode :: string
  ly_performance_monitor :: bool
  ly_transport_port_mode :: string
  ly_transport_port :: u16
  ly_quic_port :: u16
  ly_modifier_remap :: bool
  ly_modifier_map :: modifier_map
  ly_edge_switch_hotkey :: string
  ly_screen_switch_hotkeys :: screen_switch_hotkeys
  ly_control_hotkeys :: control_hotkeys
  ly_game_mode :: bool

section \<open>Constants and defaults\<close>

definition DISCOVERY_PORT :: u16 where "DISCOVERY_PORT = 47833"
definition TRANSPORT_PORT_MIN :: u16 where "TRANSPORT_PORT_MIN = 1024"
definition TRANSPORT_PORT_MAX :: u16 where "TRANSPORT_PORT_MAX = 65535"
definition CLIPBOARD_TEXT_LIMIT_MIN_BYTES :: nat where "CLIPBOARD_TEXT_LIMIT_MIN_BYTES = 64 * 1024"
definition CLIPBOARD_TEXT_LIMIT_MAX_BYTES :: nat where "CLIPBOARD_TEXT_LIMIT_MAX_BYTES = 1536 * 1024"
definition PROTOCOL_VERSION :: u16 where "PROTOCOL_VERSION = 1"

definition clamp :: "'a::linorder \<Rightarrow> 'a \<Rightarrow> 'a \<Rightarrow> 'a" where
  "clamp lo hi v = (if v < lo then lo else if hi < v then hi else v)"

definition default_transport_port :: u16 where "default_transport_port = DISCOVERY_PORT"
definition default_edge_switch_hotkey :: string where "default_edge_switch_hotkey = ''alt+shift+k''"

definition default_screen_switch_hotkeys :: screen_switch_hotkeys where
  "default_screen_switch_hotkeys =
     \<lparr>sw_left = ''alt+left'', sw_right = ''alt+right'', sw_up = ''alt+up'', sw_down = ''alt+down''\<rparr>"

definition default_control_hotkeys :: control_hotkeys where
  "default_control_hotkeys = \<lparr>hk_control_mac = ''control+alt+F11'', hk_return_windows = ''control+alt+F10'',
     hk_emergency_return = ''control+alt+shift+F10''\<rparr>"

section \<open>Normalisation\<close>

definition normalize_clipboard_text_limit_bytes :: "nat \<Rightarrow> nat" where
  "normalize_clipboard_text_limit_bytes v = clamp CLIPBOARD_TEXT_LIMIT_MIN_BYTES CLIPBOARD_TEXT_LIMIT_MAX_BYTES v"

definition normalize_edge_switch_hotkey :: "string \<Rightarrow> string" where
  "normalize_edge_switch_hotkey v =
     (let normalized = filter (\<lambda>c. c \<noteq> CHR '' '') (to_ascii_lowercase (trim v))
      in if normalized = [] then default_edge_switch_hotkey else normalized)"

definition normalize_modifier_target :: "string \<Rightarrow> string \<Rightarrow> string" where
  "normalize_modifier_target v fallback =
     (if v \<in> {''control'', ''alt'', ''meta'', ''same''} then v else fallback)"

definition normalize_modifier_map :: "modifier_map \<Rightarrow> modifier_map" where
  "normalize_modifier_map m =
     \<lparr>mm_control = normalize_modifier_target (mm_control m) ''same'',
       mm_alt = normalize_modifier_target (mm_alt m) ''same'',
       mm_meta = normalize_modifier_target (mm_meta m) ''same''\<rparr>"

definition preferred_quic_port :: "u16 \<Rightarrow> u16" where
  "preferred_quic_port discovery_port = clamp TRANSPORT_PORT_MIN TRANSPORT_PORT_MAX (saturating_add discovery_port 1)"

definition normalize_input_mode :: "string \<Rightarrow> string" where
  "normalize_input_mode m = (if m = ''receive'' then ''receive'' else ''control'')"

definition normalize_machine_role :: "string \<Rightarrow> string" where
  "normalize_machine_role role = (if role \<in> {''server'', ''client''} then role else ''unset'')"

definition normalize_cluster_id :: "string \<Rightarrow> string \<Rightarrow> string" where
  "normalize_cluster_id fresh_cluster cluster_id =
     (if trim cluster_id = [] then fresh_cluster else trim cluster_id)"

definition normalize_pair_secret :: "string \<Rightarrow> string \<Rightarrow> string" where
  "normalize_pair_secret fresh_secret pair_secret =
     (if trim pair_secret = [] then fresh_secret else trim pair_secret)"

definition normalize_paired_controllers :: "paired_controller list \<Rightarrow> paired_controller list" where
  "normalize_paired_controllers controllers =
     filter (\<lambda>controller. \<not> is_blank (pc_id controller) \<and> \<not> is_blank (pc_transport_public_key controller)
       \<and> \<not> is_blank (pc_cluster_id controller)) controllers"

fun normalize_trusted_peers_from ::
  "trusted_peer_record list \<Rightarrow> trusted_peer_record list \<Rightarrow> trusted_peer_record list" where
  "normalize_trusted_peers_from normalized [] = normalized"
| "normalize_trusted_peers_from normalized (peer # peers) =
     normalize_trusted_peers_from
       (if is_blank (tpr_id peer) \<or> is_blank (tpr_public_key peer) \<or> tpr_revision peer = 0
          \<or> tpr_role peer \<notin> {''controller'', ''receiver''}
          \<or> (\<exists>existing\<in>set normalized. tpr_id existing = tpr_id peer \<or> tpr_public_key existing = tpr_public_key peer)
        then normalized else normalized @ [peer]) peers"

definition normalize_trusted_peers :: "trusted_peer_record list \<Rightarrow> trusted_peer_record list" where
  "normalize_trusted_peers peers = normalize_trusted_peers_from [] peers"

definition normalize_language :: "string \<Rightarrow> string" where
  "normalize_language language = (if language = ''en'' then ''en'' else ''cn'')"

definition normalize_theme_mode :: "string \<Rightarrow> string" where
  "normalize_theme_mode theme = (if theme \<in> {''dark'', ''light'', ''system''} then theme else ''system'')"

definition normalize_transport_port_mode :: "string \<Rightarrow> string" where
  "normalize_transport_port_mode m = (if m = ''fixed'' then ''fixed'' else ''auto'')"

definition normalize_transport_port :: "u16 \<Rightarrow> u16" where
  "normalize_transport_port port = clamp TRANSPORT_PORT_MIN TRANSPORT_PORT_MAX port"

definition normalize_quic_port :: "u16 \<Rightarrow> u16 \<Rightarrow> u16" where
  "normalize_quic_port discovery_port quic_port =
     (if quic_port = 0 then preferred_quic_port discovery_port else normalize_transport_port quic_port)"

definition is_old_demo_device :: "device \<Rightarrow> bool" where
  "is_old_demo_device device \<longleftrightarrow> dv_id device \<in> {''studio-win'', ''macbook-pro''}
     \<or> dv_host device \<in> {''192.168.31.24'', ''192.168.31.63''}"

definition is_old_demo_layout :: "layout_state \<Rightarrow> bool" where
  "is_old_demo_layout layout \<longleftrightarrow> (\<exists>device\<in>set (ly_devices layout). is_old_demo_device device)"

definition merge_detected_local_device :: "layout_state \<Rightarrow> device \<Rightarrow> device" where
  "merge_detected_local_device saved detected =
     (case find (\<lambda>device. dv_id device = dv_id detected) (ly_devices saved) of
        None \<Rightarrow> detected
      | Some saved_device \<Rightarrow>
          detected\<lparr>dv_screens := map (\<lambda>screen.
            case find (\<lambda>saved_screen. sc_id saved_screen = sc_id screen) (dv_screens saved_device) of
              None \<Rightarrow> screen
            | Some saved_screen \<Rightarrow> screen\<lparr>sc_x := sc_x saved_screen, sc_y := sc_y saved_screen\<rparr>)
            (dv_screens detected)\<rparr>)"

text \<open>\<open>None\<close>: the detected layout has no device and the index panics.\<close>

definition normalize_saved_layout ::
  "string \<Rightarrow> string \<Rightarrow> layout_state \<Rightarrow> layout_state \<Rightarrow> layout_state option" where
  "normalize_saved_layout fresh_cluster fresh_secret saved detected =
     (if is_old_demo_layout saved \<or> ly_devices saved = [] then Some detected
      else (case ly_devices detected of
          [] \<Rightarrow> None
        | first # _ \<Rightarrow>
            (let local_device = merge_detected_local_device saved first;
                 local_device_id = dv_id local_device;
                 devices = local_device # filter (\<lambda>device. dv_id device \<noteq> local_device_id \<and> \<not> is_old_demo_device device)
                   (ly_devices saved);
                 transport_port = normalize_transport_port (ly_transport_port saved)
             in Some \<lparr>ly_devices = devices,
                  ly_active_device_id = (if \<exists>device\<in>set devices. dv_id device = ly_active_device_id saved
                    then ly_active_device_id saved else local_device_id),
                  ly_selected_screen_id = (if \<exists>device\<in>set devices. \<exists>screen\<in>set (dv_screens device).
                      sc_id screen = ly_selected_screen_id saved
                    then ly_selected_screen_id saved else ly_selected_screen_id detected),
                  ly_input_mode = normalize_input_mode (ly_input_mode saved),
                  ly_machine_role = normalize_machine_role (ly_machine_role saved),
                  ly_cluster_id = normalize_cluster_id fresh_cluster (ly_cluster_id saved),
                  ly_pair_secret = normalize_pair_secret fresh_secret (ly_pair_secret saved),
                  ly_paired_controllers = normalize_paired_controllers (ly_paired_controllers saved),
                  ly_trusted_peers = normalize_trusted_peers (ly_trusted_peers saved),
                  ly_clipboard_sync = ly_clipboard_sync saved,
                  ly_clipboard_image_sync = ly_clipboard_image_sync saved,
                  ly_clipboard_text_limit_bytes = normalize_clipboard_text_limit_bytes (ly_clipboard_text_limit_bytes saved),
                  ly_file_transfer_enabled = ly_file_transfer_enabled saved,
                  ly_language = normalize_language (ly_language saved),
                  ly_theme_mode = normalize_theme_mode (ly_theme_mode saved),
                  ly_performance_monitor = ly_performance_monitor saved,
                  ly_transport_port_mode = normalize_transport_port_mode (ly_transport_port_mode saved),
                  ly_transport_port = transport_port,
                  ly_quic_port = normalize_quic_port transport_port (ly_quic_port saved),
                  ly_modifier_remap = ly_modifier_remap saved,
                  ly_modifier_map = normalize_modifier_map (ly_modifier_map saved),
                  ly_edge_switch_hotkey = normalize_edge_switch_hotkey (ly_edge_switch_hotkey saved),
                  ly_screen_switch_hotkeys = ly_screen_switch_hotkeys saved,
                  ly_control_hotkeys = ly_control_hotkeys saved,
                  ly_game_mode = ly_game_mode saved\<rparr>)))"

section \<open>Merging a snapshot of the user interface or of the disk\<close>

definition is_local_device :: "device \<Rightarrow> bool" where
  "is_local_device device \<longleftrightarrow> dv_role device = ''local''"

definition merge_local_runtime_device_fields :: "layout_state \<Rightarrow> layout_state \<Rightarrow> layout_state" where
  "merge_local_runtime_device_fields incoming current =
     (case find is_local_device (ly_devices current) of
        None \<Rightarrow> incoming
      | Some current_local \<Rightarrow>
          if is_blank (dv_transport_public_key current_local) then incoming
          else incoming\<lparr>ly_devices := update_first
            (\<lambda>device. is_local_device device \<or> dv_id device = dv_id current_local)
            (\<lambda>device. device\<lparr>dv_transport_public_key := dv_transport_public_key current_local,
               dv_protocol_version := dv_protocol_version current_local\<rparr>) (ly_devices incoming)\<rparr>)"

definition merge_remote_upgrading_fields :: "layout_state \<Rightarrow> layout_state \<Rightarrow> layout_state" where
  "merge_remote_upgrading_fields incoming current =
     incoming\<lparr>ly_devices := map (\<lambda>device.
        if is_local_device device then device
        else (case find (\<lambda>current_device. dv_id current_device = dv_id device) (ly_devices current) of
            None \<Rightarrow> device
          | Some current_device \<Rightarrow> device\<lparr>dv_upgrading := dv_upgrading current_device,
              dv_upgrading_until_ms := dv_upgrading_until_ms current_device\<rparr>)) (ly_devices incoming)\<rparr>"

definition merge_runtime_owned_layout_fields :: "layout_state \<Rightarrow> layout_state \<Rightarrow> layout_state" where
  "merge_runtime_owned_layout_fields incoming current =
     (let incoming1 = incoming\<lparr>ly_cluster_id := ly_cluster_id current, ly_pair_secret := ly_pair_secret current,
            ly_trusted_peers := ly_trusted_peers current\<rparr>;
          incoming2 = (if ly_machine_role current = ''client'' \<and> ly_machine_role incoming1 = ''client''
              \<and> ly_paired_controllers current \<noteq> []
            then incoming1\<lparr>ly_paired_controllers := ly_paired_controllers current\<rparr> else incoming1)
      in merge_remote_upgrading_fields (merge_local_runtime_device_fields incoming2 current) current)"

definition merge_disk_layout_into_runtime :: "layout_state \<Rightarrow> layout_state \<Rightarrow> layout_state" where
  "merge_disk_layout_into_runtime disk current =
     (let disk1 = (if ly_machine_role current = ''client'' \<and> ly_machine_role disk = ''client''
              \<and> ly_paired_controllers disk = [] \<and> ly_paired_controllers current \<noteq> []
            then disk\<lparr>ly_cluster_id := ly_cluster_id current, ly_pair_secret := ly_pair_secret current,
              ly_paired_controllers := ly_paired_controllers current\<rparr> else disk);
          disk2 = (if ly_trusted_peers disk1 = [] \<and> ly_trusted_peers current \<noteq> []
            then disk1\<lparr>ly_trusted_peers := ly_trusted_peers current\<rparr> else disk1)
      in merge_local_runtime_device_fields disk2 current)"

definition runtime_relevant_layout_changed :: "layout_state \<Rightarrow> layout_state \<Rightarrow> bool" where
  "runtime_relevant_layout_changed previous after \<longleftrightarrow>
     ly_input_mode previous \<noteq> ly_input_mode after
     \<or> ly_machine_role previous \<noteq> ly_machine_role after
     \<or> ly_clipboard_sync previous \<noteq> ly_clipboard_sync after
     \<or> ly_clipboard_image_sync previous \<noteq> ly_clipboard_image_sync after
     \<or> ly_clipboard_text_limit_bytes previous \<noteq> ly_clipboard_text_limit_bytes after
     \<or> ly_control_hotkeys previous \<noteq> ly_control_hotkeys after
     \<or> ly_transport_port_mode previous \<noteq> ly_transport_port_mode after
     \<or> ly_transport_port previous \<noteq> ly_transport_port after"

section \<open>Ports\<close>

lemma clamp_range:
  assumes "lo \<le> hi"
  shows "lo \<le> clamp lo hi v \<and> clamp lo hi v \<le> hi"
  using assms by (auto simp: clamp_def not_less)

lemma clamp_id: "lo \<le> v \<Longrightarrow> v \<le> hi \<Longrightarrow> clamp lo hi v = v"
  by (auto simp: clamp_def not_less)

lemma port_bounds: "TRANSPORT_PORT_MIN \<le> TRANSPORT_PORT_MAX"
  by (simp add: TRANSPORT_PORT_MIN_def TRANSPORT_PORT_MAX_def)

lemma normalize_transport_port_range:
  "TRANSPORT_PORT_MIN \<le> normalize_transport_port port \<and> normalize_transport_port port \<le> TRANSPORT_PORT_MAX"
  unfolding normalize_transport_port_def by (rule clamp_range [OF port_bounds])

lemma normalize_transport_port_idem [simp]:
  "normalize_transport_port (normalize_transport_port port) = normalize_transport_port port"
  using normalize_transport_port_range [of port] by (simp add: normalize_transport_port_def clamp_id)

lemma normalize_quic_port_range:
  "TRANSPORT_PORT_MIN \<le> normalize_quic_port base port \<and> normalize_quic_port base port \<le> TRANSPORT_PORT_MAX"
  using normalize_transport_port_range [of port] clamp_range [OF port_bounds, of "saturating_add base 1"]
  by (auto simp: normalize_quic_port_def preferred_quic_port_def)

lemma normalize_quic_port_idem [simp]:
  "normalize_quic_port base (normalize_quic_port base port) = normalize_quic_port base port"
proof -
  have "normalize_quic_port base port \<noteq> 0"
    using normalize_quic_port_range [of base port] by (auto simp: TRANSPORT_PORT_MIN_def)
  with normalize_quic_port_range [of base port] show ?thesis
    by (simp add: normalize_quic_port_def [of base "normalize_quic_port base port"] normalize_transport_port_def clamp_id)
qed

section \<open>The trust list\<close>

text \<open>What the trust list of a layout read from disk satisfies, and what the registry demands of it.\<close>

definition trust_list_ok :: "trusted_peer_record list \<Rightarrow> bool" where
  "trust_list_ok peers \<longleftrightarrow> distinct (map tpr_id peers) \<and> distinct (map tpr_public_key peers)
     \<and> list_all (\<lambda>peer. \<not> is_blank (tpr_id peer) \<and> \<not> is_blank (tpr_public_key peer) \<and> tpr_revision peer \<noteq> 0
         \<and> tpr_role peer \<in> {''controller'', ''receiver''}) peers"

lemma normalize_trusted_peers_from_ok:
  "trust_list_ok normalized \<Longrightarrow> trust_list_ok (normalize_trusted_peers_from normalized peers)"
proof (induction normalized peers rule: normalize_trusted_peers_from.induct)
  case (2 normalized peer peers)
  show ?case
    unfolding normalize_trusted_peers_from.simps
    by (rule "2.IH") (use "2.prems" in \<open>auto simp: trust_list_ok_def\<close>)
qed simp

lemma normalize_trusted_peers_ok: "trust_list_ok (normalize_trusted_peers peers)"
  unfolding normalize_trusted_peers_def by (rule normalize_trusted_peers_from_ok) (simp add: trust_list_ok_def)

lemma normalize_trusted_peers_from_id:
  "trust_list_ok (normalized @ peers) \<Longrightarrow> normalize_trusted_peers_from normalized peers = normalized @ peers"
proof (induction peers arbitrary: normalized)
  case (Cons peer peers)
  have "tpr_id e \<noteq> tpr_id peer \<and> tpr_public_key e \<noteq> tpr_public_key peer" if "e \<in> set normalized" for e
    using Cons.prems imageI [OF that, of tpr_id] imageI [OF that, of tpr_public_key] by (auto simp: trust_list_ok_def)
  moreover have "\<not> is_blank (tpr_id peer) \<and> \<not> is_blank (tpr_public_key peer) \<and> tpr_revision peer \<noteq> 0
      \<and> tpr_role peer \<in> {''controller'', ''receiver''}"
    using Cons.prems by (simp add: trust_list_ok_def)
  ultimately have "normalize_trusted_peers_from normalized (peer # peers) = normalize_trusted_peers_from (normalized @ [peer]) peers"
    by fastforce
  with Cons show ?case by simp
qed simp

lemma normalize_trusted_peers_id: "trust_list_ok peers \<Longrightarrow> normalize_trusted_peers peers = peers"
  unfolding normalize_trusted_peers_def using normalize_trusted_peers_from_id [of "[]" peers] by simp

section \<open>What a merge keeps\<close>

lemma merge_local_frame [simp]:
  "ly_trusted_peers (merge_local_runtime_device_fields incoming current) = ly_trusted_peers incoming"
  "ly_cluster_id (merge_local_runtime_device_fields incoming current) = ly_cluster_id incoming"
  "ly_pair_secret (merge_local_runtime_device_fields incoming current) = ly_pair_secret incoming"
  "ly_paired_controllers (merge_local_runtime_device_fields incoming current) = ly_paired_controllers incoming"
  "ly_machine_role (merge_local_runtime_device_fields incoming current) = ly_machine_role incoming"
  "map dv_id (ly_devices (merge_local_runtime_device_fields incoming current)) = map dv_id (ly_devices incoming)"
  by (simp_all add: merge_local_runtime_device_fields_def map_update_first split: option.splits)

lemma merge_upgrading_frame [simp]:
  "ly_trusted_peers (merge_remote_upgrading_fields incoming current) = ly_trusted_peers incoming"
  "ly_cluster_id (merge_remote_upgrading_fields incoming current) = ly_cluster_id incoming"
  "ly_pair_secret (merge_remote_upgrading_fields incoming current) = ly_pair_secret incoming"
  "ly_paired_controllers (merge_remote_upgrading_fields incoming current) = ly_paired_controllers incoming"
  "ly_machine_role (merge_remote_upgrading_fields incoming current) = ly_machine_role incoming"
  "map dv_id (ly_devices (merge_remote_upgrading_fields incoming current)) = map dv_id (ly_devices incoming)"
  by (auto simp: merge_remote_upgrading_fields_def split: option.splits)

lemma runtime_owned_frame:
  fixes incoming current
  defines "merged \<equiv> merge_runtime_owned_layout_fields incoming current"
  shows "ly_trusted_peers merged = ly_trusted_peers current" and "ly_cluster_id merged = ly_cluster_id current"
    and "ly_pair_secret merged = ly_pair_secret current" and "ly_machine_role merged = ly_machine_role incoming"
    and "map dv_id (ly_devices merged) = map dv_id (ly_devices incoming)"
  by (simp_all add: merged_def merge_runtime_owned_layout_fields_def Let_def)

lemma runtime_owned_controllers:
  "ly_paired_controllers (merge_runtime_owned_layout_fields incoming current) =
     (if ly_machine_role current = ''client'' \<and> ly_machine_role incoming = ''client'' \<and> ly_paired_controllers current \<noteq> []
      then ly_paired_controllers current else ly_paired_controllers incoming)"
  by (simp add: merge_runtime_owned_layout_fields_def Let_def)

text \<open>
  The paired controllers are kept only while there are some: a snapshot taken before the pairing was
  reset restores the controllers that the reset removed, while the trust list stays empty.
\<close>

lemma stale_snapshot_restores_controllers:
  assumes "ly_paired_controllers current = []"
  shows "ly_paired_controllers (merge_runtime_owned_layout_fields stale current) = ly_paired_controllers stale"
  using assms by (simp add: runtime_owned_controllers)

end
