(* ===== verification/Shortcuts.thy ===== *)
theory Shortcuts
  imports Layout_State Game_Mode
begin

text \<open>
  Global shortcuts (\<open>lib.rs\<close>): the canonical form of a shortcut, the search for conflicts among the
  eight shortcuts of a layout, the registration of the control hotkeys with the operating system, and
  the dispatch of a pressed shortcut.

  The plugin that parses and registers shortcuts is a parameter: \<open>parse\<close> and the record
  \<open>shortcut_port\<close>.
\<close>

section \<open>The canonical form\<close>

datatype shortcut_slot =
    SlotToggle | SlotControlMac | SlotReturnWindows | SlotEmergency | SlotLeft | SlotRight | SlotUp | SlotDown

datatype shortcut_error =
    TwoKeys
  | UnknownKey string
  | NoKey
  | NeedsModifier
  | CannotRegister string
  | ShortcutConflict shortcut_slot shortcut_slot string

definition ascii_upper :: "char \<Rightarrow> char" where
  "ascii_upper c = (if of_char c \<in> {97 .. 122 :: nat} then char_of (of_char c - 32 :: nat) else c)"

definition named_keys :: "(string \<times> string) list" where
  "named_keys = [(''space'', ''space''), (''spacebar'', ''space''), (''tab'', ''tab''),
     (''enter'', ''enter''), (''return'', ''enter''), (''esc'', ''escape''), (''escape'', ''escape''),
     (''scrolllock'', ''scrolllock''), (''scroll'', ''scrolllock''), (''scrlk'', ''scrolllock''),
     (''up'', ''arrowup''), (''arrowup'', ''arrowup''), (''down'', ''arrowdown''), (''arrowdown'', ''arrowdown''),
     (''left'', ''arrowleft''), (''arrowleft'', ''arrowleft''), (''right'', ''arrowright''), (''arrowright'', ''arrowright'')]"

definition function_key :: "string \<Rightarrow> nat option" where
  "function_key key =
     (case key of
        c # number \<Rightarrow>
          if c = CHR ''f'' then
            (case parse_uint 255 number of
               Some n \<Rightarrow> if 1 \<le> n \<and> n \<le> 24 then Some n else None
             | None \<Rightarrow> None)
          else None
      | [] \<Rightarrow> None)"

definition canonical_runtime_toggle_key :: "string \<Rightarrow> string option" where
  "canonical_runtime_toggle_key key =
     (if length key = 1 \<and> (is_ascii_alphabetic (hd key) \<or> is_ascii_digit (hd key)) then Some (map ascii_upper key)
      else (case function_key key of
          Some n \<Rightarrow> Some (CHR ''F'' # show_nat n)
        | None \<Rightarrow> map_of named_keys key))"

definition allows_single_runtime_toggle_key :: "string \<Rightarrow> bool" where
  "allows_single_runtime_toggle_key key \<longleftrightarrow> take 1 key = ''F'' \<or> key = ''scrolllock''"

record shortcut_parts =
  sp_ctrl :: bool
  sp_alt :: bool
  sp_shift :: bool
  sp_meta :: bool
  sp_key :: "string option"

fun read_parts :: "string list \<Rightarrow> shortcut_parts \<Rightarrow> (shortcut_error, shortcut_parts) result" where
  "read_parts [] acc = Inr acc"
| "read_parts (part # parts) acc =
     (if part \<in> {''ctrl'', ''control''} then read_parts parts (acc\<lparr>sp_ctrl := True\<rparr>)
      else if part \<in> {''alt'', ''option''} then read_parts parts (acc\<lparr>sp_alt := True\<rparr>)
      else if part = ''shift'' then read_parts parts (acc\<lparr>sp_shift := True\<rparr>)
      else if part \<in> {''meta'', ''cmd'', ''command'', ''win'', ''windows'', ''super'', ''os''}
      then read_parts parts (acc\<lparr>sp_meta := True\<rparr>)
      else if sp_key acc \<noteq> None then Inl TwoKeys
      else (case canonical_runtime_toggle_key part of
          None \<Rightarrow> Inl (UnknownKey part)
        | Some key \<Rightarrow> read_parts parts (acc\<lparr>sp_key := Some key\<rparr>)))"

definition no_parts :: shortcut_parts where
  "no_parts = \<lparr>sp_ctrl = False, sp_alt = False, sp_shift = False, sp_meta = False, sp_key = None\<rparr>"

fun join_plus :: "string list \<Rightarrow> string" where
  "join_plus [] = []"
| "join_plus [part] = part"
| "join_plus (part # parts) = part @ ''+'' @ join_plus parts"

definition shown_parts :: "shortcut_parts \<Rightarrow> string \<Rightarrow> string list" where
  "shown_parts p key =
     (if sp_ctrl p then [''control''] else []) @ (if sp_alt p then [''alt''] else [])
     @ (if sp_shift p then [''shift''] else []) @ (if sp_meta p then [''super''] else []) @ [key]"

definition canonical_runtime_toggle_shortcut ::
  "(string \<Rightarrow> 'k option) \<Rightarrow> string \<Rightarrow> (shortcut_error, string option) result" where
  "canonical_runtime_toggle_shortcut parse v =
     (let normalized = normalize_edge_switch_hotkey v in
      if normalized \<in> {''disabled'', ''disable'', ''off'', ''none''} then Inr None
      else bind_result (read_parts (filter (\<lambda>part. part \<noteq> []) (split_on CHR ''+'' normalized)) no_parts) (\<lambda>p.
        case sp_key p of
          None \<Rightarrow> Inl NoKey
        | Some key \<Rightarrow>
            if \<not> (sp_ctrl p \<or> sp_alt p \<or> sp_shift p \<or> sp_meta p) \<and> \<not> allows_single_runtime_toggle_key key
            then Inl NeedsModifier
            else (let shortcut = join_plus (shown_parts p key) in
              case parse shortcut of
                None \<Rightarrow> Inl (CannotRegister normalized)
              | Some _ \<Rightarrow> Inr (Some shortcut))))"

section \<open>Conflicts\<close>

definition shortcut_entries :: "layout_state \<Rightarrow> (shortcut_slot \<times> string) list" where
  "shortcut_entries layout =
     [(SlotToggle, ly_edge_switch_hotkey layout),
      (SlotControlMac, hk_control_mac (ly_control_hotkeys layout)),
      (SlotReturnWindows, hk_return_windows (ly_control_hotkeys layout)),
      (SlotEmergency, hk_emergency_return (ly_control_hotkeys layout)),
      (SlotLeft, sw_left (ly_screen_switch_hotkeys layout)),
      (SlotRight, sw_right (ly_screen_switch_hotkeys layout)),
      (SlotUp, sw_up (ly_screen_switch_hotkeys layout)),
      (SlotDown, sw_down (ly_screen_switch_hotkeys layout))]"

fun conflict_scan ::
  "(string \<Rightarrow> 'k option) \<Rightarrow> (shortcut_slot \<times> string) list \<Rightarrow> (shortcut_slot \<times> string) list
     \<Rightarrow> (shortcut_error, unit) result" where
  "conflict_scan parse canonical [] = Inr ()"
| "conflict_scan parse canonical ((label, raw) # entries) =
     bind_result (canonical_runtime_toggle_shortcut parse raw) (\<lambda>v.
       case v of
         None \<Rightarrow> conflict_scan parse canonical entries
       | Some v \<Rightarrow>
           (case find (\<lambda>(_, existing). existing = v) canonical of
              Some (other, _) \<Rightarrow> Inl (ShortcutConflict label other v)
            | None \<Rightarrow> conflict_scan parse (canonical @ [(label, v)]) entries))"

definition validate_layout_shortcut_conflicts ::
  "(string \<Rightarrow> 'k option) \<Rightarrow> layout_state \<Rightarrow> (shortcut_error, unit) result" where
  "validate_layout_shortcut_conflicts parse layout =
     (if ly_machine_role layout \<noteq> ''server'' then Inr () else conflict_scan parse [] (shortcut_entries layout))"

section \<open>Registration\<close>

definition empty_control_hotkeys :: control_hotkeys where
  "empty_control_hotkeys = \<lparr>hk_control_mac = [], hk_return_windows = [], hk_emergency_return = []\<rparr>"

definition unwrap_shortcut :: "string option \<Rightarrow> string" where
  "unwrap_shortcut v = (case v of None \<Rightarrow> [] | Some s \<Rightarrow> s)"

definition control_hotkeys_for_layout ::
  "(string \<Rightarrow> 'k option) \<Rightarrow> layout_state \<Rightarrow> (shortcut_error, control_hotkeys) result" where
  "control_hotkeys_for_layout parse layout =
     (if ly_machine_role layout \<noteq> ''server'' then Inr empty_control_hotkeys
      else bind_result (canonical_runtime_toggle_shortcut parse (hk_control_mac (ly_control_hotkeys layout))) (\<lambda>mac.
        bind_result (canonical_runtime_toggle_shortcut parse (hk_return_windows (ly_control_hotkeys layout))) (\<lambda>ret.
        bind_result (canonical_runtime_toggle_shortcut parse (hk_emergency_return (ly_control_hotkeys layout))) (\<lambda>emergency.
          Inr \<lparr>hk_control_mac = unwrap_shortcut mac, hk_return_windows = unwrap_shortcut ret,
            hk_emergency_return = unwrap_shortcut emergency\<rparr>))))"

record 'g shortcut_port =
  so_register :: "string \<Rightarrow> 'g \<Rightarrow> (string, unit) result \<times> 'g"
  so_unregister :: "string \<Rightarrow> 'g \<Rightarrow> (string, unit) result \<times> 'g"

text \<open>\<open>for value in values { let _ = op(value); }\<close>\<close>

fun for_each_ignoring :: "(string \<Rightarrow> 'g \<Rightarrow> (string, unit) result \<times> 'g) \<Rightarrow> string list \<Rightarrow> 'g \<Rightarrow> 'g" where
  "for_each_ignoring op [] g = g"
| "for_each_ignoring op (v # vs) g = for_each_ignoring op vs (snd (op v g))"

fun unregister_changed ::
  "'g shortcut_port \<Rightarrow> string list \<Rightarrow> (string \<times> string) list \<Rightarrow> 'g \<Rightarrow> (string \<times> string, string list) result \<times> 'g" where
  "unregister_changed P unregistered [] g = (Inr unregistered, g)"
| "unregister_changed P unregistered ((old, _) # changed) g =
     (if old = [] then unregister_changed P unregistered changed g
      else (case so_unregister P old g of
          (Inl e, g') \<Rightarrow> (Inl (old, e), for_each_ignoring (so_register P) unregistered g')
        | (Inr _, g') \<Rightarrow> unregister_changed P (unregistered @ [old]) changed g'))"

fun register_changed ::
  "'g shortcut_port \<Rightarrow> string list \<Rightarrow> string list \<Rightarrow> (string \<times> string) list \<Rightarrow> 'g \<Rightarrow> (string \<times> string, unit) result \<times> 'g" where
  "register_changed P unregistered registered [] g = (Inr (), g)"
| "register_changed P unregistered registered ((_, new_value) # changed) g =
     (if new_value = [] then register_changed P unregistered registered changed g
      else (case so_register P new_value g of
          (Inl e, g') \<Rightarrow> (Inl (new_value, e),
              for_each_ignoring (so_register P) (filter (\<lambda>v. v \<noteq> []) unregistered)
                (for_each_ignoring (so_unregister P) registered g'))
        | (Inr _, g') \<Rightarrow> register_changed P unregistered (registered @ [new_value]) changed g'))"

definition hotkey_values :: "control_hotkeys \<Rightarrow> string list" where
  "hotkey_values h = [hk_control_mac h, hk_return_windows h, hk_emergency_return h]"

definition changed_values :: "control_hotkeys \<Rightarrow> control_hotkeys \<Rightarrow> (string \<times> string) list" where
  "changed_values current after = filter (\<lambda>(old, new_value). old \<noteq> new_value) (zip (hotkey_values current) (hotkey_values after))"

definition sync_control_hotkeys ::
  "(string \<Rightarrow> 'k option) \<Rightarrow> 'g shortcut_port \<Rightarrow> layout_state \<Rightarrow> control_hotkeys \<Rightarrow> 'g
     \<Rightarrow> (shortcut_error + string \<times> string, unit) result \<times> control_hotkeys \<times> 'g" where
  "sync_control_hotkeys parse P layout current g =
     (case control_hotkeys_for_layout parse layout of
        Inl e \<Rightarrow> (Inl (Inl e), current, g)
      | Inr after \<Rightarrow>
          if current = after then (Inr (), current, g)
          else (case unregister_changed P [] (changed_values current after) g of
              (Inl e, g1) \<Rightarrow> (Inl (Inr e), current, g1)
            | (Inr unregistered, g1) \<Rightarrow>
                (case register_changed P unregistered [] (changed_values current after) g1 of
                   (Inl e, g2) \<Rightarrow> (Inl (Inr e), current, g2)
                 | (Inr _, g2) \<Rightarrow> (Inr (), after, g2))))"

section \<open>Dispatch\<close>

datatype switch_direction = SwitchLeft | SwitchRight | SwitchUp | SwitchDown

record shortcut_state =
  ss_machine_role :: string
  ss_control_hotkeys :: control_hotkeys
  ss_hotkeys :: hotkeys
  ss_runtime_toggle :: "string option"
  ss_directions :: screen_switch_hotkeys
  ss_switch_request :: "switch_direction option"

fun find_shortcut :: "(string \<Rightarrow> 'k option) \<Rightarrow> 'k \<Rightarrow> (string \<times> 'a) list \<Rightarrow> 'a option" where
  "find_shortcut parse shortcut [] = None"
| "find_shortcut parse shortcut ((stored, action) # entries) =
     (if stored \<noteq> [] \<and> parse stored = Some shortcut then Some action else find_shortcut parse shortcut entries)"

definition control_actions :: "control_hotkeys \<Rightarrow> (string \<times> control_hotkey_action) list" where
  "control_actions h = [(hk_control_mac h, GoMac), (hk_return_windows h, GoLocal), (hk_emergency_return h, EmergencyLocal)]"

definition switch_directions :: "screen_switch_hotkeys \<Rightarrow> (string \<times> switch_direction) list" where
  "switch_directions h = [(sw_left h, SwitchLeft), (sw_right h, SwitchRight), (sw_up h, SwitchUp), (sw_down h, SwitchDown)]"

text \<open>The first component: the runtime is started or stopped.\<close>

definition route_global_shortcut ::
  "(string \<Rightarrow> 'k option) \<Rightarrow> bool \<Rightarrow> 'k \<Rightarrow> bool \<Rightarrow> shortcut_state \<Rightarrow> bool \<times> shortcut_state" where
  "route_global_shortcut parse lock_free shortcut pressed s =
     (if ss_machine_role s \<noteq> ''server'' then (False, s)
      else (case find_shortcut parse shortcut (control_actions (ss_control_hotkeys s)) of
          Some action \<Rightarrow> (False, s\<lparr>ss_hotkeys := snd (dispatch_control_hotkey lock_free action pressed (ss_hotkeys s))\<rparr>)
        | None \<Rightarrow>
            if \<not> pressed then (False, s)
            else if (\<exists>toggle\<in>set_option (ss_runtime_toggle s). parse toggle = Some shortcut) then (True, s)
            else (case find_shortcut parse shortcut (switch_directions (ss_directions s)) of
                Some direction \<Rightarrow> (False, s\<lparr>ss_switch_request := Some direction\<rparr>)
              | None \<Rightarrow> (False, s))))"

end
