(* ===== verification/Peer_Discovery.thy ===== *)
theory Peer_Discovery
  imports Layout_State
begin

text \<open>
  LAN discovery (\<open>lib.rs\<close>): what a machine announces, the bounded table of the peers it has heard
  of, which peers it shows and answers, how their announcements update the devices and the paired
  controllers of the layout, and the addresses it announces to.

  The machine's own name and address, the clock and the wire decoder are arguments.
\<close>

definition PEER_TTL_MS :: u64 where "PEER_TTL_MS = 90000"
definition MAX_DISCOVERY_PEERS :: nat where "MAX_DISCOVERY_PEERS = 128"
definition DISCOVERY_PORT_SPAN :: nat where "DISCOVERY_PORT_SPAN = 8"
definition DISCOVERY_PROTOCOL :: string where "DISCOVERY_PROTOCOL = ''mykvm-local.discovery.v1''"

record lan_peer_screen =
  ls_id :: string
  ls_name :: string
  ls_x :: i32
  ls_y :: i32
  ls_width :: i32
  ls_height :: i32
  ls_scale :: f64
  ls_is_primary :: bool

record lan_peer =
  lp_id :: string
  lp_name :: string
  lp_platform :: string
  lp_machine_role :: string
  lp_cluster_id :: string
  lp_pairing_required :: bool
  lp_host :: string
  lp_ip :: string
  lp_transport_port :: u16
  lp_quic_port :: u16
  lp_transport_public_key :: string
  lp_protocol_version :: u16
  lp_screen_count :: nat
  lp_input_ready :: bool
  lp_upgrading :: bool
  lp_screens :: "lan_peer_screen list"
  lp_app_version :: string
  lp_last_seen_ms :: u64

section \<open>Identity\<close>

definition text_matches :: "string \<Rightarrow> string \<Rightarrow> bool" where
  "text_matches left right \<longleftrightarrow>
     trim left \<noteq> [] \<and> trim right \<noteq> [] \<and> eq_ignore_ascii_case (trim left) (trim right)"

definition same_host :: "string \<Rightarrow> string \<Rightarrow> bool" where
  "same_host val host \<longleftrightarrow>
     (let host' = to_ascii_lowercase (trim host)
      in host' \<noteq> [] \<and> (\<exists>part\<in>set (split_on CHR ''/'' val). to_ascii_lowercase (trim part) = host'))"

definition sanitize_id :: "string \<Rightarrow> string" where
  "sanitize_id val = trim_matches CHR ''-'' (map_alphanumeric (trim val))"

definition peer_device_id :: "lan_peer \<Rightarrow> string" where
  "peer_device_id peer =
     (let ident = sanitize_id (if is_blank (lp_id peer)
            then (if is_blank (lp_name peer) then lp_ip peer else lp_name peer) else lp_id peer)
      in if ident = [] then ''peer-device'' else ident)"

definition paired_controller_identity_matches_peer :: "paired_controller \<Rightarrow> lan_peer \<Rightarrow> bool" where
  "paired_controller_identity_matches_peer controller peer \<longleftrightarrow>
     (\<not> is_blank (lp_id peer) \<and> pc_id controller = lp_id peer)
     \<or> pc_id controller = peer_device_id peer
     \<or> (\<not> is_blank (lp_transport_public_key peer)
        \<and> pc_transport_public_key controller = lp_transport_public_key peer)"

definition paired_controller_can_repair_with_peer :: "paired_controller \<Rightarrow> lan_peer \<Rightarrow> bool" where
  "paired_controller_can_repair_with_peer controller peer \<longleftrightarrow>
     paired_controller_identity_matches_peer controller peer
     \<or> text_matches (pc_name controller) (lp_name peer)
     \<or> same_host (pc_host controller) (lp_host peer)
     \<or> same_host (lp_host peer) (pc_host controller)
     \<or> text_matches (pc_ip controller) (lp_ip peer)"

definition is_paired_controller :: "layout_state \<Rightarrow> lan_peer \<Rightarrow> bool" where
  "is_paired_controller layout peer \<longleftrightarrow>
     (\<exists>controller\<in>set (ly_paired_controllers layout). paired_controller_identity_matches_peer controller peer)"

definition local_peer_id :: "string \<Rightarrow> string \<Rightarrow> string" where
  "local_peer_id host ip =
     (let normalized = trim_matches CHR ''-'' (map_alphanumeric (host @ ''-'' @ ip))
      in if normalized = [] then ''peer-local'' else ''peer-'' @ normalized)"

section \<open>What a machine announces\<close>

definition pairing_required :: "layout_state \<Rightarrow> bool" where
  "pairing_required layout \<longleftrightarrow> ly_machine_role layout = ''client'' \<and> ly_paired_controllers layout = []"

definition advertised_cluster_id :: "layout_state \<Rightarrow> string" where
  "advertised_cluster_id layout = (if pairing_required layout then [] else ly_cluster_id layout)"

definition advertised_input_ready :: "layout_state \<Rightarrow> bool \<Rightarrow> bool" where
  "advertised_input_ready layout input_ready \<longleftrightarrow>
     input_ready \<and> \<not> pairing_required layout \<and> \<not> is_blank (ly_cluster_id layout)"

definition screen_to_peer_screen :: "screen \<Rightarrow> lan_peer_screen" where
  "screen_to_peer_screen screen =
     \<lparr>ls_id = sc_id screen, ls_name = sc_name screen, ls_x = sc_x screen, ls_y = sc_y screen,
       ls_width = sc_width screen, ls_height = sc_height screen, ls_scale = sc_scale screen,
       ls_is_primary = sc_is_primary screen\<rparr>"

record machine =
  mc_name :: string
  mc_host :: string
  mc_ip :: string
  mc_platform :: string
  mc_version :: string

definition local_peer_from_layout :: "machine \<Rightarrow> u64 \<Rightarrow> layout_state \<Rightarrow> lan_peer" where
  "local_peer_from_layout machine now_ms layout =
     (let local_device = (case find is_local_device (ly_devices layout) of
            Some device \<Rightarrow> Some device
          | None \<Rightarrow> (case ly_devices layout of [] \<Rightarrow> None | device # _ \<Rightarrow> Some device))
      in \<lparr>lp_id = local_peer_id (mc_host machine) (mc_ip machine),
           lp_name = (case local_device of None \<Rightarrow> mc_name machine
             | Some device \<Rightarrow> if is_blank (dv_name device) then mc_name machine else dv_name device),
           lp_platform = mc_platform machine, lp_machine_role = ly_machine_role layout,
           lp_cluster_id = advertised_cluster_id layout, lp_pairing_required = pairing_required layout,
           lp_host = mc_host machine, lp_ip = mc_ip machine, lp_transport_port = ly_transport_port layout,
           lp_quic_port = normalize_quic_port (ly_transport_port layout) (ly_quic_port layout),
           lp_transport_public_key = (case local_device of None \<Rightarrow> [] | Some device \<Rightarrow> dv_transport_public_key device),
           lp_protocol_version = (case local_device of None \<Rightarrow> PROTOCOL_VERSION | Some device \<Rightarrow> dv_protocol_version device),
           lp_screen_count = (case local_device of None \<Rightarrow> 0 | Some device \<Rightarrow> length (dv_screens device)),
           lp_input_ready = False, lp_upgrading = False,
           lp_screens = (case local_device of None \<Rightarrow> [] | Some device \<Rightarrow> map screen_to_peer_screen (dv_screens device)),
           lp_app_version = mc_version machine, lp_last_seen_ms = now_ms\<rparr>)"

section \<open>The table of peers\<close>

definition peer_fresh :: "u64 \<Rightarrow> lan_peer \<Rightarrow> bool" where
  "peer_fresh now peer \<longleftrightarrow> saturating_sub now (lp_last_seen_ms peer) \<le> PEER_TTL_MS"

definition prune_stale_peer_entries :: "u64 \<Rightarrow> lan_peer list \<Rightarrow> lan_peer list" where
  "prune_stale_peer_entries now peers = filter (peer_fresh now) peers"

definition merge_peer_entry :: "u64 \<Rightarrow> lan_peer \<Rightarrow> lan_peer list \<Rightarrow> lan_peer list" where
  "merge_peer_entry now next_peer peers =
     (let fresh = prune_stale_peer_entries now peers in
      if \<exists>peer\<in>set fresh. lp_id peer = lp_id next_peer
      then update_first (\<lambda>peer. lp_id peer = lp_id next_peer) (\<lambda>_. next_peer) fresh
      else (if length fresh \<ge> MAX_DISCOVERY_PEERS
            then (case min_index_by lp_last_seen_ms fresh of
                None \<Rightarrow> fresh
              | Some oldest \<Rightarrow> swap_remove oldest fresh)
            else fresh) @ [next_peer])"

definition active_peers :: "u64 \<Rightarrow> string \<Rightarrow> lan_peer list \<Rightarrow> lan_peer list" where
  "active_peers now local_id peers = filter (\<lambda>peer. lp_id peer \<noteq> local_id \<and> peer_fresh now peer) peers"

definition peer_visible_to_layout :: "layout_state \<Rightarrow> lan_peer \<Rightarrow> bool" where
  "peer_visible_to_layout layout peer \<longleftrightarrow>
     (if lp_pairing_required peer then ly_machine_role layout = ''server''
      else trim (ly_cluster_id layout) \<noteq> [] \<and> lp_cluster_id peer = trim (ly_cluster_id layout))"

definition peer_visible_to_local_peer :: "lan_peer \<Rightarrow> lan_peer \<Rightarrow> bool" where
  "peer_visible_to_local_peer local_peer peer \<longleftrightarrow>
     (if lp_pairing_required peer then lp_machine_role local_peer = ''server''
      else trim (lp_cluster_id local_peer) \<noteq> [] \<and> lp_cluster_id peer = trim (lp_cluster_id local_peer))"

definition pair_challenge_usable_for_local_peer :: "lan_peer \<Rightarrow> lan_peer \<Rightarrow> bool" where
  "pair_challenge_usable_for_local_peer local_peer peer \<longleftrightarrow>
     (if \<not> is_blank (lp_machine_role peer) \<and> lp_machine_role peer \<noteq> ''client'' then False
      else if lp_pairing_required peer then True
      else peer_visible_to_local_peer local_peer peer \<or> \<not> is_blank (lp_transport_public_key peer))"

definition should_reply_to_discovery :: "layout_state \<Rightarrow> lan_peer \<Rightarrow> bool" where
  "should_reply_to_discovery layout peer \<longleftrightarrow>
     (if peer_visible_to_layout layout peer then True
      else if ly_machine_role layout = ''client'' \<and> pairing_required layout then lp_machine_role peer = ''server''
      else ly_machine_role layout = ''client'' \<and> is_paired_controller layout peer)"

section \<open>Presence\<close>

definition wrap_i32 :: "int \<Rightarrow> i32" where
  "wrap_i32 v = (v + 2147483648) mod 4294967296 - 2147483648"

definition normalize_peer_platform :: "string \<Rightarrow> string" where
  "normalize_peer_platform platform =
     (if eq_ignore_ascii_case platform ''windows'' then ''windows''
      else if eq_ignore_ascii_case platform ''macos'' then ''macos'' else ''unknown'')"

definition unique_peer_screen_id :: "string \<Rightarrow> lan_peer_screen \<Rightarrow> nat \<Rightarrow> string" where
  "unique_peer_screen_id device_id screen index =
     (let numbered = device_id @ ''-display-'' @ show_nat (index + 1) in
      if is_blank (ls_id screen) \<and> is_blank (ls_name screen) then numbered
      else (let suffix = sanitize_id (if \<not> is_blank (ls_id screen) then ls_id screen else ls_name screen)
        in if suffix = [] then numbered else device_id @ ''-'' @ suffix))"

fun min_or_zero :: "int list \<Rightarrow> int" where
  "min_or_zero [] = 0"
| "min_or_zero (x # xs) = foldl min x xs"

definition peer_screen_at :: "string \<Rightarrow> screen list \<Rightarrow> i32 \<Rightarrow> i32 \<Rightarrow> lan_peer_screen \<Rightarrow> nat \<Rightarrow> screen" where
  "peer_screen_at device_id existing min_x min_y peer_screen index =
     (let ident = unique_peer_screen_id device_id peer_screen index;
          known = find (\<lambda>screen. sc_id screen = ident) existing
      in \<lparr>sc_id = ident, sc_device_id = device_id,
           sc_name = (if is_blank (ls_name peer_screen) then ''Display '' @ show_nat (index + 1) else ls_name peer_screen),
           sc_x = (case known of Some screen \<Rightarrow> sc_x screen | None \<Rightarrow> wrap_i32 (ls_x peer_screen - min_x)),
           sc_y = (case known of Some screen \<Rightarrow> sc_y screen | None \<Rightarrow> wrap_i32 (ls_y peer_screen - min_y)),
           sc_width = ls_width peer_screen, sc_height = ls_height peer_screen, sc_scale = ls_scale peer_screen,
           sc_is_primary = ls_is_primary peer_screen\<rparr>)"

definition screens_from_peer :: "lan_peer \<Rightarrow> string \<Rightarrow> screen list \<Rightarrow> screen list" where
  "screens_from_peer peer device_id existing =
     (if lp_screens peer = [] then existing
      else map2 (peer_screen_at device_id existing (min_or_zero (map ls_x (lp_screens peer)))
                   (min_or_zero (map ls_y (lp_screens peer))))
             (lp_screens peer) [0..<length (lp_screens peer)])"

definition same_cluster_host :: "device \<Rightarrow> lan_peer \<Rightarrow> string \<Rightarrow> bool" where
  "same_cluster_host device peer cluster_id \<longleftrightarrow>
     trim cluster_id \<noteq> [] \<and> \<not> lp_pairing_required peer \<and> lp_cluster_id peer = trim cluster_id
     \<and> (same_host (dv_host device) (lp_host peer) \<or> same_host (dv_host device) (lp_ip peer))"

definition device_matches_peer :: "device \<Rightarrow> lan_peer \<Rightarrow> string \<Rightarrow> bool" where
  "device_matches_peer device peer cluster_id \<longleftrightarrow>
     dv_id device = peer_device_id peer
     \<or> (\<not> is_blank (dv_transport_public_key device) \<and> dv_transport_public_key device = lp_transport_public_key peer)
     \<or> same_cluster_host device peer cluster_id"

definition update_device_from_peer :: "u64 \<Rightarrow> lan_peer \<Rightarrow> device \<Rightarrow> device" where
  "update_device_from_peer now_ms peer device =
     device\<lparr>dv_online := True, dv_input_ready := lp_input_ready peer,
       dv_host := (if is_blank (lp_ip peer) then lp_host peer else lp_ip peer),
       dv_transport_port := lp_transport_port peer,
       dv_quic_port := normalize_quic_port (lp_transport_port peer) (lp_quic_port peer),
       dv_transport_public_key := lp_transport_public_key peer,
       dv_protocol_version := lp_protocol_version peer,
       dv_platform := (if is_blank (lp_platform peer) then dv_platform device else normalize_peer_platform (lp_platform peer)),
       dv_name := (if \<not> is_blank (lp_name peer) \<and> dv_source device = ''detected'' then lp_name peer else dv_name device),
       dv_screens := (if lp_screens peer = [] then dv_screens device
         else screens_from_peer peer (dv_id device) (dv_screens device)),
       dv_upgrading_until_ms := (if lp_upgrading peer \<and> \<not> dv_upgrading device then now_ms + 120000
         else dv_upgrading_until_ms device),
       dv_upgrading := lp_upgrading peer\<rparr>"

definition refresh_controller :: "lan_peer list \<Rightarrow> paired_controller \<Rightarrow> paired_controller" where
  "refresh_controller peers controller =
     (case find (paired_controller_can_repair_with_peer controller) peers of
        None \<Rightarrow> controller
      | Some peer \<Rightarrow>
          controller\<lparr>
            pc_transport_public_key := (if trim (lp_transport_public_key peer) \<noteq> [] then trim (lp_transport_public_key peer)
              else pc_transport_public_key controller),
            pc_id := (if peer_device_id peer \<noteq> [] then peer_device_id peer else pc_id controller),
            pc_host := (if is_blank (lp_host peer) then pc_host controller else lp_host peer),
            pc_ip := (if is_blank (lp_ip peer) then pc_ip controller else lp_ip peer),
            pc_name := (if is_blank (lp_name peer) then pc_name controller else lp_name peer),
            pc_protocol_version := lp_protocol_version peer\<rparr>)"

definition refresh_paired_controller_keys :: "lan_peer list \<Rightarrow> layout_state \<Rightarrow> layout_state" where
  "refresh_paired_controller_keys peers layout =
     layout\<lparr>ly_paired_controllers := map (refresh_controller peers) (ly_paired_controllers layout)\<rparr>"

definition present_device :: "u64 \<Rightarrow> lan_peer list \<Rightarrow> u16 \<Rightarrow> u16 \<Rightarrow> string \<Rightarrow> device \<Rightarrow> device" where
  "present_device now_ms peers transport_port quic_port cluster_id device =
     (if is_local_device device
      then device\<lparr>dv_online := True, dv_input_ready := False, dv_transport_port := transport_port,
        dv_quic_port := quic_port, dv_protocol_version := PROTOCOL_VERSION\<rparr>
      else (case find (\<lambda>peer. device_matches_peer device peer cluster_id) peers of
          Some peer \<Rightarrow> update_device_from_peer now_ms peer device
        | None \<Rightarrow> device\<lparr>dv_online := False, dv_input_ready := False,
            dv_upgrading := (if dv_upgrading device \<and> now_ms > dv_upgrading_until_ms device then False
              else dv_upgrading device)\<rparr>))"

definition apply_peer_presence :: "u64 \<Rightarrow> lan_peer list \<Rightarrow> layout_state \<Rightarrow> layout_state" where
  "apply_peer_presence now_ms peers layout =
     refresh_paired_controller_keys peers
       (layout\<lparr>ly_devices := map (present_device now_ms peers (ly_transport_port layout) (ly_quic_port layout)
          (ly_cluster_id layout)) (ly_devices layout)\<rparr>)"

text \<open>The table is pruned before the presence of its peers is applied.\<close>

definition sync_layout_peer_presence :: "u64 \<Rightarrow> lan_peer list \<Rightarrow> layout_state \<Rightarrow> lan_peer list \<times> layout_state" where
  "sync_layout_peer_presence now_ms peers layout =
     (let fresh = prune_stale_peer_entries now_ms peers in (fresh, apply_peer_presence now_ms fresh layout))"

section \<open>Packets\<close>

record discovery_packet =
  dk_protocol :: string
  dk_kind :: string
  dk_peer :: lan_peer
  dk_pairing_code :: "string option"
  dk_pair_cluster_id :: "string option"
  dk_pair_secret :: "string option"
  dk_pairing_error :: "string option"

definition decode_discovery_packet :: "(u8 list \<Rightarrow> discovery_packet option) \<Rightarrow> u8 list \<Rightarrow> discovery_packet option" where
  "decode_discovery_packet unpack payload =
     Option.bind (unpack payload) (\<lambda>packet. if dk_protocol packet = DISCOVERY_PROTOCOL then Some packet else None)"

definition peer_from_discovery_packet :: "u64 \<Rightarrow> string \<Rightarrow> string \<Rightarrow> discovery_packet \<Rightarrow> lan_peer option" where
  "peer_from_discovery_packet now_ms source_ip local_id packet =
     (let peer = dk_peer packet in
      if lp_id peer = local_id then None
      else
        (let version = (if lp_protocol_version peer = 0 then PROTOCOL_VERSION else lp_protocol_version peer)
         in Some (peer\<lparr>lp_ip := source_ip,
              lp_quic_port := (if lp_quic_port peer = 0 then lp_transport_port peer else lp_quic_port peer),
              lp_protocol_version := version,
              lp_input_ready := (if is_blank (lp_transport_public_key peer) \<or> version \<noteq> PROTOCOL_VERSION
                then False else lp_input_ready peer),
              lp_last_seen_ms := now_ms\<rparr>)))"

section \<open>Addresses\<close>

definition split_host_port :: "string \<Rightarrow> string \<times> u16 option" where
  "split_host_port input =
     (case rsplit_once CHR '':'' input of
        None \<Rightarrow> (trim input, None)
      | Some (host, port) \<Rightarrow>
          (case (trim host, parse_uint 65535 (trim port)) of
             (h # hs, Some n) \<Rightarrow> (h # hs, Some (of_nat n))
           | _ \<Rightarrow> (trim input, None)))"

definition discovery_target_ports :: "u16 \<Rightarrow> u16 list" where
  "discovery_target_ports base =
     List.map_filter (\<lambda>offset. checked_add (normalize_transport_port base) (of_nat offset)) [0..<DISCOVERY_PORT_SPAN]"

definition discovery_base_port :: "layout_state \<Rightarrow> u16" where
  "discovery_base_port layout =
     (if ly_transport_port_mode layout = ''auto'' then default_transport_port
      else normalize_transport_port (ly_transport_port layout))"

definition show_port :: "u16 \<Rightarrow> string" where "show_port port = show_nat (unat port)"

type_synonym ipv4 = "u8 \<times> u8 \<times> u8 \<times> u8"

definition show_prefix :: "ipv4 \<Rightarrow> string" where
  "show_prefix ip = (case ip of (a, b, c, _) \<Rightarrow>
     show_nat (unat a) @ ''.'' @ show_nat (unat b) @ ''.'' @ show_nat (unat c))"

definition broadcast_addrs_for_ips :: "u16 \<Rightarrow> ipv4 list \<Rightarrow> string list" where
  "broadcast_addrs_for_ips base_port local_ips =
     sort_dedup (concat (map (\<lambda>port. (''255.255.255.255:'' @ show_port port)
         # map (\<lambda>ip. show_prefix ip @ ''.255:'' @ show_port port) local_ips)
       (discovery_target_ports base_port)))"

definition unicast_sweep_targets_for_ips :: "u16 \<Rightarrow> ipv4 list \<Rightarrow> string list" where
  "unicast_sweep_targets_for_ips port local_ips =
     sort_dedup (concat (map (\<lambda>ip. case ip of (a, b, c, self_host) \<Rightarrow>
       concat (map (\<lambda>host. map (\<lambda>port. show_prefix ip @ ''.'' @ show_nat host @ '':'' @ show_port port)
           (discovery_target_ports port))
         (filter (\<lambda>host. host \<noteq> unat self_host) [1..<255]))) local_ips))"

definition known_peer_ports :: "u16 \<Rightarrow> u16 \<Rightarrow> u16 list" where
  "known_peer_ports base_port stored_port =
     (let ports = discovery_target_ports base_port; stored = normalize_transport_port stored_port
      in sort_dedup (if stored \<in> set ports then ports else ports @ [stored]))"

definition host_candidates :: "string \<Rightarrow> string list" where
  "host_candidates host_value =
     sort_dedup (filter (\<lambda>part. part \<noteq> []) (map trim (split_on CHR ''/'' host_value)))"

definition host_discovery_targets :: "string \<Rightarrow> u16 list \<Rightarrow> string list" where
  "host_discovery_targets host_value ports =
     concat (map (\<lambda>candidate. case split_host_port candidate of (host, explicit_port) \<Rightarrow>
       if is_blank host then []
       else (case explicit_port of
           Some port \<Rightarrow> [host @ '':'' @ show_port port]
         | None \<Rightarrow> map (\<lambda>port. host @ '':'' @ show_port port) ports)) (host_candidates host_value))"

definition known_peer_discovery_targets :: "layout_state \<Rightarrow> u16 \<Rightarrow> string list" where
  "known_peer_discovery_targets layout base_port =
     sort_dedup
       (concat (map (\<lambda>device. host_discovery_targets (dv_host device) (known_peer_ports base_port (dv_transport_port device)))
          (filter (\<lambda>device. \<not> is_local_device device) (ly_devices layout)))
        @ concat (map (\<lambda>controller. host_discovery_targets (pc_ip controller) (discovery_target_ports base_port)
            @ host_discovery_targets (pc_host controller) (discovery_target_ports base_port))
          (ly_paired_controllers layout)))"

end
