(* ===== verification/Settings.thy ===== *)
theory Settings
  imports Shortcuts Peer_Discovery Routing
begin

text \<open>
  Commands on the settings (\<open>lib.rs\<close>): the validation of what the user interface sends, saving a
  layout, and reading it back from disk.

  The JSON codec and the file are parameters: \<open>encode\<close> gives the encoded settings or an error, and the
  outcome of a write says what the file holds afterwards.
\<close>

section \<open>Validation\<close>

definition MAX_LAYOUT_IPC_BYTES :: nat where "MAX_LAYOUT_IPC_BYTES = 2 * 1024 * 1024"
definition MAX_IPC_HOST_BYTES :: nat where "MAX_IPC_HOST_BYTES = 253"

datatype settings_error =
    CannotEncode string
  | TooLarge
  | InvalidMode
  | TooManyDevices
  | DeviceTooLong
  | InvalidDisplay
  | ShortcutProblem shortcut_error
  | InvalidHost
  | InvalidCode
  | WriteFailed string

definition f64_in_range :: "f64 \<Rightarrow> bool" where
  "f64_in_range v = (case v of
     F64_Finite x \<Rightarrow> 3602879701896397 / 36028797018963968 \<le> x \<and> x \<le> 16
   | _ \<Rightarrow> False)"

definition screen_valid :: "screen \<Rightarrow> bool" where
  "screen_valid screen \<longleftrightarrow> \<not> (length (sc_id screen) > 512 \<or> length (sc_name screen) > 512
     \<or> sc_width screen \<le> 0 \<or> sc_height screen \<le> 0 \<or> sc_width screen > 100000 \<or> sc_height screen > 100000
     \<or> \<not> f64_in_range (sc_scale screen))"

definition device_lengths_valid :: "device \<Rightarrow> bool" where
  "device_lengths_valid device \<longleftrightarrow> \<not> (length (dv_id device) > 512 \<or> length (dv_name device) > 512
     \<or> length (dv_host device) > MAX_IPC_HOST_BYTES \<or> length (dv_screens device) > 32)"

fun validate_devices :: "device list \<Rightarrow> (settings_error, unit) result" where
  "validate_devices [] = Inr ()"
| "validate_devices (device # devices) =
     and_then (reject_if (\<not> device_lengths_valid device) DeviceTooLong)
       (and_then (reject_if (\<not> list_all screen_valid (dv_screens device)) InvalidDisplay) (validate_devices devices))"

definition validate_layout_ipc ::
  "(layout_state \<Rightarrow> (string, u8 list) result) \<Rightarrow> (string \<Rightarrow> 'k option) \<Rightarrow> layout_state \<Rightarrow> (settings_error, unit) result" where
  "validate_layout_ipc encode parse layout =
     (case encode layout of
        Inl e \<Rightarrow> Inl (CannotEncode e)
      | Inr encoded \<Rightarrow>
          and_then (reject_if (length encoded > MAX_LAYOUT_IPC_BYTES) TooLarge)
          (and_then (reject_if (ly_machine_role layout \<notin> {''unset'', ''server'', ''client''}
             \<or> ly_input_mode layout \<notin> {''control'', ''receive''}
             \<or> ly_language layout \<notin> {''cn'', ''en''}
             \<or> ly_theme_mode layout \<notin> {''system'', ''light'', ''dark''}
             \<or> ly_transport_port_mode layout \<notin> {''auto'', ''fixed''}) InvalidMode)
          (and_then (reject_if (length (ly_devices layout) > MAX_DISCOVERY_PEERS
             \<or> length (ly_paired_controllers layout) > MAX_DISCOVERY_PEERS
             \<or> length (ly_trusted_peers layout) > MAX_DISCOVERY_PEERS) TooManyDevices)
          (and_then (validate_devices (ly_devices layout))
            (map_err ShortcutProblem (validate_layout_shortcut_conflicts parse layout))))))"

text \<open>\<open>char::is_control\<close>: the C0 controls and DEL are single bytes, the C1 controls start with 194.\<close>

fun has_control :: "nat list \<Rightarrow> bool" where
  "has_control [] = False"
| "has_control (b # bs) =
     (if b < 32 \<or> b = 127 then True
      else if b = 194 \<and> bs \<noteq> [] \<and> hd bs \<in> {128 .. 159} then True else has_control bs)"

definition validate_peer_host_input :: "string \<Rightarrow> (settings_error, unit) result" where
  "validate_peer_host_input host =
     reject_if (trim host = [] \<or> length (trim host) > MAX_IPC_HOST_BYTES \<or> has_control (utf8_bytes (trim host))) InvalidHost"

definition validate_pairing_code_input :: "string \<Rightarrow> (settings_error, unit) result" where
  "validate_pairing_code_input code = reject_if (length code \<noteq> 6 \<or> \<not> list_all is_ascii_digit code) InvalidCode"

section \<open>The file\<close>

text \<open>
  What the file holds: the layout last written, or nothing that can be read. A failed write leaves the
  old contents or spoils them.
\<close>

datatype write_outcome = Written | NotWritten string | Spoiled string

fun after_write :: "write_outcome \<Rightarrow> layout_state \<Rightarrow> layout_state option \<Rightarrow> layout_state option" where
  "after_write Written layout file = Some layout"
| "after_write (NotWritten _) layout file = file"
| "after_write (Spoiled _) layout file = None"

fun write_result :: "write_outcome \<Rightarrow> (string, unit) result" where
  "write_result Written = Inr ()"
| "write_result (NotWritten e) = Inl e"
| "write_result (Spoiled e) = Inl e"

definition write_layout_to_disk ::
  "write_outcome \<Rightarrow> layout_state \<Rightarrow> layout_state option \<Rightarrow> (string, unit) result \<times> layout_state option" where
  "write_layout_to_disk outcome layout file = (write_result outcome, after_write outcome layout file)"

text \<open>The end of an upgrade is not serialised and reads back as 0.\<close>

definition load_layout_from_disk :: "layout_state option \<Rightarrow> layout_state option" where
  "load_layout_from_disk file =
     map_option (\<lambda>layout. layout\<lparr>ly_devices := map (\<lambda>device. device\<lparr>dv_upgrading_until_ms := 0\<rparr>) (ly_devices layout)\<rparr>) file"

section \<open>Saving\<close>

record settings_state =
  st_layout :: layout_state
  st_file :: "layout_state option"
  st_cells :: game_cells
  st_hotkeys :: hotkeys

text \<open>The result says whether the runtime has to be restarted and whether discovery has to stop first.\<close>

definition save_layout ::
  "(layout_state \<Rightarrow> (string, u8 list) result) \<Rightarrow> (string \<Rightarrow> 'k option) \<Rightarrow> write_outcome \<Rightarrow> bool \<Rightarrow> layout_state
     \<Rightarrow> settings_state \<Rightarrow> (settings_error, bool \<times> bool) result \<times> settings_state" where
  "save_layout encode parse outcome lock_free layout s =
     (case validate_layout_ipc encode parse layout of
        Inl e \<Rightarrow> (Inl e, s)
      | Inr _ \<Rightarrow>
          (let previous = st_layout s; saved = merge_runtime_owned_layout_fields layout previous in
           case validate_layout_shortcut_conflicts parse saved of
             Inl e \<Rightarrow> (Inl (ShortcutProblem e), s)
           | Inr _ \<Rightarrow>
               (case write_layout_to_disk outcome saved (st_file s) of
                  (Inl e, file) \<Rightarrow> (Inl (WriteFailed e), s\<lparr>st_file := file\<rparr>)
                | (Inr _, file) \<Rightarrow>
                    (let s1 = s\<lparr>st_layout := saved, st_file := file,
                           st_cells := set_local_game_mode (ly_game_mode saved) (st_cells s)\<rparr>;
                         s2 = (if ly_game_mode saved \<and> \<not> ly_game_mode previous
                           then s1\<lparr>st_hotkeys := (st_hotkeys s1)\<lparr>hot_gate := request_local (hot_gate (st_hotkeys s1)),
                                hot_pending := snd (slot_offer lock_free GoLocal (hot_pending (st_hotkeys s1)))\<rparr>\<rparr>
                           else s1)
                     in (Inr (runtime_relevant_layout_changed previous saved,
                          ly_transport_port_mode previous \<noteq> ly_transport_port_mode saved
                          \<or> ly_transport_port previous \<noteq> ly_transport_port saved), s2)))))"

text \<open>
  Reading the file again, with the presence of the known peers applied. \<open>None\<close>: the index into an
  empty detected layout panics.
\<close>

definition refresh_layout_from_disk ::
  "string \<Rightarrow> string \<Rightarrow> u64 \<Rightarrow> layout_state \<Rightarrow> layout_state option \<Rightarrow> lan_peer list \<Rightarrow> layout_state
     \<Rightarrow> (lan_peer list \<times> layout_state) option" where
  "refresh_layout_from_disk fresh_cluster fresh_secret now_ms native file peers layout =
     (case load_layout_from_disk file of
        None \<Rightarrow> Some (peers, layout)
      | Some saved \<Rightarrow>
          map_option (\<lambda>disk. sync_layout_peer_presence now_ms peers (merge_disk_layout_into_runtime disk layout))
            (normalize_saved_layout fresh_cluster fresh_secret saved native))"

end
