(* ===== verification/Pairing.thy ===== *)
theory Pairing
  imports Settings Transport_Trust
begin

text \<open>
  Pairing (\<open>lib.rs\<close>): a controller asks a client to pair, the client shows a code, and the
  controller confirms it over a connection that presents its certificate; the client then stores
  the certificate and hands the trust list to the transport's registry. The state is what pairing
  shares with the rest of the application: the layout, the settings file, the table of peers, the
  pending challenge and the registry.

  The random code, the clocks, the wire decoder, the base64 codec and the outcome of a write are
  arguments.
\<close>

section \<open>Data\<close>

definition PAIRING_CODE_TTL_MS :: nat where "PAIRING_CODE_TTL_MS = 60000"
definition PAIRING_MAX_ATTEMPTS :: u8 where "PAIRING_MAX_ATTEMPTS = 5"

record pairing_challenge =
  pch_code :: string
  pch_requester_id :: string
  pch_requester_name :: string
  pch_requester_ip :: string
  pch_requester_host :: string
  pch_requester_public_key :: string
  pch_requester_protocol_version :: u16
  pch_expires_at :: nat
  pch_expires_at_ms :: u64
  pch_attempts :: u8

section \<open>The challenge\<close>

definition new_challenge :: "string \<Rightarrow> nat \<Rightarrow> u64 \<Rightarrow> string \<Rightarrow> lan_peer \<Rightarrow> pairing_challenge" where
  "new_challenge fresh_code now now_ms requester_ip requester =
     \<lparr>pch_code = fresh_code, pch_requester_id = lp_id requester, pch_requester_name = lp_name requester,
       pch_requester_ip = requester_ip, pch_requester_host = lp_host requester,
       pch_requester_public_key = lp_transport_public_key requester,
       pch_requester_protocol_version = lp_protocol_version requester,
       pch_expires_at = now + PAIRING_CODE_TTL_MS,
       pch_expires_at_ms = saturating_add now_ms (of_nat PAIRING_CODE_TTL_MS), pch_attempts = 0\<rparr>"

definition refresh_challenge ::
  "string \<Rightarrow> nat \<Rightarrow> u64 \<Rightarrow> string \<Rightarrow> lan_peer \<Rightarrow> pairing_challenge \<Rightarrow> pairing_challenge" where
  "refresh_challenge fresh_code now now_ms requester_ip requester existing =
     (if pch_attempts existing > 0
      then existing\<lparr>pch_code := fresh_code, pch_expires_at := now + PAIRING_CODE_TTL_MS,
        pch_expires_at_ms := saturating_add now_ms (of_nat PAIRING_CODE_TTL_MS), pch_attempts := 0\<rparr>
      else existing)
     \<lparr>pch_requester_ip := requester_ip, pch_requester_host := lp_host requester,
       pch_requester_public_key := lp_transport_public_key requester,
       pch_requester_protocol_version := lp_protocol_version requester\<rparr>"

definition begin_pairing_challenge ::
  "string \<Rightarrow> nat \<Rightarrow> u64 \<Rightarrow> layout_state \<Rightarrow> lan_peer \<Rightarrow> string \<Rightarrow> pairing_challenge option
     \<Rightarrow> bool \<times> pairing_challenge option" where
  "begin_pairing_challenge fresh_code now now_ms layout requester requester_ip challenge =
     (if ly_machine_role layout \<noteq> ''client'' \<or> lp_machine_role requester \<noteq> ''server'' then (False, challenge)
      else if \<not> pairing_required layout
        \<and> \<not> (\<exists>controller\<in>set (ly_paired_controllers layout). paired_controller_can_repair_with_peer controller requester)
      then (False, challenge)
      else (case challenge of
          Some existing \<Rightarrow>
            if pch_expires_at existing > now then
              (if pch_requester_id existing = lp_id requester
               then (True, Some (refresh_challenge fresh_code now now_ms requester_ip requester existing))
               else (False, challenge))
            else (True, Some (new_challenge fresh_code now now_ms requester_ip requester))
        | None \<Rightarrow> (True, Some (new_challenge fresh_code now now_ms requester_ip requester))))"

datatype pairing_error =
    MissingFields
  | ChallengeExpired
  | WrongRequester
  | WrongCode
  | NotClient
  | MissingIdentity
  | InvalidPairingRole
  | DiskFailed

definition check_challenge ::
  "nat \<Rightarrow> lan_peer \<Rightarrow> string \<Rightarrow> pairing_challenge option
     \<Rightarrow> (pairing_error, unit) result \<times> pairing_challenge option" where
  "check_challenge now requester code challenge =
     (case challenge of
        None \<Rightarrow> (Inl ChallengeExpired, None)
      | Some existing \<Rightarrow>
          if pch_expires_at existing \<le> now then (Inl ChallengeExpired, None)
          else if pch_requester_id existing \<noteq> lp_id requester
            \<or> (\<not> is_blank (pch_requester_public_key existing)
               \<and> pch_requester_public_key existing \<noteq> lp_transport_public_key requester)
          then (Inl WrongRequester, Some existing)
          else if pch_code existing \<noteq> trim code
          then (let attempts = saturating_add (pch_attempts existing) 1
                in (Inl WrongCode, if attempts \<ge> PAIRING_MAX_ATTEMPTS then None
                      else Some (existing\<lparr>pch_attempts := attempts\<rparr>)))
          else (Inr (), None))"

section \<open>The trust list\<close>

definition next_trust_revision :: "trusted_peer_record list \<Rightarrow> u64" where
  "next_trust_revision peers = max (saturating_add (foldr max (map tpr_revision peers) 0) 1) 1"

definition upsert_trusted_peer ::
  "string \<Rightarrow> string \<Rightarrow> string \<Rightarrow> u64 \<Rightarrow> trusted_peer_record list
     \<Rightarrow> (pairing_error, unit) result \<times> trusted_peer_record list" where
  "upsert_trusted_peer ident certificate role paired_at_ms peers =
     (if is_blank ident \<or> is_blank certificate then (Inl MissingIdentity, peers)
      else if role \<notin> {''controller'', ''receiver''} then (Inl InvalidPairingRole, peers)
      else (Inr (), filter (\<lambda>peer. tpr_id peer \<noteq> ident \<and> tpr_public_key peer \<noteq> certificate) peers
        @ [\<lparr>tpr_id = trim ident, tpr_public_key = trim certificate, tpr_role = role,
            tpr_revision = next_trust_revision peers, tpr_paired_at_ms = paired_at_ms\<rparr>]))"

fun quic_trusted_peer :: "trusted_peer_record \<Rightarrow> trusted_peer option" where
  "quic_trusted_peer peer =
     map_option (\<lambda>role. \<lparr>tp_peer_id = tpr_id peer, tp_certificate = tpr_public_key peer, tp_role = role,
         tp_trust_revision = tpr_revision peer\<rparr>)
       (if tpr_role peer = ''controller'' then Some PeerController
        else if tpr_role peer = ''receiver'' then Some PeerReceiver else None)"

definition quic_trusted_peers :: "trusted_peer_record list \<Rightarrow> trusted_peer list" where
  "quic_trusted_peers peers = List.map_filter quic_trusted_peer peers"

definition authenticated_peer_role_allowed :: "string \<Rightarrow> peer_role \<Rightarrow> bool" where
  "authenticated_peer_role_allowed machine_role role \<longleftrightarrow>
     (machine_role, role) \<in> {(''client'', PeerController), (''server'', PeerReceiver)}"

section \<open>Confirmation\<close>

definition unwrap_text :: "string option \<Rightarrow> string" where
  "unwrap_text v = (case v of None \<Rightarrow> [] | Some x \<Rightarrow> x)"

definition controller_of :: "lan_peer \<Rightarrow> string \<Rightarrow> u64 \<Rightarrow> paired_controller" where
  "controller_of requester cluster_id now_ms =
     \<lparr>pc_id = lp_id requester, pc_name = lp_name requester, pc_host = lp_host requester, pc_ip = lp_ip requester,
       pc_transport_public_key = lp_transport_public_key requester,
       pc_protocol_version = lp_protocol_version requester,
       pc_cluster_id = cluster_id, pc_paired_at_ms = now_ms\<rparr>"

record pairing_state =
  pg_layout :: layout_state
  pg_file :: "layout_state option"
  pg_peers :: "lan_peer list"
  pg_challenge :: "pairing_challenge option"
  pg_registry :: "decoded_peer list"

definition complete_pairing_from_confirm ::
  "nat \<Rightarrow> u64 \<Rightarrow> write_outcome \<Rightarrow> lan_peer \<Rightarrow> string option \<Rightarrow> string option \<Rightarrow> string option
     \<Rightarrow> pairing_state \<Rightarrow> (pairing_error, unit) result \<times> pairing_state" where
  "complete_pairing_from_confirm now now_ms outcome requester code_field cluster_field secret_field s =
     (let code = unwrap_text code_field; cluster_id = unwrap_text cluster_field;
          pair_secret = unwrap_text secret_field in
      if is_blank code \<or> is_blank cluster_id \<or> is_blank pair_secret then (Inl MissingFields, s)
      else (case check_challenge now requester code (pg_challenge s) of
          (Inl e, challenge) \<Rightarrow> (Inl e, s\<lparr>pg_challenge := challenge\<rparr>)
        | (Inr _, challenge) \<Rightarrow>
            (let s1 = s\<lparr>pg_challenge := challenge\<rparr>; layout = pg_layout s1 in
             if ly_machine_role layout \<noteq> ''client'' then (Inl NotClient, s1)
             else
               (let layout1 = layout\<lparr>ly_cluster_id := trim cluster_id, ly_pair_secret := trim pair_secret,
                      ly_input_mode := ''receive'',
                      ly_paired_controllers := [controller_of requester (trim cluster_id) now_ms]\<rparr>;
                    (res, peers) = upsert_trusted_peer (lp_id requester) (lp_transport_public_key requester)
                      ''controller'' now_ms (ly_trusted_peers layout1);
                    s2 = s1\<lparr>pg_layout := layout1\<lparr>ly_trusted_peers := peers\<rparr>\<rparr>
                in case res of
                     Inl e \<Rightarrow> (Inl e, s2)
                   | Inr _ \<Rightarrow> (case write_layout_to_disk outcome (pg_layout s2) (pg_file s2) of
                       (written, file) \<Rightarrow> (map_err (\<lambda>_. DiskFailed) written, s2\<lparr>pg_file := file\<rparr>))))))"

definition sync_presence :: "u64 \<Rightarrow> pairing_state \<Rightarrow> pairing_state" where
  "sync_presence now_ms s =
     (let (peers, layout) = sync_layout_peer_presence now_ms (pg_peers s) (pg_layout s)
      in s\<lparr>pg_peers := peers, pg_layout := layout\<rparr>)"

definition merge_peer :: "u64 \<Rightarrow> lan_peer \<Rightarrow> pairing_state \<Rightarrow> pairing_state" where
  "merge_peer now_ms peer s = s\<lparr>pg_peers := merge_peer_entry now_ms peer (pg_peers s)\<rparr>"

definition pairing_confirmation_matches_presented_certificate ::
  "(u8 list \<Rightarrow> discovery_packet option) \<Rightarrow> u8 list \<Rightarrow> string option \<Rightarrow> bool" where
  "pairing_confirmation_matches_presented_certificate unpack payload presented_certificate \<longleftrightarrow>
     (case (presented_certificate, decode_discovery_packet unpack payload) of
        (Some certificate, Some packet) \<Rightarrow>
          dk_kind packet = ''pair-confirm'' \<and> \<not> is_blank (lp_transport_public_key (dk_peer packet))
          \<and> lp_transport_public_key (dk_peer packet) = certificate
      | _ \<Rightarrow> False)"

definition handle_pairing_stream_packet ::
  "(u8 list \<Rightarrow> discovery_packet option) \<Rightarrow> nat \<Rightarrow> u64 \<Rightarrow> write_outcome \<Rightarrow> string \<Rightarrow> machine \<Rightarrow> u8 list \<Rightarrow> pairing_state
     \<Rightarrow> bool \<times> pairing_state" where
  "handle_pairing_stream_packet unpack now now_ms outcome source_ip machine payload s =
     (case decode_discovery_packet unpack payload of
        None \<Rightarrow> (False, s)
      | Some packet \<Rightarrow>
          if dk_kind packet \<noteq> ''pair-confirm'' then (False, s)
          else (case peer_from_discovery_packet now_ms source_ip
                (lp_id (local_peer_from_layout machine now_ms (pg_layout s))) packet of
              None \<Rightarrow> (False, s)
            | Some peer \<Rightarrow>
                (case complete_pairing_from_confirm now now_ms outcome peer (dk_pairing_code packet)
                       (dk_pair_cluster_id packet) (dk_pair_secret packet) s of
                   (Inr _, s1) \<Rightarrow> (True, sync_presence now_ms (merge_peer now_ms peer s1))
                 | (Inl _, s1) \<Rightarrow> (False, s1))))"

definition refresh_registry ::
  "(string \<Rightarrow> (string, u8 list) result) \<Rightarrow> pairing_state \<Rightarrow> (string, unit) result \<times> pairing_state" where
  "refresh_registry base64 s =
     (case registry_replace base64 (quic_trusted_peers (ly_trusted_peers (pg_layout s))) (pg_registry s) of
        (res, registry) \<Rightarrow> (res, s\<lparr>pg_registry := registry\<rparr>))"

text \<open>
  The pairing branch of the stream handler: \<open>None\<close> means that the payload was no completed pairing and
  the handler goes on to its other branches.
\<close>

definition pairing_stream ::
  "(string \<Rightarrow> (string, u8 list) result) \<Rightarrow> (u8 list \<Rightarrow> discovery_packet option) \<Rightarrow> nat \<Rightarrow> u64 \<Rightarrow> write_outcome \<Rightarrow> string
     \<Rightarrow> machine \<Rightarrow> connection_peer \<Rightarrow> u8 list \<Rightarrow> pairing_state \<Rightarrow> bool option \<times> pairing_state" where
  "pairing_stream base64 unpack now now_ms outcome source_ip machine connection payload s =
     (let presented = (case connection of PeerUnauthenticated _ _ certificate \<Rightarrow> certificate | _ \<Rightarrow> None) in
      if \<not> pairing_confirmation_matches_presented_certificate unpack payload presented then (None, s)
      else (case handle_pairing_stream_packet unpack now now_ms outcome source_ip machine payload s of
          (False, s1) \<Rightarrow> (None, s1)
        | (True, s1) \<Rightarrow> (case refresh_registry base64 s1 of (res, s2) \<Rightarrow> (Some (is_ok res), s2))))"

section \<open>Discovery\<close>

text \<open>
  One turn of the discovery loop: a datagram or a timeout, then the pruning of the table. The list holds
  the kinds of the packets sent back to the source.
\<close>

definition pairing_request ::
  "string \<Rightarrow> nat \<Rightarrow> u64 \<Rightarrow> lan_peer \<Rightarrow> string \<Rightarrow> pairing_state \<Rightarrow> bool \<times> pairing_state" where
  "pairing_request fresh_code now now_ms requester requester_ip s =
     (let (started, challenge) = begin_pairing_challenge fresh_code now now_ms (pg_layout s) requester
            requester_ip (pg_challenge s)
      in (started, s\<lparr>pg_challenge := challenge\<rparr>))"

definition discovery_datagram ::
  "(u8 list \<Rightarrow> discovery_packet option) \<Rightarrow> string \<Rightarrow> nat \<Rightarrow> u64 \<Rightarrow> machine \<Rightarrow> string \<Rightarrow> u8 list \<Rightarrow> pairing_state
     \<Rightarrow> string list \<times> pairing_state" where
  "discovery_datagram unpack fresh_code now now_ms machine source_ip payload s =
     (case Option.bind (decode_discovery_packet unpack payload) (\<lambda>packet.
          map_option (\<lambda>peer. (dk_kind packet, peer)) (peer_from_discovery_packet now_ms source_ip
            (lp_id (local_peer_from_layout machine now_ms (pg_layout s))) packet)) of
        None \<Rightarrow> ([], s)
      | Some (kind, peer) \<Rightarrow>
          if kind = ''pair-request'' then
            (case pairing_request fresh_code now now_ms peer source_ip s of
               (started, s1) \<Rightarrow> (if started then [''pair-challenge''] else [], s1))
          else if kind = ''pair-confirm'' then ([], s)
          else
            (let s1 = (if peer_visible_to_layout (pg_layout s) peer
                 then sync_presence now_ms (merge_peer now_ms peer s) else s)
             in (if kind \<in> {''announce'', ''probe''} \<and> should_reply_to_discovery (pg_layout s) peer
                 then [''reply''] else [], s1)))"

definition discovery_turn ::
  "(u8 list \<Rightarrow> discovery_packet option) \<Rightarrow> string \<Rightarrow> nat \<Rightarrow> u64 \<Rightarrow> machine \<Rightarrow> string \<Rightarrow> u8 list option \<Rightarrow> pairing_state
     \<Rightarrow> string list \<times> pairing_state" where
  "discovery_turn unpack fresh_code now now_ms machine source_ip received s =
     (let (sent, s1) = (case received of
            None \<Rightarrow> ([], s)
          | Some payload \<Rightarrow> discovery_datagram unpack fresh_code now now_ms machine source_ip payload s)
      in (sent, if (case received of None \<Rightarrow> False
            | Some payload \<Rightarrow> \<exists>packet\<in>set_option (decode_discovery_packet unpack payload).
                lp_id (dk_peer packet) \<noteq> lp_id (local_peer_from_layout machine now_ms (pg_layout s))
                \<and> dk_kind packet \<in> {''pair-request'', ''pair-confirm''})
          then s1 else sync_presence now_ms s1))"

section \<open>Commands\<close>

definition dismiss_pairing_request :: "pairing_state \<Rightarrow> pairing_state" where
  "dismiss_pairing_request s = s\<lparr>pg_challenge := None\<rparr>"

definition reset_pairing ::
  "(string \<Rightarrow> (string, u8 list) result) \<Rightarrow> write_outcome \<Rightarrow> bool \<Rightarrow> pairing_state \<Rightarrow> (pairing_error + string, unit) result \<times> pairing_state" where
  "reset_pairing base64 outcome transport_running s =
     (let s1 = s\<lparr>pg_layout := (pg_layout s)\<lparr>ly_paired_controllers := [],
            ly_trusted_peers := filter (\<lambda>peer. tpr_role peer \<noteq> ''controller'') (ly_trusted_peers (pg_layout s))\<rparr>\<rparr>
      in case write_layout_to_disk outcome (pg_layout s1) (pg_file s1) of
           (Inl _, file) \<Rightarrow> (Inl (Inl DiskFailed), s1\<lparr>pg_file := file\<rparr>)
         | (Inr _, file) \<Rightarrow>
             (let s2 = s1\<lparr>pg_file := file\<rparr> in
              if \<not> transport_running then (Inr (), s2\<lparr>pg_challenge := None\<rparr>)
              else (case refresh_registry base64 s2 of
                  (Inl e, s3) \<Rightarrow> (Inl (Inr e), s3)
                | (Inr _, s3) \<Rightarrow> (Inr (), s3\<lparr>pg_challenge := None\<rparr>))))"

text \<open>On the controller's side the machine that accepted the code is trusted as a receiver.\<close>

definition store_receiver ::
  "(string \<Rightarrow> (string, u8 list) result) \<Rightarrow> u64 \<Rightarrow> write_outcome \<Rightarrow> lan_peer \<Rightarrow> pairing_state
     \<Rightarrow> (pairing_error + string, unit) result \<times> pairing_state" where
  "store_receiver base64 now_ms outcome peer s =
     (let (res, peers) = upsert_trusted_peer (lp_id peer) (lp_transport_public_key peer) ''receiver'' now_ms
            (ly_trusted_peers (pg_layout s));
          s1 = s\<lparr>pg_layout := (pg_layout s)\<lparr>ly_trusted_peers := peers\<rparr>\<rparr>
      in case res of
           Inl e \<Rightarrow> (Inl (Inl e), s1)
         | Inr _ \<Rightarrow>
             (case write_layout_to_disk outcome (pg_layout s1) (pg_file s1) of
                (Inl _, file) \<Rightarrow> (Inl (Inl DiskFailed), s1\<lparr>pg_file := file\<rparr>)
              | (Inr _, file) \<Rightarrow>
                  (case refresh_registry base64 (s1\<lparr>pg_file := file\<rparr>) of
                     (Inl e, s2) \<Rightarrow> (Inl (Inr e), s2)
                   | (Inr _, s2) \<Rightarrow> (Inr (), sync_presence now_ms (merge_peer now_ms peer s2)))))"

text \<open>Settings saved from the user interface, and the file read again.\<close>

definition save_settings ::
  "(layout_state \<Rightarrow> (string, u8 list) result) \<Rightarrow> (string \<Rightarrow> 'k option) \<Rightarrow> write_outcome \<Rightarrow> bool \<Rightarrow> layout_state
     \<Rightarrow> game_cells \<Rightarrow> hotkeys \<Rightarrow> pairing_state \<Rightarrow> (settings_error, bool \<times> bool) result \<times> pairing_state" where
  "save_settings encode parse outcome lock_free layout cells keys s =
     (case save_layout encode parse outcome lock_free layout
         \<lparr>st_layout = pg_layout s, st_file = pg_file s, st_cells = cells, st_hotkeys = keys\<rparr> of
        (res, st) \<Rightarrow> (res, s\<lparr>pg_layout := st_layout st, pg_file := st_file st\<rparr>))"

definition refresh_settings ::
  "string \<Rightarrow> string \<Rightarrow> u64 \<Rightarrow> layout_state \<Rightarrow> pairing_state \<Rightarrow> pairing_state option" where
  "refresh_settings fresh_cluster fresh_secret now_ms native s =
     map_option (\<lambda>(peers, layout). s\<lparr>pg_peers := peers, pg_layout := layout\<rparr>)
       (refresh_layout_from_disk fresh_cluster fresh_secret now_ms native (pg_file s) (pg_peers s) (pg_layout s))"

end
