(* ===== verification/Pairing_Safety.thy ===== *)
theory Pairing_Safety
  imports Pairing
begin

text \<open>
  What pairing guarantees over any run of discovery packets, confirmations, commands of the user
  interface and reloads of the settings file: a machine is trusted as a controller only after somebody
  presented its certificate together with the code of the current challenge, and no code can be guessed
  at more than five times.
\<close>

section \<open>Guesses\<close>

text \<open>
  A confirmation that reaches the comparison of codes: the challenge and the packet. The code has
  been confirmed when the packet's code is the one of the challenge.
\<close>

definition machine_id :: "machine \<Rightarrow> string" where
  "machine_id machine = local_peer_id (mc_host machine) (mc_ip machine)"

lemma local_peer_id_fixed [simp]: "lp_id (local_peer_from_layout machine now_ms layout) = machine_id machine"
  by (simp add: local_peer_from_layout_def machine_id_def Let_def)

definition code_guess ::
  "(u8 list \<Rightarrow> discovery_packet option) \<Rightarrow> nat \<Rightarrow> machine \<Rightarrow> connection_peer \<Rightarrow> u8 list \<Rightarrow> pairing_state
     \<Rightarrow> (pairing_challenge \<times> discovery_packet) option" where
  "code_guess unpack now machine connection payload s =
     (case (connection, decode_discovery_packet unpack payload, pg_challenge s) of
        (PeerUnauthenticated _ _ (Some certificate), Some packet, Some c) \<Rightarrow>
          if dk_kind packet = ''pair-confirm'' \<and> lp_transport_public_key (dk_peer packet) = certificate
            \<and> \<not> is_blank certificate \<and> lp_id (dk_peer packet) \<noteq> machine_id machine
            \<and> \<not> is_blank (unwrap_text (dk_pairing_code packet)) \<and> \<not> is_blank (unwrap_text (dk_pair_cluster_id packet))
            \<and> \<not> is_blank (unwrap_text (dk_pair_secret packet))
            \<and> now < pch_expires_at c \<and> pch_requester_id c = lp_id (dk_peer packet)
            \<and> (is_blank (pch_requester_public_key c) \<or> pch_requester_public_key c = certificate)
          then Some (c, packet) else None
      | _ \<Rightarrow> None)"

definition guessed_code :: "discovery_packet \<Rightarrow> string" where
  "guessed_code packet = trim (case dk_pairing_code packet of None \<Rightarrow> [] | Some code \<Rightarrow> code)"

definition confirmed_peer :: "(pairing_challenge \<times> discovery_packet) option \<Rightarrow> (string \<times> string) option" where
  "confirmed_peer g =
     (case g of
        None \<Rightarrow> None
      | Some (c, packet) \<Rightarrow>
          if guessed_code packet = pch_code c
          then Some (trim (lp_id (dk_peer packet)), trim (lp_transport_public_key (dk_peer packet))) else None)"

text \<open>A new code is shown, unless the same requester asks again before any wrong guess.\<close>

definition issues_code :: "nat \<Rightarrow> pairing_state \<Rightarrow> bool" where
  "issues_code now s \<longleftrightarrow>
     (case pg_challenge s of None \<Rightarrow> True | Some c \<Rightarrow> pch_expires_at c \<le> now \<or> pch_attempts c > 0)"

fun count_guess :: "nat list \<Rightarrow> nat list" where
  "count_guess [] = [1]"
| "count_guess (n # ns) = Suc n # ns"

section \<open>Runs\<close>

text \<open>
  A run of a machine: its state, the identities and certificates somebody confirmed, and for every code
  shown, newest first, how often it was guessed at. A layout detected from the hardware trusts nobody.
\<close>

record pairing_run =
  pn_state :: pairing_state
  pn_confirmed :: "(string \<times> string) set"
  pn_guesses :: "nat list"

inductive pairing_step ::
  "(string \<Rightarrow> (string, u8 list) result) \<Rightarrow> (u8 list \<Rightarrow> discovery_packet option) \<Rightarrow> machine \<Rightarrow> pairing_run \<Rightarrow> pairing_run \<Rightarrow> bool"
  for base64 unpack machine where
  pair_discovery: "discovery_turn unpack fresh_code now now_ms machine ip received (pn_state r) = (sent, s) \<Longrightarrow>
    pairing_step base64 unpack machine r (r\<lparr>pn_state := s,
      pn_guesses := (if ''pair-challenge'' \<in> set sent \<and> issues_code now (pn_state r) then 0 # pn_guesses r else pn_guesses r)\<rparr>)"
| pair_stream: "\<lbrakk>pairing_stream base64 unpack now now_ms outcome ip machine connection payload (pn_state r) = (out, s);
      g = code_guess unpack now machine connection payload (pn_state r)\<rbrakk> \<Longrightarrow>
    pairing_step base64 unpack machine r (r\<lparr>pn_state := s,
      pn_confirmed := pn_confirmed r \<union> set_option (confirmed_peer g),
      pn_guesses := (if g = None then pn_guesses r else count_guess (pn_guesses r))\<rparr>)"
| pair_dismiss: "pairing_step base64 unpack machine r (r\<lparr>pn_state := dismiss_pairing_request (pn_state r)\<rparr>)"
| pair_reset: "reset_pairing base64 outcome running (pn_state r) = (res, s) \<Longrightarrow>
    pairing_step base64 unpack machine r (r\<lparr>pn_state := s\<rparr>)"
| pair_receiver: "store_receiver base64 now_ms outcome peer (pn_state r) = (stored, s) \<Longrightarrow>
    pairing_step base64 unpack machine r (r\<lparr>pn_state := s\<rparr>)"
| pair_save: "save_settings encode (parse :: string \<Rightarrow> string option) outcome lock_free layout cells keys (pn_state r) = (saved, s) \<Longrightarrow>
    pairing_step base64 unpack machine r (r\<lparr>pn_state := s\<rparr>)"
| pair_refresh: "\<lbrakk>refresh_settings fresh_cluster fresh_secret now_ms native (pn_state r) = Some s; ly_trusted_peers native = []\<rbrakk> \<Longrightarrow>
    pairing_step base64 unpack machine r (r\<lparr>pn_state := s\<rparr>)"

inductive pairing_reach ::
  "(string \<Rightarrow> (string, u8 list) result) \<Rightarrow> (u8 list \<Rightarrow> discovery_packet option) \<Rightarrow> machine \<Rightarrow> pairing_run \<Rightarrow> pairing_run \<Rightarrow> bool"
  for base64 unpack machine r0 where
  pair_start: "pairing_reach base64 unpack machine r0 r0"
| pair_next: "\<lbrakk>pairing_reach base64 unpack machine r0 r; pairing_step base64 unpack machine r r'\<rbrakk> \<Longrightarrow>
    pairing_reach base64 unpack machine r0 r'"

definition guesses_inv :: "pairing_run \<Rightarrow> bool" where
  "guesses_inv r \<longleftrightarrow> (\<forall>n\<in>set (pn_guesses r). n \<le> 5)
     \<and> (\<forall>c. pg_challenge (pn_state r) = Some c \<longrightarrow>
          pch_attempts c < PAIRING_MAX_ATTEMPTS \<and> (\<exists>ns. pn_guesses r = unat (pch_attempts c) # ns))"

text \<open>The controllers a layout trusts, and with the settings file and the registry the whole state.\<close>

definition controllers_in :: "layout_state \<Rightarrow> (string \<times> string) set \<Rightarrow> bool" where
  "controllers_in layout C \<longleftrightarrow>
     (\<forall>peer\<in>set (ly_trusted_peers layout). tpr_role peer = ''controller'' \<longrightarrow> (tpr_id peer, tpr_public_key peer) \<in> C)"

definition trust_inv ::
  "(string \<Rightarrow> (string, u8 list) result) \<Rightarrow> (string \<times> string) set \<Rightarrow> pairing_state \<Rightarrow> bool" where
  "trust_inv base64 C s \<longleftrightarrow> controllers_in (pg_layout s) C
     \<and> (\<forall>layout. pg_file s = Some layout \<longrightarrow> controllers_in layout C)
     \<and> (\<forall>dp\<in>set (pg_registry s). dp_role dp = PeerController \<longrightarrow>
          (\<exists>key. (dp_peer_id dp, key) \<in> C \<and> base64 key = Inr (dp_certificate dp)))"

section \<open>What each part of an operation keeps\<close>

lemma presence_frame [simp]:
  "ly_trusted_peers (apply_peer_presence now_ms peers layout) = ly_trusted_peers layout"
  by (simp add: apply_peer_presence_def refresh_paired_controller_keys_def)

lemma sync_presence_frame [simp]:
  "pg_file (sync_presence now_ms s) = pg_file s"
  "pg_challenge (sync_presence now_ms s) = pg_challenge s"
  "pg_registry (sync_presence now_ms s) = pg_registry s"
  "ly_trusted_peers (pg_layout (sync_presence now_ms s)) = ly_trusted_peers (pg_layout s)"
  by (simp_all add: sync_presence_def sync_layout_peer_presence_def Let_def)

lemma merge_peer_frame [simp]:
  "pg_file (merge_peer now_ms peer s) = pg_file s"
  "pg_challenge (merge_peer now_ms peer s) = pg_challenge s"
  "pg_registry (merge_peer now_ms peer s) = pg_registry s"
  "pg_layout (merge_peer now_ms peer s) = pg_layout s"
  by (simp_all add: merge_peer_def)

lemma refresh_registry_frame:
  assumes "refresh_registry base64 s = (res, s')"
  shows "pg_layout s' = pg_layout s" and "pg_file s' = pg_file s" and "pg_challenge s' = pg_challenge s"
  using assms by (auto simp: refresh_registry_def split: prod.splits)

lemma controllers_in_trusted:
  "ly_trusted_peers layout = ly_trusted_peers layout' \<Longrightarrow> controllers_in layout C = controllers_in layout' C"
  by (simp add: controllers_in_def)

lemma trust_inv_mono: "\<lbrakk>trust_inv base64 C s; C \<subseteq> C'\<rbrakk> \<Longrightarrow> trust_inv base64 C' s"
  unfolding trust_inv_def controllers_in_def by blast

lemma trust_inv_same:
  assumes "trust_inv base64 C s" and "ly_trusted_peers (pg_layout s') = ly_trusted_peers (pg_layout s)"
    and "pg_file s' = pg_file s" and "pg_registry s' = pg_registry s"
  shows "trust_inv base64 C s'"
  using assms by (simp add: trust_inv_def controllers_in_def)

lemma trust_inv_sync [simp]: "trust_inv base64 C (sync_presence now_ms s) = trust_inv base64 C s"
  using controllers_in_trusted [of "pg_layout (sync_presence now_ms s)" "pg_layout s" C] by (simp add: trust_inv_def)

lemma trust_inv_merge [simp]: "trust_inv base64 C (merge_peer now_ms peer s) = trust_inv base64 C s"
  by (simp add: trust_inv_def)

lemma trust_inv_write:
  assumes "trust_inv base64 C s" and "write_layout_to_disk outcome (pg_layout s) (pg_file s) = (res, file)"
  shows "trust_inv base64 C (s\<lparr>pg_file := file\<rparr>)"
  using assms by (cases outcome) (auto simp: trust_inv_def write_layout_to_disk_def)

lemma replace_result:
  "registry_replace base64 peers registry = (Inl e, registry') \<Longrightarrow> registry' = registry"
  by (auto simp: registry_replace_def split: sum.splits)

lemma quic_peer_controller:
  assumes "peer \<in> set (quic_trusted_peers peers)" and "tp_role peer = PeerController"
  shows "\<exists>p\<in>set peers. tpr_role p = ''controller'' \<and> tp_peer_id peer = tpr_id p \<and> tp_certificate peer = tpr_public_key p"
  using assms by (auto simp: quic_trusted_peers_def map_filter_def split: if_splits)

lemma trust_inv_registry:
  assumes "trust_inv base64 C s" and "refresh_registry base64 s = (res, s')"
  shows "trust_inv base64 C s'"
proof -
  note frame = refresh_registry_frame [OF assms(2)]
  obtain registry where rep: "registry_replace base64 (quic_trusted_peers (ly_trusted_peers (pg_layout s))) (pg_registry s) = (res, registry)"
    and s': "pg_registry s' = registry"
    using assms(2) by (auto simp: refresh_registry_def split: prod.splits)
  show ?thesis
  proof (cases res)
    case (Inl e)
    with rep s' replace_result have "pg_registry s' = pg_registry s" by blast
    with frame assms(1) show ?thesis by (simp add: trust_inv_def)
  next
    case (Inr u)
    have "\<exists>key. (dp_peer_id dp, key) \<in> C \<and> base64 key = Inr (dp_certificate dp)"
      if dp: "dp \<in> set registry" "dp_role dp = PeerController" for dp
    proof -
      from Inr rep have "registry_replace base64 (quic_trusted_peers (ly_trusted_peers (pg_layout s)))
          (pg_registry s) = (Inr (), registry)" by simp
      from registry_replace_members(1) [OF this, of dp] dp obtain peer where
        member: "peer \<in> set (quic_trusted_peers (ly_trusted_peers (pg_layout s)))" "tp_role peer = PeerController" and
        cert: "base64 (tp_certificate peer) = Inr (dp_certificate dp)" "dp_peer_id dp = tp_peer_id peer"
        by (metis decoded_peer.select_convs(1,3))
      from quic_peer_controller [OF member] obtain p where
        "p \<in> set (ly_trusted_peers (pg_layout s))" "tpr_role p = ''controller''"
        "tp_peer_id peer = tpr_id p" "tp_certificate peer = tpr_public_key p" by blast
      with assms(1) cert show ?thesis by (auto simp: trust_inv_def controllers_in_def)
    qed
    with frame assms(1) s' show ?thesis by (simp add: trust_inv_def)
  qed
qed

text \<open>Storing a peer adds at most that peer, with its identity trimmed.\<close>

lemma upsert_members:
  assumes "upsert_trusted_peer ident certificate role paired peers = (res, peers')" and "p \<in> set peers'"
  shows "p \<in> set peers \<or> (tpr_role p = role \<and> (tpr_id p, tpr_public_key p) = (trim ident, trim certificate))"
  using assms by (auto simp: upsert_trusted_peer_def split: if_splits)

lemma upsert_controllers:
  assumes "upsert_trusted_peer ident certificate role paired (ly_trusted_peers layout) = (res, peers')" and "controllers_in layout C"
    and "role = ''controller'' \<longrightarrow> (trim ident, trim certificate) \<in> C"
  shows "controllers_in (layout'\<lparr>ly_trusted_peers := peers'\<rparr>) C"
  unfolding controllers_in_def
proof (intro ballI impI)
  fix p
  assume p: "p \<in> set (ly_trusted_peers (layout'\<lparr>ly_trusted_peers := peers'\<rparr>))" and role: "tpr_role p = ''controller''"
  from upsert_members [OF assms(1), of p] p consider "p \<in> set (ly_trusted_peers layout)"
    | "tpr_role p = role" "(tpr_id p, tpr_public_key p) = (trim ident, trim certificate)" by auto
  then show "(tpr_id p, tpr_public_key p) \<in> C"
    by cases (use assms(2,3) role in \<open>auto simp: controllers_in_def\<close>)
qed

section \<open>One confirmation\<close>

lemma check_challenge_cases:
  obtains (none) "challenge = None" and "check_challenge now requester code challenge = (Inl ChallengeExpired, None)"
  | (expired) c where "challenge = Some c" and "pch_expires_at c \<le> now"
      and "check_challenge now requester code challenge = (Inl ChallengeExpired, None)"
  | (stranger) c where "challenge = Some c" and "now < pch_expires_at c"
      and "\<not> (pch_requester_id c = lp_id requester \<and> (is_blank (pch_requester_public_key c)
        \<or> pch_requester_public_key c = lp_transport_public_key requester))"
      and "check_challenge now requester code challenge = (Inl WrongRequester, challenge)"
  | (compared) c where "challenge = Some c" and "now < pch_expires_at c"
      and "pch_requester_id c = lp_id requester"
      and "is_blank (pch_requester_public_key c) \<or> pch_requester_public_key c = lp_transport_public_key requester"
      and "check_challenge now requester code challenge =
        (if pch_code c = trim code then (Inr (), None)
         else (Inl WrongCode, if PAIRING_MAX_ATTEMPTS \<le> saturating_add (pch_attempts c) 1 then None
           else Some (c\<lparr>pch_attempts := saturating_add (pch_attempts c) 1\<rparr>)))"
proof (cases challenge)
  case None
  then show ?thesis using none by (simp add: check_challenge_def)
next
  case (Some c)
  show ?thesis
  proof (cases "pch_expires_at c \<le> now")
    case True
    with Some expired show ?thesis by (simp add: check_challenge_def)
  next
    case live: False
    show ?thesis
    proof (cases "pch_requester_id c = lp_id requester \<and> (is_blank (pch_requester_public_key c)
        \<or> pch_requester_public_key c = lp_transport_public_key requester)")
      case True
      with Some live compared show ?thesis by (auto simp: check_challenge_def Let_def)
    next
      case False
      with Some live stranger show ?thesis by (auto simp: check_challenge_def)
    qed
  qed
qed

definition comparable :: "nat \<Rightarrow> lan_peer \<Rightarrow> string option \<Rightarrow> string option \<Rightarrow> string option \<Rightarrow> pairing_challenge \<Rightarrow> bool" where
  "comparable now requester code cluster secret c \<longleftrightarrow>
     \<not> is_blank (unwrap_text code) \<and> \<not> is_blank (unwrap_text cluster) \<and> \<not> is_blank (unwrap_text secret)
     \<and> now < pch_expires_at c \<and> pch_requester_id c = lp_id requester
     \<and> (is_blank (pch_requester_public_key c) \<or> pch_requester_public_key c = lp_transport_public_key requester)"

lemma complete_cases:
  assumes "complete_pairing_from_confirm now now_ms outcome requester code cluster secret s = (res, s')"
  obtains (untouched) challenge where "s' = s\<lparr>pg_challenge := challenge\<rparr>" and "challenge = pg_challenge s \<or> challenge = None"
      and "\<not> is_ok res" and "\<forall>c. pg_challenge s = Some c \<longrightarrow> \<not> comparable now requester code cluster secret c"
  | (wrong) c where "pg_challenge s = Some c" and "comparable now requester code cluster secret c" and "\<not> is_ok res"
      and "pch_code c \<noteq> trim (unwrap_text code)"
      and "s' = s\<lparr>pg_challenge := (if PAIRING_MAX_ATTEMPTS \<le> saturating_add (pch_attempts c) 1 then None
           else Some (c\<lparr>pch_attempts := saturating_add (pch_attempts c) 1\<rparr>))\<rparr>"
  | (right) c where "pg_challenge s = Some c" and "comparable now requester code cluster secret c"
      and "pch_code c = trim (unwrap_text code)" and "pg_challenge s' = None"
      and "\<And>base64 C. \<lbrakk>trust_inv base64 C s; (trim (lp_id requester), trim (lp_transport_public_key requester)) \<in> C\<rbrakk>
        \<Longrightarrow> trust_inv base64 C s'"
proof (cases "is_blank (unwrap_text code) \<or> is_blank (unwrap_text cluster) \<or> is_blank (unwrap_text secret)")
  case True
  with assms have "s' = s\<lparr>pg_challenge := pg_challenge s\<rparr>" and "\<not> is_ok res"
    by (auto simp: complete_pairing_from_confirm_def unwrap_text_def Let_def)
  with True show ?thesis by (intro untouched [of "pg_challenge s"]) (auto simp: comparable_def)
next
  case False
  let ?C = "check_challenge now requester (unwrap_text code) (pg_challenge s)"
  have refused: "s' = s\<lparr>pg_challenge := x\<rparr> \<and> \<not> is_ok res" if "?C = (Inl e, x)" for e x
    using assms False that by (auto simp: complete_pairing_from_confirm_def Let_def)
  show ?thesis
  proof (cases rule: check_challenge_cases [where challenge = "pg_challenge s" and now = now and requester = requester and code = "unwrap_text code"])
    case none
    with refused [OF none(2)] show ?thesis by (intro untouched [of None]) auto
  next
    case (expired c)
    with refused [OF expired(3)] show ?thesis by (intro untouched [of None]) (auto simp: comparable_def)
  next
    case (stranger c)
    with refused [OF stranger(4)] show ?thesis by (intro untouched [of "pg_challenge s"]) (auto simp: comparable_def)
  next
    case (compared c)
    then have ready: "comparable now requester code cluster secret c" using False by (simp add: comparable_def)
    show ?thesis
    proof (cases "pch_code c = trim (unwrap_text code)")
      case bad: False
      with compared(5) have "?C = (Inl WrongCode, if PAIRING_MAX_ATTEMPTS \<le> saturating_add (pch_attempts c) 1 then None
          else Some (c\<lparr>pch_attempts := saturating_add (pch_attempts c) 1\<rparr>))" by simp
      from refused [OF this] compared(1) bad ready show ?thesis by (intro wrong [of c]) auto
    next
      case True
      with compared(5) have ok: "?C = (Inr (), None)" by simp
      let ?s1 = "s\<lparr>pg_challenge := None\<rparr>"
      let ?L = "(pg_layout s)\<lparr>ly_cluster_id := trim (unwrap_text cluster), ly_pair_secret := trim (unwrap_text secret),
        ly_input_mode := ''receive'', ly_paired_controllers := [controller_of requester (trim (unwrap_text cluster)) now_ms]\<rparr>"
      have "pg_challenge s' = None \<and> (\<forall>base64 C. trust_inv base64 C s
          \<and> (trim (lp_id requester), trim (lp_transport_public_key requester)) \<in> C \<longrightarrow> trust_inv base64 C s')"
      proof (cases "ly_machine_role (pg_layout s) = ''client''")
        case False
        with assms ok \<open>\<not> (is_blank (unwrap_text code) \<or> _)\<close> have "s' = ?s1"
          by (simp add: complete_pairing_from_confirm_def Let_def)
        then show ?thesis using trust_inv_same [of _ _ s s'] by auto
      next
        case client: True
        obtain up peers where upsert: "upsert_trusted_peer (lp_id requester) (lp_transport_public_key requester)
            ''controller'' now_ms (ly_trusted_peers (pg_layout s)) = (up, peers)" by fastforce
        let ?s2 = "?s1\<lparr>pg_layout := ?L\<lparr>ly_trusted_peers := peers\<rparr>\<rparr>"
        obtain written stored where w: "write_layout_to_disk outcome (pg_layout ?s2) (pg_file ?s2) = (written, stored)" by fastforce
        have "s' = ?s2 \<or> s' = ?s2\<lparr>pg_file := stored\<rparr>"
          using assms ok False client upsert w
          by (auto simp: complete_pairing_from_confirm_def Let_def split: sum.splits)
        moreover have "trust_inv base64 C ?s2" if "trust_inv base64 C s"
          "(trim (lp_id requester), trim (lp_transport_public_key requester)) \<in> C" for base64 C
          using upsert_controllers [OF upsert, of C ?L] that by (simp add: trust_inv_def)
        ultimately show ?thesis using trust_inv_write [OF _ w] by auto
      qed
      with compared(1) True ready show ?thesis by (intro right [of c]) blast+
    qed
  qed
qed

text \<open>The pairing branch of the stream handler, by whether the codes were compared.\<close>

lemma stream_unmatched:
  assumes "\<not> pairing_confirmation_matches_presented_certificate unpack payload
    (case connection of PeerUnauthenticated _ _ certificate \<Rightarrow> certificate | _ \<Rightarrow> None)"
  shows "pairing_stream base64 unpack now now_ms outcome ip machine connection payload s = (None, s)"
    and "code_guess unpack now machine connection payload s = None"
  using assms
  by (auto simp: pairing_stream_def code_guess_def pairing_confirmation_matches_presented_certificate_def
      split: connection_peer.splits option.splits if_splits)

lemma stream_matched:
  assumes "connection = PeerUnauthenticated addr generation (Some certificate)"
    and "decode_discovery_packet unpack payload = Some packet" and "dk_kind packet = ''pair-confirm''"
    and "lp_transport_public_key (dk_peer packet) = certificate" and "\<not> is_blank certificate"
    and "peer_from_discovery_packet now_ms ip (machine_id machine) packet = Some peer"
    and "complete_pairing_from_confirm now now_ms outcome peer (dk_pairing_code packet) (dk_pair_cluster_id packet)
      (dk_pair_secret packet) s = (res, s1)"
    and "pairing_stream base64 unpack now now_ms outcome ip machine connection payload s = (out, s')"
  shows "if is_ok res then (\<exists>r. refresh_registry base64 (sync_presence now_ms (merge_peer now_ms peer s1)) = (r, s')) else s' = s1"
proof (cases res)
  case (Inl e)
  with assms show ?thesis
    by (simp add: pairing_stream_def pairing_confirmation_matches_presented_certificate_def handle_pairing_stream_packet_def)
next
  case (Inr u)
  with assms show ?thesis
    by (auto simp: pairing_stream_def pairing_confirmation_matches_presented_certificate_def handle_pairing_stream_packet_def
        split: prod.splits)
qed

definition same_trust :: "pairing_state \<Rightarrow> pairing_state \<Rightarrow> bool" where
  "same_trust s s' \<longleftrightarrow> pg_layout s' = pg_layout s \<and> pg_file s' = pg_file s \<and> pg_registry s' = pg_registry s"

lemma stream_result:
  assumes "pairing_stream base64 unpack now now_ms outcome ip machine connection payload s = (out, s')"
    and "g = code_guess unpack now machine connection payload s"
  shows "case g of
      None \<Rightarrow> same_trust s s' \<and> (pg_challenge s' = pg_challenge s \<or> pg_challenge s' = None)
    | Some (c, packet) \<Rightarrow> pg_challenge s = Some c \<and>
        (if guessed_code packet = pch_code c
         then pg_challenge s' = None \<and> (\<forall>C. trust_inv base64 C s
           \<and> (trim (lp_id (dk_peer packet)), trim (lp_transport_public_key (dk_peer packet))) \<in> C \<longrightarrow> trust_inv base64 C s')
         else same_trust s s' \<and> pg_challenge s' = (if PAIRING_MAX_ATTEMPTS \<le> saturating_add (pch_attempts c) 1 then None
               else Some (c\<lparr>pch_attempts := saturating_add (pch_attempts c) 1\<rparr>)))"
proof (cases "pairing_confirmation_matches_presented_certificate unpack payload
    (case connection of PeerUnauthenticated _ _ certificate \<Rightarrow> certificate | _ \<Rightarrow> None)")
  case False
  with stream_unmatched [OF False] assms show ?thesis by (simp add: same_trust_def)
next
  case True
  then obtain addr generation certificate packet where con: "connection = PeerUnauthenticated addr generation (Some certificate)"
    and dec: "decode_discovery_packet unpack payload = Some packet" and kind: "dk_kind packet = ''pair-confirm''"
    and key: "lp_transport_public_key (dk_peer packet) = certificate" and nb: "\<not> is_blank certificate"
    by (auto simp: pairing_confirmation_matches_presented_certificate_def split: connection_peer.splits option.splits)
  show ?thesis
  proof (cases "lp_id (dk_peer packet) = machine_id machine")
    case own: True
    with con dec kind key have "handle_pairing_stream_packet unpack now now_ms outcome ip machine payload s = (False, s)"
      by (simp add: handle_pairing_stream_packet_def peer_from_discovery_packet_def Let_def)
    with True assms(1) have "s' = s" by (auto simp: pairing_stream_def Let_def split: if_splits)
    moreover have "g = None" using own con dec assms(2) by (auto simp: code_guess_def split: option.splits)
    ultimately show ?thesis by (simp add: same_trust_def)
  next
    case False
    obtain peer where peer: "peer_from_discovery_packet now_ms ip (machine_id machine) packet = Some peer"
      and same: "lp_id peer = lp_id (dk_peer packet)" "lp_transport_public_key peer = certificate"
      using False key by (simp add: peer_from_discovery_packet_def Let_def)
    obtain res s1 where comp: "complete_pairing_from_confirm now now_ms outcome peer (dk_pairing_code packet)
        (dk_pair_cluster_id packet) (dk_pair_secret packet) s = (res, s1)" by fastforce
    note S = stream_matched [OF con dec kind key nb peer comp assms(1)]
    have code: "guessed_code packet = trim (unwrap_text (dk_pairing_code packet))"
      by (simp add: guessed_code_def unwrap_text_def)
    have guess: "g = (case pg_challenge s of None \<Rightarrow> None | Some c \<Rightarrow>
        if comparable now peer (dk_pairing_code packet) (dk_pair_cluster_id packet) (dk_pair_secret packet) c
        then Some (c, packet) else None)"
      using assms(2) con dec kind key nb False same
      by (auto simp: code_guess_def comparable_def split: option.splits)
    from comp show ?thesis
    proof (cases rule: complete_cases)
      case (untouched challenge)
      with guess have "g = None" by (auto split: option.splits)
      with untouched S show ?thesis by (auto simp: same_trust_def)
    next
      case (wrong c)
      with guess have "g = Some (c, packet)" by simp
      with wrong S code show ?thesis by (auto simp: same_trust_def)
    next
      case (right c)
      with guess have g: "g = Some (c, packet)" by simp
      have "pg_challenge s' = None"
        using S right(4) refresh_registry_frame(3) by (cases "is_ok res") (auto simp: refresh_registry_frame(3))
      moreover have "trust_inv base64 C s'" if "trust_inv base64 C s"
        "(trim (lp_id (dk_peer packet)), trim (lp_transport_public_key (dk_peer packet))) \<in> C" for C
      proof -
        from right(5) [OF that(1)] that(2) same key have "trust_inv base64 C s1" by simp
        with S trust_inv_registry [of base64 C "sync_presence now_ms (merge_peer now_ms peer s1)"] show ?thesis
          by (cases "is_ok res") auto
      qed
      ultimately show ?thesis using g right code by auto
    qed
  qed
qed

section \<open>The number of guesses\<close>

lemma attempts_below:
  assumes "pch_attempts c < PAIRING_MAX_ATTEMPTS"
  shows "unat (pch_attempts c) < 5" and "unat (saturating_add (pch_attempts c) 1) = Suc (unat (pch_attempts c))"
proof -
  show "unat (pch_attempts c) < 5" using assms by (simp add: word_less_nat_alt PAIRING_MAX_ATTEMPTS_def)
  then show "unat (saturating_add (pch_attempts c) 1) = Suc (unat (pch_attempts c))"
    by (simp add: saturating_add_unat)
qed

text \<open>A turn of the discovery loop either handles a pairing request or leaves the challenge alone.\<close>

lemma discovery_cases:
  assumes "discovery_turn unpack fresh_code now now_ms machine ip received s = (sent, s')"
  obtains (idle) "''pair-challenge'' \<notin> set sent" and "pg_challenge s' = pg_challenge s"
      and "ly_trusted_peers (pg_layout s') = ly_trusted_peers (pg_layout s)" and "pg_file s' = pg_file s" and "pg_registry s' = pg_registry s"
  | (asked) peer started where "pairing_request fresh_code now now_ms peer ip s = (started, s')"
      and "''pair-challenge'' \<in> set sent \<longleftrightarrow> started"
proof -
  have idle': thesis if "''pair-challenge'' \<notin> set sent1" and "discovery_turn unpack fresh_code now now_ms machine ip received s = (sent1, s1)"
    and "s1 = s \<or> s1 = sync_presence now_ms s \<or> (\<exists>peer. s1 = sync_presence now_ms (sync_presence now_ms (merge_peer now_ms peer s)))" for sent1 s1
    using idle that assms by auto
  show ?thesis
  proof (cases received)
    case None
    then show ?thesis by (intro idle' [of "[]" "sync_presence now_ms s"]) (simp_all add: discovery_turn_def)
  next
    case (Some payload)
    show ?thesis
    proof (cases "decode_discovery_packet unpack payload")
      case None
      with Some show ?thesis
        by (intro idle' [of "[]" "sync_presence now_ms s"]) (simp_all add: discovery_turn_def discovery_datagram_def)
    next
      case dec: (Some packet)
      show ?thesis
      proof (cases "peer_from_discovery_packet now_ms ip (machine_id machine) packet")
        case None
        then have "lp_id (dk_peer packet) = machine_id machine"
          by (auto simp: peer_from_discovery_packet_def Let_def split: if_splits)
        with Some dec None show ?thesis
          by (intro idle' [of "[]" "sync_presence now_ms s"]) (simp_all add: discovery_turn_def discovery_datagram_def)
      next
        case peer: (Some peer)
        then have other: "lp_id (dk_peer packet) \<noteq> machine_id machine"
          by (auto simp: peer_from_discovery_packet_def Let_def)
        show ?thesis
        proof (cases "dk_kind packet = ''pair-request''")
          case True
          obtain started s1 where req: "pairing_request fresh_code now now_ms peer ip s = (started, s1)" by fastforce
          with assms Some dec peer True other have "s' = s1" "sent = (if started then [''pair-challenge''] else [])"
            by (simp_all add: discovery_turn_def discovery_datagram_def)
          with req show ?thesis by (intro asked [of peer started]) auto
        next
          case False
          with assms Some dec peer other show ?thesis
            by (intro idle' [of sent s'])
              (auto simp: discovery_turn_def discovery_datagram_def Let_def split: if_splits)
        qed
      qed
    qed
  qed
qed

lemma request_guesses:
  assumes "guesses_inv r" and "pairing_request fresh_code now now_ms requester ip (pn_state r) = (started, s)"
  shows "guesses_inv (r\<lparr>pn_state := s,
      pn_guesses := (if started \<and> issues_code now (pn_state r) then 0 # pn_guesses r else pn_guesses r)\<rparr>)"
proof -
  obtain challenge where b: "begin_pairing_challenge fresh_code now now_ms (pg_layout (pn_state r)) requester ip
      (pg_challenge (pn_state r)) = (started, challenge)" and s: "s = (pn_state r)\<lparr>pg_challenge := challenge\<rparr>"
    using assms(2) by (auto simp: pairing_request_def split: prod.splits)
  show ?thesis
  proof (cases started)
    case False
    with b have "challenge = pg_challenge (pn_state r)"
      by (auto simp: begin_pairing_challenge_def split: if_splits option.splits)
    with assms(1) False s show ?thesis by (simp add: guesses_inv_def)
  next
    case True
    have zero: "\<not> 0 < n \<Longrightarrow> n = 0" for n :: u8 by (simp add: word_gt_0)
    from True b obtain c where c: "challenge = Some c" and new: "pch_attempts c = 0"
      by (auto simp: begin_pairing_challenge_def new_challenge_def refresh_challenge_def zero
          split: if_splits option.splits)
    have kept: "\<exists>c0. pg_challenge (pn_state r) = Some c0 \<and> pch_attempts c0 = 0" if "\<not> issues_code now (pn_state r)"
      using that by (auto simp: issues_code_def zero split: option.splits)
    have five: "(0 :: u8) < PAIRING_MAX_ATTEMPTS" by (simp add: PAIRING_MAX_ATTEMPTS_def)
    show ?thesis
    proof (cases "issues_code now (pn_state r)")
      case issued: True
      with c new s True assms(1) five show ?thesis by (simp add: guesses_inv_def)
    next
      case False
      with kept assms(1) obtain ns where "pn_guesses r = 0 # ns" by (auto simp: guesses_inv_def)
      with new c s True False assms(1) five show ?thesis by (simp add: guesses_inv_def)
    qed
  qed
qed

lemma guesses_inv_challenge:
  assumes "guesses_inv r" and "pg_challenge s = pg_challenge (pn_state r) \<or> pg_challenge s = None"
  shows "guesses_inv (r\<lparr>pn_state := s\<rparr>)"
  using assms by (auto simp: guesses_inv_def)

lemma stream_guesses:
  assumes "guesses_inv r"
    and "pairing_stream base64 unpack now now_ms outcome ip machine connection payload (pn_state r) = (out, s)"
    and g: "g = code_guess unpack now machine connection payload (pn_state r)"
  shows "guesses_inv (r\<lparr>pn_state := s, pn_confirmed := confirmed,
      pn_guesses := (if g = None then pn_guesses r else count_guess (pn_guesses r))\<rparr>)"
proof (cases g)
  case None
  with stream_result [OF assms(2) g] have "pg_challenge s = pg_challenge (pn_state r) \<or> pg_challenge s = None" by simp
  with assms(1) None show ?thesis by (auto simp: guesses_inv_def)
next
  case (Some cp)
  obtain c packet where cp: "cp = (c, packet)" by fastforce
  note R = stream_result [OF assms(2) g, unfolded Some cp, simplified]
  from R assms(1) obtain ns where head: "pn_guesses r = unat (pch_attempts c) # ns"
    and below: "pch_attempts c < PAIRING_MAX_ATTEMPTS" and five: "\<forall>n\<in>set (pn_guesses r). n \<le> 5"
    by (auto simp: guesses_inv_def)
  note A = attempts_below [OF below]
  show ?thesis
  proof (cases "pg_challenge s")
    case None
    with head five A(1) Some show ?thesis by (auto simp: guesses_inv_def)
  next
    case (Some c')
    with R have "c' = c\<lparr>pch_attempts := saturating_add (pch_attempts c) 1\<rparr>"
      "saturating_add (pch_attempts c) 1 < PAIRING_MAX_ATTEMPTS"
      by (auto simp: not_le split: if_splits)
    with Some head five A \<open>g = Some cp\<close> show ?thesis by (auto simp: guesses_inv_def)
  qed
qed

section \<open>The commands\<close>

lemma trust_inv_layout:
  assumes "trust_inv base64 C s" and "controllers_in layout C"
  shows "trust_inv base64 C (s\<lparr>pg_layout := layout\<rparr>)"
  using assms by (simp add: trust_inv_def)

lemma trust_inv_challenge [simp]: "trust_inv base64 C (s\<lparr>pg_challenge := challenge\<rparr>) = trust_inv base64 C s"
  by (simp add: trust_inv_def)

lemma reset_frame:
  assumes "reset_pairing base64 outcome running s = (res, s')"
  shows "pg_challenge s' = pg_challenge s \<or> pg_challenge s' = None" and "trust_inv base64 C s \<Longrightarrow> trust_inv base64 C s'"
proof -
  let ?s1 = "s\<lparr>pg_layout := (pg_layout s)\<lparr>ly_paired_controllers := [],
    ly_trusted_peers := filter (\<lambda>peer. tpr_role peer \<noteq> ''controller'') (ly_trusted_peers (pg_layout s))\<rparr>\<rparr>"
  obtain written stored where w: "write_layout_to_disk outcome (pg_layout ?s1) (pg_file ?s1) = (written, stored)" by fastforce
  let ?s2 = "?s1\<lparr>pg_file := stored\<rparr>"
  obtain r s3 where reg: "refresh_registry base64 ?s2 = (r, s3)" by fastforce
  have s': "s' \<in> {?s2, ?s2\<lparr>pg_challenge := None\<rparr>, s3, s3\<lparr>pg_challenge := None\<rparr>}"
    using assms w reg by (auto simp: reset_pairing_def Let_def split: sum.splits if_splits)
  then show "pg_challenge s' = pg_challenge s \<or> pg_challenge s' = None"
    using refresh_registry_frame(3) [OF reg] by auto
  assume "trust_inv base64 C s"
  then have "trust_inv base64 C ?s1" by (auto simp: trust_inv_def controllers_in_def)
  from trust_inv_write [OF this w] have "trust_inv base64 C ?s2" by simp
  with trust_inv_registry [OF _ reg] s' show "trust_inv base64 C s'" by auto
qed

lemma receiver_frame:
  assumes "store_receiver base64 now_ms outcome peer s = (res, s')"
  shows "pg_challenge s' = pg_challenge s" and "trust_inv base64 C s \<Longrightarrow> trust_inv base64 C s'"
proof -
  obtain up peers where upsert: "upsert_trusted_peer (lp_id peer) (lp_transport_public_key peer) ''receiver'' now_ms
      (ly_trusted_peers (pg_layout s)) = (up, peers)" by fastforce
  let ?s1 = "s\<lparr>pg_layout := (pg_layout s)\<lparr>ly_trusted_peers := peers\<rparr>\<rparr>"
  obtain written stored where w: "write_layout_to_disk outcome (pg_layout ?s1) (pg_file ?s1) = (written, stored)" by fastforce
  let ?s2 = "?s1\<lparr>pg_file := stored\<rparr>"
  obtain r s3 where reg: "refresh_registry base64 ?s2 = (r, s3)" by fastforce
  have s': "s' \<in> {?s1, ?s2, s3, sync_presence now_ms (merge_peer now_ms peer s3)}"
    using assms upsert w reg by (auto simp: store_receiver_def Let_def split: sum.splits)
  then show "pg_challenge s' = pg_challenge s"
    using refresh_registry_frame(3) [OF reg] by auto
  assume inv: "trust_inv base64 C s"
  then have 1: "trust_inv base64 C ?s1"
    using upsert_controllers [OF upsert, of C "pg_layout s"] by (simp add: trust_inv_def)
  from trust_inv_write [OF this w] have 2: "trust_inv base64 C ?s2" by simp
  with 1 trust_inv_registry [OF _ reg] s' show "trust_inv base64 C s'" by auto
qed

lemma save_layout_trust:
  assumes "save_layout encode parse outcome lock_free layout st = (res, st')"
  shows "ly_trusted_peers (st_layout st') = ly_trusted_peers (st_layout st)"
    and "st_file st' = st_file st \<or> st_file st' = None \<or> (\<exists>saved. st_file st' = Some saved
      \<and> ly_trusted_peers saved = ly_trusted_peers (st_layout st))"
  using assms
  by (cases outcome; auto simp: save_layout_def Let_def write_layout_to_disk_def runtime_owned_frame
      split: sum.splits if_splits)+

lemma save_frame:
  assumes "save_settings encode parse outcome lock_free layout cells keys s = (res, s')"
  shows "pg_challenge s' = pg_challenge s" and "trust_inv base64 C s \<Longrightarrow> trust_inv base64 C s'"
proof -
  obtain st' where st: "save_layout encode parse outcome lock_free layout
        \<lparr>st_layout = pg_layout s, st_file = pg_file s, st_cells = cells, st_hotkeys = keys\<rparr> = (res, st')"
    and s': "s' = s\<lparr>pg_layout := st_layout st', pg_file := st_file st'\<rparr>"
    using assms by (auto simp: save_settings_def split: prod.splits)
  show "pg_challenge s' = pg_challenge s" by (simp add: s')
  assume "trust_inv base64 C s"
  with save_layout_trust [OF st] show "trust_inv base64 C s'"
    by (auto simp: s' trust_inv_def controllers_in_def)
qed

lemma normalize_trusted_peers_from_subset:
  "set (normalize_trusted_peers_from normalized peers) \<subseteq> set normalized \<union> set peers"
proof (induction normalized peers rule: normalize_trusted_peers_from.induct)
  case (2 normalized peer peers)
  then show ?case unfolding normalize_trusted_peers_from.simps by (auto split: if_splits)
qed simp

lemma normalize_saved_trust:
  assumes "normalize_saved_layout fresh_cluster fresh_secret saved native = Some disk"
    and "ly_trusted_peers native = []" and "controllers_in saved C"
  shows "controllers_in disk C"
proof -
  have "set (ly_trusted_peers disk) \<subseteq> set (ly_trusted_peers saved)"
  proof (cases "is_old_demo_layout saved \<or> ly_devices saved = []")
    case True
    with assms show ?thesis by (simp add: normalize_saved_layout_def)
  next
    case False
    with assms(1) have "ly_trusted_peers disk = normalize_trusted_peers (ly_trusted_peers saved)"
      by (auto simp: normalize_saved_layout_def Let_def split: list.splits)
    with normalize_trusted_peers_from_subset [of "[]"] show ?thesis by (simp add: normalize_trusted_peers_def)
  qed
  with assms(3) show ?thesis unfolding controllers_in_def by blast
qed

lemma merge_disk_trust:
  "ly_trusted_peers (merge_disk_layout_into_runtime disk current) =
     (if ly_trusted_peers disk = [] then ly_trusted_peers current else ly_trusted_peers disk)"
  by (simp add: merge_disk_layout_into_runtime_def Let_def)

lemma refresh_frame:
  assumes "refresh_settings fresh_cluster fresh_secret now_ms native s = Some s'" and "ly_trusted_peers native = []"
  shows "pg_challenge s' = pg_challenge s" and "trust_inv base64 C s \<Longrightarrow> trust_inv base64 C s'"
proof -
  obtain peers layout where r: "refresh_layout_from_disk fresh_cluster fresh_secret now_ms native (pg_file s) (pg_peers s) (pg_layout s)
      = Some (peers, layout)" and s': "s' = s\<lparr>pg_peers := peers, pg_layout := layout\<rparr>"
    using assms(1) by (auto simp: refresh_settings_def)
  show "pg_challenge s' = pg_challenge s" by (simp add: s')
  assume inv: "trust_inv base64 C s"
  have "controllers_in layout C"
  proof (cases "pg_file s")
    case None
    with r inv show ?thesis by (simp add: refresh_layout_from_disk_def load_layout_from_disk_def trust_inv_def)
  next
    case (Some saved)
    let ?saved = "saved\<lparr>ly_devices := map (\<lambda>device. device\<lparr>dv_upgrading_until_ms := 0\<rparr>) (ly_devices saved)\<rparr>"
    from r Some obtain disk where disk: "normalize_saved_layout fresh_cluster fresh_secret ?saved native = Some disk"
      and layout: "layout = snd (sync_layout_peer_presence now_ms (pg_peers s) (merge_disk_layout_into_runtime disk (pg_layout s)))"
      by (auto simp: refresh_layout_from_disk_def load_layout_from_disk_def)
    have "controllers_in ?saved C" using inv Some by (simp add: trust_inv_def controllers_in_def)
    from normalize_saved_trust [OF disk assms(2) this] have "controllers_in disk C" .
    with inv show ?thesis
      by (auto simp: layout controllers_in_def sync_layout_peer_presence_def Let_def merge_disk_trust trust_inv_def)
  qed
  with inv show "trust_inv base64 C s'" by (simp add: s' trust_inv_def)
qed

section \<open>Invariants of a run\<close>

lemma discovery_trust:
  assumes "discovery_turn unpack fresh_code now now_ms machine ip received s = (sent, s')" and "trust_inv base64 C s"
  shows "trust_inv base64 C s'"
  using assms(1)
proof (cases rule: discovery_cases)
  case idle
  then show ?thesis by (intro trust_inv_same [OF assms(2)])
next
  case (asked peer started)
  with assms(2) show ?thesis by (auto simp: pairing_request_def split: prod.splits)
qed

lemma stream_trust:
  assumes "pairing_stream base64 unpack now now_ms outcome ip machine connection payload s = (out, s')"
    and "g = code_guess unpack now machine connection payload s" and "trust_inv base64 C s"
  shows "trust_inv base64 (C \<union> set_option (confirmed_peer g)) s'"
proof (cases "same_trust s s'")
  case True
  then have "trust_inv base64 C s'" using assms(3) by (simp add: trust_inv_def same_trust_def)
  then show ?thesis by (rule trust_inv_mono) simp
next
  case False
  with stream_result [OF assms(1,2)] obtain c packet where g: "g = Some (c, packet)" and right: "guessed_code packet = pch_code c"
    and keep: "\<And>C. \<lbrakk>trust_inv base64 C s;
      (trim (lp_id (dk_peer packet)), trim (lp_transport_public_key (dk_peer packet))) \<in> C\<rbrakk> \<Longrightarrow> trust_inv base64 C s'"
    by (auto split: option.splits if_splits)
  have "trust_inv base64 (C \<union> set_option (confirmed_peer g)) s"
    by (rule trust_inv_mono [OF assms(3)]) simp
  then show ?thesis by (rule keep) (simp add: g confirmed_peer_def right)
qed

lemma step_trust:
  assumes "pairing_step base64 unpack machine r r'" and "trust_inv base64 (pn_confirmed r) (pn_state r)"
  shows "trust_inv base64 (pn_confirmed r') (pn_state r')"
  using assms
proof cases
  case (pair_discovery fresh_code now now_ms ip received sent s)
  with assms(2) discovery_trust show ?thesis by simp
next
  case (pair_stream now now_ms outcome ip connection payload out s g)
  with stream_trust [OF pair_stream(2,3) assms(2)] show ?thesis by simp
next
  case pair_dismiss
  with assms(2) show ?thesis by (simp add: dismiss_pairing_request_def)
next
  case (pair_reset outcome running res s)
  with assms(2) reset_frame(2) show ?thesis by simp
next
  case (pair_receiver now_ms outcome peer stored s)
  with assms(2) receiver_frame(2) show ?thesis by simp
next
  case (pair_save encode parse outcome lock_free layout cells keys saved s)
  with assms(2) save_frame(2) show ?thesis by simp
next
  case (pair_refresh fresh_cluster fresh_secret now_ms native s)
  with assms(2) refresh_frame(2) show ?thesis by simp
qed

lemma step_guesses:
  assumes "pairing_step base64 unpack machine r r'" and "guesses_inv r"
  shows "guesses_inv r'"
  using assms
proof cases
  case (pair_discovery fresh_code now now_ms ip received sent s)
  from pair_discovery(2) show ?thesis
  proof (cases rule: discovery_cases)
    case idle
    with pair_discovery(1) assms(2) guesses_inv_challenge show ?thesis by simp
  next
    case (asked peer started)
    with pair_discovery(1) request_guesses [OF assms(2) asked(1)] show ?thesis by simp
  qed
next
  case (pair_stream now now_ms outcome ip connection payload out s g)
  with stream_guesses [OF assms(2) pair_stream(2,3)] show ?thesis by simp
next
  case pair_dismiss
  with guesses_inv_challenge [OF assms(2)] show ?thesis by (simp add: dismiss_pairing_request_def)
next
  case (pair_reset outcome running res s)
  with guesses_inv_challenge [OF assms(2)] reset_frame(1) show ?thesis by simp
next
  case (pair_receiver now_ms outcome peer stored s)
  with guesses_inv_challenge [OF assms(2)] receiver_frame(1) show ?thesis by simp
next
  case (pair_save encode parse outcome lock_free layout cells keys saved s)
  with guesses_inv_challenge [OF assms(2)] save_frame(1) [OF pair_save(2)] show ?thesis by simp
next
  case (pair_refresh fresh_cluster fresh_secret now_ms native s)
  with guesses_inv_challenge [OF assms(2)] refresh_frame(1) show ?thesis by simp
qed

text \<open>A machine that has never paired.\<close>

definition unpaired :: "layout_state \<Rightarrow> pairing_run" where
  "unpaired layout = \<lparr>pn_state = \<lparr>pg_layout = layout\<lparr>ly_paired_controllers := [], ly_trusted_peers := []\<rparr>,
     pg_file = None, pg_peers = [], pg_challenge = None, pg_registry = []\<rparr>, pn_confirmed = {}, pn_guesses = []\<rparr>"

lemma reach_invariants:
  assumes "pairing_reach base64 unpack machine (unpaired layout) r"
  shows "trust_inv base64 (pn_confirmed r) (pn_state r) \<and> guesses_inv r"
  using assms
proof (induction rule: pairing_reach.induct)
  case pair_start
  show ?case by (simp add: trust_inv_def controllers_in_def guesses_inv_def unpaired_def)
next
  case (pair_next r r')
  then show ?case using step_trust step_guesses by blast
qed

section \<open>The properties\<close>

text \<open>C5. A machine is trusted as a controller only after a confirmation: whatever packets, commands of the
  user interface and reloads of the settings file a machine that has never paired goes through, every
  controller in the registry that authenticates connections, and every controller in the stored trust
  list, is a machine that presented that certificate together with the code of the challenge pending at
  that moment.\<close>

theorem only_confirmed_peers_trusted:
  assumes "pairing_reach base64 unpack machine (unpaired layout) r"
  shows "{dp \<in> set (pg_registry (pn_state r)). dp_role dp = PeerController}
      \<subseteq> {dp. \<exists>key. (dp_peer_id dp, key) \<in> pn_confirmed r \<and> base64 key = Inr (dp_certificate dp)}
    \<and> {(tpr_id p, tpr_public_key p) |p. p \<in> set (ly_trusted_peers (pg_layout (pn_state r))) \<and> tpr_role p = ''controller''}
      \<subseteq> pn_confirmed r"
  using reach_invariants [OF assms] unfolding trust_inv_def controllers_in_def by blast

definition pairing_pc :: lan_peer where
  "pairing_pc = \<lparr>lp_id = ''pc'', lp_name = ''desk'', lp_platform = ''windows'', lp_machine_role = ''server'',
     lp_cluster_id = ''home'', lp_pairing_required = False, lp_host = ''desk'', lp_ip = ''10.0.0.2'',
     lp_transport_port = 9, lp_quic_port = 9, lp_transport_public_key = ''key'', lp_protocol_version = 1,
     lp_screen_count = 0, lp_input_ready = True, lp_upgrading = False, lp_screens = [], lp_app_version = [],
     lp_last_seen_ms = 0\<rparr>"

definition pairing_client :: layout_state where
  "pairing_client = \<lparr>ly_devices = [], ly_active_device_id = [], ly_selected_screen_id = [], ly_input_mode = ''control'',
     ly_machine_role = ''client'', ly_cluster_id = [], ly_pair_secret = [], ly_paired_controllers = [], ly_trusted_peers = [],
     ly_clipboard_sync = False, ly_clipboard_image_sync = False, ly_clipboard_text_limit_bytes = 0,
     ly_file_transfer_enabled = False, ly_language = ''en'', ly_theme_mode = ''dark'', ly_performance_monitor = False,
     ly_transport_port_mode = ''auto'', ly_transport_port = 47833, ly_quic_port = 0, ly_modifier_remap = False,
     ly_modifier_map = \<lparr>mm_control = ''same'', mm_alt = ''same'', mm_meta = ''same''\<rparr>,
     ly_edge_switch_hotkey = ''off'', ly_screen_switch_hotkeys = default_screen_switch_hotkeys,
     ly_control_hotkeys = default_control_hotkeys, ly_game_mode = False\<rparr>"

definition pairing_unpack :: "string \<Rightarrow> u8 list \<Rightarrow> discovery_packet option" where
  "pairing_unpack code payload = Some \<lparr>dk_protocol = DISCOVERY_PROTOCOL,
     dk_kind = (if payload = [] then ''pair-request'' else ''pair-confirm''), dk_peer = pairing_pc,
     dk_pairing_code = Some code, dk_pair_cluster_id = Some ''home'', dk_pair_secret = Some ''secret'', dk_pairing_error = None\<rparr>"

definition pairing_machine :: machine where
  "pairing_machine = \<lparr>mc_name = ''laptop'', mc_host = ''mac'', mc_ip = ''10.0.0.3'', mc_platform = ''macos'', mc_version = []\<rparr>"

definition pairing_asked :: "string \<Rightarrow> pairing_run" where
  "pairing_asked code =
     (let (sent, s) = discovery_turn (pairing_unpack code) ''4711'' 10 10 pairing_machine ''10.0.0.2'' (Some [])
            (pn_state (unpaired pairing_client))
      in (unpaired pairing_client)\<lparr>pn_state := s, pn_guesses :=
          (if ''pair-challenge'' \<in> set sent \<and> issues_code 10 (pn_state (unpaired pairing_client))
           then 0 # pn_guesses (unpaired pairing_client) else pn_guesses (unpaired pairing_client))\<rparr>)"

definition pairing_connection :: connection_peer where
  "pairing_connection = PeerUnauthenticated (SocketV4 [10, 0, 0, 2] 9) 1 (Some ''key'')"

definition pairing_answered :: "string \<Rightarrow> pairing_run" where
  "pairing_answered code =
     (let r = pairing_asked code;
          s = snd (pairing_stream (\<lambda>_. Inr [1]) (pairing_unpack code) 20 20 Written ''10.0.0.2'' pairing_machine
            pairing_connection [0] (pn_state r));
          g = code_guess (pairing_unpack code) 20 pairing_machine pairing_connection [0] (pn_state r)
      in r\<lparr>pn_state := s, pn_confirmed := pn_confirmed r \<union> set_option (confirmed_peer g),
           pn_guesses := (if g = None then pn_guesses r else count_guess (pn_guesses r))\<rparr>)"

lemma pairing_asked_reach:
  "pairing_reach base64 (pairing_unpack code) pairing_machine (unpaired pairing_client) (pairing_asked code)"
proof (rule pair_next [OF pair_start])
  show "pairing_step base64 (pairing_unpack code) pairing_machine (unpaired pairing_client) (pairing_asked code)"
    unfolding pairing_asked_def Let_def case_prod_beta by (rule pairing_step.pair_discovery [OF prod.collapse [symmetric]])
qed

lemma pairing_answered_reach:
  "pairing_reach (\<lambda>_. Inr [1]) (pairing_unpack code) pairing_machine (unpaired pairing_client) (pairing_answered code)"
proof (rule pair_next [OF pairing_asked_reach])
  show "pairing_step (\<lambda>_. Inr [1]) (pairing_unpack code) pairing_machine (pairing_asked code) (pairing_answered code)"
    unfolding pairing_answered_def Let_def by (rule pairing_step.pair_stream [OF prod.collapse [symmetric] refl])
qed

lemma pairing_texts:
  "trim ''pc'' = ''pc''" "trim ''key'' = ''key''" "trim ''4711'' = ''4711''" "trim ''0000'' = ''0000''"
  "trim ''home'' = ''home''" "trim ''secret'' = ''secret''"
  "\<not> is_blank ''pc''" "\<not> is_blank ''key''" "\<not> is_blank ''4711''" "\<not> is_blank ''0000''"
  "\<not> is_blank ''home''" "\<not> is_blank ''secret''"
  by code_simp+

lemma pairing_machine_id: "local_peer_id ''mac'' ''10.0.0.3'' = ''peer-mac-10-0-0-3''"
  by (simp add: local_peer_id_def trim_matches_def is_ascii_digit_def is_ascii_alphabetic_def ascii_lower_def)

lemmas pairing_demo = pairing_texts pairing_machine_id Let_def unpaired_def pairing_client_def pairing_pc_def
  pairing_unpack_def pairing_machine_def machine_id_def pairing_connection_def discovery_turn_def discovery_datagram_def
  pairing_request_def begin_pairing_challenge_def pairing_required_def new_challenge_def
  PAIRING_CODE_TTL_MS_def PROTOCOL_VERSION_def pairing_stream_def handle_pairing_stream_packet_def
  pairing_confirmation_matches_presented_certificate_def decode_discovery_packet_def peer_from_discovery_packet_def
  complete_pairing_from_confirm_def check_challenge_def unwrap_text_def upsert_trusted_peer_def
  next_trust_revision_def quic_trusted_peers_def map_filter_def registry_replace_def refresh_registry_def
  code_guess_def confirmed_peer_def guessed_code_def saturating_add_def write_layout_to_disk_def issues_code_def

lemma pairing_asked_challenge:
  "pg_challenge (pn_state (pairing_asked code)) = Some (new_challenge ''4711'' 10 10 ''10.0.0.2'' pairing_pc)"
  "pg_layout (pn_state (pairing_asked code)) = pairing_client"
  "pg_registry (pn_state (pairing_asked code)) = []"
  "pn_guesses (pairing_asked code) = [0]" "pn_confirmed (pairing_asked code) = {}"
  by (simp_all add: pairing_asked_def pairing_demo)

lemma pairing_answered_right:
  "pn_confirmed (pairing_answered ''4711'') = {(''pc'', ''key'')}"
  "map dp_role (pg_registry (pn_state (pairing_answered ''4711''))) = [PeerController]"
  by (simp_all add: pairing_answered_def pairing_asked_challenge pairing_demo)

lemma pairing_answered_wrong: "pn_guesses (pairing_answered ''0000'') = [1]"
  by (simp add: pairing_answered_def pairing_asked_challenge pairing_demo)

lemma only_confirmed_peers_trusted_witness:
  "map dp_role (pg_registry (pn_state (pairing_answered ''4711''))) = [PeerController]
   \<and> {dp_peer_id dp |dp. dp \<in> set (pg_registry (pn_state (pairing_answered ''4711''))) \<and> dp_role dp = PeerController} \<subseteq> {''pc''}"
  using only_confirmed_peers_trusted [OF pairing_answered_reach [of "''4711''"]] by (auto simp: pairing_answered_right)

text \<open>C11. No pairing code can be guessed at more than five times: over any such run, at most five
  confirmations are compared with any one code before it is replaced or withdrawn.\<close>

theorem pairing_guess_bound:
  assumes "pairing_reach base64 unpack machine (unpaired layout) r"
  shows "list_all (\<lambda>guesses. guesses \<le> 5) (pn_guesses r)"
  using reach_invariants [OF assms] unfolding guesses_inv_def list_all_iff by blast

lemma pairing_guess_bound_witness:
  "list_all (\<lambda>guesses. guesses \<le> 5) (pn_guesses (pairing_answered ''0000'')) \<and> pn_guesses (pairing_answered ''0000'') = [1]"
  using pairing_guess_bound [OF pairing_answered_reach [of "''0000''"]] by (simp add: pairing_answered_wrong)

section \<open>The stored trust list\<close>

text \<open>
  Storing a peer whose id and certificate carry no surrounding blanks keeps the list in order, which is
  what the registry demands. The duplicates are searched with the text as received and the record is
  stored trimmed, so a blank at either end defeats the search: the list then holds the same id twice and
  the registry refuses every later update.
\<close>

lemma next_revision_positive: "next_trust_revision peers \<noteq> 0"
proof -
  have "1 \<le> next_trust_revision peers" unfolding next_trust_revision_def by (rule max.cobounded2)
  then show ?thesis by auto
qed

lemma upsert_keeps_order:
  assumes "upsert_trusted_peer ident certificate role paired peers = (Inr (), peers')"
    and "trust_list_ok peers" and "trim ident = ident" and "trim certificate = certificate"
  shows "trust_list_ok peers'"
  using assms next_revision_positive
  by (auto simp: upsert_trusted_peer_def trust_list_ok_def distinct_map inj_on_def list_all_iff split: if_splits)

lemma untrimmed_identity_duplicates:
  "map tpr_id (snd (upsert_trusted_peer '' pc'' ''new'' ''controller'' 1
     (snd (upsert_trusted_peer ''pc'' ''key'' ''controller'' 0 [])))) = [''pc'', ''pc'']
   \<and> \<not> is_ok (fst (registry_replace (\<lambda>key. Inr (map (\<lambda>ch. of_nat (of_char ch)) key)) (quic_trusted_peers (snd (upsert_trusted_peer '' pc'' ''new'' ''controller'' 1
     (snd (upsert_trusted_peer ''pc'' ''key'' ''controller'' 0 []))))) []))"
  by code_simp

text \<open>
  A settings snapshot taken before the pairing was reset and saved afterwards brings the removed controllers
  back into the layout: the client then no longer announces that it needs pairing, although it trusts nobody.
\<close>

lemma stale_snapshot_undoes_reset:
  assumes "ly_machine_role stale = ''client''" and "ly_paired_controllers stale \<noteq> []"
    and "pairing_required current"
  shows "\<not> pairing_required (merge_runtime_owned_layout_fields stale current)
    \<and> ly_trusted_peers (merge_runtime_owned_layout_fields stale current) = ly_trusted_peers current"
  using assms by (simp add: pairing_required_def runtime_owned_controllers runtime_owned_frame)

end
