(* ===== verification/Shortcut_Rules.thy ===== *)
theory Shortcut_Rules
  imports Shortcuts
begin

text \<open>
  Shortcuts keep their meaning: the canonical form is a fixed point, shortcuts accepted together are
  different, and a change of the registered hotkeys happens completely or is undone as far as the system lets it.
\<close>

section \<open>Text\<close>

definition plain :: "char \<Rightarrow> bool" where
  "plain c \<longleftrightarrow> (33 :: nat) \<le> of_char c \<and> of_char c \<le> (126 :: nat)"

lemma ws_width_plain: "33 \<le> b \<Longrightarrow> b \<le> 126 \<Longrightarrow> ws_width (b # bs) = 0"
  by (auto simp: ws_width_def)

lemma ws_suffix_plain:
  assumes "33 \<le> b" and "b \<le> 126"
  shows "ws_suffix (bs @ [b]) = 0"
proof -
  have one: "ws_width [b] \<noteq> 1" using ws_width_plain [OF assms, of "[]"] by simp
  have two: "ws_width [a, b] \<noteq> 2" for a using assms by (auto simp: ws_width_def)
  have three: "ws_width [a, c, b] \<noteq> 3" for a c using assms by (auto simp: ws_width_def numeral_2_eq_2)
  show ?thesis
  proof (cases bs rule: rev_cases)
    case Nil
    with one show ?thesis by (simp add: ws_suffix_def)
  next
    case (snoc bs' c)
    note ends = snoc
    show ?thesis
    proof (cases bs' rule: rev_cases)
      case Nil
      with ends one two show ?thesis by (simp add: ws_suffix_def)
    next
      case (snoc bs'' a)
      with ends one two three show ?thesis by (simp add: ws_suffix_def)
    qed
  qed
qed

lemma trim_plain:
  assumes "list_all plain s"
  shows "trim s = s"
proof (cases "s = []")
  case True
  then show ?thesis by (simp add: trim_def utf8_bytes_def trim_front.simps)
next
  case False
  have "trim_front (utf8_bytes s) = utf8_bytes s"
    using assms False by (cases s) (auto simp: utf8_bytes_def trim_front.simps ws_width_plain plain_def)
  moreover have "trim_back (utf8_bytes s) = utf8_bytes s"
    using assms False by (cases s rule: rev_cases) (auto simp: utf8_bytes_def trim_back.simps ws_suffix_plain plain_def)
  ultimately show ?thesis by (simp add: trim_def utf8_bytes_def o_def)
qed

lemma lower_append [simp]:
  "to_ascii_lowercase (a @ b) = to_ascii_lowercase a @ to_ascii_lowercase b"
  by (simp add: to_ascii_lowercase_def)

lemma lower_join: "to_ascii_lowercase (join_plus parts) = join_plus (map to_ascii_lowercase parts)"
  by (induction parts rule: join_plus.induct) (simp_all, simp_all add: to_ascii_lowercase_def ascii_lower_def)

lemma split_on_append:
  "CHR ''+'' \<notin> set part \<Longrightarrow> split_on CHR ''+'' (part @ CHR ''+'' # rest) = part # split_on CHR ''+'' rest"
  by (induction part) auto

lemma split_on_one: "c \<notin> set part \<Longrightarrow> split_on c part = [part]"
  by (induction part) auto

lemma split_join:
  assumes "parts \<noteq> []" and "list_all (\<lambda>part. CHR ''+'' \<notin> set part) parts"
  shows "split_on CHR ''+'' (join_plus parts) = parts"
  using assms by (induction parts rule: join_plus.induct) (simp_all add: split_on_append split_on_one)

lemma join_plain:
  "list_all (list_all plain) parts \<Longrightarrow> list_all plain (join_plus parts)"
  by (induction parts rule: join_plus.induct) (simp_all add: plain_def)

section \<open>Keys\<close>

definition long_keys :: "string list" where
  "long_keys = [''space'', ''tab'', ''enter'', ''escape'', ''scrolllock'', ''arrowup'', ''arrowdown'', ''arrowleft'', ''arrowright'']"

definition short_key :: "char \<Rightarrow> bool" where
  "short_key c \<longleftrightarrow> of_char c \<in> {48..57 :: nat} \<union> {65..90}"

definition canonical_keys :: "string set" where
  "canonical_keys = set long_keys \<union> {[c] |c. short_key c} \<union> {CHR ''F'' # show_nat n |n. 1 \<le> n \<and> n \<le> 24}"

definition modifier_names :: "string list" where
  "modifier_names = [''ctrl'', ''control'', ''alt'', ''option'', ''shift'', ''meta'', ''cmd'', ''command'', ''win'',
     ''windows'', ''super'', ''os'']"

lemma of_char_upper: "of_char (ascii_upper c) = (if of_char c \<in> {97..122 :: nat} then of_char c - 32 else of_char c :: nat)"
  by (auto simp: ascii_upper_def intro!: mod_less)

lemma of_char_lower: "of_char (ascii_lower c) = (if of_char c \<in> {65..90 :: nat} then of_char c + 32 else of_char c :: nat)"
  by (auto simp: ascii_lower_def intro!: mod_less)

lemma char_eq_nat: "c = d \<longleftrightarrow> (of_char c :: nat) = of_char d"
  by simp

lemma upper_short: "is_ascii_alphabetic c \<or> is_ascii_digit c \<Longrightarrow> short_key (ascii_upper c)"
  by (auto simp: short_key_def of_char_upper is_ascii_alphabetic_def is_ascii_digit_def)

definition key_ok :: "string \<Rightarrow> bool" where
  "key_ok key \<longleftrightarrow> canonical_runtime_toggle_key (to_ascii_lowercase key) = Some key \<and> to_ascii_lowercase key \<noteq> []
     \<and> list_all plain (to_ascii_lowercase key) \<and> list_all plain key \<and> CHR ''+'' \<notin> set (to_ascii_lowercase key)
     \<and> to_ascii_lowercase key \<notin> set modifier_names
     \<and> to_ascii_lowercase key \<notin> {''disabled'', ''disable'', ''off'', ''none''}"

lemma short_key_ok:
  assumes "short_key c"
  shows "key_ok [c]"
proof -
  have "ascii_upper (ascii_lower c) = c"
    unfolding char_eq_nat of_char_upper of_char_lower using assms by (auto simp: short_key_def)
  moreover have "is_ascii_alphabetic (ascii_lower c) \<or> is_ascii_digit (ascii_lower c)"
    and "plain (ascii_lower c)" and "plain c" and "ascii_lower c \<noteq> CHR ''+''"
    unfolding char_eq_nat is_ascii_alphabetic_def is_ascii_digit_def plain_def of_char_lower
    using assms by (auto simp: short_key_def)
  ultimately show ?thesis
    by (simp add: key_ok_def canonical_runtime_toggle_key_def to_ascii_lowercase_def modifier_names_def)
qed

lemmas key_rules = canonical_runtime_toggle_key_def function_key_def parse_uint_def named_keys_def
  is_ascii_alphabetic_def is_ascii_digit_def to_ascii_lowercase_def ascii_lower_def plain_def
  modifier_names_def show_nat.simps char_of_def bit_iff_odd

lemma long_keys_ok: "list_all key_ok long_keys"
  unfolding long_keys_def list.pred_inject by (intro conjI) (simp_all add: key_ok_def key_rules)

text \<open>The number of a function key, printed and read back.\<close>

lemma show_small:
  assumes "n < 100"
  obtains (one) "n < 10" and "show_nat n = [char_of (48 + n)]"
  | (two) "10 \<le> n" and "show_nat n = [char_of (48 + n div 10), char_of (48 + n mod 10)]"
proof (cases "n < 10")
  case True
  then show ?thesis by (intro one) (simp_all add: show_nat.simps)
next
  case False
  with assms have "show_nat (n div 10) = [char_of (48 + n div 10)]" by (subst show_nat.simps) (simp add: less_mult_imp_div_less)
  with False show ?thesis by (intro two) (simp_all add: show_nat.simps [of n])
qed

lemma digit_char:
  assumes "d < (10 :: nat)"
  shows "is_ascii_digit (char_of (48 + d))" and "of_char (char_of (48 + d)) = 48 + d"
    and "plain (char_of (48 + d))" and "ascii_lower (char_of (48 + d)) = char_of (48 + d)" and "char_of (48 + d) \<noteq> CHR ''+''"
proof -
  show nat: "of_char (char_of (48 + d)) = 48 + d" using assms by simp
  show "is_ascii_digit (char_of (48 + d))" "plain (char_of (48 + d))" "ascii_lower (char_of (48 + d)) = char_of (48 + d)"
    "char_of (48 + d) \<noteq> CHR ''+''"
    using assms nat by (simp_all add: is_ascii_digit_def plain_def ascii_lower_def char_eq_nat)
qed

lemma function_key_ok:
  assumes "1 \<le> n" and "n \<le> 24"
  shows "key_ok (CHR ''F'' # show_nat n)"
proof -
  have small: "n < 100" "n div 10 < 10" "n mod 10 < 10" using assms by auto
  have letter: "ascii_lower CHR ''F'' = CHR ''f''" "plain CHR ''F''" "plain CHR ''f''"
    by (simp_all add: ascii_lower_def plain_def char_of_def bit_iff_odd)
  have digits: "list_all plain (show_nat n) \<and> map ascii_lower (show_nat n) = show_nat n \<and> CHR ''+'' \<notin> set (show_nat n)
      \<and> show_nat n \<noteq> [] \<and> parse_uint 255 (show_nat n) = Some n"
    using small(1)
  proof (cases rule: show_small)
    case one
    with digit_char [of n] assms show ?thesis by (auto simp: parse_uint_def)
  next
    case two
    with digit_char [of "n div 10"] digit_char [of "n mod 10"] small(2,3) assms show ?thesis by (auto simp: parse_uint_def)
  qed
  then have "canonical_runtime_toggle_key (CHR ''f'' # show_nat n) = Some (CHR ''F'' # show_nat n)"
    using assms by (simp add: canonical_runtime_toggle_key_def function_key_def)
  with digits letter show ?thesis by (auto simp: key_ok_def to_ascii_lowercase_def modifier_names_def)
qed

lemma canonical_key_ok: "key \<in> canonical_keys \<Longrightarrow> key_ok key"
  using long_keys_ok short_key_ok function_key_ok by (auto simp: canonical_keys_def list_all_iff)

lemma function_keys: "1 \<le> n \<Longrightarrow> n \<le> 24 \<Longrightarrow> CHR ''F'' # show_nat n \<in> canonical_keys"
  unfolding canonical_keys_def by blast

lemma canonical_key_member:
  assumes "canonical_runtime_toggle_key key = Some v"
  shows "v \<in> canonical_keys"
proof (cases "length key = 1 \<and> (is_ascii_alphabetic (hd key) \<or> is_ascii_digit (hd key))")
  case True
  then obtain c where "key = [c]" by (cases key) auto
  with True assms upper_short show ?thesis by (auto simp: canonical_runtime_toggle_key_def canonical_keys_def)
next
  case False
  then have v: "(case function_key key of Some n \<Rightarrow> Some (CHR ''F'' # show_nat n) | None \<Rightarrow> map_of named_keys key) = Some v"
    using assms unfolding canonical_runtime_toggle_key_def by (simp only: if_False)
  show ?thesis
  proof (cases "function_key key")
    case None
    with v have "map_of named_keys key = Some v" by simp
    from map_of_SomeD [OF this] show ?thesis by (auto simp: canonical_keys_def long_keys_def named_keys_def)
  next
    case (Some n)
    then have "1 \<le> n \<and> n \<le> 24" by (auto simp: function_key_def split: list.splits option.splits if_splits)
    with v Some function_keys show ?thesis by auto
  qed
qed

lemma read_parts_key:
  assumes "read_parts parts acc = Inr p" and "\<And>key. sp_key acc = Some key \<Longrightarrow> key \<in> canonical_keys"
    and "sp_key p = Some key"
  shows "key \<in> canonical_keys"
  using assms
  by (induction parts acc arbitrary: p rule: read_parts.induct)
    (auto simp: canonical_key_member split: if_splits option.splits)

lemma read_shown:
  assumes "key \<in> canonical_keys"
  shows "read_parts (shown_parts p (to_ascii_lowercase key)) no_parts
    = Inr \<lparr>sp_ctrl = sp_ctrl p, sp_alt = sp_alt p, sp_shift = sp_shift p, sp_meta = sp_meta p, sp_key = Some key\<rparr>"
proof -
  from canonical_key_ok [OF assms] have "canonical_runtime_toggle_key (to_ascii_lowercase key) = Some key"
    and "to_ascii_lowercase key \<notin> set modifier_names"
    by (simp_all add: key_ok_def)
  then show ?thesis
    by (cases "sp_ctrl p"; cases "sp_alt p"; cases "sp_shift p"; cases "sp_meta p")
      (simp_all add: shown_parts_def no_parts_def modifier_names_def)
qed

section \<open>The canonical form is a fixed point\<close>

lemma shown_parts_plain:
  assumes "key \<in> canonical_keys"
  shows "shown_parts p (to_ascii_lowercase key) \<noteq> []"
    and "list_all (\<lambda>part. CHR ''+'' \<notin> set part \<and> part \<noteq> []) (shown_parts p (to_ascii_lowercase key))"
    and "list_all (list_all plain) (shown_parts p key)"
    and "map to_ascii_lowercase (shown_parts p key) = shown_parts p (to_ascii_lowercase key)"
  using canonical_key_ok [OF assms]
  by (simp_all add: shown_parts_def key_ok_def plain_def to_ascii_lowercase_def ascii_lower_def)

lemma normalized_shown:
  assumes "key \<in> canonical_keys"
  shows "normalize_edge_switch_hotkey (join_plus (shown_parts p key)) = join_plus (shown_parts p (to_ascii_lowercase key))"
    (is "_ = ?w")
proof -
  have plain: "list_all plain (join_plus (shown_parts p key))" using join_plain shown_parts_plain(3) [OF assms] by blast
  have lower: "to_ascii_lowercase (join_plus (shown_parts p key)) = ?w"
    by (simp add: lower_join shown_parts_plain(4) [OF assms])
  have split: "split_on CHR ''+'' ?w = shown_parts p (to_ascii_lowercase key)"
    by (rule split_join) (use shown_parts_plain(1,2) [OF assms, of p] in \<open>auto simp: list_all_iff\<close>)
  have "list_all plain ?w"
    unfolding lower [symmetric] using plain
    by (auto simp: list_all_iff to_ascii_lowercase_def plain_def of_char_lower)
  then have "filter (\<lambda>c. c \<noteq> CHR '' '') ?w = ?w"
    by (auto simp: filter_id_conv list_all_iff plain_def)
  moreover have "?w \<noteq> []"
  proof
    assume "?w = []"
    with split have empty: "shown_parts p (to_ascii_lowercase key) = [[]]" by simp
    show False using shown_parts_plain(2) [OF assms, of p] unfolding empty by simp
  qed
  ultimately show ?thesis
    by (simp add: normalize_edge_switch_hotkey_def trim_plain [OF plain] lower)
qed

lemma canonical_shape:
  assumes "canonical_runtime_toggle_shortcut parse v = Inr (Some w)"
  obtains p key where "key \<in> canonical_keys" and "w = join_plus (shown_parts p key)" and "parse w \<noteq> None"
    and "sp_ctrl p \<or> sp_alt p \<or> sp_shift p \<or> sp_meta p \<or> allows_single_runtime_toggle_key key"
proof -
  obtain p where p: "read_parts (filter (\<lambda>part. part \<noteq> []) (split_on CHR ''+'' (normalize_edge_switch_hotkey v))) no_parts = Inr p"
    and some: "(case sp_key p of None \<Rightarrow> Inl NoKey
        | Some key \<Rightarrow>
            if \<not> (sp_ctrl p \<or> sp_alt p \<or> sp_shift p \<or> sp_meta p) \<and> \<not> allows_single_runtime_toggle_key key
            then Inl NeedsModifier
            else (case parse (join_plus (shown_parts p key)) of
                None \<Rightarrow> Inl (CannotRegister (normalize_edge_switch_hotkey v))
              | Some _ \<Rightarrow> Inr (Some (join_plus (shown_parts p key))))) = Inr (Some w)"
    using assms unfolding canonical_runtime_toggle_shortcut_def Let_def by (simp only: bind_result_eq_Inr split: if_splits) auto
  from some obtain key where key: "sp_key p = Some key" by (auto split: option.splits)
  from some have rest: "w = join_plus (shown_parts p key)" "parse w \<noteq> None"
      "sp_ctrl p \<or> sp_alt p \<or> sp_shift p \<or> sp_meta p \<or> allows_single_runtime_toggle_key key"
    unfolding key option.case by (auto split: if_splits option.splits)
  have "key \<in> canonical_keys" by (rule read_parts_key [OF p _ key]) (simp add: no_parts_def)
  with that rest show ?thesis by blast
qed

lemma canonical_shown:
  assumes "key \<in> canonical_keys" and "parse (join_plus (shown_parts p key)) \<noteq> None"
    and "sp_ctrl p \<or> sp_alt p \<or> sp_shift p \<or> sp_meta p \<or> allows_single_runtime_toggle_key key"
  shows "canonical_runtime_toggle_shortcut parse (join_plus (shown_parts p key)) = Inr (Some (join_plus (shown_parts p key)))"
proof -
  let ?parts = "shown_parts p (to_ascii_lowercase key)"
  have split: "split_on CHR ''+'' (join_plus ?parts) = ?parts"
    by (rule split_join) (use shown_parts_plain(1,2) [OF assms(1), of p] in \<open>auto simp: list_all_iff\<close>)
  have "join_plus ?parts \<notin> {''disabled'', ''disable'', ''off'', ''none''}"
  proof
    assume "join_plus ?parts \<in> {''disabled'', ''disable'', ''off'', ''none''}"
    then have "?parts = [join_plus ?parts]" and w: "join_plus ?parts \<in> {''disabled'', ''disable'', ''off'', ''none''}"
      using split by auto
    then have "to_ascii_lowercase key \<in> {''disabled'', ''disable'', ''off'', ''none''}"
      by (auto simp: shown_parts_def split: if_splits)
    with canonical_key_ok [OF assms(1)] show False by (simp add: key_ok_def)
  qed
  moreover have "filter (\<lambda>part. part \<noteq> []) ?parts = ?parts"
    using shown_parts_plain(2) [OF assms(1), of p] by (auto simp: filter_id_conv list_all_iff)
  moreover have "shown_parts \<lparr>sp_ctrl = sp_ctrl p, sp_alt = sp_alt p, sp_shift = sp_shift p, sp_meta = sp_meta p,
      sp_key = Some key\<rparr> key = shown_parts p key" by (simp add: shown_parts_def)
  ultimately show ?thesis
    using assms(2,3) read_shown [OF assms(1), of p]
    by (simp add: canonical_runtime_toggle_shortcut_def Let_def normalized_shown [OF assms(1)] split) auto
qed

section \<open>Conflicts\<close>

lemma conflict_scan_distinct:
  assumes "conflict_scan parse canonical entries = Inr ()" and "distinct (map snd canonical)"
    and "\<forall>(slot, raw)\<in>set entries. canonical_runtime_toggle_shortcut parse raw = Inr (values slot)"
  shows "distinct (map snd canonical @ concat (map (\<lambda>(slot, raw). case values slot of None \<Rightarrow> [] | Some v \<Rightarrow> [v]) entries))"
  using assms
proof (induction entries arbitrary: canonical)
  case (Cons entry entries)
  obtain label raw where entry: "entry = (label, raw)" by fastforce
  with Cons.prems(3) have v: "canonical_runtime_toggle_shortcut parse raw = Inr (values label)" by simp
  show ?case
  proof (cases "values label")
    case None
    with Cons.prems v entry have "conflict_scan parse canonical entries = Inr ()" by simp
    from Cons.IH [OF this] Cons.prems entry None show ?thesis by simp
  next
    case (Some w)
    with Cons.prems(1) v entry have free: "find (\<lambda>(_, existing). existing = w) canonical = None"
      and scan: "conflict_scan parse (canonical @ [(label, w)]) entries = Inr ()"
      by (auto split: option.splits)
    have "w \<notin> set (map snd canonical)" using free by (auto simp: find_None_iff)
    with Cons.IH [OF scan] Cons.prems entry show ?thesis by (simp add: Some)
  qed
qed simp

section \<open>Registration\<close>

text \<open>
  What the plugin's registry promises: a registration that succeeds adds a value that was not registered, an
  unregistration that succeeds leaves the value unregistered, and a failure changes nothing. Any call may fail.
\<close>

definition port_table :: "'g shortcut_port \<Rightarrow> ('g \<Rightarrow> string set) \<Rightarrow> bool" where
  "port_table P held \<longleftrightarrow>
     (\<forall>v g g'. so_register P v g = (Inr (), g') \<longrightarrow> v \<notin> held g \<and> held g' = insert v (held g))
     \<and> (\<forall>v g g' e. so_register P v g = (Inl e, g') \<longrightarrow> held g' = held g)
     \<and> (\<forall>v g g'. so_unregister P v g = (Inr (), g') \<longrightarrow> held g' = held g - {v})
     \<and> (\<forall>v g g' e. so_unregister P v g = (Inl e, g') \<longrightarrow> held g' = held g)"

text \<open>Any registry, with the calls it refused, in order: which operation, on which value.\<close>

datatype shortcut_call = Registering string | Unregistering string

definition audited :: "'g shortcut_port \<Rightarrow> ('g \<times> shortcut_call list) shortcut_port" where
  "audited P =
     \<lparr>so_register = (\<lambda>v (g, refused). case so_register P v g of
         (Inl e, g') \<Rightarrow> (Inl e, (g', refused @ [Registering v])) | (Inr _, g') \<Rightarrow> (Inr (), (g', refused))),
      so_unregister = (\<lambda>v (g, refused). case so_unregister P v g of
         (Inl e, g') \<Rightarrow> (Inl e, (g', refused @ [Unregistering v])) | (Inr _, g') \<Rightarrow> (Inr (), (g', refused)))\<rparr>"

lemma audited_calls:
  assumes "port_table P held"
  shows "so_register (audited P) v (g, refused) = (Inr u, (g', refused')) \<Longrightarrow>
      refused' = refused \<and> v \<notin> held g \<and> held g' = insert v (held g)"
    and "so_register (audited P) v (g, refused) = (Inl e, (g', refused')) \<Longrightarrow>
      refused' = refused @ [Registering v] \<and> held g' = held g"
    and "so_unregister (audited P) v (g, refused) = (Inr u, (g', refused')) \<Longrightarrow> refused' = refused \<and> held g' = held g - {v}"
    and "so_unregister (audited P) v (g, refused) = (Inl e, (g', refused')) \<Longrightarrow>
      refused' = refused @ [Unregistering v] \<and> held g' = held g"
  using assms unfolding port_table_def audited_def by (auto split: prod.splits sum.splits) blast+

text \<open>Registering or unregistering all values of a list, as far as the registry lets it.\<close>

lemma restore_all:
  assumes "port_table P held"
  shows "for_each_ignoring (so_register (audited P)) vs (g, refused) = (g', refused') \<Longrightarrow>
    \<exists>later. refused' = refused @ later \<and> held g \<subseteq> held g' \<and> held g' \<subseteq> held g \<union> set vs
      \<and> (\<forall>v\<in>set vs. v \<in> held g' \<or> Registering v \<in> set later) \<and> (\<forall>v. Unregistering v \<notin> set later)"
proof (induction vs arbitrary: g refused)
  case (Cons v vs)
  obtain res g1 refused1 where call: "so_register (audited P) v (g, refused) = (res, (g1, refused1))" by (metis prod_cases3)
  from Cons.prems call have rest: "for_each_ignoring (so_register (audited P)) vs (g1, refused1) = (g', refused')" by simp
  show ?case
  proof (cases res)
    case (Inl e)
    note C = audited_calls(2) [OF assms call [unfolded Inl]]
    from Cons.IH [OF rest] obtain later where "refused' = refused1 @ later \<and> held g1 \<subseteq> held g' \<and> held g' \<subseteq> held g1 \<union> set vs
      \<and> (\<forall>v\<in>set vs. v \<in> held g' \<or> Registering v \<in> set later) \<and> (\<forall>v. Unregistering v \<notin> set later)" by blast
    with C show ?thesis by (intro exI [of _ "Registering v # later"]) auto
  next
    case (Inr u)
    note C = audited_calls(1) [OF assms call [unfolded Inr]]
    from Cons.IH [OF rest] C show ?thesis by auto
  qed
qed simp

lemma release_all_values:
  assumes "port_table P held"
  shows "for_each_ignoring (so_unregister (audited P)) vs (g, refused) = (g', refused') \<Longrightarrow>
    \<exists>later. refused' = refused @ later \<and> held g - set vs \<subseteq> held g' \<and> held g' \<subseteq> held g
      \<and> (\<forall>v\<in>set vs. v \<notin> held g' \<or> Unregistering v \<in> set later) \<and> (\<forall>v. Registering v \<notin> set later)"
proof (induction vs arbitrary: g refused)
  case (Cons v vs)
  obtain res g1 refused1 where call: "so_unregister (audited P) v (g, refused) = (res, (g1, refused1))" by (metis prod_cases3)
  from Cons.prems call have rest: "for_each_ignoring (so_unregister (audited P)) vs (g1, refused1) = (g', refused')" by simp
  show ?case
  proof (cases res)
    case (Inl e)
    note C = audited_calls(4) [OF assms call [unfolded Inl]]
    from Cons.IH [OF rest] obtain later where "refused' = refused1 @ later \<and> held g1 - set vs \<subseteq> held g' \<and> held g' \<subseteq> held g1
      \<and> (\<forall>v\<in>set vs. v \<notin> held g' \<or> Unregistering v \<in> set later) \<and> (\<forall>v. Registering v \<notin> set later)" by blast
    with C show ?thesis by (intro exI [of _ "Unregistering v # later"]) auto
  next
    case (Inr u)
    note C = audited_calls(3) [OF assms call [unfolded Inr]]
    from Cons.IH [OF rest] C show ?thesis by auto
  qed
qed simp

text \<open>
  What an undone change leaves: the values held at first, except those whose registration the undo was refused,
  and nothing else but the recorded values and those whose unregistration the undo was refused.
\<close>

definition undone :: "string set \<Rightarrow> string set \<Rightarrow> string set \<Rightarrow> shortcut_call list \<Rightarrow> bool" where
  "undone H olds now refused \<longleftrightarrow>
     H - {v. Registering v \<in> set (tl refused)} \<subseteq> now
     \<and> now \<subseteq> H \<union> (olds - {[]}) \<union> {v. Unregistering v \<in> set (tl refused)}"

lemma unregister_changed_held:
  assumes "port_table P held" and "unregister_changed (audited P) us changed (g, []) = (res, (g', refused))"
    and "held g = H - set us" and "set us \<subseteq> olds - {[]}" and "set (map fst changed) \<subseteq> olds"
  shows "case res of Inl _ \<Rightarrow> undone H olds (held g') refused
    | Inr us' \<Rightarrow> refused = [] \<and> held g' = H - set us' \<and> set us' \<subseteq> olds - {[]}
        \<and> set us' = set us \<union> (set (map fst changed) - {[]})"
  using assms(2-)
proof (induction changed arbitrary: us g)
  case (Cons pair changed)
  obtain old new_value where pair: "pair = (old, new_value)" by fastforce
  show ?case
  proof (cases "old = []")
    case True
    with pair have same: "set (map fst (pair # changed)) - {[]} = set (map fst changed) - {[]}" by simp
    show ?thesis unfolding same by (rule Cons.IH) (use Cons.prems pair True in auto)
  next
    case False
    obtain r g1 refused1 where un: "so_unregister (audited P) old (g, []) = (r, (g1, refused1))" by (metis prod_cases3)
    show ?thesis
    proof (cases r)
      case (Inl e)
      note C = audited_calls(4) [OF assms(1) un [unfolded Inl]]
      have res: "res = Inl (old, e)" "for_each_ignoring (so_register (audited P)) us (g1, refused1) = (g', refused)"
        using Cons.prems(1) un Inl False pair by simp_all
      from restore_all [OF assms(1) res(2)] C Cons.prems(2,3) res(1) show ?thesis
        by (auto simp: undone_def)
    next
      case (Inr u)
      note C = audited_calls(3) [OF assms(1) un [unfolded Inr]]
      have "unregister_changed (audited P) (us @ [old]) changed (g1, []) = (res, (g', refused))"
        using Cons.prems(1) un Inr False pair C by simp
      then have "case res of Inl _ \<Rightarrow> undone H olds (held g') refused
        | Inr us' \<Rightarrow> refused = [] \<and> held g' = H - set us' \<and> set us' \<subseteq> olds - {[]}
            \<and> set us' = set (us @ [old]) \<union> (set (map fst changed) - {[]})"
        by (rule Cons.IH) (use Cons.prems C False pair in auto)
      then show ?thesis using False pair by (auto split: sum.splits)
    qed
  qed
qed auto

lemma register_changed_held:
  assumes "port_table P held" and "register_changed (audited P) us vs changed (g, []) = (res, (g', refused))"
    and "held g = (H - set us) \<union> set vs" and "set vs \<inter> (H - set us) = {}" and "set us \<subseteq> olds - {[]}"
  shows "case res of Inl _ \<Rightarrow> undone H olds (held g') refused
    | Inr _ \<Rightarrow> refused = [] \<and> held g' = (H - set us) \<union> set vs \<union> (set (map snd changed) - {[]})"
  using assms(2-4)
proof (induction changed arbitrary: vs g)
  case (Cons pair changed)
  obtain old new_value where pair: "pair = (old, new_value)" by fastforce
  show ?case
  proof (cases "new_value = []")
    case True
    with pair have same: "set (map snd (pair # changed)) - {[]} = set (map snd changed) - {[]}" by simp
    show ?thesis unfolding same by (rule Cons.IH) (use Cons.prems pair True in auto)
  next
    case False
    obtain r g1 refused1 where reg: "so_register (audited P) new_value (g, []) = (r, (g1, refused1))" by (metis prod_cases3)
    show ?thesis
    proof (cases r)
      case (Inl e)
      note C = audited_calls(2) [OF assms(1) reg [unfolded Inl]]
      obtain g2 refused2 where release: "for_each_ignoring (so_unregister (audited P)) vs (g1, refused1) = (g2, refused2)"
        by fastforce
      have "filter (\<lambda>v. v \<noteq> []) us = us" using assms(5) by (auto simp: filter_id_conv)
      then have res: "res = Inl (new_value, e)" "for_each_ignoring (so_register (audited P)) us (g2, refused2) = (g', refused)"
        using Cons.prems(1) reg release Inl False pair by simp_all
      from release_all_values [OF assms(1) release] obtain l1 where l1: "refused2 = refused1 @ l1" "held g1 - set vs \<subseteq> held g2"
        "held g2 \<subseteq> held g1" "\<forall>v\<in>set vs. v \<notin> held g2 \<or> Unregistering v \<in> set l1" "\<forall>v. Registering v \<notin> set l1" by blast
      from restore_all [OF assms(1) res(2)] obtain l2 where l2: "refused = refused2 @ l2" "held g2 \<subseteq> held g'"
        "held g' \<subseteq> held g2 \<union> set us" "\<forall>v\<in>set us. v \<in> held g' \<or> Registering v \<in> set l2" by blast
      have tail: "set (tl refused) = set l1 \<union> set l2" using C l1(1) l2(1) by simp
      have g1: "held g1 = (H - set us) \<union> set vs" using C Cons.prems(2) by simp
      have "H - set us \<subseteq> held g1 - set vs" unfolding g1 using Cons.prems(3) by blast
      then have kept: "H - set us \<subseteq> held g'" using l1(2) l2(2) by blast
      have "H - {v. Registering v \<in> set l2} \<subseteq> held g'"
      proof
        fix v assume v: "v \<in> H - {v. Registering v \<in> set l2}"
        show "v \<in> held g'"
        proof (cases "v \<in> set us")
          case True
          with v l2(4) show ?thesis by blast
        qed (use v kept in blast)
      qed
      moreover have "held g2 \<subseteq> (H - set us) \<union> {v. Unregistering v \<in> set l1}" using Cons.prems(2) C l1(3,4) by auto
      then have "held g' \<subseteq> H \<union> (olds - {[]}) \<union> {v. Unregistering v \<in> set l1}" using l2(3) assms(5) by auto
      ultimately show ?thesis unfolding res(1) undone_def sum.case tail by auto
    next
      case (Inr u)
      note C = audited_calls(1) [OF assms(1) reg [unfolded Inr]]
      have "register_changed (audited P) us (vs @ [new_value]) changed (g1, []) = (res, (g', refused))"
        using Cons.prems(1) reg Inr False pair C by simp
      then have "case res of Inl _ \<Rightarrow> undone H olds (held g') refused
        | Inr _ \<Rightarrow> refused = [] \<and> held g' = (H - set us) \<union> set (vs @ [new_value]) \<union> (set (map snd changed) - {[]})"
        by (rule Cons.IH) (use Cons.prems(2,3) C in auto)
      then show ?thesis using False pair by (auto split: sum.splits)
    qed
  qed
qed auto

section \<open>The properties\<close>

text \<open>The canonical form of a shortcut is a fixed point: whatever a user typed, the form stored and
  compared is read back as itself, and it is never empty, which would mean that no shortcut is set.\<close>

theorem canonical_shortcut_stable:
  assumes "canonical_runtime_toggle_shortcut parse v = Inr (Some w)"
  shows "canonical_runtime_toggle_shortcut parse w = Inr (Some w) \<and> w \<noteq> []"
proof -
  obtain p key where key: "key \<in> canonical_keys" and w: "w = join_plus (shown_parts p key)" and rest: "parse w \<noteq> None"
    "sp_ctrl p \<or> sp_alt p \<or> sp_shift p \<or> sp_meta p \<or> allows_single_runtime_toggle_key key"
    using canonical_shape [OF assms] by metis
  from canonical_shown [OF key, of parse p] rest w have "canonical_runtime_toggle_shortcut parse w = Inr (Some w)" by simp
  moreover have "w \<noteq> []" unfolding w using canonical_key_ok [OF key]
    by (auto simp: shown_parts_def key_ok_def to_ascii_lowercase_def)
  ultimately show ?thesis ..
qed

lemma canonical_shortcut_stable_witness:
  "canonical_runtime_toggle_shortcut Some '' Ctrl + Option + f05'' = Inr (Some ''control+alt+F5'')
   \<and> canonical_runtime_toggle_shortcut Some ''control+alt+F5'' = Inr (Some ''control+alt+F5'')"
proof -
  have "canonical_runtime_toggle_shortcut Some '' Ctrl + Option + f05'' = Inr (Some ''control+alt+F5'')" by code_simp
  with canonical_shortcut_stable [OF this] show ?thesis by simp
qed

text \<open>C13. A change of the control hotkeys happens completely or is undone as far as the system lets it. When it
  succeeds, no call was refused and exactly the changed hotkeys are exchanged. When a call is refused, the
  application keeps its record, every hotkey held before is held again unless the system also refused its
  registration during the undo, and nothing else is held but hotkeys of the record and new ones whose
  unregistration the system refused during the undo. The registry promises only that a registration that
  succeeds adds a value that was not registered, that an unregistration that succeeds leaves the value
  unregistered, and that a refused call changes nothing.\<close>

theorem hotkeys_change_undone:
  assumes "port_table P held" and "control_hotkeys_for_layout parse layout = Inr after"
    and "sync_control_hotkeys parse (audited P) layout current (g, []) = (res, current', (g', refused))"
  shows "case res of
      Inl _ \<Rightarrow> current' = current \<and> held g - {v. Registering v \<in> set (tl refused)} \<subseteq> held g'
        \<and> held g' \<subseteq> held g \<union> (set (hotkey_values current) - {[]}) \<union> {v. Unregistering v \<in> set (tl refused)}
    | Inr _ \<Rightarrow> current' = after \<and> refused = [] \<and> held g' =
        held g - (set (map fst (changed_values current after)) - {[]}) \<union> (set (map snd (changed_values current after)) - {[]})"
proof (cases "current = after")
  case True
  with assms(2,3) show ?thesis by (auto simp: sync_control_hotkeys_def changed_values_def hotkey_values_def)
next
  case False
  let ?C = "changed_values current after"
  have olds: "set (map fst ?C) \<subseteq> set (hotkey_values current)" by (auto simp: changed_values_def hotkey_values_def)
  obtain r1 g1 refused1 where un: "unregister_changed (audited P) [] ?C (g, []) = (r1, (g1, refused1))" by (metis prod_cases3)
  note U = unregister_changed_held [OF assms(1) un, of "held g" "set (hotkey_values current)", simplified, OF olds [simplified]]
  show ?thesis
  proof (cases r1)
    case (Inl e)
    with U un assms(2,3) False show ?thesis by (auto simp: sync_control_hotkeys_def undone_def)
  next
    case (Inr us)
    note U = U [unfolded Inr, simplified]
    obtain r2 g2 refused2 where reg: "register_changed (audited P) us [] ?C (g1, []) = (r2, (g2, refused2))" by (metis prod_cases3)
    have R: "case r2 of Inl _ \<Rightarrow> undone (held g) (set (hotkey_values current)) (held g2) refused2
      | Inr _ \<Rightarrow> refused2 = [] \<and> held g2 = (held g - set us) \<union> set [] \<union> (set (map snd ?C) - {[]})"
      by (rule register_changed_held [OF assms(1) reg]) (use U in auto)
    with U un reg Inr assms(2,3) False show ?thesis
      by (cases r2) (auto simp: sync_control_hotkeys_def undone_def)
  qed
qed

text \<open>A registry that holds a list of values and refuses one that another program uses.\<close>

definition demo_port :: "string list shortcut_port" where
  "demo_port = \<lparr>so_register = (\<lambda>v g. if v \<in> set g \<or> v = ''control+alt+F5'' then (Inl ''taken'', g) else (Inr (), v # g)),
     so_unregister = (\<lambda>v g. if v \<in> set g then (Inr (), filter (\<lambda>x. x \<noteq> v) g) else (Inl ''missing'', g))\<rparr>"

definition demo_hotkey_layout :: layout_state where
  "demo_hotkey_layout = \<lparr>ly_devices = [], ly_active_device_id = [], ly_selected_screen_id = [], ly_input_mode = ''control'',
     ly_machine_role = ''server'', ly_cluster_id = [], ly_pair_secret = [], ly_paired_controllers = [], ly_trusted_peers = [],
     ly_clipboard_sync = False, ly_clipboard_image_sync = False, ly_clipboard_text_limit_bytes = 0,
     ly_file_transfer_enabled = False, ly_language = ''en'', ly_theme_mode = ''dark'', ly_performance_monitor = False,
     ly_transport_port_mode = ''auto'', ly_transport_port = 47833, ly_quic_port = 0, ly_modifier_remap = False,
     ly_modifier_map = \<lparr>mm_control = ''same'', mm_alt = ''same'', mm_meta = ''same''\<rparr>,
     ly_edge_switch_hotkey = ''off'', ly_screen_switch_hotkeys = default_screen_switch_hotkeys,
     ly_control_hotkeys = \<lparr>hk_control_mac = ''ctrl+alt+f1'', hk_return_windows = ''ctrl+alt+f5'', hk_emergency_return = ''off''\<rparr>,
     ly_game_mode = False\<rparr>"

lemma demo_hotkeys:
  "control_hotkeys_for_layout Some demo_hotkey_layout
    = Inr \<lparr>hk_control_mac = ''control+alt+F1'', hk_return_windows = ''control+alt+F5'', hk_emergency_return = []\<rparr>"
  by code_simp

lemma hotkeys_change_undone_witness:
  "\<exists>e g' refused. sync_control_hotkeys Some (audited demo_port) demo_hotkey_layout
      \<lparr>hk_control_mac = ''F9'', hk_return_windows = ''F10'', hk_emergency_return = []\<rparr> ([''F9'', ''F10'', ''F11''], [])
      = (Inl e, \<lparr>hk_control_mac = ''F9'', hk_return_windows = ''F10'', hk_emergency_return = []\<rparr>, (g', refused))
    \<and> set g' = {''F9'', ''F10'', ''F11''}"
proof -
  let ?old = "\<lparr>hk_control_mac = ''F9'', hk_return_windows = ''F10'', hk_emergency_return = []\<rparr>"
  obtain res current' g' refused where run: "sync_control_hotkeys Some (audited demo_port) demo_hotkey_layout ?old
      ([''F9'', ''F10'', ''F11''], []) = (res, current', (g', refused))" by (metis prod_cases3)
  have port: "port_table demo_port set" by (auto simp: port_table_def demo_port_def split: if_splits)
  have "\<not> is_ok res" "tl refused = []" using run
    by (auto simp: sync_control_hotkeys_def demo_hotkeys demo_port_def audited_def changed_values_def hotkey_values_def)
  with hotkeys_change_undone [OF port demo_hotkeys run] run show ?thesis by (cases res) (auto simp: hotkey_values_def)
qed

text \<open>
  A letter is not a function key, but the letter F alone is accepted as a shortcut: the test for a key that
  needs no modifier looks only at its first character.
\<close>

lemma letter_f_needs_no_modifier:
  "canonical_runtime_toggle_shortcut Some ''f'' = Inr (Some ''F'')
   \<and> canonical_runtime_toggle_shortcut Some ''g'' = (Inl NeedsModifier :: (shortcut_error, string option) result)"
  by code_simp

end
