(* ===== verification/Settings_Rules.thy ===== *)
theory Settings_Rules
  imports Settings Shortcut_Rules
begin

text \<open>
  What saving settings may change, and what the validation of the shortcuts is worth: every hotkey that
  passed it reaches its own action.
\<close>

section \<open>Saving\<close>

lemma save_layout_cases:
  assumes "save_layout encode parse outcome lock_free layout s = (res, s')"
  obtains (refused) e where "res = Inl e" and "s' = s"
  | (unwritten) e where "res = Inl (WriteFailed e)" and "s' = s\<lparr>st_file := st_file s'\<rparr>"
  | (saved) pair where "res = Inr pair" and "validate_layout_ipc encode parse layout = Inr ()"
      and "st_layout s' = merge_runtime_owned_layout_fields layout (st_layout s)"
      and "validate_layout_shortcut_conflicts parse (st_layout s') = Inr ()"
      and "st_file s' = Some (st_layout s')" and "gm_local_game_mode (st_cells s') = ly_game_mode (st_layout s')"
      and "hot_gate (st_hotkeys s') = (if ly_game_mode (st_layout s') \<and> \<not> ly_game_mode (st_layout s)
        then request_local (hot_gate (st_hotkeys s)) else hot_gate (st_hotkeys s))"
proof (cases "validate_layout_ipc encode parse layout")
  case (Inl e)
  with assms show ?thesis by (intro refused) (auto simp: save_layout_def)
next
  case valid: (Inr u)
  let ?saved = "merge_runtime_owned_layout_fields layout (st_layout s)"
  show ?thesis
  proof (cases "validate_layout_shortcut_conflicts parse ?saved")
    case (Inl e)
    with assms valid show ?thesis by (intro refused) (auto simp: save_layout_def Let_def)
  next
    case free: (Inr v)
    show ?thesis
    proof (cases outcome)
      case Written
      with assms valid free show ?thesis
        by (intro saved) (auto simp: save_layout_def Let_def write_layout_to_disk_def set_local_game_mode_def split: if_splits)
    next
      case (NotWritten e)
      with assms valid free show ?thesis
        by (intro unwritten [of e]) (auto simp: save_layout_def Let_def write_layout_to_disk_def)
    next
      case (Spoiled e)
      with assms valid free show ?thesis
        by (intro unwritten [of e]) (auto simp: save_layout_def Let_def write_layout_to_disk_def)
    qed
  qed
qed

text \<open>C12. Saving settings cannot touch the trust: whatever snapshot the user interface sends, the trust
  list, the group and its secret stay as they were (the list of paired controllers, which grants no trust,
  may come from the snapshot when it is empty); a snapshot that is refused or cannot be written
  changes nothing in memory; one that is saved is what the file holds, with shortcuts free of conflicts;
  and turning the game mode on gives the input back to this machine at once.\<close>

theorem saving_keeps_pairing:
  assumes "save_layout encode parse outcome lock_free layout s = (res, s')"
  shows "ly_trusted_peers (st_layout s') = ly_trusted_peers (st_layout s)
    \<and> ly_cluster_id (st_layout s') = ly_cluster_id (st_layout s) \<and> ly_pair_secret (st_layout s') = ly_pair_secret (st_layout s)
    \<and> (case res of
         Inl _ \<Rightarrow> s' = s\<lparr>st_file := st_file s'\<rparr>
       | Inr _ \<Rightarrow> st_file s' = Some (st_layout s') \<and> validate_layout_shortcut_conflicts parse (st_layout s') = Inr ()
           \<and> gm_local_game_mode (st_cells s') = ly_game_mode (st_layout s')
           \<and> hot_gate (st_hotkeys s') = (if ly_game_mode (st_layout s') \<and> \<not> ly_game_mode (st_layout s)
               then request_local (hot_gate (st_hotkeys s)) else hot_gate (st_hotkeys s)))"
  using assms
proof (cases rule: save_layout_cases)
  case (refused e)
  then show ?thesis by simp
next
  case (unwritten e)
  then have "st_layout s' = st_layout s" by (metis settings_state.select_convs(1) settings_state.surjective settings_state.update_convs(2))
  with unwritten show ?thesis by simp
next
  case (saved pair)
  then show ?thesis by (simp add: runtime_owned_frame)
qed

definition demo_settings :: settings_state where
  "demo_settings = \<lparr>st_layout = demo_hotkey_layout\<lparr>ly_pair_secret := ''secret''\<rparr>, st_file = None,
     st_cells = \<lparr>gm_local_game_mode = False, gm_focus_fault = None, gm_fault_poisoned = False\<rparr>,
     st_hotkeys = \<lparr>hot_deduper = 0, hot_pending = None, hot_gate = 4\<rparr>\<rparr>"

lemma saving_keeps_pairing_witness:
  "ly_pair_secret (st_layout (snd (save_layout (\<lambda>_. Inr []) Some Written True
      (demo_hotkey_layout\<lparr>ly_pair_secret := ''forged'', ly_game_mode := True, ly_machine_role := ''client''\<rparr>) demo_settings))) = ''secret''"
  using saving_keeps_pairing [OF prod.collapse [symmetric], of "\<lambda>_. Inr []" Some Written True
      "demo_hotkey_layout\<lparr>ly_pair_secret := ''forged'', ly_game_mode := True, ly_machine_role := ''client''\<rparr>" demo_settings]
  by (simp add: demo_settings_def)

section \<open>Hotkeys\<close>

lemma conflict_scan_canonical:
  "conflict_scan parse canonical entries = Inr () \<Longrightarrow>
     \<forall>(slot, raw)\<in>set entries. is_ok (canonical_runtime_toggle_shortcut parse raw)"
proof (induction entries arbitrary: canonical)
  case (Cons entry entries)
  obtain label raw where entry: "entry = (label, raw)" by fastforce
  with Cons.prems obtain v where v: "canonical_runtime_toggle_shortcut parse raw = Inr v" by auto
  have "\<exists>canonical'. conflict_scan parse canonical' entries = Inr ()"
    using Cons.prems entry v by (cases v) (auto split: option.splits)
  with Cons.IH entry v show ?case by auto
qed simp

lemma canonical_nonempty: "canonical_runtime_toggle_shortcut parse raw = Inr (Some w) \<Longrightarrow> w \<noteq> []"
proof -
  assume "canonical_runtime_toggle_shortcut parse raw = Inr (Some w)"
  then obtain p key where key: "key \<in> canonical_keys" and w: "w = join_plus (shown_parts p key)"
    by (rule canonical_shape)
  from canonical_key_ok [OF key] show "w \<noteq> []" unfolding w
    by (auto simp: shown_parts_def key_ok_def to_ascii_lowercase_def)
qed

text \<open>The shortcuts of a layout that passed the validation have canonical forms, different wherever they are set.\<close>

lemma validated_values:
  assumes "ly_machine_role layout = ''server''" and "validate_layout_shortcut_conflicts parse layout = Inr ()"
  obtains vals where "\<And>slot raw. (slot, raw) \<in> set (shortcut_entries layout) \<Longrightarrow>
      canonical_runtime_toggle_shortcut parse raw = Inr (vals slot)"
    and "distinct (concat (map (\<lambda>(slot, raw). case vals slot of None \<Rightarrow> [] | Some v \<Rightarrow> [v]) (shortcut_entries layout)))"
proof -
  define canon where "canon raw = (case canonical_runtime_toggle_shortcut parse raw of Inl _ \<Rightarrow> None | Inr v \<Rightarrow> v)" for raw
  define vals where "vals slot = (case map_of (shortcut_entries layout) slot of None \<Rightarrow> None | Some raw \<Rightarrow> canon raw)" for slot
  have scan: "conflict_scan parse [] (shortcut_entries layout) = Inr ()"
    using assms(1,2) by (simp add: validate_layout_shortcut_conflicts_def)
  have canon: "canonical_runtime_toggle_shortcut parse raw = Inr (canon raw)" if "(slot, raw) \<in> set (shortcut_entries layout)" for slot raw
    using conflict_scan_canonical [OF scan] that by (fastforce simp: canon_def is_ok_iff split: sum.splits)
  have entries: "map_of (shortcut_entries layout) slot = Some raw" if "(slot, raw) \<in> set (shortcut_entries layout)" for slot raw
    using that by (auto simp: shortcut_entries_def)
  have vals: "canonical_runtime_toggle_shortcut parse raw = Inr (vals slot)" if "(slot, raw) \<in> set (shortcut_entries layout)" for slot raw
    using canon [OF that] entries [OF that] by (simp add: vals_def)
  then have "\<forall>(slot, raw)\<in>set (shortcut_entries layout). canonical_runtime_toggle_shortcut parse raw = Inr (vals slot)" by auto
  from that [OF vals] conflict_scan_distinct [OF scan _ this] show ?thesis by simp
qed

lemma distinct_concat_map:
  assumes "distinct (concat (map f xs))" and "x \<in> set xs" and "y \<in> set xs" and "v \<in> set (f x)" and "v \<in> set (f y)"
  shows "x = y"
  using assms by (induction xs) auto

lemma validated_slots_differ:
  assumes "ly_machine_role layout = ''server''" and "validate_layout_shortcut_conflicts parse layout = Inr ()"
    and "(slot, raw) \<in> set (shortcut_entries layout)" and "canonical_runtime_toggle_shortcut parse raw = Inr (Some v)"
    and "(slot', raw') \<in> set (shortcut_entries layout)" and "canonical_runtime_toggle_shortcut parse raw' = Inr (Some v)"
  shows "slot = slot'"
proof -
  obtain vals where vals: "\<And>slot raw. (slot, raw) \<in> set (shortcut_entries layout) \<Longrightarrow>
      canonical_runtime_toggle_shortcut parse raw = Inr (vals slot)"
    and distinct: "distinct (concat (map (\<lambda>(slot, raw). case vals slot of None \<Rightarrow> [] | Some v \<Rightarrow> [v]) (shortcut_entries layout)))"
    using validated_values [OF assms(1,2)] by blast
  have "vals slot = Some v" "vals slot' = Some v" using vals [OF assms(3)] vals [OF assms(5)] assms(4,6) by simp_all
  with distinct_concat_map [OF distinct assms(3,5), of v] show ?thesis by simp
qed

lemma validated_hotkeys_differ:
  assumes "ly_machine_role layout = ''server''" and "validate_layout_shortcut_conflicts parse layout = Inr ()"
    and "control_hotkeys_for_layout parse layout = Inr h"
  shows "distinct (filter (\<lambda>v. v \<noteq> []) (hotkey_values h))"
proof -
  obtain vals where vals: "\<And>slot raw. (slot, raw) \<in> set (shortcut_entries layout) \<Longrightarrow>
      canonical_runtime_toggle_shortcut parse raw = Inr (vals slot)"
    and distinct: "distinct (concat (map (\<lambda>(slot, raw). case vals slot of None \<Rightarrow> [] | Some v \<Rightarrow> [v]) (shortcut_entries layout)))"
    using validated_values [OF assms(1,2)] by blast
  have canons: "canonical_runtime_toggle_shortcut parse (hk_control_mac (ly_control_hotkeys layout)) = Inr (vals SlotControlMac)"
    "canonical_runtime_toggle_shortcut parse (hk_return_windows (ly_control_hotkeys layout)) = Inr (vals SlotReturnWindows)"
    "canonical_runtime_toggle_shortcut parse (hk_emergency_return (ly_control_hotkeys layout)) = Inr (vals SlotEmergency)"
    using vals by (auto simp: shortcut_entries_def)
  have h: "hotkey_values h = map (\<lambda>slot. unwrap_shortcut (vals slot)) [SlotControlMac, SlotReturnWindows, SlotEmergency]"
    using assms(1,3) canons by (auto simp: control_hotkeys_for_layout_def hotkey_values_def)
  from distinct have three: "distinct (concat (map (\<lambda>v. case v of None \<Rightarrow> [] | Some v \<Rightarrow> [v])
      [vals SlotControlMac, vals SlotReturnWindows, vals SlotEmergency]))"
    by (auto simp: shortcut_entries_def split: option.splits)
  then show ?thesis
    unfolding h using canonical_nonempty canons
    by (cases "vals SlotControlMac"; cases "vals SlotReturnWindows"; cases "vals SlotEmergency") (auto simp: unwrap_shortcut_def)
qed

lemma find_shortcut_own:
  assumes "(v, action) \<in> set entries" and "v \<noteq> []" and "parse v = Some k"
    and "\<And>w. w \<in> set (map fst entries) \<Longrightarrow> parse w = Some k \<Longrightarrow> w = v"
    and "distinct (filter (\<lambda>v. v \<noteq> []) (map fst entries))"
  shows "find_shortcut parse k entries = Some action"
  using assms(1,4,5)
proof (induction entries)
  case (Cons entry entries)
  obtain w other where entry: "entry = (w, other)" by fastforce
  show ?case
  proof (cases "w \<noteq> [] \<and> parse w = Some k")
    case True
    with Cons.prems entry have w: "w = v" by auto
    have "(v, action) \<notin> set entries" using Cons.prems(3) entry w True by (auto simp: image_iff)
    with Cons.prems(1) entry w True show ?thesis by auto
  next
    case False
    then have "entry \<noteq> (v, action)" using assms(2,3) entry by auto
    with False Cons.prems entry Cons.IH show ?thesis by (auto split: if_splits)
  qed
qed simp

text \<open>C14. A hotkey reaches its own action on the controller (the server role): when the shortcuts of a layout passed the validation, the control
  hotkeys registered for it dispatch exactly the action they stand for, whichever of them is pressed,
  provided the plugin reads different registered shortcuts differently.\<close>

theorem hotkey_reaches_its_action:
  assumes "ly_machine_role layout = ''server''" and "validate_layout_shortcut_conflicts parse layout = Inr ()"
    and "control_hotkeys_for_layout parse layout = Inr (ss_control_hotkeys s)" and "ss_machine_role s = ''server''"
    and "(v, action) \<in> set (control_actions (ss_control_hotkeys s))" and "v \<noteq> []" and "parse v = Some k"
    and "\<And>w. w \<in> set (hotkey_values (ss_control_hotkeys s)) \<Longrightarrow> parse w = Some k \<Longrightarrow> w = v"
  shows "route_global_shortcut parse lock_free k pressed s =
    (False, s\<lparr>ss_hotkeys := snd (dispatch_control_hotkey lock_free action pressed (ss_hotkeys s))\<rparr>)"
proof -
  have fst: "map fst (control_actions (ss_control_hotkeys s)) = hotkey_values (ss_control_hotkeys s)"
    by (simp add: control_actions_def hotkey_values_def)
  have "find_shortcut parse k (control_actions (ss_control_hotkeys s)) = Some action"
    by (rule find_shortcut_own [where parse = parse and v = v])
      (use assms(5-8) fst validated_hotkeys_differ [OF assms(1-3)] in \<open>simp_all\<close>)
  with assms(4) show ?thesis by (simp add: route_global_shortcut_def)
qed

definition demo_shortcut_state :: shortcut_state where
  "demo_shortcut_state = \<lparr>ss_machine_role = ''server'', ss_control_hotkeys = \<lparr>hk_control_mac = ''control+alt+F1'',
     hk_return_windows = ''control+alt+F5'', hk_emergency_return = []\<rparr>,
     ss_hotkeys = \<lparr>hot_deduper = 0, hot_pending = None, hot_gate = 4\<rparr>, ss_runtime_toggle = None,
     ss_directions = default_screen_switch_hotkeys, ss_switch_request = None\<rparr>"

lemma demo_canonical:
  "canonical_runtime_toggle_shortcut Some ''off'' = Inr None"
  "canonical_runtime_toggle_shortcut Some ''ctrl+alt+f1'' = Inr (Some ''control+alt+F1'')"
  "canonical_runtime_toggle_shortcut Some ''ctrl+alt+f5'' = Inr (Some ''control+alt+F5'')"
  "canonical_runtime_toggle_shortcut Some ''alt+left'' = Inr (Some ''alt+arrowleft'')"
  "canonical_runtime_toggle_shortcut Some ''alt+right'' = Inr (Some ''alt+arrowright'')"
  "canonical_runtime_toggle_shortcut Some ''alt+up'' = Inr (Some ''alt+arrowup'')"
  "canonical_runtime_toggle_shortcut Some ''alt+down'' = Inr (Some ''alt+arrowdown'')"
  by code_simp+

lemma demo_layout_free: "validate_layout_shortcut_conflicts Some demo_hotkey_layout = Inr ()"
  by (simp add: validate_layout_shortcut_conflicts_def shortcut_entries_def demo_hotkey_layout_def
      default_screen_switch_hotkeys_def demo_canonical)

lemma demo_server: "ly_machine_role demo_hotkey_layout = ''server''"
  by (simp add: demo_hotkey_layout_def)

lemma hotkey_reaches_its_action_witness:
  "hot_pending (ss_hotkeys (snd (route_global_shortcut Some True ''control+alt+F5'' True demo_shortcut_state))) = Some GoLocal"
proof -
  have "route_global_shortcut Some True ''control+alt+F5'' True demo_shortcut_state = (False, demo_shortcut_state\<lparr>ss_hotkeys :=
      snd (dispatch_control_hotkey True GoLocal True (ss_hotkeys demo_shortcut_state))\<rparr>)"
    by (rule hotkey_reaches_its_action [OF demo_server demo_layout_free, of demo_shortcut_state "''control+alt+F5''"])
      (auto simp: demo_hotkeys demo_shortcut_state_def control_actions_def)
  then show ?thesis
    by (simp add: dispatch_control_hotkey_def deduper_press_def slot_offer_def demo_shortcut_state_def)
qed

end
