(* ===== verification/Peer_Rules.thy ===== *)
theory Peer_Rules
  imports Peer_Discovery "HOL-Library.Multiset"
begin

text \<open>
  The table of discovered peers: it never holds more than its limit or two entries of one machine,
  every machine heard of is in it, and room is made only by dropping stale entries and, when it is full,
  the entry heard of longest ago.
\<close>

section \<open>Removing an element\<close>

lemma swap_remove_mset:
  assumes "i < length xs"
  shows "mset xs = add_mset (xs ! i) (mset (swap_remove i xs))"
proof -
  have "xs = take i xs @ xs ! i # drop (Suc i) xs" using assms by (rule id_take_nth_drop)
  then obtain us x vs where xs: "xs = us @ x # vs" and us: "length us = i" and x: "x = xs ! i"
    using assms by (metis length_take less_imp_le min.absorb2)
  show ?thesis
  proof (cases vs rule: rev_cases)
    case Nil
    with xs us have "xs[i := last xs] = us @ [x]" by (simp add: list_update_append)
    then have "swap_remove i xs = us" by (simp only: swap_remove_def butlast_snoc)
    moreover have "mset xs = add_mset x (mset us)" by (subst xs) (simp add: Nil)
    ultimately show ?thesis by (simp add: x)
  next
    case (snoc ws l)
    with xs us have "xs[i := last xs] = (us @ l # ws) @ [l]" by (simp add: list_update_append)
    then have "swap_remove i xs = us @ l # ws" by (simp only: swap_remove_def butlast_snoc)
    moreover have "mset xs = add_mset x (mset (us @ l # ws))" by (subst xs) (simp add: snoc)
    ultimately show ?thesis by (simp add: x)
  qed
qed

lemma min_index_byD:
  assumes "min_index_by key xs = Some i"
  shows "i < length xs" and "\<forall>y\<in>set xs. key (xs ! i) \<le> key y"
  using position_SomeD [of "\<lambda>x. \<forall>y\<in>set xs. key x \<le> key y" xs i] assms
  by (auto simp: min_index_by_def split: if_splits)

lemma min_index_by_total: "xs \<noteq> [] \<Longrightarrow> \<exists>i. min_index_by key xs = Some i"
proof -
  assume ne: "xs \<noteq> []"
  define m where "m = Min (key ` set xs)"
  have "m \<in> key ` set xs" unfolding m_def using ne by (intro Min_in) auto
  then obtain x where x: "x \<in> set xs" "key x = m" by auto
  have "\<forall>y\<in>set xs. key x \<le> key y" unfolding x(2) m_def by (auto intro: Min_le)
  with x(1) ne show ?thesis
    by (cases "position (\<lambda>x. \<forall>y\<in>set xs. key x \<le> key y) xs") (auto simp: min_index_by_def position_None_iff)
qed

lemma update_first_members:
  assumes "distinct (map g xs)" and "x \<in> set xs" and "g x = k"
  shows "set (update_first (\<lambda>y. g y = k) (\<lambda>_. z) xs) = insert z {y \<in> set xs. g y \<noteq> k}"
  using assms
proof (induction xs)
  case (Cons y ys)
  show ?case
  proof (cases "g y = k")
    case True
    have "g q \<noteq> k" if "q \<in> set ys" for q using Cons.prems(1) True imageI [OF that, of g] by auto
    with True show ?thesis by auto
  next
    case False
    with Cons have "set (update_first (\<lambda>y. g y = k) (\<lambda>_. z) ys) = insert z {y \<in> set ys. g y \<noteq> k}" by auto
    with False show ?thesis by auto
  qed
qed simp

section \<open>The table\<close>

definition table_ok :: "lan_peer list \<Rightarrow> bool" where
  "table_ok peers \<longleftrightarrow> length peers \<le> MAX_DISCOVERY_PEERS \<and> distinct (map lp_id peers)"

lemma table_ok_filter: "table_ok peers \<Longrightarrow> table_ok (filter P peers)"
  by (auto simp: table_ok_def distinct_map_filter intro: order_trans [OF length_filter_le])

text \<open>Merging, by whether the machine is known and whether the table is full.\<close>

lemma merge_cases:
  fixes now peers
  assumes "table_ok peers"
  defines "fresh \<equiv> prune_stale_peer_entries now peers"
  obtains (known) "\<exists>p\<in>set fresh. lp_id p = lp_id peer"
      and "set (merge_peer_entry now peer peers) = insert peer {p \<in> set fresh. lp_id p \<noteq> lp_id peer}"
      and "map lp_id (merge_peer_entry now peer peers) = map lp_id fresh"
  | (added) "\<forall>p\<in>set fresh. lp_id p \<noteq> lp_id peer" and "length fresh < MAX_DISCOVERY_PEERS"
      and "merge_peer_entry now peer peers = fresh @ [peer]"
  | (evicted) rest oldest where "\<forall>p\<in>set fresh. lp_id p \<noteq> lp_id peer" and "length fresh = MAX_DISCOVERY_PEERS"
      and "merge_peer_entry now peer peers = rest @ [peer]" and "mset fresh = add_mset oldest (mset rest)"
      and "\<forall>p\<in>set fresh. lp_last_seen_ms oldest \<le> lp_last_seen_ms p"
proof -
  have ok: "table_ok fresh" unfolding fresh_def prune_stale_peer_entries_def using assms(1) by (rule table_ok_filter)
  show ?thesis
  proof (cases "\<exists>p\<in>set fresh. lp_id p = lp_id peer")
    case True
    then obtain p where p: "p \<in> set fresh" "lp_id p = lp_id peer" by blast
    from True have merged: "merge_peer_entry now peer peers = update_first (\<lambda>q. lp_id q = lp_id peer) (\<lambda>_. peer) fresh"
      by (simp add: merge_peer_entry_def Let_def fresh_def)
    have "map lp_id (update_first (\<lambda>q. lp_id q = lp_id peer) (\<lambda>_. peer) xs) = map lp_id xs" for xs
      by (induction xs) auto
    with merged update_first_members [of lp_id fresh p "lp_id peer" peer] p ok True show ?thesis by (intro known) (auto simp: table_ok_def)
  next
    case False
    show ?thesis
    proof (cases "length fresh < MAX_DISCOVERY_PEERS")
      case True
      with False show ?thesis by (intro added) (auto simp: merge_peer_entry_def Let_def fresh_def)
    next
      case full: False
      with ok have len: "length fresh = MAX_DISCOVERY_PEERS" by (simp add: table_ok_def)
      then have "fresh \<noteq> []" by (auto simp: MAX_DISCOVERY_PEERS_def)
      then obtain i where i: "min_index_by lp_last_seen_ms fresh = Some i" using min_index_by_total by blast
      have "merge_peer_entry now peer peers = swap_remove i fresh @ [peer]"
        using False full i by (auto simp: merge_peer_entry_def Let_def fresh_def)
      with False len min_index_byD [OF i] swap_remove_mset [of i fresh] show ?thesis
        by (intro evicted [of "swap_remove i fresh" "fresh ! i"]) auto
    qed
  qed
qed

lemma merge_table_ok:
  assumes "table_ok peers"
  shows "table_ok (merge_peer_entry now peer peers)"
proof -
  have ok: "table_ok (prune_stale_peer_entries now peers)"
    unfolding prune_stale_peer_entries_def using assms by (rule table_ok_filter)
  from assms show ?thesis
  proof (cases rule: merge_cases [where now = now and peer = peer])
    case known
    with ok show ?thesis by (metis table_ok_def length_map)
  next
    case added
    with ok show ?thesis by (auto simp: table_ok_def)
  next
    case (evicted rest oldest)
    from mset_eq_length [of "prune_stale_peer_entries now peers" "oldest # rest"] evicted(2,4)
    have "Suc (length rest) = MAX_DISCOVERY_PEERS" by simp
    moreover from evicted(4) have "mset (map lp_id (prune_stale_peer_entries now peers)) = mset (map lp_id (oldest # rest))"
      by simp
    then have "distinct (map lp_id (oldest # rest))" using ok unfolding table_ok_def by (metis mset_eq_imp_distinct_iff)
    moreover have "set rest \<subseteq> set (prune_stale_peer_entries now peers)"
      using evicted(4) by (metis set_mset_mset set_mset_add_mset_insert subset_insertI)
    ultimately show ?thesis using evicted(1,3) by (auto simp: table_ok_def)
  qed
qed

text \<open>What happens to the table over time: a machine is heard of, or a turn passes without news.\<close>

datatype table_event = Heard u64 lan_peer | Quiet u64

fun table_step :: "lan_peer list \<Rightarrow> table_event \<Rightarrow> lan_peer list" where
  "table_step peers (Heard now peer) = merge_peer_entry now peer peers"
| "table_step peers (Quiet now) = prune_stale_peer_entries now peers"

lemma table_run_ok: "table_ok peers \<Longrightarrow> table_ok (foldl table_step peers events)"
proof (induction events arbitrary: peers)
  case (Cons event events)
  have "table_ok (table_step peers event)"
    using Cons.prems by (cases event) (simp_all add: merge_table_ok table_ok_filter prune_stale_peer_entries_def)
  with Cons.IH show ?case by simp
qed simp

lemma table_facts:
  fixes events :: "table_event list" and now :: u64 and peer :: lan_peer
  defines "peers \<equiv> foldl table_step [] events"
  defines "others \<equiv> {p \<in> set (prune_stale_peer_entries now peers). lp_id p \<noteq> lp_id peer}"
  shows "length peers \<le> MAX_DISCOVERY_PEERS \<and> distinct (map lp_id peers)
    \<and> peer \<in> set (merge_peer_entry now peer peers)
    \<and> set (merge_peer_entry now peer peers) \<subseteq> insert peer others
    \<and> (\<exists>dropped. others \<subseteq> set (merge_peer_entry now peer peers) \<union> dropped \<and> finite dropped
        \<and> card dropped \<le> (if length (prune_stale_peer_entries now peers) < MAX_DISCOVERY_PEERS then 0 else 1)
        \<and> dropped \<subseteq> {p. others \<subseteq> {q. lp_last_seen_ms p \<le> lp_last_seen_ms q}})"
proof -
  have ok: "table_ok peers" unfolding peers_def by (rule table_run_ok) (simp add: table_ok_def)
  have "peer \<in> set (merge_peer_entry now peer peers) \<and> set (merge_peer_entry now peer peers) \<subseteq> insert peer others
    \<and> (\<exists>dropped. others \<subseteq> set (merge_peer_entry now peer peers) \<union> dropped \<and> finite dropped
        \<and> card dropped \<le> (if length (prune_stale_peer_entries now peers) < MAX_DISCOVERY_PEERS then 0 else 1)
        \<and> dropped \<subseteq> {p. others \<subseteq> {q. lp_last_seen_ms p \<le> lp_last_seen_ms q}})"
    using ok
  proof (cases rule: merge_cases [where now = now and peer = peer])
    case known
    then show ?thesis by (intro conjI exI [of _ "{}"]) (auto simp: others_def)
  next
    case added
    then show ?thesis by (intro conjI exI [of _ "{}"]) (auto simp: others_def)
  next
    case (evicted rest oldest)
    then have members: "set (prune_stale_peer_entries now peers) = insert oldest (set rest)"
      by (metis set_mset_mset set_mset_add_mset_insert)
    show ?thesis
      by (intro conjI exI [of _ "{oldest}"]) (use evicted members in \<open>auto simp: others_def\<close>)
  qed
  with ok show ?thesis by (simp add: table_ok_def)
qed

text \<open>C22. The table of discovered peers is bounded and never lists a machine twice, whatever is announced;
  a machine heard of is in it, and to make room at most one fresh entry is dropped, only when the
  table is full, and it is one heard of longest ago.\<close>

theorem peer_table_bounded:
  "let peers = foldl table_step [] events; fresh = prune_stale_peer_entries now peers;
       others = {p \<in> set fresh. lp_id p \<noteq> lp_id peer}; peers' = merge_peer_entry now peer peers
   in length peers \<le> MAX_DISCOVERY_PEERS \<and> distinct (map lp_id peers)
    \<and> peer \<in> set peers' \<and> set peers' \<subseteq> insert peer others
    \<and> (\<exists>dropped. others \<subseteq> set peers' \<union> dropped \<and> finite dropped
        \<and> card dropped \<le> (if length fresh < MAX_DISCOVERY_PEERS then 0 else 1)
        \<and> dropped \<subseteq> {p. others \<subseteq> {q. lp_last_seen_ms p \<le> lp_last_seen_ms q}})"
  unfolding Let_def by (rule table_facts)

end
