(* ===== verification/Input_Hotkeys.thy ===== *)
theory Input_Hotkeys
  imports Shortcuts
begin

text \<open>
  The hotkeys the capture hook recognises itself (\<open>input.rs\<close>): the reading of a shortcut into modifiers and
  a virtual key, the parsed bindings of the three control hotkeys, and what the settings' canonical form
  (\<open>Shortcuts\<close>) guarantees about them.
\<close>

section \<open>Matching\<close>

record hotkey_modifiers =
  hm_ctrl :: bool
  hm_alt :: bool
  hm_shift :: bool
  hm_meta :: bool

definition no_modifiers :: hotkey_modifiers where
  "no_modifiers = \<lparr>hm_ctrl = False, hm_alt = False, hm_shift = False, hm_meta = False\<rparr>"

definition named_vks :: "(string \<times> u16) list" where
  "named_vks = [(''space'', 0x20), (''spacebar'', 0x20), (''tab'', 0x09), (''enter'', 0x0D), (''return'', 0x0D),
     (''esc'', 0x1B), (''escape'', 0x1B), (''scrolllock'', 0x91), (''scroll'', 0x91), (''scrlk'', 0x91),
     (''up'', 0x26), (''arrowup'', 0x26), (''down'', 0x28), (''arrowdown'', 0x28),
     (''left'', 0x25), (''arrowleft'', 0x25), (''right'', 0x27), (''arrowright'', 0x27)]"

definition function_number :: "string \<Rightarrow> nat option" where
  "function_number key =
     (case key of
        c # number \<Rightarrow>
          if c = CHR ''f'' then
            (case parse_uint 65535 number of
               Some n \<Rightarrow> if 1 \<le> n \<and> n \<le> 24 then Some n else None
             | None \<Rightarrow> None)
          else None
      | [] \<Rightarrow> None)"

definition hotkey_key_to_windows_vk :: "string \<Rightarrow> u16 option" where
  "hotkey_key_to_windows_vk key =
     (if length key = 1 \<and> is_ascii_alphabetic (hd key) then Some (of_nat (of_char (ascii_upper (hd key))))
      else if length key = 1 \<and> is_ascii_digit (hd key) then Some (of_nat (of_char (hd key)))
      else (case function_number key of
          Some n \<Rightarrow> Some (0x70 + of_nat n - 1)
        | None \<Rightarrow> map_of named_vks key))"

text \<open>The loop over the parts; \<open>None\<close> when a second key follows a recognised one.\<close>

primrec read_hotkey_parts ::
  "string list \<Rightarrow> hotkey_modifiers \<Rightarrow> u16 option \<Rightarrow> (hotkey_modifiers \<times> u16 option) option" where
  "read_hotkey_parts [] modifiers key_code = Some (modifiers, key_code)"
| "read_hotkey_parts (part # parts) modifiers key_code =
     (if part \<in> {''ctrl'', ''control''} then read_hotkey_parts parts (modifiers\<lparr>hm_ctrl := True\<rparr>) key_code
      else if part \<in> {''alt'', ''option''} then read_hotkey_parts parts (modifiers\<lparr>hm_alt := True\<rparr>) key_code
      else if part = ''shift'' then read_hotkey_parts parts (modifiers\<lparr>hm_shift := True\<rparr>) key_code
      else if part \<in> {''meta'', ''cmd'', ''command'', ''win'', ''windows'', ''super'', ''os''}
      then read_hotkey_parts parts (modifiers\<lparr>hm_meta := True\<rparr>) key_code
      else if key_code \<noteq> None then None
      else read_hotkey_parts parts modifiers (hotkey_key_to_windows_vk part))"

definition normalized_hotkey :: "string \<Rightarrow> string" where
  "normalized_hotkey v = filter (\<lambda>c. c \<noteq> CHR '' '') (to_ascii_lowercase (trim v))"

definition hotkey_off :: "string \<Rightarrow> bool" where
  "hotkey_off normalized \<longleftrightarrow> normalized = [] \<or> normalized \<in> {''disabled'', ''disable'', ''off'', ''none''}"

definition hotkey_parts :: "string \<Rightarrow> string list" where
  "hotkey_parts normalized = filter (\<lambda>part. part \<noteq> []) (split_on CHR ''+'' normalized)"

definition hotkey_matches_vk :: "string \<Rightarrow> u16 \<Rightarrow> hotkey_modifiers \<Rightarrow> bool" where
  "hotkey_matches_vk v key_code modifiers =
     (let normalized = normalized_hotkey v in
      if hotkey_off normalized then False
      else (case read_hotkey_parts (hotkey_parts normalized) no_modifiers None of
          None \<Rightarrow> False
        | Some (required, main_key) \<Rightarrow> main_key = Some key_code \<and> required = modifiers))"

definition screen_switch_hotkeys_match_vk :: "screen_switch_hotkeys \<Rightarrow> u16 \<Rightarrow> hotkey_modifiers \<Rightarrow> bool" where
  "screen_switch_hotkeys_match_vk h key_code modifiers =
     list_ex (\<lambda>hotkey. hotkey_matches_vk hotkey key_code modifiers) [sw_left h, sw_right h, sw_up h, sw_down h]"

definition screen_switch_hotkey_matches_vk :: "layout_state \<Rightarrow> u16 \<Rightarrow> hotkey_modifiers \<Rightarrow> bool" where
  "screen_switch_hotkey_matches_vk layout key_code modifiers =
     (if ly_machine_role layout \<noteq> ''server'' then False
      else screen_switch_hotkeys_match_vk (ly_screen_switch_hotkeys layout) key_code modifiers)"

definition control_hotkeys_match_vk ::
  "control_hotkeys \<Rightarrow> u16 \<Rightarrow> hotkey_modifiers \<Rightarrow> control_hotkey_action option" where
  "control_hotkeys_match_vk h key_code modifiers =
     find_map (\<lambda>(hotkey, action). if hotkey_matches_vk hotkey key_code modifiers then Some action else None)
       [(hk_emergency_return h, EmergencyLocal), (hk_return_windows h, GoLocal), (hk_control_mac h, GoMac)]"

section \<open>Parsed bindings\<close>

record control_hotkey_binding =
  cb_action :: control_hotkey_action
  cb_key_code :: u16
  cb_modifiers :: hotkey_modifiers

definition binding_matches :: "u16 \<Rightarrow> hotkey_modifiers \<Rightarrow> control_hotkey_binding \<Rightarrow> bool" where
  "binding_matches key_code modifiers binding \<longleftrightarrow> cb_key_code binding = key_code \<and> cb_modifiers binding = modifiers"

definition parse_control_hotkey_binding ::
  "string \<Rightarrow> control_hotkey_action \<Rightarrow> control_hotkey_binding option" where
  "parse_control_hotkey_binding v action =
     (let normalized = normalized_hotkey v in
      if hotkey_off normalized then None
      else (case read_hotkey_parts (hotkey_parts normalized) no_modifiers None of
          Some (modifiers, Some key_code) \<Rightarrow>
            Some \<lparr>cb_action = action, cb_key_code = key_code, cb_modifiers = modifiers\<rparr>
        | _ \<Rightarrow> None))"

definition control_hotkey_bindings :: "control_hotkeys \<Rightarrow> control_hotkey_binding option list" where
  "control_hotkey_bindings h =
     [parse_control_hotkey_binding (hk_emergency_return h) EmergencyLocal,
      parse_control_hotkey_binding (hk_return_windows h) GoLocal,
      parse_control_hotkey_binding (hk_control_mac h) GoMac]"

text \<open>The hook's search: a press must match exactly, a release by the key alone.\<close>

definition hook_control_action ::
  "control_hotkey_binding option list \<Rightarrow> u16 \<Rightarrow> hotkey_modifiers \<Rightarrow> bool \<Rightarrow> control_hotkey_action option" where
  "hook_control_action bindings key_code modifiers down =
     find_map (\<lambda>binding.
       if (down \<and> binding_matches key_code modifiers binding) \<or> (\<not> down \<and> cb_key_code binding = key_code)
       then Some (cb_action binding) else None) (List.map_filter id bindings)"

text \<open>The parsed bindings recognise a press exactly as the strings do.\<close>

lemma binding_iff_matches:
  "(\<exists>binding. parse_control_hotkey_binding v action = Some binding \<and> binding_matches key_code modifiers binding)
    \<longleftrightarrow> hotkey_matches_vk v key_code modifiers"
  by (auto simp: parse_control_hotkey_binding_def hotkey_matches_vk_def binding_matches_def Let_def
      split: option.splits)

lemma binding_action: "parse_control_hotkey_binding v action = Some binding \<Longrightarrow> cb_action binding = action"
  by (auto simp: parse_control_hotkey_binding_def Let_def split: if_splits option.splits prod.splits)

lemma find_map_bindings:
  "find_map (\<lambda>binding. if binding_matches key_code modifiers binding then Some (cb_action binding) else None)
     (List.map_filter id (map (\<lambda>(v, action). parse_control_hotkey_binding v action) hs))
   = find_map (\<lambda>(v, action). if hotkey_matches_vk v key_code modifiers then Some action else None) hs"
proof (induction hs)
  case Nil
  show ?case by (simp add: List.map_filter_simps)
next
  case (Cons entry hs)
  obtain v action where entry: "entry = (v, action)" by fastforce
  show ?case
    using Cons binding_iff_matches [of v action key_code modifiers] binding_action [of v action] entry
    by (cases "parse_control_hotkey_binding v action") (auto simp: List.map_filter_simps)
qed

lemma hook_press_is_match:
  "hook_control_action (control_hotkey_bindings h) key_code modifiers True = control_hotkeys_match_vk h key_code modifiers"
  using find_map_bindings [of key_code modifiers
      "[(hk_emergency_return h, EmergencyLocal), (hk_return_windows h, GoLocal), (hk_control_mac h, GoMac)]"]
  by (simp add: hook_control_action_def control_hotkey_bindings_def control_hotkeys_match_vk_def)

end
