(* ===== verification/Hotkey_Rules.thy ===== *)
theory Hotkey_Rules
  imports Settings_Rules Input_Hotkeys
begin

text \<open>
  The hook and the settings mean the same by a shortcut: what the hook recognises is determined by the
  canonical form, so shortcuts accepted together are never confused by a press.
\<close>

section \<open>Keys\<close>

lemma parse_digits_limits:
  assumes "n \<le> l1" and "l1 \<le> l2"
  shows "parse_digits l1 acc s = Some n \<longleftrightarrow> parse_digits l2 acc s = Some n"
proof -
  have grow: "parse_digits l acc s = Some m \<Longrightarrow> acc \<le> m" for l acc m s
  proof (induction s arbitrary: acc)
    case (Cons c s)
    then have "10 * acc + (of_char c - 48) \<le> m" by (auto split: if_splits)
    then show ?case by linarith
  qed simp
  show ?thesis
  proof (induction s arbitrary: acc)
    case (Cons c s)
    let ?a = "10 * acc + (of_char c - 48)"
    show ?case
    proof (cases "?a \<le> n")
      case True
      with assms Cons.IH [of ?a] show ?thesis by auto
    next
      case False
      then have "parse_digits l (10 * acc + (of_char c - 48)) s \<noteq> Some n" for l using grow [of l ?a s n] by auto
      then show ?thesis by simp
    qed
  qed simp
qed

lemma function_number_is_key: "function_number = function_key"
proof
  fix key
  have "parse_uint 65535 s = Some n \<longleftrightarrow> parse_uint 255 s = Some n" if "n \<le> 24" for s n
    using parse_digits_limits [of n 255 65535 0] that by (auto simp: parse_uint_def Let_def)
  then show "function_number key = function_key key"
    by (auto simp: function_number_def function_key_def split: list.splits option.splits)
      (metis option.distinct(1) option.inject)+
qed

definition key_of_vk :: "u16 \<Rightarrow> string" where
  "key_of_vk v =
     (let n = unat v in
      if n \<in> {48..57} \<or> n \<in> {65..90} then [char_of n]
      else if n \<in> {112..135} then CHR ''F'' # show_nat (n - 111)
      else (case map_of [(32, ''space''), (9, ''tab''), (13, ''enter''), (27, ''escape''), (145, ''scrolllock''),
          (38, ''arrowup''), (40, ''arrowdown''), (37, ''arrowleft''), (39, ''arrowright'')] n of
        Some key \<Rightarrow> key | None \<Rightarrow> []))"

lemma unat_small: "n < 65536 \<Longrightarrow> unat (of_nat n :: u16) = n"
  by (simp add: unat_of_nat)

lemma of_char_u16 [simp]: "unat (of_nat (of_char c) :: u16) = of_char c"
proof -
  have "(of_char c :: nat) < 65536" using nat_of_char_less_256 [of c] by linarith
  then show ?thesis by (rule unat_small)
qed

lemma key_of_letter:
  assumes "is_ascii_alphabetic c \<or> is_ascii_digit c"
  shows "hotkey_key_to_windows_vk [c] = Some (of_nat (of_char (ascii_upper c)))"
    and "key_of_vk (of_nat (of_char (ascii_upper c))) = [ascii_upper c]"
proof -
  have "is_ascii_digit c \<Longrightarrow> ascii_upper c = c" by (auto simp: is_ascii_digit_def ascii_upper_def)
  with assms show "hotkey_key_to_windows_vk [c] = Some (of_nat (of_char (ascii_upper c)))"
    by (auto simp: hotkey_key_to_windows_vk_def)
  have "of_char (ascii_upper c) \<in> {48..57 :: nat} \<union> {65..90}"
    using upper_short [OF assms] by (simp add: short_key_def)
  then show "key_of_vk (of_nat (of_char (ascii_upper c))) = [ascii_upper c]" by (auto simp: key_of_vk_def Let_def)
qed

lemma key_of_function:
  assumes "1 \<le> n" and "n \<le> 24"
  shows "key_of_vk (0x70 + of_nat n - 1) = CHR ''F'' # show_nat n"
proof -
  have "(0x70 + of_nat n - 1 :: u16) = of_nat (n + 111)" by simp
  moreover have "unat (of_nat (n + 111) :: u16) = n + 111" using assms by (intro unat_small) simp
  ultimately have "unat (0x70 + of_nat n - 1 :: u16) = n + 111" by (simp only:)
  with assms show ?thesis by (simp add: key_of_vk_def Let_def)
qed

lemma named_keys_vks:
  "list_all2 (\<lambda>(name, key) (name', v). name = name' \<and> key_of_vk v = key) named_keys named_vks"
  by (simp add: named_keys_def named_vks_def key_of_vk_def)

lemma map_of_alike:
  assumes "list_all2 (\<lambda>(name, key) (name', v). name = name' \<and> f v = key) xs ys" and "map_of xs name = Some key"
  shows "\<exists>v. map_of ys name = Some v \<and> f v = key"
  using assms by (induction rule: list_all2_induct) (auto split: if_splits)

lemma canonical_key_vk:
  assumes "canonical_runtime_toggle_key part = Some key"
  shows "\<exists>v. hotkey_key_to_windows_vk part = Some v \<and> key_of_vk v = key"
proof (cases "length part = 1 \<and> (is_ascii_alphabetic (hd part) \<or> is_ascii_digit (hd part))")
  case True
  then obtain c where "part = [c]" and c: "is_ascii_alphabetic c \<or> is_ascii_digit c" by (cases part) auto
  with assms key_of_letter [OF c] show ?thesis by (auto simp: canonical_runtime_toggle_key_def)
next
  case False
  then have vk: "hotkey_key_to_windows_vk part = (case function_key part of
      Some n \<Rightarrow> Some (0x70 + of_nat n - 1) | None \<Rightarrow> map_of named_vks part)"
    by (auto simp: hotkey_key_to_windows_vk_def function_number_is_key)
  have key: "(case function_key part of Some n \<Rightarrow> Some (CHR ''F'' # show_nat n) | None \<Rightarrow> map_of named_keys part) = Some key"
    using assms False unfolding canonical_runtime_toggle_key_def by (simp only: if_False)
  show ?thesis
  proof (cases "function_key part")
    case None
    with key map_of_alike [OF named_keys_vks] vk show ?thesis by simp
  next
    case (Some n)
    then have "1 \<le> n" "n \<le> 24" by (auto simp: function_key_def split: list.splits option.splits if_splits)
    with key Some vk key_of_function show ?thesis by simp
  qed
qed

section \<open>Shortcuts\<close>

definition parts_of :: "hotkey_modifiers \<Rightarrow> shortcut_parts" where
  "parts_of m = \<lparr>sp_ctrl = hm_ctrl m, sp_alt = hm_alt m, sp_shift = hm_shift m, sp_meta = hm_meta m, sp_key = None\<rparr>"

definition read_alike :: "shortcut_parts \<Rightarrow> hotkey_modifiers \<Rightarrow> u16 option \<Rightarrow> bool" where
  "read_alike p m key_code \<longleftrightarrow> sp_ctrl p = hm_ctrl m \<and> sp_alt p = hm_alt m \<and> sp_shift p = hm_shift m
     \<and> sp_meta p = hm_meta m \<and> sp_key p = map_option key_of_vk key_code"

lemma modifier_step:
  assumes "part \<in> set modifier_names" and "read_alike p m key_code"
  shows "\<exists>p' m'. (\<forall>parts. read_parts (part # parts) p = read_parts parts p')
    \<and> (\<forall>parts. read_hotkey_parts (part # parts) m key_code = read_hotkey_parts parts m' key_code) \<and> read_alike p' m' key_code"
proof -
  note alike = assms(2)
  have meta: "part \<in> {''meta'', ''cmd'', ''command'', ''win'', ''windows'', ''super'', ''os''}"
    if "part \<notin> {''ctrl'', ''control''}" "part \<notin> {''alt'', ''option''}" "part \<noteq> ''shift''"
    using assms(1) that by (simp add: modifier_names_def)
  show ?thesis
  proof (cases "part \<in> {''ctrl'', ''control''}")
    case True
    then have "\<forall>parts. read_parts (part # parts) p = read_parts parts (p\<lparr>sp_ctrl := True\<rparr>)"
      "\<forall>parts. read_hotkey_parts (part # parts) m key_code = read_hotkey_parts parts (m\<lparr>hm_ctrl := True\<rparr>) key_code"
      by simp_all
    moreover have "read_alike (p\<lparr>sp_ctrl := True\<rparr>) (m\<lparr>hm_ctrl := True\<rparr>) key_code" using alike by (simp add: read_alike_def)
    ultimately show ?thesis by metis
  next
    case c: False
    show ?thesis
    proof (cases "part \<in> {''alt'', ''option''}")
      case True
      with c have "\<forall>parts. read_parts (part # parts) p = read_parts parts (p\<lparr>sp_alt := True\<rparr>)"
        "\<forall>parts. read_hotkey_parts (part # parts) m key_code = read_hotkey_parts parts (m\<lparr>hm_alt := True\<rparr>) key_code"
        by (simp_all only: read_parts.simps read_hotkey_parts.simps if_True if_False simp_thms)
      moreover have "read_alike (p\<lparr>sp_alt := True\<rparr>) (m\<lparr>hm_alt := True\<rparr>) key_code" using alike by (simp add: read_alike_def)
      ultimately show ?thesis by metis
    next
      case a: False
      show ?thesis
      proof (cases "part = ''shift''")
        case True
        with c a have "\<forall>parts. read_parts (part # parts) p = read_parts parts (p\<lparr>sp_shift := True\<rparr>)"
          "\<forall>parts. read_hotkey_parts (part # parts) m key_code = read_hotkey_parts parts (m\<lparr>hm_shift := True\<rparr>) key_code"
          by (simp_all only: read_parts.simps read_hotkey_parts.simps if_True if_False simp_thms)
        moreover have "read_alike (p\<lparr>sp_shift := True\<rparr>) (m\<lparr>hm_shift := True\<rparr>) key_code" using alike by (simp add: read_alike_def)
        ultimately show ?thesis by metis
      next
        case sh: False
        with meta [OF c a] c a have "\<forall>parts. read_parts (part # parts) p = read_parts parts (p\<lparr>sp_meta := True\<rparr>)"
          "\<forall>parts. read_hotkey_parts (part # parts) m key_code = read_hotkey_parts parts (m\<lparr>hm_meta := True\<rparr>) key_code"
          by (simp_all only: read_parts.simps read_hotkey_parts.simps if_True if_False simp_thms)
        moreover have "read_alike (p\<lparr>sp_meta := True\<rparr>) (m\<lparr>hm_meta := True\<rparr>) key_code" using alike by (simp add: read_alike_def)
        ultimately show ?thesis by metis
      qed
    qed
  qed
qed

lemma read_parts_alike:
  assumes "read_parts parts p = Inr p'" and "read_alike p m key_code"
  shows "\<exists>m' key_code'. read_hotkey_parts parts m key_code = Some (m', key_code') \<and> read_alike p' m' key_code'"
  using assms
proof (induction parts arbitrary: p m key_code)
  case (Cons part parts)
  show ?case
  proof (cases "part \<in> set modifier_names")
    case True
    then obtain p1 m1 where "read_parts (part # parts) p = read_parts parts p1"
      and hook: "read_hotkey_parts (part # parts) m key_code = read_hotkey_parts parts m1 key_code" and "read_alike p1 m1 key_code"
      using Cons.prems(2) modifier_step [OF True Cons.prems(2)] by blast
    with Cons.prems(1) Cons.IH [of p1 m1 key_code] show ?thesis unfolding hook by simp
  next
    case False
    then have other: "part \<notin> {''ctrl'', ''control''}" "part \<notin> {''alt'', ''option''}" "part \<noteq> ''shift''"
      "part \<notin> {''meta'', ''cmd'', ''command'', ''win'', ''windows'', ''super'', ''os''}"
      by (simp_all add: modifier_names_def)
    with Cons.prems(1) obtain key where none: "sp_key p = None" and key: "canonical_runtime_toggle_key part = Some key"
      and rest: "read_parts parts (p\<lparr>sp_key := Some key\<rparr>) = Inr p'"
      by (auto simp only: read_parts.simps if_False split: if_splits option.splits)
    from canonical_key_vk [OF key] obtain v where v: "hotkey_key_to_windows_vk part = Some v" "key_of_vk v = key" by blast
    with Cons.prems(2) none have "key_code = None" "read_alike (p\<lparr>sp_key := Some key\<rparr>) m (Some v)"
      by (auto simp: read_alike_def)
    with Cons.IH [OF rest this(2)] other v show ?thesis by simp
  qed
qed (auto simp: read_alike_def)

lemma shown_parts_alike: "read_alike p m key_code \<Longrightarrow> shown_parts p key = shown_parts (parts_of m) key"
  by (auto simp: read_alike_def parts_of_def shown_parts_def)

text \<open>What the hook makes of a shortcut that the settings accept.\<close>

lemma canonical_parts:
  assumes "canonical_runtime_toggle_shortcut parse v = Inr x"
    and "normalize_edge_switch_hotkey v \<notin> {''disabled'', ''disable'', ''off'', ''none''}"
  obtains p key where "read_parts (hotkey_parts (normalize_edge_switch_hotkey v)) no_parts = Inr p"
    and "sp_key p = Some key" and "x = Some (join_plus (shown_parts p key))"
proof -
  let ?n = "normalize_edge_switch_hotkey v"
  obtain p where p: "read_parts (hotkey_parts ?n) no_parts = Inr p"
    and some: "(case sp_key p of None \<Rightarrow> Inl NoKey
        | Some key \<Rightarrow>
            if \<not> (sp_ctrl p \<or> sp_alt p \<or> sp_shift p \<or> sp_meta p) \<and> \<not> allows_single_runtime_toggle_key key
            then Inl NeedsModifier
            else (case parse (join_plus (shown_parts p key)) of
                None \<Rightarrow> Inl (CannotRegister ?n)
              | Some _ \<Rightarrow> Inr (Some (join_plus (shown_parts p key))))) = Inr x"
    using assms(1) unfolding canonical_runtime_toggle_shortcut_def Let_def if_not_P [OF assms(2)] hotkey_parts_def
      bind_result_eq_Inr by blast
  obtain key where key: "sp_key p = Some key" using some by (cases "sp_key p") simp_all
  from some have "x = Some (join_plus (shown_parts p key))"
    unfolding key option.case by (auto split: if_splits option.splits)
  with that p key show ?thesis by blast
qed

lemma hook_reads_canonical:
  assumes "canonical_runtime_toggle_shortcut parse v = Inr x" and "\<not> hotkey_off (normalized_hotkey v)"
  obtains m key_code where "read_hotkey_parts (hotkey_parts (normalized_hotkey v)) no_modifiers None = Some (m, Some key_code)"
    and "x = Some (join_plus (shown_parts (parts_of m) (key_of_vk key_code)))"
proof -
  have norm: "normalize_edge_switch_hotkey v = normalized_hotkey v"
    and on: "normalize_edge_switch_hotkey v \<notin> {''disabled'', ''disable'', ''off'', ''none''}"
    using assms(2) by (simp_all add: normalize_edge_switch_hotkey_def normalized_hotkey_def hotkey_off_def Let_def)
  from canonical_parts [OF assms(1) on] obtain p key where p: "read_parts (hotkey_parts (normalized_hotkey v)) no_parts = Inr p"
    and key: "sp_key p = Some key" and x: "x = Some (join_plus (shown_parts p key))" unfolding norm by metis
  have "read_alike no_parts no_modifiers None" by (simp add: read_alike_def no_parts_def no_modifiers_def)
  from read_parts_alike [OF p this] obtain m key_code
    where read: "read_hotkey_parts (hotkey_parts (normalized_hotkey v)) no_modifiers None = Some (m, key_code)"
    and alike: "read_alike p m key_code" by blast
  with key obtain vk where "key_code = Some vk" "key = key_of_vk vk" by (cases key_code) (auto simp: read_alike_def)
  with that [of m vk] read shown_parts_alike [OF alike] x show ?thesis by simp
qed

lemma accepted_binding:
  assumes "canonical_runtime_toggle_shortcut parse v = Inr x" and "\<not> hotkey_off (normalized_hotkey v)"
  shows "\<exists>binding. parse_control_hotkey_binding v action = Some binding
    \<and> x = Some (join_plus (shown_parts (parts_of (cb_modifiers binding)) (key_of_vk (cb_key_code binding))))"
  by (rule hook_reads_canonical [OF assms]) (simp add: parse_control_hotkey_binding_def assms(2))

lemma match_canonical:
  assumes "hotkey_matches_vk v key_code m" and "canonical_runtime_toggle_shortcut parse v = Inr x"
  shows "x = Some (join_plus (shown_parts (parts_of m) (key_of_vk key_code)))"
proof -
  have on: "\<not> hotkey_off (normalized_hotkey v)" using assms(1) by (auto simp: hotkey_matches_vk_def Let_def split: if_splits)
  obtain m' key' where read: "read_hotkey_parts (hotkey_parts (normalized_hotkey v)) no_modifiers None = Some (m', Some key')"
    and x: "x = Some (join_plus (shown_parts (parts_of m') (key_of_vk key')))"
    by (rule hook_reads_canonical [OF assms(2) on])
  have "key' = key_code \<and> m' = m" using assms(1) on read by (simp add: hotkey_matches_vk_def)
  with x show ?thesis by simp
qed

section \<open>Presses\<close>

text \<open>A press matches at most one of the eight shortcuts of a layout that passed the validation.\<close>

lemma one_shortcut_matches:
  assumes "ly_machine_role layout = ''server''" and "validate_layout_shortcut_conflicts parse layout = Inr ()"
    and "(slot, v) \<in> set (shortcut_entries layout)" and "hotkey_matches_vk v key_code m"
    and "(slot', v') \<in> set (shortcut_entries layout)" and "hotkey_matches_vk v' key_code m"
  shows "slot = slot'"
proof -
  obtain vals where vals: "\<And>slot raw. (slot, raw) \<in> set (shortcut_entries layout) \<Longrightarrow>
      canonical_runtime_toggle_shortcut parse raw = Inr (vals slot)"
    using validated_values [OF assms(1,2)] by blast
  have "vals slot = vals slot'" and some: "vals slot \<noteq> None"
    using match_canonical [OF assms(4) vals [OF assms(3)]] match_canonical [OF assms(6) vals [OF assms(5)]] by simp_all
  then obtain w where "vals slot = Some w" "vals slot' = Some w" by auto
  with validated_slots_differ [OF assms(1,2,3) _ assms(5)] vals [OF assms(3)] vals [OF assms(5)] show ?thesis by simp
qed

fun slot_of_action :: "control_hotkey_action \<Rightarrow> shortcut_slot" where
  "slot_of_action GoMac = SlotControlMac"
| "slot_of_action GoLocal = SlotReturnWindows"
| "slot_of_action EmergencyLocal = SlotEmergency"

lemma slot_of_action_inj: "slot_of_action a = slot_of_action b \<longleftrightarrow> a = b"
  by (cases a; cases b) simp_all

lemma control_entry:
  "(v, action) \<in> set (control_actions (ly_control_hotkeys layout)) \<Longrightarrow>
    (slot_of_action action, v) \<in> set (shortcut_entries layout)"
  by (cases action) (simp_all add: control_actions_def shortcut_entries_def)

lemma find_map_only:
  assumes "x \<in> set xs" and "f x = Some y" and "\<And>x' y'. x' \<in> set xs \<Longrightarrow> f x' = Some y' \<Longrightarrow> y' = y"
  shows "find_map f xs = Some y"
proof (cases "find_map f xs")
  case None
  with assms(1,2) show ?thesis unfolding find_map_None by auto
next
  case (Some z)
  from find_map_Some [OF this] assms(3) have "z = y" by blast
  with Some show ?thesis by simp
qed

lemma press_finds_action:
  assumes "ly_machine_role layout = ''server''" and "validate_layout_shortcut_conflicts parse layout = Inr ()"
    and "(v, action) \<in> set (control_actions (ly_control_hotkeys layout))"
  shows "control_hotkeys_match_vk (ly_control_hotkeys layout) key_code m = Some action \<longleftrightarrow> hotkey_matches_vk v key_code m"
proof -
  let ?h = "ly_control_hotkeys layout"
  let ?f = "\<lambda>(hotkey, action). if hotkey_matches_vk hotkey key_code m then Some action else None"
  let ?xs = "[(hk_emergency_return ?h, EmergencyLocal), (hk_return_windows ?h, GoLocal), (hk_control_mac ?h, GoMac)]"
  have same: "set ?xs = set (control_actions ?h)" by (auto simp: control_actions_def)
  have one: "a = b" if "(w, a) \<in> set (control_actions ?h)" "hotkey_matches_vk w key_code m"
    "(u, b) \<in> set (control_actions ?h)" "hotkey_matches_vk u key_code m" for w a u b
    using one_shortcut_matches [OF assms(1,2) control_entry [OF that(1)] that(2) control_entry [OF that(3)] that(4)]
    by (simp only: slot_of_action_inj)
  have own: "w = v" if "(w, action) \<in> set (control_actions ?h)" for w
    using that assms(3) by (auto simp: control_actions_def)
  show ?thesis
  proof
    assume "control_hotkeys_match_vk ?h key_code m = Some action"
    then have "find_map ?f ?xs = Some action" by (simp only: control_hotkeys_match_vk_def)
    from find_map_Some [OF this] obtain w where "(w, action) \<in> set (control_actions ?h)" "hotkey_matches_vk w key_code m"
      unfolding same by (auto split: if_splits)
    with own show "hotkey_matches_vk v key_code m" by blast
  next
    assume "hotkey_matches_vk v key_code m"
    then have "find_map ?f ?xs = Some action"
      by (intro find_map_only [of "(v, action)"]) (use assms(3) one in \<open>auto simp only: same split: if_splits\<close>)
    then show "control_hotkeys_match_vk ?h key_code m = Some action" by (simp only: control_hotkeys_match_vk_def)
  qed
qed

text \<open>C19. The capture hook and the settings agree on the control hotkeys of a controller (the server role):
  when the shortcuts of a layout passed the validation, every control hotkey that the hook does not take as
  switched off, as it takes a blank one, is bound to one combination of a
  virtual key and modifiers, a press finds its action exactly when it is that combination, and that
  combination is none of the screen switch hotkeys.\<close>

theorem hook_follows_settings:
  assumes "ly_machine_role layout = ''server''" and "validate_layout_shortcut_conflicts parse layout = Inr ()"
    and "(v, action) \<in> set (control_actions (ly_control_hotkeys layout))" and "\<not> hotkey_off (normalized_hotkey v)"
  shows "\<exists>binding. parse_control_hotkey_binding v action = Some binding
    \<and> (\<forall>key_code m. (hook_control_action (control_hotkey_bindings (ly_control_hotkeys layout)) key_code m True = Some action)
          = binding_matches key_code m binding)
    \<and> \<not> screen_switch_hotkeys_match_vk (ly_screen_switch_hotkeys layout) (cb_key_code binding) (cb_modifiers binding)"
proof -
  note entry = control_entry [OF assms(3)]
  obtain vals where vals: "\<And>slot raw. (slot, raw) \<in> set (shortcut_entries layout) \<Longrightarrow>
      canonical_runtime_toggle_shortcut parse raw = Inr (vals slot)"
    using validated_values [OF assms(1,2)] by blast
  obtain binding where binding: "parse_control_hotkey_binding v action = Some binding"
    using accepted_binding [OF vals [OF entry] assms(4)] by blast
  have matches: "binding_matches key_code m binding = hotkey_matches_vk v key_code m" for key_code m
    using binding_iff_matches [of v action key_code m] binding by simp
  have own: "hotkey_matches_vk v (cb_key_code binding) (cb_modifiers binding)"
    unfolding matches [symmetric] by (simp add: binding_matches_def)
  have "\<not> screen_switch_hotkeys_match_vk (ly_screen_switch_hotkeys layout) (cb_key_code binding) (cb_modifiers binding)"
  proof
    assume "screen_switch_hotkeys_match_vk (ly_screen_switch_hotkeys layout) (cb_key_code binding) (cb_modifiers binding)"
    then obtain slot w where "(slot, w) \<in> set (shortcut_entries layout)" "slot \<in> {SlotLeft, SlotRight, SlotUp, SlotDown}"
      and "hotkey_matches_vk w (cb_key_code binding) (cb_modifiers binding)"
      by (auto simp: screen_switch_hotkeys_match_vk_def shortcut_entries_def)
    with one_shortcut_matches [OF assms(1,2) entry own] show False by (cases action) auto
  qed
  with binding matches press_finds_action [OF assms(1,2,3)] show ?thesis by (simp add: hook_press_is_match)
qed

lemma hook_follows_settings_witness:
  "hook_control_action (control_hotkey_bindings (ly_control_hotkeys demo_hotkey_layout)) 0x74
     \<lparr>hm_ctrl = True, hm_alt = True, hm_shift = False, hm_meta = False\<rparr> True = Some GoLocal"
proof -
  have member: "(''ctrl+alt+f5'', GoLocal) \<in> set (control_actions (ly_control_hotkeys demo_hotkey_layout))"
    by (simp add: control_actions_def demo_hotkey_layout_def)
  have on: "\<not> hotkey_off (normalized_hotkey ''ctrl+alt+f5'')" by code_simp
  have norm: "normalized_hotkey ''ctrl+alt+f5'' = ''ctrl+alt+f5''" by code_simp
  have key: "function_key ''f5'' = Some 5" by code_simp
  have parsed: "parse_control_hotkey_binding ''ctrl+alt+f5'' GoLocal = Some \<lparr>cb_action = GoLocal, cb_key_code = 0x74,
      cb_modifiers = \<lparr>hm_ctrl = True, hm_alt = True, hm_shift = False, hm_meta = False\<rparr>\<rparr>"
    by (simp add: parse_control_hotkey_binding_def norm hotkey_off_def hotkey_parts_def no_modifiers_def
        hotkey_key_to_windows_vk_def function_number_is_key key)
  from hook_follows_settings [OF demo_server demo_layout_free member on] parsed
  show ?thesis by (simp add: binding_matches_def)
qed

end
