(* ===== verification/Screen_Edges.thy ===== *)
theory Screen_Edges
  imports Layout_State Shortcuts "HOL-Library.Signed_Division"
begin

text \<open>
  The geometry of the capture (\<open>input.rs\<close>): which remote screens border which local ones, when a moving
  pointer crosses such a border and where it enters, how it roams over the remote device's screens, and
  where it comes back.

  \<open>i32\<close> additions wrap, as in a release build (\<open>wrap_i32\<close>). Pointer positions are doubles in the code
  and rationals here: sums of pixel positions are exact in both, quotients are not rounded here.
  \<open>f64::clamp\<close> panics when its bounds are reversed, which needs a screen without area; the settings
  reject those (\<open>screen_valid\<close>).
\<close>

section \<open>Numbers\<close>

definition wrap_i32 :: "int \<Rightarrow> i32" where
  "wrap_i32 v = (v + 2147483648) mod 4294967296 - 2147483648"

lemma wrap_i32_id [simp]: "is_i32 v \<Longrightarrow> wrap_i32 v = v"
  by (auto simp: wrap_i32_def is_i32_def)

text \<open>\<open>f64::round\<close>, halves away from zero, and the saturating cast to \<open>i32\<close>.\<close>

definition f64_round :: "rat \<Rightarrow> int" where
  "f64_round v = (if v < 0 then \<lceil>v - 1 / 2\<rceil> else \<lfloor>v + 1 / 2\<rfloor>)"

definition round_i32 :: "rat \<Rightarrow> i32" where
  "round_i32 v = clamp (- 2147483648) 2147483647 (f64_round v)"

lemma f64_round_int [simp]: "f64_round (of_int v) = v"
  by (auto simp: f64_round_def floor_eq_iff ceiling_eq_iff)

lemma f64_round_mono: "u \<le> v \<Longrightarrow> f64_round u \<le> f64_round v"
proof -
  assume le: "u \<le> v"
  show ?thesis
  proof (cases "u < 0 \<and> \<not> v < 0")
    case True
    then have "\<lceil>u - 1 / 2\<rceil> \<le> 0" and "0 \<le> \<lfloor>v + 1 / 2\<rfloor>" by (simp_all add: ceiling_le_iff le_floor_iff)
    then have "\<lceil>u - 1 / 2\<rceil> \<le> \<lfloor>v + 1 / 2\<rfloor>" by (rule order_trans)
    with True show ?thesis by (simp only: f64_round_def if_True if_False)
  next
    case False
    with le show ?thesis by (auto simp: f64_round_def intro: floor_mono ceiling_mono)
  qed
qed

lemma round_between:
  assumes "of_int lo \<le> v" and "v \<le> of_int hi" and "is_i32 lo" and "is_i32 hi"
  shows "lo \<le> round_i32 v \<and> round_i32 v \<le> hi"
proof -
  have "lo \<le> f64_round v" "f64_round v \<le> hi"
    using f64_round_mono [OF assms(1)] f64_round_mono [OF assms(2)] by simp_all
  with assms(3,4) show ?thesis by (auto simp: round_i32_def clamp_def is_i32_def)
qed

section \<open>Edges\<close>

definition EDGE_TOLERANCE :: i32 where "EDGE_TOLERANCE = 80"

datatype edge = LeftEdge | RightEdge | TopEdge | BottomEdge

fun matches_edge :: "switch_direction \<Rightarrow> edge \<Rightarrow> bool" where
  "matches_edge SwitchLeft LeftEdge = True"
| "matches_edge SwitchRight RightEdge = True"
| "matches_edge SwitchUp TopEdge = True"
| "matches_edge SwitchDown BottomEdge = True"
| "matches_edge _ _ = False"

definition near :: "i32 \<Rightarrow> i32 \<Rightarrow> bool" where
  "near a b \<longleftrightarrow> wrap_i32 \<bar>wrap_i32 (a - b)\<bar> \<le> EDGE_TOLERANCE"

definition ranges_overlap :: "i32 \<Rightarrow> i32 \<Rightarrow> i32 \<Rightarrow> i32 \<Rightarrow> bool" where
  "ranges_overlap a_start a_end b_start b_end \<longleftrightarrow> wrap_i32 (min a_end b_end - max a_start b_start) > EDGE_TOLERANCE"

definition right_of :: "screen \<Rightarrow> i32" where
  "right_of s = wrap_i32 (sc_x s + sc_width s)"

definition bottom_of :: "screen \<Rightarrow> i32" where
  "bottom_of s = wrap_i32 (sc_y s + sc_height s)"

definition touching_edge :: "screen \<Rightarrow> screen \<Rightarrow> edge option" where
  "touching_edge l r =
     (if near (right_of l) (sc_x r) \<and> ranges_overlap (sc_y l) (bottom_of l) (sc_y r) (bottom_of r) then Some RightEdge
      else if near (sc_x l) (right_of r) \<and> ranges_overlap (sc_y l) (bottom_of l) (sc_y r) (bottom_of r) then Some LeftEdge
      else if near (bottom_of l) (sc_y r) \<and> ranges_overlap (sc_x l) (right_of l) (sc_x r) (right_of r) then Some BottomEdge
      else if near (sc_y l) (bottom_of r) \<and> ranges_overlap (sc_x l) (right_of l) (sc_x r) (right_of r) then Some TopEdge
      else None)"

definition screens_overlap :: "screen \<Rightarrow> screen \<Rightarrow> bool" where
  "screens_overlap l r \<longleftrightarrow> sc_x l < right_of r \<and> right_of l > sc_x r \<and> sc_y l < bottom_of r \<and> bottom_of l > sc_y r"

section \<open>Targets\<close>

record input_target =
  it_device_id :: string
  it_origin_device_id :: string
  it_cluster_id :: string
  it_pair_secret :: string
  it_target_addr :: string
  it_target_platform :: string
  it_transport_public_key :: string
  it_protocol_version :: u16
  it_screen_id :: string
  it_local_screen :: screen
  it_layout_local_screen :: screen
  it_remote_screen :: screen
  it_edge :: edge

record active_target =
  at_target :: input_target
  at_current_screen :: screen
  at_current_screen_id :: string
  at_x :: rat
  at_y :: rat
  at_invert_y :: bool

definition input_quic_port :: "u16 \<Rightarrow> u16 \<Rightarrow> u16" where
  "input_quic_port transport_port quic_port = (if quic_port = 0 then transport_port else quic_port)"

definition strip_prefix :: "string \<Rightarrow> string \<Rightarrow> string option" where
  "strip_prefix prefix s = (if take (length prefix) s = prefix then Some (drop (length prefix) s) else None)"

definition peer_screen_id :: "device \<Rightarrow> screen \<Rightarrow> string" where
  "peer_screen_id device screen =
     (case strip_prefix (dv_id device @ ''-'') (sc_id screen) of Some rest \<Rightarrow> rest | None \<Rightarrow> sc_id screen)"

definition scale_position :: "i32 \<Rightarrow> rat \<Rightarrow> i32" where
  "scale_position v scale = clamp (- 2147483648) 2147483647 (f64_round (of_int v * scale))"

definition scale_size :: "i32 \<Rightarrow> rat \<Rightarrow> i32" where
  "scale_size v scale = clamp 1 2147483647 (f64_round (of_int (max v 1) * scale))"

text \<open>\<open>windows\<close> tells which of the two definitions is compiled.\<close>

definition platform_native_screen :: "bool \<Rightarrow> screen \<Rightarrow> screen" where
  "platform_native_screen windows screen =
     (if windows then
        (let scale = (case sc_scale screen of F64_Finite v \<Rightarrow> if 0 < v then v else 1 | _ \<Rightarrow> 1)
         in screen\<lparr>sc_x := scale_position (sc_x screen) scale, sc_y := scale_position (sc_y screen) scale,
              sc_width := scale_size (sc_width screen) scale, sc_height := scale_size (sc_height screen) scale\<rparr>)
      else screen)"

definition target_device :: "device \<Rightarrow> bool" where
  "target_device device \<longleftrightarrow> dv_role device \<noteq> ''local'' \<and> dv_online device \<and> dv_input_ready device
     \<and> dv_protocol_version device = PROTOCOL_VERSION \<and> \<not> is_blank (dv_transport_public_key device)"

definition first_or_head :: "('a \<Rightarrow> bool) \<Rightarrow> 'a list \<Rightarrow> 'a option" where
  "first_or_head P xs = (case find P xs of Some x \<Rightarrow> Some x | None \<Rightarrow> (case xs of [] \<Rightarrow> None | x # _ \<Rightarrow> Some x))"

definition input_local_device :: "layout_state \<Rightarrow> device option" where
  "input_local_device layout = first_or_head (\<lambda>device. dv_role device = ''local'') (ly_devices layout)"

definition native_local_screen :: "bool \<Rightarrow> device option \<Rightarrow> screen \<Rightarrow> screen" where
  "native_local_screen windows native_device layout_local_screen =
     platform_native_screen windows
       (case native_device of
          None \<Rightarrow> layout_local_screen
        | Some device \<Rightarrow>
            (case find (\<lambda>screen. sc_id screen = sc_id layout_local_screen) (dv_screens device) of
               Some screen \<Rightarrow> screen
             | None \<Rightarrow> layout_local_screen))"

text \<open>\<open>origin\<close> is the id of this machine's peer, made from its host name and address.\<close>

definition target_of ::
  "string \<Rightarrow> layout_state \<Rightarrow> device \<Rightarrow> screen \<Rightarrow> screen \<Rightarrow> screen \<Rightarrow> input_target option" where
  "target_of origin layout device native layout_local_screen remote_screen =
     (if screens_overlap layout_local_screen remote_screen then None
      else map_option (\<lambda>edge.
        \<lparr>it_device_id = dv_id device, it_origin_device_id = origin, it_cluster_id = ly_cluster_id layout,
         it_pair_secret = ly_pair_secret layout,
         it_target_addr = dv_host device @ '':'' @ show_nat (unat (input_quic_port (dv_transport_port device) (dv_quic_port device))),
         it_target_platform = dv_platform device, it_transport_public_key = dv_transport_public_key device,
         it_protocol_version = dv_protocol_version device, it_screen_id = peer_screen_id device remote_screen,
         it_local_screen = native, it_layout_local_screen = layout_local_screen,
         it_remote_screen = remote_screen, it_edge = edge\<rparr>) (touching_edge layout_local_screen remote_screen))"

definition build_input_targets :: "bool \<Rightarrow> string \<Rightarrow> layout_state \<Rightarrow> layout_state \<Rightarrow> input_target list" where
  "build_input_targets windows origin layout native_layout =
     (case find (\<lambda>device. dv_role device = ''local'') (ly_devices layout) of
        None \<Rightarrow> []
      | Some local_device \<Rightarrow>
          concat (map (\<lambda>device.
            concat (map (\<lambda>layout_local_screen.
              List.map_filter (target_of origin layout device
                  (native_local_screen windows (input_local_device native_layout) layout_local_screen) layout_local_screen)
                (dv_screens device)) (dv_screens local_device)))
            (filter target_device (ly_devices layout))))"

section \<open>Switching by hotkey\<close>

datatype switch_outcome =
    SwitchEnter active_target
  | SwitchLocalMove string string rat rat
  | SwitchReturn
  | SwitchNoop

definition point_in_local_bounds :: "screen \<Rightarrow> rat \<Rightarrow> rat \<Rightarrow> bool" where
  "point_in_local_bounds screen x y \<longleftrightarrow> 0 \<le> x \<and> x \<le> of_int (wrap_i32 (sc_width screen - 1))
     \<and> 0 \<le> y \<and> y \<le> of_int (wrap_i32 (sc_height screen - 1))"

definition point_in_screen :: "screen \<Rightarrow> rat \<Rightarrow> rat \<Rightarrow> bool" where
  "point_in_screen screen x y \<longleftrightarrow> of_int (sc_x screen) \<le> x \<and> x \<le> of_int (wrap_i32 (right_of screen - 1))
     \<and> of_int (sc_y screen) \<le> y \<and> y \<le> of_int (wrap_i32 (bottom_of screen - 1))"

definition centered_active_target :: "input_target \<Rightarrow> active_target" where
  "centered_active_target target =
     (let remote = it_remote_screen target in
      \<lparr>at_target = target, at_current_screen = remote\<lparr>sc_id := it_screen_id target\<rparr>,
       at_current_screen_id = it_screen_id target,
       at_x = clamp 0 (of_int (wrap_i32 (sc_width remote - 1))) (of_int (sc_width remote) / 2),
       at_y = clamp 0 (of_int (wrap_i32 (sc_height remote - 1))) (of_int (sc_height remote) / 2),
       at_invert_y = False\<rparr>)"

definition screen_center_point :: "screen \<Rightarrow> rat \<times> rat" where
  "screen_center_point screen =
     (of_int (sc_x screen) + clamp 0 (of_int (max (wrap_i32 (sc_width screen - 1)) 0)) (of_int (sc_width screen) / 2),
      of_int (sc_y screen) + clamp 0 (of_int (max (wrap_i32 (sc_height screen - 1)) 0)) (of_int (sc_height screen) / 2))"

definition primary_or_first :: "screen list \<Rightarrow> screen option" where
  "primary_or_first screens = first_or_head sc_is_primary screens"

definition source_local_screen ::
  "bool \<Rightarrow> layout_state \<Rightarrow> layout_state \<Rightarrow> (rat \<times> rat) option \<Rightarrow> screen option" where
  "source_local_screen windows layout native_layout current_point =
     (case input_local_device layout of
        None \<Rightarrow> None
      | Some l \<Rightarrow>
          (case current_point of
             None \<Rightarrow> primary_or_first (dv_screens l)
           | Some (x, y) \<Rightarrow>
               (let native = (case input_local_device native_layout of
                       None \<Rightarrow> None
                     | Some native_local \<Rightarrow>
                         find_map (\<lambda>native_screen.
                           let native_screen = platform_native_screen windows native_screen in
                           if point_in_screen native_screen x y
                           then find (\<lambda>screen. sc_id screen = sc_id native_screen) (dv_screens l) else None)
                           (dv_screens native_local))
                in case native of
                     Some screen \<Rightarrow> Some screen
                   | None \<Rightarrow>
                       (case find (\<lambda>screen. point_in_screen screen x y) (dv_screens l) of
                          Some screen \<Rightarrow> Some screen
                        | None \<Rightarrow> primary_or_first (dv_screens l)))))"

definition local_screen_switch_point ::
  "bool \<Rightarrow> switch_direction \<Rightarrow> layout_state \<Rightarrow> layout_state \<Rightarrow> string option \<Rightarrow> (string \<times> string \<times> rat \<times> rat) option" where
  "local_screen_switch_point windows direction layout native_layout source_screen_id =
     (case input_local_device layout of
        None \<Rightarrow> None
      | Some l \<Rightarrow>
          (case (case Option.bind source_screen_id (\<lambda>source_id. find (\<lambda>screen. sc_id screen = source_id) (dv_screens l)) of
                   Some source \<Rightarrow> Some source
                 | None \<Rightarrow> primary_or_first (dv_screens l)) of
             None \<Rightarrow> None
           | Some source \<Rightarrow>
               (case find (\<lambda>screen. sc_id screen \<noteq> sc_id source \<and> \<not> screens_overlap source screen
                    \<and> (case touching_edge source screen of None \<Rightarrow> False | Some edge \<Rightarrow> matches_edge direction edge))
                    (dv_screens l) of
                  None \<Rightarrow> None
                | Some target \<Rightarrow>
                    (let native_target = platform_native_screen windows
                           (case Option.bind (input_local_device native_layout)
                               (\<lambda>device. find (\<lambda>screen. sc_id screen = sc_id target) (dv_screens device)) of
                              Some screen \<Rightarrow> screen | None \<Rightarrow> target);
                         (x, y) = screen_center_point native_target
                     in Some (sc_id source, sc_id target, x, y)))))"

definition request_screen_switch_from_point ::
  "bool \<Rightarrow> string \<Rightarrow> switch_direction \<Rightarrow> layout_state \<Rightarrow> layout_state \<Rightarrow> active_target option
     \<Rightarrow> (rat \<times> rat) option \<Rightarrow> switch_outcome" where
  "request_screen_switch_from_point windows origin direction layout native_layout active current_point =
     (if active \<noteq> None then SwitchReturn
      else
        (let source_screen_id = map_option sc_id (source_local_screen windows layout native_layout current_point) in
         case local_screen_switch_point windows direction layout native_layout source_screen_id of
           Some (from_id, to_id, x, y) \<Rightarrow> SwitchLocalMove from_id to_id x y
         | None \<Rightarrow>
             (let targets = build_input_targets windows origin layout native_layout;
                  here = filter (\<lambda>target. case source_screen_id of
                     None \<Rightarrow> True | Some source_id \<Rightarrow> sc_id (it_layout_local_screen target) = source_id) targets
              in case (case find (\<lambda>target. matches_edge direction (it_edge target)) here of
                         Some target \<Rightarrow> Some target
                       | None \<Rightarrow> find (\<lambda>target. matches_edge direction (it_edge target)) targets) of
                   None \<Rightarrow> SwitchNoop
                 | Some target \<Rightarrow> SwitchEnter (centered_active_target target))))"

definition request_selected_remote ::
  "bool \<Rightarrow> string \<Rightarrow> layout_state \<Rightarrow> layout_state \<Rightarrow> active_target option \<Rightarrow> switch_outcome" where
  "request_selected_remote windows origin layout native_layout active =
     (if active \<noteq> None then SwitchNoop
      else
        (let targets = build_input_targets windows origin layout native_layout in
         case (case find (\<lambda>target. it_device_id target = ly_active_device_id layout
                  \<and> (it_screen_id target = ly_selected_screen_id layout
                    \<or> sc_id (it_remote_screen target) = ly_selected_screen_id layout)) targets of
                 Some target \<Rightarrow> Some target
               | None \<Rightarrow> find (\<lambda>target. it_device_id target = ly_active_device_id layout) targets) of
           None \<Rightarrow> SwitchNoop
         | Some target \<Rightarrow> SwitchEnter (centered_active_target target)))"

definition remembered_local_screen_point ::
  "(string, rat \<times> rat) map \<Rightarrow> string \<Rightarrow> string \<Rightarrow> (rat \<times> rat) option \<Rightarrow> rat \<times> rat
     \<Rightarrow> (rat \<times> rat) \<times> (string, rat \<times> rat) map" where
  "remembered_local_screen_point points from_screen_id to_screen_id current_point fallback =
     (let points1 = (case current_point of None \<Rightarrow> points | Some point \<Rightarrow> points(from_screen_id \<mapsto> point))
      in (case points1 to_screen_id of Some point \<Rightarrow> point | None \<Rightarrow> fallback, points1))"

section \<open>Crossing an edge\<close>

definition CROSSING_MARGIN :: rat where "CROSSING_MARGIN = 1"
definition MIN_CROSSING_DELTA :: rat where "MIN_CROSSING_DELTA = 1"
definition CROSSING_AXIS_DOMINANCE :: rat where "CROSSING_AXIS_DOMINANCE = 1 / 2"
definition CROSSING_ACTIVATION_BAND :: rat where "CROSSING_ACTIVATION_BAND = of_int EDGE_TOLERANCE * 2"

definition is_crossing_screen :: "screen \<Rightarrow> edge \<Rightarrow> rat \<Rightarrow> rat \<Rightarrow> rat \<Rightarrow> rat \<Rightarrow> bool" where
  "is_crossing_screen screen edge x y dx dy =
     (let left = of_int (sc_x screen); right = of_int (right_of screen);
          top = of_int (sc_y screen); bottom = of_int (bottom_of screen);
          previous_x = x - dx; previous_y = y - dy
      in case edge of
           RightEdge \<Rightarrow> dx \<ge> MIN_CROSSING_DELTA \<and> \<bar>dx\<bar> \<ge> \<bar>dy\<bar> * CROSSING_AXIS_DOMINANCE
             \<and> previous_x \<ge> right - CROSSING_ACTIVATION_BAND \<and> x \<ge> right - CROSSING_MARGIN
             \<and> y \<ge> top - CROSSING_MARGIN \<and> y \<le> bottom + CROSSING_MARGIN
         | LeftEdge \<Rightarrow> dx \<le> - MIN_CROSSING_DELTA \<and> \<bar>dx\<bar> \<ge> \<bar>dy\<bar> * CROSSING_AXIS_DOMINANCE
             \<and> previous_x \<le> left + CROSSING_ACTIVATION_BAND \<and> x \<le> left + CROSSING_MARGIN
             \<and> y \<ge> top - CROSSING_MARGIN \<and> y \<le> bottom + CROSSING_MARGIN
         | BottomEdge \<Rightarrow> dy \<ge> MIN_CROSSING_DELTA \<and> \<bar>dy\<bar> \<ge> \<bar>dx\<bar> * CROSSING_AXIS_DOMINANCE
             \<and> previous_y \<ge> bottom - CROSSING_ACTIVATION_BAND \<and> y \<ge> bottom - CROSSING_MARGIN
             \<and> x \<ge> left - CROSSING_MARGIN \<and> x \<le> right + CROSSING_MARGIN
         | TopEdge \<Rightarrow> dy \<le> - MIN_CROSSING_DELTA \<and> \<bar>dy\<bar> \<ge> \<bar>dx\<bar> * CROSSING_AXIS_DOMINANCE
             \<and> previous_y \<le> top + CROSSING_ACTIVATION_BAND \<and> y \<le> top + CROSSING_MARGIN
             \<and> x \<ge> left - CROSSING_MARGIN \<and> x \<le> right + CROSSING_MARGIN)"

definition native_to_layout_point :: "input_target \<Rightarrow> rat \<Rightarrow> rat \<Rightarrow> rat \<times> rat" where
  "native_to_layout_point target x y =
     (let native = it_local_screen target; layout = it_layout_local_screen target;
          ratio_x = (x - of_int (sc_x native)) / of_int (max (sc_width native) 1);
          ratio_y = (y - of_int (sc_y native)) / of_int (max (sc_height native) 1)
      in (of_int (sc_x layout) + ratio_x * of_int (max (sc_width layout) 1),
          of_int (sc_y layout) + ratio_y * of_int (max (sc_height layout) 1)))"

definition layout_delta_x :: "input_target \<Rightarrow> rat \<Rightarrow> rat" where
  "layout_delta_x target dx = dx * of_int (max (sc_width (it_layout_local_screen target)) 1)
     / of_int (max (sc_width (it_local_screen target)) 1)"

definition layout_delta_y :: "input_target \<Rightarrow> rat \<Rightarrow> rat" where
  "layout_delta_y target dy = dy * of_int (max (sc_height (it_layout_local_screen target)) 1)
     / of_int (max (sc_height (it_local_screen target)) 1)"

definition crossing_layout_point :: "input_target \<Rightarrow> rat \<Rightarrow> rat \<Rightarrow> rat \<Rightarrow> rat \<Rightarrow> (rat \<times> rat) option" where
  "crossing_layout_point target x y dx dy =
     (let mapped = native_to_layout_point target x y in
      if is_crossing_screen (it_local_screen target) (it_edge target) x y dx dy then Some mapped
      else if is_crossing_screen (it_layout_local_screen target) (it_edge target) (fst mapped) (snd mapped)
        (layout_delta_x target dx) (layout_delta_y target dy) then Some mapped
      else None)"

definition entered_target :: "bool \<Rightarrow> rat \<Rightarrow> rat \<Rightarrow> input_target \<times> rat \<times> rat \<Rightarrow> active_target" where
  "entered_target invert_y dx dy crossed =
     (let (target, mapped_x, mapped_y) = crossed; remote = it_remote_screen target;
          last_x = of_int (wrap_i32 (sc_width remote - 1)); last_y = of_int (wrap_i32 (sc_height remote - 1));
          entry_dx = layout_delta_x target dx; entry_dy = layout_delta_y target dy
      in \<lparr>at_target = target, at_current_screen = remote\<lparr>sc_id := it_screen_id target\<rparr>,
          at_current_screen_id = it_screen_id target,
          at_x = clamp 0 last_x (case it_edge target of
             RightEdge \<Rightarrow> 1 + max entry_dx 0
           | LeftEdge \<Rightarrow> of_int (wrap_i32 (sc_width remote - 2)) + min entry_dx 0
           | _ \<Rightarrow> clamp 0 last_x (mapped_x - of_int (sc_x remote))),
          at_y = clamp 0 last_y (case it_edge target of
             BottomEdge \<Rightarrow> 1 + max entry_dy 0
           | TopEdge \<Rightarrow> of_int (wrap_i32 (sc_height remote - 2)) + min entry_dy 0
           | _ \<Rightarrow> clamp 0 last_y (mapped_y - of_int (sc_y remote))),
          at_invert_y = invert_y\<rparr>)"

definition crossing_target_with_transform ::
  "input_target list \<Rightarrow> rat \<Rightarrow> rat \<Rightarrow> rat \<Rightarrow> rat \<Rightarrow> bool \<Rightarrow> active_target option" where
  "crossing_target_with_transform targets x y dx dy invert_y =
     map_option (entered_target invert_y dx dy)
       (find_map (\<lambda>target. map_option (Pair target) (crossing_layout_point target x y dx dy)) targets)"

definition crossing_target :: "input_target list \<Rightarrow> rat \<Rightarrow> rat \<Rightarrow> rat \<Rightarrow> rat \<Rightarrow> active_target option" where
  "crossing_target targets x y dx dy = crossing_target_with_transform targets x y dx dy False"

section \<open>Moving on the remote device\<close>

definition remote_device_screens :: "layout_state \<Rightarrow> string \<Rightarrow> screen list" where
  "remote_device_screens layout device_id =
     (case find (\<lambda>device. dv_id device = device_id) (ly_devices layout) of
        None \<Rightarrow> []
      | Some device \<Rightarrow> map (\<lambda>screen. screen\<lparr>sc_id := peer_screen_id device screen\<rparr>) (dv_screens device))"

definition exited_entry_edge :: "edge \<Rightarrow> screen \<Rightarrow> rat \<Rightarrow> rat \<Rightarrow> rat \<Rightarrow> rat \<Rightarrow> bool" where
  "exited_entry_edge edge screen x y dx dy =
     (case edge of
        RightEdge \<Rightarrow> x \<le> 0 \<and> dx < 0
      | LeftEdge \<Rightarrow> x \<ge> of_int (wrap_i32 (sc_width screen - 1)) \<and> dx > 0
      | BottomEdge \<Rightarrow> y \<le> 0 \<and> dy < 0
      | TopEdge \<Rightarrow> y \<ge> of_int (wrap_i32 (sc_height screen - 1)) \<and> dy > 0)"

definition clamp_to_screen :: "active_target \<Rightarrow> active_target" where
  "clamp_to_screen active = active\<lparr>
     at_x := clamp 0 (of_int (wrap_i32 (sc_width (at_current_screen active) - 1))) (at_x active),
     at_y := clamp 0 (of_int (wrap_i32 (sc_height (at_current_screen active) - 1))) (at_y active)\<rparr>"

definition pin_active_to_entry_edge :: "active_target \<Rightarrow> active_target" where
  "pin_active_to_entry_edge active =
     (let a = clamp_to_screen active in
      case it_edge (at_target a) of
        RightEdge \<Rightarrow> a\<lparr>at_x := 0\<rparr>
      | LeftEdge \<Rightarrow> a\<lparr>at_x := of_int (wrap_i32 (sc_width (at_current_screen a) - 1))\<rparr>
      | BottomEdge \<Rightarrow> a\<lparr>at_y := 0\<rparr>
      | TopEdge \<Rightarrow> a\<lparr>at_y := of_int (wrap_i32 (sc_height (at_current_screen a) - 1))\<rparr>)"

definition update_active_remote_screen ::
  "layout_state \<Rightarrow> rat \<Rightarrow> rat \<Rightarrow> active_target \<Rightarrow> bool \<times> active_target" where
  "update_active_remote_screen layout dx dy active =
     (if point_in_local_bounds (at_current_screen active) (at_x active) (at_y active) then (False, active)
      else
        (let screens = remote_device_screens layout (it_device_id (at_target active));
             global_x = of_int (sc_x (at_current_screen active)) + at_x active;
             global_y = of_int (sc_y (at_current_screen active)) + at_y active
         in case find (\<lambda>screen. sc_id screen \<noteq> sc_id (at_current_screen active)
                 \<and> point_in_screen screen global_x global_y) screens of
              Some screen \<Rightarrow>
                (False, active\<lparr>at_x := global_x - of_int (sc_x screen), at_y := global_y - of_int (sc_y screen),
                   at_current_screen_id := sc_id screen, at_current_screen := screen\<rparr>)
            | None \<Rightarrow>
                if at_current_screen_id active = it_screen_id (at_target active)
                  \<and> exited_entry_edge (it_edge (at_target active)) (at_current_screen active)
                      (at_x active) (at_y active) dx dy
                then (True, pin_active_to_entry_edge active) else (False, active)))"

section \<open>Coming back\<close>

definition RETURN_EDGE_INSET :: rat where "RETURN_EDGE_INSET = 0"

definition local_return_point :: "active_target \<Rightarrow> rat \<times> rat" where
  "local_return_point active =
     (let target = at_target active; l = it_local_screen target; layout_local = it_layout_local_screen target;
          remote = it_remote_screen target;
          global_x = of_int (sc_x remote) + at_x active; global_y = of_int (sc_y remote) + at_y active;
          ratio_x = (global_x - of_int (sc_x layout_local)) / of_int (max (sc_width layout_local) 1);
          ratio_y = (global_y - of_int (sc_y layout_local)) / of_int (max (sc_height layout_local) 1);
          native_x = of_int (sc_x l) + ratio_x * of_int (max (sc_width l) 1);
          native_y = of_int (sc_y l) + ratio_y * of_int (max (sc_height l) 1);
          inset = min RETURN_EDGE_INSET (of_int (max (sc_width l) 1 - 1) / 2);
          inset_v = min RETURN_EDGE_INSET (of_int (max (sc_height l) 1 - 1) / 2);
          right = of_int (wrap_i32 (right_of l - 1)); bottom = of_int (wrap_i32 (bottom_of l - 1))
      in case it_edge target of
           RightEdge \<Rightarrow> (right - inset, clamp (of_int (sc_y l)) bottom native_y)
         | LeftEdge \<Rightarrow> (of_int (sc_x l) + inset, clamp (of_int (sc_y l)) bottom native_y)
         | BottomEdge \<Rightarrow> (clamp (of_int (sc_x l)) right native_x, bottom - inset_v)
         | TopEdge \<Rightarrow> (clamp (of_int (sc_x l)) right native_x, of_int (sc_y l) + inset_v))"

definition local_anchor_point :: "active_target \<Rightarrow> rat \<times> rat" where
  "local_anchor_point active = local_return_point active"

definition local_center_point :: "active_target \<Rightarrow> rat \<times> rat" where
  "local_center_point active = screen_center_point (it_local_screen (at_target active))"

definition local_hotkey_return_point :: "active_target \<Rightarrow> (rat \<times> rat) option \<Rightarrow> rat \<times> rat" where
  "local_hotkey_return_point active recorded_point =
     (case recorded_point of Some point \<Rightarrow> point | None \<Rightarrow> local_center_point active)"

definition should_ignore_initial_anchor_warp_delta :: "edge \<Rightarrow> rat \<Rightarrow> rat \<Rightarrow> bool" where
  "should_ignore_initial_anchor_warp_delta edge dx dy =
     (case edge of
        RightEdge \<Rightarrow> dx \<le> - MIN_CROSSING_DELTA \<and> \<bar>dx\<bar> \<ge> \<bar>dy\<bar> * CROSSING_AXIS_DOMINANCE
      | LeftEdge \<Rightarrow> dx \<ge> MIN_CROSSING_DELTA \<and> \<bar>dx\<bar> \<ge> \<bar>dy\<bar> * CROSSING_AXIS_DOMINANCE
      | BottomEdge \<Rightarrow> dy \<le> - MIN_CROSSING_DELTA \<and> \<bar>dy\<bar> \<ge> \<bar>dx\<bar> * CROSSING_AXIS_DOMINANCE
      | TopEdge \<Rightarrow> dy \<ge> MIN_CROSSING_DELTA \<and> \<bar>dy\<bar> \<ge> \<bar>dx\<bar> * CROSSING_AXIS_DOMINANCE)"

definition PARK_CORNER_CLEARANCE :: i32 where "PARK_CORNER_CLEARANCE = 64"

definition clear_of_corners :: "i32 \<Rightarrow> i32 \<Rightarrow> i32" where
  "clear_of_corners pos extent =
     clamp (min PARK_CORNER_CLEARANCE (max (extent sdiv 2) 0))
       (max (wrap_i32 (extent - 1 - PARK_CORNER_CLEARANCE)) (max (extent sdiv 2) 0)) pos"

definition remote_park_point :: "active_target \<Rightarrow> i32 \<times> i32" where
  "remote_park_point active =
     (let width = sc_width (at_current_screen active); height = sc_height (at_current_screen active);
          last_x = max (wrap_i32 (width - 1)) 0; last_y = max (wrap_i32 (height - 1)) 0
      in if \<not> eq_ignore_ascii_case (it_target_platform (at_target active)) ''macos'' then (last_x, last_y)
         else case it_edge (at_target active) of
                RightEdge \<Rightarrow> (clear_of_corners 0 width, last_y)
              | LeftEdge \<Rightarrow> (last_x, clear_of_corners (round_i32 (at_y active)) height)
              | BottomEdge \<Rightarrow> (last_x, clear_of_corners 0 height)
              | TopEdge \<Rightarrow> (clear_of_corners (round_i32 (at_x active)) width, last_y))"

end
