(* ===== verification/Edge_Rules.thy ===== *)
theory Edge_Rules
  imports Screen_Edges Display_Layout Shortcut_Rules
begin

text \<open>
  What the geometry of the capture guarantees for screens of a sensible size and place: a target exists
  exactly where screens border, a crossing moves outward and enters the remote screen, the pointer stays
  on the remote device, and control comes back only over the entry edge.
\<close>

section \<open>Screens without overflow\<close>

definition placed :: "screen \<Rightarrow> bool" where
  "placed s \<longleftrightarrow> \<bar>sc_x s\<bar> \<le> 1000000000 \<and> \<bar>sc_y s\<bar> \<le> 1000000000
     \<and> 0 < sc_width s \<and> sc_width s \<le> 100000 \<and> 0 < sc_height s \<and> sc_height s \<le> 100000"

lemma placed_sums [simp]:
  assumes "placed s"
  shows "right_of s = sc_x s + sc_width s" and "bottom_of s = sc_y s + sc_height s"
    and "wrap_i32 (sc_width s - 1) = sc_width s - 1" and "wrap_i32 (sc_height s - 1) = sc_height s - 1"
    and "wrap_i32 (sc_width s - 2) = sc_width s - 2" and "wrap_i32 (sc_height s - 2) = sc_height s - 2"
    and "wrap_i32 (sc_x s + sc_width s - 1) = sc_x s + sc_width s - 1"
    and "wrap_i32 (sc_y s + sc_height s - 1) = sc_y s + sc_height s - 1"
  using assms by (auto simp: placed_def right_of_def bottom_of_def is_i32_def intro!: wrap_i32_id)

lemma placed_id [simp]: "placed (s\<lparr>sc_id := i\<rparr>) = placed s"
  by (simp add: placed_def)

section \<open>Borders\<close>

text \<open>The screens face each other at most 80 pixels apart along more than 80 pixels.\<close>

fun borders :: "edge \<Rightarrow> screen \<Rightarrow> screen \<Rightarrow> bool" where
  "borders RightEdge l r \<longleftrightarrow> \<bar>sc_x l + sc_width l - sc_x r\<bar> \<le> 80
     \<and> 80 < min (sc_y l + sc_height l) (sc_y r + sc_height r) - max (sc_y l) (sc_y r)"
| "borders LeftEdge l r \<longleftrightarrow> \<bar>sc_x l - (sc_x r + sc_width r)\<bar> \<le> 80
     \<and> 80 < min (sc_y l + sc_height l) (sc_y r + sc_height r) - max (sc_y l) (sc_y r)"
| "borders BottomEdge l r \<longleftrightarrow> \<bar>sc_y l + sc_height l - sc_y r\<bar> \<le> 80
     \<and> 80 < min (sc_x l + sc_width l) (sc_x r + sc_width r) - max (sc_x l) (sc_x r)"
| "borders TopEdge l r \<longleftrightarrow> \<bar>sc_y l - (sc_y r + sc_height r)\<bar> \<le> 80
     \<and> 80 < min (sc_x l + sc_width l) (sc_x r + sc_width r) - max (sc_x l) (sc_x r)"

definition far :: "int \<Rightarrow> bool" where "far v \<longleftrightarrow> \<bar>v\<bar> \<le> 1000200000"

lemma near_far:
  assumes "far a" and "far b"
  shows "near a b \<longleftrightarrow> \<bar>a - b\<bar> \<le> 80"
proof -
  have "is_i32 (a - b)" "is_i32 \<bar>a - b\<bar>" using assms by (auto simp: far_def is_i32_def)
  then show ?thesis by (simp add: near_def EDGE_TOLERANCE_def)
qed

lemma ranges_far:
  "far a \<Longrightarrow> far a' \<Longrightarrow> far b \<Longrightarrow> far b' \<Longrightarrow> ranges_overlap a a' b b' \<longleftrightarrow> 80 < min a' b' - max a b"
  by (subst ranges_overlap_def, subst wrap_i32_id) (auto simp: EDGE_TOLERANCE_def far_def is_i32_def min_def max_def)

lemma placed_far:
  assumes "placed s"
  shows "far (sc_x s)" and "far (sc_y s)" and "far (sc_x s + sc_width s)" and "far (sc_y s + sc_height s)"
  using assms by (auto simp: placed_def far_def)

lemma touching_borders:
  assumes "placed l" and "placed r"
  shows "(touching_edge l r = Some e \<longrightarrow> borders e l r) \<and> (touching_edge l r = None \<longleftrightarrow> (\<forall>e. \<not> borders e l r))"
proof -
  have forall_edge: "(\<forall>e. P e) \<longleftrightarrow> P RightEdge \<and> P LeftEdge \<and> P BottomEdge \<and> P TopEdge" for P
    using edge.exhaust by metis
  have "touching_edge l r = (if borders RightEdge l r then Some RightEdge else if borders LeftEdge l r then Some LeftEdge
      else if borders BottomEdge l r then Some BottomEdge else if borders TopEdge l r then Some TopEdge else None)"
    using assms placed_far [OF assms(1)] placed_far [OF assms(2)]
    by (simp add: touching_edge_def near_far ranges_far del: min_less_iff_conj max_less_iff_conj)
  then show ?thesis by (auto simp only: forall_edge split: if_splits)
qed

lemma target_of_Some:
  "target_of origin layout device native l r = Some t \<longleftrightarrow>
    \<not> screens_overlap l r \<and> (\<exists>e. touching_edge l r = Some e \<and> t = \<lparr>it_device_id = dv_id device,
      it_origin_device_id = origin, it_cluster_id = ly_cluster_id layout, it_pair_secret = ly_pair_secret layout,
      it_target_addr = dv_host device @ '':'' @ show_nat (unat (input_quic_port (dv_transport_port device) (dv_quic_port device))),
      it_target_platform = dv_platform device, it_transport_public_key = dv_transport_public_key device,
      it_protocol_version = dv_protocol_version device, it_screen_id = peer_screen_id device r,
      it_local_screen = native, it_layout_local_screen = l, it_remote_screen = r, it_edge = e\<rparr>)"
  by (auto simp: target_of_def)

lemma set_map_filter: "y \<in> set (List.map_filter f xs) \<longleftrightarrow> (\<exists>x\<in>set xs. f x = Some y)"
  by (induction xs) (auto simp: List.map_filter_simps split: option.splits)

lemma target_member:
  "t \<in> set (build_input_targets windows origin layout native_layout) \<longleftrightarrow>
    (\<exists>own device l r. find (\<lambda>device. dv_role device = ''local'') (ly_devices layout) = Some own
      \<and> device \<in> set (ly_devices layout) \<and> target_device device \<and> l \<in> set (dv_screens own) \<and> r \<in> set (dv_screens device)
      \<and> target_of origin layout device (native_local_screen windows (input_local_device native_layout) l) l r = Some t)"
proof (cases "find (\<lambda>device. dv_role device = ''local'') (ly_devices layout)")
  case None
  then show ?thesis by (simp add: build_input_targets_def)
next
  case (Some own)
  then show ?thesis by (simp add: build_input_targets_def set_map_filter) blast
qed

section \<open>Crossing\<close>

fun outward :: "edge \<Rightarrow> rat \<Rightarrow> rat \<Rightarrow> bool" where
  "outward RightEdge dx dy \<longleftrightarrow> 0 < dx"
| "outward LeftEdge dx dy \<longleftrightarrow> dx < 0"
| "outward BottomEdge dx dy \<longleftrightarrow> 0 < dy"
| "outward TopEdge dx dy \<longleftrightarrow> dy < 0"

lemma crossing_outward: "is_crossing_screen s e x y dx dy \<Longrightarrow> outward e dx dy"
  by (cases e) (auto simp: is_crossing_screen_def MIN_CROSSING_DELTA_def Let_def)

lemma layout_delta_sign:
  "0 < layout_delta_x t dx \<longleftrightarrow> 0 < dx" "layout_delta_x t dx < 0 \<longleftrightarrow> dx < 0"
  "0 < layout_delta_y t dy \<longleftrightarrow> 0 < dy" "layout_delta_y t dy < 0 \<longleftrightarrow> dy < 0"
  by (simp_all add: layout_delta_x_def layout_delta_y_def zero_less_divide_iff divide_less_0_iff zero_less_mult_iff mult_less_0_iff less_max_iff_disj)

lemma outward_layout: "outward e (layout_delta_x t dx) (layout_delta_y t dy) = outward e dx dy"
  by (cases e) (simp_all add: layout_delta_sign)

lemma crossing_point_outward: "crossing_layout_point t x y dx dy = Some p \<Longrightarrow> outward (it_edge t) dx dy"
  using outward_layout by (auto simp: crossing_layout_point_def Let_def dest!: crossing_outward split: if_splits)

lemma entered_in_bounds:
  assumes "placed (it_remote_screen t)"
  shows "point_in_local_bounds (at_current_screen (entered_target v dx dy (t, p)))
    (at_x (entered_target v dx dy (t, p))) (at_y (entered_target v dx dy (t, p)))"
proof -
  have "0 \<le> (of_int (sc_width (it_remote_screen t) - 1) :: rat)" "0 \<le> (of_int (sc_height (it_remote_screen t) - 1) :: rat)"
    using assms by (auto simp: placed_def)
  from clamp_range [OF this(1)] clamp_range [OF this(2)] show ?thesis
    using assms by (cases p) (simp add: entered_target_def point_in_local_bounds_def Let_def)
qed

section \<open>Roaming\<close>

lemma find_member: "find P xs = Some x \<Longrightarrow> x \<in> set xs \<and> P x"
  by (induction xs) (auto split: if_splits)

lemma clamp_in_bounds:
  assumes "placed (at_current_screen a)"
  shows "point_in_local_bounds (at_current_screen a) (at_x (clamp_to_screen a)) (at_y (clamp_to_screen a))"
proof -
  have "0 \<le> (of_int (sc_width (at_current_screen a) - 1) :: rat)" "0 \<le> (of_int (sc_height (at_current_screen a) - 1) :: rat)"
    using assms by (auto simp: placed_def)
  from clamp_range [OF this(1)] clamp_range [OF this(2)] show ?thesis
    using assms by (simp add: clamp_to_screen_def point_in_local_bounds_def)
qed

lemma bounds_rounded:
  assumes "placed s" and "point_in_local_bounds s x y"
  shows "0 \<le> round_i32 x" and "round_i32 x < sc_width s" and "0 \<le> round_i32 y" and "round_i32 y < sc_height s"
proof -
  have "is_i32 0" "is_i32 (sc_width s - 1)" "is_i32 (sc_height s - 1)" using assms(1) by (auto simp: placed_def is_i32_def)
  with round_between [of 0 x "sc_width s - 1"] round_between [of 0 y "sc_height s - 1"] assms
  show "0 \<le> round_i32 x" "round_i32 x < sc_width s" "0 \<le> round_i32 y" "round_i32 y < sc_height s"
    by (auto simp: point_in_local_bounds_def)
qed

section \<open>An example\<close>

text \<open>A second computer stands to the right of this one.\<close>

definition demo_screen :: "string \<Rightarrow> i32 \<Rightarrow> screen" where
  "demo_screen i left = \<lparr>sc_id = i, sc_device_id = [], sc_name = [], sc_x = left, sc_y = 0, sc_width = 1920,
     sc_height = 1080, sc_scale = F64_Finite 1, sc_is_primary = True\<rparr>"

definition demo_device :: "string \<Rightarrow> string \<Rightarrow> screen list \<Rightarrow> device" where
  "demo_device i role screens = \<lparr>dv_id = i, dv_name = i, dv_platform = ''macos'', dv_host = ''10.0.0.2'',
     dv_transport_port = 0, dv_quic_port = 1, dv_transport_public_key = ''AA'', dv_protocol_version = PROTOCOL_VERSION,
     dv_color = [], dv_online = True, dv_input_ready = True, dv_upgrading = False, dv_upgrading_until_ms = 0,
     dv_role = role, dv_source = [], dv_screens = screens\<rparr>"

definition demo_edge_layout :: layout_state where
  "demo_edge_layout = demo_hotkey_layout\<lparr>ly_devices :=
     [demo_device ''pc'' ''local'' [demo_screen ''l'' 0], demo_device ''mac'' ''remote'' [demo_screen ''r'' 1920]]\<rparr>"

definition demo_edge_target :: input_target where
  "demo_edge_target = \<lparr>it_device_id = ''mac'', it_origin_device_id = ''pc'', it_cluster_id = [], it_pair_secret = [],
     it_target_addr = ''10.0.0.2:1'', it_target_platform = ''macos'', it_transport_public_key = ''AA'',
     it_protocol_version = PROTOCOL_VERSION, it_screen_id = ''r'', it_local_screen = demo_screen ''l'' 0,
     it_layout_local_screen = demo_screen ''l'' 0, it_remote_screen = demo_screen ''r'' 1920, it_edge = RightEdge\<rparr>"

definition demo_entered :: "rat \<Rightarrow> active_target" where
  "demo_entered x = \<lparr>at_target = demo_edge_target, at_current_screen = demo_screen ''r'' 1920,
     at_current_screen_id = ''r'', at_x = x, at_y = 500, at_invert_y = False\<rparr>"

lemma demo_placed [simp]: "\<bar>left\<bar> \<le> 1000000000 \<Longrightarrow> placed (demo_screen i left)"
  by (simp add: placed_def demo_screen_def)

section \<open>The properties\<close>

text \<open>C34. The capture offers a target for exactly the borders of the layout: for a local screen and a screen of
  another device there is one precisely when that device is online, ready for input, of this protocol
  version and has a certificate, and the screens border without overlapping; the target's edge is such a
  border, and it addresses that device. The layout has a local device, and its screens have 1
  to 100000 pixels each way and lie within a billion pixels of the origin.\<close>

theorem targets_are_the_borders:
  assumes "find (\<lambda>device. dv_role device = ''local'') (ly_devices layout) = Some own"
    and "\<And>s. s \<in> set (dv_screens own) \<Longrightarrow> placed s"
    and "\<And>device s. device \<in> set (ly_devices layout) \<Longrightarrow> s \<in> set (dv_screens device) \<Longrightarrow> placed s"
  shows "(\<exists>t\<in>set (build_input_targets windows origin layout native_layout). it_layout_local_screen t = l
      \<and> it_remote_screen t = r \<and> it_device_id t = d \<and> borders (it_edge t) l r)
    \<longleftrightarrow> l \<in> set (dv_screens own) \<and> (\<exists>device. device \<in> set (ly_devices layout) \<and> target_device device
        \<and> dv_id device = d \<and> r \<in> set (dv_screens device)) \<and> \<not> screens_overlap l r \<and> (\<exists>e. borders e l r)"
    (is "?has = ?bordering")
proof
  assume ?has
  then obtain t where t: "t \<in> set (build_input_targets windows origin layout native_layout)" "it_layout_local_screen t = l"
    "it_remote_screen t = r" "it_device_id t = d" "borders (it_edge t) l r" by blast
  with assms(1) show ?bordering
    unfolding target_member target_of_Some by auto
next
  assume ?bordering
  then obtain device e where l: "l \<in> set (dv_screens own)" and device: "device \<in> set (ly_devices layout)"
    "target_device device" "dv_id device = d" "r \<in> set (dv_screens device)" "\<not> screens_overlap l r" and e: "borders e l r" by blast
  have "placed l" "placed r" using assms(2,3) l device by blast+
  from touching_borders [OF this] e obtain e' where touch: "touching_edge l r = Some e'" "borders e' l r" by blast
  let ?native = "native_local_screen windows (input_local_device native_layout) l"
  from touch device(5) obtain t where t: "target_of origin layout device ?native l r = Some t"
    unfolding target_of_def by simp
  then have "t \<in> set (build_input_targets windows origin layout native_layout)"
    unfolding target_member using assms(1) l device by blast
  moreover have "it_layout_local_screen t = l \<and> it_remote_screen t = r \<and> it_device_id t = d \<and> it_edge t = e'"
    using t touch(1) device(3) unfolding target_of_Some by auto
  ultimately show ?has using touch(2) by blast
qed

lemma targets_are_the_borders_witness:
  "(\<exists>t\<in>set (build_input_targets False ''pc'' demo_edge_layout demo_edge_layout). it_layout_local_screen t = demo_screen ''l'' 0
      \<and> it_remote_screen t = demo_screen ''r'' 1920 \<and> it_device_id t = ''mac''
      \<and> borders (it_edge t) (demo_screen ''l'' 0) (demo_screen ''r'' 1920))"
proof -
  have own: "find (\<lambda>device. dv_role device = ''local'') (ly_devices demo_edge_layout)
      = Some (demo_device ''pc'' ''local'' [demo_screen ''l'' 0])"
    by (simp add: demo_edge_layout_def demo_device_def)
  have target: "target_device (demo_device ''mac'' ''remote'' [demo_screen ''r'' 1920])" by code_simp
  have apart: "\<not> screens_overlap (demo_screen ''l'' 0) (demo_screen ''r'' 1920)"
    "borders RightEdge (demo_screen ''l'' 0) (demo_screen ''r'' 1920)" by code_simp+
  have "dv_screens (demo_device i role screens) = screens" "dv_id (demo_device i role screens) = i" for i role screens
    by (simp_all add: demo_device_def)
  moreover have "\<exists>e. borders e (demo_screen ''l'' 0) (demo_screen ''r'' 1920)" using apart(2) by blast
  ultimately show ?thesis using target apart(1)
    by (subst targets_are_the_borders [OF own]) (auto simp: demo_edge_layout_def)
qed

text \<open>Control passes to a remote screen only by a movement out of the local one: the target that a pointer
  crosses into is one of those offered, the pointer moved outward over its edge, and it enters the remote
  screen at a position that is on that screen, so that it does not return at once.\<close>

theorem crossing_moves_outward:
  assumes "crossing_target targets x y dx dy = Some a" and "\<And>t. t \<in> set targets \<Longrightarrow> placed (it_remote_screen t)"
  shows "at_target a \<in> set targets \<and> outward (it_edge (at_target a)) dx dy
    \<and> at_current_screen_id a = it_screen_id (at_target a)
    \<and> point_in_local_bounds (at_current_screen a) (at_x a) (at_y a)
    \<and> update_active_remote_screen layout 0 0 a = (False, a)"
proof -
  from assms(1) obtain t p where found: "find_map (\<lambda>target. map_option (Pair target) (crossing_layout_point target x y dx dy)) targets
      = Some (t, p)" and a: "a = entered_target False dx dy (t, p)"
    by (auto simp: crossing_target_def crossing_target_with_transform_def)
  from find_map_Some [OF found] have t: "t \<in> set targets" and cross: "crossing_layout_point t x y dx dy = Some p" by auto
  have target: "at_target a = t" "at_current_screen_id a = it_screen_id t"
    by (cases p, simp add: a entered_target_def Let_def)+
  have "point_in_local_bounds (at_current_screen a) (at_x a) (at_y a)"
    unfolding a by (rule entered_in_bounds) (rule assms(2) [OF t])
  with t target crossing_point_outward [OF cross] show ?thesis by (simp add: update_active_remote_screen_def)
qed

lemma crossing_moves_outward_witness:
  "\<exists>a. crossing_target [demo_edge_target] 1919 500 4 0 = Some a \<and> outward RightEdge 4 (0 :: rat)
     \<and> point_in_local_bounds (at_current_screen a) (at_x a) (at_y a)"
proof -
  have "(case crossing_target [demo_edge_target] 1919 500 4 0 of None \<Rightarrow> False | Some a \<Rightarrow> at_target a = demo_edge_target)"
    by code_simp
  then obtain a where a: "crossing_target [demo_edge_target] 1919 500 4 0 = Some a" "at_target a = demo_edge_target"
    by (auto split: option.splits)
  have "placed (it_remote_screen t)" if "t \<in> set [demo_edge_target]" for t
    using that by (simp add: demo_edge_target_def)
  from crossing_moves_outward [OF a(1) this] a show ?thesis by (simp add: demo_edge_target_def)
qed

text \<open>C35. While a remote screen is controlled the position sent is one of its pixels: after a movement that does
  not return, the position is clamped to the screen the pointer is on, which is the screen it was on or
  another one of the same device, and its rounded coordinates are ones a receiver with the geometry of
  that screen accepts. The screens have 1 to 100000 pixels each way and lie within a
  billion pixels of the origin.\<close>

theorem sent_position_is_accepted:
  assumes "update_active_remote_screen layout dx dy a = (False, a')" and "placed (at_current_screen a)"
    and "\<And>device s. device \<in> set (ly_devices layout) \<Longrightarrow> s \<in> set (dv_screens device) \<Longrightarrow> placed s"
    and "dl_layout_revision d \<noteq> 0" and "dl_logical_width d = sc_width (at_current_screen a')"
    and "dl_logical_height d = sc_height (at_current_screen a')" and "0 < dl_native_width d" and "0 < dl_native_height d"
  shows "(at_current_screen a' = at_current_screen a
      \<or> at_current_screen a' \<in> set (remote_device_screens layout (it_device_id (at_target a))))
    \<and> is_ok (layout_map d (round_i32 (at_x (clamp_to_screen a'))) (round_i32 (at_y (clamp_to_screen a'))))"
proof -
  have member: "at_current_screen a' = at_current_screen a
      \<or> at_current_screen a' \<in> set (remote_device_screens layout (it_device_id (at_target a)))"
    using assms(1) by (auto simp: update_active_remote_screen_def Let_def dest: find_member split: if_splits option.splits)
  have "placed s" if "s \<in> set (remote_device_screens layout i)" for s i
  proof (cases "find (\<lambda>device. dv_id device = i) (ly_devices layout)")
    case None
    with that show ?thesis by (simp add: remote_device_screens_def)
  next
    case (Some device)
    with that assms(3) find_member [OF Some] show ?thesis by (auto simp: remote_device_screens_def)
  qed
  with member assms(2) have "placed (at_current_screen a')" by auto
  from bounds_rounded [OF this clamp_in_bounds [OF this]] this assms(4-) member show ?thesis
    by (simp add: layout_map_def placed_def)
qed

lemma sent_position_is_accepted_witness:
  "is_ok (layout_map \<lparr>dl_display_id = ''r'', dl_layout_revision = 1, dl_logical_width = 1920, dl_logical_height = 1080,
      dl_native_x = 0, dl_native_y = 0, dl_native_width = 3840, dl_native_height = 2160\<rparr>
      (round_i32 (at_x (clamp_to_screen (demo_entered 1950)))) (round_i32 (at_y (clamp_to_screen (demo_entered 1950)))))"
proof -
  have moved: "update_active_remote_screen demo_edge_layout 40 0 (demo_entered 1950) = (False, demo_entered 1950)"
    by (simp add: update_active_remote_screen_def demo_entered_def demo_edge_layout_def demo_device_def demo_screen_def
        point_in_local_bounds_def remote_device_screens_def peer_screen_id_def strip_prefix_def Let_def
        demo_edge_target_def exited_entry_edge_def is_i32_def)
  have "placed (at_current_screen (demo_entered 1950))" by (simp add: demo_entered_def)
  moreover have "placed s" if "device \<in> set (ly_devices demo_edge_layout)" "s \<in> set (dv_screens device)" for device s
    using that by (auto simp: demo_edge_layout_def demo_device_def)
  ultimately show ?thesis
    by (intro conjunct2 [OF sent_position_is_accepted [OF moved]]) (simp_all add: demo_entered_def demo_screen_def)
qed

fun on_edge :: "edge \<Rightarrow> screen \<Rightarrow> rat \<times> rat \<Rightarrow> bool" where
  "on_edge RightEdge l p \<longleftrightarrow> fst p = of_int (sc_x l + sc_width l - 1)"
| "on_edge LeftEdge l p \<longleftrightarrow> fst p = of_int (sc_x l)"
| "on_edge BottomEdge l p \<longleftrightarrow> snd p = of_int (sc_y l + sc_height l - 1)"
| "on_edge TopEdge l p \<longleftrightarrow> snd p = of_int (sc_y l)"

lemma return_point_on_screen:
  assumes "placed (it_local_screen (at_target a))"
  shows "point_in_screen (it_local_screen (at_target a)) (fst (local_return_point a)) (snd (local_return_point a))
    \<and> on_edge (it_edge (at_target a)) (it_local_screen (at_target a)) (local_return_point a)"
proof -
  let ?l = "it_local_screen (at_target a)"
  have w: "(of_int (sc_x ?l) :: rat) \<le> of_int (sc_x ?l + sc_width ?l - 1)"
    and h: "(of_int (sc_y ?l) :: rat) \<le> of_int (sc_y ?l + sc_height ?l - 1)"
    using assms by (auto simp: placed_def)
  show ?thesis
    using clamp_range [OF w] clamp_range [OF h] w h assms
    by (cases "it_edge (at_target a)") (simp_all add: local_return_point_def Let_def RETURN_EDGE_INSET_def min_def point_in_screen_def)
qed

lemma pin_target [simp]: "at_target (pin_active_to_entry_edge a) = at_target a"
  by (cases "it_edge (at_target a)") (simp_all add: pin_active_to_entry_edge_def clamp_to_screen_def Let_def)

text \<open>C36. Control comes back only over the entry edge, and onto it: when a movement returns control, the pointer was
  on the screen it had entered, it moved back over the edge it had crossed, and the point where the local
  pointer is put is on the local screen, of 1 to 100000 pixels each way and within a billion pixels of the
  origin, on that edge.\<close>

theorem return_over_entry_edge:
  assumes "update_active_remote_screen layout dx dy a = (True, a')" and "placed (it_local_screen (at_target a))"
  shows "at_current_screen_id a = it_screen_id (at_target a) \<and> outward (it_edge (at_target a)) (- dx) (- dy)
    \<and> point_in_screen (it_local_screen (at_target a)) (fst (local_return_point a')) (snd (local_return_point a'))
    \<and> on_edge (it_edge (at_target a)) (it_local_screen (at_target a)) (local_return_point a')"
proof -
  from assms(1) have entry: "at_current_screen_id a = it_screen_id (at_target a)"
    and exited: "exited_entry_edge (it_edge (at_target a)) (at_current_screen a) (at_x a) (at_y a) dx dy"
    and a': "a' = pin_active_to_entry_edge a"
    by (auto simp: update_active_remote_screen_def Let_def split: if_splits option.splits)
  have "outward (it_edge (at_target a)) (- dx) (- dy)"
    using exited by (cases "it_edge (at_target a)") (simp_all add: exited_entry_edge_def)
  with entry return_point_on_screen [of a'] assms(2) show ?thesis by (simp add: a')
qed

lemma return_over_entry_edge_witness:
  "\<exists>a'. update_active_remote_screen demo_edge_layout (- 5) 0 (demo_entered (- 3)) = (True, a')
     \<and> on_edge RightEdge (demo_screen ''l'' 0) (local_return_point a')"
proof -
  have returns: "update_active_remote_screen demo_edge_layout (- 5) 0 (demo_entered (- 3))
      = (True, pin_active_to_entry_edge (demo_entered (- 3)))"
    by (simp add: update_active_remote_screen_def demo_entered_def demo_edge_layout_def demo_device_def demo_screen_def
        point_in_local_bounds_def remote_device_screens_def peer_screen_id_def strip_prefix_def Let_def
        demo_edge_target_def exited_entry_edge_def)
  have "placed (it_local_screen (at_target (demo_entered (- 3))))" by (simp add: demo_entered_def demo_edge_target_def)
  from return_over_entry_edge [OF returns this] returns show ?thesis by (simp add: demo_entered_def demo_edge_target_def)
qed

end
