(* ===== verification/Windows_Capture.thy ===== *)
theory Windows_Capture
  imports Screen_Edges Input_Hotkeys Controller_Client Game_Mode Display_Layout
begin

text \<open>
  The capture of Windows (\<open>input.rs\<close>), the real provider of the capture and focus ports: the context its
  thread keeps, hiding the pointer and giving it back, the hand-over of the foreground window, and the
  calls it makes on the controller's client.

  The calls of the operating system are a record of functions over its state \<open>'w\<close>. Positions are rationals
  and \<open>now\<close> is the time since the start of the capture in milliseconds. Only the branches with a V2
  controller are modelled: the others belong to the data path that \<open>fork_policy.rs\<close> disables.

  The context's mutexes are taken by one thread only, the capture thread. The one lock it may take while it
  holds it is that of \<open>active\<close>: \<open>wc_active_held\<close> says that a handler holds it, and \<open>wc_stuck\<close> that the thread
  has asked for it again. Such a call does not return, and what is computed after it means nothing.
\<close>

section \<open>The operating system\<close>

text \<open>
  \<open>wa_requests\<close> is how often other threads ask for local control while a port is called, \<open>wa_origin\<close> the id of
  this machine's peer and \<open>wa_scale_bits\<close> the bit pattern of a double. A window is its handle, 0 is none.
\<close>

record 'w windows_api =
  wa_show_cursor :: "bool \<Rightarrow> 'w \<Rightarrow> i32 \<times> 'w"
  wa_set_cursor_pos :: "i32 \<Rightarrow> i32 \<Rightarrow> 'w \<Rightarrow> 'w"
  wa_cursor_pos :: "'w \<Rightarrow> (i32 \<times> i32) option"
  wa_foreground :: "'w \<Rightarrow> int"
  wa_set_foreground :: "int \<Rightarrow> 'w \<Rightarrow> bool \<times> 'w"
  wa_is_window :: "int \<Rightarrow> 'w \<Rightarrow> bool"
  wa_key_down :: "nat \<Rightarrow> 'w \<Rightarrow> bool"
  wa_input_desktop :: "'w \<Rightarrow> string option"
  wa_requests :: "'w \<Rightarrow> nat"
  wa_origin :: string
  wa_scale_bits :: "f64 \<Rightarrow> u64"

section \<open>The context\<close>

record pending_windows_target =
  pw_active :: active_target
  pw_crossed_edge :: bool

record clipboard_target =
  kt_device_id :: string
  kt_addr :: string
  kt_transport_public_key :: string
  kt_protocol_version :: u16
  kt_cluster_id :: string
  kt_pair_secret :: string
  kt_expires_at :: "u64 option"

text \<open>
  \<open>wc_stop\<close> is the signal that ends the thread, which the application sets. The layout and the cells of the
  game mode are shared with the application, \<open>wc_targets\<close> and
  \<open>wc_desktop_default\<close> are process-wide caches, and \<open>wc_candidate\<close> is the field of the port object in use.
\<close>

record 'w capture_context =
  wc_os :: 'w
  wc_layout :: layout_state
  wc_native_layout :: layout_state
  wc_cells :: game_cells
  wc_desktop_default :: bool
  wc_targets :: "(u64 \<times> input_target list) option"
  wc_active :: "active_target option"
  wc_stop :: bool
  wc_remote_active :: bool
  wc_clipboard_target :: "clipboard_target option"
  wc_input_events :: u64
  wc_switch_request :: "switch_direction option"
  wc_focus_window :: int
  wc_previous_foreground :: int
  wc_anchor :: "(rat \<times> rat) option"
  wc_last_point :: "(rat \<times> rat) option"
  wc_last_mouse_move_sent :: "u64 option"
  wc_button_mask :: u64
  wc_pressed_keys :: "u16 list"
  wc_hide_calls :: nat
  wc_just_crossed :: bool
  wc_screen_points :: "(string, rat \<times> rat) map"
  wc_pending :: "pending_windows_target option"
  wc_motion_sequence :: u64
  wc_candidate :: "pending_windows_target option"
  wc_active_held :: bool
  wc_stuck :: bool

definition lock_active :: "'w capture_context \<Rightarrow> 'w capture_context" where
  "lock_active c = (if wc_active_held c then c\<lparr>wc_stuck := True\<rparr> else c)"

section \<open>The pointer\<close>

primrec hide_loop :: "'w windows_api \<Rightarrow> nat \<Rightarrow> nat \<Rightarrow> 'w \<Rightarrow> nat \<times> 'w" where
  "hide_loop A 0 calls w = (calls, w)"
| "hide_loop A (Suc n) calls w =
     (let (count, w1) = wa_show_cursor A False w
      in if count < 0 then (calls + 1, w1) else hide_loop A n (calls + 1) w1)"

definition hide_windows_cursor_if_needed :: "'w windows_api \<Rightarrow> 'w capture_context \<Rightarrow> 'w capture_context" where
  "hide_windows_cursor_if_needed A c =
     (if wc_hide_calls c \<noteq> 0 then c
      else (let (calls, w) = hide_loop A 8 0 (wc_os c) in c\<lparr>wc_hide_calls := calls, wc_os := w\<rparr>))"

primrec show_loop :: "'w windows_api \<Rightarrow> nat \<Rightarrow> 'w \<Rightarrow> 'w" where
  "show_loop A 0 w = w"
| "show_loop A (Suc n) w = show_loop A n (snd (wa_show_cursor A True w))"

definition show_windows_cursor_if_needed :: "'w windows_api \<Rightarrow> 'w capture_context \<Rightarrow> 'w capture_context" where
  "show_windows_cursor_if_needed A c =
     c\<lparr>wc_os := show_loop A (wc_hide_calls c) (wc_os c), wc_hide_calls := 0\<rparr>"

text \<open>\<open>set_windows_cursor\<close>, at the rounded point its callers compute.\<close>

definition set_windows_cursor :: "'w windows_api \<Rightarrow> rat \<times> rat \<Rightarrow> 'w capture_context \<Rightarrow> 'w capture_context" where
  "set_windows_cursor A p c =
     c\<lparr>wc_os := wa_set_cursor_pos A (round_i32 (fst p)) (round_i32 (snd p)) (wc_os c)\<rparr>"

definition windows_current_cursor_point :: "'w windows_api \<Rightarrow> 'w \<Rightarrow> (rat \<times> rat) option" where
  "windows_current_cursor_point A w = map_option (\<lambda>(x, y). (of_int x, of_int y)) (wa_cursor_pos A w)"

section \<open>The desktop, buttons, keys and timers\<close>

text \<open>The name of the desktop that receives input comes from the system, if it can be read.\<close>

definition windows_input_desktop_is_default :: "'w windows_api \<Rightarrow> 'w \<Rightarrow> bool" where
  "windows_input_desktop_is_default A w =
     (case wa_input_desktop A w of None \<Rightarrow> False | Some name \<Rightarrow> eq_ignore_ascii_case name ''default'')"

definition refresh_windows_input_desktop_cache :: "'w windows_api \<Rightarrow> 'w capture_context \<Rightarrow> bool \<times> 'w capture_context" where
  "refresh_windows_input_desktop_cache A c =
     (let current = windows_input_desktop_is_default A (wc_os c) in (current, c\<lparr>wc_desktop_default := current\<rparr>))"

definition windows_control_inputs_released :: "'w windows_api \<Rightarrow> 'w \<Rightarrow> bool" where
  "windows_control_inputs_released A w = list_all (\<lambda>virtual_key. \<not> wa_key_down A virtual_key w) [1..<255]"

definition windows_current_hotkey_modifiers :: "'w windows_api \<Rightarrow> 'w \<Rightarrow> hotkey_modifiers" where
  "windows_current_hotkey_modifiers A w =
     \<lparr>hm_ctrl = wa_key_down A 0x11 w, hm_alt = wa_key_down A 0x12 w, hm_shift = wa_key_down A 0x10 w,
      hm_meta = wa_key_down A 0x5B w \<or> wa_key_down A 0x5C w\<rparr>"

definition MOUSE_MOVE_SEND_INTERVAL_MS :: u64 where "MOUSE_MOVE_SEND_INTERVAL_MS = 8"
definition DRAG_MOVE_SEND_INTERVAL_MS :: u64 where "DRAG_MOVE_SEND_INTERVAL_MS = 8"

definition should_send_mouse_move :: "u64 \<Rightarrow> bool \<Rightarrow> 'w capture_context \<Rightarrow> bool \<times> 'w capture_context" where
  "should_send_mouse_move now dragging c =
     (let interval = (if dragging then DRAG_MOVE_SEND_INTERVAL_MS else MOUSE_MOVE_SEND_INTERVAL_MS) in
      if (case wc_last_mouse_move_sent c of None \<Rightarrow> False | Some sent \<Rightarrow> saturating_sub now sent < interval)
      then (False, c) else (True, c\<lparr>wc_last_mouse_move_sent := Some now\<rparr>))"

definition mark_mouse_move_sent :: "u64 \<Rightarrow> 'w capture_context \<Rightarrow> 'w capture_context" where
  "mark_mouse_move_sent now c = c\<lparr>wc_last_mouse_move_sent := Some now\<rparr>"

definition remote_button_is_down :: "u64 \<Rightarrow> bool" where
  "remote_button_is_down m \<longleftrightarrow> m \<noteq> 0"

definition update_remote_button_mask :: "mouse_button \<Rightarrow> bool \<Rightarrow> u64 \<Rightarrow> u64" where
  "update_remote_button_mask button down m =
     (if down then m OR mouse_button_mask button else m AND NOT (mouse_button_mask button))"

definition track_forwarded_key :: "u16 \<Rightarrow> bool \<Rightarrow> u16 list \<Rightarrow> u16 list" where
  "track_forwarded_key key_code down pressed =
     (if down then (if key_code \<in> set pressed then pressed else pressed @ [key_code])
      else filter (\<lambda>code. code \<noteq> key_code) pressed)"

section \<open>The clipboard's target\<close>

definition clear_clipboard_target :: "'w capture_context \<Rightarrow> 'w capture_context" where
  "clear_clipboard_target c = c\<lparr>wc_clipboard_target := None\<rparr>"

text \<open>A target past its time is dropped when it is asked for.\<close>

definition current_clipboard_target :: "u64 \<Rightarrow> clipboard_target option \<Rightarrow> clipboard_target option \<times> clipboard_target option" where
  "current_clipboard_target now target =
     (if (case Option.bind target kt_expires_at of None \<Rightarrow> False | Some expires \<Rightarrow> expires \<le> now)
      then (None, None) else (target, target))"

definition set_control_clipboard_target :: "active_target \<Rightarrow> 'w capture_context \<Rightarrow> 'w capture_context" where
  "set_control_clipboard_target active c =
     (case find (\<lambda>device. dv_id device = it_device_id (at_target active) \<and> dv_online device \<and> dv_input_ready device)
         (ly_devices (wc_layout c)) of
        None \<Rightarrow> c
      | Some device \<Rightarrow> c\<lparr>wc_clipboard_target := Some
          \<lparr>kt_device_id = it_device_id (at_target active),
           kt_addr = dv_host device @ '':'' @ show_nat (unat (input_quic_port (dv_transport_port device) (dv_quic_port device))),
           kt_transport_public_key = dv_transport_public_key device, kt_protocol_version = dv_protocol_version device,
           kt_cluster_id = ly_cluster_id (wc_layout c), kt_pair_secret = ly_pair_secret (wc_layout c),
           kt_expires_at = None\<rparr>\<rparr>)"

section \<open>The foreground window\<close>

text \<open>The three messages for the user, Chinese in the source, are named here.\<close>

definition set_capture_fault :: "string option \<Rightarrow> 'w capture_context \<Rightarrow> 'w capture_context" where
  "set_capture_fault detail c = c\<lparr>wc_cells := set_focus_fault detail (wc_cells c)\<rparr>"

definition prepare_windows_focus ::
  "'w windows_api \<Rightarrow> 'w capture_context \<Rightarrow> (port_error, unit) result \<times> 'w capture_context" where
  "prepare_windows_focus A c =
     (let c1 = set_capture_fault None c in
      if \<not> wc_desktop_default c1 \<or> wc_focus_window c1 = 0
      then (Inl Unavailable, set_capture_fault (Some ''cannot prepare'') c1)
      else
        (let previous = wa_foreground A (wc_os c1);
             (changed, w) = wa_set_foreground A (wc_focus_window c1) (wc_os c1)
         in if previous = 0 then (Inl Unavailable, set_capture_fault (Some ''refused'') c1)
            else if \<not> changed then (Inl Unavailable, set_capture_fault (Some ''refused'') (c1\<lparr>wc_os := w\<rparr>))
            else if wa_foreground A w \<noteq> wc_focus_window c1
            then (Inl Unavailable, set_capture_fault (Some ''without effect'') (c1\<lparr>wc_os := w\<rparr>))
            else (Inr (), c1\<lparr>wc_os := w, wc_previous_foreground := previous\<rparr>)))"

definition restore_windows_foreground :: "'w windows_api \<Rightarrow> 'w capture_context \<Rightarrow> 'w capture_context" where
  "restore_windows_foreground A c =
     (let previous = wc_previous_foreground c; c1 = c\<lparr>wc_previous_foreground := 0\<rparr> in
      if previous \<noteq> 0 \<and> wa_is_window A previous (wc_os c1)
      then c1\<lparr>wc_os := snd (wa_set_foreground A previous (wc_os c1))\<rparr> else c1)"

section \<open>The ports\<close>

definition restore_windows_capture_state :: "'w windows_api \<Rightarrow> bool \<Rightarrow> 'w capture_context \<Rightarrow> 'w capture_context" where
  "restore_windows_capture_state A clear_clipboard c =
     (let c1 = (lock_active (c\<lparr>wc_pending := None\<rparr>))\<lparr>wc_active := None, wc_button_mask := 0, wc_pressed_keys := [],
            wc_motion_sequence := 0, wc_remote_active := False, wc_just_crossed := False,
            wc_last_mouse_move_sent := None\<rparr>;
          c2 = restore_windows_foreground A (show_windows_cursor_if_needed A c1);
          c3 = c2\<lparr>wc_anchor := None, wc_last_point := None\<rparr>
      in if clear_clipboard then clear_clipboard_target c3 else c3)"

definition windows_prepare_capture :: "'w capture_context \<Rightarrow> (port_error, unit) result \<times> 'w capture_context" where
  "windows_prepare_capture c =
     (if \<not> wc_desktop_default c then (Inl Unavailable, c)
      else case wc_candidate c of
        None \<Rightarrow> (Inl Unavailable, c)
      | Some candidate \<Rightarrow>
          (let c1 = c\<lparr>wc_candidate := None\<rparr> in
           if wc_pending c1 \<noteq> None then (Inl Unavailable, c1)
           else (let c2 = lock_active c1 in
                 if wc_active c2 \<noteq> None then (Inl Unavailable, c2) else (Inr (), c2\<lparr>wc_pending := Some candidate\<rparr>))))"

definition windows_activate_capture ::
  "'w windows_api \<Rightarrow> 'w capture_context \<Rightarrow> (port_error, unit) result \<times> 'w capture_context" where
  "windows_activate_capture A c =
     (if \<not> wc_desktop_default c then (Inl Unavailable, c)
      else case wc_pending c of
        None \<Rightarrow> (Inl Unavailable, c)
      | Some pending \<Rightarrow>
          (let anchor = local_anchor_point (pw_active pending);
               c1 = hide_windows_cursor_if_needed A (c\<lparr>wc_pending := None\<rparr>);
               c2 = set_control_clipboard_target (pw_active pending) (set_windows_cursor A anchor c1)
           in (Inr (), (lock_active c2)\<lparr>wc_active := Some (pw_active pending), wc_anchor := Some anchor,
                 wc_just_crossed := pw_crossed_edge pending, wc_remote_active := True\<rparr>)))"

text \<open>The value of the cell after a call during which other threads asked for local control.\<close>

definition race :: "'w windows_api \<Rightarrow> 'w capture_context \<Rightarrow> u64 \<Rightarrow> u64" where
  "race A c g = (request_local ^^ wa_requests A (wc_os c)) g"

definition windows_capture_port :: "'w windows_api \<Rightarrow> 'w capture_context capture_port" where
  "windows_capture_port A =
     \<lparr>prepare_capture = (\<lambda>c g. let (res, c') = windows_prepare_capture c in (res, c', race A c g)),
      activate_capture = (\<lambda>c g. let (res, c') = windows_activate_capture A c in (res, c', race A c g)),
      request_local_restore = (\<lambda>c g. (restore_windows_capture_state A True c, race A c g))\<rparr>"

definition windows_focus_port :: "'w windows_api \<Rightarrow> 'w capture_context focus_port" where
  "windows_focus_port A =
     \<lparr>prepare_focus = (\<lambda>c g. let (res, c') = prepare_windows_focus A c in (res, c', race A c g))\<rparr>"

lemma race_later [simp]: "gate_later g (race A c g)"
  by (auto simp: race_def gate_later_def)

text \<open>The ports the router runs on keep its contract.\<close>

interpretation windows_ports: handoff_contract "windows_capture_port A" "windows_focus_port A"
  by unfold_locales (auto simp: windows_capture_port_def windows_focus_port_def split: prod.splits)

end
