(* ===== verification/Windows_Hooks.thy ===== *)
theory Windows_Hooks
  imports Windows_Capture
begin

text \<open>
  The thread of the Windows capture (\<open>input.rs\<close>): what its hooks do with an event of the system, the queue
  between the hooks and the thread, and every handler of the thread's loop, on the context and the ports
  of \<open>Windows_Capture\<close> and the client of \<open>Controller_Client\<close>.

  The hooks run on this thread too, when it serves its messages, so hooks and handlers are one sequence of
  steps; other threads write the cell of the local override, the pending action and the layout. The cell
  is the one the client's router holds. A lock another thread may hold is an argument (\<open>lock_free\<close>,
  \<open>layout_free\<close>), and so is whether a hook finds the context (\<open>context_free\<close>).
\<close>

section \<open>Events and messages\<close>

datatype windows_hook_event =
    HookMouse u32 i32 i32 u32
  | HookKey u32 u32 u32 u32 hotkey_modifiers

text \<open>The messages of the Windows headers.\<close>

definition WM_KEYDOWN :: u32 where "WM_KEYDOWN = 0x100"
definition WM_KEYUP :: u32 where "WM_KEYUP = 0x101"
definition WM_SYSKEYDOWN :: u32 where "WM_SYSKEYDOWN = 0x104"
definition WM_SYSKEYUP :: u32 where "WM_SYSKEYUP = 0x105"
definition WM_MOUSEMOVE :: u32 where "WM_MOUSEMOVE = 0x200"
definition WM_LBUTTONDOWN :: u32 where "WM_LBUTTONDOWN = 0x201"
definition WM_LBUTTONUP :: u32 where "WM_LBUTTONUP = 0x202"
definition WM_RBUTTONDOWN :: u32 where "WM_RBUTTONDOWN = 0x204"
definition WM_RBUTTONUP :: u32 where "WM_RBUTTONUP = 0x205"
definition WM_MBUTTONDOWN :: u32 where "WM_MBUTTONDOWN = 0x207"
definition WM_MBUTTONUP :: u32 where "WM_MBUTTONUP = 0x208"
definition WM_MOUSEWHEEL :: u32 where "WM_MOUSEWHEEL = 0x20A"
definition WM_XBUTTONDOWN :: u32 where "WM_XBUTTONDOWN = 0x20B"
definition WM_XBUTTONUP :: u32 where "WM_XBUTTONUP = 0x20C"
definition WM_MOUSEHWHEEL :: u32 where "WM_MOUSEHWHEEL = 0x20E"
definition XBUTTON1 :: u16 where "XBUTTON1 = 1"

lemmas windows_messages = WM_KEYDOWN_def WM_KEYUP_def WM_SYSKEYDOWN_def WM_SYSKEYUP_def WM_MOUSEMOVE_def
  WM_LBUTTONDOWN_def WM_LBUTTONUP_def WM_RBUTTONDOWN_def WM_RBUTTONUP_def WM_MBUTTONDOWN_def WM_MBUTTONUP_def
  WM_MOUSEWHEEL_def WM_XBUTTONDOWN_def WM_XBUTTONUP_def WM_MOUSEHWHEEL_def

section \<open>The thread\<close>

definition HOOK_QUEUE_EVENTS :: nat where "HOOK_QUEUE_EVENTS = 1024"
definition INPUT_TARGETS_TTL_MS :: u64 where "INPUT_TARGETS_TTL_MS = 250"

record ('t, 'w) capture_thread =
  ct_client :: "'t controller_client"
  ct_context :: "'w capture_context"
  ct_deduper :: u8
  ct_action :: "control_hotkey_action option"
  ct_bindings :: "control_hotkey_binding option list"
  ct_queue :: "windows_hook_event list"

definition thread_gate :: "('t, 'w) capture_thread \<Rightarrow> u64" where
  "thread_gate th = rt_gate (cr_router (cc_runtime (ct_client th)))"

definition set_thread_gate :: "u64 \<Rightarrow> ('t, 'w) capture_thread \<Rightarrow> ('t, 'w) capture_thread" where
  "set_thread_gate g th =
     th\<lparr>ct_client := (ct_client th)\<lparr>cc_runtime := (cc_runtime (ct_client th))\<lparr>cr_router :=
        (cr_router (cc_runtime (ct_client th)))\<lparr>rt_gate := g\<rparr>\<rparr>\<rparr>\<rparr>"

definition with_context ::
  "('w capture_context \<Rightarrow> 'w capture_context) \<Rightarrow> ('t, 'w) capture_thread \<Rightarrow> ('t, 'w) capture_thread" where
  "with_context f th = th\<lparr>ct_context := f (ct_context th)\<rparr>"

definition thread_dispatch ::
  "bool \<Rightarrow> control_hotkey_action \<Rightarrow> bool \<Rightarrow> ('t, 'w) capture_thread \<Rightarrow> ('t, 'w) capture_thread" where
  "thread_dispatch lock_free action pressed th =
     (let (_, h) = dispatch_control_hotkey lock_free action pressed
            \<lparr>hot_deduper = ct_deduper th, hot_pending = ct_action th, hot_gate = thread_gate th\<rparr>
      in set_thread_gate (hot_gate h) (th\<lparr>ct_deduper := hot_deduper h, ct_action := hot_pending h\<rparr>))"

section \<open>The hooks\<close>

text \<open>A hook returns whether it keeps the event from the system.\<close>

definition try_offer_hook_event :: "windows_hook_event \<Rightarrow> ('t, 'w) capture_thread \<Rightarrow> bool \<times> ('t, 'w) capture_thread" where
  "try_offer_hook_event event th =
     (if length (ct_queue th) < HOOK_QUEUE_EVENTS then (True, th\<lparr>ct_queue := ct_queue th @ [event]\<rparr>) else (False, th))"

definition fail_open :: "bool \<Rightarrow> ('t, 'w) capture_thread \<Rightarrow> ('t, 'w) capture_thread" where
  "fail_open lock_free th =
     (let th1 = set_thread_gate (request_local (thread_gate th)) th
      in th1\<lparr>ct_action := snd (slot_offer lock_free GoLocal (ct_action th1))\<rparr>)"

definition windows_mouse_proc ::
  "bool \<Rightarrow> bool \<Rightarrow> int \<Rightarrow> u32 \<Rightarrow> i32 \<Rightarrow> i32 \<Rightarrow> u32 \<Rightarrow> ('t, 'w) capture_thread \<Rightarrow> bool \<times> ('t, 'w) capture_thread" where
  "windows_mouse_proc context_free lock_free code message x y mouse_data th =
     (if local_game_mode_enabled (wc_cells (ct_context th)) then (False, th)
      else if code < 0 \<or> \<not> context_free then (False, th)
      else if \<not> wc_desktop_default (ct_context th) then (False, fail_open lock_free th)
      else
        (let capturing = (\<not> is_local (thread_gate th)) in
         if \<not> capturing \<and> message \<noteq> WM_MOUSEMOVE then (False, th)
         else (case try_offer_hook_event (HookMouse message x y mouse_data) th of
             (False, th1) \<Rightarrow> (False, fail_open lock_free th1)
           | (True, th1) \<Rightarrow> (capturing, th1))))"

definition windows_keyboard_proc ::
  "'w windows_api \<Rightarrow> bool \<Rightarrow> bool \<Rightarrow> int \<Rightarrow> u32 \<Rightarrow> u32 \<Rightarrow> u32 \<Rightarrow> u32 \<Rightarrow> ('t, 'w) capture_thread
     \<Rightarrow> bool \<times> ('t, 'w) capture_thread" where
  "windows_keyboard_proc A context_free lock_free code message vk_code scan_code flags th =
     (if local_game_mode_enabled (wc_cells (ct_context th)) then (False, th)
      else if code < 0 \<or> \<not> context_free then (False, th)
      else if \<not> wc_desktop_default (ct_context th) then (False, fail_open lock_free th)
      else if message \<notin> {WM_KEYDOWN, WM_SYSKEYDOWN, WM_KEYUP, WM_SYSKEYUP} then (False, th)
      else
        (let down = (message \<in> {WM_KEYDOWN, WM_SYSKEYDOWN});
             modifiers = windows_current_hotkey_modifiers A (wc_os (ct_context th))
         in case hook_control_action (ct_bindings th) (ucast vk_code) modifiers down of
              Some action \<Rightarrow> (True, thread_dispatch lock_free action down th)
            | None \<Rightarrow>
                if is_local (thread_gate th) then (False, th)
                else (case try_offer_hook_event (HookKey message vk_code scan_code flags modifiers) th of
                    (False, th1) \<Rightarrow> (False, fail_open lock_free th1)
                  | (True, th1) \<Rightarrow> (True, th1))))"

section \<open>Calls on the client\<close>

definition begin_v2_controller_windows ::
  "'w windows_api \<Rightarrow> 't controller_transport \<Rightarrow> u64 \<Rightarrow> active_target \<Rightarrow> bool \<Rightarrow> ('t, 'w) capture_thread
     \<Rightarrow> bool \<times> ('t, 'w) capture_thread" where
  "begin_v2_controller_windows A T now active crossed_edge th =
     (let th1 = with_context (set_capture_fault None) th in
      if wc_pending (ct_context th1) \<noteq> None \<or> wc_remote_active (ct_context th1) then (False, th1)
      else
        (let screen = at_current_screen active;
             target = \<lparr>tg_peer_id = it_device_id (at_target active), tg_addr = it_target_addr (at_target active),
               tg_protocol_version = it_protocol_version (at_target active), tg_target_display = at_current_screen_id active,
               tg_layout_revision = display_layout_revision (sc_id screen) (sc_width screen) (sc_height screen)
                 (wa_scale_bits A (sc_scale screen))\<rparr>;
             (res, client, c) = client_begin (windows_capture_port A) T target now (ct_client th1)
               ((ct_context th1)\<lparr>wc_candidate := Some \<lparr>pw_active = active, pw_crossed_edge = crossed_edge\<rparr>\<rparr>);
             c1 = (case res of
                Inr _ \<Rightarrow> c\<lparr>wc_motion_sequence := 0\<rparr>
              | Inl _ \<Rightarrow> restore_windows_capture_state A True c)
         in (is_ok res, th1\<lparr>ct_client := client, ct_context := c1\<lparr>wc_candidate := None\<rparr>\<rparr>)))"

definition send_v2_windows_input ::
  "'w windows_api \<Rightarrow> 't controller_transport \<Rightarrow> critical_event \<Rightarrow> ('t, 'w) capture_thread
     \<Rightarrow> bool \<times> ('t, 'w) capture_thread" where
  "send_v2_windows_input A T event th =
     (case client_send_input (windows_capture_port A) T event (ct_client th) (ct_context th) of
        (Inl _, client, c) \<Rightarrow> (False, th\<lparr>ct_client := client, ct_context := c\<rparr>)
      | (Inr _, client, c) \<Rightarrow>
          (True, th\<lparr>ct_client := client, ct_context := c\<lparr>wc_input_events := wc_input_events c + 1\<rparr>\<rparr>))"

definition send_v2_windows_motion ::
  "'w windows_api \<Rightarrow> 't controller_transport \<Rightarrow> i32 \<Rightarrow> i32 \<Rightarrow> ('t, 'w) capture_thread
     \<Rightarrow> bool \<times> ('t, 'w) capture_thread" where
  "send_v2_windows_motion A T x y th =
     (case client_send_motion (windows_capture_port A) T x y (ct_client th) (ct_context th) of
        (Inl _, client, c) \<Rightarrow> (False, th\<lparr>ct_client := client, ct_context := c\<rparr>)
      | (Inr sequence, client, c) \<Rightarrow>
          (True, th\<lparr>ct_client := client,
             ct_context := c\<lparr>wc_motion_sequence := sequence, wc_input_events := wc_input_events c + 1\<rparr>\<rparr>))"

definition drain_v2_controller_windows ::
  "'w windows_api \<Rightarrow> 't controller_transport \<Rightarrow> (nat \<Rightarrow> u8 list option) \<Rightarrow> u64 \<Rightarrow> ('t, 'w) capture_thread
     \<Rightarrow> ('t, 'w) capture_thread" where
  "drain_v2_controller_windows A T fills now th =
     (if wc_pending (ct_context th) = None \<and> \<not> wc_remote_active (ct_context th) then th
      else (case client_poll (windows_capture_port A) (windows_focus_port A) T fills now
          (windows_control_inputs_released A (wc_os (ct_context th))) (ct_client th) (ct_context th) of
          (Inl _, client, c) \<Rightarrow> th\<lparr>ct_client := client, ct_context := c\<rparr>
        | (Inr _, client, c) \<Rightarrow>
            (let th1 = th\<lparr>ct_client := client, ct_context := c\<rparr> in
             if wc_remote_active c \<and> wc_motion_sequence c = 0 then
               (case wc_active c of
                  None \<Rightarrow> with_context (restore_windows_capture_state A True) th1
                | Some active \<Rightarrow>
                    (case send_v2_windows_motion A T (round_i32 (at_x active)) (round_i32 (at_y active)) th1 of
                       (True, th2) \<Rightarrow> with_context (mark_mouse_move_sent now) th2
                     | (False, th2) \<Rightarrow> th2))
             else th1)))"

definition release_windows_remote_control_with_reason ::
  "'w windows_api \<Rightarrow> 't controller_transport \<Rightarrow> bool \<Rightarrow> return_reason \<Rightarrow> ('t, 'w) capture_thread
     \<Rightarrow> ('t, 'w) capture_thread" where
  "release_windows_remote_control_with_reason A T clear_clipboard reason th =
     (let (res, client, c) = client_go_local (windows_capture_port A) T reason (ct_client th) (ct_context th);
          c1 = (case res of Inl _ \<Rightarrow> restore_windows_capture_state A True c | Inr _ \<Rightarrow> c)
      in th\<lparr>ct_client := client, ct_context := (if clear_clipboard then clear_clipboard_target c1 else c1)\<rparr>)"

definition release_windows_remote_control ::
  "'w windows_api \<Rightarrow> 't controller_transport \<Rightarrow> bool \<Rightarrow> ('t, 'w) capture_thread \<Rightarrow> ('t, 'w) capture_thread" where
  "release_windows_remote_control A T clear_clipboard th =
     release_windows_remote_control_with_reason A T clear_clipboard User th"

section \<open>Events of the mouse\<close>

text \<open>The targets of the layout, from a cache of at most a quarter of a second.\<close>

definition current_input_targets ::
  "'w windows_api \<Rightarrow> bool \<Rightarrow> u64 \<Rightarrow> 'w capture_context \<Rightarrow> input_target list \<times> 'w capture_context" where
  "current_input_targets A layout_free now c =
     (case wc_targets c of
        Some (built_at, targets) \<Rightarrow>
          if saturating_sub now built_at < INPUT_TARGETS_TTL_MS then (targets, c)
          else if layout_free then
            (let built = build_input_targets True (wa_origin A) (wc_layout c) (wc_native_layout c)
             in (built, c\<lparr>wc_targets := Some (now, built)\<rparr>))
          else (targets, c)
      | None \<Rightarrow>
          if layout_free then
            (let built = build_input_targets True (wa_origin A) (wc_layout c) (wc_native_layout c)
             in (built, c\<lparr>wc_targets := Some (now, built)\<rparr>))
          else ([], c))"

definition accumulate_remote_delta :: "rat \<Rightarrow> rat \<Rightarrow> active_target \<Rightarrow> active_target" where
  "accumulate_remote_delta dx dy active = active\<lparr>at_x := at_x active + dx, at_y := at_y active + dy\<rparr>"

definition remote_mouse_move ::
  "'w windows_api \<Rightarrow> 't controller_transport \<Rightarrow> u64 \<Rightarrow> rat \<Rightarrow> rat \<Rightarrow> active_target \<Rightarrow> ('t, 'w) capture_thread
     \<Rightarrow> bool \<times> ('t, 'w) capture_thread" where
  "remote_mouse_move A T now x y active th =
     (let c = ct_context th; anchor = (case wc_anchor c of Some p \<Rightarrow> p | None \<Rightarrow> (x, y));
          dx = x - fst anchor; dy = y - snd anchor
      in if \<bar>dx\<bar> < 1 / 10 \<and> \<bar>dy\<bar> < 1 / 10 then (True, th)
         else if wc_just_crossed c
         then (True, with_context (\<lambda>c. set_windows_cursor A anchor (c\<lparr>wc_just_crossed := False\<rparr>)) th)
         else
           (let (left, moved) = update_active_remote_screen (wc_layout c) dx dy (accumulate_remote_delta dx dy active) in
            if left then
              (let th1 = release_windows_remote_control A T False (with_context (wc_active_update (\<lambda>_. Some moved)) th)
               in (True, with_context (set_windows_cursor A (local_return_point moved)) th1))
            else
              (let pinned = clamp_to_screen moved;
                   (send, c1) = should_send_mouse_move now (remote_button_is_down (wc_button_mask c))
                     (c\<lparr>wc_active := Some pinned\<rparr>);
                   (sent, th1) = (if send
                     then send_v2_windows_motion A T (round_i32 (at_x pinned)) (round_i32 (at_y pinned)) (th\<lparr>ct_context := c1\<rparr>)
                     else (True, th\<lparr>ct_context := c1\<rparr>))
               in if \<not> sent then (False, th1)
                  else (True, with_context (\<lambda>c. set_windows_cursor A anchor (hide_windows_cursor_if_needed A c)) th1))))"

text \<open>A local movement: the handler keeps the lock of \<open>active\<close> to its end.\<close>

definition local_mouse_move ::
  "'w windows_api \<Rightarrow> 't controller_transport \<Rightarrow> bool \<Rightarrow> u64 \<Rightarrow> rat \<Rightarrow> rat \<Rightarrow> ('t, 'w) capture_thread
     \<Rightarrow> ('t, 'w) capture_thread" where
  "local_mouse_move A T layout_free now x y th =
     (let c = ct_context th;
          (dx, dy) = (case wc_last_point c of Some (px, py) \<Rightarrow> (x - px, y - py) | None \<Rightarrow> (0, 0));
          (targets, c1) = current_input_targets A layout_free now (c\<lparr>wc_last_point := Some (x, y)\<rparr>);
          th1 = th\<lparr>ct_context := c1\<rparr>
      in case crossing_target targets x y dx dy of
           Some active \<Rightarrow> snd (begin_v2_controller_windows A T now active True th1)
         | None \<Rightarrow> th1)"

definition handle_windows_mouse_move ::
  "'w windows_api \<Rightarrow> 't controller_transport \<Rightarrow> bool \<Rightarrow> u64 \<Rightarrow> rat \<Rightarrow> rat \<Rightarrow> ('t, 'w) capture_thread
     \<Rightarrow> (bool \<times> ('t, 'w) capture_thread) option" where
  "handle_windows_mouse_move A T layout_free now x y th =
     (case wc_active (ct_context th) of
        Some active \<Rightarrow> Some (remote_mouse_move A T now x y active th)
      | None \<Rightarrow>
          (let th1 = local_mouse_move A T layout_free now x y (with_context (wc_active_held_update (\<lambda>_. True)) th) in
           if wc_stuck (ct_context th1) then None
           else Some (False, with_context (wc_active_held_update (\<lambda>_. False)) th1)))"

fun v2_button :: "mouse_button \<Rightarrow> critical_button" where
  "v2_button MLeft = CLeft"
| "v2_button MRight = CRight"
| "v2_button MMiddle = CMiddle"
| "v2_button MBack = CBack"
| "v2_button MForward = CForward"

definition button_of_message :: "u32 \<Rightarrow> u32 \<Rightarrow> (mouse_button \<times> bool) option" where
  "button_of_message message mouse_data =
     (let x_button = (if (ucast (drop_bit 16 mouse_data) :: u16) = XBUTTON1 then MBack else MForward) in
      if message = WM_LBUTTONDOWN then Some (MLeft, True)
      else if message = WM_LBUTTONUP then Some (MLeft, False)
      else if message = WM_RBUTTONDOWN then Some (MRight, True)
      else if message = WM_RBUTTONUP then Some (MRight, False)
      else if message = WM_MBUTTONDOWN then Some (MMiddle, True)
      else if message = WM_MBUTTONUP then Some (MMiddle, False)
      else if message = WM_XBUTTONDOWN then Some (x_button, True)
      else if message = WM_XBUTTONUP then Some (x_button, False)
      else None)"

definition handle_windows_mouse_button ::
  "'w windows_api \<Rightarrow> 't controller_transport \<Rightarrow> u32 \<Rightarrow> u32 \<Rightarrow> ('t, 'w) capture_thread
     \<Rightarrow> bool \<times> ('t, 'w) capture_thread" where
  "handle_windows_mouse_button A T message mouse_data th =
     (case wc_active (ct_context th) of
        None \<Rightarrow> (False, th)
      | Some active \<Rightarrow>
          (case button_of_message message mouse_data of
             None \<Rightarrow> (False, th)
           | Some (button, down) \<Rightarrow>
               (let (sent, th1) = send_v2_windows_input A T
                      (CButton (v2_button button) down (round_i32 (at_x active)) (round_i32 (at_y active))
                        (wc_motion_sequence (ct_context th))) th
                in (sent, if sent then with_context (wc_button_mask_update (update_remote_button_mask button down)) th1
                          else th1))))"

definition wheel_delta :: "u32 \<Rightarrow> i32" where
  "wheel_delta mouse_data = sint (ucast (drop_bit 16 mouse_data) :: 16 word) sdiv 120"

definition handle_windows_scroll ::
  "'w windows_api \<Rightarrow> 't controller_transport \<Rightarrow> u32 \<Rightarrow> u32 \<Rightarrow> ('t, 'w) capture_thread
     \<Rightarrow> bool \<times> ('t, 'w) capture_thread" where
  "handle_windows_scroll A T message mouse_data th =
     (case wc_active (ct_context th) of
        None \<Rightarrow> (False, th)
      | Some active \<Rightarrow>
          (let scroll = (\<lambda>delta_x delta_y. send_v2_windows_input A T
                 (CScroll delta_x delta_y (round_i32 (at_x active)) (round_i32 (at_y active))
                   (wc_motion_sequence (ct_context th))) th)
           in if message = WM_MOUSEHWHEEL then scroll (wheel_delta mouse_data) 0
              else if message = WM_MOUSEWHEEL then scroll 0 (wheel_delta mouse_data)
              else (False, th)))"

section \<open>The loop\<close>

definition v2_key_event :: "u32 \<Rightarrow> u32 \<Rightarrow> u32 \<Rightarrow> bool \<Rightarrow> critical_event option" where
  "v2_key_event key_code scan_code flags down =
     (if unat key_code \<le> 65535 \<and> unat scan_code \<le> 65535
      then Some (CKey (ucast key_code) (ucast scan_code) (flags AND 1 \<noteq> 0) down) else None)"

definition handle_windows_key ::
  "'w windows_api \<Rightarrow> 't controller_transport \<Rightarrow> u32 \<Rightarrow> u32 \<Rightarrow> u32 \<Rightarrow> u32 \<Rightarrow> hotkey_modifiers
     \<Rightarrow> ('t, 'w) capture_thread \<Rightarrow> ('t, 'w) capture_thread" where
  "handle_windows_key A T message key_code scan_code flags modifiers th =
     (if is_local (thread_gate th) then th
      else
        (let down = (message \<in> {WM_KEYDOWN, WM_SYSKEYDOWN}) in
         if down \<and> screen_switch_hotkeys_match_vk (ly_screen_switch_hotkeys (wc_layout (ct_context th))) (ucast key_code) modifiers
         then release_windows_remote_control A T False th
         else if wc_active (ct_context th) = None then th
         else (case v2_key_event key_code scan_code flags down of
             None \<Rightarrow> th
           | Some event \<Rightarrow>
               (let (sent, th1) = send_v2_windows_input A T event th in
                if sent then with_context (wc_pressed_keys_update (track_forwarded_key (ucast key_code) down)) th1
                else th1))))"

definition process_windows_hook_event ::
  "'w windows_api \<Rightarrow> 't controller_transport \<Rightarrow> bool \<Rightarrow> u64 \<Rightarrow> windows_hook_event \<Rightarrow> ('t, 'w) capture_thread
     \<Rightarrow> ('t, 'w) capture_thread option" where
  "process_windows_hook_event A T layout_free now event th =
     (case event of
        HookMouse message x y mouse_data \<Rightarrow>
          if is_local (thread_gate th) \<and> wc_remote_active (ct_context th) then Some th
          else if message = WM_MOUSEMOVE
          then map_option snd (handle_windows_mouse_move A T layout_free now (of_int x) (of_int y) th)
          else if message \<in> {WM_LBUTTONDOWN, WM_LBUTTONUP, WM_RBUTTONDOWN, WM_RBUTTONUP, WM_MBUTTONDOWN, WM_MBUTTONUP,
              WM_XBUTTONDOWN, WM_XBUTTONUP} then Some (snd (handle_windows_mouse_button A T message mouse_data th))
          else if message \<in> {WM_MOUSEWHEEL, WM_MOUSEHWHEEL} then Some (snd (handle_windows_scroll A T message mouse_data th))
          else Some th
      | HookKey message key_code scan_code flags modifiers \<Rightarrow>
          Some (handle_windows_key A T message key_code scan_code flags modifiers th))"

definition drain_control_action_windows ::
  "'w windows_api \<Rightarrow> 't controller_transport \<Rightarrow> bool \<Rightarrow> u64 \<Rightarrow> ('t, 'w) capture_thread \<Rightarrow> ('t, 'w) capture_thread" where
  "drain_control_action_windows A T lock_free now th =
     (let (action, rest) = slot_take lock_free (ct_action th); th1 = th\<lparr>ct_action := rest\<rparr>; c = ct_context th1 in
      case action of
        None \<Rightarrow> th1
      | Some GoLocal \<Rightarrow> release_windows_remote_control_with_reason A T False User th1
      | Some EmergencyLocal \<Rightarrow> release_windows_remote_control_with_reason A T False Emergency th1
      | Some GoMac \<Rightarrow>
          if wc_remote_active c \<or> wc_pending c \<noteq> None then th1
          else (case request_selected_remote True (wa_origin A) (wc_layout c) (wc_native_layout c) (wc_active c) of
              SwitchEnter active \<Rightarrow> snd (begin_v2_controller_windows A T now active False th1)
            | _ \<Rightarrow> th1))"

text \<open>Switching between two screens of this machine; the pointer's place on each is remembered.\<close>

definition move_local_pointer ::
  "'w windows_api \<Rightarrow> string \<Rightarrow> string \<Rightarrow> (rat \<times> rat) option \<Rightarrow> rat \<times> rat \<Rightarrow> ('t, 'w) capture_thread
     \<Rightarrow> ('t, 'w) capture_thread" where
  "move_local_pointer A from_id to_id current_point middle th =
     (let c = ct_context th;
          (point, points) = remembered_local_screen_point (wc_screen_points c) from_id to_id current_point middle
      in th\<lparr>ct_context := set_windows_cursor A point (c\<lparr>wc_screen_points := points\<rparr>)\<rparr>)"

definition drain_switch_request_windows ::
  "'w windows_api \<Rightarrow> 't controller_transport \<Rightarrow> u64 \<Rightarrow> ('t, 'w) capture_thread \<Rightarrow> ('t, 'w) capture_thread" where
  "drain_switch_request_windows A T now th =
     (case wc_switch_request (ct_context th) of
        None \<Rightarrow> th
      | Some direction \<Rightarrow>
          (let th1 = with_context (wc_switch_request_update (\<lambda>_. None)) th; c = ct_context th1 in
           if wc_remote_active c \<or> wc_pending c \<noteq> None then release_windows_remote_control A T False th1
           else
             (let current_point = windows_current_cursor_point A (wc_os c) in
              case request_screen_switch_from_point True (wa_origin A) direction (wc_layout c) (wc_native_layout c)
                  (wc_active c) current_point of
                SwitchEnter active \<Rightarrow> snd (begin_v2_controller_windows A T now active False th1)
              | SwitchReturn \<Rightarrow> release_windows_remote_control A T False th1
              | SwitchLocalMove from_id to_id x y \<Rightarrow> move_local_pointer A from_id to_id current_point (x, y) th1
              | SwitchNoop \<Rightarrow> th1)))"

primrec process_queue ::
  "'w windows_api \<Rightarrow> 't controller_transport \<Rightarrow> bool \<Rightarrow> u64 \<Rightarrow> windows_hook_event list \<Rightarrow> ('t, 'w) capture_thread
     \<Rightarrow> ('t, 'w) capture_thread option" where
  "process_queue A T layout_free now [] th = Some th"
| "process_queue A T layout_free now (event # events) th =
     Option.bind (process_windows_hook_event A T layout_free now event (th\<lparr>ct_queue := events\<rparr>))
       (process_queue A T layout_free now events)"

definition desktop_check ::
  "'w windows_api \<Rightarrow> 't controller_transport \<Rightarrow> ('t, 'w) capture_thread \<Rightarrow> ('t, 'w) capture_thread" where
  "desktop_check A T th =
     (let (is_default, c) = refresh_windows_input_desktop_cache A (ct_context th); th1 = th\<lparr>ct_context := c\<rparr>
      in if is_default then th1 else release_windows_remote_control A T True th1)"

text \<open>One turn of the loop up to the wait for messages; \<open>due\<close> says that the desktop is to be checked.\<close>

definition capture_turn ::
  "'w windows_api \<Rightarrow> 't controller_transport \<Rightarrow> (nat \<Rightarrow> u8 list option) \<Rightarrow> bool \<Rightarrow> bool \<Rightarrow> bool \<Rightarrow> u64
     \<Rightarrow> ('t, 'w) capture_thread \<Rightarrow> ('t, 'w) capture_thread option" where
  "capture_turn A T fills lock_free layout_free due now th =
     (let th1 = drain_control_action_windows A T lock_free now th in
      map_option (\<lambda>th2.
          drain_v2_controller_windows A T fills now (drain_switch_request_windows A T now
            (if due then desktop_check A T th2 else th2)))
        (process_queue A T layout_free now (ct_queue th1) th1))"

section \<open>Start and stop\<close>

text \<open>
  The thread that \<open>start_v2_controller_runtime\<close> starts: the shared cells are arguments, everything else
  is new. The focus sink and the hooks are installed; a start that fails there ends the thread.
\<close>

definition new_capture_context ::
  "'w windows_api \<Rightarrow> 'w \<Rightarrow> layout_state \<Rightarrow> layout_state \<Rightarrow> game_cells \<Rightarrow> u64 \<Rightarrow> switch_direction option \<Rightarrow> int
     \<Rightarrow> 'w capture_context" where
  "new_capture_context A w layout native_layout cells events request focus_window =
     \<lparr>wc_os = w, wc_layout = layout, wc_native_layout = native_layout, wc_cells = cells,
      wc_desktop_default = windows_input_desktop_is_default A w, wc_targets = None, wc_active = None,
      wc_stop = False, wc_remote_active = False, wc_clipboard_target = None, wc_input_events = events, wc_switch_request = request,
      wc_focus_window = focus_window, wc_previous_foreground = 0, wc_anchor = None, wc_last_point = None,
      wc_last_mouse_move_sent = None, wc_button_mask = 0, wc_pressed_keys = [], wc_hide_calls = 0,
      wc_just_crossed = False, wc_screen_points = Map.empty, wc_pending = None, wc_motion_sequence = 0,
      wc_candidate = None, wc_active_held = False, wc_stuck = False\<rparr>"

definition start_platform_capture ::
  "'t \<Rightarrow> boot_id \<Rightarrow> string \<Rightarrow> u64 \<Rightarrow> u8 \<Rightarrow> control_hotkey_action option \<Rightarrow> 'w capture_context
     \<Rightarrow> (controller_client_error, ('t, 'w) capture_thread) result" where
  "start_platform_capture transport boot local_peer_id local_override deduper action context =
     bind_result (client_new transport boot local_peer_id local_override) (\<lambda>client.
       Inr \<lparr>ct_client = client_set_game_mode (local_game_mode_enabled (wc_cells context)) client, ct_context = context,
         ct_deduper = deduper, ct_action = action,
         ct_bindings = control_hotkey_bindings (ly_control_hotkeys (wc_layout context)), ct_queue = []\<rparr>)"

definition start_v2_controller_runtime ::
  "'t \<Rightarrow> boot_id \<Rightarrow> string \<Rightarrow> u64 \<Rightarrow> u8 \<Rightarrow> control_hotkey_action option \<Rightarrow> 'w capture_context
     \<Rightarrow> (controller_client_error, ('t, 'w) capture_thread) result" where
  "start_v2_controller_runtime transport boot local_peer_id local_override deduper action context =
     start_platform_capture transport boot local_peer_id (request_local local_override) deduper action context"

definition stop_capture_thread ::
  "'w windows_api \<Rightarrow> 't controller_transport \<Rightarrow> ('t, 'w) capture_thread \<Rightarrow> ('t, 'w) capture_thread" where
  "stop_capture_thread A T th =
     with_context (\<lambda>c. clear_clipboard_target (c\<lparr>wc_remote_active := False\<rparr>)) (release_windows_remote_control A T True th)"

text \<open>
  What \<open>AppRuntime::stop_input\<close> (\<open>lib.rs\<close>) writes from another thread, as far as the capture thread reads it.
\<close>

definition stop_input :: "('t, 'w) capture_thread \<Rightarrow> ('t, 'w) capture_thread" where
  "stop_input th =
     with_context (\<lambda>c. clear_clipboard_target (c\<lparr>wc_cells := set_focus_fault None (wc_cells c), wc_stop := True,
         wc_remote_active := False\<rparr>))
       (set_thread_gate (request_local (thread_gate th)) th)"

end
