(* ===== verification/Capture_Tracking.thy ===== *)
theory Capture_Tracking
  imports Client_Safety
begin

text \<open>
  The contract of a capture port that follows its router: the port is idle while the router is local,
  prepared while it prepares, and captures exactly while the peer is in control. The laws speak of single
  calls of the port; from them every operation of the router, the controller and the client keeps the
  port in step, whatever fails on the way.
\<close>

section \<open>The contract\<close>

text \<open>\<open>sound\<close> is what every call keeps; restoring leads back to idle from any sound state.\<close>

locale capture_tracking = handoff_contract P F
  for P :: "'c capture_port" and F :: "'c focus_port" +
  fixes sound idle prepared capturing :: "'c \<Rightarrow> bool"
  assumes phases_sound: "idle c \<or> prepared c \<or> capturing c \<Longrightarrow> sound c"
    and restore_idle: "request_local_restore P c g = (c', g') \<Longrightarrow> sound c \<Longrightarrow> idle c'"
    and prepare_sound: "prepare_capture P c g = (res, c', g') \<Longrightarrow> sound c \<Longrightarrow> sound c'"
    and prepare_prepared: "prepare_capture P c g = (Inr u, c', g') \<Longrightarrow> idle c \<Longrightarrow> prepared c'"
    and activate_sound: "activate_capture P c g = (res, c', g') \<Longrightarrow> sound c \<Longrightarrow> sound c'"
    and activate_capturing: "activate_capture P c g = (Inr u, c', g') \<Longrightarrow> prepared c \<Longrightarrow> capturing c'"
    and focus_sound: "prepare_focus F c g = (fres, c', g') \<Longrightarrow> sound c \<Longrightarrow> sound c'"
    and focus_prepared: "prepare_focus F c g = (Inr u, c', g') \<Longrightarrow> prepared c \<Longrightarrow> prepared c'"
begin

fun tracked :: "route_state \<Rightarrow> 'c \<Rightarrow> bool" where
  "tracked LocalDesktop c = idle c"
| "tracked LocalGame c = idle c"
| "tracked (PreparingRemote p) c = prepared c"
| "tracked (RemoteActive peer session) c = capturing c"
| "tracked (ReturningLocal reason) c = False"

lemma tracked_local: "is_local_state st \<Longrightarrow> tracked st c = idle c"
  by (cases st) simp_all

lemma tracked_sound: "tracked st c \<Longrightarrow> sound c"
  using phases_sound by (cases st) auto

section \<open>The router\<close>

lemma go_local_tracked:
  assumes "go_local P reason r c = (effs, r', c')" and "sound c" and "is_local_state (rt_state r) \<Longrightarrow> idle c"
  shows "tracked (rt_state r') c'"
proof -
  have "is_local_state (rt_state r')" using go_local_result(1) [OF assms(1)] .
  moreover have "idle c'" using assms restore_idle by (auto simp: go_local_def Let_def split: if_splits prod.splits)
  ultimately show ?thesis by (simp add: tracked_local)
qed

lemma returns_tracked:
  assumes "go_local P reason r c = (effs, r', c')" and "tracked (rt_state r0) c"
    and "rt_state r = rt_state r0"
  shows "tracked (rt_state r') c'"
  using assms tracked_sound tracked_local by (intro go_local_tracked [OF assms(1)]) auto

text \<open>After a call of the port the router may still go local, from whatever state it was in.\<close>

lemma lost_tracked:
  assumes "sound c" and "\<not> is_local_state (rt_state r)" and "go_local P reason r c = (effs, r', c')"
  shows "tracked (rt_state r') c'"
  using assms(2) by (intro go_local_tracked [OF assms(3,1)]) simp

lemma go_remote_tracked:
  assumes "go_remote P peer now r c = (res, r', c')" and "tracked (rt_state r) c"
  shows "tracked (rt_state r') c'"
proof (cases "is_local_state (rt_state r) \<and> \<not> (is_blank peer \<or> length peer > 256)")
  case False
  with assms show ?thesis by (cases "rt_state r") (auto simp: go_remote_def split: if_splits)
next
  case True
  then have loc: "is_local_state (rt_state r)" and peer: "\<not> (is_blank peer \<or> length peer > 256)" by auto
  with assms(2) have c: "idle c" by (simp add: tracked_local)
  show ?thesis
  proof (cases "\<exists>d k request. checked_add now HANDOFF_TIMEOUT_MS = Some d
      \<and> checked_add now KEYS_RELEASE_TIMEOUT_MS = Some k \<and> gate_reserve (rt_gate r) = (Inr request, request)")
    case False
    with assms loc peer show ?thesis
      by (cases "rt_state r")
        (auto simp: go_remote_def split: option.splits sum.splits prod.splits dest: gate_reserve_InrD(1))
  next
    case True
    then obtain d k request where d: "checked_add now HANDOFF_TIMEOUT_MS = Some d"
      and k: "checked_add now KEYS_RELEASE_TIMEOUT_MS = Some k"
      and request: "gate_reserve (rt_gate r) = (Inr request, request)" by blast
    obtain pres c2 g2 where prep: "prepare_capture P c request = (pres, c2, g2)"
      by (cases "prepare_capture P c request") auto
    define r2 where "r2 = r\<lparr>rt_state := PreparingRemote
        \<lparr>pr_peer = peer, pr_request = request, pr_deadline_ms = d, pr_keys_deadline_ms = k,
         pr_keys_released_seen = False, pr_session = None, pr_commit_sent = False\<rparr>, rt_gate := g2\<rparr>"
    have shape: "go_remote P peer now r c = (case pres of
          Inl e \<Rightarrow> (let (_, r3, c3) = go_local P CaptureFailed r2 c2 in (Inl (CaptureError e), r3, c3))
        | Inr _ \<Rightarrow> if \<not> still_preparing request g2
            then (let (_, r3, c3) = go_local P Emergency r2 c2 in (Inl Cancelled, r3, c3))
            else (Inr [EffPrepare peer request], r2, c2))"
      using loc peer d k request prep
      by (cases "rt_state r"; cases pres) (simp_all add: go_remote_def r2_def Let_def)
    have "sound c2" using prepare_sound [OF prep] phases_sound c by blast
    note lost = lost_tracked [OF this, of r2]
    have "prepared c2" if "pres = Inr u" for u
      using prepare_prepared [OF prep [unfolded that] c] .
    with assms(1) shape lost show ?thesis
      by (cases pres) (auto simp: r2_def Let_def split: if_splits prod.splits)
  qed
qed

lemma ready_tracked: "router_ready request session r = (res, r') \<Longrightarrow> tracked (rt_state r) c \<Longrightarrow> tracked (rt_state r') c"
  by (cases "rt_state r") (auto simp: router_ready_def split: if_splits)

lemma game_mode_tracked: "tracked (rt_state r) c \<Longrightarrow> tracked (rt_state (set_game_mode enabled r)) c"
  by (cases "rt_state r") (auto simp: set_game_mode_def local_state_def Let_def)

lemma commit_ack_tracked:
  assumes "commit_ack P request session now r c = (res, r', c')" and "tracked (rt_state r) c"
  shows "tracked (rt_state r') c'"
proof (cases "\<exists>p. rt_state r = PreparingRemote p \<and> pr_request p = request
    \<and> pr_session p = Some session \<and> pr_commit_sent p")
  case False
  with assms show ?thesis by (cases "rt_state r") (auto simp: commit_ack_def split: if_splits)
next
  case True
  then obtain p where st: "rt_state r = PreparingRemote p" "pr_request p = request" "pr_session p = Some session"
    "pr_commit_sent p" by blast
  with assms(2) have c: "prepared c" by simp
  show ?thesis
  proof (cases "pr_deadline_ms p \<le> now \<or> \<not> still_preparing request (rt_gate r)")
    case True
    with assms st show ?thesis
      by (auto simp: commit_ack_def Let_def split: prod.splits dest!: returns_tracked [where ?r0.0 = r])
  next
    case False
    obtain ares c1 g1 where act: "activate_capture P c (rt_gate r) = (ares, c1, g1)"
      by (cases "activate_capture P c (rt_gate r)")
    have "sound c1" using activate_sound [OF act] phases_sound c by blast
    with st(1) have lost: "go_local P reason (r\<lparr>rt_gate := g\<rparr>) c1 = (effs, r3, c3) \<Longrightarrow> tracked (rt_state r3) c3"
      for reason effs r3 c3 g using lost_tracked [of c1 "r\<lparr>rt_gate := g\<rparr>"] by simp
    show ?thesis
      using assms(1) st False act activate_capturing [of c "rt_gate r" "()" c1 g1] c lost
      by (cases ares) (auto simp: commit_ack_def Let_def split: if_splits prod.splits)
  qed
qed

lemma advance_tracked:
  assumes "router_advance P F now keys r c = (res, r', c')" and "tracked (rt_state r) c"
  shows "tracked (rt_state r') c'"
proof (cases "rt_state r")
  case (PreparingRemote p)
  show ?thesis
  proof (cases "advance_reason now keys p (rt_gate r)")
    case (Some reason)
    with assms PreparingRemote show ?thesis
      by (auto simp: router_advance_def Let_def split: prod.splits dest!: returns_tracked [where ?r0.0 = r])
  next
    case None
    obtain fres c1 g1 where foc: "prepare_focus F c (rt_gate r) = (fres, c1, g1)"
      by (cases "prepare_focus F c (rt_gate r)")
    from assms(2) PreparingRemote have c: "prepared c" by simp
    have "sound c1" using focus_sound [OF foc] phases_sound c by blast
    then have lost: "go_local P reason (r\<lparr>rt_state := PreparingRemote q, rt_gate := g\<rparr>) c1 = (effs, r3, c3)
        \<Longrightarrow> tracked (rt_state r3) c3" for reason effs r3 c3 g q
      using lost_tracked [of c1 "r\<lparr>rt_state := PreparingRemote q, rt_gate := g\<rparr>"] by simp
    show ?thesis
      using assms(1) PreparingRemote None foc focus_prepared [of c "rt_gate r" "()" c1 g1] c lost
      by (cases fres) (auto simp: router_advance_def Let_def split: if_splits option.splits prod.splits)
  qed
next
  case (RemoteActive peer session)
  with assms show ?thesis
    by (auto simp: router_advance_def Let_def split: if_splits prod.splits dest!: returns_tracked [where ?r0.0 = r])
qed (use assms in \<open>auto simp: router_advance_def\<close>)

section \<open>The controller\<close>

definition follows :: "controller_runtime \<Rightarrow> 'c \<Rightarrow> bool" where
  "follows r c \<longleftrightarrow> tracked (rt_state (cr_router r)) c"

lemma follows_same: "cr_router r' = cr_router r \<Longrightarrow> follows r' c = follows r c"
  by (simp add: follows_def)

lemma failed_follows:
  assumes "failed P e r c = (res, r', c')" and "follows r c"
  shows "follows r' c'"
  using assms returns_tracked [where ?r0.0 = "cr_router r" and r = "cr_router r", OF _ _ refl]
  by (auto simp: failed_def fail_local_def follows_def split: prod.splits)

lemma end_after_failed_ack_follows:
  assumes "end_after_failed_ack P r c = (actions, r', c')" and "follows r c"
  shows "follows r' c'"
  using assms returns_tracked [where ?r0.0 = "cr_router r" and r = "cr_router r", OF _ _ refl]
  by (auto simp: end_after_failed_ack_def follows_def Let_def split: prod.splits if_splits)

lemma begin_follows:
  assumes "begin_remote P peer display revision now r c = (res, r', c')" and "follows r c"
  shows "follows r' c'"
proof -
  obtain rres router c1 where rem: "go_remote P peer now (cr_router r) c = (rres, router, c1)"
    by (cases "go_remote P peer now (cr_router r) c")
  have "tracked (rt_state router) c1" using go_remote_tracked [OF rem] assms(2) by (simp add: follows_def)
  with assms(1) rem returns_tracked [where ?r0.0 = router and r = router, OF _ _ refl] show ?thesis
    by (auto simp: begin_remote_def follows_def Let_def
        split: sum.splits prod.splits list.splits route_effect.splits)
qed

lemma handle_ready_follows:
  assumes "handle_ready P fill frame r c = (res, r', c')" and "follows r c"
  shows "follows r' c'"
proof -
  have ready: "router_ready q s (cr_router r) = (out, router) \<Longrightarrow> tracked (rt_state router) c" for q s out router
    using ready_tracked assms(2) by (simp add: follows_def)
  have fails: "failed P e r1 c = (res, r', c') \<Longrightarrow> tracked (rt_state (cr_router r1)) c \<Longrightarrow> follows r' c'" for e r1
    using failed_follows by (simp add: follows_def)
  from assms ready show ?thesis
    by (auto simp: handle_ready_def Let_def follows_def
        split: sum.splits prod.splits option.splits dest!: fails [unfolded follows_def])
qed

lemma handle_ack_follows:
  assumes "handle_commit_ack P session now r c = (res, r', c')" and "follows r c"
  shows "follows r' c'"
proof -
  have ack: "commit_ack P q token now (cr_router r) c = (out, router, c1) \<Longrightarrow> tracked (rt_state router) c1"
    for q token out router c1 using commit_ack_tracked assms(2) by (simp add: follows_def)
  have fails: "failed P e r1 c = (res, r', c') \<Longrightarrow> tracked (rt_state (cr_router r1)) c \<Longrightarrow> follows r' c'" for e r1
    using failed_follows by (simp add: follows_def)
  have ended: "end_after_failed_ack P r1 c1 = (actions, r', c') \<Longrightarrow> tracked (rt_state (cr_router r1)) c1 \<Longrightarrow> follows r' c'"
    for actions r1 c1 using end_after_failed_ack_follows by (simp add: follows_def)
  from assms ack show ?thesis
    by (auto simp: handle_commit_ack_def Let_def follows_def
        split: sum.splits prod.splits option.splits if_splits
        dest!: fails [unfolded follows_def] ended [unfolded follows_def])
qed

lemma control_follows:
  assumes "controller_control P fill frame now r c = (res, r', c')" and "follows r c"
  shows "follows r' c'"
proof -
  have fails: "failed P e r1 c = (res, r', c') \<Longrightarrow> tracked (rt_state (cr_router r1)) c \<Longrightarrow> follows r' c'" for e r1
    using failed_follows by (simp add: follows_def)
  from assms show ?thesis
    by (cases frame)
      (auto simp: controller_control_def follows_def split: sum.splits prod.splits
        dest!: fails [unfolded follows_def] handle_ready_follows [unfolded follows_def] handle_ack_follows [unfolded follows_def])
qed

lemma route_effect_step_router: "route_effect_step eff r = (res, r') \<Longrightarrow> cr_router r' = cr_router r"
  by (cases eff) (auto simp: commit_effect_def end_effect_def split: if_splits option.splits sum.splits prod.splits)

lemma route_effects_router: "route_effects effs r = (res, r') \<Longrightarrow> cr_router r' = cr_router r"
  by (induction effs arbitrary: r res)
    (auto split: sum.splits prod.splits dest!: route_effect_step_router)

lemma controller_advance_follows:
  assumes "controller_advance P F now keys r c = (res, r', c')" and "follows r c"
  shows "follows r' c'"
  using assms advance_tracked
  by (auto simp: controller_advance_def follows_def Let_def split: sum.splits prod.splits dest!: route_effects_router)

lemma controller_go_local_follows:
  assumes "controller_go_local P reason r c = (res, r', c')" and "follows r c"
  shows "follows r' c'"
  using assms returns_tracked [where ?r0.0 = "cr_router r" and r = "cr_router r", OF _ _ refl]
  by (auto simp: controller_go_local_def follows_def Let_def split: prod.splits dest!: route_effects_router)

section \<open>The client\<close>

definition keeps_step :: "'t controller_client \<Rightarrow> 'c \<Rightarrow> bool" where
  "keeps_step cl c \<longleftrightarrow> follows (cc_runtime cl) c"

lemma keeps_same: "cr_router (cc_runtime cl') = cr_router (cc_runtime cl) \<Longrightarrow> keeps_step cl' c = keeps_step cl c"
  by (simp add: keeps_step_def follows_def)

lemma keeps_due [simp]: "keeps_step (cl\<lparr>cc_next_ping_ms := due\<rparr>) c = keeps_step cl c"
  by (simp add: keeps_step_def)

lemma sequences_router:
  "next_input ev r = (res1, r') \<Longrightarrow> cr_router r' = cr_router r"
  "next_motion x y r = (res2, r') \<Longrightarrow> cr_router r' = cr_router r"
  "runtime_ping r = (res3, r') \<Longrightarrow> cr_router r' = cr_router r"
  by (auto simp: next_input_def next_motion_def runtime_ping_def split: option.splits sum.splits prod.splits)

lemma fail_transport_step:
  assumes "fail_transport P T cl c = (cl', c')" and "keeps_step cl c"
  shows "keeps_step cl' c'"
proof -
  obtain res r c1 where gl: "controller_go_local P NetworkFailed (cc_runtime cl) c = (res, r, c1)"
    by (metis prod_cases3)
  with assms(1) have "cc_runtime cl' = r" "c' = c1" by (auto simp: fail_transport_def Let_def)
  with controller_go_local_follows [OF gl] assms(2) show ?thesis by (simp add: keeps_step_def)
qed

lemma fail_transport_idle:
  assumes "fail_transport P T cl c = (cl', c')" and "keeps_step cl c"
  shows "idle c'"
proof -
  obtain res r c1 where gl: "controller_go_local P NetworkFailed (cc_runtime cl) c = (res, r, c1)"
    by (metis prod_cases3)
  obtain effs router c2 where loc: "go_local P NetworkFailed (cr_router (cc_runtime cl)) c = (effs, router, c2)"
    by (metis prod_cases3)
  with gl have "c1 = c2" "cr_router r = router"
    by (auto simp: controller_go_local_def Let_def split: prod.splits dest!: route_effects_router)
  with go_local_result(1) [OF loc] returns_tracked [OF loc _ refl] assms(2)
  have "idle c1" by (simp add: keeps_step_def follows_def tracked_local)
  with assms(1) gl show ?thesis by (auto simp: fail_transport_def Let_def)
qed

lemma apply_actions_step:
  assumes "apply_actions P T actions cl c = (res, cl', c')" and "keeps_step cl c"
  shows "keeps_step cl' c'"
  using assms
proof (induction actions arbitrary: cl)
  case (Cons action actions)
  obtain done_res t where act: "perform_action T action (cc_transport cl) = (done_res, t)" by fastforce
  have at_t: "keeps_step (cl\<lparr>cc_transport := t\<rparr>) c" using Cons.prems(2) by (simp add: keeps_step_def)
  show ?case
  proof (cases done_res)
    case (Inl e)
    obtain cl1 c1 where fail: "fail_transport P T (cl\<lparr>cc_transport := t\<rparr>) c = (cl1, c1)" by fastforce
    with Cons.prems(1) act Inl have "cl' = cl1" "c' = c1" by simp_all
    with fail_transport_step [OF fail at_t] show ?thesis by simp
  next
    case (Inr u)
    with Cons.prems(1) act Cons.IH [OF _ at_t] show ?thesis by simp
  qed
qed simp

lemma keeps_by: "keeps_step cl c \<Longrightarrow> cr_router (cc_runtime cl') = cr_router (cc_runtime cl) \<Longrightarrow> keeps_step cl' c"
  using keeps_same by blast

lemma apply_actions_by:
  "apply_actions P T actions cl c = (res, cl', c') \<Longrightarrow> keeps_step cl0 c
     \<Longrightarrow> cr_router (cc_runtime cl) = cr_router (cc_runtime cl0) \<Longrightarrow> keeps_step cl' c'"
  using apply_actions_step keeps_same by blast

lemma fail_transport_by:
  "fail_transport P T cl c = (cl', c') \<Longrightarrow> keeps_step cl0 c
     \<Longrightarrow> cr_router (cc_runtime cl) = cr_router (cc_runtime cl0) \<Longrightarrow> keeps_step cl' c'"
  using fail_transport_step keeps_same by blast

lemma poll_ping_step:
  assumes "poll_ping P T now cl c = (res, cl', c')" and "keeps_step cl c"
  shows "keeps_step cl' c'"
  using assms
  by (auto simp: poll_ping_def Let_def simp del: apply_actions.simps
      split: if_splits sum.splits prod.splits option.splits
      elim: keeps_by dest: apply_actions_by [OF _ assms(2)] dest!: sequences_router(3))

lemma drain_step:
  assumes "drain_inbound P T fills now frames cl c = (res, cl', c')" and "keeps_step cl c"
  shows "keeps_step cl' c'"
  using assms
proof (induction frames arbitrary: cl c)
  case Nil
  then show ?case by (auto simp: keeps_step_def)
next
  case (Cons frame frames)
  obtain out r c1 where ctl: "controller_control P (fills (length frames)) frame now (cc_runtime cl) c = (out, r, c1)"
    by (metis prod_cases3)
  have r: "follows r c1" using control_follows [OF ctl] Cons.prems(2) by (simp add: keeps_step_def)
  let ?cl = "cl\<lparr>cc_inbound := frames, cc_runtime := r\<rparr>"
  show ?case
  proof (cases out)
    case (Inl e)
    with Cons.prems(1) ctl r show ?thesis by (auto simp: Let_def client_disconnect_def keeps_step_def)
  next
    case (Inr actions)
    obtain sent cl2 c2 where ap: "apply_actions P T actions ?cl c1 = (sent, cl2, c2)" by (metis prod_cases3)
    have "keeps_step cl2 c2" using apply_actions_step [OF ap] r by (simp add: keeps_step_def)
    with Cons.prems(1) ctl Inr ap Cons.IH [of cl2 c2] show ?thesis
      by (cases sent) (simp_all add: Let_def)
  qed
qed

lemma poll_step:
  assumes "client_poll P F T fills now keys cl c = (res, cl', c')" and "keeps_step cl c"
  shows "keeps_step cl' c'"
proof (cases "cc_overflowed cl")
  case True
  have "keeps_step (cl\<lparr>cc_overflowed := False\<rparr>) c" using assms(2) by (simp add: keeps_step_def)
  from fail_transport_step [OF _ this] True assms(1) show ?thesis
    by (auto simp: client_poll_def Let_def split: prod.splits)
next
  case False
  obtain dres cl1 c1 where dr: "drain_inbound P T fills now (cc_inbound cl) cl c = (dres, cl1, c1)" by (metis prod_cases3)
  have one: "keeps_step cl1 c1" using drain_step [OF dr assms(2)] .
  obtain ares r c2 where adv: "controller_advance P F now keys (cc_runtime cl1) c1 = (ares, r, c2)"
    by (metis prod_cases3)
  have two: "keeps_step (cl1\<lparr>cc_runtime := r\<rparr>) c2"
    using controller_advance_follows [OF adv] one by (simp add: keeps_step_def)
  show ?thesis
  proof (cases "dres")
    case (Inl e)
    with False assms(1) dr one show ?thesis by (simp add: client_poll_def)
  next
    case dok: (Inr u)
    show ?thesis
    proof (cases ares)
      case (Inl e)
      with False assms(1) dr dok adv fail_transport_step [OF _ two] show ?thesis
        by (auto simp: client_poll_def Let_def split: prod.splits)
    next
      case (Inr actions)
      obtain sent cl2 c3 where ap: "apply_actions P T actions (cl1\<lparr>cc_runtime := r\<rparr>) c2 = (sent, cl2, c3)"
        by (metis prod_cases3)
      have three: "keeps_step cl2 c3" using apply_actions_step [OF ap two] .
      obtain pres cl3 c4 where pp: "poll_ping P T now cl2 c3 = (pres, cl3, c4)" by (metis prod_cases3)
      show ?thesis
        using False assms(1) dr dok adv Inr ap three poll_ping_step [OF pp three] pp
        by (cases sent) (simp_all add: client_poll_def)
    qed
  qed
qed

lemma begin_step:
  assumes "client_begin P T target now cl c = (res, cl', c')" and "keeps_step cl c"
  shows "keeps_step cl' c'"
proof (cases "can_begin (cc_runtime cl)")
  case False
  with assms show ?thesis by (simp add: client_begin_def)
next
  case True
  define cl1 where "cl1 = (clear_inbound cl)\<lparr>cc_next_ping_ms := None\<rparr>"
  have cl1: "cc_runtime cl1 = cc_runtime cl" by (simp add: cl1_def clear_inbound_def)
  obtain con t where co: "tr_connect T target (cc_transport cl1) = (con, t)" by fastforce
  obtain out r c1 where bg: "begin_remote P (tg_peer_id target) (tg_target_display target)
      (tg_layout_revision target) now (cc_runtime cl) c = (out, r, c1)" by (metis prod_cases3)
  have r: "follows r c1" using begin_follows [OF bg] assms(2) by (simp add: keeps_step_def)
  show ?thesis
  proof (cases con)
    case (Inl e)
    with True assms co cl1 show ?thesis
      by (auto simp: client_begin_def Let_def cl1_def [symmetric] keeps_step_def)
  next
    case cok: (Inr u)
    show ?thesis
    proof (cases out)
      case (Inl e)
      with True assms(1) co cok bg cl1 r show ?thesis
        by (auto simp: client_begin_def Let_def cl1_def [symmetric] keeps_step_def client_disconnect_def)
    next
      case (Inr actions)
      obtain sent cl3 c2 where ap: "apply_actions P T actions (cl1\<lparr>cc_transport := t, cc_runtime := r\<rparr>) c1
          = (sent, cl3, c2)" by (metis prod_cases3)
      have three: "keeps_step cl3 c2" using apply_actions_step [OF ap] r by (simp add: keeps_step_def)
      have "poll_ping P T now cl3 c2 = (res, cl', c') \<or> keeps_step cl' c'"
        using True assms(1) co cok bg cl1 Inr ap three
        by (cases sent) (simp_all add: client_begin_def Let_def cl1_def [symmetric])
      with poll_ping_step three show ?thesis by blast
    qed
  qed
qed

lemma send_step:
  "client_send_input P T event cl c = (res1, cl', c') \<Longrightarrow> keeps_step cl c \<Longrightarrow> keeps_step cl' c'"
  "client_send_motion P T x y cl c = (res2, cl', c') \<Longrightarrow> keeps_step cl c \<Longrightarrow> keeps_step cl' c'"
  by (auto simp: client_send_input_def client_send_motion_def Let_def split: sum.splits prod.splits
      dest!: sequences_router(1,2) elim: keeps_by fail_transport_by)

lemma client_local_step:
  assumes "client_go_local P T reason cl c = (res, cl', c')" and "keeps_step cl c"
  shows "keeps_step cl' c'"
proof -
  obtain out r c1 where gl: "controller_go_local P reason (cc_runtime cl) c = (out, r, c1)" by (metis prod_cases3)
  have r: "keeps_step (cl\<lparr>cc_runtime := r\<rparr>) c1"
    using controller_go_local_follows [OF gl] assms(2) by (simp add: keeps_step_def)
  show ?thesis
  proof (cases out)
    case (Inl e)
    with assms(1) gl r show ?thesis by (auto simp: client_go_local_def)
  next
    case (Inr actions)
    obtain sent cl1 c2 where ap: "apply_actions P T actions (cl\<lparr>cc_runtime := r\<rparr>) c1 = (sent, cl1, c2)"
      by (metis prod_cases3)
    with assms(1) gl Inr apply_actions_step [OF ap r] show ?thesis
      by (cases sent) (auto simp: client_go_local_def keeps_step_def)
  qed
qed

end

end
