(* ===== verification/Windows_Safety.thy ===== *)
theory Windows_Safety
  imports Windows_Hooks Capture_Tracking Edge_Rules
begin

text \<open>
  The capture thread of Windows keeps its context in step with the router: the ports of \<open>Windows_Capture\<close>
  satisfy the contract of \<open>Capture_Tracking\<close>, and every hook, handler and write of another thread keeps
  what follows from it. So the pointer is shown again as often as it was hidden, nothing of a session is
  left when control is local, and the remote position is always on a screen.
\<close>

section \<open>Counting the pointer\<close>

text \<open>Any operating system, with a count of the calls that show the pointer less those that hide it.\<close>

definition counted :: "'w windows_api \<Rightarrow> ('w \<times> int) windows_api" where
  "counted A =
     \<lparr>wa_show_cursor = (\<lambda>show (w, k). let (count, w') = wa_show_cursor A show w
        in (count, w', if show then k + 1 else k - 1)),
      wa_set_cursor_pos = (\<lambda>x y (w, k). (wa_set_cursor_pos A x y w, k)),
      wa_cursor_pos = (\<lambda>(w, k). wa_cursor_pos A w), wa_foreground = (\<lambda>(w, k). wa_foreground A w),
      wa_set_foreground = (\<lambda>window (w, k). let (ok, w') = wa_set_foreground A window w in (ok, w', k)),
      wa_is_window = (\<lambda>window (w, k). wa_is_window A window w), wa_key_down = (\<lambda>vk (w, k). wa_key_down A vk w),
      wa_input_desktop = (\<lambda>(w, k). wa_input_desktop A w), wa_requests = (\<lambda>(w, k). wa_requests A w),
      wa_origin = wa_origin A, wa_scale_bits = wa_scale_bits A\<rparr>"

lemma counted_calls [simp]:
  "snd (snd (wa_show_cursor (counted A) show w)) = (if show then snd w + 1 else snd w - 1)"
  "snd (wa_set_cursor_pos (counted A) x y w) = snd w"
  "snd (snd (wa_set_foreground (counted A) window w)) = snd w"
  by (cases w; simp add: counted_def split: prod.split)+

lemma hide_loop_count: "hide_loop (counted A) n calls w = (calls', w') \<Longrightarrow> snd w' + int calls' = snd w + int calls"
proof (induction n arbitrary: calls w)
  case (Suc n)
  obtain count w1 where call: "wa_show_cursor (counted A) False w = (count, w1)" by (rule prod.exhaust)
  then have "snd w1 = snd w - 1" using counted_calls(1) [of A False w] by simp
  with Suc call show ?case by (fastforce split: if_splits)
qed simp

lemma show_loop_count: "snd (show_loop (counted A) n w) = snd w + int n"
  by (induction n arbitrary: w) simp_all

section \<open>The phases of the context\<close>

definition on_screen :: "active_target \<Rightarrow> bool" where
  "on_screen a \<longleftrightarrow> placed (at_current_screen a) \<and> point_in_local_bounds (at_current_screen a) (at_x a) (at_y a)"

definition layout_placed :: "layout_state \<Rightarrow> bool" where
  "layout_placed layout \<longleftrightarrow> (\<forall>device\<in>set (ly_devices layout). \<forall>s\<in>set (dv_screens device). placed s)"

definition targets_placed :: "input_target list \<Rightarrow> bool" where
  "targets_placed targets \<longleftrightarrow> (\<forall>t\<in>set targets. placed (it_remote_screen t))"

text \<open>\<open>b\<close> is the count when nothing is hidden.\<close>

definition context_sound :: "int \<Rightarrow> ('w \<times> int) capture_context \<Rightarrow> bool" where
  "context_sound b c \<longleftrightarrow> snd (wc_os c) + int (wc_hide_calls c) = b
     \<and> pred_option on_screen (wc_active c) \<and> pred_option (on_screen \<circ> pw_active) (wc_pending c)
     \<and> pred_option (on_screen \<circ> pw_active) (wc_candidate c)
     \<and> layout_placed (wc_layout c) \<and> pred_option (targets_placed \<circ> snd) (wc_targets c)"

definition context_idle :: "int \<Rightarrow> ('w \<times> int) capture_context \<Rightarrow> bool" where
  "context_idle b c \<longleftrightarrow> context_sound b c \<and> wc_pending c = None \<and> wc_active c = None \<and> \<not> wc_remote_active c
     \<and> wc_hide_calls c = 0 \<and> wc_previous_foreground c = 0 \<and> wc_anchor c = None
     \<and> wc_button_mask c = 0 \<and> wc_pressed_keys c = []"

definition context_prepared :: "int \<Rightarrow> ('w \<times> int) capture_context \<Rightarrow> bool" where
  "context_prepared b c \<longleftrightarrow> context_sound b c \<and> wc_pending c \<noteq> None \<and> wc_active c = None \<and> \<not> wc_remote_active c
     \<and> wc_hide_calls c = 0"

text \<open>
  The application clears \<open>remote_active\<close> when it stops the input, while the router may still be remote.
\<close>

definition context_capturing :: "int \<Rightarrow> ('w \<times> int) capture_context \<Rightarrow> bool" where
  "context_capturing b c \<longleftrightarrow> context_sound b c \<and> wc_pending c = None
     \<and> (if wc_remote_active c then wc_active c \<noteq> None else wc_stop c)"

lemmas context_phases = context_sound_def context_idle_def context_prepared_def context_capturing_def

section \<open>Positions\<close>

lemma screen_bounds:
  assumes "placed s"
  shows "(0 :: rat) \<le> of_int (wrap_i32 (sc_width s - 1))" and "(0 :: rat) \<le> of_int (wrap_i32 (sc_height s - 1))"
  using assms by (auto simp: placed_def is_i32_def)

lemma clamped_on_screen:
  assumes "placed (at_current_screen a)"
  shows "on_screen (clamp_to_screen a)"
  using clamp_in_bounds [OF assms] assms by (simp add: on_screen_def clamp_to_screen_def)

lemma pinned_on_screen:
  assumes "placed (at_current_screen a)"
  shows "on_screen (pin_active_to_entry_edge a)"
  using clamped_on_screen [OF assms] screen_bounds [OF assms] assms
  by (cases "it_edge (at_target a)")
    (auto simp: on_screen_def pin_active_to_entry_edge_def point_in_local_bounds_def clamp_to_screen_def Let_def)

lemma centered_on_screen:
  assumes "placed (it_remote_screen t)"
  shows "on_screen (centered_active_target t)"
  using assms clamp_range [OF screen_bounds(1) [OF assms]] clamp_range [OF screen_bounds(2) [OF assms]]
  by (simp add: on_screen_def centered_active_target_def point_in_local_bounds_def Let_def)

lemma crossed_on_screen:
  assumes "crossing_target targets x y dx dy = Some a" and "targets_placed targets"
  shows "on_screen a"
proof -
  from assms(1) obtain t p where found: "find_map (\<lambda>target. map_option (Pair target) (crossing_layout_point target x y dx dy)) targets
      = Some (t, p)" and a: "a = entered_target False dx dy (t, p)"
    by (auto simp: crossing_target_def crossing_target_with_transform_def)
  from find_map_Some [OF found] have "t \<in> set targets" by auto
  with assms(2) have t: "placed (it_remote_screen t)" by (simp add: targets_placed_def)
  then have "placed (at_current_screen a)" by (cases p) (simp add: a entered_target_def Let_def)
  with entered_in_bounds [OF t] show ?thesis by (simp add: on_screen_def a)
qed

lemma moved_screen_placed:
  assumes "update_active_remote_screen layout dx dy a = (left, a')" and "placed (at_current_screen a)" and "layout_placed layout"
  shows "placed (at_current_screen a')" and "left \<Longrightarrow> on_screen a'"
proof -
  have roams: "placed s" if "s \<in> set (remote_device_screens layout i)" for s i
  proof (cases "find (\<lambda>device. dv_id device = i) (ly_devices layout)")
    case None
    with that show ?thesis by (simp add: remote_device_screens_def)
  next
    case (Some device)
    with that assms(3) find_member [OF Some] show ?thesis by (auto simp: remote_device_screens_def layout_placed_def)
  qed
  have "placed (at_current_screen a') \<and> (left \<longrightarrow> on_screen a')"
    using assms(1,2) roams pinned_on_screen [OF assms(2)]
    by (auto simp: update_active_remote_screen_def Let_def on_screen_def split: if_splits option.splits dest: find_member)
  then show "placed (at_current_screen a')" and "left \<Longrightarrow> on_screen a'" by simp_all
qed

lemma built_targets_placed: "layout_placed layout \<Longrightarrow> targets_placed (build_input_targets windows origin layout native_layout)"
  by (auto simp: targets_placed_def layout_placed_def target_member target_of_Some)

lemma selected_on_screen:
  assumes "request_selected_remote windows origin layout native_layout active = SwitchEnter a" and "layout_placed layout"
  shows "on_screen a"
proof -
  have "\<exists>t\<in>set (build_input_targets windows origin layout native_layout). a = centered_active_target t"
    using assms(1)
    by (auto simp: request_selected_remote_def Let_def split: if_splits option.splits dest: find_member)
  with built_targets_placed [OF assms(2)] centered_on_screen show ?thesis by (auto simp: targets_placed_def)
qed

lemma switched_on_screen:
  assumes "request_screen_switch_from_point windows origin direction layout native_layout active point = SwitchEnter a"
    and "layout_placed layout"
  shows "on_screen a"
proof -
  have "\<exists>t\<in>set (build_input_targets windows origin layout native_layout). a = centered_active_target t"
    using assms(1)
    by (auto simp: request_screen_switch_from_point_def Let_def split: if_splits option.splits prod.splits dest!: find_member)
  with built_targets_placed [OF assms(2)] centered_on_screen show ?thesis by (auto simp: targets_placed_def)
qed

section \<open>The context's writes\<close>

lemma lock_active_frame [simp]:
  "wc_os (lock_active c) = wc_os c" "wc_hide_calls (lock_active c) = wc_hide_calls c"
  "wc_active (lock_active c) = wc_active c" "wc_pending (lock_active c) = wc_pending c"
  "wc_candidate (lock_active c) = wc_candidate c" "wc_layout (lock_active c) = wc_layout c"
  "wc_targets (lock_active c) = wc_targets c" "wc_remote_active (lock_active c) = wc_remote_active c"
  "wc_stop (lock_active c) = wc_stop c"
  "wc_previous_foreground (lock_active c) = wc_previous_foreground c"
  "wc_anchor (lock_active c) = wc_anchor c" "wc_button_mask (lock_active c) = wc_button_mask c"
  "wc_pressed_keys (lock_active c) = wc_pressed_keys c" "wc_desktop_default (lock_active c) = wc_desktop_default c"
  by (simp_all add: lock_active_def)

lemma restore_foreground_frame:
  "\<exists>w. restore_windows_foreground (counted A) c = c\<lparr>wc_previous_foreground := 0, wc_os := w\<rparr> \<and> snd w = snd (wc_os c)"
proof (cases "wc_previous_foreground c \<noteq> 0 \<and> wa_is_window (counted A) (wc_previous_foreground c) (wc_os c)")
  case True
  let ?w = "snd (wa_set_foreground (counted A) (wc_previous_foreground c) (wc_os c))"
  from True have "restore_windows_foreground (counted A) c = c\<lparr>wc_previous_foreground := 0, wc_os := ?w\<rparr>"
    by (simp add: restore_windows_foreground_def Let_def)
  moreover have "snd ?w = snd (wc_os c)" by (rule counted_calls(3))
  ultimately show ?thesis by blast
next
  case False
  then have "restore_windows_foreground (counted A) c = c\<lparr>wc_previous_foreground := 0, wc_os := wc_os c\<rparr>"
    by (auto simp: restore_windows_foreground_def Let_def)
  then show ?thesis by blast
qed

lemma restore_state_idle:
  assumes "context_sound b c"
  shows "context_idle b (restore_windows_capture_state (counted A) clear c)"
proof -
  define c1 where "c1 = show_windows_cursor_if_needed (counted A) ((lock_active (c\<lparr>wc_pending := None\<rparr>))\<lparr>wc_active := None,
      wc_button_mask := 0, wc_pressed_keys := [], wc_motion_sequence := 0, wc_remote_active := False,
      wc_just_crossed := False, wc_last_mouse_move_sent := None\<rparr>)"
  obtain w where w: "restore_windows_foreground (counted A) c1 = c1\<lparr>wc_previous_foreground := 0, wc_os := w\<rparr>"
    "snd w = snd (wc_os c1)" using restore_foreground_frame by blast
  show ?thesis
    using assms w
    by (simp add: restore_windows_capture_state_def Let_def c1_def [symmetric])
      (simp add: c1_def context_phases show_windows_cursor_if_needed_def show_loop_count clear_clipboard_target_def)
qed

lemma clipboard_frame:
  "\<exists>t. set_control_clipboard_target a c = c\<lparr>wc_clipboard_target := t\<rparr>"
  by (cases "find (\<lambda>device. dv_id device = it_device_id (at_target a) \<and> dv_online device \<and> dv_input_ready device)
      (ly_devices (wc_layout c))")
    (auto simp: set_control_clipboard_target_def intro: exI [of _ "wc_clipboard_target c"])

lemma hide_frame:
  "\<exists>calls w. hide_windows_cursor_if_needed (counted A) c = c\<lparr>wc_hide_calls := calls, wc_os := w\<rparr>
     \<and> snd w + int calls = snd (wc_os c) + int (wc_hide_calls c)"
proof (cases "wc_hide_calls c = 0")
  case True
  obtain calls w where run: "hide_loop (counted A) 8 0 (wc_os c) = (calls, w)" by (rule prod.exhaust)
  with True have "hide_windows_cursor_if_needed (counted A) c = c\<lparr>wc_hide_calls := calls, wc_os := w\<rparr>"
    by (simp add: hide_windows_cursor_if_needed_def)
  with True hide_loop_count [OF run] show ?thesis by (metis of_nat_0 add_0_right)
next
  case False
  then have "hide_windows_cursor_if_needed (counted A) c = c\<lparr>wc_hide_calls := wc_hide_calls c, wc_os := wc_os c\<rparr>"
    by (simp add: hide_windows_cursor_if_needed_def)
  then show ?thesis by blast
qed

section \<open>The ports keep in step\<close>

lemma prepare_result:
  assumes "windows_prepare_capture c = (res, c')"
  shows "(context_sound b c \<longrightarrow> context_sound b c') \<and> (res = Inr u \<longrightarrow> context_idle b c \<longrightarrow> context_prepared b c')"
proof (cases "wc_desktop_default c \<and> wc_candidate c \<noteq> None \<and> wc_pending c = None \<and> wc_active c = None")
  case True
  then obtain candidate where cand: "wc_candidate c = Some candidate" by blast
  with True assms have c': "c' = (lock_active (c\<lparr>wc_candidate := None\<rparr>))\<lparr>wc_pending := Some candidate\<rparr>"
    by (simp add: windows_prepare_capture_def Let_def)
  show ?thesis using cand unfolding c' by (simp add: context_phases)
next
  case False
  with assms show ?thesis
    by (auto simp: windows_prepare_capture_def Let_def context_phases split: if_splits option.splits)
qed

lemma activate_result:
  assumes "windows_activate_capture (counted A) c = (res, c')"
  shows "(context_sound b c \<longrightarrow> context_sound b c') \<and> (res = Inr u \<longrightarrow> context_prepared b c \<longrightarrow> context_capturing b c')"
proof (cases "wc_desktop_default c \<and> wc_pending c \<noteq> None")
  case True
  then obtain pending where p: "wc_pending c = Some pending" by blast
  obtain calls w where hide: "hide_windows_cursor_if_needed (counted A) (c\<lparr>wc_pending := None\<rparr>)
      = c\<lparr>wc_pending := None, wc_hide_calls := calls, wc_os := w\<rparr>"
      "snd w + int calls = snd (wc_os c) + int (wc_hide_calls c)"
    using hide_frame [of A "c\<lparr>wc_pending := None\<rparr>"] by auto
  let ?c2 = "set_windows_cursor (counted A) (local_anchor_point (pw_active pending))
      (c\<lparr>wc_pending := None, wc_hide_calls := calls, wc_os := w\<rparr>)"
  obtain t where clip: "set_control_clipboard_target (pw_active pending) ?c2 = ?c2\<lparr>wc_clipboard_target := t\<rparr>"
    using clipboard_frame by blast
  show ?thesis
    using assms True p hide clip
    by (auto simp: windows_activate_capture_def Let_def context_phases set_windows_cursor_def)
next
  case False
  with assms show ?thesis by (auto simp: windows_activate_capture_def split: option.splits if_splits)
qed

lemma focus_result:
  assumes "prepare_windows_focus (counted A) c = (res, c')"
  shows "(context_sound b c \<longrightarrow> context_sound b c') \<and> (context_prepared b c \<longrightarrow> context_prepared b c')"
proof -
  obtain ok w where call: "wa_set_foreground (counted A) (wc_focus_window c) (wc_os c) = (ok, w)" by (rule prod.exhaust)
  then have "snd w = snd (wc_os c)" using counted_calls(3) [of A "wc_focus_window c" "wc_os c"] by simp
  with assms call show ?thesis
    by (auto simp: prepare_windows_focus_def set_capture_fault_def Let_def context_phases split: if_splits)
qed

interpretation win: capture_tracking "windows_capture_port (counted A)" "windows_focus_port (counted A)"
    "context_sound b" "context_idle b" "context_prepared b" "context_capturing b"
proof unfold_locales
  fix c c' :: "('a \<times> int) capture_context" and g g' :: u64 and u :: unit
    and res :: "(port_error, unit) result"
  show "context_idle b c \<or> context_prepared b c \<or> context_capturing b c \<Longrightarrow> context_sound b c"
    by (auto simp: context_phases)
  show "request_local_restore (windows_capture_port (counted A)) c g = (c', g') \<Longrightarrow> context_sound b c \<Longrightarrow> context_idle b c'"
    using restore_state_idle by (auto simp: windows_capture_port_def)
  show "prepare_capture (windows_capture_port (counted A)) c g = (res, c', g') \<Longrightarrow> context_sound b c \<Longrightarrow> context_sound b c'"
    using prepare_result by (auto simp: windows_capture_port_def split: prod.splits)
  show "prepare_capture (windows_capture_port (counted A)) c g = (Inr u, c', g') \<Longrightarrow> context_idle b c \<Longrightarrow> context_prepared b c'"
    using prepare_result [of c "Inr u" c' b u] by (auto simp: windows_capture_port_def split: prod.splits)
  show "activate_capture (windows_capture_port (counted A)) c g = (res, c', g') \<Longrightarrow> context_sound b c \<Longrightarrow> context_sound b c'"
    using activate_result [of A c res c' b u] by (auto simp: windows_capture_port_def split: prod.splits)
  show "activate_capture (windows_capture_port (counted A)) c g = (Inr u, c', g') \<Longrightarrow> context_prepared b c \<Longrightarrow> context_capturing b c'"
    using activate_result [of A c "Inr u" c' b u] by (auto simp: windows_capture_port_def split: prod.splits)
  show "prepare_focus (windows_focus_port (counted A)) c g = (res, c', g') \<Longrightarrow> context_sound b c \<Longrightarrow> context_sound b c'"
    using focus_result [of A c res c' b] by (auto simp: windows_focus_port_def split: prod.splits)
  show "prepare_focus (windows_focus_port (counted A)) c g = (Inr u, c', g') \<Longrightarrow> context_prepared b c \<Longrightarrow> context_prepared b c'"
    using focus_result [of A c "Inr u" c' b] by (auto simp: windows_focus_port_def split: prod.splits)
qed

end
