(* ===== verification/Windows_Thread.thy ===== *)
theory Windows_Thread
  imports Windows_Safety
begin

text \<open>
  The invariant of the capture thread over the QUIC transport, kept by every hook and handler of
  \<open>Windows_Hooks\<close> and by what other threads do meanwhile, and the properties that follow.
\<close>

section \<open>The invariant\<close>

text \<open>The context is in the phase of the client's router.\<close>

definition in_step :: "int \<Rightarrow> 't controller_client \<Rightarrow> ('w \<times> int) capture_context \<Rightarrow> bool" where
  "in_step b = capture_tracking.keeps_step (context_idle b) (context_prepared b) (context_capturing b)"

definition thread_ok :: "int \<Rightarrow> ('t, 'w \<times> int) capture_thread \<Rightarrow> bool" where
  "thread_ok b th \<longleftrightarrow> client_inv (ct_client th) \<and> in_step b (ct_client th) (ct_context th)"

lemma in_step_def': "in_step b cl c \<longleftrightarrow> (case rt_state (cr_router (cc_runtime cl)) of
    PreparingRemote p \<Rightarrow> context_prepared b c
  | RemoteActive peer session \<Rightarrow> context_capturing b c
  | ReturningLocal reason \<Rightarrow> False
  | _ \<Rightarrow> context_idle b c)"
  by (cases "rt_state (cr_router (cc_runtime cl))") (simp_all add: in_step_def win.keeps_step_def win.follows_def)

lemma in_step_cases:
  assumes "in_step b cl c"
  obtains (idle) "is_local_state (rt_state (cr_router (cc_runtime cl)))" and "context_idle b c"
    | (preparing) p where "rt_state (cr_router (cc_runtime cl)) = PreparingRemote p" and "context_prepared b c"
    | (remote) peer session where "rt_state (cr_router (cc_runtime cl)) = RemoteActive peer session"
        and "context_capturing b c"
  using assms by (cases "rt_state (cr_router (cc_runtime cl))") (auto simp: in_step_def')

text \<open>A write that no phase looks at.\<close>

lemma in_step_write:
  assumes "in_step b cl c" and "context_idle b c \<Longrightarrow> context_idle b c'" and "context_prepared b c \<Longrightarrow> context_prepared b c'"
    and "context_capturing b c \<Longrightarrow> context_capturing b c'"
  shows "in_step b cl c'"
  using assms by (cases "rt_state (cr_router (cc_runtime cl))") (auto simp: in_step_def')

lemma in_step_same: "cr_router (cc_runtime cl') = cr_router (cc_runtime cl) \<Longrightarrow> in_step b cl' c = in_step b cl c"
  by (simp add: in_step_def')

lemma in_step_local:
  assumes "in_step b cl c" and "is_local_state (rt_state (cr_router (cc_runtime cl)))"
  shows "context_idle b c"
  using assms by (cases rule: in_step_cases) simp_all

lemma thread_remote:
  assumes "thread_ok b th" and "wc_active (ct_context th) \<noteq> None \<or> wc_remote_active (ct_context th)"
  shows "(\<exists>peer session. rt_state (cr_router (cc_runtime (ct_client th))) = RemoteActive peer session)
    \<and> context_capturing b (ct_context th)"
proof -
  from assms(1) have "in_step b (ct_client th) (ct_context th)" by (simp add: thread_ok_def)
  then show ?thesis using assms(2) by (cases rule: in_step_cases) (auto simp: context_phases)
qed

text \<open>Remote control, in which the handlers may write whatever keeps the context capturing.\<close>

definition remote_ok :: "int \<Rightarrow> ('t, 'w \<times> int) capture_thread \<Rightarrow> bool" where
  "remote_ok b th \<longleftrightarrow> client_inv (ct_client th) \<and> context_capturing b (ct_context th)
     \<and> (\<exists>peer session. rt_state (cr_router (cc_runtime (ct_client th))) = RemoteActive peer session)"

lemma remote_ok_thread: "remote_ok b th \<Longrightarrow> thread_ok b th"
  by (auto simp: remote_ok_def thread_ok_def in_step_def')

lemma thread_remote_ok:
  "thread_ok b th \<Longrightarrow> wc_active (ct_context th) = Some a \<Longrightarrow> remote_ok b th \<and> on_screen a"
  using thread_remote [of b th] by (auto simp: remote_ok_def thread_ok_def context_phases)

lemma remote_context:
  "remote_ok b th \<Longrightarrow> context_capturing b c' \<Longrightarrow> remote_ok b (th\<lparr>ct_context := c'\<rparr>)"
  by (simp add: remote_ok_def)

section \<open>The client's operations\<close>

context capture_contract
begin

lemma begin_phase:
  assumes "begin_remote P peer display revision now r c = (res, r', c')" and "can_begin r" and "runtime_linked r"
    and "runtime_linked r'"
  shows "if is_ok res then \<not> is_active r' \<and> \<not> can_begin r' else can_begin r'"
proof -
  obtain rres router c1 where rem: "go_remote P peer now (cr_router r) c = (rres, router, c1)"
    by (cases "go_remote P peer now (cr_router r) c")
  from rem show ?thesis
  proof (cases rule: go_remote_cases)
    case unchanged
    with assms rem show ?thesis by (cases rres) (auto simp: begin_remote_def can_begin_def)
  next
    case (failed e reason)
    with assms(1) rem show ?thesis by (auto simp: begin_remote_def can_begin_def)
  next
    case (prepared request deadline keys_deadline)
    obtain bres h where bg: "controller_begin request display revision (cr_handshake r) = (bres, h)" by fastforce
    show ?thesis
    proof (cases bres)
      case (Inl e)
      obtain effs router2 c2 where loc: "go_local P NetworkFailed router c1 = (effs, router2, c2)"
        by (cases "go_local P NetworkFailed router c1")
      with assms(1) rem prepared(1) bg Inl go_local_result(1) [OF loc] show ?thesis
        by (auto simp: begin_remote_def can_begin_def)
    next
      case (Inr frames)
      with assms(1) rem prepared(1) bg have "is_ok res" "cr_router r' = router" by (auto simp: begin_remote_def)
      with assms(4) prepared(7) have "\<not> is_active r'"
        by (auto simp: runtime_linked_def is_active_def active_session_def split: controller_state.splits)
      with \<open>is_ok res\<close> \<open>cr_router r' = router\<close> prepared(7) show ?thesis by (simp add: can_begin_def)
    qed
  qed
qed

end

text \<open>A begin that fails leaves the router local, one that succeeds leaves it preparing.\<close>

context client_ports
begin

lemma begin_ends:
  assumes "client_begin P T target now cl c = (res, cl', c')" and "client_inv cl" and "can_begin (cc_runtime cl)"
  shows "can_begin (cc_runtime cl') \<longleftrightarrow> \<not> is_ok res"
proof -
  have lnk: "runtime_linked (cc_runtime cl)" using assms(2) by (simp add: client_inv_def)
  define cl1 where "cl1 = (clear_inbound cl)\<lparr>cc_next_ping_ms := None\<rparr>"
  have cl1: "cc_runtime cl1 = cc_runtime cl" by (simp add: cl1_def clear_inbound_def)
  obtain con t where co: "tr_connect T target (cc_transport cl1) = (con, t)" by fastforce
  obtain out r c1 where bg: "begin_remote P (tg_peer_id target) (tg_target_display target)
      (tg_layout_revision target) now (cc_runtime cl) c = (out, r, c1)" by (metis prod_cases3)
  have lnk': "runtime_linked r" using begin_linked [OF bg lnk] .
  have start: "if is_ok out then \<not> is_active r \<and> \<not> can_begin r else can_begin r" using begin_phase [OF bg assms(3) lnk lnk'] .
  show ?thesis
  proof (cases con)
    case (Inl e)
    with assms co cl1 show ?thesis by (auto simp: client_begin_def Let_def cl1_def [symmetric])
  next
    case cok: (Inr u)
    show ?thesis
    proof (cases out)
      case (Inl e)
      with assms co cok bg cl1 start show ?thesis
        by (auto simp: client_begin_def Let_def cl1_def [symmetric] client_disconnect_def)
    next
      case (Inr actions)
      obtain sent cl3 c2 where ap: "apply_actions P T actions (cl1\<lparr>cc_transport := t, cc_runtime := r\<rparr>) c1
          = (sent, cl3, c2)" by (metis prod_cases3)
      note R = apply_actions_result [OF ap, simplified, OF lnk']
      show ?thesis
      proof (cases sent)
        case (Inl e)
        with assms co cok bg cl1 Inr ap R show ?thesis
          by (auto simp: client_begin_def Let_def cl1_def [symmetric] stopped_def)
      next
        case ok: (Inr v)
        with R Inr start have "\<not> is_active (cc_runtime cl3)" "\<not> can_begin (cc_runtime cl3)" by simp_all
        with assms(1,3) co cok bg cl1 Inr ap ok \<open>\<not> is_active (cc_runtime cl3)\<close> \<open>\<not> can_begin (cc_runtime cl3)\<close> show ?thesis
          by (auto simp: client_begin_def Let_def cl1_def [symmetric] poll_ping_def)
      qed
    qed
  qed
qed

end


interpretation win_client: client_ports "windows_capture_port (counted A)" "windows_focus_port (counted A)"
    "quic_controller_transport H" quic_linked
  by (intro client_ports.intro windows_ports.handoff_contract_axioms quic.transport_link_axioms)

lemma begin_ok:
  assumes "client_begin (windows_capture_port (counted A)) (quic_controller_transport H) target now cl c = (res, cl', c')"
    and "client_inv cl" and "in_step b cl c"
  shows "client_inv cl' \<and> in_step b cl' c'"
  using win_client.begin_result [OF assms(1,2)] win.begin_step [OF assms(1)] assms(3) by (simp add: in_step_def)

lemma poll_ok:
  assumes "client_poll (windows_capture_port (counted A)) (windows_focus_port (counted A)) (quic_controller_transport H)
      fills now keys cl c = (res, cl', c')" and "client_inv cl" and "in_step b cl c"
  shows "client_inv cl' \<and> in_step b cl' c'"
  using win_client.poll_result [OF assms(1,2)] win.poll_step [OF assms(1)] assms(3) by (simp add: in_step_def)

lemma input_ok:
  assumes "client_send_input (windows_capture_port (counted A)) (quic_controller_transport H) event cl c = (res, cl', c')"
    and "client_inv cl" and "in_step b cl c"
  shows "client_inv cl' \<and> in_step b cl' c' \<and> (is_ok res \<longrightarrow> c' = c \<and> cr_router (cc_runtime cl') = cr_router (cc_runtime cl))"
  using win_client.send_input_result [OF assms(1,2)] win.send_step(1) [OF assms(1)] assms(1,3)
  by (auto simp: in_step_def client_send_input_def Let_def split: sum.splits prod.splits dest: win.sequences_router)

lemma motion_ok:
  assumes "client_send_motion (windows_capture_port (counted A)) (quic_controller_transport H) x y cl c = (res, cl', c')"
    and "client_inv cl" and "in_step b cl c"
  shows "client_inv cl' \<and> in_step b cl' c' \<and> (is_ok res \<longrightarrow> c' = c \<and> cr_router (cc_runtime cl') = cr_router (cc_runtime cl))"
  using win_client.send_motion_result [OF assms(1,2)] win.send_step(2) [OF assms(1)] assms(1,3)
  by (auto simp: in_step_def client_send_motion_def Let_def split: sum.splits prod.splits dest: win.sequences_router)

lemma local_ok:
  assumes "client_go_local (windows_capture_port (counted A)) (quic_controller_transport H) reason cl c = (res, cl', c')"
    and "client_inv cl" and "in_step b cl c"
  shows "client_inv cl' \<and> in_step b cl' c'"
  using win_client.client_go_local_result [OF assms(1,2)] win.client_local_step [OF assms(1)] assms(3)
  by (simp add: in_step_def)

lemma local_ends_local:
  assumes "client_go_local (windows_capture_port (counted A)) (quic_controller_transport H) reason cl c = (res, cl', c')"
    and "client_inv cl"
  shows "can_begin (cc_runtime cl')" and "is_local (rt_gate (cr_router (cc_runtime cl')))"
proof -
  obtain out r c1 where gl: "controller_go_local (windows_capture_port (counted A)) reason (cc_runtime cl) c = (out, r, c1)"
    by (metis prod_cases3)
  have lnk: "runtime_linked (cc_runtime cl)" using assms(2) by (simp add: client_inv_def)
  note G = windows_ports.go_local_runtime_linked [OF gl lnk]
  then obtain actions where ok: "out = Inr actions" by (auto simp: is_ok_iff)
  obtain sent cl1 c2 where ap: "apply_actions (windows_capture_port (counted A)) (quic_controller_transport H) actions
      (cl\<lparr>cc_runtime := r\<rparr>) c1 = (sent, cl1, c2)" by (metis prod_cases3)
  note R = win_client.apply_actions_result [OF ap, simplified, OF G(1)]
  have "can_begin (cc_runtime cl') \<and> is_local (rt_gate (cr_router (cc_runtime cl')))"
    using assms(1) gl ok ap R G(3,4) by (cases sent) (auto simp: client_go_local_def stopped_def can_begin_def)
  then show "can_begin (cc_runtime cl')" and "is_local (rt_gate (cr_router (cc_runtime cl')))" by simp_all
qed

section \<open>The handlers\<close>

lemma thread_parts: "client_inv cl \<Longrightarrow> in_step b cl c \<Longrightarrow> thread_ok b (th\<lparr>ct_client := cl, ct_context := c\<rparr>)"
  by (simp add: thread_ok_def)

lemma thread_write:
  assumes "thread_ok b th" and "context_idle b (ct_context th) \<Longrightarrow> context_idle b (f (ct_context th))"
    and "context_prepared b (ct_context th) \<Longrightarrow> context_prepared b (f (ct_context th))"
    and "context_capturing b (ct_context th) \<Longrightarrow> context_capturing b (f (ct_context th))"
  shows "thread_ok b (with_context f th)"
  using assms in_step_write [of b "ct_client th" "ct_context th" "f (ct_context th)"]
  by (simp add: thread_ok_def with_context_def)

lemma send_input_thread:
  assumes "send_v2_windows_input (counted A) (quic_controller_transport H) event th = (sent, th')" and "thread_ok b th"
  shows "thread_ok b th' \<and> (sent \<longrightarrow> remote_ok b th \<longrightarrow> remote_ok b th')"
proof -
  obtain res cl c where send: "client_send_input (windows_capture_port (counted A)) (quic_controller_transport H) event
      (ct_client th) (ct_context th) = (res, cl, c)" by (metis prod_cases3)
  have inv: "client_inv (ct_client th)" "in_step b (ct_client th) (ct_context th)" using assms(2) by (simp_all add: thread_ok_def)
  note S = input_ok [OF send inv]
  show ?thesis
  proof (cases res)
    case (Inl e)
    with assms(1) send S show ?thesis by (auto simp: send_v2_windows_input_def thread_ok_def)
  next
    case (Inr u)
    let ?c = "c\<lparr>wc_input_events := wc_input_events c + 1\<rparr>"
    from Inr assms(1) send have th': "sent" "th' = th\<lparr>ct_client := cl, ct_context := ?c\<rparr>"
      by (auto simp: send_v2_windows_input_def)
    have "in_step b cl ?c" using S by (elim conjE in_step_write) (simp_all add: context_phases)
    moreover have "context_capturing b ?c = context_capturing b c" by (simp add: context_phases)
    ultimately show ?thesis using S Inr th' by (auto simp: thread_ok_def remote_ok_def)
  qed
qed

lemma send_motion_thread:
  assumes "send_v2_windows_motion (counted A) (quic_controller_transport H) x y th = (sent, th')" and "thread_ok b th"
  shows "thread_ok b th' \<and> (sent \<longrightarrow> remote_ok b th \<longrightarrow> remote_ok b th')"
proof -
  obtain res cl c where send: "client_send_motion (windows_capture_port (counted A)) (quic_controller_transport H) x y
      (ct_client th) (ct_context th) = (res, cl, c)" by (metis prod_cases3)
  have inv: "client_inv (ct_client th)" "in_step b (ct_client th) (ct_context th)" using assms(2) by (simp_all add: thread_ok_def)
  note S = motion_ok [OF send inv]
  show ?thesis
  proof (cases res)
    case (Inl e)
    with assms(1) send S show ?thesis by (auto simp: send_v2_windows_motion_def thread_ok_def)
  next
    case (Inr n)
    let ?c = "c\<lparr>wc_motion_sequence := n, wc_input_events := wc_input_events c + 1\<rparr>"
    from Inr assms(1) send have th': "sent" "th' = th\<lparr>ct_client := cl, ct_context := ?c\<rparr>"
      by (auto simp: send_v2_windows_motion_def)
    have "in_step b cl ?c" using S by (elim conjE in_step_write) (simp_all add: context_phases)
    moreover have "context_capturing b ?c = context_capturing b c" by (simp add: context_phases)
    ultimately show ?thesis using S Inr th' by (auto simp: thread_ok_def remote_ok_def)
  qed
qed

lemma release_thread:
  assumes "release_windows_remote_control_with_reason (counted A) (quic_controller_transport H) clear reason th = th'"
    and "thread_ok b th"
  shows "thread_ok b th'" and "can_begin (cc_runtime (ct_client th'))" and "is_local (thread_gate th')"
proof -
  obtain res cl c where gl: "client_go_local (windows_capture_port (counted A)) (quic_controller_transport H) reason
      (ct_client th) (ct_context th) = (res, cl, c)" by (metis prod_cases3)
  have inv: "client_inv (ct_client th)" "in_step b (ct_client th) (ct_context th)" using assms(2) by (simp_all add: thread_ok_def)
  have cl: "client_inv cl" and step: "in_step b cl c" using local_ok [OF gl inv] by simp_all
  note home = local_ends_local [OF gl inv(1)]
  have idle: "context_idle b c" using in_step_local [OF step] home(1) by (simp add: can_begin_def)
  then have "context_idle b (restore_windows_capture_state (counted A) True c)"
    by (intro restore_state_idle) (simp add: context_idle_def)
  then have "in_step b cl (restore_windows_capture_state (counted A) True c)"
    using home(1) by (cases "rt_state (cr_router (cc_runtime cl))") (simp_all add: in_step_def' can_begin_def)
  with step have d: "in_step b cl (case res of Inl _ \<Rightarrow> restore_windows_capture_state (counted A) True c | Inr _ \<Rightarrow> c)"
    (is "in_step b cl ?d") by (cases res) simp_all
  then have "in_step b cl (clear_clipboard_target ?d)"
    by (rule in_step_write) (simp_all only: context_phases clear_clipboard_target_def, simp_all)
  with d have "in_step b cl (if clear then clear_clipboard_target ?d else ?d)" by (simp only: split: if_split) simp
  then obtain final where final: "final = (if clear then clear_clipboard_target ?d else ?d)" "in_step b cl final" by blast
  have "th' = th\<lparr>ct_client := cl, ct_context := final\<rparr>"
    using gl assms(1) by (simp only: final(1) release_windows_remote_control_with_reason_def Let_def prod.case)
  with cl home final(2) show "thread_ok b th'" "can_begin (cc_runtime (ct_client th'))" "is_local (thread_gate th')"
    by (simp_all add: thread_ok_def thread_gate_def)
qed

text \<open>Once the application has stopped the input, an idle context may go with a remote router.\<close>

lemma idle_stopped:
  "context_idle b (restore_windows_capture_state A clear c) \<Longrightarrow> wc_stop c
     \<Longrightarrow> context_capturing b (restore_windows_capture_state A clear c)"
  by (simp add: context_phases)
    (simp add: restore_windows_capture_state_def restore_windows_foreground_def show_windows_cursor_if_needed_def
      clear_clipboard_target_def Let_def)

lemma begin_thread:
  assumes "thread_ok b th" and "on_screen active"
  shows "thread_ok b (snd (begin_v2_controller_windows (counted A) (quic_controller_transport H) now active crossed th))"
proof -
  define th1 where "th1 = with_context (set_capture_fault None) th"
  have one: "thread_ok b th1"
    unfolding th1_def by (rule thread_write [OF assms(1)]) (simp_all add: context_phases set_capture_fault_def)
  show ?thesis
  proof (cases "wc_pending (ct_context th1) \<noteq> None \<or> wc_remote_active (ct_context th1)")
    case True
    with one show ?thesis by (auto simp: begin_v2_controller_windows_def th1_def [symmetric] Let_def)
  next
    case False
    let ?c = "(ct_context th1)\<lparr>wc_candidate := Some \<lparr>pw_active = active, pw_crossed_edge = crossed\<rparr>\<rparr>"
    define target where "target = \<lparr>tg_peer_id = it_device_id (at_target active), tg_addr = it_target_addr (at_target active),
               tg_protocol_version = it_protocol_version (at_target active), tg_target_display = at_current_screen_id active,
               tg_layout_revision = display_layout_revision (sc_id (at_current_screen active)) (sc_width (at_current_screen active))
                 (sc_height (at_current_screen active)) (wa_scale_bits (counted A) (sc_scale (at_current_screen active)))\<rparr>"
    obtain res cl c where bg: "client_begin (windows_capture_port (counted A)) (quic_controller_transport H) target now
        (ct_client th1) ?c = (res, cl, c)" by (metis prod_cases3)
    have inv: "client_inv (ct_client th1)" and "in_step b (ct_client th1) (ct_context th1)"
      using one by (simp_all add: thread_ok_def)
    then have step: "in_step b (ct_client th1) ?c"
      using assms(2) by (elim in_step_write) (simp_all add: context_phases)
    from begin_ok [OF bg inv step] have cl: "client_inv cl" "in_step b cl c" by simp_all
    have dropped: "in_step b cl (d\<lparr>wc_candidate := None\<rparr>)" if "in_step b cl d" for d
      using that by (rule in_step_write) (simp_all add: context_phases)
    have out: "snd (begin_v2_controller_windows (counted A) (quic_controller_transport H) now active crossed th)
        = th1\<lparr>ct_client := cl, ct_context := (case res of Inr _ \<Rightarrow> c\<lparr>wc_motion_sequence := 0\<rparr>
            | Inl _ \<Rightarrow> restore_windows_capture_state (counted A) True c)\<lparr>wc_candidate := None\<rparr>\<rparr>"
      using False bg by (simp add: begin_v2_controller_windows_def th1_def [symmetric] target_def Let_def)
    show ?thesis
    proof (cases res)
      case (Inr u)
      have "in_step b cl (c\<lparr>wc_motion_sequence := 0\<rparr>)"
        using cl(2) by (rule in_step_write) (simp_all add: context_phases)
      with out Inr cl dropped show ?thesis by (simp add: thread_ok_def)
    next
      case (Inl e)
      show ?thesis
      proof (cases "can_begin (cc_runtime (ct_client th1))")
        case busy: False
        with bg have same: "cl = ct_client th1" "c = ?c" by (simp_all add: client_begin_def)
        obtain peer session where "rt_state (cr_router (cc_runtime cl)) = RemoteActive peer session"
          using step False busy unfolding same by (cases rule: in_step_cases) (auto simp: context_phases can_begin_def)
        moreover have "wc_stop c" "context_sound b c"
          using cl(2) False same calculation by (auto simp: in_step_def' context_phases)
        ultimately have "in_step b cl (restore_windows_capture_state (counted A) True c)"
          by (simp add: in_step_def' idle_stopped restore_state_idle)
        with out Inl cl dropped show ?thesis by (simp add: thread_ok_def)
      next
        case True
        then have home: "is_local_state (rt_state (cr_router (cc_runtime cl)))"
          using win_client.begin_ends [OF bg inv] by (simp add: can_begin_def Inl)
        with cl have "context_idle b c" using in_step_local by blast
        then have idle: "context_idle b (restore_windows_capture_state (counted A) True c)"
          by (intro restore_state_idle) (simp add: context_idle_def)
        have "in_step b cl (restore_windows_capture_state (counted A) True c)"
          using idle home by (cases "rt_state (cr_router (cc_runtime cl))") (simp_all add: in_step_def')
        with out Inl cl dropped show ?thesis by (simp add: thread_ok_def)
      qed
    qed
  qed
qed

lemma release_user_thread:
  assumes "thread_ok b th"
  shows "thread_ok b (release_windows_remote_control (counted A) (quic_controller_transport H) clear th)"
  unfolding release_windows_remote_control_def using release_thread(1) [OF refl assms] .

lemma thread_layout: "thread_ok b th \<Longrightarrow> layout_placed (wc_layout (ct_context th))"
  by (auto simp: thread_ok_def context_phases elim!: in_step_cases)

lemma drain_v2_thread:
  assumes "thread_ok b th"
  shows "thread_ok b (drain_v2_controller_windows (counted A) (quic_controller_transport H) fills now th)"
proof (cases "wc_pending (ct_context th) = None \<and> \<not> wc_remote_active (ct_context th)")
  case True
  with assms show ?thesis by (simp add: drain_v2_controller_windows_def)
next
  case False
  obtain res cl c where poll: "client_poll (windows_capture_port (counted A)) (windows_focus_port (counted A))
      (quic_controller_transport H) fills now (windows_control_inputs_released (counted A) (wc_os (ct_context th)))
      (ct_client th) (ct_context th) = (res, cl, c)" by (metis prod_cases3)
  have inv: "client_inv (ct_client th)" "in_step b (ct_client th) (ct_context th)" using assms by (simp_all add: thread_ok_def)
  define th1 where "th1 = th\<lparr>ct_client := cl, ct_context := c\<rparr>"
  have one: "thread_ok b th1" using poll_ok [OF poll inv] by (simp add: thread_ok_def th1_def)
  show ?thesis
  proof (cases "is_ok res \<and> wc_remote_active c \<and> wc_motion_sequence c = 0")
    case False
    with \<open>\<not> (wc_pending _ = None \<and> _)\<close> poll one show ?thesis
      by (auto simp: drain_v2_controller_windows_def th1_def Let_def split: sum.splits)
  next
    case True
    then obtain u where ok: "res = Inr u" by (cases res) auto
    have "context_capturing b c" using thread_remote [OF one] True by (simp add: th1_def)
    then obtain a where a: "wc_active c = Some a" using True by (auto simp: context_capturing_def)
    obtain sent th2 where send: "send_v2_windows_motion (counted A) (quic_controller_transport H) (round_i32 (at_x a))
        (round_i32 (at_y a)) th1 = (sent, th2)" by fastforce
    have two: "thread_ok b th2" using send_motion_thread [OF send one] by simp
    then have "thread_ok b (with_context (mark_mouse_move_sent now) th2)"
      by (rule thread_write) (simp_all add: context_phases mark_mouse_move_sent_def)
    with False True ok a poll send two show ?thesis
      by (cases sent) (auto simp: drain_v2_controller_windows_def th1_def [symmetric] Let_def)
  qed
qed

section \<open>The mouse\<close>

lemma capturing_write:
  assumes "remote_ok b th" and "context_capturing b (ct_context th) \<Longrightarrow> context_capturing b (f (ct_context th))"
  shows "remote_ok b (with_context f th)"
  using assms by (simp add: remote_ok_def with_context_def)

lemma pointer_capturing:
  "context_capturing b c \<Longrightarrow> context_capturing b (set_windows_cursor (counted A) p (hide_windows_cursor_if_needed (counted A) c))"
  "context_capturing b c \<Longrightarrow> context_capturing b (set_windows_cursor (counted A) p c)"
  using hide_frame [of A c] by (auto simp: context_phases set_windows_cursor_def)

lemma pointer_write: "thread_ok b th \<Longrightarrow> thread_ok b (with_context (set_windows_cursor (counted A) p) th)"
  by (erule thread_write) (simp_all add: context_phases set_windows_cursor_def)

lemma should_send_frame: "should_send_mouse_move now dragging c = (send, c') \<Longrightarrow> \<exists>t. c' = c\<lparr>wc_last_mouse_move_sent := t\<rparr>"
  by (auto simp: should_send_mouse_move_def Let_def split: if_splits intro: exI [of _ "wc_last_mouse_move_sent c"])

lemma remote_move_thread:
  assumes "remote_mouse_move (counted A) (quic_controller_transport H) now x y active th = (handled, th')"
    and "thread_ok b th" and "wc_active (ct_context th) = Some active"
  shows "thread_ok b th'"
proof -
  define c where "c = ct_context th"
  define anchor where "anchor = (case wc_anchor c of Some p \<Rightarrow> p | None \<Rightarrow> (x, y))"
  define dx dy where "dx = x - fst anchor" and "dy = y - snd anchor"
  obtain left moved where upd: "update_active_remote_screen (wc_layout c) dx dy (accumulate_remote_delta dx dy active) = (left, moved)"
    by fastforce
  have rem: "remote_ok b th" and on: "on_screen active" using thread_remote_ok [OF assms(2,3)] by simp_all
  have lay: "layout_placed (wc_layout c)" using thread_layout [OF assms(2)] by (simp add: c_def)
  have "placed (at_current_screen (accumulate_remote_delta dx dy active))"
    using on by (simp add: on_screen_def accumulate_remote_delta_def)
  note M = moved_screen_placed [OF upd this lay]
  have cap: "context_capturing b c" using rem by (simp add: remote_ok_def c_def)
  consider (still) "th' = th"
    | (crossed) "th' = with_context (\<lambda>c. set_windows_cursor (counted A) anchor (c\<lparr>wc_just_crossed := False\<rparr>)) th"
    | (home) "left" and "th' = with_context (set_windows_cursor (counted A) (local_return_point moved))
        (release_windows_remote_control (counted A) (quic_controller_transport H) False
          (with_context (wc_active_update (\<lambda>_. Some moved)) th))"
    | (on) send c1 sent th1 where "should_send_mouse_move now (remote_button_is_down (wc_button_mask c))
          (c\<lparr>wc_active := Some (clamp_to_screen moved)\<rparr>) = (send, c1)"
        and "(if send then send_v2_windows_motion (counted A) (quic_controller_transport H)
              (round_i32 (at_x (clamp_to_screen moved))) (round_i32 (at_y (clamp_to_screen moved))) (th\<lparr>ct_context := c1\<rparr>)
            else (True, th\<lparr>ct_context := c1\<rparr>)) = (sent, th1)"
        and "th' = (if \<not> sent then th1
          else with_context (\<lambda>c. set_windows_cursor (counted A) anchor (hide_windows_cursor_if_needed (counted A) c)) th1)"
    using assms(1) upd
    by (auto simp: remote_mouse_move_def c_def [symmetric] anchor_def [symmetric] dx_def [symmetric] dy_def [symmetric] Let_def
        split: if_splits prod.splits)
  then show ?thesis
  proof cases
    case still
    with assms(2) show ?thesis by simp
  next
    case crossed
    have "remote_ok b th'" unfolding crossed
      by (rule capturing_write [OF rem]) (rule pointer_capturing(2), simp add: context_phases)
    then show ?thesis by (rule remote_ok_thread)
  next
    case home
    have "remote_ok b (with_context (wc_active_update (\<lambda>_. Some moved)) th)"
      by (rule capturing_write [OF rem]) (use M(2) [OF home(1)] in \<open>simp add: context_phases\<close>)
    then show ?thesis unfolding home(2)
      by (intro pointer_write release_user_thread remote_ok_thread)
  next
    case (on send c1 sent th1)
    obtain t where "c1 = c\<lparr>wc_active := Some (clamp_to_screen moved), wc_last_mouse_move_sent := t\<rparr>"
      using should_send_frame [OF on(1)] by auto
    then have "context_capturing b c1" using cap clamped_on_screen [OF M(1)] by (simp add: context_phases)
    then have rem1: "remote_ok b (th\<lparr>ct_context := c1\<rparr>)" using rem by (rule remote_context [rotated])
    then have "thread_ok b th1 \<and> (sent \<longrightarrow> remote_ok b th1)"
    proof (cases send)
      case True
      with on(2) have "send_v2_windows_motion (counted A) (quic_controller_transport H) (round_i32 (at_x (clamp_to_screen moved)))
          (round_i32 (at_y (clamp_to_screen moved))) (th\<lparr>ct_context := c1\<rparr>) = (sent, th1)" by simp
      from send_motion_thread [OF this remote_ok_thread [OF rem1]] rem1 show ?thesis by simp
    next
      case False
      with on(2) rem1 remote_ok_thread show ?thesis by auto
    qed
    moreover have "remote_ok b (with_context (\<lambda>c. set_windows_cursor (counted A) anchor (hide_windows_cursor_if_needed (counted A) c)) th1)"
      if "remote_ok b th1" using that by (rule capturing_write) (rule pointer_capturing(1))
    ultimately show ?thesis using on(3) remote_ok_thread by auto
  qed
qed

lemma targets_frame:
  assumes "current_input_targets (counted A) free now c = (targets, c')" and "layout_placed (wc_layout c)"
    and "pred_option (targets_placed \<circ> snd) (wc_targets c)"
  shows "targets_placed targets \<and> (\<exists>t. c' = c\<lparr>wc_targets := t\<rparr> \<and> pred_option (targets_placed \<circ> snd) t)"
proof -
  have "targets_placed []" by (simp add: targets_placed_def)
  then have "targets_placed targets" and "c' = c\<lparr>wc_targets := wc_targets c\<rparr>
      \<or> c' = c\<lparr>wc_targets := Some (now, build_input_targets True (wa_origin (counted A)) (wc_layout c) (wc_native_layout c))\<rparr>"
    using assms built_targets_placed [OF assms(2)]
    by (auto simp: current_input_targets_def Let_def split: option.splits if_splits prod.splits)
  moreover have "pred_option (targets_placed \<circ> snd) (Some (now, build_input_targets True (wa_origin (counted A)) (wc_layout c) (wc_native_layout c)))"
    using built_targets_placed [OF assms(2)] by simp
  ultimately show ?thesis using assms(3) by blast
qed

lemma local_move_thread:
  assumes "thread_ok b th"
  shows "thread_ok b (local_mouse_move (counted A) (quic_controller_transport H) free now x y th)"
proof -
  define c where "c = ct_context th"
  obtain dx dy where d: "(case wc_last_point c of Some (px, py) \<Rightarrow> (x - px, y - py) | None \<Rightarrow> (0, 0)) = (dx, dy)" by fastforce
  obtain targets c1 where cur: "current_input_targets (counted A) free now (c\<lparr>wc_last_point := Some (x, y)\<rparr>) = (targets, c1)"
    by fastforce
  have snd: "context_sound b c" using assms by (auto simp: thread_ok_def c_def context_phases elim!: in_step_cases)
  then have F: "targets_placed targets \<and> (\<exists>t. c1 = c\<lparr>wc_last_point := Some (x, y), wc_targets := t\<rparr>
      \<and> pred_option (targets_placed \<circ> snd) t)"
    using targets_frame [OF cur] by (simp add: context_sound_def)
  then obtain t where c1: "c1 = c\<lparr>wc_last_point := Some (x, y), wc_targets := t\<rparr>" "pred_option (targets_placed \<circ> snd) t" by blast
  have "thread_ok b (with_context (\<lambda>_. c1) th)"
    using assms by (rule thread_write) (use c1 in \<open>simp_all add: context_phases c_def\<close>)
  then have one: "thread_ok b (th\<lparr>ct_context := c1\<rparr>)" by (simp add: with_context_def)
  have out: "local_mouse_move (counted A) (quic_controller_transport H) free now x y th =
      (case crossing_target targets x y dx dy of
         Some active \<Rightarrow> snd (begin_v2_controller_windows (counted A) (quic_controller_transport H) now active True (th\<lparr>ct_context := c1\<rparr>))
       | None \<Rightarrow> th\<lparr>ct_context := c1\<rparr>)"
    using d cur by (simp add: local_mouse_move_def c_def [symmetric] Let_def)
  show ?thesis
  proof (cases "crossing_target targets x y dx dy")
    case (Some a)
    with crossed_on_screen F have "on_screen a" by blast
    with begin_thread [OF one this] out Some show ?thesis by simp
  qed (use one out in simp)
qed

end
