(* ===== verification/Windows_Rules.thy ===== *)
theory Windows_Rules
  imports Windows_Thread
begin

text \<open>
  The rest of the capture thread's handlers, its hooks and the writes of other threads as one step
  relation, and what the capture of Windows guarantees. One behaviour it does not guarantee is proved too:
  the handler that finds the pointer crossing an edge never returns (\<open>edge_crossing_never_returns\<close>).
\<close>

section \<open>Handlers\<close>

lemma mouse_move_thread:
  assumes "handle_windows_mouse_move (counted A) (quic_controller_transport H) free now x y th = Some (handled, th')"
    and "thread_ok b th"
  shows "thread_ok b th'"
proof (cases "wc_active (ct_context th)")
  case (Some active)
  with assms(1) have "remote_mouse_move (counted A) (quic_controller_transport H) now x y active th = (handled, th')"
    by (simp add: handle_windows_mouse_move_def)
  from remote_move_thread [OF this assms(2) Some] show ?thesis .
next
  case None
  have "thread_ok b (with_context (wc_active_held_update (\<lambda>_. True)) th)"
    using assms(2) by (rule thread_write) (simp_all add: context_phases)
  from local_move_thread [OF this]
  have "thread_ok b (with_context (wc_active_held_update (\<lambda>_. False))
      (local_mouse_move (counted A) (quic_controller_transport H) free now x y (with_context (wc_active_held_update (\<lambda>_. True)) th)))"
    by (rule thread_write) (simp_all add: context_phases)
  with assms(1) None show ?thesis by (auto simp: handle_windows_mouse_move_def Let_def split: if_splits)
qed

lemma sent_write:
  assumes "send_v2_windows_input (counted A) (quic_controller_transport H) event th = (sent, th1)"
    and "thread_ok b th" and "wc_active (ct_context th) \<noteq> None"
    and "\<And>c. context_capturing b c \<Longrightarrow> context_capturing b (f c)"
  shows "thread_ok b (if sent then with_context f th1 else th1)"
proof (cases sent)
  case True
  with send_input_thread [OF assms(1,2)] thread_remote_ok [OF assms(2)] assms(3) have "remote_ok b th1" by auto
  with True capturing_write [OF this] assms(4) show ?thesis by (simp add: remote_ok_thread)
next
  case False
  with send_input_thread [OF assms(1,2)] show ?thesis by simp
qed

lemma button_thread:
  assumes "thread_ok b th"
  shows "thread_ok b (snd (handle_windows_mouse_button (counted A) (quic_controller_transport H) message data th))"
proof (cases "wc_active (ct_context th)")
  case None
  with assms show ?thesis by (simp add: handle_windows_mouse_button_def)
next
  case (Some active)
  show ?thesis
  proof (cases "button_of_message message data")
    case None
    with assms Some show ?thesis by (simp add: handle_windows_mouse_button_def)
  next
    case (Some pressed)
    obtain button down where pressed: "pressed = (button, down)" by fastforce
    obtain sent th1 where send: "send_v2_windows_input (counted A) (quic_controller_transport H) (CButton (v2_button button) down
        (round_i32 (at_x active)) (round_i32 (at_y active)) (wc_motion_sequence (ct_context th))) th = (sent, th1)" by fastforce
    have "thread_ok b (if sent then with_context (wc_button_mask_update (update_remote_button_mask button down)) th1 else th1)"
      by (rule sent_write [OF send assms]) (use \<open>wc_active _ = Some _\<close> in \<open>simp_all add: context_phases\<close>)
    with \<open>wc_active _ = Some _\<close> Some pressed send show ?thesis
      by (simp add: handle_windows_mouse_button_def Let_def)
  qed
qed

lemma scroll_thread:
  assumes "thread_ok b th"
  shows "thread_ok b (snd (handle_windows_scroll (counted A) (quic_controller_transport H) message data th))"
proof -
  have sends: "thread_ok b (snd (send_v2_windows_input (counted A) (quic_controller_transport H) event th))" for event
    using send_input_thread [OF prod.collapse [symmetric] assms] by simp
  then show ?thesis using assms by (auto simp: handle_windows_scroll_def Let_def split: option.split)
qed

lemma key_thread:
  assumes "thread_ok b th"
  shows "thread_ok b (handle_windows_key (counted A) (quic_controller_transport H) message key_code scan_code flags modifiers th)"
proof -
  have sends: "thread_ok b (let (sent, th1) = send_v2_windows_input (counted A) (quic_controller_transport H) event th
      in if sent then with_context (wc_pressed_keys_update (track_forwarded_key k down)) th1 else th1)"
    if "wc_active (ct_context th) \<noteq> None" for event k down
  proof -
    obtain sent th1 where send: "send_v2_windows_input (counted A) (quic_controller_transport H) event th = (sent, th1)" by fastforce
    have "thread_ok b (if sent then with_context (wc_pressed_keys_update (track_forwarded_key k down)) th1 else th1)"
      by (rule sent_write [OF send assms that]) (simp add: context_phases)
    with send show ?thesis by simp
  qed
  show ?thesis
    unfolding handle_windows_key_def Let_def
    using assms release_user_thread [OF assms] sends [unfolded Let_def]
    by (simp only: split: if_split option.split) blast
qed

lemma process_thread:
  assumes "process_windows_hook_event (counted A) (quic_controller_transport H) free now event th = Some th'" and "thread_ok b th"
  shows "thread_ok b th'"
proof (cases event)
  case (HookKey message key_code scan_code flags modifiers)
  with assms key_thread show ?thesis by (auto simp: process_windows_hook_event_def)
next
  case (HookMouse message x y data)
  show ?thesis
  proof (cases "handle_windows_mouse_move (counted A) (quic_controller_transport H) free now (of_int x) (of_int y) th")
    case None
    with assms HookMouse button_thread [OF assms(2)] scroll_thread [OF assms(2)] show ?thesis
      by (auto simp: process_windows_hook_event_def split: if_splits)
  next
    case (Some result)
    obtain handled th1 where "result = (handled, th1)" by fastforce
    with Some mouse_move_thread assms(2) have "thread_ok b th1" by blast
    with Some \<open>result = _\<close> assms HookMouse button_thread [OF assms(2)] scroll_thread [OF assms(2)] show ?thesis
      by (auto simp: process_windows_hook_event_def split: if_splits)
  qed
qed

lemma action_slot_ok [simp]: "thread_ok b (th\<lparr>ct_action := p\<rparr>) = thread_ok b th"
  "thread_ok b (th\<lparr>ct_deduper := d\<rparr>) = thread_ok b th" "thread_ok b (th\<lparr>ct_queue := q\<rparr>) = thread_ok b th"
  by (simp_all add: thread_ok_def)

lemma action_thread:
  assumes "thread_ok b th"
  shows "thread_ok b (drain_control_action_windows (counted A) (quic_controller_transport H) lock_free now th)"
proof -
  obtain action rest where take: "slot_take lock_free (ct_action th) = (action, rest)" by fastforce
  define th1 where "th1 = th\<lparr>ct_action := rest\<rparr>"
  have one: "thread_ok b th1" using assms by (simp add: th1_def)
  note lay = thread_layout [OF one]
  have enter: "thread_ok b (case request_selected_remote True (wa_origin (counted A)) (wc_layout (ct_context th1))
        (wc_native_layout (ct_context th1)) (wc_active (ct_context th1)) of
      SwitchEnter active \<Rightarrow> snd (begin_v2_controller_windows (counted A) (quic_controller_transport H) now active False th1)
    | _ \<Rightarrow> th1)"
    using one begin_thread [OF one] selected_on_screen [OF _ lay] by (auto split: switch_outcome.splits)
  have drain: "drain_control_action_windows (counted A) (quic_controller_transport H) lock_free now th =
     (let c = ct_context th1 in case action of
        None \<Rightarrow> th1
      | Some GoLocal \<Rightarrow> release_windows_remote_control_with_reason (counted A) (quic_controller_transport H) False User th1
      | Some EmergencyLocal \<Rightarrow>
          release_windows_remote_control_with_reason (counted A) (quic_controller_transport H) False Emergency th1
      | Some GoMac \<Rightarrow>
          if wc_remote_active c \<or> wc_pending c \<noteq> None then th1
          else (case request_selected_remote True (wa_origin (counted A)) (wc_layout c) (wc_native_layout c) (wc_active c) of
              SwitchEnter active \<Rightarrow> snd (begin_v2_controller_windows (counted A) (quic_controller_transport H) now active False th1)
            | _ \<Rightarrow> th1))"
    by (simp only: drain_control_action_windows_def take prod.case Let_def th1_def)
  show ?thesis
  proof (cases action)
    case None
    with one show ?thesis by (simp add: drain)
  next
    case (Some a)
    with one enter release_thread(1) [OF refl one] show ?thesis
      by (cases a) (simp_all only: drain Let_def option.case control_hotkey_action.case split: if_split, simp_all)
  qed
qed

lemma switch_thread:
  assumes "thread_ok b th"
  shows "thread_ok b (drain_switch_request_windows (counted A) (quic_controller_transport H) now th)"
proof (cases "wc_switch_request (ct_context th)")
  case None
  with assms show ?thesis by (simp add: drain_switch_request_windows_def)
next
  case (Some direction)
  define th1 where "th1 = with_context (wc_switch_request_update (\<lambda>_. None)) th"
  have one: "thread_ok b th1" unfolding th1_def using assms by (rule thread_write) (simp_all add: context_phases)
  note lay = thread_layout [OF one]
  have moved: "thread_ok b (move_local_pointer (counted A) from_id to_id point middle th1)" for from_id to_id point middle
  proof -
    obtain q ps where "remembered_local_screen_point (wc_screen_points (ct_context th1)) from_id to_id point middle = (q, ps)"
      by fastforce
    then have "move_local_pointer (counted A) from_id to_id point middle th1
        = with_context (\<lambda>c. set_windows_cursor (counted A) q (c\<lparr>wc_screen_points := ps\<rparr>)) th1"
      by (simp add: move_local_pointer_def with_context_def Let_def)
    moreover have "thread_ok b (with_context (\<lambda>c. set_windows_cursor (counted A) q (c\<lparr>wc_screen_points := ps\<rparr>)) th1)"
      using one by (rule thread_write) (simp_all add: context_phases set_windows_cursor_def)
    ultimately show ?thesis by simp
  qed
  have entered: "thread_ok b (case request_screen_switch_from_point True (wa_origin (counted A)) direction (wc_layout (ct_context th1))
        (wc_native_layout (ct_context th1)) (wc_active (ct_context th1)) point of
      SwitchEnter active \<Rightarrow> snd (begin_v2_controller_windows (counted A) (quic_controller_transport H) now active False th1)
    | SwitchReturn \<Rightarrow> release_windows_remote_control (counted A) (quic_controller_transport H) False th1
    | SwitchLocalMove from_id to_id x y \<Rightarrow> move_local_pointer (counted A) from_id to_id point (x, y) th1
    | SwitchNoop \<Rightarrow> th1)" for point
    using one begin_thread [OF one] switched_on_screen [OF _ lay] release_user_thread [OF one] moved
    by (auto split: switch_outcome.split)
  show ?thesis
    unfolding drain_switch_request_windows_def Some option.case th1_def [symmetric] Let_def
    using release_user_thread [OF one] entered by (simp only: split: if_split) blast
qed

lemma desktop_thread:
  assumes "thread_ok b th"
  shows "thread_ok b (desktop_check (counted A) (quic_controller_transport H) th)"
proof -
  define v where "v = fst (refresh_windows_input_desktop_cache (counted A) (ct_context th))"
  define th1 where "th1 = th\<lparr>ct_context := snd (refresh_windows_input_desktop_cache (counted A) (ct_context th))\<rparr>"
  have "th1 = with_context (wc_desktop_default_update (\<lambda>_. v)) th"
    by (simp add: th1_def v_def with_context_def refresh_windows_input_desktop_cache_def Let_def)
  moreover have "thread_ok b (with_context (wc_desktop_default_update (\<lambda>_. v)) th)"
    using assms by (rule thread_write) (simp_all add: context_phases)
  ultimately have one: "thread_ok b th1" by simp
  have "desktop_check (counted A) (quic_controller_transport H) th =
      (if v then th1 else release_windows_remote_control (counted A) (quic_controller_transport H) True th1)"
    by (simp add: desktop_check_def th1_def v_def Let_def split: prod.split)
  then show ?thesis using one release_user_thread [OF one] by simp
qed

section \<open>Hooks\<close>

lemma gate_thread:
  assumes "thread_ok b th"
  shows "thread_ok b (set_thread_gate (request_local (thread_gate th)) th)" and "thread_ok b (set_thread_gate (thread_gate th) th)"
proof -
  have "client_inv ((ct_client th)\<lparr>cc_runtime := (cc_runtime (ct_client th))\<lparr>cr_router :=
      router_emergency (cr_router (cc_runtime (ct_client th)))\<rparr>\<rparr>)"
    using assms windows_ports.emergency_linked by (simp add: thread_ok_def client_inv_def)
  with assms show "thread_ok b (set_thread_gate (request_local (thread_gate th)) th)"
    by (simp add: thread_ok_def set_thread_gate_def thread_gate_def router_emergency_def in_step_def')
  show "thread_ok b (set_thread_gate (thread_gate th) th)"
    using assms by (simp add: set_thread_gate_def thread_gate_def)
qed

lemma fail_open_thread: "thread_ok b th \<Longrightarrow> thread_ok b (fail_open lock_free th)"
  using gate_thread by (simp add: fail_open_def Let_def)

lemma dispatch_thread:
  assumes "thread_ok b th"
  shows "thread_ok b (thread_dispatch lock_free action pressed th)"
proof -
  obtain ok h where d: "dispatch_control_hotkey lock_free action pressed
      \<lparr>hot_deduper = ct_deduper th, hot_pending = ct_action th, hot_gate = thread_gate th\<rparr> = (ok, h)" by fastforce
  then have "hot_gate h \<in> {thread_gate th, request_local (thread_gate th)}"
    by (auto simp: dispatch_control_hotkey_def Let_def split: if_splits prod.splits)
  then have "thread_ok b (set_thread_gate (hot_gate h) th)" using gate_thread [OF assms] by auto
  then have "thread_ok b (set_thread_gate (hot_gate h) (th\<lparr>ct_deduper := hot_deduper h, ct_action := hot_pending h\<rparr>))"
    by (simp add: thread_ok_def set_thread_gate_def)
  with d show ?thesis by (simp add: thread_dispatch_def)
qed

lemma mouse_hook_thread:
  assumes "windows_mouse_proc context_free lock_free code message x y data th = (keep, th')" and "thread_ok b th"
  shows "thread_ok b th'"
  using assms fail_open_thread [of b]
  by (auto simp: windows_mouse_proc_def try_offer_hook_event_def Let_def split: if_splits)

lemma key_hook_thread:
  assumes "windows_keyboard_proc A context_free lock_free code message vk scan flags th = (keep, th')" and "thread_ok b th"
  shows "thread_ok b th'"
  using assms fail_open_thread [of b] dispatch_thread [of b]
  by (auto simp: windows_keyboard_proc_def try_offer_hook_event_def Let_def split: if_splits option.splits)

section \<open>Every run of the thread\<close>

text \<open>
  One step: a handler of the loop, a hook, or a write of another thread. \<open>ext_layout\<close> asks the layouts the
  application stores to have screens of positive size within 32 bits; \<open>ext_stop\<close> and \<open>ext_inactive\<close> are the
  writes of \<open>stop_input\<close>, which clears \<open>remote_active\<close> after it has signalled the end; \<open>ext_system\<close> is
  anything the system does to its own state, except to count this process's calls. Writes of other threads
  fall between the handlers, except the requests for local control, which may come at any call of the ports.
\<close>

inductive capture_step ::
  "'w windows_api \<Rightarrow> ('h, 'k, 'i, 'm) transport_handle
     \<Rightarrow> (('h, 'k, 'i, 'm) quic_transport, 'w \<times> int) capture_thread
     \<Rightarrow> (('h, 'k, 'i, 'm) quic_transport, 'w \<times> int) capture_thread \<Rightarrow> bool" for A H where
  cap_action: "capture_step A H th (drain_control_action_windows (counted A) (quic_controller_transport H) lock_free now th)"
| cap_event: "\<lbrakk>ct_queue th = event # events;
     process_windows_hook_event (counted A) (quic_controller_transport H) free now event (th\<lparr>ct_queue := events\<rparr>) = Some th'\<rbrakk>
     \<Longrightarrow> capture_step A H th th'"
| cap_desktop: "capture_step A H th (desktop_check (counted A) (quic_controller_transport H) th)"
| cap_switch: "capture_step A H th (drain_switch_request_windows (counted A) (quic_controller_transport H) now th)"
| cap_poll: "capture_step A H th (drain_v2_controller_windows (counted A) (quic_controller_transport H) fills now th)"
| cap_mouse: "windows_mouse_proc context_free lock_free code message x y data th = (keep, th') \<Longrightarrow> capture_step A H th th'"
| cap_key: "windows_keyboard_proc (counted A) context_free lock_free code message vk scan flags th = (keep, th')
     \<Longrightarrow> capture_step A H th th'"
| ext_hotkey: "capture_step A H th (thread_dispatch lock_free action pressed th)"
| ext_local: "capture_step A H th (set_thread_gate (request_local (thread_gate th)) th)"
| ext_frame: "capture_step A H th (th\<lparr>ct_client := inbox_offer frame (ct_client th)\<rparr>)"
| ext_transport: "capture_step A H th (th\<lparr>ct_client := (ct_client th)\<lparr>cc_transport := t\<rparr>\<rparr>)"
| ext_layout: "layout_placed layout \<Longrightarrow> capture_step A H th (with_context (wc_layout_update (\<lambda>_. layout)) th)"
| ext_stop: "capture_step A H th (with_context (wc_stop_update (\<lambda>_. True)) th)"
| ext_inactive: "wc_stop (ct_context th) \<Longrightarrow> capture_step A H th (with_context (wc_remote_active_update (\<lambda>_. False)) th)"
| ext_cells: "capture_step A H th (with_context (wc_cells_update (\<lambda>_. cells)) th)"
| ext_switch: "capture_step A H th (with_context (wc_switch_request_update (\<lambda>_. request)) th)"
| ext_clipboard: "capture_step A H th (with_context (wc_clipboard_target_update (\<lambda>_. target)) th)"
| ext_system: "capture_step A H th (with_context (wc_os_update (\<lambda>os. (w, snd os))) th)"

inductive capture_reach for A H th0 where
  cap_start: "capture_reach A H th0 th0"
| cap_next: "\<lbrakk>capture_reach A H th0 th; capture_step A H th th'\<rbrakk> \<Longrightarrow> capture_reach A H th0 th'"

lemma step_thread: "capture_step A H th th' \<Longrightarrow> thread_ok b th \<Longrightarrow> thread_ok b th'"
proof (induction rule: capture_step.induct)
  case (cap_event th event events free now th')
  from cap_event(2) show ?case by (rule process_thread) (simp add: cap_event(3))
next
  case (ext_frame th frame)
  have "in_step b (inbox_offer frame (ct_client th)) (ct_context th) = in_step b (ct_client th) (ct_context th)"
    by (rule in_step_same) (simp add: inbox_offer_def)
  with ext_frame show ?case by (simp add: thread_ok_def win_client.offer_inv)
next
  case (ext_transport th t)
  then show ?case by (simp add: thread_ok_def client_inv_def in_step_def')
next
  case (ext_layout layout th)
  from ext_layout(2) show ?case by (rule thread_write) (use ext_layout(1) in \<open>simp_all add: context_phases\<close>)
next
  case (ext_stop th)
  then show ?case by (rule thread_write) (simp_all add: context_phases)
next
  case (ext_inactive th)
  from ext_inactive(2) show ?case by (rule thread_write) (use ext_inactive(1) in \<open>simp_all add: context_phases\<close>)
next
  case (ext_cells th cells)
  then show ?case by (rule thread_write) (simp_all add: context_phases)
next
  case (ext_switch th request)
  then show ?case by (rule thread_write) (simp_all add: context_phases)
next
  case (ext_clipboard th target)
  then show ?case by (rule thread_write) (simp_all add: context_phases)
next
  case (ext_system th w)
  then show ?case by (rule thread_write) (simp_all add: context_phases)
qed (blast intro: action_thread desktop_thread switch_thread drain_v2_thread mouse_hook_thread key_hook_thread
    dispatch_thread gate_thread)+

lemma started_client:
  assumes "client_new transport boot peer g = Inr cl" and "is_local g"
  shows "client_inv (client_set_game_mode game cl)"
    and "is_local_state (rt_state (cr_router (cc_runtime (client_set_game_mode game cl))))"
proof -
  have router: "cr_router (cc_runtime cl) = router_with_gate g"
    using assms(1) by (auto simp: client_new_def controller_runtime_new_def split: sum.splits if_splits)
  have "runtime_linked (cc_runtime cl)"
    using assms by (auto simp: client_new_def controller_runtime_new_def controller_new_def runtime_linked_def
        handshake_over_def router_with_gate_def router_inv_def split: if_splits)
  then have "client_inv cl" using assms(1) by (auto simp: client_new_def client_inv_def split: sum.splits)
  then show "client_inv (client_set_game_mode game cl)"
    using windows_ports.game_mode_linked by (simp add: client_inv_def client_set_game_mode_def)
  show "is_local_state (rt_state (cr_router (cc_runtime (client_set_game_mode game cl))))"
    by (simp add: router client_set_game_mode_def runtime_set_game_mode_def set_game_mode_def router_with_gate_def
        local_state_def Let_def)
qed

lemma started_thread:
  assumes "start_v2_controller_runtime transport boot peer g deduper action
      (new_capture_context (counted A) (w, b) layout native_layout cells events request focus_window) = Inr th"
    and "layout_placed layout"
  shows "thread_ok b th"
proof -
  let ?c = "new_capture_context (counted A) (w, b) layout native_layout cells events request focus_window"
  obtain cl where new: "client_new transport boot peer (request_local g) = Inr cl"
    and th: "ct_client th = client_set_game_mode (local_game_mode_enabled cells) cl" "ct_context th = ?c"
    using assms(1) by (auto simp: start_v2_controller_runtime_def start_platform_capture_def new_capture_context_def split: sum.splits)
  note started = started_client [OF new, of "local_game_mode_enabled cells"]
  have "context_idle b ?c" using assms(2) by (simp add: new_capture_context_def context_phases)
  with started th show ?thesis
    by (cases "rt_state (cr_router (cc_runtime (ct_client th)))") (auto simp: thread_ok_def in_step_def')
qed

lemma reached_thread:
  assumes "capture_reach A H th0 th" and "start_v2_controller_runtime transport boot peer g deduper action
      (new_capture_context (counted A) (w, b) layout native_layout cells events request focus_window) = Inr th0"
    and "layout_placed layout"
  shows "thread_ok b th"
  using assms(1) by (induction rule: capture_reach.induct) (auto intro: started_thread [OF assms(2,3)] step_thread)

text \<open>Stopping the input is such a sequence of writes.\<close>

lemma stop_input_reached:
  assumes "capture_reach A H th0 th"
  shows "capture_reach A H th0 (stop_input th)"
proof -
  define th1 where "th1 = set_thread_gate (request_local (thread_gate th)) th"
  define th2 where "th2 = with_context (wc_cells_update (\<lambda>_. set_focus_fault None (wc_cells (ct_context th1)))) th1"
  define th3 where "th3 = with_context (wc_stop_update (\<lambda>_. True)) th2"
  define th4 where "th4 = with_context (wc_remote_active_update (\<lambda>_. False)) th3"
  define th5 where "th5 = with_context (wc_clipboard_target_update (\<lambda>_. None)) th4"
  have "capture_reach A H th0 th1" unfolding th1_def by (rule cap_next [OF assms ext_local])
  then have "capture_reach A H th0 th2" unfolding th2_def by (rule cap_next [OF _ ext_cells])
  then have "capture_reach A H th0 th3" unfolding th3_def by (rule cap_next [OF _ ext_stop])
  then have "capture_reach A H th0 th4" unfolding th4_def
    by (rule cap_next [OF _ ext_inactive]) (simp add: th3_def with_context_def)
  then have "capture_reach A H th0 th5" unfolding th5_def by (rule cap_next [OF _ ext_clipboard])
  moreover have "stop_input th = th5"
    by (simp add: stop_input_def th1_def th2_def th3_def th4_def th5_def with_context_def clear_clipboard_target_def)
  ultimately show ?thesis by simp
qed

section \<open>A concrete run\<close>

text \<open>
  A system whose calls all succeed, and a receiver to the right that the user selects: the action of the hotkey
  prepares the hand-over.
\<close>

definition demo_windows :: "unit windows_api" where
  "demo_windows = \<lparr>wa_show_cursor = (\<lambda>show w. (if show then 0 else - 1, w)), wa_set_cursor_pos = (\<lambda>_ _ w. w),
     wa_cursor_pos = (\<lambda>_. Some (960, 540)), wa_foreground = (\<lambda>_. 1), wa_set_foreground = (\<lambda>_ w. (True, w)),
     wa_is_window = (\<lambda>_ _. True), wa_key_down = (\<lambda>_ _. False), wa_input_desktop = (\<lambda>_. Some ''Default''),
     wa_requests = (\<lambda>_. 0), wa_origin = ''pc'', wa_scale_bits = (\<lambda>_. 0)\<rparr>"

definition demo_open_handle :: "(unit, unit, unit, unit) transport_handle" where
  "demo_open_handle = demo_handle\<lparr>th_control_send := (\<lambda>_ _ h. (Inr (), h))\<rparr>"

definition demo_switch_layout :: layout_state where
  "demo_switch_layout = demo_edge_layout\<lparr>ly_active_device_id := ''mac''\<rparr>"

definition demo_selected :: active_target where
  "demo_selected = \<lparr>at_target = demo_edge_target, at_current_screen = demo_screen ''r'' 1920,
     at_current_screen_id = ''r'', at_x = 960, at_y = 540, at_invert_y = False\<rparr>"

lemma demo_select: "request_selected_remote True ''pc'' demo_switch_layout demo_switch_layout None = SwitchEnter demo_selected"
  by code_simp


definition demo_capture_client :: "(unit, unit, unit, unit) quic_transport controller_client" where
  "demo_capture_client = demo_client\<lparr>cc_runtime := demo_runtime\<lparr>cr_router := router_with_gate 3\<rparr>\<rparr>"

definition demo_context :: "(unit \<times> int) capture_context" where
  "demo_context = new_capture_context (counted demo_windows) ((), 0) demo_switch_layout demo_switch_layout
       \<lparr>gm_local_game_mode = False, gm_focus_fault = None, gm_fault_poisoned = False\<rparr> 0 None 1"

definition demo_thread :: "((unit, unit, unit, unit) quic_transport, unit \<times> int) capture_thread" where
  "demo_thread = \<lparr>ct_client = demo_capture_client, ct_context = demo_context, ct_deduper = 0, ct_action = Some GoMac,
     ct_bindings = control_hotkey_bindings (ly_control_hotkeys demo_switch_layout), ct_queue = []\<rparr>"

lemma demo_thread_started:
  "start_v2_controller_runtime (quic_transport_new ()) (demo_boot 1) demo_peer_id 1 0 (Some GoMac) demo_context = Inr demo_thread"
proof -
  have gate: "request_local 1 = 3" by (simp add: request_local_def saturating_add_def)
  show ?thesis
    by (simp add: start_v2_controller_runtime_def start_platform_capture_def gate client_new_def controller_runtime_new_def controller_new_def
      demo_controller_def protocol_limits demo_thread_def demo_capture_client_def demo_client_def demo_runtime_def
      client_set_game_mode_def runtime_set_game_mode_def set_game_mode_def router_with_gate_def local_state_def
      local_game_mode_enabled_def demo_context_def new_capture_context_def)
qed


text \<open>A context in which the capture can be prepared.\<close>

definition demo_preparable :: "pending_windows_target \<Rightarrow> (unit \<times> int) capture_context \<Rightarrow> bool" where
  "demo_preparable p c \<longleftrightarrow> wc_desktop_default c \<and> wc_candidate c = Some p \<and> wc_pending c = None \<and> wc_active c = None
     \<and> \<not> wc_active_held c"

lemma demo_capture_prepare:
  "demo_preparable p c \<Longrightarrow> prepare_capture (windows_capture_port (counted demo_windows)) c gate
    = (Inr (), c\<lparr>wc_candidate := None, wc_pending := Some p\<rparr>, gate)"
  by (simp add: demo_preparable_def windows_capture_port_def windows_prepare_capture_def lock_active_def counted_def
      demo_windows_def race_def)


definition demo_revision :: u64 where "demo_revision = display_layout_revision ''r'' 1920 1080 0"
lemma demo_revision_valid: "demo_revision \<noteq> 0" by code_simp
lemma demo_ids_not_blank: "\<not> is_blank ''r''" "\<not> is_blank ''mac''" by code_simp+

definition demo_preparation :: preparing where
  "demo_preparation = \<lparr>pr_peer = ''mac'', pr_request = 5, pr_deadline_ms = 2500, pr_keys_deadline_ms = 1500,
     pr_keys_released_seen = False, pr_session = None, pr_commit_sent = False\<rparr>"

definition demo_runtime_begun :: controller_runtime where
  "demo_runtime_begun = demo_runtime\<lparr>cr_router := (router_with_gate 5)\<lparr>rt_state := PreparingRemote demo_preparation\<rparr>,
     cr_handshake := demo_controller (CAwaitReady 5 ''r'' demo_revision), cr_display := Some (''r'', demo_revision)\<rparr>"

lemma demo_windows_remote:
  "demo_preparable p c \<Longrightarrow> begin_remote (windows_capture_port (counted demo_windows)) ''mac'' ''r'' demo_revision 0
      (demo_runtime\<lparr>cr_router := router_with_gate 3\<rparr>) c
    = (Inr [SendControl (Hello (demo_boot 1) demo_peer_id RoleController REQUIRED_CAPABILITIES),
        SendControl (Prepare 5 ''r'' demo_revision)], demo_runtime_begun,
       c\<lparr>wc_candidate := None, wc_pending := Some p\<rparr>)"
proof -
  assume c: "demo_preparable p c"
  have valid: "validate_frame (Prepare 5 ''r'' demo_revision) = Inr ()"
    using demo_revision_valid demo_ids_not_blank by (simp add: protocol_limits)
  then have start: "controller_begin 5 ''r'' demo_revision (demo_controller CIdle)
      = (Inr [Hello (demo_boot 1) demo_peer_id RoleController REQUIRED_CAPABILITIES, Prepare 5 ''r'' demo_revision],
         demo_controller (CAwaitReady 5 ''r'' demo_revision))"
    by (simp add: controller_begin_def demo_controller_def Let_def del: validate_frame.simps)
  have reserve: "gate_reserve 3 = (Inr 5, 5)" by (simp add: gate_reserve_def checked_add_def)
  show ?thesis
    by (simp add: begin_remote_def go_remote_def demo_runtime_def router_with_gate_def demo_capture_prepare [OF c] reserve demo_ids_not_blank
        checked_add_def HANDOFF_TIMEOUT_MS_def KEYS_RELEASE_TIMEOUT_MS_def still_preparing_def start
        demo_runtime_begun_def demo_preparation_def)
qed


lemma demo_desktop: "wc_desktop_default demo_context"
  unfolding demo_context_def new_capture_context_def counted_def demo_windows_def windows_input_desktop_is_default_def
  by code_simp

lemma demo_action:
  fixes th1
  defines "th1 \<equiv> drain_control_action_windows (counted demo_windows) (quic_controller_transport demo_open_handle) True 0 demo_thread"
  shows "rt_state (cr_router (cc_runtime (ct_client th1))) = PreparingRemote demo_preparation"
    and "wc_pending (ct_context th1) = Some \<lparr>pw_active = demo_selected, pw_crossed_edge = False\<rparr>"
    and "ct_action th1 = None" and "ct_deduper th1 = 0"
proof -
  have idle: "wc_pending demo_context = None" "\<not> wc_remote_active demo_context" "wc_active demo_context = None"
     "wc_layout demo_context = demo_switch_layout" "wc_native_layout demo_context = demo_switch_layout"
     "wc_candidate demo_context = None"
    by (simp_all add: demo_context_def new_capture_context_def)
  have A: "wa_origin (counted demo_windows) = ''pc''" "wa_scale_bits (counted demo_windows) s = 0" for s
    by (simp_all add: counted_def demo_windows_def)
  have drained: "th1 = snd (begin_v2_controller_windows (counted demo_windows) (quic_controller_transport demo_open_handle) 0
      demo_selected False (demo_thread\<lparr>ct_action := None\<rparr>))"
    by (simp add: th1_def drain_control_action_windows_def demo_thread_def idle slot_take_def A demo_select Let_def)
  have target: "it_device_id (at_target demo_selected) = ''mac''" "at_current_screen_id demo_selected = ''r''"
    "display_layout_revision (sc_id (at_current_screen demo_selected)) (sc_width (at_current_screen demo_selected))
      (sc_height (at_current_screen demo_selected)) 0 = demo_revision"
    by (simp_all add: demo_selected_def demo_edge_target_def demo_screen_def demo_revision_def)
  have free: "can_begin (demo_runtime\<lparr>cr_router := router_with_gate 3\<rparr>)" "\<not> is_active demo_runtime_begun"
    by (simp_all add: can_begin_def demo_runtime_def router_with_gate_def demo_runtime_begun_def is_active_def active_session_def
        demo_controller_def)
  define c where "c = (set_capture_fault None demo_context)\<lparr>wc_candidate := Some \<lparr>pw_active = demo_selected, pw_crossed_edge = False\<rparr>\<rparr>"
  have ready: "demo_preparable \<lparr>pw_active = demo_selected, pw_crossed_edge = False\<rparr> c"
    by (simp add: demo_preparable_def c_def set_capture_fault_def demo_desktop idle)
       (simp add: demo_context_def new_capture_context_def)
  have client: "\<exists>q. client_begin (windows_capture_port (counted demo_windows)) (quic_controller_transport demo_open_handle)
      \<lparr>tg_peer_id = ''mac'', tg_addr = it_target_addr (at_target demo_selected),
        tg_protocol_version = it_protocol_version (at_target demo_selected), tg_target_display = ''r'',
        tg_layout_revision = demo_revision\<rparr> 0 demo_capture_client c
    = (Inr (), demo_capture_client\<lparr>cc_runtime := demo_runtime_begun, cc_transport := q\<rparr>,
       c\<lparr>wc_candidate := None, wc_pending := Some \<lparr>pw_active = demo_selected, pw_crossed_edge = False\<rparr>\<rparr>)"
    by (simp add: client_begin_def demo_capture_client_def demo_client_def clear_inbound_def free demo_windows_remote [OF ready]
      quic_controller_transport_def quic_connect_def quic_disconnect_def quic_transport_new_def demo_open_handle_def demo_handle_def
      quic_send_control_def on_handle_def poll_ping_def Let_def)
  then obtain q where client: "client_begin (windows_capture_port (counted demo_windows)) (quic_controller_transport demo_open_handle)
      \<lparr>tg_peer_id = ''mac'', tg_addr = it_target_addr (at_target demo_selected),
        tg_protocol_version = it_protocol_version (at_target demo_selected), tg_target_display = ''r'',
        tg_layout_revision = demo_revision\<rparr> 0 demo_capture_client c
    = (Inr (), demo_capture_client\<lparr>cc_runtime := demo_runtime_begun, cc_transport := q\<rparr>,
       c\<lparr>wc_candidate := None, wc_pending := Some \<lparr>pw_active = demo_selected, pw_crossed_edge = False\<rparr>\<rparr>)" by blast
  have cold: "wc_pending (set_capture_fault None demo_context) = None" "\<not> wc_remote_active (set_capture_fault None demo_context)"
    by (simp_all add: set_capture_fault_def idle)
  show "rt_state (cr_router (cc_runtime (ct_client th1))) = PreparingRemote demo_preparation"
    and "wc_pending (ct_context th1) = Some \<lparr>pw_active = demo_selected, pw_crossed_edge = False\<rparr>"
    and "ct_action th1 = None" and "ct_deduper th1 = 0"
    by (simp_all add: drained begin_v2_controller_windows_def demo_thread_def with_context_def cold A target
      c_def [symmetric] client Let_def) (simp_all add: demo_runtime_begun_def)
qed

section \<open>The properties\<close>

lemma idle_thread:
  assumes "thread_ok b th" and "can_begin (cc_runtime (ct_client th))"
  shows "context_idle b (ct_context th)"
  using assms in_step_local by (auto simp: thread_ok_def can_begin_def)

text \<open>The same thread with the cell handed to a peer, and without hotkeys.\<close>

definition demo_remote_thread :: "((unit, unit, unit, unit) quic_transport, unit \<times> int) capture_thread" where
  "demo_remote_thread = set_thread_gate 2 (demo_thread\<lparr>ct_bindings := [None]\<rparr>)"

lemma demo_remote: "\<not> is_local (thread_gate demo_remote_thread)" "ct_queue demo_remote_thread = []"
  "\<not> local_game_mode_enabled (wc_cells (ct_context demo_remote_thread))" "wc_desktop_default (ct_context demo_remote_thread)"
  using demo_desktop
  by (simp_all add: demo_remote_thread_def set_thread_gate_def thread_gate_def demo_thread_def is_local_def
      local_game_mode_enabled_def demo_context_def new_capture_context_def)

text \<open>C15. Whatever the hooks, the handlers and the other threads do in whatever order, on layouts whose screens have
  1 to 100000 pixels each way within a billion pixels of the origin, the context of the capture follows the router. It captures only while a peer is in
  control, and, until the application stops the input, whenever one is; a target is pending exactly while one is
  prepared; the pointer was hidden as often as \<open>wc_hide_calls\<close> says, and not at all unless a peer is in
  control; in local control no button, key, anchor or window is remembered; the position on the peer is on its
  screen.\<close>

theorem windows_tracks_router:
  assumes "start_v2_controller_runtime transport boot peer g deduper action
      (new_capture_context (counted A) (w, b) layout native_layout cells events request focus_window) = Inr th0"
    and "layout_placed layout" and "capture_reach A H th0 th"
    and "remote \<longleftrightarrow> (\<exists>p session. rt_state (cr_router (cc_runtime (ct_client th))) = RemoteActive p session)"
  shows "snd (wc_os (ct_context th)) + int (wc_hide_calls (ct_context th)) = b
    \<and> (wc_remote_active (ct_context th) \<or> wc_active (ct_context th) \<noteq> None \<or> wc_hide_calls (ct_context th) \<noteq> 0 \<longrightarrow> remote)
    \<and> (remote \<and> \<not> wc_stop (ct_context th) \<longrightarrow> wc_remote_active (ct_context th))
    \<and> (wc_remote_active (ct_context th) \<longrightarrow> wc_active (ct_context th) \<noteq> None)
    \<and> (wc_pending (ct_context th) \<noteq> None \<longleftrightarrow>
         (\<exists>p. rt_state (cr_router (cc_runtime (ct_client th))) = PreparingRemote p))
    \<and> (remote \<or> wc_pending (ct_context th) \<noteq> None
       \<or> wc_button_mask (ct_context th) = 0 \<and> wc_pressed_keys (ct_context th) = [] \<and> wc_anchor (ct_context th) = None
         \<and> wc_previous_foreground (ct_context th) = 0)
    \<and> pred_option on_screen (wc_active (ct_context th))"
proof -
  have "in_step b (ct_client th) (ct_context th)" using reached_thread [OF assms(3,1,2)] by (simp add: thread_ok_def)
  then show ?thesis
  proof (cases rule: in_step_cases)
    case idle
    then show ?thesis
      by (cases "rt_state (cr_router (cc_runtime (ct_client th)))") (simp_all add: assms(4) context_phases)
  next
    case preparing
    then show ?thesis by (simp add: assms(4) context_phases)
  next
    case remote
    then show ?thesis by (simp add: assms(4) context_phases split: if_splits)
  qed
qed

lemma demo_layout_placed: "layout_placed demo_switch_layout"
  by (simp add: layout_placed_def demo_switch_layout_def demo_edge_layout_def demo_device_def)

lemma windows_tracks_router_witness:
  "\<exists>th. capture_reach demo_windows demo_open_handle demo_thread th \<and> wc_pending (ct_context th) \<noteq> None
     \<and> wc_hide_calls (ct_context th) = 0 \<and> snd (wc_os (ct_context th)) = 0"
proof -
  let ?th = "drain_control_action_windows (counted demo_windows) (quic_controller_transport demo_open_handle) True 0 demo_thread"
  have reach: "capture_reach demo_windows demo_open_handle demo_thread ?th" by (rule cap_next [OF cap_start cap_action])
  from windows_tracks_router [OF demo_thread_started [unfolded demo_context_def] demo_layout_placed reach refl] demo_action
  have "wc_hide_calls (ct_context ?th) = 0" "snd (wc_os (ct_context ?th)) = 0" "wc_pending (ct_context ?th) \<noteq> None" by auto
  with reach show ?thesis by blast
qed

text \<open>C16. The user always gets the machine back: in every run on layouts whose screens have 1 to 100000 pixels each
  way within a billion pixels of the origin, a pending action to return, taken by the loop, leaves
  the router and the cell of the override local, nothing captured and the pointer shown as often as it was
  hidden, whatever the connection or the peer do.\<close>

theorem return_action_goes_local:
  assumes "start_v2_controller_runtime transport boot peer g deduper action
      (new_capture_context (counted A) (w, b) layout native_layout cells events request focus_window) = Inr th0"
    and "layout_placed layout" and "capture_reach A H th0 th"
    and "ct_action th = Some GoLocal \<or> ct_action th = Some EmergencyLocal"
    and "th' = drain_control_action_windows (counted A) (quic_controller_transport H) True now th"
  shows "can_begin (cc_runtime (ct_client th')) \<and> is_local (thread_gate th') \<and> \<not> wc_remote_active (ct_context th')
    \<and> wc_active (ct_context th') = None \<and> wc_pending (ct_context th') = None \<and> snd (wc_os (ct_context th')) = b"
proof -
  have ok: "thread_ok b (th\<lparr>ct_action := None\<rparr>)" using reached_thread [OF assms(3,1,2)] by simp
  have "\<exists>reason. th' = release_windows_remote_control_with_reason (counted A) (quic_controller_transport H) False reason
      (th\<lparr>ct_action := None\<rparr>)"
    using assms(4) by (auto simp: assms(5) drain_control_action_windows_def slot_take_def)
  then obtain reason where "release_windows_remote_control_with_reason (counted A) (quic_controller_transport H) False reason
      (th\<lparr>ct_action := None\<rparr>) = th'" by metis
  note R = release_thread [OF this ok]
  from idle_thread [OF R(1,2)] R(2,3) show ?thesis by (simp add: context_phases)
qed

lemma return_action_goes_local_witness:
  "wc_pending (ct_context (drain_control_action_windows (counted demo_windows) (quic_controller_transport demo_open_handle) True 1
     (thread_dispatch True GoLocal True
       (drain_control_action_windows (counted demo_windows) (quic_controller_transport demo_open_handle) True 0 demo_thread)))) = None"
proof -
  let ?th = "drain_control_action_windows (counted demo_windows) (quic_controller_transport demo_open_handle) True 0 demo_thread"
  let ?pressed = "thread_dispatch True GoLocal True ?th"
  have taken: "ct_action ?th = None" and fresh: "ct_deduper ?th = 0"
    using demo_action(3,4) by simp_all
  have "ct_action ?pressed = Some GoLocal"
    by (simp add: thread_dispatch_def dispatch_control_hotkey_def deduper_press_def slot_offer_def set_thread_gate_def taken fresh)
  moreover have "capture_reach demo_windows demo_open_handle demo_thread ?pressed"
    by (rule cap_next [OF cap_next [OF cap_start cap_action] ext_hotkey])
  ultimately show ?thesis
    using return_action_goes_local [OF demo_thread_started [unfolded demo_context_def] demo_layout_placed, of demo_open_handle ?pressed] by simp
qed

text \<open>C37. Stopping the capture gives everything back: in every run on layouts whose screens have 1 to 100000 pixels
  each way within a billion pixels of the origin, whether the application asked for the end or not and whatever the handlers did since it cleared the
  state of remote control, the thread that ends leaves the router local, the pointer shown as often as it was
  hidden, no window, button or key remembered, and no peer to share the clipboard with.\<close>

theorem stop_gives_back:
  assumes "start_v2_controller_runtime transport boot peer g deduper action
      (new_capture_context (counted A) (w, b) layout native_layout cells events request focus_window) = Inr th0"
    and "layout_placed layout" and "capture_reach A H th0 th"
    and "th' = stop_capture_thread (counted A) (quic_controller_transport H) th"
  shows "can_begin (cc_runtime (ct_client th')) \<and> is_local (thread_gate th') \<and> wc_clipboard_target (ct_context th') = None
    \<and> \<not> wc_remote_active (ct_context th') \<and> wc_active (ct_context th') = None \<and> wc_pressed_keys (ct_context th') = []
    \<and> wc_button_mask (ct_context th') = 0 \<and> wc_previous_foreground (ct_context th') = 0 \<and> snd (wc_os (ct_context th')) = b"
proof -
  define th1 where "th1 = release_windows_remote_control (counted A) (quic_controller_transport H) True th"
  have "release_windows_remote_control_with_reason (counted A) (quic_controller_transport H) True User th = th1"
    by (simp add: th1_def release_windows_remote_control_def)
  note R = release_thread [OF this reached_thread [OF assms(3,1,2)]]
  from idle_thread [OF R(1,2)] R(2,3) show ?thesis
    by (simp add: assms(4) stop_capture_thread_def th1_def [symmetric] with_context_def clear_clipboard_target_def
        thread_gate_def context_phases)
qed

lemma stop_gives_back_witness:
  "wc_pending (ct_context (stop_input (drain_control_action_windows (counted demo_windows) (quic_controller_transport demo_open_handle)
      True 0 demo_thread))) \<noteq> None
   \<and> can_begin (cc_runtime (ct_client (stop_capture_thread (counted demo_windows) (quic_controller_transport demo_open_handle)
     (stop_input (drain_control_action_windows (counted demo_windows) (quic_controller_transport demo_open_handle) True 0 demo_thread)))))"
proof -
  have "wc_pending (ct_context (stop_input th)) = wc_pending (ct_context th)"
    for th :: "((unit, unit, unit, unit) quic_transport, unit \<times> int) capture_thread"
    by (simp add: stop_input_def with_context_def clear_clipboard_target_def set_thread_gate_def)
  with demo_action(2) stop_gives_back [OF demo_thread_started [unfolded demo_context_def] demo_layout_placed
      stop_input_reached [OF cap_next [OF cap_start cap_action]] refl] show ?thesis by simp
qed

lemma fail_open_parts [simp]:
  "is_local (thread_gate (fail_open free th))" "ct_queue (fail_open free th) = ct_queue th"
  by (simp_all add: fail_open_def set_thread_gate_def thread_gate_def Let_def)

lemma queue_gate [simp]: "thread_gate (th\<lparr>ct_queue := q\<rparr>) = thread_gate th"
  by (simp add: thread_gate_def)

text \<open>C17. The mouse hook keeps an event from the system only for a peer in control: then the game mode is off, the cell
  is remote and the event is the last of the queue. An event it lets through leaves the cell local, unless the
  hook was told not to look at it. The queue never grows past its bound.\<close>

theorem mouse_hook_keeps_only_remote_input:
  assumes "windows_mouse_proc context_free lock_free code message x y data th = (keep, th')"
  shows "(keep \<longrightarrow> \<not> local_game_mode_enabled (wc_cells (ct_context th)) \<and> \<not> is_local (thread_gate th)
      \<and> ct_queue th' = ct_queue th @ [HookMouse message x y data])
    \<and> (\<not> keep \<longrightarrow> local_game_mode_enabled (wc_cells (ct_context th)) \<or> code < 0 \<or> \<not> context_free \<or> is_local (thread_gate th'))
    \<and> length (ct_queue th') \<le> max (length (ct_queue th)) HOOK_QUEUE_EVENTS"
  using assms by (auto simp: windows_mouse_proc_def try_offer_hook_event_def Let_def split: if_splits)

lemma mouse_hook_keeps_only_remote_input_witness:
  "ct_queue (snd (windows_mouse_proc True True 0 WM_LBUTTONDOWN 5 5 0 demo_remote_thread)) = [HookMouse WM_LBUTTONDOWN 5 5 0]"
proof -
  obtain keep th' where run: "windows_mouse_proc True True 0 WM_LBUTTONDOWN 5 5 0 demo_remote_thread = (keep, th')" by fastforce
  have "keep" using run demo_remote by (auto simp: windows_mouse_proc_def try_offer_hook_event_def HOOK_QUEUE_EVENTS_def)
  with mouse_hook_keeps_only_remote_input [OF run] run demo_remote show ?thesis by simp
qed

text \<open>C18. The keyboard hook keeps a key from the system only when it is a control hotkey, which it dispatches, or when
  a peer is in control and the key is the last of the queue, and never in game mode. A key it lets through
  leaves the cell local, unless the hook was told not to look at it or the message is none of a key.\<close>

theorem key_hook_keeps_only_remote_input:
  assumes "windows_keyboard_proc A context_free lock_free code message vk scan flags th = (keep, th')"
    and "modifiers = windows_current_hotkey_modifiers A (wc_os (ct_context th))"
    and "down \<longleftrightarrow> message = WM_KEYDOWN \<or> message = WM_SYSKEYDOWN"
  shows "(keep \<longrightarrow> \<not> local_game_mode_enabled (wc_cells (ct_context th))
      \<and> ((\<exists>action. hook_control_action (ct_bindings th) (ucast vk) modifiers down = Some action
            \<and> th' = thread_dispatch lock_free action down th)
         \<or> \<not> is_local (thread_gate th) \<and> ct_queue th' = ct_queue th @ [HookKey message vk scan flags modifiers]))
    \<and> (\<not> keep \<longrightarrow> local_game_mode_enabled (wc_cells (ct_context th)) \<or> code < 0 \<or> \<not> context_free
         \<or> message \<notin> {WM_KEYDOWN, WM_SYSKEYDOWN, WM_KEYUP, WM_SYSKEYUP} \<or> is_local (thread_gate th'))"
  using assms by (auto simp: windows_keyboard_proc_def try_offer_hook_event_def Let_def split: if_splits option.splits)

lemma key_hook_keeps_only_remote_input_witness:
  "ct_queue (snd (windows_keyboard_proc (counted demo_windows) True True 0 WM_KEYDOWN 0x41 30 0 demo_remote_thread))
     = [HookKey WM_KEYDOWN 0x41 30 0 no_modifiers]"
proof -
  obtain keep th' where run: "windows_keyboard_proc (counted demo_windows) True True 0 WM_KEYDOWN 0x41 30 0 demo_remote_thread
      = (keep, th')" by fastforce
  have free: "windows_current_hotkey_modifiers (counted demo_windows) w = no_modifiers" for w
    by (simp add: windows_current_hotkey_modifiers_def counted_def demo_windows_def no_modifiers_def split: prod.split)
  have none: "hook_control_action (ct_bindings demo_remote_thread) k m d = None" for k m d
    by (simp add: demo_remote_thread_def set_thread_gate_def hook_control_action_def)
  have "keep" using run demo_remote
    by (auto simp: windows_keyboard_proc_def try_offer_hook_event_def HOOK_QUEUE_EVENTS_def none)
  with key_hook_keeps_only_remote_input [OF run refl refl] run demo_remote show ?thesis by (simp add: none free)
qed

end
