(* ===== verification/Windows_Faults.thy ===== *)
theory Windows_Faults
  imports Windows_Rules Hotkey_Rules
begin

text \<open>
  Three faults of the capture of Windows. The handler of a local movement holds the lock of \<open>active\<close> while it
  begins a hand-over, and every path of the begin asks for it again: preparing the capture reads \<open>active\<close>,
  and restoring it, after any failure, clears it. So the handler never returns from an edge crossing, and the
  hand-over by the edge of the screen, unlike that by hotkey, does not work. And the hook takes the release
  of F10 for that of the emergency hotkey, so with the default hotkeys the return hotkey works once.
  And a wheel turn of less than a notch counts as none, an event that the encoder refuses: the client takes
  the refusal for a failure of the transport and ends the remote control.
\<close>

section \<open>Where the lock is taken\<close>

definition held :: "'w capture_context \<Rightarrow> bool" where
  "held c \<longleftrightarrow> wc_active_held c"

definition held_twice :: "'w capture_context \<Rightarrow> bool" where
  "held_twice c \<longleftrightarrow> wc_active_held c \<and> wc_stuck c"

lemma restore_twice: "held c \<Longrightarrow> held_twice (restore_windows_capture_state A clear c)"
  by (simp add: held_def held_twice_def restore_windows_capture_state_def lock_active_def show_windows_cursor_if_needed_def
      restore_windows_foreground_def clear_clipboard_target_def Let_def)

lemma prepare_twice:
  "windows_prepare_capture c = (res, c') \<Longrightarrow> held c \<Longrightarrow> held c' \<and> (res = Inr u \<longrightarrow> held_twice c')"
  by (auto simp: windows_prepare_capture_def held_def held_twice_def lock_active_def Let_def split: if_splits option.splits)

lemma activate_twice:
  "windows_activate_capture A c = (res, c') \<Longrightarrow> held c \<Longrightarrow> held c' \<and> (held_twice c \<longrightarrow> held_twice c')"
  by (auto simp: windows_activate_capture_def held_def held_twice_def lock_active_def hide_windows_cursor_if_needed_def
      set_windows_cursor_def set_control_clipboard_target_def Let_def split: if_splits option.splits prod.splits)

lemma focus_twice:
  "prepare_windows_focus A c = (res, c') \<Longrightarrow> held c \<Longrightarrow> held c' \<and> (held_twice c \<longrightarrow> held_twice c')"
  by (auto simp: prepare_windows_focus_def held_def held_twice_def set_capture_fault_def Let_def split: if_splits prod.splits)

text \<open>The contract of \<open>Capture_Tracking\<close>, read as: preparing is asking twice.\<close>

interpretation crossing: capture_tracking "windows_capture_port A" "windows_focus_port A" held held held_twice held_twice
proof (unfold_locales, goal_cases)
  case (2 c g c' g')
  then show ?case using restore_twice by (auto simp: windows_capture_port_def held_def held_twice_def)
qed (auto simp: windows_capture_port_def windows_focus_port_def held_def held_twice_def split: prod.splits
    dest: prepare_twice [unfolded held_def held_twice_def] activate_twice [unfolded held_def held_twice_def]
      focus_twice [unfolded held_def held_twice_def])

section \<open>The handler\<close>

lemma begin_held_stuck:
  assumes "client_inv (ct_client th)" and "held (ct_context th)"
    and "wc_pending (ct_context th) = None" and "\<not> wc_remote_active (ct_context th)"
  shows "wc_stuck (ct_context (snd (begin_v2_controller_windows (counted A) (quic_controller_transport H) now active crossed th)))"
proof -
  define th1 where "th1 = with_context (set_capture_fault None) th"
  have parts: "ct_client th1 = ct_client th" "wc_pending (ct_context th1) = None" "\<not> wc_remote_active (ct_context th1)"
    using assms by (simp_all add: th1_def with_context_def set_capture_fault_def)
  let ?c = "(ct_context th1)\<lparr>wc_candidate := Some \<lparr>pw_active = active, pw_crossed_edge = crossed\<rparr>\<rparr>"
  have c: "held ?c" using assms(2) by (simp add: th1_def with_context_def set_capture_fault_def held_def)
  define target where "target = \<lparr>tg_peer_id = it_device_id (at_target active), tg_addr = it_target_addr (at_target active),
      tg_protocol_version = it_protocol_version (at_target active), tg_target_display = at_current_screen_id active,
      tg_layout_revision = display_layout_revision (sc_id (at_current_screen active)) (sc_width (at_current_screen active))
        (sc_height (at_current_screen active)) (wa_scale_bits (counted A) (sc_scale (at_current_screen active)))\<rparr>"
  obtain res cl c' where bg: "client_begin (windows_capture_port (counted A)) (quic_controller_transport H) target now (ct_client th) ?c
      = (res, cl, c')" by (metis prod_cases3)
  have "wc_stuck ((case res of Inr _ \<Rightarrow> c'\<lparr>wc_motion_sequence := 0\<rparr>
      | Inl _ \<Rightarrow> restore_windows_capture_state (counted A) True c')\<lparr>wc_candidate := None\<rparr>)"
  proof (cases "can_begin (cc_runtime (ct_client th))")
    case False
    with bg have "res = Inl (ClientRuntime (CRoute Busy))" "c' = ?c" by (simp_all add: client_begin_def)
    with restore_twice [OF c, of "counted A" True] show ?thesis by (simp add: held_twice_def)
  next
    case True
    then have "crossing.keeps_step (ct_client th) ?c"
      using c by (cases "rt_state (cr_router (cc_runtime (ct_client th)))")
        (simp_all add: crossing.keeps_step_def crossing.follows_def can_begin_def)
    then have step: "crossing.keeps_step cl c'" using crossing.begin_step [OF bg] by blast
    then have c': "held c'" using crossing.tracked_sound by (auto simp: crossing.keeps_step_def crossing.follows_def)
    have ends: "can_begin (cc_runtime cl) \<longleftrightarrow> \<not> is_ok res" using win_client.begin_ends [OF bg assms(1) True] .
    show ?thesis
    proof (cases res)
      case (Inl e)
      with restore_twice [OF c', of "counted A" True] show ?thesis by (simp add: held_twice_def)
    next
      case (Inr u)
      with ends have "held_twice c'" using step
        by (cases "rt_state (cr_router (cc_runtime cl))")
          (simp_all add: crossing.keeps_step_def crossing.follows_def can_begin_def)
      with Inr show ?thesis by (simp add: held_twice_def)
    qed
  qed
  moreover have "ct_context (snd (begin_v2_controller_windows (counted A) (quic_controller_transport H) now active crossed th))
      = (case res of Inr _ \<Rightarrow> c'\<lparr>wc_motion_sequence := 0\<rparr>
          | Inl _ \<Rightarrow> restore_windows_capture_state (counted A) True c')\<lparr>wc_candidate := None\<rparr>"
    using bg parts by (simp add: begin_v2_controller_windows_def th1_def [symmetric] target_def Let_def)
  ultimately show ?thesis by simp
qed


text \<open>C38. The pointer that crosses the edge to a peer stops the capture: in every run, while nothing is prepared and no peer is
  in control, the handler of a movement that enters a target asks again for the lock it holds, so it does not
  return. The screens of the layout have 1 to 100000 pixels each way and lie within a billion pixels of the
  origin.\<close>

theorem edge_crossing_never_returns:
  assumes "start_v2_controller_runtime transport boot peer g deduper action
      (new_capture_context (counted A) (w, b) layout native_layout cells events request focus_window) = Inr th0"
    and "layout_placed layout" and "capture_reach A H th0 th"
    and "wc_pending (ct_context th) = None" and "wc_active (ct_context th) = None"
    and "current_input_targets (counted A) free now ((ct_context th)\<lparr>wc_active_held := True, wc_last_point := Some (x, y)\<rparr>)
      = (targets, c)"
    and "wc_last_point (ct_context th) = Some (px, py)" and "crossing_target targets x y (x - px) (y - py) = Some active"
  shows "handle_windows_mouse_move (counted A) (quic_controller_transport H) free now x y th = None"
proof -
  have ok: "thread_ok b th" using reached_thread [OF assms(3,1,2)] .
  then have "in_step b (ct_client th) (ct_context th)" by (simp add: thread_ok_def)
  then have "\<not> wc_remote_active (ct_context th)"
    using assms(4,5) by (cases rule: in_step_cases) (simp_all add: context_phases split: if_splits)
  have c: "held c" "wc_pending c = None" "\<not> wc_remote_active c"
    using assms(4,6) \<open>\<not> wc_remote_active (ct_context th)\<close>
    by (auto simp: current_input_targets_def held_def Let_def split: option.splits if_splits)
  have "wc_stuck (ct_context (snd (begin_v2_controller_windows (counted A) (quic_controller_transport H) now active True
      (th\<lparr>ct_context := c\<rparr>))))"
    using begin_held_stuck [of "th\<lparr>ct_context := c\<rparr>"] ok c by (simp add: thread_ok_def)
  with assms(5-8) show ?thesis
    by (simp add: handle_windows_mouse_move_def local_mouse_move_def with_context_def Let_def)
qed

text \<open>The pointer moves to the right border and then over it.\<close>

definition demo_moved_thread :: "((unit, unit, unit, unit) quic_transport, unit \<times> int) capture_thread" where
  "demo_moved_thread = demo_thread\<lparr>ct_context := demo_context\<lparr>wc_last_point := Some (1900, 500),
     wc_targets := Some (0, [demo_edge_target])\<rparr>\<rparr>"

lemma demo_targets: "build_input_targets True ''pc'' demo_switch_layout demo_switch_layout = [demo_edge_target]"
  by code_simp

lemma demo_crossings: "crossing_target [demo_edge_target] 1900 500 0 0 = None"
  "crossing_target [demo_edge_target] 1919 500 19 0 \<noteq> None"
  by code_simp+

lemma demo_moved_reach: "capture_reach demo_windows demo_open_handle demo_thread demo_moved_thread"
proof -
  let ?queued = "demo_thread\<lparr>ct_queue := [HookMouse WM_MOUSEMOVE 1900 500 0]\<rparr>"
  have idle: "wc_targets demo_context = None" "wc_last_point demo_context = None" "wc_active demo_context = None"
    "\<not> wc_remote_active demo_context" "\<not> wc_active_held demo_context" "\<not> wc_stuck demo_context"
    "wc_layout demo_context = demo_switch_layout" "wc_native_layout demo_context = demo_switch_layout"
    "\<not> local_game_mode_enabled (wc_cells demo_context)"
    by (simp_all add: demo_context_def new_capture_context_def local_game_mode_enabled_def)
  have gate: "is_local (thread_gate demo_thread)" "ct_queue demo_thread = []" "ct_context demo_thread = demo_context"
    by (simp_all add: thread_gate_def demo_thread_def demo_capture_client_def demo_client_def demo_runtime_def
        router_with_gate_def is_local_def)
  have origin: "wa_origin (counted demo_windows) = ''pc''" by (simp add: counted_def demo_windows_def)
  have restore: "demo_context\<lparr>wc_last_point := p, wc_targets := t, wc_active_held := False\<rparr>
      = demo_context\<lparr>wc_last_point := p, wc_targets := t\<rparr>" for p t
    by (simp add: demo_context_def new_capture_context_def)
  have queued: "windows_mouse_proc True True 0 WM_MOUSEMOVE 1900 500 0 demo_thread = (False, ?queued)"
    by (simp add: windows_mouse_proc_def try_offer_hook_event_def HOOK_QUEUE_EVENTS_def gate demo_desktop idle)
  have "process_windows_hook_event (counted demo_windows) (quic_controller_transport demo_open_handle) True 0
      (HookMouse WM_MOUSEMOVE 1900 500 0) (?queued\<lparr>ct_queue := []\<rparr>) = Some demo_moved_thread"
    using idle demo_targets demo_crossings(1) restore
    by (simp add: process_windows_hook_event_def handle_windows_mouse_move_def local_mouse_move_def current_input_targets_def
        with_context_def gate origin demo_moved_thread_def demo_thread_def Let_def)
  from cap_next [OF cap_next [OF cap_start cap_mouse [OF queued]] cap_event [OF _ this]] show ?thesis by simp
qed

lemma edge_crossing_never_returns_witness:
  "handle_windows_mouse_move (counted demo_windows) (quic_controller_transport demo_open_handle) True 1 1919 500 demo_moved_thread = None"
proof -
  obtain active where crossing: "crossing_target [demo_edge_target] 1919 500 (1919 - 1900) (500 - 500) = Some active"
    using demo_crossings(2) by auto
  have moved: "wc_pending (ct_context demo_moved_thread) = None" "wc_active (ct_context demo_moved_thread) = None"
    "wc_last_point (ct_context demo_moved_thread) = Some (1900, 500)"
    "wc_targets (ct_context demo_moved_thread) = Some (0, [demo_edge_target])"
    by (simp_all add: demo_moved_thread_def demo_context_def new_capture_context_def)
  have targets: "current_input_targets (counted demo_windows) True 1
      ((ct_context demo_moved_thread)\<lparr>wc_active_held := True, wc_last_point := Some (1919, 500)\<rparr>)
    = ([demo_edge_target], (ct_context demo_moved_thread)\<lparr>wc_active_held := True, wc_last_point := Some (1919, 500)\<rparr>)"
    by (simp add: current_input_targets_def moved saturating_sub_def INPUT_TARGETS_TTL_MS_def)
  show ?thesis
    by (rule edge_crossing_never_returns [OF demo_thread_started [unfolded demo_context_def] demo_layout_placed demo_moved_reach
        moved(1,2) targets moved(3) crossing])
qed

section \<open>The return hotkey\<close>

lemma default_hotkey:
  assumes "normalized_hotkey v = u" and "\<not> hotkey_off u" and "read_hotkey_parts (hotkey_parts u) no_modifiers None = Some (m, Some k)"
  shows "parse_control_hotkey_binding v action = Some \<lparr>cb_action = action, cb_key_code = k, cb_modifiers = m\<rparr>"
  using assms by (simp add: parse_control_hotkey_binding_def)

lemma default_keys: "hotkey_key_to_windows_vk ''f10'' = Some 0x79" "hotkey_key_to_windows_vk ''f11'' = Some 0x7A"
proof -
  have "function_key ''f10'' = Some 10" "function_key ''f11'' = Some 11" by code_simp+
  then show "hotkey_key_to_windows_vk ''f10'' = Some 0x79" "hotkey_key_to_windows_vk ''f11'' = Some 0x7A"
    by (simp_all add: hotkey_key_to_windows_vk_def function_number_is_key)
qed

lemma default_bindings: "control_hotkey_bindings default_control_hotkeys
  = [Some \<lparr>cb_action = EmergencyLocal, cb_key_code = 0x79, cb_modifiers = \<lparr>hm_ctrl = True, hm_alt = True, hm_shift = True, hm_meta = False\<rparr>\<rparr>,
     Some \<lparr>cb_action = GoLocal, cb_key_code = 0x79, cb_modifiers = \<lparr>hm_ctrl = True, hm_alt = True, hm_shift = False, hm_meta = False\<rparr>\<rparr>,
     Some \<lparr>cb_action = GoMac, cb_key_code = 0x7A, cb_modifiers = \<lparr>hm_ctrl = True, hm_alt = True, hm_shift = False, hm_meta = False\<rparr>\<rparr>]"
proof -
  have norm: "normalized_hotkey ''control+alt+shift+F10'' = ''control+alt+shift+f10''"
    "normalized_hotkey ''control+alt+F10'' = ''control+alt+f10''" "normalized_hotkey ''control+alt+F11'' = ''control+alt+f11''"
    by code_simp+
  show ?thesis
    by (simp add: control_hotkey_bindings_def default_control_hotkeys_def default_hotkey [OF norm(1)] default_hotkey [OF norm(2)]
        default_hotkey [OF norm(3)] hotkey_off_def hotkey_parts_def no_modifiers_def default_keys)
qed

text \<open>No release that the hook sees is that of the return hotkey, and while the return hotkey counts as held the hook
  swallows it without effect.\<close>

theorem return_hotkey_works_once:
  assumes "ct_bindings th = control_hotkey_bindings default_control_hotkeys" and "GoLocal \<in> held_actions (ct_deduper th)"
    and "windows_keyboard_proc A context_free lock_free code message vk scan flags th = (keep, th')"
    and "down \<longleftrightarrow> message = WM_KEYDOWN \<or> message = WM_SYSKEYDOWN"
  shows "GoLocal \<in> held_actions (ct_deduper th')
    \<and> (hook_control_action (ct_bindings th) (ucast vk) (windows_current_hotkey_modifiers A (wc_os (ct_context th))) down = Some GoLocal
         \<and> keep \<longrightarrow> ct_action th' = ct_action th \<and> thread_gate th' = thread_gate th)"
proof -
  have other: "action \<noteq> GoLocal" if "hook_control_action (ct_bindings th) k m False = Some action" for k m action
    using that by (auto simp: assms(1) default_bindings hook_control_action_def split: if_splits)
  have stays: "GoLocal \<in> held_actions (ct_deduper (thread_dispatch lock_free action pressed th))"
    if "\<not> (action = GoLocal \<and> \<not> pressed)" for action pressed
  proof -
    obtain ok h where d: "dispatch_control_hotkey lock_free action pressed
        \<lparr>hot_deduper = ct_deduper th, hot_pending = ct_action th, hot_gate = thread_gate th\<rparr> = (ok, h)" by fastforce
    from dispatch_held [OF d] assms(2) that have "GoLocal \<in> held_actions (hot_deduper h)" by (cases pressed) auto
    with d show ?thesis by (simp add: thread_dispatch_def set_thread_gate_def)
  qed
  have still: "ct_action (thread_dispatch lock_free GoLocal True th) = ct_action th"
    "thread_gate (thread_dispatch lock_free GoLocal True th) = thread_gate th"
    using assms(2)
    by (simp_all add: thread_dispatch_def dispatch_control_hotkey_def deduper_press_def held_actions_def
        set_thread_gate_def thread_gate_def)
  have fail: "ct_deduper (fail_open lock_free t) = ct_deduper t" for t :: "('t, 'w) capture_thread"
    by (simp add: fail_open_def set_thread_gate_def Let_def)
  let ?found = "hook_control_action (ct_bindings th) (ucast vk) (windows_current_hotkey_modifiers A (wc_os (ct_context th))) down"
  have shape: "(?found = None \<or> \<not> keep) \<and> ct_deduper th' = ct_deduper th
      \<or> (\<exists>action. ?found = Some action \<and> th' = thread_dispatch lock_free action down th)"
    using assms(3,4)
    by (auto simp: windows_keyboard_proc_def try_offer_hook_event_def fail Let_def split: if_splits option.splits)
  then show ?thesis
  proof
    assume "(?found = None \<or> \<not> keep) \<and> ct_deduper th' = ct_deduper th"
    with assms(2) show ?thesis by auto
  next
    assume "\<exists>action. ?found = Some action \<and> th' = thread_dispatch lock_free action down th"
    then obtain action where found: "?found = Some action" and th': "th' = thread_dispatch lock_free action down th" by blast
    show ?thesis
    proof (cases down)
      case True
      with found th' stays [of action True] still show ?thesis by auto
    next
      case False
      with found have "action \<noteq> GoLocal" using other by simp
      with found th' False stays [of action False] show ?thesis by auto
    qed
  qed
qed

section \<open>The wheel\<close>

text \<open>
  A wheel that turns by less than a notch has the distance 0, which the encoder refuses as invalid. The client takes
  that for a failure of the transport, so the smallest turn of a fine wheel or of a touchpad ends the control of
  the peer.
\<close>

lemma fine_wheel_turn_goes_local:
  assumes "thread_ok b th" and "wc_active (ct_context th) \<noteq> None" and "cr_motion_sequence (cc_runtime (ct_client th)) \<noteq> 0"
    and "checked_add (cr_input_sequence (cc_runtime (ct_client th))) 1 \<noteq> None"
    and "message = WM_MOUSEWHEEL \<or> message = WM_MOUSEHWHEEL" and "wheel_delta data = 0"
    and "\<And>input frame q. \<not> is_ok (validate_critical_event (cf_event frame)) \<Longrightarrow> \<exists>e. fst (th_input_send H input frame q) = Inl e"
  shows "can_begin (cc_runtime (ct_client (snd (handle_windows_scroll (counted A) (quic_controller_transport H) message data th))))"
proof -
  let ?T = "quic_controller_transport H"
  have inv: "client_inv (ct_client th)" using assms(1) by (simp add: thread_ok_def)
  obtain peer token where "rt_state (cr_router (cc_runtime (ct_client th))) = RemoteActive peer token"
    using thread_remote [OF assms(1)] assms(2) by blast
  with inv obtain session where session: "active_session (cr_handshake (cc_runtime (ct_client th))) = Some session"
    by (auto simp: client_inv_def runtime_linked_def active_session_def)
  have refused: "\<exists>e q'. quic_send_input H frame q = (Inl e, q')" if "\<not> is_ok (validate_critical_event (cf_event frame))"
    for frame q
  proof (cases "qt_input q")
    case (Some input)
    from assms(7) [OF that, of input "qt_transport q"] obtain e where "fst (th_input_send H input frame (qt_transport q)) = Inl e" ..
    with Some show ?thesis by (auto simp: quic_send_input_def on_handle_def split: prod.splits)
  qed (simp add: quic_send_input_def on_handle_def)
  have ends: "can_begin (cc_runtime (ct_client (snd (send_v2_windows_input (counted A) ?T (CScroll 0 0 x y n) th))))" for x y n
  proof -
    obtain k where k: "checked_add (cr_input_sequence (cc_runtime (ct_client th))) 1 = Some k" using assms(4) by blast
    obtain res cl c where send: "client_send_input (windows_capture_port (counted A)) ?T (CScroll 0 0 x y n) (ct_client th) (ct_context th)
        = (res, cl, c)" by (metis prod_cases3)
    have "\<exists>message. res = Inl (ClientTransport message)"
      using send session k assms(3)
        refused [of "\<lparr>cf_session_id = session, cf_sequence = k,
          cf_event = CScroll 0 0 x y (cr_motion_sequence (cc_runtime (ct_client th)))\<rparr>" "cc_transport (ct_client th)"]
      by (auto simp: client_send_input_def next_input_def quic_controller_transport_def Let_def split: prod.splits)
    then obtain message where res: "res = Inl (ClientTransport message)" by blast
    with win_client.send_input_result [OF send inv] have "can_begin (cc_runtime cl)" by (simp add: stopped_def)
    with send res show ?thesis by (simp add: send_v2_windows_input_def)
  qed
  show ?thesis
    using assms(2,5,6) ends by (auto simp: handle_windows_scroll_def WM_MOUSEWHEEL_def WM_MOUSEHWHEEL_def Let_def split: option.split)
qed

end
