(* ===== verification/Native_Injector.thy ===== *)
theory Native_Injector
  imports Complex_Main Control_Ports
begin

text \<open>
  \<open>NativeInjector\<close> (\<open>input.rs\<close>) on macOS, a real provider of the injector port of a receiver: the key tables
  between Windows and macOS, and the modifier flags and click counts stamped on the events.

  The calls of macOS are a record of functions over the state \<open>'w\<close> of the system. Times are rational
  numbers of seconds. The privileged helper is off (\<open>fork_policy.rs\<close>), so every command is injected here.
\<close>

section \<open>Key codes of macOS\<close>

definition mac_to_windows :: "(u16 \<times> u16) list" where
  "mac_to_windows =
    [(0, 0x41), (1, 0x53), (2, 0x44), (3, 0x46), (4, 0x48), (5, 0x47), (6, 0x5A), (7, 0x58), (8, 0x43),
     (9, 0x56), (11, 0x42), (12, 0x51), (13, 0x57), (14, 0x45), (15, 0x52), (16, 0x59), (17, 0x54), (18, 0x31),
     (19, 0x32), (20, 0x33), (21, 0x34), (22, 0x36), (23, 0x35), (24, 0xBB), (25, 0x39), (26, 0x37),
     (27, 0xBD), (28, 0x38), (29, 0x30), (30, 0xDD), (31, 0x4F), (32, 0x55), (33, 0xDB), (34, 0x49),
     (35, 0x50), (36, 0x0D), (37, 0x4C), (38, 0x4A), (39, 0xDE), (40, 0x4B), (41, 0xBA), (42, 0xDC),
     (43, 0xBC), (44, 0xBF), (45, 0x4E), (46, 0x4D), (47, 0xBE), (48, 0x09), (49, 0x20), (50, 0xC0),
     (51, 0x08), (53, 0x1B), (54, 0x5C), (55, 0x5B), (56, 0xA0), (57, 0x14), (58, 0xA4), (59, 0xA2),
     (60, 0xA1), (61, 0xA5), (62, 0xA3), (63, 0x5B), (64, 0x80), (65, 0x6E), (67, 0x6A), (69, 0x6B),
     (71, 0x90), (75, 0x6F), (76, 0x0D), (78, 0x6D), (81, 0x6D), (82, 0x60), (83, 0x61), (84, 0x62),
     (85, 0x63), (86, 0x64), (87, 0x65), (88, 0x66), (89, 0x67), (91, 0x68), (92, 0x69), (96, 0x74),
     (97, 0x75), (98, 0x76), (99, 0x72), (100, 0x77), (101, 0x78), (103, 0x7A), (105, 0x7C), (106, 0x7F),
     (107, 0x7D), (109, 0x79), (111, 0x7B), (114, 0x2D), (115, 0x24), (116, 0x21), (117, 0x2E), (118, 0x73),
     (119, 0x23), (120, 0x71), (121, 0x22), (122, 0x70), (123, 0x25), (124, 0x27), (125, 0x28), (126, 0x26)]"

definition mac_key_to_windows_vk :: "u16 \<Rightarrow> u16 option" where
  "mac_key_to_windows_vk = map_of mac_to_windows"

definition mac_key_to_windows_vk_pairs :: "(u16 \<times> u16) list" where
  "mac_key_to_windows_vk_pairs =
    [(0, 0x41), (1, 0x53), (2, 0x44), (3, 0x46), (4, 0x48), (5, 0x47), (6, 0x5A), (7, 0x58), (8, 0x43),
     (9, 0x56), (11, 0x42), (12, 0x51), (13, 0x57), (14, 0x45), (15, 0x52), (16, 0x59), (17, 0x54), (18, 0x31),
     (19, 0x32), (20, 0x33), (21, 0x34), (22, 0x36), (23, 0x35), (24, 0xBB), (25, 0x39), (26, 0x37),
     (27, 0xBD), (28, 0x38), (29, 0x30), (30, 0xDD), (31, 0x4F), (32, 0x55), (33, 0xDB), (34, 0x49),
     (35, 0x50), (36, 0x0D), (37, 0x4C), (38, 0x4A), (39, 0xDE), (40, 0x4B), (41, 0xBA), (42, 0xDC),
     (43, 0xBC), (44, 0xBF), (45, 0x4E), (46, 0x4D), (47, 0xBE), (48, 0x09), (49, 0x20), (50, 0xC0),
     (51, 0x08), (53, 0x1B), (54, 0x5C), (55, 0x5B), (56, 0x10), (56, 0xA0), (57, 0x14), (58, 0x12),
     (58, 0xA4), (59, 0x11), (59, 0xA2), (60, 0xA1), (61, 0xA5), (62, 0xA3), (63, 0x5B), (64, 0x80),
     (65, 0x6E), (67, 0x6A), (69, 0x6B), (71, 0x90), (75, 0x6F), (76, 0x0D), (78, 0x6D), (81, 0x6D),
     (82, 0x60), (83, 0x61), (84, 0x62), (85, 0x63), (86, 0x64), (87, 0x65), (88, 0x66), (89, 0x67),
     (91, 0x68), (92, 0x69), (96, 0x74), (97, 0x75), (98, 0x76), (99, 0x72), (100, 0x77), (101, 0x78),
     (103, 0x7A), (105, 0x7C), (106, 0x7F), (107, 0x7D), (109, 0x79), (111, 0x7B), (114, 0x2D), (115, 0x24),
     (116, 0x21), (117, 0x2E), (118, 0x73), (119, 0x23), (120, 0x71), (121, 0x22), (122, 0x70), (123, 0x25),
     (124, 0x27), (125, 0x28), (126, 0x26)]"

definition windows_vk_to_mac_key :: "u16 \<Rightarrow> u16 option" where
  "windows_vk_to_mac_key code = map_option fst (find (\<lambda>(_, vk). vk = code) mac_key_to_windows_vk_pairs)"

section \<open>Modifier flags\<close>

definition CGEventFlagShift :: u64 where "CGEventFlagShift = push_bit 17 1"
definition CGEventFlagControl :: u64 where "CGEventFlagControl = push_bit 18 1"
definition CGEventFlagAlternate :: u64 where "CGEventFlagAlternate = push_bit 19 1"
definition CGEventFlagCommand :: u64 where "CGEventFlagCommand = push_bit 20 1"
definition CGEventFlagNumericPad :: u64 where "CGEventFlagNumericPad = push_bit 21 1"
definition CGEventFlagSecondaryFn :: u64 where "CGEventFlagSecondaryFn = push_bit 23 1"

definition windows_vk_to_mac_flag :: "u16 \<Rightarrow> u64 option" where
  "windows_vk_to_mac_flag vk =
     (if vk \<in> {0x10, 0xA0, 0xA1} then Some CGEventFlagShift
      else if vk \<in> {0x11, 0xA2, 0xA3} then Some CGEventFlagControl
      else if vk \<in> {0x12, 0xA4, 0xA5} then Some CGEventFlagAlternate
      else if vk \<in> {0x5B, 0x5C} then Some CGEventFlagCommand
      else None)"

definition mac_function_section_flags :: "u16 \<Rightarrow> u64" where
  "mac_function_section_flags mac_code =
     (if mac_code \<in> {123, 124, 125, 126} then CGEventFlagSecondaryFn OR CGEventFlagNumericPad
      else if mac_code \<in> {115, 116, 117, 119, 121} then CGEventFlagSecondaryFn
      else 0)"

section \<open>Click counts\<close>

record mac_click_down =
  cd_button :: mouse_button
  cd_x :: i32
  cd_y :: i32
  cd_at :: rat
  cd_count :: nat

text \<open>\<open>ct_pressed\<close> has a slot for each of left, right and middle.\<close>

record mac_click_tracker =
  ct_last_down :: "mac_click_down option"
  ct_pressed :: "mac_click_down option list"

definition click_tracker_default :: mac_click_tracker where
  "click_tracker_default = \<lparr>ct_last_down = None, ct_pressed = [None, None, None]\<rparr>"

definition MAX_DISTANCE_PX :: i32 where "MAX_DISTANCE_PX = 8"

definition click_points_are_near :: "i32 \<Rightarrow> i32 \<Rightarrow> i32 \<Rightarrow> i32 \<Rightarrow> i32 \<Rightarrow> bool" where
  "click_points_are_near x1 y1 x2 y2 max_distance \<longleftrightarrow>
     (x1 - x2) * (x1 - x2) + (y1 - y2) * (y1 - y2) \<le> max_distance * max_distance"

fun click_index :: "mouse_button \<Rightarrow> nat option" where
  "click_index MLeft = Some 0"
| "click_index MRight = Some 1"
| "click_index MMiddle = Some 2"
| "click_index MBack = None"
| "click_index MForward = None"

definition event_count ::
  "mouse_button \<Rightarrow> bool \<Rightarrow> i32 \<Rightarrow> i32 \<Rightarrow> rat \<Rightarrow> rat \<Rightarrow> mac_click_tracker \<Rightarrow> int \<times> mac_click_tracker" where
  "event_count button down x y now double_click_interval t =
     (case click_index button of
        None \<Rightarrow> (if down then 1 else 0, t)
      | Some index \<Rightarrow>
          if down then
            (let chains = (\<lambda>prev. cd_button prev = button \<and> max 0 (now - cd_at prev) \<le> double_click_interval
                   \<and> click_points_are_near (cd_x prev) (cd_y prev) x y MAX_DISTANCE_PX);
                 count = (case ct_last_down t of
                    Some prev \<Rightarrow> if chains prev then min (cd_count prev + 1) 3 else 1
                  | None \<Rightarrow> 1);
                 click = \<lparr>cd_button = button, cd_x = x, cd_y = y, cd_at = now, cd_count = count\<rparr>
             in (int count, t\<lparr>ct_last_down := Some click, ct_pressed := (ct_pressed t)[index := Some click]\<rparr>))
          else
            (case ct_pressed t ! index of
               None \<Rightarrow> (0, t)
             | Some click \<Rightarrow>
                 (let t1 = t\<lparr>ct_pressed := (ct_pressed t)[index := None]\<rparr> in
                  if click_points_are_near (cd_x click) (cd_y click) x y MAX_DISTANCE_PX then (int (cd_count click), t1)
                  else (0, t1\<lparr>ct_last_down := None\<rparr>))))"

section \<open>The injector of macOS\<close>

datatype mac_event_type = MacMouseMoved | LeftMouseDragged | RightMouseDragged | OtherMouseDragged
  | LeftMouseDown | LeftMouseUp | RightMouseDown | RightMouseUp | OtherMouseDown | OtherMouseUp

datatype mac_mouse_button = CgLeft | CgRight | CgCenter

text \<open>An event as it is posted: button number and click state of a mouse event where the code sets them.\<close>

datatype mac_event =
    MacMouse mac_event_type i32 i32 mac_mouse_button "int option" "int option"
  | MacScroll i32 i32
  | MacKey u16 bool u64

text \<open>
  \<open>ma_source\<close> says whether an event source can be made, \<open>ma_builds\<close> whether an event can be built from it, and
  \<open>ma_interval\<close> is the answer of the system for its double-click interval, if it is a finite number.
\<close>

record 'w mac_api =
  ma_trusted :: "'w \<Rightarrow> bool"
  ma_secure_input :: "'w \<Rightarrow> bool"
  ma_source :: "'w \<Rightarrow> bool"
  ma_builds :: "mac_event \<Rightarrow> 'w \<Rightarrow> bool"
  ma_post :: "mac_event \<Rightarrow> 'w \<Rightarrow> 'w"
  ma_warp :: "i32 \<Rightarrow> i32 \<Rightarrow> 'w \<Rightarrow> 'w"
  ma_now :: "'w \<Rightarrow> rat"
  ma_interval :: "rat option"

record 'w mac_injector =
  mi_os :: 'w
  mi_flags :: u64
  mi_clicks :: mac_click_tracker

definition macos_double_click_interval :: "'w mac_api \<Rightarrow> rat" where
  "macos_double_click_interval A =
     (case ma_interval A of Some seconds \<Rightarrow> if 1 / 10 \<le> seconds \<and> seconds \<le> 2 then seconds else 1 / 2 | None \<Rightarrow> 1 / 2)"

definition mac_post_event :: "'w mac_api \<Rightarrow> mac_event \<Rightarrow> 'w mac_injector \<Rightarrow> 'w mac_injector" where
  "mac_post_event A event i = i\<lparr>mi_os := ma_post A event (mi_os i)\<rparr>"

definition mac_inject_mouse_move ::
  "'w mac_api \<Rightarrow> i32 \<Rightarrow> i32 \<Rightarrow> mouse_button option \<Rightarrow> 'w mac_injector \<Rightarrow> 'w mac_injector" where
  "mac_inject_mouse_move A x y drag_button i =
     (let (event_type, button) = (case drag_button of
            Some MLeft \<Rightarrow> (LeftMouseDragged, CgLeft)
          | Some MRight \<Rightarrow> (RightMouseDragged, CgRight)
          | Some _ \<Rightarrow> (OtherMouseDragged, CgCenter)
          | None \<Rightarrow> (MacMouseMoved, CgLeft));
          i1 = i\<lparr>mi_os := ma_warp A x y (mi_os i)\<rparr>;
          event = MacMouse event_type x y button None None
      in if ma_source A (mi_os i1) \<and> ma_builds A event (mi_os i1) then mac_post_event A event i1 else i1)"

fun mac_button_event :: "mouse_button \<Rightarrow> bool \<Rightarrow> mac_event_type \<times> mac_mouse_button \<times> int option" where
  "mac_button_event MLeft down = (if down then LeftMouseDown else LeftMouseUp, CgLeft, None)"
| "mac_button_event MRight down = (if down then RightMouseDown else RightMouseUp, CgRight, None)"
| "mac_button_event MMiddle down = (if down then OtherMouseDown else OtherMouseUp, CgCenter, None)"
| "mac_button_event MBack down = (if down then OtherMouseDown else OtherMouseUp, CgCenter, Some 3)"
| "mac_button_event MForward down = (if down then OtherMouseDown else OtherMouseUp, CgCenter, Some 4)"

definition mac_inject_mouse_button ::
  "'w mac_api \<Rightarrow> mouse_button \<Rightarrow> bool \<Rightarrow> i32 \<Rightarrow> i32 \<Rightarrow> 'w mac_injector \<Rightarrow> 'w mac_injector" where
  "mac_inject_mouse_button A button down x y i =
     (if \<not> ma_source A (mi_os i) then i
      else
        (let (event_type, mouse_button, number) = mac_button_event button down;
             i1 = i\<lparr>mi_os := ma_warp A x y (mi_os i)\<rparr>
         in if \<not> ma_builds A (MacMouse event_type x y mouse_button None None) (mi_os i1) then i1
            else
              (let (clicks, tracker) = event_count button down x y (ma_now A (mi_os i1)) (macos_double_click_interval A)
                     (mi_clicks i1)
               in mac_post_event A (MacMouse event_type x y mouse_button number (Some clicks)) (i1\<lparr>mi_clicks := tracker\<rparr>))))"

definition mac_inject_scroll :: "'w mac_api \<Rightarrow> i32 \<Rightarrow> i32 \<Rightarrow> 'w mac_injector \<Rightarrow> 'w mac_injector" where
  "mac_inject_scroll A delta_x delta_y i =
     (let event = MacScroll delta_y delta_x in
      if ma_source A (mi_os i) \<and> ma_builds A event (mi_os i) then mac_post_event A event i else i)"

definition mac_inject_key :: "'w mac_api \<Rightarrow> u16 \<Rightarrow> bool \<Rightarrow> 'w mac_injector \<Rightarrow> 'w mac_injector" where
  "mac_inject_key A key_code down i =
     (let i1 = (case windows_vk_to_mac_flag key_code of
            Some flag \<Rightarrow> i\<lparr>mi_flags := (if down then mi_flags i OR flag else mi_flags i AND NOT flag)\<rparr>
          | None \<Rightarrow> i)
      in case windows_vk_to_mac_key key_code of
           None \<Rightarrow> i1
         | Some mac_code \<Rightarrow>
             (let event = MacKey mac_code down (mi_flags i1 OR mac_function_section_flags mac_code) in
              if ma_source A (mi_os i1) \<and> ma_builds A event (mi_os i1) then mac_post_event A event i1 else i1))"

definition reset_injected_modifiers :: "'w mac_injector \<Rightarrow> 'w mac_injector" where
  "reset_injected_modifiers i = i\<lparr>mi_flags := 0, mi_clicks := click_tracker_default\<rparr>"

fun mac_inject_command :: "'w mac_api \<Rightarrow> input_command \<Rightarrow> 'w mac_injector \<Rightarrow> 'w mac_injector" where
  "mac_inject_command A (IC_MouseMove x y drag_button) i = mac_inject_mouse_move A x y drag_button i"
| "mac_inject_command A (IC_MouseButton button down x y) i = mac_inject_mouse_button A button down x y i"
| "mac_inject_command A (IC_Scroll delta_x delta_y) i = mac_inject_scroll A delta_x delta_y i"
| "mac_inject_command A (IC_Key key_code down) i = mac_inject_key A key_code down i"
| "mac_inject_command A IC_ReleaseAll i = i"
| "mac_inject_command A IC_SecureAttention i = i"

definition mac_readiness :: "'w mac_api \<Rightarrow> 'w mac_injector \<Rightarrow> (port_error, unit) result" where
  "mac_readiness A i =
     (if \<not> ma_trusted A (mi_os i) then Inl PermissionDenied
      else if ma_secure_input A (mi_os i) then Inl Unavailable else Inr ())"

definition mac_injector_port :: "'w mac_api \<Rightarrow> 'w mac_injector injector_port" where
  "mac_injector_port A =
     \<lparr>readiness = mac_readiness A,
      post_event = (\<lambda>event i. case mac_readiness A i of
         Inl e \<Rightarrow> (Inl e, i)
       | Inr _ \<Rightarrow> (Inr (), mac_inject_command A event i))\<rparr>"

end
