(* ===== verification/Injector_Invariant.thy ===== *)
theory Injector_Invariant
  imports Receiver_Properties
begin

text \<open>
  What holds of an injector's state after every command also holds whatever the receiver does: the receiver
  reaches its injector only through the port, and never asks it to release everything, which no injector of
  a platform does. The contract is a locale, for the injectors of the platforms
  to interpret.
\<close>

lemma release_keys_plain: "IC_ReleaseAll \<notin> set (release_keys ks)"
  by (induction ks rule: release_keys.induct) auto

lemma release_all_plain: "IC_ReleaseAll \<notin> set (snd (release_all p))"
  using release_keys_plain by (auto simp: release_all_def Let_def)

lemma pressed_apply_plain: "pressed_apply ev p = (p', cmds) \<Longrightarrow> IC_ReleaseAll \<notin> set cmds"
  by (cases ev) (auto simp: apply_key_def apply_button_def Let_def split: if_splits option.splits)

lemma pointer_commands_plain: "pointer_commands ev r = Inr (p, cmds) \<Longrightarrow> IC_ReleaseAll \<notin> set cmds"
  by (auto simp: pointer_commands_def split: option.splits prod.splits if_splits elim!: bind_result_InrE)

lemma fallback_move_plain: "fallback_move ev p r cmds = Inr cmds' \<Longrightarrow> IC_ReleaseAll \<notin> set cmds \<Longrightarrow> IC_ReleaseAll \<notin> set cmds'"
  by (auto simp: fallback_move_def split: option.splits prod.splits if_splits elim!: bind_result_InrE)

locale injector_keeps =
  fixes P :: "'i injector_port" and keeps :: "'i \<Rightarrow> bool"
  assumes post_keeps: "post_event P c i = (res, i') \<Longrightarrow> c \<noteq> IC_ReleaseAll \<Longrightarrow> keeps i \<Longrightarrow> keeps i'"
begin

abbreviation kept :: "'i receiver_runtime \<Rightarrow> bool" where
  "kept r \<equiv> keeps (rr_injector r)"

lemma submit_ready_keeps: "submit_ready P c i = (res, i') \<Longrightarrow> c \<noteq> IC_ReleaseAll \<Longrightarrow> keeps i \<Longrightarrow> keeps i'"
  by (auto simp: submit_ready_def split: sum.splits dest: post_keeps)

lemma submit_each_keeps: "submit_each P cs i = (errs, i') \<Longrightarrow> IC_ReleaseAll \<notin> set cs \<Longrightarrow> keeps i \<Longrightarrow> keeps i'"
  by (induction cs arbitrary: i errs) (auto simp: Let_def split: prod.splits dest: submit_ready_keeps)

lemma submit_all_keeps: "submit_all P cs i = (res, i') \<Longrightarrow> IC_ReleaseAll \<notin> set cs \<Longrightarrow> keeps i \<Longrightarrow> keeps i'"
  by (induction cs arbitrary: i) (auto split: prod.splits sum.splits dest: submit_ready_keeps)

lemma release_pressed_keeps:
  assumes "release_pressed P r = (res, r')" and "kept r"
  shows "kept r'"
proof -
  obtain pressed commands where all: "release_all (rr_pressed r) = (pressed, commands)" by fastforce
  obtain errs i where sub: "submit_each P commands (rr_injector r) = (errs, i)" by fastforce
  have "keeps i" using submit_each_keeps [OF sub _ assms(2)] release_all_plain [of "rr_pressed r"] all by simp
  with assms(1) all sub show ?thesis by (auto simp: release_pressed_def Let_def split: list.splits)
qed

lemma closing_injector [simp]:
  "rr_injector (reset_motion r) = rr_injector r" "rr_injector (close_session s r) = rr_injector r"
  by (simp_all add: reset_motion_def close_session_def)

lemma abort_keeps: "kept r \<Longrightarrow> kept (abort_after_injector_failure P s r)"
  by (auto simp: abort_after_injector_failure_def intro: release_pressed_keeps [OF prod.collapse [symmetric]])

lemma apply_motion_keeps: "apply_motion P frame r = (res, r') \<Longrightarrow> kept r \<Longrightarrow> kept r'"
  by (auto simp: apply_motion_def Let_def split: sum.splits prod.splits intro!: abort_keeps dest: submit_ready_keeps)

lemma flush_keeps: "flush_pending_motion P r = (res, r') \<Longrightarrow> kept r \<Longrightarrow> kept r'"
  by (auto simp: flush_pending_motion_def Let_def split: option.splits if_splits dest!: apply_motion_keeps)

lemma handle_motion_keeps: "handle_motion_at P frame peer now r = (res, r') \<Longrightarrow> kept r \<Longrightarrow> kept r'"
  by (auto simp: handle_motion_at_def Let_def split: option.splits if_splits sum.splits prod.splits
      dest!: apply_motion_keeps)

lemma apply_accepted_keeps:
  assumes "apply_accepted P frame mapped now r = (res, r')" and "kept r"
  shows "kept r'"
proof (cases "pointer_commands (cf_event frame) r")
  case (Inl e)
  with assms show ?thesis by (simp add: apply_accepted_def)
next
  case (Inr start)
  obtain p1 cmds1 where "start = (p1, cmds1)" by fastforce
  note pc = Inr [unfolded this]
  obtain p2 cmds2 where pa: "pressed_apply mapped p1 = (p2, cmds2)" by fastforce
  show ?thesis
  proof (cases "fallback_move (cf_event frame) p2 (r\<lparr>rr_pressed := p2\<rparr>) (cmds1 @ cmds2)")
    case (Inl e)
    with assms pc pa show ?thesis by (auto simp: apply_accepted_def Let_def)
  next
    case (Inr commands)
    obtain sub i where sub: "submit_all P commands (rr_injector r) = (sub, i)" by fastforce
    have "IC_ReleaseAll \<notin> set commands"
      using fallback_move_plain [OF Inr] pointer_commands_plain [OF pc] pressed_apply_plain [OF pa] by simp
    then have i: "keeps i" using submit_all_keeps [OF sub _ assms(2)] by simp
    show ?thesis
    proof (cases sub)
      case (Inl e)
      with assms(1) pc pa Inr sub i show ?thesis by (auto simp: apply_accepted_def Let_def intro!: abort_keeps)
    next
      case ok: (Inr u)
      with assms(1) pc pa Inr sub have "flush_pending_motion P (r\<lparr>rr_pressed := p2, rr_injector := i,
          rr_highest_applied_sequence := cf_sequence frame,
          rr_highest_motion_sequence := seen_motion (cf_event frame) (rr_highest_motion_sequence r),
          rr_last_activity_ms := Some now\<rparr>) = (res, r')" by (simp add: apply_accepted_def Let_def)
      from flush_keeps [OF this] i show ?thesis by simp
    qed
  qed
qed

lemma handle_input_keeps: "handle_input_at P frame peer now r = (res, r') \<Longrightarrow> kept r \<Longrightarrow> kept r'"
  by (auto simp: handle_input_at_def split: option.splits if_splits sum.splits prod.splits dest!: apply_accepted_keeps)

lemma hello_keeps: "hello_connection P frame peer_id peer r = (res, r') \<Longrightarrow> kept r \<Longrightarrow> kept r'"
  by (auto simp: hello_connection_def split: if_splits sum.splits prod.splits dest: release_pressed_keeps)

lemma control_parts_keep:
  "prepare_display P frame r = (res, r') \<Longrightarrow> kept r \<Longrightarrow> kept r'"
  "accept_commit response now r = (res, r') \<Longrightarrow> kept r \<Longrightarrow> kept r'"
  "end_session_frame P frame r = (res, r') \<Longrightarrow> kept r \<Longrightarrow> kept r'"
proof -
  show "prepare_display P frame r = (res, r') \<Longrightarrow> kept r \<Longrightarrow> kept r'"
    by (auto simp: prepare_display_def Let_def split: control_frame.splits sum.splits if_splits)
  show "accept_commit response now r = (res, r') \<Longrightarrow> kept r \<Longrightarrow> kept r'"
    by (auto simp: accept_commit_def split: option.splits control_frame.splits if_splits sum.splits prod.splits)
  show "end_session_frame P frame r = (res, r') \<Longrightarrow> kept r \<Longrightarrow> kept r'"
    by (auto simp: end_session_frame_def split: control_frame.splits if_splits sum.splits prod.splits
        dest!: release_pressed_keeps)
qed

lemma after_handshake_keeps: "after_handshake P frame response now r = (res, r') \<Longrightarrow> kept r \<Longrightarrow> kept r'"
  by (auto simp: after_handshake_def split: sum.splits prod.splits if_splits dest: control_parts_keep(2,3))

lemma bound_control_keeps:
  assumes "bound_control P frame peer now r = (res, r')" and "kept r"
  shows "kept r'"
proof -
  obtain pres r1 where prep: "prepare_display P frame r = (pres, r1)" by fastforce
  have r1: "kept r1" using control_parts_keep(1) [OF prep assms(2)] .
  have go: "kept r2" if "after_handshake P frame response now (r1\<lparr>rr_handshake := Some h\<rparr>) = (out, r2)"
    for response h out r2
    using after_handshake_keeps [OF that] r1 by simp
  from assms prep r1 go show ?thesis
    by (auto simp: bound_control_def split: if_splits sum.splits option.splits prod.splits)
qed

lemma lose_session_keeps: "lose_session P fault s r = (res, r') \<Longrightarrow> kept r \<Longrightarrow> kept r'"
  by (auto simp: lose_session_def Let_def split: prod.splits dest!: release_pressed_keeps)

lemma layouts_keep:
  assumes "update_display_layouts P layouts r = (res, r')" and "kept r"
  shows "kept r'"
  using assms
  by (auto simp: update_display_layouts_def Let_def split: if_splits prod.splits option.splits dest!: release_pressed_keeps)

lemma step_keeps: "runtime_step P r r' \<Longrightarrow> kept r \<Longrightarrow> kept r'"
proof (induction rule: runtime_step.induct)
  case (run_control frame peer now r reply r')
  then show ?case
    by (auto simp: handle_control_at_def split: if_splits option.splits dest: hello_keeps bound_control_keeps)
next
  case (run_mapping r enabled control alt meta)
  then show ?case by (simp add: update_modifier_mapping_def)
next
  case (run_expire now r changed r')
  then show ?case by (auto simp: expire_if_needed_def split: option.splits if_splits dest: lose_session_keeps)
next
  case (run_closed peer r changed r')
  then show ?case by (auto simp: input_stream_closed_def split: option.splits if_splits dest: lose_session_keeps)
qed (blast intro: handle_input_keeps handle_motion_keeps layouts_keep)+

lemma reach_keeps: "runtime_reach P r0 r \<Longrightarrow> kept r0 \<Longrightarrow> kept r"
  by (induction rule: runtime_reach.induct) (auto intro: step_keeps)

end

section \<open>A log of what was accepted\<close>

text \<open>Any port, with the sequence of the commands it accepted.\<close>

definition logged :: "'i injector_port \<Rightarrow> ('i \<times> input_command list) injector_port" where
  "logged P =
     \<lparr>readiness = (\<lambda>(i, log). readiness P i),
      post_event = (\<lambda>c (i, log). case post_event P c i of
         (Inl e, i') \<Rightarrow> (Inl e, (i', log))
       | (Inr u, i') \<Rightarrow> (Inr u, (i', log @ [c])))\<rparr>"

interpretation logged: injector_contract "logged P" snd
  by unfold_locales (auto simp: logged_def split: prod.splits sum.splits)

end
