(* ===== verification/Injector_Rules.thy ===== *)
theory Injector_Rules
  imports Native_Injector Injector_Invariant
begin

text \<open>
  No modifier stays set on macOS once the ledger of the receiver has released everything: the flags of the
  injector follow the keys the system holds, which the interpretation of \<open>injector_keeps\<close> carries through
  every operation of the receiver.
\<close>

section \<open>Modifiers on macOS\<close>

definition modifier_bits :: "u16 \<Rightarrow> u64" where
  "modifier_bits k = (case windows_vk_to_mac_flag k of Some flag \<Rightarrow> flag | None \<Rightarrow> 0)"

text \<open>Every flag that is set belongs to a key that is held.\<close>

definition flags_covered :: "'w mac_injector \<times> input_command list \<Rightarrow> bool" where
  "flags_covered s \<longleftrightarrow> (\<forall>n. bit (mi_flags (fst s)) n \<longrightarrow> (\<exists>k\<in>fst (os_held (snd s)). bit (modifier_bits k) n))"

lemma os_held_snoc: "os_held (sent @ [c]) = os_apply c (os_held sent)"
  by (simp add: os_held_def)

lemma inject_flags: "mi_flags (mac_inject_command A c i) = (case c of
    IC_Key k down \<Rightarrow> if down then mi_flags i OR modifier_bits k else mi_flags i AND NOT (modifier_bits k)
  | _ \<Rightarrow> mi_flags i)"
proof (cases c)
  case (IC_Key k down)
  then show ?thesis
    by (auto simp: mac_inject_key_def mac_post_event_def modifier_bits_def Let_def split: option.split)
next
  case (IC_MouseMove x y drag)
  then show ?thesis by (simp add: mac_inject_mouse_move_def mac_post_event_def Let_def split: prod.split)
next
  case (IC_MouseButton button down x y)
  then show ?thesis by (simp add: mac_inject_mouse_button_def mac_post_event_def Let_def split: prod.split)
qed (simp_all add: mac_inject_scroll_def mac_post_event_def Let_def)

lemma covered_step:
  assumes "flags_covered (i, sent)" and "c \<noteq> IC_ReleaseAll"
  shows "flags_covered (mac_inject_command A c i, sent @ [c])"
proof -
  obtain K B where held: "os_held sent = (K, B)" by fastforce
  from assms held show ?thesis
    unfolding flags_covered_def fst_conv snd_conv os_held_snoc inject_flags
    by (cases c) (auto simp: bit_or_iff bit_and_iff bit_not_iff split: if_splits)
qed

interpretation mac_flags: injector_keeps "logged (mac_injector_port A)" flags_covered
proof unfold_locales
  fix c :: input_command and i i' :: "'a mac_injector \<times> input_command list" and res :: "(port_error, unit) result"
  assume post: "post_event (logged (mac_injector_port A)) c i = (res, i')" and "c \<noteq> IC_ReleaseAll" and "flags_covered i"
  then show "flags_covered i'"
    using covered_step [of "fst i" "snd i" c A]
    by (cases i) (auto simp: logged_def mac_injector_port_def split: sum.splits)
qed

text \<open>C6. No modifier sticks on macOS: whenever the receiver ends a session, on whatever calls of the system, the
  modifier flags that the injector stamps on later keys are all clear, or the failed release is the recorded
  fault.\<close>

theorem mac_modifiers_released:
  assumes "runtime_reach (logged (mac_injector_port A)) (runtime_new boot (i0, []) layouts) r" and "mi_flags i0 = 0"
    and "runtime_step (logged (mac_injector_port A)) r r'"
    and "rr_active_session r = Some s" and "rr_active_session r' = None"
  shows "mi_flags (fst (rr_injector r')) = 0 \<or> (\<exists>e. rr_last_fault r' = Some (FaultReleaseFailed e))"
proof -
  have start: "flags_covered (rr_injector (runtime_new boot (i0, []) layouts))"
    using assms(2) by (simp add: runtime_new_def flags_covered_def)
  have "flags_covered (rr_injector r')"
    using mac_flags.step_keeps [OF assms(3)] mac_flags.reach_keeps [OF assms(1) start] by simp
  then have covered: "os_held (snd (rr_injector r')) = ({}, {}) \<Longrightarrow> mi_flags (fst (rr_injector r')) = 0"
    by (auto simp: flags_covered_def intro: bit_word_eqI)
  have "runtime_inv snd (runtime_new boot (i0, []) layouts)" by (rule runtime_new_inv) simp
  with logged.reach_inv [OF assms(1)] have "runtime_inv snd r" .
  with logged.step_safe [OF assms(3)] have "safe_step snd r r'" .
  with assms(4,5) covered show ?thesis by (auto simp: safe_step_def released_def)
qed

subsection \<open>A run\<close>

text \<open>A Mac that grants everything, and a session on it in which Shift is held.\<close>

definition mac_demo_api :: "unit mac_api" where
  "mac_demo_api = \<lparr>ma_trusted = (\<lambda>_. True), ma_secure_input = (\<lambda>_. False), ma_source = (\<lambda>_. True),
     ma_builds = (\<lambda>_ _. True), ma_post = (\<lambda>_ w. w), ma_warp = (\<lambda>_ _ w. w), ma_now = (\<lambda>_. 0), ma_interval = None\<rparr>"

definition mac_demo_injector :: "u64 \<Rightarrow> unit mac_injector" where
  "mac_demo_injector flags = \<lparr>mi_os = (), mi_flags = flags, mi_clicks = click_tracker_default\<rparr>"

abbreviation mac_demo_port :: "(unit mac_injector \<times> input_command list) injector_port" where
  "mac_demo_port \<equiv> logged (mac_injector_port mac_demo_api)"

definition mac_demo_new :: "(unit mac_injector \<times> input_command list) receiver_runtime" where
  "mac_demo_new = runtime_new (demo_boot 2) (mac_demo_injector 0, []) [demo_layout]"

definition mac_demo_idle :: "(unit mac_injector \<times> input_command list) receiver_runtime" where
  "mac_demo_idle = mac_demo_new\<lparr>rr_binding := Some demo_controller_peer,
     rr_handshake := Some (demo_receiver (RIdle (demo_boot 1)))\<rparr>"

definition mac_demo_prepared :: "(unit mac_injector \<times> input_command list) receiver_runtime" where
  "mac_demo_prepared = mac_demo_idle\<lparr>rr_handshake := Some (demo_receiver (RPrepared (demo_boot 1) 7)),
     rr_prepared_display := Some demo_layout\<rparr>"

definition mac_demo_active :: "(unit mac_injector \<times> input_command list) receiver_runtime" where
  "mac_demo_active = mac_demo_idle\<lparr>rr_handshake := Some (demo_receiver (RActive demo_session)),
     rr_input_gate := demo_gate, rr_active_session := Some demo_session,
     rr_active_display := Some demo_layout, rr_last_activity_ms := Some 100\<rparr>"

definition mac_demo_shift :: "(unit mac_injector \<times> input_command list) receiver_runtime" where
  "mac_demo_shift = mac_demo_active\<lparr>
     rr_input_gate := demo_gate\<lparr>ig_active := Some (demo_session, 2)\<rparr>,
     rr_pressed := \<lparr>ps_keys = [\<lparr>hk_source = ScanCode 42 False, hk_target = 0xA0\<rparr>], ps_buttons = []\<rparr>,
     rr_injector := (mac_demo_injector CGEventFlagShift, [IC_Key 0xA0 True]),
     rr_highest_applied_sequence := 1, rr_last_activity_ms := Some 200\<rparr>"

lemmas mac_demo_defs =
  mac_demo_new_def mac_demo_idle_def mac_demo_prepared_def mac_demo_active_def mac_demo_shift_def
  runtime_new_def input_gate_new_def demo_gate_def mac_demo_injector_def

lemmas mac_port_defs = logged_def mac_injector_port_def mac_readiness_def mac_demo_api_def submit_ready_def

lemma mac_release_empty:
  "rr_pressed r = pressed_default \<Longrightarrow> release_pressed mac_demo_port r = (Inr (), r)"
  by (simp add: release_pressed_def release_all_def pressed_default_def)

lemma mac_step_hello:
  "handle_control_at mac_demo_port (Hello (demo_boot 1) demo_peer_id RoleController REQUIRED_CAPABILITIES)
     demo_controller_peer 0 mac_demo_new = (Inr None, mac_demo_idle)"
  by (simp add: handle_control_at_def hello_connection_def demo_controller_peer_def mac_demo_defs
      mac_release_empty demo_receiver_new demo_hello reset_motion_def)

lemma mac_step_prepare:
  "handle_control_at mac_demo_port (Prepare 7 ''main'' 5) demo_controller_peer 0 mac_demo_idle
     = (Inr (Some (Ready 7 (demo_boot 2) True ''main'' 5)), mac_demo_prepared)"
  using demo_prepare
  by (simp add: handle_control_at_def bound_control_def prepare_display_def find_layout_def
      demo_controller_peer_def mac_demo_defs mac_port_defs after_handshake_def accept_commit_def
      end_session_frame_def demo_layout_def Let_def)

lemma mac_step_commit:
  "handle_control_at mac_demo_port (Commit 7 demo_session) demo_controller_peer 100 mac_demo_prepared
     = (Inr (Some (CommitAck demo_session)), mac_demo_active)"
  using demo_accept
  by (simp add: handle_control_at_def bound_control_def prepare_display_def
      demo_controller_peer_def mac_demo_defs after_handshake_def accept_commit_def
      end_session_frame_def input_gate_activate_def pressed_is_empty_def pressed_default_def
      reset_motion_def Let_def)

lemma shift_key: "windows_vk_to_mac_key 0xA0 = Some 56" "windows_vk_to_mac_flag 0xA0 = Some CGEventFlagShift"
  "mac_function_section_flags 56 = 0"
  by code_simp+

lemma mac_step_shift:
  "handle_input_at mac_demo_port \<lparr>cf_session_id = demo_session, cf_sequence = 1, cf_event = CKey 0xA0 42 False True\<rparr>
     demo_controller_peer 200 mac_demo_active = (Inr (), mac_demo_shift)"
  by (simp add: handle_input_at_def bound_controller_def demo_controller_peer_def mac_demo_defs
      map_event_def input_gate_accept_def validate_critical_def checked_add_def
      apply_accepted_def pointer_commands_def apply_key_def key_source_from_event_def target_held_def
      fallback_move_def mac_port_defs flush_pending_motion_def pressed_default_def seen_motion_def Let_def
      mac_inject_key_def mac_post_event_def shift_key)

lemma mac_shift_reach: "runtime_reach mac_demo_port (runtime_new (demo_boot 2) (mac_demo_injector 0, []) [demo_layout]) mac_demo_shift"
  unfolding mac_demo_new_def [symmetric]
  by (rule runtime_next [OF runtime_next [OF runtime_next [OF runtime_next [OF runtime_start run_control [OF mac_step_hello]]
        run_control [OF mac_step_prepare]] run_control [OF mac_step_commit]] run_input [OF mac_step_shift]])

theorem mac_modifiers_released_witness:
  "\<exists>r'. expire_if_needed mac_demo_port 3200 mac_demo_shift = (Inr True, r')
     \<and> mi_flags (fst (rr_injector mac_demo_shift)) \<noteq> 0 \<and> mi_flags (fst (rr_injector r')) = 0"
proof -
  obtain res r' where exp: "expire_if_needed mac_demo_port 3200 mac_demo_shift = (res, r')" by fastforce
  then have out: "res = Inr True" "rr_active_session r' = None" "rr_last_fault r' = Some FaultLeaseExpired"
    by (auto simp: expire_if_needed_def mac_demo_defs saturating_sub_def INPUT_LEASE_TIMEOUT_MS_def
        lose_session_def release_pressed_def release_all_def target_held_def mac_port_defs
        close_session_def reset_motion_def word_less_nat_alt)
  have start: "mi_flags (mac_demo_injector 0) = 0" "rr_active_session mac_demo_shift = Some demo_session"
    "mi_flags (fst (rr_injector mac_demo_shift)) \<noteq> 0"
    by (simp_all add: mac_demo_defs CGEventFlagShift_def)
  from mac_modifiers_released [OF mac_shift_reach start(1) run_expire [OF exp] start(2) out(2)] exp out start(3)
  show ?thesis by simp
qed

text \<open>
  Both Shift keys share one flag: releasing one of them clears it while the system still holds the other.
\<close>

lemma second_shift_clears_flag:
  "fold (mac_inject_command mac_demo_api) [IC_Key 0xA0 True, IC_Key 0xA1 True, IC_Key 0xA1 False] (mac_demo_injector 0)
     = mac_demo_injector 0"
  "os_held [IC_Key 0xA0 True, IC_Key 0xA1 True, IC_Key 0xA1 False] = ({0xA0}, {})"
proof -
  have "windows_vk_to_mac_key 0xA1 = Some 60" "windows_vk_to_mac_flag 0xA1 = Some CGEventFlagShift" "mac_function_section_flags 60 = 0"
    by code_simp+
  then show "fold (mac_inject_command mac_demo_api) [IC_Key 0xA0 True, IC_Key 0xA1 True, IC_Key 0xA1 False] (mac_demo_injector 0)
     = mac_demo_injector 0"
    by (simp add: mac_inject_key_def mac_post_event_def mac_demo_injector_def mac_demo_api_def shift_key CGEventFlagShift_def)
qed (auto simp: os_held_def)

end
