(* ===== verification/Windows_Injector.thy ===== *)
theory Windows_Injector
  imports Display_Layout Screen_Edges Receiver_Safety
begin

text \<open>
  Injection on Windows (\<open>windows_input.rs\<close>, and \<open>NativeInjector\<close> of \<open>input.rs\<close> over it): the inputs sent for each command, the port of the receiver over
  them, and the record of held inputs that the privileged helper keeps and releases.

  \<open>SendInput\<close>, the metrics of the desktop and the scan codes are a record of functions. A refused input is
  logged and otherwise ignored, except that a refused pointer move falls back to setting the cursor.
\<close>

section \<open>Inputs\<close>

datatype windows_input = WiMouse i32 i32 u32 u32 | WiKey u16 u16 u32

definition MOUSEEVENTF_MOVE :: u32 where "MOUSEEVENTF_MOVE = 0x1"
definition MOUSEEVENTF_LEFTDOWN :: u32 where "MOUSEEVENTF_LEFTDOWN = 0x2"
definition MOUSEEVENTF_LEFTUP :: u32 where "MOUSEEVENTF_LEFTUP = 0x4"
definition MOUSEEVENTF_RIGHTDOWN :: u32 where "MOUSEEVENTF_RIGHTDOWN = 0x8"
definition MOUSEEVENTF_RIGHTUP :: u32 where "MOUSEEVENTF_RIGHTUP = 0x10"
definition MOUSEEVENTF_MIDDLEDOWN :: u32 where "MOUSEEVENTF_MIDDLEDOWN = 0x20"
definition MOUSEEVENTF_MIDDLEUP :: u32 where "MOUSEEVENTF_MIDDLEUP = 0x40"
definition MOUSEEVENTF_XDOWN :: u32 where "MOUSEEVENTF_XDOWN = 0x80"
definition MOUSEEVENTF_XUP :: u32 where "MOUSEEVENTF_XUP = 0x100"
definition MOUSEEVENTF_WHEEL :: u32 where "MOUSEEVENTF_WHEEL = 0x800"
definition MOUSEEVENTF_HWHEEL :: u32 where "MOUSEEVENTF_HWHEEL = 0x1000"
definition MOUSEEVENTF_VIRTUALDESK :: u32 where "MOUSEEVENTF_VIRTUALDESK = 0x4000"
definition MOUSEEVENTF_ABSOLUTE :: u32 where "MOUSEEVENTF_ABSOLUTE = 0x8000"
definition KEYEVENTF_EXTENDEDKEY :: u32 where "KEYEVENTF_EXTENDEDKEY = 0x1"
definition KEYEVENTF_KEYUP :: u32 where "KEYEVENTF_KEYUP = 0x2"

text \<open>\<open>wd_left\<close>, \<open>wd_top\<close>, \<open>wd_width\<close> and \<open>wd_height\<close> are the metrics of the virtual desktop.\<close>

record 'w windows_desktop =
  wd_left :: "'w \<Rightarrow> i32"
  wd_top :: "'w \<Rightarrow> i32"
  wd_width :: "'w \<Rightarrow> i32"
  wd_height :: "'w \<Rightarrow> i32"
  wd_send :: "windows_input \<Rightarrow> 'w \<Rightarrow> bool \<times> 'w"
  wd_set_cursor :: "i32 \<Rightarrow> i32 \<Rightarrow> 'w \<Rightarrow> 'w"
  wd_scan :: "u16 \<Rightarrow> u16"

definition windows_send :: "'w windows_desktop \<Rightarrow> windows_input \<Rightarrow> 'w \<Rightarrow> 'w" where
  "windows_send D input w = snd (wd_send D input w)"

section \<open>Commands\<close>

text \<open>A coordinate of the desktop on the scale of 65536 steps that Windows asks for.\<close>

definition normalized_axis :: "i32 \<Rightarrow> i32 \<Rightarrow> i32 \<Rightarrow> i32" where
  "normalized_axis v start extent =
     clamp 0 65535 (wrap_i32 (wrap_i32 (v - start) * 65535 sdiv max 1 (max 1 extent - 1)))"

definition windows_inject_mouse_move :: "'w windows_desktop \<Rightarrow> i32 \<Rightarrow> i32 \<Rightarrow> 'w \<Rightarrow> 'w" where
  "windows_inject_mouse_move D x y w =
     (let input = WiMouse (normalized_axis x (wd_left D w) (wd_width D w)) (normalized_axis y (wd_top D w) (wd_height D w)) 0
            (MOUSEEVENTF_MOVE OR MOUSEEVENTF_ABSOLUTE OR MOUSEEVENTF_VIRTUALDESK);
          (sent, w1) = wd_send D input w
      in if sent then w1 else wd_set_cursor D x y w1)"

fun windows_button_flag :: "mouse_button \<Rightarrow> bool \<Rightarrow> u32 \<times> u32" where
  "windows_button_flag MLeft down = (if down then MOUSEEVENTF_LEFTDOWN else MOUSEEVENTF_LEFTUP, 0)"
| "windows_button_flag MRight down = (if down then MOUSEEVENTF_RIGHTDOWN else MOUSEEVENTF_RIGHTUP, 0)"
| "windows_button_flag MMiddle down = (if down then MOUSEEVENTF_MIDDLEDOWN else MOUSEEVENTF_MIDDLEUP, 0)"
| "windows_button_flag MBack down = (if down then MOUSEEVENTF_XDOWN else MOUSEEVENTF_XUP, 1)"
| "windows_button_flag MForward down = (if down then MOUSEEVENTF_XDOWN else MOUSEEVENTF_XUP, 2)"

definition windows_inject_mouse_button ::
  "'w windows_desktop \<Rightarrow> mouse_button \<Rightarrow> bool \<Rightarrow> i32 \<Rightarrow> i32 \<Rightarrow> 'w \<Rightarrow> 'w" where
  "windows_inject_mouse_button D button down x y w =
     (let w1 = (if x \<noteq> 0 \<or> y \<noteq> 0 then windows_inject_mouse_move D x y w else w);
          (flag, mouse_data) = windows_button_flag button down
      in windows_send D (WiMouse 0 0 mouse_data flag) w1)"

definition windows_inject_scroll :: "'w windows_desktop \<Rightarrow> i32 \<Rightarrow> i32 \<Rightarrow> 'w \<Rightarrow> 'w" where
  "windows_inject_scroll D delta_x delta_y w =
     fold (\<lambda>(flag, delta) w. if delta = 0 then w else windows_send D (WiMouse 0 0 (word_of_int (delta * 120)) flag) w)
       [(MOUSEEVENTF_WHEEL, delta_y), (MOUSEEVENTF_HWHEEL, delta_x)] w"

definition is_extended_key_vk :: "u16 \<Rightarrow> bool" where
  "is_extended_key_vk vk \<longleftrightarrow> vk \<in> {0x21, 0x22, 0x23, 0x24, 0x25, 0x26, 0x27, 0x28, 0x2C, 0x2D, 0x2E, 0x5B, 0x5C, 0x5D,
     0x6F, 0x90, 0xA3, 0xA5}"

definition windows_inject_key :: "'w windows_desktop \<Rightarrow> u16 \<Rightarrow> bool \<Rightarrow> 'w \<Rightarrow> 'w" where
  "windows_inject_key D key_code down w =
     windows_send D (WiKey key_code (wd_scan D key_code)
       ((if down then 0 else KEYEVENTF_KEYUP) OR (if is_extended_key_vk key_code then KEYEVENTF_EXTENDEDKEY else 0))) w"

section \<open>The port of the receiver\<close>

fun windows_inject_command :: "'w windows_desktop \<Rightarrow> input_command \<Rightarrow> 'w \<Rightarrow> 'w" where
  "windows_inject_command D (IC_MouseMove x y drag) w = windows_inject_mouse_move D x y w"
| "windows_inject_command D (IC_MouseButton button down x y) w = windows_inject_mouse_button D button down x y w"
| "windows_inject_command D (IC_Scroll delta_x delta_y) w = windows_inject_scroll D delta_x delta_y w"
| "windows_inject_command D (IC_Key key_code down) w = windows_inject_key D key_code down w"
| "windows_inject_command D IC_ReleaseAll w = w"
| "windows_inject_command D IC_SecureAttention w = w"

definition windows_injector_port :: "'w windows_desktop \<Rightarrow> 'w injector_port" where
  "windows_injector_port D =
     \<lparr>readiness = (\<lambda>_. Inr ()), post_event = (\<lambda>event w. (Inr (), windows_inject_command D event w))\<rparr>"

section \<open>The record of the helper\<close>

record pressed_inputs =
  pi_keys :: "u16 list"
  pi_mask :: u64

definition track_pressed_inputs :: "input_command \<Rightarrow> pressed_inputs \<Rightarrow> pressed_inputs" where
  "track_pressed_inputs command p =
     (case command of
        IC_MouseButton button down _ _ \<Rightarrow>
          p\<lparr>pi_mask := (if down then pi_mask p OR mouse_button_mask button
                        else pi_mask p AND NOT (mouse_button_mask button))\<rparr>
      | IC_Key key_code down \<Rightarrow>
          p\<lparr>pi_keys := (if down then (if key_code \<in> set (pi_keys p) then pi_keys p else pi_keys p @ [key_code])
                        else filter (\<lambda>pressed. pressed \<noteq> key_code) (pi_keys p))\<rparr>
      | _ \<Rightarrow> p)"

text \<open>The commands that release what is recorded, in the order they are injected.\<close>

definition release_commands :: "pressed_inputs \<Rightarrow> input_command list" where
  "release_commands p =
     map (\<lambda>key_code. IC_Key key_code False) (rev (pi_keys p))
     @ map (\<lambda>button. IC_MouseButton button False 0 0)
         (filter (\<lambda>button. pi_mask p AND mouse_button_mask button \<noteq> 0) [MLeft, MRight, MMiddle])"

definition release_pressed_inputs ::
  "'w windows_desktop \<Rightarrow> pressed_inputs \<Rightarrow> 'w \<Rightarrow> pressed_inputs \<times> 'w" where
  "release_pressed_inputs D p w =
     (\<lparr>pi_keys = [], pi_mask = 0\<rparr>, fold (windows_inject_command D) (release_commands p) w)"

definition inject_command ::
  "'w windows_desktop \<Rightarrow> ('w \<Rightarrow> 'w) \<Rightarrow> input_command \<Rightarrow> pressed_inputs \<Rightarrow> 'w \<Rightarrow> pressed_inputs \<times> 'w" where
  "inject_command D send_secure_attention command p w =
     (if command = IC_ReleaseAll then release_pressed_inputs D p w
      else (track_pressed_inputs command p,
        if command = IC_SecureAttention then send_secure_attention w else windows_inject_command D command w))"

end
