(* ===== verification/Injector_Behaviour.thy ===== *)
theory Injector_Behaviour
  imports Native_Injector Windows_Injector
begin

text \<open>
  The key tables are inverse to each other, repeated clicks are counted as the user means them, every pixel of
  a Windows desktop has a place of its own on the scale of its pointer events, and the record of the
  privileged helper releases what it can.
\<close>

section \<open>Key tables\<close>

text \<open>The three keys of Windows that do not name a side stand for the left one.\<close>

definition sided :: "u16 \<Rightarrow> u16" where
  "sided vk = (if vk = 0x10 then 0xA0 else if vk = 0x11 then 0xA2 else if vk = 0x12 then 0xA4 else vk)"

lemma pairs_inverse: "list_all (\<lambda>(mac, vk). mac_key_to_windows_vk mac = Some (sided vk)) mac_key_to_windows_vk_pairs"
  by code_simp

lemma windows_keys_covered:
  "list_all (\<lambda>(_, vk). windows_vk_to_mac_key vk \<noteq> None \<and> sided vk = vk) mac_to_windows"
  by code_simp

text \<open>The key tables agree: a key of Windows that has a key of macOS is the key that key sends back, up to the
  side of a modifier, and every key that a Mac sends can be injected on a Mac as a key with the same meaning.\<close>

lemma key_tables_inverse:
  "(windows_vk_to_mac_key vk = Some mac \<longrightarrow> mac_key_to_windows_vk mac = Some (sided vk))
   \<and> (mac_key_to_windows_vk mac = Some vk \<longrightarrow>
      (\<exists>mac'. windows_vk_to_mac_key vk = Some mac' \<and> mac_key_to_windows_vk mac' = Some vk))"
proof -
  have inverse: "mac_key_to_windows_vk m = Some (sided v)" if "windows_vk_to_mac_key v = Some m" for v m
  proof -
    from that have "(m, v) \<in> set mac_key_to_windows_vk_pairs"
      by (auto simp: windows_vk_to_mac_key_def find_Some_iff in_set_conv_nth)
    with pairs_inverse show ?thesis by (auto simp: list_all_iff)
  qed
  moreover have "\<exists>mac'. windows_vk_to_mac_key vk = Some mac' \<and> mac_key_to_windows_vk mac' = Some vk"
    if "mac_key_to_windows_vk mac = Some vk"
  proof -
    from that have "(mac, vk) \<in> set mac_to_windows" by (simp add: mac_key_to_windows_vk_def map_of_SomeD)
    with windows_keys_covered obtain mac' where "windows_vk_to_mac_key vk = Some mac'" "sided vk = vk"
      by (auto simp: list_all_iff)
    with inverse [of vk mac'] show ?thesis by simp
  qed
  ultimately show ?thesis by blast
qed

lemma key_tables_example:
  "mac_key_to_windows_vk 0 = Some 0x41
   \<and> (\<exists>mac'. windows_vk_to_mac_key 0x6D = Some mac' \<and> mac_key_to_windows_vk mac' = Some 0x6D)"
proof -
  have "windows_vk_to_mac_key 0x41 = Some 0" "sided 0x41 = 0x41" "mac_key_to_windows_vk 81 = Some 0x6D" by code_simp+
  with key_tables_inverse [of "0x41" 0] key_tables_inverse [of "0x6D" 81] show ?thesis by simp
qed

section \<open>Clicks\<close>

text \<open>
  Clicks of one button: the point and the time of each press and the point of its release, and the click states
  they get.
\<close>

type_synonym click_at = "(i32 \<times> i32 \<times> rat) \<times> i32 \<times> i32"

fun clicks :: "mouse_button \<Rightarrow> rat \<Rightarrow> click_at list \<Rightarrow> mac_click_tracker \<Rightarrow> int list" where
  "clicks b interval [] t = []"
| "clicks b interval (((x, y, now), x', y') # ps) t =
     (let (n, t1) = event_count b True x y now interval t;
          (m, t2) = event_count b False x' y' now interval t1
      in n # m # clicks b interval ps t2)"

text \<open>Each press follows the one before it in time and place, and each release is near its press.\<close>

definition follows_click :: "rat \<Rightarrow> i32 \<times> i32 \<times> rat \<Rightarrow> i32 \<times> i32 \<times> rat \<Rightarrow> bool" where
  "follows_click interval = (\<lambda>(x, y, s) (x', y', s'). s' - s \<le> interval \<and> click_points_are_near x y x' y' MAX_DISTANCE_PX)"

definition rapid :: "rat \<Rightarrow> click_at list \<Rightarrow> bool" where
  "rapid interval ps \<longleftrightarrow> successively (\<lambda>p q. follows_click interval (fst p) (fst q)) ps
     \<and> list_all (\<lambda>((x, y, _), x', y'). click_points_are_near x y x' y' MAX_DISTANCE_PX) ps"

text \<open>The tracker does not take the next press for the next click of an earlier series.\<close>

definition fresh_series :: "mouse_button \<Rightarrow> rat \<Rightarrow> click_at list \<Rightarrow> mac_click_tracker \<Rightarrow> bool" where
  "fresh_series b interval ps t \<longleftrightarrow> (\<forall>prev p. ct_last_down t = Some prev \<and> take 1 ps = [p] \<longrightarrow>
     cd_button prev \<noteq> b \<or> \<not> follows_click interval (cd_x prev, cd_y prev, cd_at prev) (fst p))"

lemma clicks_from:
  assumes "click_index b = Some k" and "length (ct_pressed t) = 3" and "0 \<le> interval" and "rapid interval ps"
    and "\<And>x y now x' y' rest. ps = ((x, y, now), x', y') # rest \<Longrightarrow> fst (event_count b True x y now interval t) = int (min 3 (Suc n))"
  shows "clicks b interval ps t = concat (map (\<lambda>i. [int (min 3 (Suc n + i)), int (min 3 (Suc n + i))]) [0..<length ps])"
  using assms(2,4,5)
proof (induction ps arbitrary: t n)
  case (Cons p ps)
  obtain x y now x' y' where p: "p = ((x, y, now), x', y')" by (metis prod_cases3 prod.exhaust)
  have k: "k < 3" using assms(1) by (cases b) auto
  have here: "fst (event_count b True x y now interval t) = int (min 3 (Suc n))" using Cons.prems(3) p by blast
  obtain t1 where down: "event_count b True x y now interval t = (int (min 3 (Suc n)), t1)"
    and t1: "ct_last_down t1 = Some \<lparr>cd_button = b, cd_x = x, cd_y = y, cd_at = now, cd_count = min 3 (Suc n)\<rparr>"
      "length (ct_pressed t1) = 3" "ct_pressed t1 ! k = ct_last_down t1"
    using here Cons.prems(1) assms(1) k by (fastforce simp: event_count_def Let_def)
  define t2 where "t2 = t1\<lparr>ct_pressed := (ct_pressed t1)[k := None]\<rparr>"
  have near: "click_points_are_near x y x' y' MAX_DISTANCE_PX" using Cons.prems(2) p by (simp add: rapid_def)
  have up: "event_count b False x' y' now interval t1 = (int (min 3 (Suc n)), t2)"
    using assms(1) t1 near by (simp add: event_count_def t2_def)
  have tail: "rapid interval ps" "length (ct_pressed t2) = 3"
    using Cons.prems(2) t1 by (auto simp: rapid_def t2_def successively_Cons)
  have "clicks b interval ps t2 = concat (map (\<lambda>i. [int (min 3 (Suc (Suc n) + i)), int (min 3 (Suc (Suc n) + i))]) [0..<length ps])"
  proof (rule Cons.IH [OF tail(2,1)])
    fix x2 y2 now2 x2' y2' rest assume "ps = ((x2, y2, now2), x2', y2') # rest"
    then have "now2 - now \<le> interval" "click_points_are_near x y x2 y2 MAX_DISTANCE_PX"
      using Cons.prems(2) p by (simp_all add: rapid_def follows_click_def)
    then show "fst (event_count b True x2 y2 now2 interval t2) = int (min 3 (Suc (Suc n)))"
      using assms(1,3) t1 by (auto simp: event_count_def t2_def Let_def)
  qed
  moreover have "[0..<length (p # ps)] = 0 # map Suc [0..<length ps]"
    by (simp add: map_Suc_upt upt_conv_Cons del: upt_Suc)
  ultimately show ?case using p down up by (simp add: o_def del: upt_Suc)
qed simp

lemma first_click:
  assumes "click_index b = Some k" and "fresh_series b interval (((x, y, now), x', y') # rest) t" and "0 \<le> interval"
  shows "fst (event_count b True x y now interval t) = 1"
  using assms by (auto simp: event_count_def fresh_series_def follows_click_def Let_def split: option.split)

lemma side_clicks: "click_index b = None \<Longrightarrow> clicks b interval ps t = concat (replicate (length ps) [1, 0])"
proof (induction ps)
  case (Cons p ps)
  obtain x y now x' y' where "p = ((x, y, now), x', y')" by (metis prod_cases3 prod.exhaust)
  with Cons show ?case by (simp add: event_count_def)
qed simp

text \<open>C40. Clicks of the left, the right and the middle button are counted as on a physical mouse: in a series of clicks,
  each within the double-click interval and a few pixels of the one before and released near its press, that does
  not continue an earlier series, the first is a single click, the second a double click and every later one a
  triple click, and each release carries the count of its press. The back and forward buttons do not count
  clicks: every press is 1 and every release 0.\<close>

theorem rapid_clicks_counted:
  assumes "length (ct_pressed t) = 3" and "0 \<le> interval" and "rapid interval ps" and "fresh_series b interval ps t"
  shows "clicks b interval ps t =
    (if b = MBack \<or> b = MForward then concat (replicate (length ps) [1, 0])
     else concat (map (\<lambda>i. [int (min 3 (Suc i)), int (min 3 (Suc i))]) [0..<length ps]))"
proof (cases "click_index b")
  case None
  then have "b = MBack \<or> b = MForward" by (cases b) auto
  with side_clicks [OF None] show ?thesis by simp
next
  case (Some k)
  then have "\<not> (b = MBack \<or> b = MForward)" by auto
  moreover have "clicks b interval ps t = concat (map (\<lambda>i. [int (min 3 (Suc 0 + i)), int (min 3 (Suc 0 + i))]) [0..<length ps])"
    by (rule clicks_from [OF Some assms(1-3)]) (use first_click [OF Some _ assms(2)] assms(4) in auto)
  ultimately show ?thesis by simp
qed

theorem rapid_clicks_counted_witness:
  "clicks MLeft (1 / 2) [((5, 5, 0), 5, 6), ((6, 5, 1 / 4), 6, 5), ((6, 6, 1 / 2), 6, 6), ((6, 6, 3 / 4), 6, 6)] click_tracker_default
     = [1, 1, 2, 2, 3, 3, 3, 3]"
proof -
  have "rapid (1 / 2) [((5, 5, 0), 5, 6), ((6, 5, 1 / 4), 6, 5), ((6, 6, 1 / 2), 6, 6), ((6, 6, 3 / 4), 6, 6)]"
    by (simp add: rapid_def follows_click_def click_points_are_near_def MAX_DISTANCE_PX_def)
  from rapid_clicks_counted [OF _ _ this, of click_tracker_default MLeft] show ?thesis
    by (simp add: upt_rec click_tracker_default_def fresh_series_def)
qed

text \<open>A press that is released elsewhere was a drag: it counts for nothing, and the next press starts anew.\<close>

lemma drag_is_no_click:
  assumes "click_index b = Some k" and "length (ct_pressed t) = 3"
    and "\<not> click_points_are_near x y x' y' MAX_DISTANCE_PX"
    and "event_count b True x y s interval t = (n, t1)" and "event_count b False x' y' s' interval t1 = (m, t2)"
  shows "m = 0" and "fst (event_count b True x'' y'' s'' interval t2) = 1"
proof -
  have "k < 3" using assms(1) by (cases b) auto
  with assms show "m = 0" "fst (event_count b True x'' y'' s'' interval t2) = 1"
    by (auto simp: event_count_def Let_def)
qed

section \<open>The pointer on Windows\<close>

lemma normalized_inside:
  assumes "0 \<le> d" and "d < extent" and "2 \<le> extent" and "extent \<le> 65536"
  shows "normalized_axis (start + d) start extent = d * 65535 div (extent - 1)" (is "?l = ?q")
    and "0 \<le> d * 65535 div (extent - 1)" and "d * 65535 div (extent - 1) \<le> 65535"
proof -
  from assms show lower: "0 \<le> ?q" by (simp add: pos_imp_zdiv_nonneg_iff)
  have "?q \<le> (extent - 1) * 65535 div (extent - 1)" using assms by (intro zdiv_mono1) auto
  also have "\<dots> = 65535" using assms by (intro nonzero_mult_div_cancel_left) simp
  finally show upper: "?q \<le> 65535" .
  have "d * 65535 sdiv (extent - 1) = ?q"
    using assms lower by (cases "d = 0") (simp_all add: signed_divide_int_def)
  moreover have "wrap_i32 d = d" "wrap_i32 ?q = ?q" using assms lower upper by (auto simp: is_i32_def)
  ultimately show "?l = ?q" using assms lower upper by (simp add: normalized_axis_def clamp_def)
qed

text \<open>Every pixel of a desktop has its own place: on an axis of two to 65536 pixels the places of the
  first and the last are the ends of the scale, later pixels have later places, and all of them are on it.\<close>

lemma pixels_have_places:
  assumes "2 \<le> extent" and "extent \<le> 65536" and "start \<le> v" and "v < w" and "w < start + extent"
  shows "normalized_axis v start extent < normalized_axis w start extent
    \<and> 0 \<le> normalized_axis v start extent \<and> normalized_axis w start extent \<le> 65535
    \<and> normalized_axis start start extent = 0 \<and> normalized_axis (start + extent - 1) start extent = 65535"
proof -
  have v: "normalized_axis v start extent = (v - start) * 65535 div (extent - 1)" "0 \<le> normalized_axis v start extent"
    using assms normalized_inside(2,3) [where d = "v - start" and extent = extent]
      normalized_inside(1) [where d = "v - start" and extent = extent and start = start] by simp_all
  have w: "normalized_axis w start extent = (w - start) * 65535 div (extent - 1)" "normalized_axis w start extent \<le> 65535"
    using assms normalized_inside(2,3) [where d = "w - start" and extent = extent]
      normalized_inside(1) [where d = "w - start" and extent = extent and start = start] by simp_all
  have "(v - start) * 65535 div (extent - 1) + 1 = ((v - start) * 65535 + (extent - 1)) div (extent - 1)"
    using assms by simp
  also have "\<dots> \<le> (w - start) * 65535 div (extent - 1)" using assms by (intro zdiv_mono1) (auto simp: algebra_simps)
  finally have "normalized_axis v start extent < normalized_axis w start extent" using v w by simp
  moreover have "normalized_axis start start extent = 0" using assms normalized_inside(1) [where d = 0 and extent = extent and start = start] by simp
  moreover have "(extent - 1) * 65535 div (extent - 1) = 65535" using assms by (intro nonzero_mult_div_cancel_left) simp
  then have "normalized_axis (start + extent - 1) start extent = 65535"
    using assms normalized_inside(1) [where d = "extent - 1" and extent = extent and start = start] by (simp add: add_diff_eq)
  ultimately show ?thesis using v w by simp
qed

lemma pixels_have_places_example: "normalized_axis (-1920) (-1920) 3840 < normalized_axis 0 (-1920) 3840"
  using pixels_have_places [where start = "-1920" and extent = 3840 and v = "-1920" and w = 0] by simp

section \<open>The record of the helper\<close>

text \<open>
  What an input does to the keys and buttons that Windows holds, by the documentation of \<open>SendInput\<close>: the flags
  that press and release each button, and the number of a side button.
\<close>

fun button_flags :: "mouse_button \<Rightarrow> u32 \<times> u32 \<times> u32 option" where
  "button_flags MLeft = (0x2, 0x4, None)"
| "button_flags MRight = (0x8, 0x10, None)"
| "button_flags MMiddle = (0x20, 0x40, None)"
| "button_flags MBack = (0x80, 0x100, Some 1)"
| "button_flags MForward = (0x80, 0x100, Some 2)"

definition pressed_by :: "u32 \<Rightarrow> u32 \<Rightarrow> mouse_button \<Rightarrow> bool" where
  "pressed_by flags data b \<longleftrightarrow> (case button_flags b of (down, _, number) \<Rightarrow> flags AND down \<noteq> 0 \<and> (number = None \<or> number = Some data))"

definition released_by :: "u32 \<Rightarrow> u32 \<Rightarrow> mouse_button \<Rightarrow> bool" where
  "released_by flags data b \<longleftrightarrow> (case button_flags b of (_, up, number) \<Rightarrow> flags AND up \<noteq> 0 \<and> (number = None \<or> number = Some data))"

fun input_effect :: "windows_input \<Rightarrow> os_input \<Rightarrow> os_input" where
  "input_effect (WiKey vk scan flags) (K, B) = (if flags AND 0x2 = 0 then insert vk K else K - {vk}, B)"
| "input_effect (WiMouse dx dy data flags) (K, B) = (K, (B \<union> {b. pressed_by flags data b}) - {b. released_by flags data b})"

text \<open>A desktop that takes every input; \<open>held\<close> is what it holds. Setting the cursor touches no key.\<close>

definition desktop_takes :: "'w windows_desktop \<Rightarrow> ('w \<Rightarrow> os_input) \<Rightarrow> bool" where
  "desktop_takes D held \<longleftrightarrow>
     (\<forall>i w. fst (wd_send D i w) \<and> held (snd (wd_send D i w)) = input_effect i (held w))
     \<and> (\<forall>x y w. held (wd_set_cursor D x y w) = held w)"

lemma sent_effect: "desktop_takes D held \<Longrightarrow> held (windows_send D i w) = input_effect i (held w)"
  by (simp add: desktop_takes_def windows_send_def)

lemmas windows_flags = MOUSEEVENTF_MOVE_def MOUSEEVENTF_LEFTDOWN_def MOUSEEVENTF_LEFTUP_def MOUSEEVENTF_RIGHTDOWN_def
  MOUSEEVENTF_RIGHTUP_def MOUSEEVENTF_MIDDLEDOWN_def MOUSEEVENTF_MIDDLEUP_def MOUSEEVENTF_XDOWN_def MOUSEEVENTF_XUP_def
  MOUSEEVENTF_WHEEL_def MOUSEEVENTF_HWHEEL_def MOUSEEVENTF_VIRTUALDESK_def MOUSEEVENTF_ABSOLUTE_def
  KEYEVENTF_EXTENDEDKEY_def KEYEVENTF_KEYUP_def

lemma all_buttons: "(\<forall>b. P b) \<longleftrightarrow> P MLeft \<and> P MRight \<and> P MMiddle \<and> P MBack \<and> P MForward"
  by (metis mouse_button.exhaust)

lemma button_set_eq: "A = B \<longleftrightarrow> (\<forall>b :: mouse_button. b \<in> A \<longleftrightarrow> b \<in> B)"
  by auto

lemma no_button:
  assumes "flags AND 0x1FE = 0"
  shows "input_effect (WiMouse dx dy data flags) os = os"
proof -
  have none: "flags AND m = 0" if "m AND 0x1FE = m" for m
  proof -
    have "flags AND m = flags AND (m AND 0x1FE)" using that by simp
    also have "\<dots> = (flags AND 0x1FE) AND m" by (simp only: and.assoc and.commute and.left_commute)
    finally show ?thesis using assms by simp
  qed
  have "flags AND 0x2 = 0" "flags AND 0x4 = 0" "flags AND 0x8 = 0" "flags AND 0x10 = 0" "flags AND 0x20 = 0"
    "flags AND 0x40 = 0" "flags AND 0x80 = 0" "flags AND 0x100 = 0"
    by (rule none, simp)+
  then have "\<not> pressed_by flags data b" "\<not> released_by flags data b" for b
    by (cases b; simp add: pressed_by_def released_by_def)+
  then have "{b. pressed_by flags data b} = {}" "{b. released_by flags data b} = {}" by simp_all
  then show ?thesis by (cases os) (simp only: input_effect.simps Un_empty_right Diff_empty)
qed

lemma move_effect:
  assumes "desktop_takes D held"
  shows "held (windows_inject_mouse_move D x y w) = held w"
proof -
  define input where "input = WiMouse (normalized_axis x (wd_left D w) (wd_width D w)) (normalized_axis y (wd_top D w) (wd_height D w)) 0
      (MOUSEEVENTF_MOVE OR MOUSEEVENTF_ABSOLUTE OR MOUSEEVENTF_VIRTUALDESK)"
  have "input_effect input (held w) = held w" unfolding input_def by (rule no_button) (simp add: windows_flags)
  moreover obtain taken w1 where send: "wd_send D input w = (taken, w1)" by fastforce
  moreover have "fst (wd_send D input w) \<and> held (snd (wd_send D input w)) = input_effect input (held w)"
    using assms by (simp add: desktop_takes_def)
  ultimately show ?thesis by (simp add: windows_inject_mouse_move_def input_def [symmetric] Let_def)
qed

lemma button_effect:
  "(case windows_button_flag b down of (flag, data) \<Rightarrow> input_effect (WiMouse 0 0 data flag) (K, B))
     = (K, if down then insert b B else B - {b})"
  by (cases b; cases down)
    (simp_all add: windows_flags pressed_by_def released_by_def button_set_eq all_buttons)

lemma scroll_effect:
  assumes "desktop_takes D held"
  shows "held (windows_inject_scroll D dx dy w) = held w"
proof -
  have "input_effect (WiMouse 0 0 data MOUSEEVENTF_WHEEL) os = os" "input_effect (WiMouse 0 0 data MOUSEEVENTF_HWHEEL) os = os"
    for data os by (rule no_button, simp add: windows_flags)+
  then show ?thesis by (simp add: windows_inject_scroll_def sent_effect [OF assms])
qed

lemma key_effect:
  assumes "desktop_takes D held" and "held w = (K, B)"
  shows "held (windows_inject_key D k down w) = (if down then insert k K else K - {k}, B)"
  using assms(2) by (simp add: windows_inject_key_def sent_effect [OF assms(1)] windows_flags)

lemma click_effect:
  assumes "desktop_takes D held" and "held w = (K, B)"
  shows "held (windows_inject_mouse_button D b down x y w) = (K, if down then insert b B else B - {b})"
proof -
  obtain flag data where flag: "windows_button_flag b down = (flag, data)" by fastforce
  have "input_effect (WiMouse 0 0 data flag) (K, B) = (K, if down then insert b B else B - {b})"
    using button_effect [where b = b and down = down and K = K and B = B] flag by simp
  with flag assms(2) show ?thesis
    by (simp only: windows_inject_mouse_button_def Let_def prod.case sent_effect [OF assms(1)] move_effect [OF assms(1)]
        if_distrib [of held] if_cancel)
qed

text \<open>Injecting a command does to the system what the command says.\<close>

lemma command_effect:
  assumes "desktop_takes D held" and "c \<noteq> IC_ReleaseAll"
  shows "held (windows_inject_command D c w) = os_apply c (held w)"
proof -
  obtain K B where held: "held w = (K, B)" by fastforce
  with assms show ?thesis
    by (cases c) (simp_all add: move_effect scroll_effect key_effect click_effect)
qed

subsection \<open>Tracking and releasing\<close>

fun button_slot :: "mouse_button \<Rightarrow> nat" where
  "button_slot MLeft = 0" | "button_slot MRight = 1" | "button_slot MMiddle = 2"
| "button_slot MBack = 3" | "button_slot MForward = 4"

lemma mask_of_slot: "mouse_button_mask b = push_bit (button_slot b) 1"
  by (cases b) (simp_all add: button_mask_defs)

lemma slot_eq: "button_slot a = button_slot b \<longleftrightarrow> a = b" "button_slot b < 64"
  by (cases a; cases b; simp) (cases b; simp)

lemma bit_mask: "bit (mouse_button_mask a) (button_slot b) \<longleftrightarrow> a = b"
  by (cases a; cases b) (simp_all add: button_mask_defs)

lemma mask_set: "m AND mouse_button_mask b \<noteq> 0 \<longleftrightarrow> bit m (button_slot b)"
  unfolding mask_of_slot push_bit_of_1 and_exp_eq_0_iff_not_bit by simp

definition no_inputs :: pressed_inputs where
  "no_inputs = \<lparr>pi_keys = [], pi_mask = 0\<rparr>"

text \<open>
  The record covers what the system holds, but for a side button that was held when everything was released.
\<close>

definition recorded :: "pressed_inputs \<Rightarrow> os_input \<Rightarrow> bool" where
  "recorded p os \<longleftrightarrow> set (pi_keys p) = fst os
     \<and> (\<forall>b\<in>{MLeft, MRight, MMiddle}. bit (pi_mask p) (button_slot b) \<longleftrightarrow> b \<in> snd os)
     \<and> (\<forall>b. bit (pi_mask p) (button_slot b) \<longrightarrow> b \<in> snd os)"

lemma track_records:
  assumes "recorded p os" and "c \<noteq> IC_ReleaseAll"
  shows "recorded (track_pressed_inputs c p) (os_apply c os)"
proof (cases c)
  case (IC_MouseButton button down x y)
  with assms show ?thesis
    by (cases os) (auto simp: track_pressed_inputs_def recorded_def bit_mask bit_or_iff bit_and_iff bit_not_iff slot_eq
      simp del: button_slot.simps mouse_button_mask.simps)
next
  case (IC_Key k down)
  with assms show ?thesis by (cases os) (auto simp: track_pressed_inputs_def recorded_def)
qed (use assms in \<open>cases os; simp add: track_pressed_inputs_def recorded_def\<close>)+

lemma key_ups: "fold os_apply (map (\<lambda>k. IC_Key k False) ks) (K, B) = (K - set ks, B)"
  by (induction ks arbitrary: K) auto

lemma button_ups: "fold os_apply (map (\<lambda>b. IC_MouseButton b False 0 0) bs) (K, B) = (K, B - set bs)"
  by (induction bs arbitrary: B) auto

lemma commands_effect:
  assumes "desktop_takes D held"
  shows "IC_ReleaseAll \<notin> set cs \<Longrightarrow> held (fold (windows_inject_command D) cs w) = fold os_apply cs (held w)"
  by (induction cs arbitrary: w) (auto simp: command_effect [OF assms])

lemma release_effect:
  assumes "desktop_takes D held" and "recorded p (held w)"
  shows "held (fold (windows_inject_command D) (release_commands p) w) = ({}, snd (held w) \<inter> {MBack, MForward})"
proof -
  obtain K B where held: "held w = (K, B)" by fastforce
  have plain: "IC_ReleaseAll \<notin> set (release_commands p)" by (auto simp: release_commands_def)
  have "fold os_apply (release_commands p) (K, B)
      = (K - set (pi_keys p), B - set (filter (\<lambda>b. pi_mask p AND mouse_button_mask b \<noteq> 0) [MLeft, MRight, MMiddle]))"
    unfolding release_commands_def fold_append o_apply key_ups button_ups set_rev ..
  also have "\<dots> = ({}, B \<inter> {MBack, MForward})"
  proof -
    have "K - set (pi_keys p) = {}" using assms(2) held by (simp add: recorded_def)
    moreover have "B - set (filter (\<lambda>b. pi_mask p AND mouse_button_mask b \<noteq> 0) [MLeft, MRight, MMiddle]) = B \<inter> {MBack, MForward}"
      using assms(2) held unfolding mask_set by (simp add: button_set_eq all_buttons recorded_def)
    ultimately show ?thesis by simp
  qed
  finally show ?thesis using commands_effect [OF assms(1) plain] held by simp
qed

text \<open>The commands the helper receives, one after the other.\<close>

definition helper_run ::
  "'w windows_desktop \<Rightarrow> ('w \<Rightarrow> 'w) \<Rightarrow> input_command list \<Rightarrow> 'w \<Rightarrow> pressed_inputs \<times> 'w" where
  "helper_run D sas cs w = fold (\<lambda>c (p, w). inject_command D sas c p w) cs (no_inputs, w)"

lemma inject_records:
  assumes "desktop_takes D held" and "\<And>w. held (sas w) = held w" and "recorded p (held w)"
    and "inject_command D sas c p w = (p', w')"
  shows "recorded p' (held w')"
proof (cases "c = IC_ReleaseAll")
  case True
  with assms(4) have "p' = no_inputs" "w' = fold (windows_inject_command D) (release_commands p) w"
    by (simp_all add: inject_command_def release_pressed_inputs_def no_inputs_def)
  then show ?thesis using release_effect [OF assms(1,3)] by (auto simp: recorded_def no_inputs_def)
next
  case False
  have "held w' = os_apply c (held w)" using assms(4) False command_effect [OF assms(1) False] assms(2)
    by (cases "held w") (auto simp: inject_command_def split: if_splits)
  with track_records [OF assms(3) False] assms(4) False show ?thesis by (auto simp: inject_command_def split: if_splits)
qed

lemma helper_records:
  assumes "desktop_takes D held" and "\<And>w. held (sas w) = held w" and "recorded p (held w)"
  shows "fold (\<lambda>c (p, w). inject_command D sas c p w) cs (p, w) = (p', w') \<Longrightarrow> recorded p' (held w')"
  using assms(3)
proof (induction cs arbitrary: p w)
  case (Cons c cs)
  obtain p1 w1 where step: "inject_command D sas c p w = (p1, w1)" by fastforce
  from Cons.IH [of p1 w1] inject_records [OF assms(1,2) Cons.prems(2) step] Cons.prems(1) step show ?case by simp
qed simp

text \<open>C39. What the privileged helper holds, it releases, except the side buttons. On a desktop that takes every input,
  whatever commands the helper received before, releases among them, from a state in which nothing was held, its
  release of everything leaves no key and none of the left, right and middle buttons held. A back or forward
  button that was held stays held, and the record forgets it: it is empty, and releasing again does nothing.\<close>

theorem helper_releases:
  assumes "desktop_takes D held" and "\<And>w. held (sas w) = held w" and "held w0 = ({}, {})"
    and "helper_run D sas cs w0 = (p, w)" and "inject_command D sas IC_ReleaseAll p w = (p', w')"
  shows "held w' = ({}, snd (held w) \<inter> {MBack, MForward}) \<and> p' = no_inputs
    \<and> inject_command D sas IC_ReleaseAll p' w' = (p', w')"
proof -
  have "recorded no_inputs (held w0)" by (simp add: assms(3) recorded_def no_inputs_def)
  from helper_records [OF assms(1,2) this assms(4) [unfolded helper_run_def]] have "recorded p (held w)" .
  from release_effect [OF assms(1) this] assms(5) show ?thesis
    by (auto simp: inject_command_def release_pressed_inputs_def release_commands_def no_inputs_def)
qed

text \<open>A desktop whose state is what it holds: a key, the left and the back button are pressed and released.\<close>

definition demo_desktop_api :: "os_input windows_desktop" where
  "demo_desktop_api = \<lparr>wd_left = (\<lambda>_. 0), wd_top = (\<lambda>_. 0), wd_width = (\<lambda>_. 1920), wd_height = (\<lambda>_. 1080),
     wd_send = (\<lambda>i w. (True, input_effect i w)), wd_set_cursor = (\<lambda>_ _ w. w), wd_scan = (\<lambda>_. 0)\<rparr>"

theorem helper_releases_witness:
  "\<exists>p w. helper_run demo_desktop_api id [IC_Key 65 True, IC_ReleaseAll, IC_MouseButton MLeft True 5 5, IC_MouseButton MBack True 0 0]
       ({}, {}) = (p, w) \<and> w = ({}, {MLeft, MBack}) \<and> snd (inject_command demo_desktop_api id IC_ReleaseAll p w) = ({}, {MBack})"
proof -
  let ?cs = "[IC_Key 65 True, IC_ReleaseAll, IC_MouseButton MLeft True 5 5, IC_MouseButton MBack True 0 0]"
  have takes: "desktop_takes demo_desktop_api id" by (simp add: desktop_takes_def demo_desktop_api_def)
  obtain p w where run: "helper_run demo_desktop_api id ?cs ({}, {}) = (p, w)" by (rule prod.exhaust)
  obtain p' w' where final: "inject_command demo_desktop_api id IC_ReleaseAll p w = (p', w')" by (rule prod.exhaust)
  have inject: "windows_inject_key demo_desktop_api k down (K, B) = (if down then insert k K else K - {k}, B)"
    "windows_inject_mouse_button demo_desktop_api b down x y (K, B) = (K, if down then insert b B else B - {b})"
    for k b down x y K B
    using key_effect [OF takes, of "(K, B)"] click_effect [OF takes, of "(K, B)"] by simp_all
  have "w = ({}, {MLeft, MBack})"
    using run by (auto simp: helper_run_def inject_command_def release_pressed_inputs_def release_commands_def no_inputs_def
        track_pressed_inputs_def inject)
  with helper_releases [OF takes _ _ run final] run final show ?thesis by auto
qed

end
