(* ===== verification/Spec2Isabelle.thy ===== *)
theory Spec2Isabelle
  imports Handoff Game_Mode Session_Link End_To_End Clipboard_Network
    Transport_Delivery Transport_Trust Transport_Health Transport_Motion
    Client_Safety Clipboard_Handler Pairing_Safety Settings_Rules Peer_Rules
    Hotkey_Rules Edge_Rules Windows_Rules Windows_Faults
    Injector_Rules Injector_Behaviour
begin

text \<open>
  A verification development for mykvm, a software KVM: one computer, the controller, lends its keyboard,
  mouse and clipboard to others, the receivers, over an authenticated QUIC connection on the local network.
  The code is the Rust crate under \<open>src/src-tauri/src\<close>; file names below are relative to it.

  \<^bold>\<open>The program.\<close> Hooks of the operating system hand events to the controller's client loop
  (\<open>controller_client.rs\<close>). Its runtime (\<open>controller_runtime.rs\<close>) joins two machines: the router
  (\<open>routing.rs\<close>), which decides whether input stays local, is being handed over or is remote, and the
  controller's half of the session handshake (\<open>protocol_v2.rs\<close>). Any thread may take the input back at any
  moment through one atomic cell, the local override. Input goes out as numbered critical frames, as
  pointer motion where only the newest position counts, and as control frames. The transport
  (\<open>quic_transport.rs\<close>) authenticates the peer by its pinned certificate and carries these lanes within
  fixed memory. The receiver's runtime (\<open>session_runtime.rs\<close>) answers the handshake, admits the frames of
  the active session only, maps pointer positions to its displays and injects events; it keeps a ledger of
  what is held down (\<open>pressed_state.rs\<close>) so that a lost session releases every key. Clipboards are
  synchronised by an engine (\<open>clipboard_sync.rs\<close>, \<open>clipboard.rs\<close>) in which the newest copy wins. The
  application (\<open>lib.rs\<close>) discovers peers, pairs with them by a code, stores settings and the list of
  trusted certificates, and registers shortcuts, some of which act on the override (\<open>game_mode.rs\<close>).

  \<^bold>\<open>Theories.\<close> \<open>Kvm_Prelude\<close> has the machine integers, results as sums, strings as UTF-8 bytes and
  the list operations; \<open>Rust_Text\<close> the string functions of the standard library. Then, bottom up:

    \<^item> \<open>Shared_Input\<close> (\<open>shared_input.rs\<close>), \<open>Protocol_Types\<close>, \<open>Frame_Stream\<close>, \<open>Protocol_Codec\<close>,
      \<open>Handshake\<close> (\<open>protocol_v2.rs\<close>): events, frames and their validation, the incremental decoders, the
      encoders, the two handshakes and the gate of the input stream. \<open>Session_Link\<close> composes both
      handshakes over an ordered link.
    \<^item> \<open>Control_Ports\<close> (\<open>control_ports.rs\<close>): each trait is a record of operations on an abstract state.
      The contracts the components rely on are locales, interpreted on the fakes of the source.
    \<^item> \<open>Routing\<close>, \<open>Handoff\<close> (\<open>routing.rs\<close>), \<open>Game_Mode\<close> (\<open>game_mode.rs\<close>): the override, the router as a
      state machine with the interference of other threads, the abstract hand-off it refines, the hotkeys.
    \<^item> \<open>Controller_Runtime\<close>, \<open>Controller_Safety\<close> (\<open>controller_runtime.rs\<close>), \<open>Controller_Client\<close>,
      \<open>Client_Safety\<close> (\<open>controller_client.rs\<close>): the controller and its loop, with the contracts of the
      ports and of the transport as locales, the latter interpreted on the model of the QUIC transport.
    \<^item> \<open>Pressed_State\<close> (\<open>pressed_state.rs\<close>), \<open>Display_Layout\<close>, \<open>Receiver_Session\<close>, \<open>Receiver_Safety\<close>,
      \<open>Receiver_Properties\<close> (\<open>session_runtime.rs\<close>): the receiver; \<open>End_To_End\<close> joins both
      machines: of the frames numbered in a session, those before the first that the encoder refuses.
    \<^item> \<open>Transport_Types\<close>, \<open>Transport_Budget\<close>, \<open>Transport_Streams\<close>, \<open>Transport_Delivery\<close>,
      \<open>Transport_Motion\<close>, \<open>Transport_Trust\<close>, \<open>Transport_Health\<close> (\<open>quic_transport.rs\<close>): budgets, the input
      queue and the receiving loops, the motion slot up to the connection, which may drop a datagram, the
      certificate registry, fast failure and ports.
    \<^item> \<open>Clipboard_Content\<close> (\<open>clipboard.rs\<close>), \<open>Clipboard_Sync\<close>, \<open>Clipboard_Network\<close>
      (\<open>clipboard_sync.rs\<close>), \<open>Clipboard_Handler\<close> (\<open>lib.rs\<close>): content, the engine, any number of engines
      against the register on which the newest copy wins, and what the application does around them.
    \<^item> \<open>Layout_State\<close>, \<open>Shortcuts\<close>, \<open>Peer_Discovery\<close>, \<open>Settings\<close>, \<open>Pairing\<close> (\<open>lib.rs\<close>): the settings
      with their normalisers and merges, shortcuts, the discovery table and presence, the settings commands
      and the file, pairing and trust. \<open>Shortcut_Rules\<close>, \<open>Peer_Rules\<close>, \<open>Settings_Rules\<close> and
      \<open>Pairing_Safety\<close> prove what they promise.
    \<^item> \<open>Input_Hotkeys\<close>, \<open>Hotkey_Rules\<close>, \<open>Screen_Edges\<close>, \<open>Edge_Rules\<close> (\<open>input.rs\<close>): the hotkeys as the hook
      reads them, and the geometry of neighbouring screens, crossing, roaming and return.
    \<^item> \<open>Windows_Capture\<close>, \<open>Windows_Hooks\<close> (\<open>input.rs\<close>): the capture of Windows, the real provider of the
      capture and focus ports, and the thread that runs its hooks and handlers around the client.
      Handlers run one after the other on one capture thread; the writes of other threads (the layout, the
      cells, and \<open>stop_input\<close>, which clears the shared flag and tells the thread to end) are steps between
      them. \<open>Capture_Tracking\<close> states the contract of a port that follows its router, \<open>Windows_Safety\<close> interprets
      it, \<open>Windows_Thread\<close> and \<open>Windows_Rules\<close> carry it through every handler, \<open>Windows_Faults\<close> holds what
      goes wrong.
    \<^item> \<open>Native_Injector\<close> (\<open>input.rs\<close>), \<open>Windows_Injector\<close> (\<open>windows_input.rs\<close>): the injectors of macOS and
      Windows behind the receiver's injector port, and the record of held inputs of the privileged helper.
      \<open>Injector_Invariant\<close> states as a locale what the receiver keeps of an injector's own state;
      \<open>Injector_Rules\<close> interprets it on the modifier flags of macOS, \<open>Injector_Behaviour\<close> has the key tables,
      click counts, pointer scale and the helper's release.

  \<^bold>\<open>What the lemmas show.\<close> State components have an invariant that every operation keeps, proved by
  rule induction over a step relation with all operations: \<open>Handoff\<close> (remote only when the peer
  acknowledged the commit of the current request), \<open>Session_Link\<close> (both ends agree on an active session),
  \<open>Controller_Safety\<close> (router and handshake agree), \<open>Receiver_Properties\<close> (the ledger is what the system
  holds; a lost session holds nothing), \<open>Clipboard_Network\<close> (peers that saw the same operations hold the
  same content), \<open>Transport_Budget\<close> (memory is bounded), \<open>Pairing_Safety\<close> (every trusted controller
  confirmed a code; five guesses at most), \<open>Peer_Rules\<close> (a bounded table), \<open>Windows_Rules\<close> (the capture holds
  the pointer, a window or a key only while a peer is in control, and gives them back), \<open>Injector_Rules\<close> (no modifier flag stays set on macOS). The codecs round-trip, the
  decoders do not depend on how a stream is cut and always return. Error paths are branches of the model:
  a failure of the transport or of the injector ends the session locally, a refused change of hotkeys is
  undone as far as the system accepts the calls that undo it.

  \<^bold>\<open>Parameters.\<close> Code outside the repository is an argument: the MessagePack and JSON codecs (with their
  round trip as a hypothesis where a theorem needs it), SHA-256, base64, the random generator, clocks (a
  number of milliseconds), the outcome of a file write, the shortcut plugin, the clipboard of the
  platform, and the calls of macOS and Windows that the injectors and the capture make. The ports of the capture share one state, the
  context of its thread. Pointer positions, doubles in the code, are rationals. \<open>usize\<close> and the counters of the budgets are those of a 64-bit
  machine. No definition needs fuel: loops are structural recursion or have a termination proof, and the
  decoder's loop is a partial function whose result is proved to exist.

  \<^bold>\<open>Behaviours worth knowing\<close>, each with a lemma: \<open>stray_ack_closes_only_connection\<close>
  (\<open>Client_Safety\<close>), \<open>unmatched_revision_sends\<close> and \<open>saturated_clock_stays\<close> (\<open>Clipboard_Handler\<close>),
  \<open>letter_f_needs_no_modifier\<close> (\<open>Shortcut_Rules\<close>), \<open>untrimmed_identity_duplicates\<close> and
  \<open>stale_snapshot_undoes_reset\<close> (\<open>Pairing_Safety\<close>), \<open>edge_crossing_never_returns\<close>,
  \<open>return_hotkey_works_once\<close> and \<open>fine_wheel_turn_goes_local\<close> (\<open>Windows_Faults\<close>), \<open>second_shift_clears_flag\<close> (\<open>Injector_Rules\<close>),
  \<open>helper_releases\<close> (\<open>Injector_Behaviour\<close>).

  \<^bold>\<open>Not modelled.\<close> Poisoned locks other than those that change a result; QUIC, TLS, sockets and the
  asynchronous runtime, so connection set-up and caching; the calls into the operating systems that
  read the clipboard or detect screens; the capture of macOS, which has no V2 controller, and the
  branches of the Windows capture without one; a panic inside a hook; Tauri commands, windows, threads and the tray; the
  file transfer and the legacy data paths, which \<open>fork_policy.rs\<close> disables; the clipboard loop they used;
  performance samples; the service and pipe of the privileged helper; the user interface in TypeScript; tests.
\<close>

end
